(* ===== verification/Prelude.thy ===== *)
theory Prelude
  imports Complex_Main "HOL-Library.Char_ord" "HOL-Library.AList"
begin

text \<open>
  What every component shares: the exceptions of the program as an error type and the
  result type built on it, Python dictionaries as association lists in insertion order,
  and the string operations the source calls, on strings of code points below 256.
\<close>

named_theorems gateway_defs \<open>definitions of the gateway's small helpers\<close>
named_theorems str_simps \<open>facts on Python string operations\<close>
named_theorems dict_simps \<open>facts on Python dictionaries\<close>

section \<open>Exceptions as values\<close>

text \<open>
  One constructor per exception class that a modelled line raises or catches.
  \<open>AuthenticationError\<close> (a subclass of \<open>ValueError\<close>) and \<open>BackendAdapterError\<close> are the
  program's own; \<open>HttpxError\<close>, \<open>RedisError\<close> and \<open>OSError\<close> are the failures of calls that
  leave the process.
\<close>

datatype py_error =
    ValueError string
  | TypeError string
  | KeyError string
  | IndexError string
  | OverflowError string
  | ZeroDivisionError string
  | RuntimeError string
  | AssertionError
  | AuthenticationError string
  | BackendAdapterError string
  | HttpxError string
  | RedisError string
  | OSError string

type_synonym 'a result = "py_error + 'a"

definition bind_result :: "'a result \<Rightarrow> ('a \<Rightarrow> 'b result) \<Rightarrow> 'b result" where
  "bind_result r f = (case r of Inl e \<Rightarrow> Inl e | Inr x \<Rightarrow> f x)"

lemma bind_result_simps [simp]:
  "bind_result (Inl e) f = Inl e" "bind_result (Inr x) f = f x"
  by (simp_all add: bind_result_def)

lemma bind_result_eq_Inr [simp]:
  "bind_result r f = Inr y \<longleftrightarrow> (\<exists>x. r = Inr x \<and> f x = Inr y)"
  by (cases r) auto

lemma bind_result_eq_Inl:
  "bind_result r f = Inl e \<longleftrightarrow> r = Inl e \<or> (\<exists>x. r = Inr x \<and> f x = Inl e)"
  by (cases r) auto

definition check :: "bool \<Rightarrow> py_error \<Rightarrow> unit result" where
  \<comment> \<open>\<^verbatim>\<open>if not condition: raise error\<close>\<close>
  "check condition e = (if condition then Inr () else Inl e)"

lemma check_simps [simp]:
  "check True e = Inr ()" "check False e = Inl e"
  "check c e = Inr u \<longleftrightarrow> c" "check c e = Inl e' \<longleftrightarrow> \<not> c \<and> e' = e"
  by (auto simp: check_def)

lemma bind_check [simp]:
  "bind_result (check c e) f = Inr y \<longleftrightarrow> c \<and> f () = Inr y"
  by (cases c) simp_all

fun map_result :: "('a \<Rightarrow> 'b result) \<Rightarrow> 'a list \<Rightarrow> 'b list result" where
  \<comment> \<open>a list comprehension whose element expression may raise\<close>
  "map_result f [] = Inr []"
| "map_result f (x # xs) =
     bind_result (f x) (\<lambda>y. bind_result (map_result f xs) (\<lambda>ys. Inr (y # ys)))"

lemma map_result_Inr_length: "map_result f xs = Inr ys \<Longrightarrow> length ys = length xs"
  by (induction xs arbitrary: ys) auto

lemma map_result_Inr_nth:
  "map_result f xs = Inr ys \<Longrightarrow> i < length xs \<Longrightarrow> f (xs ! i) = Inr (ys ! i)"
  by (induction xs arbitrary: ys i) (auto simp: nth_Cons split: nat.splits)

lemma map_result_total: "(\<And>x. x \<in> set xs \<Longrightarrow> f x = Inr (g x)) \<Longrightarrow> map_result f xs = Inr (map g xs)"
  by (induction xs) auto

lemma map_result_set:
  "map_result f xs = Inr ys \<Longrightarrow> y \<in> set ys \<Longrightarrow> \<exists>x \<in> set xs. f x = Inr y"
  by (induction xs arbitrary: ys) auto

section \<open>Dictionaries\<close>

text \<open>
  A Python dictionary keeps its keys in insertion order: an association list, looked up
  with \<open>map_of\<close> and written with \<open>AList.update\<close>, which overwrites in place and appends a
  new key at the end.
\<close>

type_synonym ('k, 'v) dict = "('k \<times> 'v) list"

definition dget :: "('k, 'v) dict \<Rightarrow> 'k \<Rightarrow> 'v option" where
  "dget d k = map_of d k"

definition dget_default :: "('k, 'v) dict \<Rightarrow> 'k \<Rightarrow> 'v \<Rightarrow> 'v" where
  "dget_default d k v = (case dget d k of None \<Rightarrow> v | Some x \<Rightarrow> x)"

definition dset :: "('k, 'v) dict \<Rightarrow> 'k \<Rightarrow> 'v \<Rightarrow> ('k, 'v) dict" where
  "dset d k v = AList.update k v d"

definition dkeys :: "('k, 'v) dict \<Rightarrow> 'k list" where
  "dkeys d = map fst d"

lemma dget_Nil [simp, dict_simps]: "dget [] k = None"
  by (simp add: dget_def)

lemma dget_Cons [simp, dict_simps]: "dget ((k', v) # d) k = (if k' = k then Some v else dget d k)"
  by (auto simp: dget_def)

lemma dget_dset [simp, dict_simps]: "dget (dset d k v) k' = (if k' = k then Some v else dget d k')"
  by (simp add: dget_def dset_def update_conv')

lemma dkeys_dset [dict_simps]: "dkeys (dset d k v) = (if k \<in> set (dkeys d) then dkeys d else dkeys d @ [k])"
  by (induction d) (auto simp: dset_def dkeys_def)

lemma distinct_dkeys_dset [intro]: "distinct (dkeys d) \<Longrightarrow> distinct (dkeys (dset d k v))"
  by (simp add: dkeys_dset)

lemma set_dkeys_dset [simp]: "set (dkeys (dset d k v)) = insert k (set (dkeys d))"
  by (auto simp: dkeys_dset)

lemma dget_None_iff: "dget d k = None \<longleftrightarrow> k \<notin> set (dkeys d)"
  by (auto simp: dget_def dkeys_def map_of_eq_None_iff)

lemma dget_in_set: "dget d k = Some v \<Longrightarrow> (k, v) \<in> set d"
  by (simp add: dget_def map_of_SomeD)

lemma dget_append: "dget (d @ e) k = (case dget d k of None \<Rightarrow> dget e k | Some v \<Rightarrow> Some v)"
  by (simp add: dget_def map_add_def split: option.splits)

end
