(* ===== verification/PyStr.thy ===== *)
theory PyStr
  imports Prelude
begin

text \<open>
  Python string methods on strings of code points below 256, the range of HTTP header
  values (decoded as Latin-1) and of HOL's \<open>char\<close>: whitespace and case mapping are
  Python's on that whole range, not only on ASCII.
\<close>

section \<open>Whitespace and case\<close>

definition py_isspace :: "char \<Rightarrow> bool" where
  "py_isspace c \<longleftrightarrow>
     (let n = (of_char c :: int) in
      9 \<le> n \<and> n \<le> 13 \<or> 28 \<le> n \<and> n \<le> 32 \<or> n = 133 \<or> n = 160)"

definition py_lstrip :: "string \<Rightarrow> string" where
  "py_lstrip s = dropWhile py_isspace s"

definition py_strip :: "string \<Rightarrow> string" where
  "py_strip s = rev (dropWhile py_isspace (rev (py_lstrip s)))"

definition py_rstrip_char :: "char \<Rightarrow> string \<Rightarrow> string" where
  "py_rstrip_char c s = rev (dropWhile (\<lambda>x. x = c) (rev s))"

definition lower_char :: "char \<Rightarrow> char" where
  "lower_char c =
     (let n = (of_char c :: int) in
      if 65 \<le> n \<and> n \<le> 90 \<or> 192 \<le> n \<and> n \<le> 222 \<and> n \<noteq> 215 then char_of (n + 32) else c)"

definition py_lower :: "string \<Rightarrow> string" where
  "py_lower s = map lower_char s"

lemma py_strip_eq_Nil_iff [str_simps]: "py_strip s = [] \<longleftrightarrow> (\<forall>c \<in> set s. py_isspace c)"
proof
  assume "py_strip s = []"
  then have "\<forall>c \<in> set (dropWhile py_isspace s). py_isspace c"
    by (auto simp: py_strip_def py_lstrip_def dropWhile_eq_Nil_conv)
  then have "dropWhile py_isspace s = []"
    by (metis hd_dropWhile hd_in_set)
  then show "\<forall>c \<in> set s. py_isspace c" by (simp add: dropWhile_eq_Nil_conv)
next
  assume "\<forall>c \<in> set s. py_isspace c"
  then have "dropWhile py_isspace s = []" by (simp add: dropWhile_eq_Nil_conv)
  then show "py_strip s = []" by (simp only: py_strip_def py_lstrip_def dropWhile.simps rev.simps)
qed

lemma py_strip_Nil [simp]: "py_strip [] = []"
  by (simp add: py_strip_def py_lstrip_def)

lemma py_strip_hd_last:
  "py_strip s \<noteq> [] \<Longrightarrow> \<not> py_isspace (hd (py_strip s)) \<and> \<not> py_isspace (last (py_strip s))"
proof -
  assume ne: "py_strip s \<noteq> []"
  let ?t = "dropWhile py_isspace s"
  have last: "\<not> py_isspace (hd (dropWhile py_isspace (rev ?t)))"
    using ne by (intro hd_dropWhile) (auto simp: py_strip_def py_lstrip_def)
  obtain ws where ws: "rev ?t = ws @ dropWhile py_isspace (rev ?t)"
    by (metis takeWhile_dropWhile_id)
  then have t: "?t = py_strip s @ rev ws"
    by (metis py_strip_def py_lstrip_def rev_append rev_rev_ident)
  then have "hd (py_strip s) = hd ?t" using ne by (metis hd_append)
  moreover have "\<not> py_isspace (hd ?t)"
    using t ne by (intro hd_dropWhile) auto
  ultimately show ?thesis
    using last ne by (simp add: py_strip_def py_lstrip_def last_rev)
qed

lemma dropWhile_hd: "xs \<noteq> [] \<Longrightarrow> \<not> P (hd xs) \<Longrightarrow> dropWhile P xs = xs"
  by (cases xs) auto

lemma py_strip_id:
  assumes "s = [] \<or> \<not> py_isspace (hd s) \<and> \<not> py_isspace (last s)"
  shows "py_strip s = s"
proof (cases "s = []")
  case False
  with assms have "dropWhile py_isspace s = s" by (simp add: dropWhile_hd)
  moreover from False assms have "dropWhile py_isspace (rev s) = rev s"
    by (simp add: dropWhile_hd hd_rev)
  ultimately show ?thesis by (simp add: py_strip_def py_lstrip_def)
qed simp

lemma py_strip_idem [simp]: "py_strip (py_strip s) = py_strip s"
  by (cases "py_strip s = []") (auto intro!: py_strip_id dest: py_strip_hd_last)

lemma set_dropWhile_subset: "set (dropWhile P xs) \<subseteq> set xs"
  using set_dropWhileD by fastforce

lemma set_py_strip: "set (py_strip s) \<subseteq> set s"
  unfolding py_strip_def py_lstrip_def
  using set_dropWhile_subset [of py_isspace s]
    set_dropWhile_subset [of py_isspace "rev (dropWhile py_isspace s)"] by auto

lemma length_py_strip: "length (py_strip s) \<le> length s"
  unfolding py_strip_def py_lstrip_def
  using length_dropWhile_le [of py_isspace s]
    length_dropWhile_le [of py_isspace "rev (dropWhile py_isspace s)"] by simp

lemma length_py_lower [simp]: "length (py_lower s) = length s"
  by (simp add: py_lower_def)

lemma py_lower_append [simp]: "py_lower (s @ t) = py_lower s @ py_lower t"
  by (simp add: py_lower_def)

lemma of_char_lower_char:
  "(of_char (lower_char c) :: int) =
     (let n = of_char c in
      if 65 \<le> n \<and> n \<le> 90 \<or> 192 \<le> n \<and> n \<le> 222 \<and> n \<noteq> 215 then n + 32 else n)"
  by (auto simp: lower_char_def Let_def)

lemma lower_char_idem [simp]: "lower_char (lower_char c) = lower_char c"
proof -
  have "(of_char (lower_char (lower_char c)) :: int) = of_char (lower_char c)"
    by (simp add: of_char_lower_char Let_def)
  then show ?thesis by simp
qed

lemma py_lower_idem [simp]: "py_lower (py_lower s) = py_lower s"
  by (simp add: py_lower_def)

section \<open>Splitting and joining\<close>

fun py_partition :: "char \<Rightarrow> string \<Rightarrow> string \<times> string \<times> string" where
  "py_partition sep [] = ([], [], [])"
| "py_partition sep (c # s) =
     (if c = sep then ([], [sep], s)
      else let (h, m, t) = py_partition sep s in (c # h, m, t))"

lemma py_partition_concat: "py_partition sep s = (h, m, t) \<Longrightarrow> s = h @ m @ t"
  by (induction s arbitrary: h) (auto split: if_splits prod.splits)

fun py_split :: "char \<Rightarrow> string \<Rightarrow> string list" where
  "py_split sep [] = [[]]"
| "py_split sep (c # s) =
     (if c = sep then [] # py_split sep s
      else case py_split sep s of [] \<Rightarrow> [[c]] | p # ps \<Rightarrow> (c # p) # ps)"

fun py_join :: "string \<Rightarrow> string list \<Rightarrow> string" where
  "py_join sep [] = []"
| "py_join sep [s] = s"
| "py_join sep (s # t # ss) = s @ sep @ py_join sep (t # ss)"

lemma py_split_nonempty [simp]: "py_split sep s \<noteq> []"
  by (induction s) (auto split: list.splits)

lemma py_join_split: "py_join [sep] (py_split sep s) = s"
proof (induction s)
  case (Cons c s)
  then show ?case
    by (cases "py_split sep s"; cases "tl (py_split sep s)") (auto split: list.splits)
qed simp

lemma py_split_no_sep: "p \<in> set (py_split sep s) \<Longrightarrow> sep \<notin> set p"
  by (induction s arbitrary: p) (auto split: list.splits if_splits)

lemma py_split_append:
  "sep \<notin> set p \<Longrightarrow> py_split sep (p @ sep # s) = p # py_split sep s"
  by (induction p) auto

lemma py_split_lines:
  assumes "\<forall>l \<in> set ls. c \<notin> set l"
  shows "py_split c (concat (map (\<lambda>l. l @ [c]) ls)) = ls @ [[]]"
  using assms by (induction ls) (simp_all add: py_split_append)

lemma py_split_id: "sep \<notin> set p \<Longrightarrow> py_split sep p = [p]"
  by (induction p) auto

function py_split_ws :: "string \<Rightarrow> string list" where
  "py_split_ws s =
     (let t = dropWhile py_isspace s in
      if t = [] then []
      else takeWhile (\<lambda>c. \<not> py_isspace c) t # py_split_ws (dropWhile (\<lambda>c. \<not> py_isspace c) t))"
  by pat_completeness auto
termination
proof (relation "measure length", goal_cases)
  case (2 s t)
  from 2(2) obtain c u where t: "t = c # u" by (cases t) simp_all
  with 2 have "\<not> py_isspace c" by (metis hd_dropWhile list.distinct(1) list.sel(1))
  with t have "length (dropWhile (\<lambda>c. \<not> py_isspace c) t) < length t"
    using length_dropWhile_le [of "\<lambda>c. \<not> py_isspace c" u] by simp
  moreover have "length t \<le> length s" using 2 length_dropWhile_le by blast
  ultimately show ?case by simp
qed simp

declare py_split_ws.simps [simp del]

lemma py_split_ws_unfold:
  "py_split_ws s =
     (if dropWhile py_isspace s = [] then []
      else takeWhile (\<lambda>c. \<not> py_isspace c) (dropWhile py_isspace s) #
        py_split_ws (dropWhile (\<lambda>c. \<not> py_isspace c) (dropWhile py_isspace s)))"
  by (subst py_split_ws.simps) (simp add: Let_def)

lemma py_split_ws_parts: "p \<in> set (py_split_ws s) \<Longrightarrow> p \<noteq> [] \<and> (\<forall>c \<in> set p. \<not> py_isspace c)"
proof (induction s rule: py_split_ws.induct)
  case (1 s)
  let ?t = "dropWhile py_isspace s"
  have ne: "?t \<noteq> []" using "1.prems" by (subst (asm) py_split_ws_unfold) (simp split: if_splits)
  then have "\<not> py_isspace (hd ?t)" by (rule hd_dropWhile)
  with ne have first: "takeWhile (\<lambda>c. \<not> py_isspace c) ?t \<noteq> []" by (cases ?t) simp_all
  from "1.prems" ne
  consider "p = takeWhile (\<lambda>c. \<not> py_isspace c) ?t"
    | "p \<in> set (py_split_ws (dropWhile (\<lambda>c. \<not> py_isspace c) ?t))"
    by (subst (asm) py_split_ws_unfold) (auto split: if_splits)
  then show ?case
  proof cases
    case 1
    then show ?thesis using first by (auto dest: set_takeWhileD)
  next
    case 2
    then show ?thesis by (rule "1.IH" [OF refl ne])
  qed
qed

definition py_replace_char :: "char \<Rightarrow> string \<Rightarrow> string \<Rightarrow> string" where
  "py_replace_char c r s = concat (map (\<lambda>x. if x = c then r else [x]) s)"

lemma py_replace_char_simps [simp]:
  "py_replace_char c r [] = []"
  "py_replace_char c r (x # s) = (if x = c then r else [x]) @ py_replace_char c r s"
  by (simp_all add: py_replace_char_def)

definition py_startswith :: "string \<Rightarrow> string \<Rightarrow> bool" where
  "py_startswith s p \<longleftrightarrow> take (length p) s = p"

definition py_endswith :: "string \<Rightarrow> string \<Rightarrow> bool" where
  "py_endswith s p \<longleftrightarrow> length p \<le> length s \<and> drop (length s - length p) s = p"

lemma py_endswith_iff: "py_endswith s p \<longleftrightarrow> (\<exists>t. s = t @ p)"
  by (auto simp: py_endswith_def) (metis append_take_drop_id)

fun py_contains :: "string \<Rightarrow> string \<Rightarrow> bool" where
  "py_contains [] p = (p = [])"
| "py_contains (c # s) p = (py_startswith (c # s) p \<or> py_contains s p)"

section \<open>Decimal and hexadecimal numerals\<close>

definition digit_char :: "int \<Rightarrow> char" where
  "digit_char d = char_of (48 + d)"

function nat_str :: "int \<Rightarrow> string" where
  "nat_str n = (if n < 10 then [digit_char n] else nat_str (n div 10) @ [digit_char (n mod 10)])"

  by pat_completeness auto
termination by (relation "measure nat") auto

declare nat_str.simps [simp del]

definition int_str :: "int \<Rightarrow> string" where
  "int_str i = (if i < 0 then ''-'' @ nat_str (- i) else nat_str i)"

definition is_digit :: "char \<Rightarrow> bool" where
  "is_digit c \<longleftrightarrow> (let n = (of_char c :: int) in 48 \<le> n \<and> n \<le> 57)"

definition digit_val :: "char \<Rightarrow> int" where
  "digit_val c = of_char c - 48"

fun digits_val :: "int \<Rightarrow> string \<Rightarrow> int" where
  "digits_val acc [] = acc"
| "digits_val acc (c # s) = digits_val (10 * acc + digit_val c) s"

lemma of_char_digit_char: "0 \<le> d \<Longrightarrow> d < 10 \<Longrightarrow> (of_char (digit_char d) :: int) = 48 + d"
  by (simp add: digit_char_def)

lemma is_digit_digit_char [simp]: "0 \<le> d \<Longrightarrow> d < 10 \<Longrightarrow> is_digit (digit_char d)"
  by (simp add: is_digit_def of_char_digit_char)

lemma digit_val_digit_char [simp]: "0 \<le> d \<Longrightarrow> d < 10 \<Longrightarrow> digit_val (digit_char d) = d"
  by (simp add: digit_val_def of_char_digit_char)

lemma digits_val_append: "digits_val acc (s @ t) = digits_val (digits_val acc s) t"
  by (induction s arbitrary: acc) auto

lemma nat_str_digits: "0 \<le> n \<Longrightarrow> c \<in> set (nat_str n) \<Longrightarrow> is_digit c"
proof (induction n rule: nat_str.induct)
  case (1 n)
  then show ?case by (subst (asm) (2) nat_str.simps) (auto split: if_splits)
qed

lemma nat_str_nonempty [simp]: "nat_str n \<noteq> []"
  by (subst nat_str.simps) simp

lemma digits_val_nat_str: "0 \<le> n \<Longrightarrow> digits_val 0 (nat_str n) = n"
proof (induction n rule: nat_str.induct)
  case (1 n)
  then show ?case by (subst nat_str.simps) (auto simp: digits_val_append)
qed

lemma nat_str_inj: "0 \<le> m \<Longrightarrow> 0 \<le> n \<Longrightarrow> nat_str m = nat_str n \<Longrightarrow> m = n"
  by (metis digits_val_nat_str)

lemma minus_notin_nat_str: "0 \<le> n \<Longrightarrow> CHR ''-'' \<notin> set (nat_str n)"
  using nat_str_digits [of n "CHR ''-''"] by (auto simp: is_digit_def)

lemma int_str_inj:
  assumes "int_str i = int_str j"
  shows "i = j"
proof -
  have hd: "0 \<le> n \<Longrightarrow> hd (nat_str n) \<noteq> CHR ''-''" for n
    using minus_notin_nat_str by (metis hd_in_set nat_str_nonempty)
  consider "i < 0" "j < 0" | "0 \<le> i" "0 \<le> j" | "i < 0" "0 \<le> j" | "0 \<le> i" "j < 0" by linarith
  then show ?thesis
  proof cases
    case 1
    with assms have "nat_str (- i) = nat_str (- j)" by (simp add: int_str_def)
    with 1 nat_str_inj [of "- i" "- j"] show ?thesis by simp
  next
    case 2
    with assms nat_str_inj [of i j] show ?thesis by (simp add: int_str_def)
  next
    case 3
    with assms have "nat_str j = CHR ''-'' # nat_str (- i)" by (simp add: int_str_def)
    then have "hd (nat_str j) = CHR ''-''" by simp
    with 3 hd show ?thesis by blast
  next
    case 4
    with assms have "hd (nat_str i) = CHR ''-''" by (simp add: int_str_def)
    with 4 hd show ?thesis by blast
  qed
qed

text \<open>
  \<^verbatim>\<open>int(text)\<close>: surrounding whitespace, one sign, decimal digits that single underscores
  may separate, at most 4300 of them (the interpreter's limit); \<open>None\<close> is the
  \<open>ValueError\<close>.
\<close>

fun underscores_ok :: "string \<Rightarrow> bool" where
  "underscores_ok [] = False"
| "underscores_ok [c] = is_digit c"
| "underscores_ok (c # d # s) =
     (is_digit c \<and> (if d = CHR ''_'' then underscores_ok s else underscores_ok (d # s)))"

definition py_int :: "string \<Rightarrow> int option" where
  "py_int text =
     (let s = py_strip text;
          neg = (s \<noteq> [] \<and> hd s = CHR ''-'');
          body = (if s \<noteq> [] \<and> (hd s = CHR ''-'' \<or> hd s = CHR ''+'') then tl s else s);
          digits = filter is_digit body
      in if underscores_ok body \<and> length digits \<le> 4300
         then Some (if neg then - digits_val 0 digits else digits_val 0 digits)
         else None)"

definition is_lower_hex :: "char \<Rightarrow> bool" where
  "is_lower_hex c \<longleftrightarrow> (let n = (of_char c :: int) in 48 \<le> n \<and> n \<le> 57 \<or> 97 \<le> n \<and> n \<le> 102)"

definition is_hex :: "char \<Rightarrow> bool" where
  "is_hex c \<longleftrightarrow> (let n = (of_char c :: int) in is_lower_hex c \<or> 65 \<le> n \<and> n \<le> 70)"

definition hex_digit_val :: "char \<Rightarrow> int" where
  "hex_digit_val c =
     (let n = (of_char c :: int) in
      if n \<le> 57 then n - 48 else if n \<le> 70 then n - 55 else n - 87)"

fun hex_val :: "int \<Rightarrow> string \<Rightarrow> int" where
  "hex_val acc [] = acc"
| "hex_val acc (c # s) = hex_val (16 * acc + hex_digit_val c) s"

lemma lower_char_hex: "is_hex c \<Longrightarrow> is_lower_hex (lower_char c)"
  by (auto simp: is_hex_def is_lower_hex_def of_char_lower_char Let_def)

lemma lower_char_lower_hex [simp]: "is_lower_hex c \<Longrightarrow> lower_char c = c"
proof -
  assume "is_lower_hex c"
  then have "(of_char (lower_char c) :: int) = of_char c"
    by (auto simp: is_lower_hex_def of_char_lower_char Let_def)
  then show ?thesis by simp
qed

lemma py_lower_lower_hex: "\<forall>c \<in> set s. is_lower_hex c \<Longrightarrow> py_lower s = s"
  by (induction s) (auto simp: py_lower_def)

lemma lower_hex_is_hex [simp]: "is_lower_hex c \<Longrightarrow> is_hex c"
  by (simp add: is_hex_def)

lemma lower_hex_not_space: "is_lower_hex c \<Longrightarrow> \<not> py_isspace c"
  by (auto simp: is_lower_hex_def py_isspace_def Let_def)

end
