(* ===== verification/PyNum.thy ===== *)
theory PyNum
  imports PyStr
begin

section \<open>Python numbers: unbounded integers and binary64 floats\<close>

subsection \<open>Rounding a rational to the nearest binary64 value\<close>

definition round_half_even :: "rat \<Rightarrow> int" where
  "round_half_even x =
     (let f = \<lfloor>x\<rfloor>; d = x - of_int f in
      if d < 1 / 2 then f
      else if 1 / 2 < d then f + 1
      else if even f then f else f + 1)"

lemma round_half_even_of_int [simp]: "round_half_even (of_int n) = n"
  by (simp add: round_half_even_def)

lemma round_half_even_floor: "\<lfloor>x\<rfloor> \<le> round_half_even x" "round_half_even x \<le> \<lfloor>x\<rfloor> + 1"
  by (auto simp: round_half_even_def Let_def)

lemma round_half_even_mono:
  assumes "x \<le> y"
  shows "round_half_even x \<le> round_half_even y"
proof (cases "\<lfloor>x\<rfloor> = \<lfloor>y\<rfloor>")
  case True
  with assms show ?thesis by (auto simp: round_half_even_def Let_def)
next
  case False
  with assms have "\<lfloor>x\<rfloor> + 1 \<le> \<lfloor>y\<rfloor>" using floor_mono [OF assms] by linarith
  then show ?thesis using round_half_even_floor [of x] round_half_even_floor [of y] by linarith
qed

lemma round_half_even_close: "\<bar>of_int (round_half_even x) - x\<bar> \<le> 1 / 2"
proof -
  have "of_int \<lfloor>x\<rfloor> \<le> x" "x < of_int \<lfloor>x\<rfloor> + 1" by linarith+
  then show ?thesis by (auto simp: round_half_even_def Let_def abs_le_iff)
qed

definition pow2 :: "int \<Rightarrow> rat" where
  "pow2 k = (if 0 \<le> k then 2 ^ nat k else 1 / 2 ^ nat (- k))"

lemma pow2_powi: "pow2 k = 2 powi k"
  by (simp add: pow2_def power_int_def power_one_over)

lemma pow2_0 [simp]: "pow2 0 = 1" and pow2_1 [simp]: "pow2 1 = 2"
  by (simp_all add: pow2_def)

lemma pow2_pos [simp]: "0 < pow2 k"
  by (simp add: pow2_def)

lemma pow2_nonzero [simp]: "pow2 k \<noteq> 0"
  by (metis pow2_pos less_irrefl)

lemma pow2_add: "pow2 (a + b) = pow2 a * pow2 b"
  by (simp add: pow2_powi power_int_add)

lemma pow2_mono: "a \<le> b \<Longrightarrow> pow2 a \<le> pow2 b"
  unfolding pow2_powi by (rule power_int_increasing) simp_all

lemma pow2_nat: "pow2 (int n) = 2 ^ n"
  by (simp add: pow2_def)

lemma pow2_diff: "pow2 (a - b) = pow2 a / pow2 b"
  by (simp add: pow2_powi power_int_diff)

function bit_count :: "int \<Rightarrow> int" where
  "bit_count n = (if n \<le> 0 then 0 else 1 + bit_count (n div 2))"
  by pat_completeness auto
termination by (relation "measure nat") auto

declare bit_count.simps [simp del]

lemma bit_count_nonneg: "0 \<le> bit_count n"
proof (induction n rule: bit_count.induct)
  case (1 n)
  then show ?case by (cases "n \<le> 0") (simp_all add: bit_count.simps [of n])
qed

lemma bit_count_bounds:
  "0 < n \<Longrightarrow> of_int n < pow2 (bit_count n) \<and> pow2 (bit_count n) \<le> 2 * of_int n"
proof (induction n rule: bit_count.induct)
  case (1 n)
  have bc: "bit_count n = 1 + bit_count (n div 2)" using "1.prems" by (simp add: bit_count.simps [of n])
  show ?case
  proof (cases "n = 1")
    case True
    then have "bit_count n = 1" by (simp add: bit_count.simps)
    with True show ?thesis by simp
  next
    case False
    then have pos: "0 < n div 2" using "1.prems" by linarith
    let ?h = "n div 2"
    have IH: "of_int ?h < pow2 (bit_count ?h)" "pow2 (bit_count ?h) \<le> 2 * of_int ?h"
      using "1.IH" "1.prems" pos by auto
    have "of_int ?h < (of_int (2 ^ nat (bit_count ?h)) :: rat)"
      using IH(1) by (simp add: pow2_def bit_count_nonneg)
    then have "?h + 1 \<le> 2 ^ nat (bit_count ?h)" by (simp only: of_int_less_iff)
    then have "n < 2 * 2 ^ nat (bit_count ?h)" by linarith
    then have "of_int n < (of_int (2 * 2 ^ nat (bit_count ?h)) :: rat)" by (simp only: of_int_less_iff)
    then have up: "of_int n < pow2 (bit_count n)"
      by (simp add: bc pow2_add) (simp add: pow2_def bit_count_nonneg)
    have "2 * ?h \<le> n" by linarith
    then have "(of_int (2 * ?h) :: rat) \<le> of_int n" by (simp only: of_int_le_iff)
    then have "pow2 (bit_count n) \<le> 2 * of_int n" using IH(2) by (simp add: bc pow2_add)
    with up show ?thesis by simp
  qed
qed

definition exponent :: "rat \<Rightarrow> int" where
  "exponent x =
     (let (p, q) = quotient_of \<bar>x\<bar>; e = bit_count p - bit_count q
      in if pow2 e \<le> \<bar>x\<bar> then e else e - 1)"

lemma exponent_bounds:
  assumes "x \<noteq> 0"
  shows "pow2 (exponent x) \<le> \<bar>x\<bar>" "\<bar>x\<bar> < pow2 (exponent x + 1)"
proof -
  obtain p q where pq: "quotient_of \<bar>x\<bar> = (p, q)" by (cases "quotient_of \<bar>x\<bar>")
  then have q: "0 < q" and x: "\<bar>x\<bar> = of_int p / of_int q"
    by (simp_all add: quotient_of_denom_pos quotient_of_div)
  have "0 < \<bar>x\<bar>" using assms by simp
  with x q have p: "0 < p" by (simp add: zero_less_divide_iff)
  let ?m = "bit_count p" and ?n = "bit_count q"
  define e where "e = ?m - ?n"
  have pe: "pow2 e = pow2 ?m / pow2 ?n" by (simp add: e_def pow2_diff)
  have up: "\<bar>x\<bar> < pow2 (e + 1)"
  proof -
    have "of_int p / of_int q < pow2 ?m / (of_int q::rat)"
      using bit_count_bounds [OF p] q by (simp add: divide_strict_right_mono)
    also have "\<dots> \<le> pow2 ?m / (pow2 ?n / 2)"
      using bit_count_bounds [OF q] q by (intro divide_left_mono) (auto simp: less_imp_le)
    finally show ?thesis using x pe by (simp add: pow2_add)
  qed
  have low: "pow2 (e - 1) \<le> \<bar>x\<bar>"
  proof -
    have "pow2 ?m / pow2 ?n / 2 \<le> of_int p / pow2 ?n"
      using bit_count_bounds [OF p] by (simp add: field_simps)
    also have "\<dots> \<le> of_int p / of_int q"
      using bit_count_bounds [OF q] p q by (intro divide_left_mono) auto
    finally show ?thesis using x pe by (simp add: pow2_diff)
  qed
  have ex: "exponent x = (if pow2 e \<le> \<bar>x\<bar> then e else e - 1)"
    by (simp add: exponent_def pq e_def Let_def)
  show "pow2 (exponent x) \<le> \<bar>x\<bar>" "\<bar>x\<bar> < pow2 (exponent x + 1)"
    using up low by (auto simp: ex)
qed

definition quantum :: "rat \<Rightarrow> int" where
  "quantum x = max (exponent x - 52) (- 1074)"

definition round64 :: "rat \<Rightarrow> rat" where
  "round64 x =
     (if x = 0 then 0
      else of_int (round_half_even (x / pow2 (quantum x))) * pow2 (quantum x))"

lemma exponent_mono:
  assumes "x \<noteq> 0" "\<bar>x\<bar> \<le> \<bar>y\<bar>"
  shows "exponent x \<le> exponent y"
proof (rule ccontr)
  assume "\<not> exponent x \<le> exponent y"
  then have "exponent y + 1 \<le> exponent x" by simp
  then have "pow2 (exponent y + 1) \<le> pow2 (exponent x)" by (rule pow2_mono)
  moreover have "y \<noteq> 0" using assms by auto
  ultimately show False
    using exponent_bounds [of x] exponent_bounds [of y] assms by linarith
qed

lemma quantum_mono: "x \<noteq> 0 \<Longrightarrow> \<bar>x\<bar> \<le> \<bar>y\<bar> \<Longrightarrow> quantum x \<le> quantum y"
  using exponent_mono [of x y] by (auto simp: quantum_def)

lemma pow2_int: "0 \<le> k \<Longrightarrow> pow2 k = of_int (2 ^ nat k)"
  by (simp add: pow2_def)

lemma round_half_even_nonneg: "0 \<le> x \<Longrightarrow> 0 \<le> round_half_even x"
  using round_half_even_mono [of 0 x] round_half_even_of_int [of 0] by simp

lemma round_half_even_uminus: "round_half_even (- x) = - round_half_even x"
proof (cases "x = of_int \<lfloor>x\<rfloor>")
  case True
  then show ?thesis
    by (metis round_half_even_of_int of_int_minus)
next
  case False
  then have "\<lfloor>- x\<rfloor> = - \<lfloor>x\<rfloor> - 1" by linarith
  then show ?thesis by (simp add: round_half_even_def Let_def)
qed

lemma exponent_uminus [simp]: "exponent (- x) = exponent x"
  by (simp add: exponent_def)

lemma round64_0 [simp]: "round64 0 = 0"
  by (simp add: round64_def)

lemma round64_uminus [simp]: "round64 (- x) = - round64 x"
  by (simp add: round64_def quantum_def round_half_even_uminus)

lemma round64_nonneg: "0 \<le> x \<Longrightarrow> 0 \<le> round64 x"
  by (simp add: round64_def zero_le_mult_iff round_half_even_nonneg less_imp_le)

text \<open>A value of a higher binade stays above the power of two that starts it.\<close>

lemma round64_ge_quantum_boundary:
  assumes "0 < y" and "pow2 k \<le> y" and "quantum y \<le> k"
  shows "pow2 k \<le> round64 y"
proof -
  have "pow2 k / pow2 (quantum y) = of_int (2 ^ nat (k - quantum y))"
    using assms(3) by (simp add: pow2_int flip: pow2_diff)
  moreover have "pow2 k / pow2 (quantum y) \<le> y / pow2 (quantum y)"
    using assms by (simp add: divide_right_mono less_imp_le)
  ultimately have "2 ^ nat (k - quantum y) \<le> round_half_even (y / pow2 (quantum y))"
    using round_half_even_mono [of "pow2 k / pow2 (quantum y)" "y / pow2 (quantum y)"]
    by (simp only: round_half_even_of_int)
  then have "pow2 k / pow2 (quantum y) \<le> of_int (round_half_even (y / pow2 (quantum y)))"
    using \<open>pow2 k / pow2 (quantum y) = _\<close> by (metis of_int_le_iff)
  then show ?thesis using assms by (simp add: round64_def field_simps)
qed

lemma round64_le_quantum_boundary:
  assumes "0 < x" and "x \<le> pow2 k" and "quantum x \<le> k"
  shows "round64 x \<le> pow2 k"
proof -
  have "pow2 k / pow2 (quantum x) = of_int (2 ^ nat (k - quantum x))"
    using assms(3) by (simp add: pow2_int flip: pow2_diff)
  moreover have "x / pow2 (quantum x) \<le> pow2 k / pow2 (quantum x)"
    using assms by (simp add: divide_right_mono less_imp_le)
  ultimately have "round_half_even (x / pow2 (quantum x)) \<le> 2 ^ nat (k - quantum x)"
    using round_half_even_mono [of "x / pow2 (quantum x)" "pow2 k / pow2 (quantum x)"]
    by (simp only: round_half_even_of_int)
  then have "of_int (round_half_even (x / pow2 (quantum x))) \<le> pow2 k / pow2 (quantum x)"
    using \<open>pow2 k / pow2 (quantum x) = _\<close> by (metis of_int_le_iff)
  then show ?thesis using assms by (simp add: round64_def field_simps)
qed

lemma round64_mono_pos:
  assumes "0 < x" "x \<le> y"
  shows "round64 x \<le> round64 y"
proof (cases "quantum x = quantum y")
  case True
  have "x / pow2 (quantum y) \<le> y / pow2 (quantum y)"
    using assms by (simp add: divide_right_mono less_imp_le)
  from round_half_even_mono [OF this] True assms show ?thesis
    by (simp add: round64_def mult_right_mono less_imp_le)
next
  case False
  with assms quantum_mono [of x y] have lt: "quantum x < quantum y" by simp
  then have ey: "exponent x < exponent y" by (auto simp: quantum_def max_def split: if_splits)
  have "x \<le> pow2 (exponent y)"
  proof -
    have "x < pow2 (exponent x + 1)" using exponent_bounds [of x] assms by simp
    also have "\<dots> \<le> pow2 (exponent y)" using ey by (intro pow2_mono) simp
    finally show ?thesis by simp
  qed
  moreover have "quantum x \<le> exponent y" using lt by (auto simp: quantum_def)
  moreover have "pow2 (exponent y) \<le> y" using exponent_bounds [of y] assms by simp
  moreover have "quantum y \<le> exponent y" using lt by (auto simp: quantum_def)
  ultimately show ?thesis
    using round64_le_quantum_boundary [of x "exponent y"]
      round64_ge_quantum_boundary [of y "exponent y"] assms by linarith
qed

theorem round64_mono:
  assumes "x \<le> y"
  shows "round64 x \<le> round64 y"
proof -
  consider "0 < x" | "x \<le> 0" "0 \<le> y" | "y < 0" by linarith
  then show ?thesis
  proof cases
    case 1
    then show ?thesis using assms by (rule round64_mono_pos)
  next
    case 2
    then show ?thesis using round64_nonneg [of "- x"] round64_nonneg [of y] by simp
  next
    case 3
    then show ?thesis using round64_mono_pos [of "- y" "- x"] assms by simp
  qed
qed

text \<open>Integers of at most 53 bits are binary64 values.\<close>

lemma round64_exact:
  assumes "x = of_int m * pow2 k" and "quantum x \<le> k"
  shows "round64 x = x"
proof -
  have "x / pow2 (quantum x) = of_int (m * 2 ^ nat (k - quantum x))"
    using assms by (simp add: pow2_int flip: pow2_diff times_divide_eq_right)
  then have "of_int (round_half_even (x / pow2 (quantum x))) = x / pow2 (quantum x)"
    by (simp only: round_half_even_of_int)
  then show ?thesis by (simp add: round64_def)
qed

lemma exponent_le:
  assumes "x \<noteq> 0" "\<bar>x\<bar> < pow2 (e + 1)"
  shows "exponent x \<le> e"
proof (rule ccontr)
  assume "\<not> exponent x \<le> e"
  then have "pow2 (e + 1) \<le> pow2 (exponent x)" by (intro pow2_mono) simp
  then show False using exponent_bounds(1) [OF assms(1)] assms(2) by linarith
qed

lemma round64_of_int:
  assumes "\<bar>n\<bar> \<le> 2 ^ 53"
  shows "round64 (of_int n) = of_int n"
proof -
  consider "n = 0" | "\<bar>n\<bar> = 2 ^ 53" | "n \<noteq> 0" "\<bar>n\<bar> < 2 ^ 53" using assms by linarith
  then show ?thesis
  proof cases
    case 2
    then have n: "n = sgn n * 2 ^ 53" by (metis sgn_mult_abs)
    have "exponent (of_int n) \<le> 53"
      using 2 by (intro exponent_le) (auto simp: pow2_def simp flip: of_int_abs)
    then have "quantum (of_int n) \<le> 53" by (simp add: quantum_def)
    then show ?thesis using n
      by (intro round64_exact [of _ "sgn n" 53]) (simp_all add: pow2_def)
  next
    case 3
    then have "\<bar>rat_of_int n\<bar> < 2 ^ 53"
      by (metis of_int_abs of_int_less_iff of_int_numeral of_int_power)
    then have "exponent (of_int n) \<le> 52"
      using 3 by (intro exponent_le) (auto simp: pow2_def)
    then have "quantum (of_int n) \<le> 0" by (simp add: quantum_def)
    then show ?thesis by (intro round64_exact [of _ n 0]) simp_all
  qed simp
qed


section \<open>Floats\<close>

text \<open>
  The values of a Python float: a finite binary64 value, the infinities and NaN. The two
  zeros are one value here: they compare equal and no modelled line tells them apart.
\<close>

datatype pyfloat = Fin rat | PosInf | NegInf | NaN

definition to_f64 :: "rat \<Rightarrow> pyfloat" where
  "to_f64 x =
     (let r = round64 x in
      if r \<noteq> 0 \<and> 1024 \<le> exponent r then (if 0 < r then PosInf else NegInf) else Fin r)"

fun fneg :: "pyfloat \<Rightarrow> pyfloat" where
  "fneg (Fin a) = Fin (- a)" | "fneg PosInf = NegInf" | "fneg NegInf = PosInf" | "fneg NaN = NaN"

fun fadd :: "pyfloat \<Rightarrow> pyfloat \<Rightarrow> pyfloat" where
  "fadd (Fin a) (Fin b) = to_f64 (a + b)"
| "fadd NaN b = NaN"
| "fadd a NaN = NaN"
| "fadd PosInf NegInf = NaN"
| "fadd NegInf PosInf = NaN"
| "fadd PosInf b = PosInf"
| "fadd NegInf b = NegInf"
| "fadd a PosInf = PosInf"
| "fadd a NegInf = NegInf"

definition fsub :: "pyfloat \<Rightarrow> pyfloat \<Rightarrow> pyfloat" where
  "fsub a b = fadd a (fneg b)"

definition signed_inf :: "rat \<Rightarrow> pyfloat" where
  "signed_inf s = (if s = 0 then NaN else if 0 < s then PosInf else NegInf)"

fun fsign :: "pyfloat \<Rightarrow> rat" where
  "fsign (Fin a) = sgn a" | "fsign PosInf = 1" | "fsign NegInf = - 1" | "fsign NaN = 0"

fun fmul :: "pyfloat \<Rightarrow> pyfloat \<Rightarrow> pyfloat" where
  "fmul (Fin a) (Fin b) = to_f64 (a * b)"
| "fmul NaN b = NaN"
| "fmul a NaN = NaN"
| "fmul a b = signed_inf (fsign a * fsign b)"

fun fdiv :: "pyfloat \<Rightarrow> pyfloat \<Rightarrow> pyfloat result" where
  "fdiv a (Fin b) =
     (if b = 0 then Inl (ZeroDivisionError ''float division by zero'')
      else case a of
          Fin x \<Rightarrow> Inr (to_f64 (x / b))
        | NaN \<Rightarrow> Inr NaN
        | _ \<Rightarrow> Inr (signed_inf (fsign a * sgn b)))"
| "fdiv a NaN = Inr NaN"
| "fdiv (Fin x) b = Inr (Fin 0)"
| "fdiv a b = Inr NaN"

fun flt :: "pyfloat \<Rightarrow> pyfloat \<Rightarrow> bool" where
  "flt (Fin a) (Fin b) = (a < b)"
| "flt NaN b = False"
| "flt a NaN = False"
| "flt PosInf b = False"
| "flt a NegInf = False"
| "flt NegInf b = True"
| "flt a PosInf = True"

fun fle :: "pyfloat \<Rightarrow> pyfloat \<Rightarrow> bool" where
  "fle (Fin a) (Fin b) = (a \<le> b)"
| "fle NaN b = False"
| "fle a NaN = False"
| "fle NegInf b = True"
| "fle a PosInf = True"
| "fle PosInf b = False"
| "fle a NegInf = False"

definition feq :: "pyfloat \<Rightarrow> pyfloat \<Rightarrow> bool" where
  "feq a b \<longleftrightarrow> a \<noteq> NaN \<and> a = b"

definition finite_float :: "pyfloat \<Rightarrow> bool" where
  "finite_float a \<longleftrightarrow> (\<exists>r. a = Fin r)"

lemma finite_float_cases [code]: "finite_float f \<longleftrightarrow> (case f of Fin r \<Rightarrow> True | _ \<Rightarrow> False)"
  by (cases f) (simp_all add: finite_float_def)

lemma flt_iff_not_fle: "a \<noteq> NaN \<Longrightarrow> b \<noteq> NaN \<Longrightarrow> flt a b \<longleftrightarrow> \<not> fle b a"
  by (cases a; cases b) auto

lemma fle_trans: "fle a b \<Longrightarrow> fle b c \<Longrightarrow> fle a c"
  by (cases a; cases b; cases c) auto

lemma fle_refl: "a \<noteq> NaN \<Longrightarrow> fle a a"
  by (cases a) auto

lemma NaN_compare [simp]: "\<not> flt NaN b" "\<not> flt a NaN" "\<not> fle NaN b" "\<not> fle a NaN"
  by (cases a; cases b; simp)+

lemma to_f64_mono: "x \<le> y \<Longrightarrow> fle (to_f64 x) (to_f64 y)"
proof -
  assume "x \<le> y"
  then have le: "round64 x \<le> round64 y" by (rule round64_mono)
  have "0 < round64 x \<Longrightarrow> exponent (round64 x) \<le> exponent (round64 y)"
    using le by (intro exponent_mono) auto
  moreover have "round64 y < 0 \<Longrightarrow> exponent (round64 y) \<le> exponent (round64 x)"
    using le by (intro exponent_mono) auto
  ultimately show ?thesis using le
    by (auto simp: to_f64_def Let_def split: if_splits)
qed

lemma to_f64_of_int: "\<bar>n\<bar> \<le> 2 ^ 53 \<Longrightarrow> to_f64 (of_int n) = Fin (of_int n)"
proof -
  assume n: "\<bar>n\<bar> \<le> 2 ^ 53"
  then have "\<bar>rat_of_int n\<bar> \<le> 2 ^ 53"
    by (metis of_int_abs of_int_le_iff of_int_numeral of_int_power)
  then have "n \<noteq> 0 \<Longrightarrow> exponent (of_int n) \<le> 53"
    by (intro exponent_le) (auto simp: pow2_def)
  with n show ?thesis by (auto simp: to_f64_def round64_of_int Let_def)
qed

lemma to_f64_not_NaN [simp]: "to_f64 x \<noteq> NaN"
  by (simp add: to_f64_def Let_def)

lemma fle_extremes [simp]: "fle a PosInf \<longleftrightarrow> a \<noteq> NaN" "fle NegInf a \<longleftrightarrow> a \<noteq> NaN"
  by (cases a; simp)+

lemma fsub_mono: "fle a b \<Longrightarrow> fle (fsub a (Fin c)) (fsub b (Fin c))"
  by (cases a; cases b) (auto simp: fsub_def intro: to_f64_mono)

section \<open>The numeric tower: int and float together\<close>

datatype pynum = NInt int | NFlt pyfloat

definition int_to_float :: "int \<Rightarrow> pyfloat result" where
  "int_to_float i =
     (case to_f64 (of_int i) of
        Fin r \<Rightarrow> Inr (Fin r)
      | _ \<Rightarrow> Inl (OverflowError ''int too large to convert to float''))"

fun num_to_float :: "pynum \<Rightarrow> pyfloat result" where
  "num_to_float (NInt i) = int_to_float i"
| "num_to_float (NFlt f) = Inr f"

text \<open>Comparisons of an int with a float are exact: no conversion rounds.\<close>

fun num_val :: "pynum \<Rightarrow> pyfloat" where
  "num_val (NInt i) = Fin (of_int i)"
| "num_val (NFlt f) = f"

definition num_lt :: "pynum \<Rightarrow> pynum \<Rightarrow> bool" where
  "num_lt a b \<longleftrightarrow> flt (num_val a) (num_val b)"

definition num_le :: "pynum \<Rightarrow> pynum \<Rightarrow> bool" where
  "num_le a b \<longleftrightarrow> fle (num_val a) (num_val b)"

definition num_eq :: "pynum \<Rightarrow> pynum \<Rightarrow> bool" where
  "num_eq a b \<longleftrightarrow> feq (num_val a) (num_val b)"

definition float_op :: "(pyfloat \<Rightarrow> pyfloat \<Rightarrow> pyfloat result) \<Rightarrow> pynum \<Rightarrow> pynum \<Rightarrow> pynum result" where
  "float_op f a b =
     bind_result (num_to_float a) (\<lambda>x. bind_result (num_to_float b) (\<lambda>y.
       bind_result (f x y) (\<lambda>z. Inr (NFlt z))))"

fun num_add :: "pynum \<Rightarrow> pynum \<Rightarrow> pynum result" where
  "num_add (NInt a) (NInt b) = Inr (NInt (a + b))"
| "num_add a b = float_op (\<lambda>x y. Inr (fadd x y)) a b"

fun num_sub :: "pynum \<Rightarrow> pynum \<Rightarrow> pynum result" where
  "num_sub (NInt a) (NInt b) = Inr (NInt (a - b))"
| "num_sub a b = float_op (\<lambda>x y. Inr (fsub x y)) a b"

fun num_mul :: "pynum \<Rightarrow> pynum \<Rightarrow> pynum result" where
  "num_mul (NInt a) (NInt b) = Inr (NInt (a * b))"
| "num_mul a b = float_op (\<lambda>x y. Inr (fmul x y)) a b"

text \<open>\<^verbatim>\<open>a / b\<close>: the quotient of two ints is the correctly rounded one.\<close>

fun num_div :: "pynum \<Rightarrow> pynum \<Rightarrow> pynum result" where
  "num_div (NInt a) (NInt b) =
     (if b = 0 then Inl (ZeroDivisionError ''division by zero'')
      else case to_f64 (of_int a / of_int b) of
          Fin r \<Rightarrow> Inr (NFlt (Fin r))
        | _ \<Rightarrow> Inl (OverflowError ''integer division result too large for a float''))"
| "num_div a b = float_op fdiv a b"

text \<open>\<^verbatim>\<open>max(a, b)\<close> keeps its first argument unless the second is greater.\<close>

definition num_max :: "pynum \<Rightarrow> pynum \<Rightarrow> pynum" where
  "num_max a b = (if num_lt a b then b else a)"

definition num_min :: "pynum \<Rightarrow> pynum \<Rightarrow> pynum" where
  "num_min a b = (if num_lt b a then b else a)"

text \<open>\<^verbatim>\<open>round(x, n)\<close>: the exact decimal rounding of the binary value, half to even.\<close>

fun fround :: "nat \<Rightarrow> pyfloat \<Rightarrow> pyfloat" where
  "fround n (Fin r) = to_f64 (of_int (round_half_even (r * 10 ^ n)) / 10 ^ n)"
| "fround n f = f"

fun num_round :: "nat \<Rightarrow> pynum \<Rightarrow> pynum" where
  "num_round n (NInt i) = NInt i"
| "num_round n (NFlt f) = NFlt (fround n f)"

lemma num_le_trans: "num_le a b \<Longrightarrow> num_le b c \<Longrightarrow> num_le a c"
  unfolding num_le_def by (rule fle_trans)

lemma int_to_float_small: "\<bar>i\<bar> \<le> 2 ^ 53 \<Longrightarrow> int_to_float i = Inr (Fin (of_int i))"
  by (simp add: int_to_float_def to_f64_of_int)

lemma int_to_float_not_NaN: "int_to_float i = Inr f \<Longrightarrow> \<exists>r. f = Fin r"
  by (cases "to_f64 (of_int i)") (auto simp: int_to_float_def)

lemma num_compare_NInt [simp]:
  "num_lt (NInt a) (NInt b) \<longleftrightarrow> a < b" "num_le (NInt a) (NInt b) \<longleftrightarrow> a \<le> b"
  by (simp_all add: num_lt_def num_le_def)

section \<open>Fixed-point formatting\<close>

fun pad_zeros :: "nat \<Rightarrow> string \<Rightarrow> string" where
  "pad_zeros n s = replicate (n - length s) (CHR ''0'') @ s"

text \<open>\<^verbatim>\<open>f"{x:.nf}"\<close>\<close>

fun fmt_fixed :: "nat \<Rightarrow> pyfloat \<Rightarrow> string" where
  "fmt_fixed n (Fin r) =
     (let m = round_half_even (\<bar>r\<bar> * 10 ^ n);
          whole = nat_str (m div 10 ^ n);
          frac = (if n = 0 then [] else CHR ''.'' # pad_zeros n (nat_str (m mod 10 ^ n)))
      in (if r < 0 then ''-'' else []) @ whole @ frac)"
| "fmt_fixed n PosInf = ''inf''"
| "fmt_fixed n NegInf = ''-inf''"
| "fmt_fixed n NaN = ''nan''"

section \<open>Reading a float\<close>

text \<open>
  \<^verbatim>\<open>float(text)\<close>: whitespace around, a sign, then \<open>inf\<close>, \<open>infinity\<close>, \<open>nan\<close> in any case or
  a decimal literal with an optional exponent; \<open>None\<close> is the \<open>ValueError\<close>.
\<close>

definition digit_group :: "string \<Rightarrow> bool" where
  "digit_group s \<longleftrightarrow> s = [] \<or> underscores_ok s"

definition strip_sign :: "string \<Rightarrow> bool \<times> string" where
  "strip_sign s =
     (if s \<noteq> [] \<and> hd s = CHR ''-'' then (True, tl s)
      else if s \<noteq> [] \<and> hd s = CHR ''+'' then (False, tl s) else (False, s))"

definition py_float :: "string \<Rightarrow> pyfloat option" where
  "py_float text =
     (let (neg, body) = strip_sign (py_lower (py_strip text)) in
      if body = ''inf'' \<or> body = ''infinity'' then Some (if neg then NegInf else PosInf)
      else if body = ''nan'' then Some NaN
      else
        let (mantissa, e_mark, e_text) = py_partition (CHR ''e'') body;
            (whole, dot, frac) = py_partition (CHR ''.'') mantissa;
            (e_neg, e_digits) = strip_sign e_text
        in if digit_group whole \<and> digit_group frac \<and> (whole \<noteq> [] \<or> frac \<noteq> []) \<and>
              (e_mark = [] \<or> underscores_ok e_digits)
           then
             let places = length (filter is_digit frac);
                 digits = digits_val 0 (filter is_digit (whole @ frac));
                 e = (if e_mark = [] then 0 else digits_val 0 (filter is_digit e_digits));
                 x = of_int digits / 10 ^ places * (if e_neg then 1 / 10 ^ nat e else 10 ^ nat e)
             in Some (to_f64 (if neg then - x else x))
           else None)"

end
