(* ===== verification/Models.thy ===== *)
theory Models
  imports PyNum
begin

text \<open>
  The data of the gateway: \<^verbatim>\<open>gateway/models.py\<close> as records, \<^verbatim>\<open>gateway/registry.py\<close> as the
  tables of demo principals and model policies, and the JSON-shaped values that claims,
  spans and reports are made of.
\<close>

section \<open>Dynamic values\<close>

text \<open>
  What \<^verbatim>\<open>json.loads\<close> returns and what the report builders put together: the values of a
  \<^verbatim>\<open>dict[str, Any]\<close>. A Python \<open>bool\<close> is an \<open>int\<close> as well; \<open>VBool\<close> keeps it apart, and each
  \<^verbatim>\<open>isinstance\<close> test of the source says which of the two it accepts.
\<close>

datatype pyval =
    VNone
  | VBool bool
  | VNum pynum
  | VStr string
  | VList "pyval list"
  | VDict "(string \<times> pyval) list"

abbreviation VInt :: "int \<Rightarrow> pyval" where
  "VInt i \<equiv> VNum (NInt i)"

abbreviation VFloat :: "pyfloat \<Rightarrow> pyval" where
  "VFloat f \<equiv> VNum (NFlt f)"

definition opt_str :: "string option \<Rightarrow> pyval" where
  "opt_str s = (case s of None \<Rightarrow> VNone | Some x \<Rightarrow> VStr x)"

definition opt_int :: "int option \<Rightarrow> pyval" where
  "opt_int i = (case i of None \<Rightarrow> VNone | Some x \<Rightarrow> VInt x)"

definition opt_float :: "pyfloat option \<Rightarrow> pyval" where
  "opt_float f = (case f of None \<Rightarrow> VNone | Some x \<Rightarrow> VFloat x)"

definition opt_num :: "pynum option \<Rightarrow> pyval" where
  "opt_num f = (case f of None \<Rightarrow> VNone | Some x \<Rightarrow> VNum x)"

fun truthy :: "pyval \<Rightarrow> bool" where
  "truthy VNone = False"
| "truthy (VBool b) = b"
| "truthy (VNum n) = (\<not> num_eq n (NInt 0))"
| "truthy (VStr s) = (s \<noteq> [])"
| "truthy (VList xs) = (xs \<noteq> [])"
| "truthy (VDict d) = (d \<noteq> [])"

definition truthy_str :: "string option \<Rightarrow> bool" where
  "truthy_str s \<longleftrightarrow> (case s of None \<Rightarrow> False | Some x \<Rightarrow> x \<noteq> [])"

lemma truthy_str_simps [simp]: "\<not> truthy_str None" "truthy_str (Some x) \<longleftrightarrow> x \<noteq> []"
  by (simp_all add: truthy_str_def)

section \<open>Records of the gateway\<close>

record principal =
  p_principal_id :: string
  p_display_name :: string
  roles :: "string set"

record model_policy =
  mp_model_id :: string
  mp_description :: string
  allowed_roles :: "string set"
  requests_per_minute :: int
  input_tokens_per_minute :: int
  requires_reason :: bool
  sensitivity :: string

record policy_decision =
  pd_allowed :: bool
  pd_reasons :: "string list"

record audit_event =
  ae_principal_id :: string
  ae_model_id :: string
  ae_allowed :: bool
  ae_reason :: "string option"
  ae_decision_reasons :: "string list"
  ae_latency_ms :: "pynum option"
  ae_auth_method :: string
  ae_auth_subject :: "string option"
  ae_auth_issuer :: "string option"
  ae_trace_id :: string
  ae_span_id :: string
  ae_parent_span_id :: "string option"
  ae_estimated_input_tokens :: "int option"
  ae_token_budget_limit :: "int option"

section \<open>Environment variables\<close>

type_synonym environ = "string \<Rightarrow> string option"

definition getenv :: "environ \<Rightarrow> string \<Rightarrow> string \<Rightarrow> string" where
  \<comment> \<open>\<^verbatim>\<open>os.getenv(name, default)\<close>\<close>
  "getenv env name dflt = (case env name of None \<Rightarrow> dflt | Some v \<Rightarrow> v)"

definition int_or_value_error :: "string \<Rightarrow> int result" where
  "int_or_value_error text =
     (case py_int text of
        None \<Rightarrow> Inl (ValueError ''invalid literal for int() with base 10'')
      | Some i \<Rightarrow> Inr i)"

text \<open>\<^verbatim>\<open>_empty_to_none\<close>, the same function in \<^verbatim>\<open>identity.py\<close> and in \<^verbatim>\<open>trace_exporter.py\<close>.\<close>

definition empty_to_none :: "string option \<Rightarrow> string option" where
  "empty_to_none value =
     (case value of
        None \<Rightarrow> None
      | Some v \<Rightarrow> if py_strip v = [] then None else Some (py_strip v))"

section \<open>The registry\<close>

definition positive_env_int :: "environ \<Rightarrow> string \<Rightarrow> int \<Rightarrow> int result" where
  "positive_env_int env name dflt =
     bind_result (int_or_value_error (getenv env name (int_str dflt))) (\<lambda>value.
       if value < 1 then Inl (ValueError (name @ '' must be positive'')) else Inr value)"

definition PRINCIPALS :: "(string, principal) dict" where
  "PRINCIPALS =
     [(''analyst-1'',
         \<lparr>p_principal_id = ''analyst-1'', p_display_name = ''Mission Analyst'',
          roles = {''analyst'', ''mission-user''}\<rparr>),
      (''security-1'',
         \<lparr>p_principal_id = ''security-1'', p_display_name = ''Security Engineer'',
          roles = {''security-engineer'', ''mission-user''}\<rparr>),
      (''admin-1'',
         \<lparr>p_principal_id = ''admin-1'', p_display_name = ''Platform Admin'',
          roles = {''platform-admin'', ''security-engineer''}\<rparr>)]"

text \<open>The two limits of \<^verbatim>\<open>benchmark-echo\<close> are read from the environment at import.\<close>

definition model_policies_of :: "int \<Rightarrow> int \<Rightarrow> (string, model_policy) dict" where
  "model_policies_of benchmark_requests benchmark_tokens =
     [(''mission-summarizer'',
         \<lparr>mp_model_id = ''mission-summarizer'',
          mp_description = ''Synthetic mission report summarization model'',
          allowed_roles = {''analyst'', ''mission-user'', ''platform-admin''},
          requests_per_minute = 30, input_tokens_per_minute = 8000,
          requires_reason = True, sensitivity = ''standard''\<rparr>),
      (''threat-triage'',
         \<lparr>mp_model_id = ''threat-triage'',
          mp_description = ''Synthetic security event triage model'',
          allowed_roles = {''security-engineer'', ''platform-admin''},
          requests_per_minute = 20, input_tokens_per_minute = 6000,
          requires_reason = True, sensitivity = ''restricted''\<rparr>),
      (''benchmark-echo'',
         \<lparr>mp_model_id = ''benchmark-echo'',
          mp_description = ''Low-risk model used for load and health checks'',
          allowed_roles = {''analyst'', ''security-engineer'', ''platform-admin''},
          requests_per_minute = benchmark_requests, input_tokens_per_minute = benchmark_tokens,
          requires_reason = False, sensitivity = ''low''\<rparr>)]"

definition MODEL_POLICIES :: "environ \<Rightarrow> (string, model_policy) dict result" where
  "MODEL_POLICIES env =
     bind_result (positive_env_int env ''BENCHMARK_REQUESTS_PER_MINUTE'' 120) (\<lambda>requests.
     bind_result (positive_env_int env ''BENCHMARK_INPUT_TOKENS_PER_MINUTE'' 20000) (\<lambda>tokens.
       Inr (model_policies_of requests tokens)))"

text \<open>
  What the rest of the gateway relies on: a policy is stored under its own model id, ids
  are distinct, and every limit is positive.
\<close>

definition policies_wf :: "(string, model_policy) dict \<Rightarrow> bool" where
  "policies_wf d \<longleftrightarrow>
     distinct (dkeys d) \<and>
     (\<forall>(k, p) \<in> set d. mp_model_id p = k \<and> 1 \<le> requests_per_minute p \<and>
        1 \<le> input_tokens_per_minute p)"

lemma policies_wf_dget:
  "policies_wf d \<Longrightarrow> dget d k = Some p \<Longrightarrow>
     mp_model_id p = k \<and> 1 \<le> requests_per_minute p \<and> 1 \<le> input_tokens_per_minute p"
  by (auto simp: policies_wf_def dest!: dget_in_set)

lemma positive_env_int_ge_1: "positive_env_int env name d = Inr v \<Longrightarrow> 1 \<le> v"
  by (auto simp: positive_env_int_def split: if_splits)

lemma policies_wf_of: "1 \<le> r \<Longrightarrow> 1 \<le> t \<Longrightarrow> policies_wf (model_policies_of r t)"
  by (simp add: policies_wf_def model_policies_of_def dkeys_def)

end
