(* ===== verification/Policy.thy ===== *)
theory Policy
  imports Models
begin

text \<open>
  The admission rules that need no state: \<^verbatim>\<open>gateway/token_budget.py\<close> and
  \<^verbatim>\<open>gateway/policy.py\<close>.
\<close>

section \<open>Estimated input tokens\<close>

text \<open>
  \<^verbatim>\<open>math.ceil(len(stripped) / 4)\<close> divides in binary64; the quotient overflows only past
  \<open>2 ^ 1024\<close> characters.
\<close>

definition estimate_input_tokens :: "string \<Rightarrow> int" where
  "estimate_input_tokens text =
     (let stripped = py_strip text in
      if stripped = [] then 1
      else max 1 \<lceil>round64 (of_int (int (length stripped)) / of_int 4)\<rceil>)"

lemma round64_quarter:
  assumes "0 \<le> n" "n < 2 ^ 53"
  shows "round64 (of_int n / of_int 4) = of_int n / of_int 4"
proof (cases "n = 0")
  case False
  have eq: "(of_int n / of_int 4 :: rat) = of_int n * pow2 (- 2)" by (simp add: pow2_def)
  have "(of_int n :: rat) < of_int (2 ^ 53)" using assms by (simp only: of_int_less_iff)
  then have "\<bar>of_int n / of_int 4 :: rat\<bar> < pow2 (50 + 1)"
    using assms by (simp add: pow2_def)
  then have "exponent (of_int n / of_int 4) \<le> 50" using False by (intro exponent_le) auto
  then have "quantum (of_int n / of_int 4) \<le> - 2" by (simp add: quantum_def)
  with eq show ?thesis by (rule round64_exact)
qed simp

lemma ceiling_quarter: "\<lceil>of_int n / of_int 4 :: rat\<rceil> = (n + 3) div 4"
  by linarith

lemma estimate_input_tokens_ge_1: "1 \<le> estimate_input_tokens text"
  by (simp add: estimate_input_tokens_def Let_def)

lemma estimate_input_tokens_ceil:
  assumes "int (length text) < 2 ^ 53"
  shows "estimate_input_tokens text = max 1 ((int (length (py_strip text)) + 3) div 4)"
proof -
  have "int (length (py_strip text)) < 2 ^ 53"
    using assms length_py_strip [of "text"] by linarith
  then show ?thesis
    by (simp only: estimate_input_tokens_def Let_def round64_quarter ceiling_quarter) auto
qed

theorem estimate_input_tokens_exact:
  assumes "int (length text) < 2 ^ 53"
  shows "estimate_input_tokens text = max 1 ((int (length (py_strip text)) + 3) div 4)"
  using assms by (rule estimate_input_tokens_ceil)

text \<open>The estimate grows with the stripped length, by one token per four characters.\<close>

theorem estimate_input_tokens_mono:
  assumes "length (py_strip s) \<le> length (py_strip t)"
  shows "estimate_input_tokens s \<le> estimate_input_tokens t"
proof (cases "py_strip s = []")
  case True
  then show ?thesis
    using estimate_input_tokens_ge_1 [of t] by (simp add: estimate_input_tokens_def Let_def)
next
  case False
  then have "py_strip t \<noteq> []" using assms by auto
  moreover have "round64 (of_int (int (length (py_strip s))) / of_int 4)
      \<le> round64 (of_int (int (length (py_strip t))) / of_int 4)"
    using assms by (intro round64_mono divide_right_mono) simp_all
  ultimately show ?thesis using False
    by (simp add: estimate_input_tokens_def Let_def ceiling_mono max.coboundedI2)
qed

section \<open>Role and reason\<close>

definition roles_disjoint :: "principal \<Rightarrow> model_policy \<Rightarrow> bool" where
  "roles_disjoint p m \<longleftrightarrow> roles p \<inter> allowed_roles m = {}"

definition reason_given :: "string option \<Rightarrow> bool" where
  \<comment> \<open>\<^verbatim>\<open>reason and reason.strip()\<close>\<close>
  "reason_given reason \<longleftrightarrow>
     (case reason of None \<Rightarrow> False | Some r \<Rightarrow> r \<noteq> [] \<and> py_strip r \<noteq> [])"

fun evaluate_policy ::
  "principal option \<Rightarrow> model_policy option \<Rightarrow> string option \<Rightarrow> policy_decision" where
  "evaluate_policy None model_policy reason =
     \<lparr>pd_allowed = False, pd_reasons = [''unknown principal'']\<rparr>"
| "evaluate_policy (Some p) None reason =
     \<lparr>pd_allowed = False, pd_reasons = [''unknown model'']\<rparr>"
| "evaluate_policy (Some p) (Some m) reason =
     (let reasons =
        (if roles_disjoint p m then [''principal lacks an allowed role for this model''] else []) @
        (if requires_reason m \<and> \<not> reason_given reason
         then [''reason is required for this model''] else [])
      in if reasons \<noteq> [] then \<lparr>pd_allowed = False, pd_reasons = reasons\<rparr>
         else \<lparr>pd_allowed = True, pd_reasons = [''policy allow'']\<rparr>)"

lemma reason_given_iff: "reason_given reason \<longleftrightarrow> (\<exists>r. reason = Some r \<and> py_strip r \<noteq> [])"
  by (auto simp: reason_given_def split: option.splits)

text \<open>
  C12: A request is allowed exactly when caller and model are known, they share a role, and a
  reason with a visible character is given where the model requires one.
\<close>

theorem evaluate_policy_allowed_iff:
  "pd_allowed (evaluate_policy p m reason) \<longleftrightarrow>
     (\<exists>q pol. p = Some q \<and> m = Some pol \<and> roles q \<inter> allowed_roles pol \<noteq> {} \<and>
        (requires_reason pol \<longrightarrow> (\<exists>r. reason = Some r \<and> (\<exists>c \<in> set r. \<not> py_isspace c))))"
  by (cases p; cases m)
    (auto simp: roles_disjoint_def reason_given_iff py_strip_eq_Nil_iff Let_def)

lemma evaluate_policy_reasons_nonempty: "pd_reasons (evaluate_policy p m reason) \<noteq> []"
  by (cases p; cases m) (simp_all add: Let_def)

lemma evaluate_policy_allow_reasons:
  "pd_allowed (evaluate_policy p m reason) \<Longrightarrow>
     pd_reasons (evaluate_policy p m reason) = [''policy allow'']"
  by (cases p; cases m) (auto simp: Let_def split: if_splits)

lemma evaluate_policy_known:
  "pd_allowed (evaluate_policy p m reason) \<Longrightarrow> p \<noteq> None \<and> m \<noteq> None"
  by (cases p; cases m) auto

text \<open>Every decision reason is one of five fixed strings: none is the caller's text.\<close>

definition POLICY_REASONS :: "string set" where
  "POLICY_REASONS =
     {''unknown principal'', ''unknown model'',
      ''principal lacks an allowed role for this model'',
      ''reason is required for this model'', ''policy allow''}"

lemma evaluate_policy_reasons_fixed:
  "set (pd_reasons (evaluate_policy p m reason)) \<subseteq> POLICY_REASONS"
  by (cases p; cases m) (auto simp: POLICY_REASONS_def Let_def)

text \<open>More roles or a reason never turn an allow into a denial.\<close>

theorem evaluate_policy_monotone:
  assumes "pd_allowed (evaluate_policy (Some p) m reason)"
    and "roles p \<subseteq> roles q"
    and "reason_given reason \<longrightarrow> reason_given reason'"
  shows "pd_allowed (evaluate_policy (Some q) m reason')"
  using assms by (cases m) (auto simp: roles_disjoint_def Let_def split: if_splits)

end
