(* ===== verification/RateLimit.thy ===== *)
theory RateLimit
  imports Models
begin

text \<open>
  \<^verbatim>\<open>gateway/rate_limit.py\<close>: the two in-memory fixed-window limiters, the Redis limiters with
  their Lua script, the choice between them at start-up, and the contract all of them
  keep, stated once as the locale \<open>budget_limiter\<close>.
\<close>

section \<open>The contract of a fixed-window limiter\<close>

text \<open>
  A call asks at time \<open>now\<close> whether \<open>principal\<close> may spend \<open>cost\<close> on \<open>model\<close> under \<open>limit\<close>.
\<close>

record call =
  c_now :: pyfloat
  c_principal :: string
  c_model :: string
  c_cost :: int
  c_limit :: int

type_synonym 's allow_fun =
  "'s \<Rightarrow> pyfloat \<Rightarrow> string \<Rightarrow> string \<Rightarrow> int \<Rightarrow> int \<Rightarrow> bool result \<times> 's"

definition do_call :: "'s allow_fun \<Rightarrow> 's \<Rightarrow> call \<Rightarrow> bool result \<times> 's" where
  "do_call allow s c = allow s (c_now c) (c_principal c) (c_model c) (c_cost c) (c_limit c)"

fun run_calls :: "'s allow_fun \<Rightarrow> 's \<Rightarrow> call list \<Rightarrow> bool result list \<times> 's" where
  "run_calls allow s [] = ([], s)"
| "run_calls allow s (c # cs) =
     (let (r, s') = do_call allow s c; (rs, s'') = run_calls allow s' cs in (r # rs, s''))"

text \<open>The cost admitted for one budget by a run.\<close>

fun admitted_cost :: "(string \<Rightarrow> string \<Rightarrow> 'k) \<Rightarrow> 'k \<Rightarrow> call list \<Rightarrow> bool result list \<Rightarrow> int" where
  "admitted_cost slot k (c # cs) (r # rs) =
     (if slot (c_principal c) (c_model c) = k \<and> r = Inr True then c_cost c else 0) +
     admitted_cost slot k cs rs"
| "admitted_cost slot k _ _ = 0"

text \<open>
  \<open>slot\<close> is the budget that a principal and a model share, \<open>spent s now k\<close> what the window
  that \<open>now\<close> falls in has charged to \<open>k\<close>, and \<open>same_window s k t now\<close> says that two times
  see the same window of \<open>k\<close>. The laws hold for the calls the gateway makes: a positive
  cost, and a limit of at least one.
\<close>

locale budget_limiter =
  fixes allow :: "'s allow_fun"
    and slot :: "string \<Rightarrow> string \<Rightarrow> 'k"
    and spent :: "'s \<Rightarrow> pyfloat \<Rightarrow> 'k \<Rightarrow> int"
    and same_window :: "'s \<Rightarrow> 'k \<Rightarrow> pyfloat \<Rightarrow> pyfloat \<Rightarrow> bool"
    and wf :: "'s \<Rightarrow> bool"
    and costs :: "int set"
  assumes decision: "wf s \<Longrightarrow> c \<in> costs \<Longrightarrow> 1 \<le> l \<Longrightarrow> allow s now p m c l = (Inr b, s') \<Longrightarrow>
      b \<longleftrightarrow> spent s now (slot p m) + c \<le> l"
    and denied: "wf s \<Longrightarrow> c \<in> costs \<Longrightarrow> 1 \<le> l \<Longrightarrow> allow s now p m c l = (Inr False, s') \<Longrightarrow> s' = s"
    and admitted: "wf s \<Longrightarrow> c \<in> costs \<Longrightarrow> 1 \<le> l \<Longrightarrow> allow s now p m c l = (Inr True, s') \<Longrightarrow>
      spent s' now (slot p m) = spent s now (slot p m) + c"
    and failed: "wf s \<Longrightarrow> c \<in> costs \<Longrightarrow> 1 \<le> l \<Longrightarrow> allow s now p m c l = (Inl e, s') \<Longrightarrow>
      s' = s \<or> spent s now (slot p m) + c \<le> l \<and>
        spent s' now (slot p m) = spent s now (slot p m) + c"
    and other_spent: "wf s \<Longrightarrow> allow s now p m c l = (r, s') \<Longrightarrow> k \<noteq> slot p m \<Longrightarrow>
      spent s' t k = spent s t k"
    and other_window: "wf s \<Longrightarrow> allow s now p m c l = (r, s') \<Longrightarrow> k \<noteq> slot p m \<Longrightarrow>
      same_window s' k = same_window s k"
    and same_spent: "wf s \<Longrightarrow> same_window s k t now \<Longrightarrow> spent s now k = spent s t k"
    and window_kept: "wf s \<Longrightarrow> allow s now p m c l = (r, s') \<Longrightarrow>
      same_window s (slot p m) t now \<Longrightarrow> same_window s' (slot p m) t now"
    and wf_allow: "wf s \<Longrightarrow> allow s now p m c l = (r, s') \<Longrightarrow> wf s'"
    and cost_pos: "c \<in> costs \<Longrightarrow> 1 \<le> c"
begin

text \<open>
  A run is steady for a budget when each of its calls to that budget falls in the window
  that \<open>t\<close> falls in, and asks under the same limit.
\<close>

fun steady :: "'s \<Rightarrow> pyfloat \<Rightarrow> 'k \<Rightarrow> int \<Rightarrow> call list \<Rightarrow> bool" where
  "steady s t k l [] = True"
| "steady s t k l (c # cs) =
     (c_cost c \<in> costs \<and> 1 \<le> c_limit c \<and>
      (slot (c_principal c) (c_model c) = k \<longrightarrow> same_window s k t (c_now c) \<and> c_limit c = l) \<and>
      steady (snd (do_call allow s c)) t k l cs)"

lemma own_step:
  assumes "wf s" "c \<in> costs" "1 \<le> l" "allow s now p m c l = (r, s')"
  shows "s' = s \<and> r \<noteq> Inr True \<or>
    spent s now (slot p m) + c \<le> l \<and> spent s' now (slot p m) = spent s now (slot p m) + c"
proof (cases r)
  case (Inl e)
  then show ?thesis using failed assms by blast
next
  case (Inr b)
  then show ?thesis
    using decision [OF assms(1-3)] denied [OF assms(1-3)] admitted [OF assms(1-3)] assms(4)
    by (cases b) auto
qed

lemma call_step:
  assumes "wf s" and "steady s t k l (c # cs)" and "do_call allow s c = (r, s')"
  shows "spent s t k + (if slot (c_principal c) (c_model c) = k \<and> r = Inr True then c_cost c else 0)
      \<le> spent s' t k \<and> (spent s t k \<le> l \<longrightarrow> spent s' t k \<le> l)"
proof (cases "slot (c_principal c) (c_model c) = k")
  case False
  then show ?thesis
    using other_spent [OF assms(1) assms(3) [unfolded do_call_def]] by simp
next
  case True
  note al = assms(3) [unfolded do_call_def]
  from True assms(2) have w: "same_window s k t (c_now c)" and l: "c_limit c = l"
    and c: "c_cost c \<in> costs" "1 \<le> c_limit c" by auto
  have w': "same_window s' k t (c_now c)" using window_kept [OF assms(1) al] True w by simp
  have wf': "wf s'" using wf_allow [OF assms(1) al] .
  from own_step [OF assms(1) c al] show ?thesis
    using same_spent [OF assms(1) w] same_spent [OF wf' w'] cost_pos [OF c(1)] True l by auto
qed

text \<open>
  Inside one window the admitted cost is covered by what the window has spent, and that
  never passes the limit, whatever other budgets do in between and whichever calls fail.
\<close>

lemma run_spent:
  assumes "wf s" and "steady s t k l cs" and "run_calls allow s cs = (rs, s')"
  shows "spent s t k + admitted_cost slot k cs rs \<le> spent s' t k"
  using assms
proof (induction cs arbitrary: s rs)
  case (Cons c cs)
  obtain r s1 where d: "do_call allow s c = (r, s1)" by fastforce
  obtain rs1 where run: "run_calls allow s1 cs = (rs1, s')" and rs: "rs = r # rs1"
    using Cons.prems(3) d by (auto split: prod.splits)
  have "wf s1" using wf_allow [OF Cons.prems(1)] d by (simp add: do_call_def)
  moreover have "steady s1 t k l cs" using Cons.prems(2) d by simp
  ultimately have "spent s1 t k + admitted_cost slot k cs rs1 \<le> spent s' t k"
    using run by (rule Cons.IH)
  then show ?case using call_step [OF Cons.prems(1,2) d] rs by (auto split: if_splits)
qed simp

lemma run_bounded:
  assumes "wf s" and "steady s t k l cs" and "run_calls allow s cs = (rs, s')"
    and "spent s t k \<le> l"
  shows "spent s' t k \<le> l"
  using assms
proof (induction cs arbitrary: s rs)
  case (Cons c cs)
  obtain r s1 where d: "do_call allow s c = (r, s1)" by fastforce
  obtain rs1 where run: "run_calls allow s1 cs = (rs1, s')"
    using Cons.prems(3) d by (auto split: prod.splits)
  have "wf s1" using wf_allow [OF Cons.prems(1)] d by (simp add: do_call_def)
  moreover have "steady s1 t k l cs" using Cons.prems(2) d by simp
  moreover have "spent s1 t k \<le> l" using call_step [OF Cons.prems(1,2) d] Cons.prems(4) by simp
  ultimately show ?case using run by (intro Cons.IH)
qed simp

lemma admitted_within_limit:
  assumes "wf s" and "steady s t k l cs" and "run_calls allow s cs = (rs, s')"
    and "spent s t k \<le> l"
  shows "spent s t k + admitted_cost slot k cs rs \<le> l"
  using run_spent [OF assms(1-3)] run_bounded [OF assms] by simp

end

section \<open>In-memory limiters\<close>

record window =
  started_at :: pyfloat
  window_count :: int

record memory_limiter =
  window_seconds :: int
  windows :: "string \<times> string \<rightharpoonup> window"

definition new_memory_limiter :: "int \<Rightarrow> memory_limiter" where
  "new_memory_limiter secs = \<lparr>window_seconds = secs, windows = Map.empty\<rparr>"

definition put_window :: "memory_limiter \<Rightarrow> string \<times> string \<Rightarrow> window \<Rightarrow> memory_limiter" where
  "put_window s key w = s\<lparr>windows := (windows s)(key \<mapsto> w)\<rparr>"

text \<open>\<^verbatim>\<open>window is None or now - window.started_at >= self.window_seconds\<close>\<close>

definition rolls_over :: "memory_limiter \<Rightarrow> pyfloat \<Rightarrow> window option \<Rightarrow> bool" where
  "rolls_over s now window =
     (case window of
        None \<Rightarrow> True
      | Some w \<Rightarrow> num_le (NInt (window_seconds s)) (NFlt (fsub now (started_at w))))"

definition count_of :: "window option \<Rightarrow> int" where
  "count_of window = (case window of None \<Rightarrow> 0 | Some w \<Rightarrow> window_count w)"

definition add_count :: "memory_limiter \<Rightarrow> string \<times> string \<Rightarrow> int \<Rightarrow> memory_limiter" where
  \<comment> \<open>\<^verbatim>\<open>window.count += cost\<close> on the window object stored under \<open>key\<close>\<close>
  "add_count s key cost =
     (case windows s key of
        None \<Rightarrow> s
      | Some w \<Rightarrow> put_window s key (w\<lparr>window_count := window_count w + cost\<rparr>))"

text \<open>\<^verbatim>\<open>FixedWindowRateLimiter.allow\<close>\<close>

definition rate_limiter_allow ::
  "memory_limiter \<Rightarrow> pyfloat \<Rightarrow> string \<Rightarrow> string \<Rightarrow> int \<Rightarrow> bool \<times> memory_limiter" where
  "rate_limiter_allow s now principal_id model_id limit =
     (let key = (principal_id, model_id); window = windows s key in
      if rolls_over s now window
      then (True, put_window s key \<lparr>started_at = now, window_count = 1\<rparr>)
      else if limit \<le> count_of window then (False, s)
      else (True, add_count s key 1))"

text \<open>\<^verbatim>\<open>FixedWindowTokenBudgetLimiter.allow\<close>\<close>

definition token_budget_allow :: "memory_limiter allow_fun" where
  "token_budget_allow s now principal_id model_id cost limit =
     (if cost < 1 then (Inl (ValueError ''token cost must be positive''), s)
      else if limit < 1 then (Inl (ValueError ''token limit must be positive''), s)
      else
        let key = (principal_id, model_id); window = windows s key in
        if rolls_over s now window
        then if limit < cost then (Inr False, s)
             else (Inr True, put_window s key \<lparr>started_at = now, window_count = cost\<rparr>)
        else if limit < count_of window + cost then (Inr False, s)
        else (Inr True, add_count s key cost))"

text \<open>The request limiter under the common calling convention: every call costs one.\<close>

definition rate_limiter_call :: "memory_limiter allow_fun" where
  "rate_limiter_call s now p m cost limit =
     (let (b, s') = rate_limiter_allow s now p m limit in (Inr b, s'))"

text \<open>
  What the limiters do to one budget: \<open>charge\<close> is the state after an admitted call.
\<close>

definition memory_spent :: "memory_limiter \<Rightarrow> pyfloat \<Rightarrow> string \<times> string \<Rightarrow> int" where
  "memory_spent s now key =
     (if rolls_over s now (windows s key) then 0 else count_of (windows s key))"

definition charge :: "memory_limiter \<Rightarrow> pyfloat \<Rightarrow> string \<times> string \<Rightarrow> int \<Rightarrow> memory_limiter" where
  "charge s now key cost =
     (if rolls_over s now (windows s key)
      then put_window s key \<lparr>started_at = now, window_count = cost\<rparr>
      else add_count s key cost)"

definition memory_same_window ::
  "memory_limiter \<Rightarrow> string \<times> string \<Rightarrow> pyfloat \<Rightarrow> pyfloat \<Rightarrow> bool" where
  "memory_same_window s key t now \<longleftrightarrow>
     t = now \<or> \<not> rolls_over s t (windows s key) \<and> \<not> rolls_over s now (windows s key)"

definition memory_wf :: "memory_limiter \<Rightarrow> bool" where
  "memory_wf s \<longleftrightarrow> 1 \<le> window_seconds s"

lemma token_budget_allow_eq:
  assumes "1 \<le> cost" "1 \<le> limit"
  shows "token_budget_allow s now p m cost limit =
    (if memory_spent s now (p, m) + cost \<le> limit
     then (Inr True, charge s now (p, m) cost) else (Inr False, s))"
  using assms by (simp add: token_budget_allow_def memory_spent_def charge_def Let_def)

lemma rate_limiter_allow_eq:
  assumes "1 \<le> limit"
  shows "rate_limiter_allow s now p m limit =
    (if memory_spent s now (p, m) + 1 \<le> limit
     then (True, charge s now (p, m) 1) else (False, s))"
  using assms by (auto simp: rate_limiter_allow_def memory_spent_def charge_def Let_def)

lemma windows_put_window [simp]:
  "windows (put_window s k w) = (windows s)(k \<mapsto> w)"
  "window_seconds (put_window s k w) = window_seconds s"
  by (simp_all add: put_window_def)

lemma windows_add_count [simp]:
  "k' \<noteq> k \<Longrightarrow> windows (add_count s k c) k' = windows s k'"
  "window_seconds (add_count s k c) = window_seconds s"
  "count_of (windows (add_count s k c) k) = count_of (windows s k) + (if windows s k = None then 0 else c)"
  by (auto simp: add_count_def count_of_def split: option.splits)

lemma rolls_over_add_count [simp]:
  "rolls_over (add_count s k c) t (windows (add_count s k c) k') = rolls_over s t (windows s k')"
  by (auto simp: add_count_def rolls_over_def split: option.splits)

lemma charge_frame [simp]:
  "window_seconds (charge s now k c) = window_seconds s"
  "k' \<noteq> k \<Longrightarrow> windows (charge s now k c) k' = windows s k'"
  by (simp_all add: charge_def)

lemma rolls_over_seconds: "window_seconds s' = window_seconds s \<Longrightarrow> rolls_over s' t w = rolls_over s t w"
  by (simp add: rolls_over_def split: option.splits)

lemma fsub_self: "fsub a a = Fin 0 \<or> fsub a a = NaN"
  by (cases a) (simp_all add: fsub_def to_f64_def)

lemma fresh_window_live:
  "1 \<le> window_seconds s \<Longrightarrow> \<not> rolls_over s now (Some \<lparr>started_at = now, window_count = c\<rparr>)"
  using fsub_self [of now] by (auto simp: rolls_over_def num_le_def)

lemma memory_spent_charge:
  assumes "memory_wf s"
  shows "memory_spent (charge s now k c) now k = memory_spent s now k + c"
proof (cases "rolls_over s now (windows s k)")
  case True
  have "\<not> rolls_over (charge s now k c) now (Some \<lparr>started_at = now, window_count = c\<rparr>)"
    using assms by (intro fresh_window_live) (simp add: memory_wf_def)
  then show ?thesis using True by (simp add: memory_spent_def charge_def count_of_def)
next
  case False
  then obtain w where "windows s k = Some w" by (cases "windows s k") (simp_all add: rolls_over_def)
  with False show ?thesis by (simp add: memory_spent_def charge_def)
qed

lemma memory_spent_other: "k' \<noteq> k \<Longrightarrow> memory_spent (charge s now k c) t k' = memory_spent s t k'"
  by (simp add: memory_spent_def rolls_over_seconds [of "charge s now k c" s])

lemma memory_same_window_other:
  "k' \<noteq> k \<Longrightarrow> memory_same_window (charge s now k c) k' = memory_same_window s k'"
  by (simp add: memory_same_window_def rolls_over_seconds [of "charge s now k c" s] fun_eq_iff)

lemma memory_same_window_charge:
  "memory_same_window s k t now \<Longrightarrow> memory_same_window (charge s now k c) k t now"
  by (auto simp: memory_same_window_def charge_def)

lemma memory_same_spent: "memory_same_window s k t now \<Longrightarrow> memory_spent s now k = memory_spent s t k"
  by (auto simp: memory_same_window_def memory_spent_def)

lemma token_budget_allow_cases:
  "token_budget_allow s now p m c l = (r, s') \<Longrightarrow> s' = s \<or> s' = charge s now (p, m) c"
  by (auto simp: token_budget_allow_def charge_def Let_def split: if_splits)

lemma rate_limiter_call_cases:
  "rate_limiter_call s now p m c l = (r, s') \<Longrightarrow> s' = s \<or> s' = charge s now (p, m) 1"
  by (auto simp: rate_limiter_call_def rate_limiter_allow_def charge_def Let_def split: if_splits)

lemmas memory_charge_facts =
  memory_spent_charge memory_spent_other memory_same_window_other memory_same_window_charge

interpretation token_limiter:
  budget_limiter token_budget_allow Pair memory_spent memory_same_window memory_wf "{c. 1 \<le> c}"
proof unfold_locales
  fix s and now :: pyfloat and p m :: string and c l :: int and r s'
  assume al: "token_budget_allow s now p m c l = (r, s')"
  show "memory_wf s \<Longrightarrow> memory_wf s'"
    using token_budget_allow_cases [OF al] by (auto simp: memory_wf_def)
  show "k \<noteq> (p, m) \<Longrightarrow> memory_spent s' t k = memory_spent s t k" for t k
    using token_budget_allow_cases [OF al] memory_spent_other by blast
  show "k \<noteq> (p, m) \<Longrightarrow> memory_same_window s' k = memory_same_window s k" for k
    using token_budget_allow_cases [OF al] memory_same_window_other by blast
  show "memory_same_window s (p, m) t now \<Longrightarrow> memory_same_window s' (p, m) t now" for t
    using token_budget_allow_cases [OF al] memory_same_window_charge by blast
qed (auto simp: token_budget_allow_eq memory_spent_charge memory_same_spent split: if_splits)

interpretation request_limiter:
  budget_limiter rate_limiter_call Pair memory_spent memory_same_window memory_wf "{1}"
proof unfold_locales
  fix s and now :: pyfloat and p m :: string and c l :: int and r s'
  assume al: "rate_limiter_call s now p m c l = (r, s')"
  show "memory_wf s \<Longrightarrow> memory_wf s'"
    using rate_limiter_call_cases [OF al] by (auto simp: memory_wf_def)
  show "k \<noteq> (p, m) \<Longrightarrow> memory_spent s' t k = memory_spent s t k" for t k
    using rate_limiter_call_cases [OF al] memory_spent_other by blast
  show "k \<noteq> (p, m) \<Longrightarrow> memory_same_window s' k = memory_same_window s k" for k
    using rate_limiter_call_cases [OF al] memory_same_window_other by blast
  show "memory_same_window s (p, m) t now \<Longrightarrow> memory_same_window s' (p, m) t now" for t
    using rate_limiter_call_cases [OF al] memory_same_window_charge by blast
qed (auto simp: rate_limiter_call_def rate_limiter_allow_eq memory_spent_charge memory_same_spent
      split: if_splits)

subsection \<open>What the contract gives for the in-memory limiters\<close>

text \<open>A denied call changes nothing; an admitted one stays within the limit.\<close>

theorem token_budget_allow_spec:
  assumes "1 \<le> cost" and "1 \<le> limit" and "1 \<le> window_seconds s"
    and "token_budget_allow s now p m cost limit = (r, s')"
  shows "r = Inr (memory_spent s now (p, m) + cost \<le> limit)"
    and "r = Inr False \<Longrightarrow> s' = s"
    and "r = Inr True \<Longrightarrow> memory_spent s' now (p, m) = memory_spent s now (p, m) + cost"
    and "k \<noteq> (p, m) \<Longrightarrow> windows s' k = windows s k"
  using assms memory_spent_charge [of s now "(p, m)" cost]
  by (auto simp: token_budget_allow_eq memory_wf_def split: if_splits)

lemma started_window_live:
  "1 \<le> window_seconds s \<Longrightarrow> \<not> rolls_over s (started_at w) (Some w)"
  using fsub_self [of "started_at w"] by (auto simp: rolls_over_def num_le_def)

lemma steady_memory:
  assumes "windows s k = Some w" and "1 \<le> window_seconds s"
    and "\<And>s now p m c l r s'. allow s now p m c l = (r, s') \<Longrightarrow>
      \<exists>c'. s' = charge s now (p, m) c' \<or> s' = s"
    and "\<forall>c \<in> set cs. c_cost c \<in> costs \<and> 1 \<le> c_limit c \<and>
      ((c_principal c, c_model c) = k \<longrightarrow> c_limit c = l \<and> \<not> rolls_over s (c_now c) (Some w))"
    and "budget_limiter allow Pair memory_spent memory_same_window memory_wf costs"
  shows "budget_limiter.steady allow Pair memory_same_window costs s (started_at w) k l cs"
  using assms(1,2,4)
proof (induction cs arbitrary: s w)
  case Nil
  show ?case using assms(5) by (simp add: budget_limiter.steady.simps)
next
  case (Cons c cs)
  obtain r s1 where d: "do_call allow s c = (r, s1)" by fastforce
  then have cases1: "\<exists>c'. s1 = charge s (c_now c) (c_principal c, c_model c) c' \<or> s1 = s"
    unfolding do_call_def by (rule assms(3))
  have secs: "window_seconds s1 = window_seconds s" using cases1 by auto
  have "\<exists>w1. windows s1 k = Some w1 \<and> started_at w1 = started_at w"
  proof (cases "s1 = s")
    case False
    with cases1 obtain c' where s1: "s1 = charge s (c_now c) (c_principal c, c_model c) c'" by blast
    show ?thesis
    proof (cases "(c_principal c, c_model c) = k")
      case True
      then have "\<not> rolls_over s (c_now c) (windows s k)" using Cons.prems by simp
      then show ?thesis using s1 True Cons.prems(1) by (auto simp: charge_def add_count_def)
    next
      case False
      then show ?thesis using s1 Cons.prems(1) by auto
    qed
  qed (use Cons.prems(1) in auto)
  then obtain w1 where w1: "windows s1 k = Some w1" "started_at w1 = started_at w" by blast
  have "rolls_over s1 t (Some w1) = rolls_over s t (Some w)" for t
    using w1(2) secs by (simp add: rolls_over_def)
  then have "budget_limiter.steady allow Pair memory_same_window costs s1 (started_at w1) k l cs"
    using Cons.prems secs by (intro Cons.IH [OF w1(1)]) auto
  moreover have "memory_same_window s k (started_at w) (c_now c)"
    if "(c_principal c, c_model c) = k"
    using that Cons.prems started_window_live [of s w] by (simp add: memory_same_window_def)
  ultimately show ?case using Cons.prems(3) d w1(2)
    by (simp add: budget_limiter.steady.simps [OF assms(5)])
qed

lemma spent_at_start:
  "1 \<le> window_seconds s \<Longrightarrow> windows s k = Some w \<Longrightarrow> memory_spent s (started_at w) k = window_count w"
  using started_window_live [of s w] by (simp add: memory_spent_def count_of_def)

text \<open>
  C11: However calls for different callers and models are interleaved, the tokens admitted to
  one budget of the in-memory limiter inside one live window, added to what the window had
  spent, never pass the limit.
\<close>

theorem token_budget_window_bound:
  assumes "1 \<le> window_seconds s" and "windows s k = Some w" and "window_count w \<le> l"
    and "\<forall>c \<in> set cs. 1 \<le> c_cost c \<and> 1 \<le> c_limit c \<and>
      ((c_principal c, c_model c) = k \<longrightarrow> c_limit c = l \<and> \<not> rolls_over s (c_now c) (Some w))"
    and "run_calls token_budget_allow s cs = (rs, s')"
  shows "window_count w + admitted_cost Pair k cs rs \<le> l"
proof -
  have "budget_limiter.steady token_budget_allow Pair memory_same_window {c. 1 \<le> c} s (started_at w) k l cs"
  proof (rule steady_memory [OF assms(2,1) _ _ token_limiter.budget_limiter_axioms])
    show "\<exists>c'. s' = charge s now (p, m) c' \<or> s' = s"
      if "token_budget_allow s now p m c l = (r, s')" for s now p m c l r s'
      using token_budget_allow_cases [OF that] by blast
  qed (use assms(4) in auto)
  from token_limiter.admitted_within_limit [OF _ this assms(5)] show ?thesis
    using assms(1-3) by (simp add: memory_wf_def spent_at_start)
qed

theorem rate_limiter_window_bound:
  assumes "1 \<le> window_seconds s" and "windows s k = Some w" and "window_count w \<le> l"
    and "\<forall>c \<in> set cs. c_cost c = 1 \<and> 1 \<le> c_limit c \<and>
      ((c_principal c, c_model c) = k \<longrightarrow> c_limit c = l \<and> \<not> rolls_over s (c_now c) (Some w))"
    and "run_calls rate_limiter_call s cs = (rs, s')"
  shows "window_count w + admitted_cost Pair k cs rs \<le> l"
proof -
  have "budget_limiter.steady rate_limiter_call Pair memory_same_window {1} s (started_at w) k l cs"
  proof (rule steady_memory [OF assms(2,1) _ _ request_limiter.budget_limiter_axioms])
    show "\<exists>c'. s' = charge s now (p, m) c' \<or> s' = s"
      if "rate_limiter_call s now p m c l = (r, s')" for s now p m c l r s'
      using rate_limiter_call_cases [OF that] by blast
  qed (use assms(4) in auto)
  from request_limiter.admitted_within_limit [OF _ this assms(5)] show ?thesis
    using assms(1-3) by (simp add: memory_wf_def spent_at_start)
qed

text \<open>
  The counts themselves: where each model has one limit, no stored window is ever above
  it, at any time and across window changes.
\<close>

definition counts_within :: "(string \<Rightarrow> int) \<Rightarrow> memory_limiter \<Rightarrow> bool" where
  "counts_within lims s \<longleftrightarrow> (\<forall>p m w. windows s (p, m) = Some w \<longrightarrow> window_count w \<le> lims m)"

lemma counts_within_new: "counts_within lims (new_memory_limiter secs)"
  by (simp add: counts_within_def new_memory_limiter_def)

lemma counts_within_charge:
  assumes "counts_within lims s" and "memory_spent s now (p, m) + c \<le> lims m"
  shows "counts_within lims (charge s now (p, m) c)"
  using assms
  by (auto simp: counts_within_def charge_def memory_spent_def add_count_def count_of_def
      split: if_splits option.splits)

lemma counts_within_token:
  assumes "counts_within lims s" and "token_budget_allow s now p m c (lims m) = (r, s')"
  shows "counts_within lims s'"
proof (cases "1 \<le> c \<and> 1 \<le> lims m")
  case True
  then show ?thesis using assms counts_within_charge [OF assms(1)]
    by (auto simp: token_budget_allow_eq split: if_splits)
next
  case False
  then show ?thesis using assms by (auto simp: token_budget_allow_def split: if_splits)
qed

lemma counts_within_rate:
  assumes "counts_within lims s" and "1 \<le> lims m" and "rate_limiter_allow s now p m (lims m) = (b, s')"
  shows "counts_within lims s'"
  using assms counts_within_charge [OF assms(1)]
  by (auto simp: rate_limiter_allow_eq split: if_splits)

theorem token_budget_counts_within:
  assumes "\<forall>c \<in> set cs. c_limit c = lims (c_model c)"
    and "run_calls token_budget_allow (new_memory_limiter secs) cs = (rs, s')"
  shows "counts_within lims s'"
proof -
  have "counts_within lims s \<Longrightarrow> run_calls token_budget_allow s cs = (rs, s') \<Longrightarrow> counts_within lims s'"
    for s using assms(1)
  proof (induction cs arbitrary: s rs)
    case (Cons c cs)
    obtain r s1 where d: "do_call token_budget_allow s c = (r, s1)" by fastforce
    have "counts_within lims s1"
      using d Cons.prems(1,3) counts_within_token [of lims s "c_now c" "c_principal c" "c_model c"]
      by (auto simp: do_call_def)
    then show ?case using Cons.IH [of s1] Cons.prems d by (auto split: prod.splits)
  qed simp
  then show ?thesis using counts_within_new assms(2) by blast
qed

theorem rate_limiter_is_unit_token_budget:
  assumes "1 \<le> limit"
  shows "rate_limiter_call s now p m 1 limit = token_budget_allow s now p m 1 limit"
  using assms by (simp add: rate_limiter_call_def rate_limiter_allow_eq token_budget_allow_eq)

text \<open>A window that has run out never blocks a request that fits the limit.\<close>

theorem token_budget_recovers:
  assumes "rolls_over s now (windows s (p, m))" and "1 \<le> cost" and "cost \<le> limit"
  shows "fst (token_budget_allow s now p m cost limit) = Inr True"
  using assms by (simp add: token_budget_allow_def Let_def)

section \<open>Threads\<close>

text \<open>
  The in-memory limiters take no lock, and the handlers run on a thread pool. The steps of
  \<^verbatim>\<open>FixedWindowRateLimiter.allow\<close> on one live window, as the interpreter may interleave them:
  the comparison with the limit, the read of \<^verbatim>\<open>window.count\<close>, and the write of the sum.
\<close>

datatype allow_pc = Ready | Passed | Loaded int | Finished bool

record allow_threads =
  shared_count :: int
  pcs :: "nat \<Rightarrow> allow_pc"

inductive allow_step :: "int \<Rightarrow> allow_threads \<Rightarrow> allow_threads \<Rightarrow> bool" for limit :: int where
  pass: "pcs s i = Ready \<Longrightarrow> shared_count s < limit \<Longrightarrow>
    allow_step limit s (s\<lparr>pcs := (pcs s)(i := Passed)\<rparr>)"
| refuse: "pcs s i = Ready \<Longrightarrow> limit \<le> shared_count s \<Longrightarrow>
    allow_step limit s (s\<lparr>pcs := (pcs s)(i := Finished False)\<rparr>)"
| load: "pcs s i = Passed \<Longrightarrow>
    allow_step limit s (s\<lparr>pcs := (pcs s)(i := Loaded (shared_count s))\<rparr>)"
| store: "pcs s i = Loaded v \<Longrightarrow>
    allow_step limit s (s\<lparr>shared_count := v + 1, pcs := (pcs s)(i := Finished True)\<rparr>)"

inductive allow_reach :: "int \<Rightarrow> allow_threads \<Rightarrow> allow_threads \<Rightarrow> bool" for limit :: int where
  here: "allow_reach limit s s"
| move: "allow_reach limit s t \<Longrightarrow> allow_step limit t u \<Longrightarrow> allow_reach limit s u"

definition threads_at :: "int \<Rightarrow> allow_pc \<Rightarrow> allow_pc \<Rightarrow> allow_threads" where
  "threads_at n a b = \<lparr>shared_count = n, pcs = (\<lambda>_. Ready)(0 := a, 2 := b)\<rparr>"

lemma threads_at_simps [simp]:
  "shared_count (threads_at n a b) = n" "pcs (threads_at n a b) 0 = a" "pcs (threads_at n a b) 2 = b"
  "(threads_at n a b)\<lparr>pcs := (pcs (threads_at n a b))(0 := c)\<rparr> = threads_at n c b"
  "(threads_at n a b)\<lparr>pcs := (pcs (threads_at n a b))(2 := c)\<rparr> = threads_at n a c"
  "(threads_at n a b)\<lparr>shared_count := k, pcs := (pcs (threads_at n a b))(0 := c)\<rparr> = threads_at k c b"
  "(threads_at n a b)\<lparr>shared_count := k, pcs := (pcs (threads_at n a b))(2 := c)\<rparr> = threads_at k a c"
  by (simp_all add: threads_at_def fun_eq_iff)

lemma threads_at_steps:
  "n < limit \<Longrightarrow> allow_step limit (threads_at n Ready b) (threads_at n Passed b)"
  "n < limit \<Longrightarrow> allow_step limit (threads_at n a Ready) (threads_at n a Passed)"
  "allow_step limit (threads_at n Passed b) (threads_at n (Loaded n) b)"
  "allow_step limit (threads_at n a Passed) (threads_at n a (Loaded n))"
  "allow_step limit (threads_at n (Loaded v) b) (threads_at (v + 1) (Finished True) b)"
  "allow_step limit (threads_at n a (Loaded v)) (threads_at (v + 1) a (Finished True))"
  using allow_step.pass [of "threads_at n Ready b" 0 limit]
    allow_step.pass [of "threads_at n a Ready" 2 limit]
    allow_step.load [of "threads_at n Passed b" 0 limit]
    allow_step.load [of "threads_at n a Passed" 2 limit]
    allow_step.store [of "threads_at n (Loaded v) b" 0 v limit]
    allow_step.store [of "threads_at n a (Loaded v)" 2 v limit]
  by simp_all


end
