(* ===== verification/RedisLimit.thy ===== *)
theory RedisLimit
  imports RateLimit
begin

text \<open>
  The Redis half of \<^verbatim>\<open>gateway/rate_limit.py\<close>: the Lua script, the limiter that sends it, and
  the choice of a backend at start-up. The Redis server is not in the repository: its three
  commands and its \<^verbatim>\<open>EVAL\<close> are parameters, and \<open>redis_commands_ok\<close> and \<open>eval_ok\<close> state what
  the script relies on.
\<close>

section \<open>The Lua script\<close>

text \<open>The commands the script calls, on an abstract store.\<close>

record 's redis_commands =
  redis_get :: "'s \<Rightarrow> string \<Rightarrow> string option"
  redis_incrby :: "'s \<Rightarrow> string \<Rightarrow> int \<Rightarrow> int \<times> 's"
  redis_pexpire :: "'s \<Rightarrow> string \<Rightarrow> string \<Rightarrow> 's"

text \<open>
  \<^verbatim>\<open>tonumber\<close> on the decimal integers that the limiter sends and that Redis stores. Lua
  numbers are doubles, exact for the magnitudes below \<open>2 ^ 53\<close> that budgets have.
\<close>

definition lua_tonumber :: "string \<Rightarrow> int option" where
  "lua_tonumber s =
     (let (neg, body) = strip_sign s in
      if body \<noteq> [] \<and> list_all is_digit body
      then Some (if neg then - digits_val 0 body else digits_val 0 body) else None)"

text \<open>\<^verbatim>\<open>REDIS_FIXED_WINDOW_LUA\<close>: arithmetic on a failed \<^verbatim>\<open>tonumber\<close> aborts the script.\<close>

definition fixed_window_script ::
  "'s redis_commands \<Rightarrow> string \<Rightarrow> string \<Rightarrow> string \<Rightarrow> string \<Rightarrow> 's \<Rightarrow> int list result \<times> 's" where
  "fixed_window_script ops key argv1 argv2 argv3 store =
     (let cost = lua_tonumber argv1;
          limit = lua_tonumber argv3;
          current = lua_tonumber (case redis_get ops store key of None \<Rightarrow> ''0'' | Some v \<Rightarrow> v)
      in case (cost, limit, current) of
           (Some c, Some l, Some n) \<Rightarrow>
             if l < n + c then (Inr [0, n, l], store)
             else
               let (n', store') = redis_incrby ops store key c;
                   store'' = (if n' = c then redis_pexpire ops store' key argv2 else store')
               in (Inr [1, n', l], store'')
         | _ \<Rightarrow> (Inl (RedisError ''attempt to perform arithmetic on a nil value''), store))"

text \<open>What a counter key holds: absent, or the decimal text of an integer.\<close>

definition counter :: "'s redis_commands \<Rightarrow> 's \<Rightarrow> string \<Rightarrow> int" where
  "counter ops store key =
     (case redis_get ops store key of
        None \<Rightarrow> 0
      | Some v \<Rightarrow> (case lua_tonumber v of None \<Rightarrow> 0 | Some n \<Rightarrow> n))"

definition counters_ok :: "'s redis_commands \<Rightarrow> 's \<Rightarrow> bool" where
  "counters_ok ops store \<longleftrightarrow>
     (\<forall>key v. redis_get ops store key = Some v \<longrightarrow> (\<exists>n. v = int_str n))"

text \<open>
  The documented behaviour of the commands: \<^verbatim>\<open>INCRBY\<close> adds to the integer at a key (zero
  when absent), stores the sum as decimal text and returns it; \<^verbatim>\<open>PEXPIRE\<close> changes no value;
  neither touches another key.
\<close>

definition redis_commands_ok :: "'s redis_commands \<Rightarrow> bool" where
  "redis_commands_ok ops \<longleftrightarrow>
     (\<forall>store key c n store'. counters_ok ops store \<longrightarrow>
        redis_incrby ops store key c = (n, store') \<longrightarrow>
        n = counter ops store key + c \<and> redis_get ops store' key = Some (int_str n) \<and>
        (\<forall>key'. key' \<noteq> key \<longrightarrow> redis_get ops store' key' = redis_get ops store key')) \<and>
     (\<forall>store key ttl. redis_get ops (redis_pexpire ops store key ttl) = redis_get ops store)"

lemma list_all_digits_nat_str: "0 \<le> n \<Longrightarrow> list_all is_digit (nat_str n)"
  by (simp add: list_all_iff nat_str_digits)

lemma strip_sign_int_str:
  "strip_sign (int_str i) = (if i < 0 then (True, nat_str (- i)) else (False, nat_str i))"
proof (cases "i < 0")
  case False
  then have digit: "is_digit (hd (nat_str i))"
    using nat_str_digits [of i "hd (nat_str i)"] by simp
  have "hd (nat_str i) \<noteq> CHR ''-''" "hd (nat_str i) \<noteq> CHR ''+''"
    using digit by (auto simp: is_digit_def)
  with False show ?thesis by (simp add: strip_sign_def int_str_def)
qed (simp add: strip_sign_def int_str_def)

lemma lua_tonumber_int_str [simp]: "lua_tonumber (int_str i) = Some i"
  by (cases "i < 0")
    (simp_all add: lua_tonumber_def strip_sign_int_str list_all_digits_nat_str digits_val_nat_str)

lemma lua_tonumber_zero: "lua_tonumber ''0'' = Some 0"
  by code_simp

lemma counter_get:
  "counters_ok ops store \<Longrightarrow>
     lua_tonumber (case redis_get ops store key of None \<Rightarrow> ''0'' | Some v \<Rightarrow> v) =
       Some (counter ops store key)"
proof (cases "redis_get ops store key")
  case (Some v)
  assume "counters_ok ops store"
  with Some obtain n where "v = int_str n" unfolding counters_ok_def by blast
  with Some show ?thesis by (simp add: counter_def)
qed (simp add: counter_def lua_tonumber_zero)

lemma incrby_ok:
  assumes "redis_commands_ok ops" "counters_ok ops store" "redis_incrby ops store key c = (n, store')"
  shows "n = counter ops store key + c"
    and "counter ops store' key = counter ops store key + c"
    and "key' \<noteq> key \<Longrightarrow> counter ops store' key' = counter ops store key'"
    and "counters_ok ops store'"
proof -
  have n: "n = counter ops store key + c" "redis_get ops store' key = Some (int_str n)"
    and o: "\<And>key'. key' \<noteq> key \<Longrightarrow> redis_get ops store' key' = redis_get ops store key'"
    using assms(1) [unfolded redis_commands_ok_def, THEN conjunct1, rule_format, OF assms(2,3)]
    by simp_all
  show "n = counter ops store key + c" by (rule n)
  show "counter ops store' key = counter ops store key + c" using n by (simp add: counter_def)
  show "key' \<noteq> key \<Longrightarrow> counter ops store' key' = counter ops store key'" using o by (simp add: counter_def)
  show "counters_ok ops store'"
    unfolding counters_ok_def
  proof (intro allI impI)
    fix k v
    assume "redis_get ops store' k = Some v"
    then show "\<exists>n. v = int_str n"
      using n(2) o [of k] assms(2) by (cases "k = key") (auto simp: counters_ok_def)
  qed
qed

lemma pexpire_ok:
  assumes "redis_commands_ok ops"
  shows "counter ops (redis_pexpire ops store key ttl) = counter ops store"
    and "counters_ok ops (redis_pexpire ops store key ttl) = counters_ok ops store"
  using assms [unfolded redis_commands_ok_def, THEN conjunct2, rule_format, of store key ttl]
  by (simp_all add: counter_def [abs_def] counters_ok_def)

text \<open>
  One run of the script is one atomic check-then-count: over the limit it answers 0 and
  writes nothing, otherwise it adds the cost, and it arms the expiry exactly when the
  window was empty before.
\<close>

lemma fixed_window_script_spec:
  assumes "redis_commands_ok ops" and "counters_ok ops store"
    and "fixed_window_script ops key (int_str c) ttl (int_str l) store = (r, store')"
  shows "if counter ops store key + c \<le> l
     then r = Inr [1, counter ops store key + c, l] \<and> counters_ok ops store' \<and>
       counter ops store' = (counter ops store)(key := counter ops store key + c)
     else r = Inr [0, counter ops store key, l] \<and> store' = store"
proof (cases "counter ops store key + c \<le> l")
  case True
  obtain n st where inc: "redis_incrby ops store key c = (n, st)" by fastforce
  note ok = incrby_ok [OF assms(1,2) inc]
  have st': "store' = (if n = c then redis_pexpire ops st key ttl else st)" and r: "r = Inr [1, n, l]"
    using assms(3) True inc
    by (auto simp: fixed_window_script_def counter_get [OF assms(2)] Let_def split: if_splits)
  have "counter ops store' = counter ops st" and "counters_ok ops store'"
    using st' pexpire_ok [OF assms(1)] ok(4) by auto
  moreover have "counter ops st = (counter ops store)(key := counter ops store key + c)"
    using ok(2,3) by (auto simp: fun_eq_iff)
  ultimately show ?thesis using True r ok(1) by simp
next
  case False
  then show ?thesis using assms(3)
    by (auto simp: fixed_window_script_def counter_get [OF assms(2)] Let_def split: if_splits)
qed

section \<open>The limiter\<close>

record redis_limiter =
  rl_budget_type :: string
  rl_window_seconds :: int
  rl_key_prefix :: string

definition new_redis_limiter :: "string \<Rightarrow> int \<Rightarrow> string \<Rightarrow> redis_limiter result" where
  "new_redis_limiter budget_type secs key_prefix =
     (if secs < 1 then Inl (ValueError ''window must be positive'')
      else if key_prefix = [] then Inl (ValueError ''Redis key prefix must not be empty'')
      else Inr \<lparr>rl_budget_type = budget_type, rl_window_seconds = secs,
                rl_key_prefix = key_prefix\<rparr>)"

text \<open>\<^verbatim>\<open>int(time.time() // self.window_seconds)\<close>\<close>

definition window_epoch :: "int \<Rightarrow> pyfloat \<Rightarrow> int result" where
  "window_epoch secs now =
     (case now of
        Fin r \<Rightarrow> Inr \<lfloor>r / of_int secs\<rfloor>
      | _ \<Rightarrow> Inl (ValueError ''cannot convert float NaN to integer''))"

definition caller_hash :: "(string \<Rightarrow> string) \<Rightarrow> string \<Rightarrow> string" where
  "caller_hash sha256_hex pid = take 24 (sha256_hex pid)"

definition redis_key :: "redis_limiter \<Rightarrow> string \<Rightarrow> string \<Rightarrow> int \<Rightarrow> string" where
  "redis_key L model_id hash epoch =
     rl_key_prefix L @ '':'' @ model_id @ '':'' @ rl_budget_type L @ '':'' @ hash @ '':'' @
     int_str epoch"

text \<open>
  \<^verbatim>\<open>int(decision[0])\<close>: \<^verbatim>\<open>IndexError\<close>, \<^verbatim>\<open>KeyError\<close>, \<^verbatim>\<open>TypeError\<close> and \<^verbatim>\<open>ValueError\<close> become one
  \<^verbatim>\<open>RuntimeError\<close>; the \<^verbatim>\<open>OverflowError\<close> of an infinite float does not.
\<close>

definition INVALID_DECISION :: py_error where
  "INVALID_DECISION = RuntimeError ''Redis limiter returned an invalid decision''"

fun decision_int :: "pyval \<Rightarrow> int result" where
  "decision_int (VBool b) = Inr (if b then 1 else 0)"
| "decision_int (VNum (NInt i)) = Inr i"
| "decision_int (VNum (NFlt (Fin r))) = Inr (if r < 0 then \<lceil>r\<rceil> else \<lfloor>r\<rfloor>)"
| "decision_int (VNum (NFlt NaN)) = Inl INVALID_DECISION"
| "decision_int (VNum (NFlt f)) = Inl (OverflowError ''cannot convert float infinity to integer'')"
| "decision_int (VStr s) =
     (case py_int s of None \<Rightarrow> Inl INVALID_DECISION | Some i \<Rightarrow> Inr i)"
| "decision_int v = Inl INVALID_DECISION"

fun decision_allows :: "pyval \<Rightarrow> bool result" where
  "decision_allows (VList (x # xs)) = bind_result (decision_int x) (\<lambda>i. Inr (i = 1))"
| "decision_allows (VStr (c # s)) = bind_result (decision_int (VStr [c])) (\<lambda>i. Inr (i = 1))"
| "decision_allows v = Inl INVALID_DECISION"

text \<open>
  \<^verbatim>\<open>_RedisFixedWindowLimiter._allow\<close>. \<open>eval\<close> is \<^verbatim>\<open>self.client.eval(REDIS_FIXED_WINDOW_LUA, 1, ...)\<close>
  on the server's store; it may fail. \<open>sha256_hex\<close> is the digest of the UTF-8 text.
\<close>

type_synonym 's eval_fun = "string \<Rightarrow> string \<Rightarrow> string \<Rightarrow> string \<Rightarrow> 's \<Rightarrow> pyval result \<times> 's"

definition redis_allow ::
  "(string \<Rightarrow> string) \<Rightarrow> 's eval_fun \<Rightarrow> redis_limiter \<Rightarrow> 's allow_fun" where
  "redis_allow sha256_hex eval L store now principal_id model_id cost limit =
     (if cost < 1 then (Inl (ValueError ''cost must be positive''), store)
      else if limit < 1 then (Inl (ValueError ''limit must be positive''), store)
      else case window_epoch (rl_window_seconds L) now of
        Inl e \<Rightarrow> (Inl e, store)
      | Inr epoch \<Rightarrow>
          let key = redis_key L model_id (caller_hash sha256_hex principal_id) epoch;
              (decision, store') = eval key (int_str cost)
                (int_str (rl_window_seconds L * 1000)) (int_str limit) store
          in (bind_result decision decision_allows, store'))"

text \<open>\<^verbatim>\<open>RedisFixedWindowRateLimiter.allow\<close> and \<^verbatim>\<open>RedisFixedWindowTokenBudgetLimiter.allow\<close>\<close>

definition redis_request_allow ::
  "(string \<Rightarrow> string) \<Rightarrow> 's eval_fun \<Rightarrow> redis_limiter \<Rightarrow> 's \<Rightarrow> pyfloat \<Rightarrow> string \<Rightarrow> string \<Rightarrow> int \<Rightarrow>
     bool result \<times> 's" where
  "redis_request_allow sha256_hex eval L store now p m limit =
     redis_allow sha256_hex eval L store now p m 1 limit"

definition redis_token_allow ::
  "(string \<Rightarrow> string) \<Rightarrow> 's eval_fun \<Rightarrow> redis_limiter \<Rightarrow> 's allow_fun" where
  "redis_token_allow sha256_hex eval L store now p m cost limit =
     redis_allow sha256_hex eval L store now p m cost limit"

definition new_redis_request_limiter :: "int \<Rightarrow> string \<Rightarrow> redis_limiter result" where
  "new_redis_request_limiter = new_redis_limiter ''requests''"

definition new_redis_token_limiter :: "int \<Rightarrow> string \<Rightarrow> redis_limiter result" where
  "new_redis_token_limiter = new_redis_limiter ''input_tokens''"

text \<open>
  \<^verbatim>\<open>EVAL\<close> runs the script atomically and returns its numbers. It may also fail, and then the
  script has run or has not: a lost reply does not undo an increment.
\<close>

definition script_reply :: "int list result \<Rightarrow> pyval result" where
  "script_reply r = (case r of Inl e \<Rightarrow> Inl e | Inr ns \<Rightarrow> Inr (VList (map VInt ns)))"

definition eval_ok :: "'s redis_commands \<Rightarrow> 's eval_fun \<Rightarrow> bool" where
  "eval_ok ops eval \<longleftrightarrow>
     (\<forall>key a1 a2 a3 store r store' d store''.
        eval key a1 a2 a3 store = (d, store'') \<longrightarrow>
        fixed_window_script ops key a1 a2 a3 store = (r, store') \<longrightarrow>
        d = script_reply r \<and> store'' = store' \<or>
        (\<exists>e. d = Inl e) \<and> (store'' = store \<or> store'' = store'))"

section \<open>Keys\<close>

lemma last_colon_split:
  assumes "a @ CHR '':'' # x = b @ CHR '':'' # y" and "CHR '':'' \<notin> set x" and "CHR '':'' \<notin> set y"
  shows "a = b \<and> x = y"
  using assms
proof (induction a arbitrary: b)
  case Nil
  then show ?case by (cases b) auto
next
  case (Cons c a)
  show ?case
  proof (cases b)
    case Nil
    with Cons.prems have "x @ [] = x" "a @ CHR '':'' # x = y" by auto
    then have "CHR '':'' \<in> set y" by auto
    with Cons.prems show ?thesis by simp
  next
    case (Cons d b')
    then show ?thesis using Cons.IH [of b'] Cons.prems by auto
  qed
qed

lemma colon_notin_int_str: "CHR '':'' \<notin> set (int_str i)"
proof -
  have "CHR '':'' \<notin> set (nat_str n)" if "0 \<le> n" for n
    using nat_str_digits [of n "CHR '':''"] that by (auto simp: is_digit_def)
  then show ?thesis by (auto simp: int_str_def)
qed

text \<open>
  Two counters share a key only when model, caller hash and window agree, and the counters
  of the request and the token limiter never do.
\<close>

theorem redis_key_injective:
  assumes "redis_key L m h e = redis_key L' m' h' e'"
    and "rl_key_prefix L = rl_key_prefix L'"
    and "CHR '':'' \<notin> set h" and "CHR '':'' \<notin> set h'"
    and "CHR '':'' \<notin> set (rl_budget_type L)" and "CHR '':'' \<notin> set (rl_budget_type L')"
  shows "m = m' \<and> h = h' \<and> e = e' \<and> rl_budget_type L = rl_budget_type L'"
proof -
  have k: "redis_key L m h e =
      ((((rl_key_prefix L @ '':'') @ m) @ '':'' @ rl_budget_type L) @ '':'' @ h) @ CHR '':'' # int_str e" for L m h e
    by (simp add: redis_key_def)
  have "((((rl_key_prefix L @ '':'') @ m) @ '':'' @ rl_budget_type L) @ '':'' @ h) =
      ((((rl_key_prefix L' @ '':'') @ m') @ '':'' @ rl_budget_type L') @ '':'' @ h') \<and> int_str e = int_str e'"
    using assms(1) unfolding k by (intro last_colon_split colon_notin_int_str)
  then have 1: "(((rl_key_prefix L @ '':'') @ m) @ '':'' @ rl_budget_type L) @ CHR '':'' # h =
      (((rl_key_prefix L' @ '':'') @ m') @ '':'' @ rl_budget_type L') @ CHR '':'' # h'"
    and e: "e = e'" by (auto dest: int_str_inj)
  from last_colon_split [OF 1 assms(3,4)]
  have 2: "((rl_key_prefix L @ '':'') @ m) @ CHR '':'' # rl_budget_type L =
      ((rl_key_prefix L' @ '':'') @ m') @ CHR '':'' # rl_budget_type L'" and h: "h = h'" by auto
  from last_colon_split [OF 2 assms(5,6)] show ?thesis using assms(2) e h by auto
qed

section \<open>The Redis limiter keeps the contract\<close>

definition redis_slot :: "(string \<Rightarrow> string) \<Rightarrow> string \<Rightarrow> string \<Rightarrow> string \<times> string" where
  "redis_slot sha256_hex p m = (caller_hash sha256_hex p, m)"

definition redis_spent ::
  "'s redis_commands \<Rightarrow> redis_limiter \<Rightarrow> 's \<Rightarrow> pyfloat \<Rightarrow> string \<times> string \<Rightarrow> int" where
  "redis_spent ops L store now k =
     (case window_epoch (rl_window_seconds L) now of
        Inl _ \<Rightarrow> 0
      | Inr e \<Rightarrow> if CHR '':'' \<in> set (fst k) then 0
                else counter ops store (redis_key L (snd k) (fst k) e))"

definition redis_same_window ::
  "redis_limiter \<Rightarrow> 's \<Rightarrow> string \<times> string \<Rightarrow> pyfloat \<Rightarrow> pyfloat \<Rightarrow> bool" where
  "redis_same_window L store k t now \<longleftrightarrow>
     window_epoch (rl_window_seconds L) t = window_epoch (rl_window_seconds L) now"

definition hex_digest :: "(string \<Rightarrow> string) \<Rightarrow> bool" where
  "hex_digest sha256_hex \<longleftrightarrow> (\<forall>x. \<forall>c \<in> set (sha256_hex x). is_lower_hex c)"

lemma colon_notin_caller_hash: "hex_digest sha \<Longrightarrow> CHR '':'' \<notin> set (caller_hash sha p)"
proof
  assume "hex_digest sha" and "CHR '':'' \<in> set (caller_hash sha p)"
  then have "is_lower_hex (CHR '':'')"
    unfolding hex_digest_def caller_hash_def by (metis in_set_takeD)
  then show False by (simp add: is_lower_hex_def)
qed

lemma redis_allow_epoch:
  assumes "1 \<le> c" "1 \<le> l" "window_epoch (rl_window_seconds L) now = Inr e"
    and "redis_allow sha eval L s now p m c l = (r, s')"
  obtains d where "eval (redis_key L m (caller_hash sha p) e) (int_str c)
      (int_str (rl_window_seconds L * 1000)) (int_str l) s = (d, s')"
    and "r = bind_result d decision_allows"
  using assms by (auto simp: redis_allow_def Let_def split: prod.splits)

text \<open>One call, success or failure, leaves the store alone or charges exactly one counter.\<close>

lemma redis_allow_step:
  assumes ops: "redis_commands_ok ops" and ev: "eval_ok ops eval" and wf: "counters_ok ops s"
    and e: "window_epoch (rl_window_seconds L) now = Inr e"
    and cl: "1 \<le> c" "1 \<le> l"
    and al: "redis_allow sha eval L s now p m c l = (r, s')"
  defines "key \<equiv> redis_key L m (caller_hash sha p) e"
  defines "n \<equiv> counter ops s key"
  shows "(r = Inr True \<and> n + c \<le> l \<or> (\<exists>x. r = Inl x) \<and> n + c \<le> l) \<and>
      counters_ok ops s' \<and> counter ops s' = (counter ops s)(key := n + c)
    \<or> (r = Inr False \<and> l < n + c \<or> (\<exists>x. r = Inl x)) \<and> s' = s"
proof -
  obtain d where d: "eval key (int_str c) (int_str (rl_window_seconds L * 1000)) (int_str l) s = (d, s')"
    and r: "r = bind_result d decision_allows"
    using redis_allow_epoch [OF cl e al] unfolding key_def by blast
  obtain sr s1 where script: "fixed_window_script ops key (int_str c)
      (int_str (rl_window_seconds L * 1000)) (int_str l) s = (sr, s1)" by fastforce
  note spec = fixed_window_script_spec [OF ops wf script, folded n_def]
  from ev d script consider
      (ran) "d = script_reply sr" "s' = s1" | (err) x where "d = Inl x" "s' = s \<or> s' = s1"
    unfolding eval_ok_def by blast
  then show ?thesis
  proof cases
    case ran
    then show ?thesis using spec r by (auto simp: script_reply_def split: if_splits)
  next
    case err
    then show ?thesis using spec r by (auto split: if_splits)
  qed
qed

lemma redis_allow_bad_clock:
  "window_epoch (rl_window_seconds L) now = Inl x \<Longrightarrow>
     redis_allow sha eval L s now p m c l = (r, s') \<Longrightarrow> s' = s \<and> (\<exists>e. r = Inl e)"
  by (auto simp: redis_allow_def split: if_splits)

lemma redis_allow_changes:
  assumes "redis_commands_ok ops" "eval_ok ops eval" "counters_ok ops s"
    and "redis_allow sha eval L s now p m c l = (r, s')"
  shows "s' = s \<or> (\<exists>e. window_epoch (rl_window_seconds L) now = Inr e \<and> counters_ok ops s' \<and>
    counter ops s' = (counter ops s)(redis_key L m (caller_hash sha p) e :=
      counter ops s (redis_key L m (caller_hash sha p) e) + c))"
proof (cases "1 \<le> c \<and> 1 \<le> l")
  case True
  show ?thesis
  proof (cases "window_epoch (rl_window_seconds L) now")
    case (Inl x)
    then show ?thesis using redis_allow_bad_clock [OF Inl assms(4)] by simp
  next
    case (Inr e)
    then show ?thesis using redis_allow_step [OF assms(1-3) Inr _ _ assms(4)] True by blast
  qed
next
  case False
  then show ?thesis using assms(4) by (auto simp: redis_allow_def split: if_splits)
qed

lemma redis_own_step:
  assumes ops: "redis_commands_ok ops" and ev: "eval_ok ops eval" and sha: "hex_digest sha"
    and wf: "counters_ok ops s" and c: "1 \<le> c" and l: "1 \<le> l"
    and al: "redis_allow sha eval L s now p m c l = (r, s')"
  defines "n \<equiv> redis_spent ops L s now (redis_slot sha p m)"
  shows "s' = s \<and> (\<exists>e. r = Inl e) \<or>
    (r = Inr True \<or> (\<exists>x. r = Inl x)) \<and> n + c \<le> l \<and>
      redis_spent ops L s' now (redis_slot sha p m) = n + c \<or>
    r = Inr False \<and> l < n + c \<and> s' = s"
proof (cases "window_epoch (rl_window_seconds L) now")
  case (Inl x)
  then show ?thesis using redis_allow_bad_clock [OF Inl al] by simp
next
  case (Inr e)
  show ?thesis
    using redis_allow_step [OF ops ev wf Inr c l al] Inr colon_notin_caller_hash [OF sha, of p]
    by (auto simp: redis_spent_def redis_slot_def n_def)
qed

lemma redis_contract:
  assumes ops: "redis_commands_ok ops" and ev: "eval_ok ops eval" and sha: "hex_digest sha"
    and bt: "CHR '':'' \<notin> set (rl_budget_type L)"
  shows "budget_limiter (redis_allow sha eval L) (redis_slot sha) (redis_spent ops L)
    (redis_same_window L) (counters_ok ops) {c. 1 \<le> c}"
proof
  fix s and now :: pyfloat and p m :: string and c l :: int and r s'
  assume wf: "counters_ok ops s" and al: "redis_allow sha eval L s now p m c l = (r, s')"
  note ch = redis_allow_changes [OF ops ev wf al]
  show "counters_ok ops s'" using ch wf by blast
  show "redis_spent ops L s' t k = redis_spent ops L s t k" if "k \<noteq> redis_slot sha p m" for t k
  proof -
    have "redis_key L (snd k) (fst k) e \<noteq> redis_key L m (caller_hash sha p) e'"
      if "CHR '':'' \<notin> set (fst k)" for e e'
      using redis_key_injective [OF _ refl that colon_notin_caller_hash [OF sha] bt bt]
        \<open>k \<noteq> _\<close> by (metis prod.collapse redis_slot_def)
    then show ?thesis using ch by (auto simp: redis_spent_def split: sum.splits)
  qed
next
  fix s and now :: pyfloat and p m :: string and c l :: int and b s'
  assume "counters_ok ops s" "c \<in> {c. 1 \<le> c}" "1 \<le> l"
    and "redis_allow sha eval L s now p m c l = (Inr b, s')"
  then show "b = (redis_spent ops L s now (redis_slot sha p m) + c \<le> l)"
    using redis_own_step [OF ops ev sha] by fastforce
next
  fix s and now :: pyfloat and p m :: string and c l :: int and s'
  assume "counters_ok ops s" "c \<in> {c. 1 \<le> c}" "1 \<le> l"
    and "redis_allow sha eval L s now p m c l = (Inr False, s')"
  then show "s' = s" using redis_own_step [OF ops ev sha] by fastforce
next
  fix s and now :: pyfloat and p m :: string and c l :: int and s'
  assume "counters_ok ops s" "c \<in> {c. 1 \<le> c}" "1 \<le> l"
    and "redis_allow sha eval L s now p m c l = (Inr True, s')"
  then show "redis_spent ops L s' now (redis_slot sha p m) =
      redis_spent ops L s now (redis_slot sha p m) + c"
    using redis_own_step [OF ops ev sha] by fastforce
next
  fix s and now :: pyfloat and p m :: string and c l :: int and e s'
  assume "counters_ok ops s" "c \<in> {c. 1 \<le> c}" "1 \<le> l"
    and "redis_allow sha eval L s now p m c l = (Inl e, s')"
  then show "s' = s \<or> redis_spent ops L s now (redis_slot sha p m) + c \<le> l \<and>
      redis_spent ops L s' now (redis_slot sha p m) = redis_spent ops L s now (redis_slot sha p m) + c"
    using redis_own_step [OF ops ev sha] by fastforce
qed (auto simp: redis_same_window_def redis_spent_def fun_eq_iff)

lemma steady_redis:
  assumes "budget_limiter (redis_allow sha eval L) (redis_slot sha) (redis_spent ops L)
      (redis_same_window L) (counters_ok ops) {c. 1 \<le> c}"
    and "\<forall>c \<in> set cs. 1 \<le> c_cost c \<and> 1 \<le> c_limit c \<and>
      (redis_slot sha (c_principal c) (c_model c) = k \<longrightarrow> c_limit c = l \<and>
        window_epoch (rl_window_seconds L) (c_now c) = window_epoch (rl_window_seconds L) t)"
  shows "budget_limiter.steady (redis_allow sha eval L) (redis_slot sha) (redis_same_window L)
    {c. 1 \<le> c} s t k l cs"
  using assms(2)
  by (induction cs arbitrary: s)
    (simp_all add: budget_limiter.steady.simps [OF assms(1)] redis_same_window_def)

text \<open>
  Each \<^verbatim>\<open>EVAL\<close> is atomic, so whatever the replicas do concurrently is one sequence of calls:
  in one window they never admit more than the limit together, in any order, with failed
  calls and lost replies in between.
\<close>


theorem redis_allow_decides:
  assumes "redis_commands_ok ops" and "eval_ok ops eval" and "hex_digest sha"
    and "counters_ok ops s" and "1 \<le> c" and "1 \<le> l"
    and "redis_allow sha eval L s now p m c l = (Inr b, s')"
  shows "(b \<longleftrightarrow> redis_spent ops L s now (redis_slot sha p m) + c \<le> l) \<and> (\<not> b \<longrightarrow> s' = s)"
  using redis_own_step [OF assms(1-7)] by fastforce

section \<open>Choosing the backend\<close>

datatype limiter_backend =
    MemoryLimiters memory_limiter memory_limiter
  | RedisLimiters redis_limiter redis_limiter

text \<open>
  \<^verbatim>\<open>_positive_int_env\<close> of this module: unlike the registry's it does not parse the default.
\<close>

definition positive_int_env :: "environ \<Rightarrow> string \<Rightarrow> int \<Rightarrow> int result" where
  "positive_int_env env name dflt =
     (case env name of
        None \<Rightarrow> Inr dflt
      | Some raw \<Rightarrow>
          bind_result (int_or_value_error raw) (\<lambda>value.
            if value < 1 then Inl (ValueError (name @ '' must be positive'')) else Inr value))"

text \<open>
  \<^verbatim>\<open>build_limiters_from_env\<close>. \<open>redis_installed\<close> says whether \<^verbatim>\<open>import redis\<close> works,
  \<open>connect url timeout\<close> is \<^verbatim>\<open>Redis.from_url\<close> followed by \<^verbatim>\<open>ping\<close>.
\<close>

definition build_limiters_from_env ::
  "environ \<Rightarrow> bool \<Rightarrow> (string \<Rightarrow> pyfloat \<Rightarrow> unit result) \<Rightarrow> limiter_backend result" where
  "build_limiters_from_env env redis_installed connect =
     (let backend = py_lower (py_strip (getenv env ''RATE_LIMIT_BACKEND'' ''memory'')) in
      bind_result (positive_int_env env ''RATE_LIMIT_WINDOW_SECONDS'' 60) (\<lambda>secs.
        if backend = ''memory''
        then Inr (MemoryLimiters (new_memory_limiter secs) (new_memory_limiter secs))
        else if backend \<noteq> ''redis''
        then Inl (ValueError ''RATE_LIMIT_BACKEND must be memory or redis'')
        else if \<not> truthy_str (env ''REDIS_URL'')
        then Inl (RuntimeError ''REDIS_URL is required when RATE_LIMIT_BACKEND=redis'')
        else if \<not> redis_installed
        then Inl (RuntimeError ''Redis mode requires the optional redis dependency; install requirements-redis.txt'')
        else case py_float (getenv env ''REDIS_SOCKET_TIMEOUT_SECONDS'' ''1.0'') of
          None \<Rightarrow> Inl (ValueError ''could not convert string to float'')
        | Some socket_timeout \<Rightarrow>
            bind_result (connect (getenv env ''REDIS_URL'' []) socket_timeout) (\<lambda>_.
            let key_prefix = getenv env ''REDIS_KEY_PREFIX'' ''sgig'' in
            bind_result (new_redis_request_limiter secs key_prefix) (\<lambda>requests.
            bind_result (new_redis_token_limiter secs key_prefix) (\<lambda>tokens.
              Inr (RedisLimiters requests tokens))))))"

definition limiter_backend_name :: "limiter_backend \<Rightarrow> string" where
  "limiter_backend_name b = (case b of RedisLimiters _ _ \<Rightarrow> ''redis'' | MemoryLimiters _ _ \<Rightarrow> ''memory'')"

text \<open>
  C19: A gateway configured for Redis never falls back to memory: it starts with Redis limiters
  after a successful connection to the configured URL, or it does not start.
\<close>

theorem redis_mode_fails_closed:
  assumes "py_lower (py_strip (getenv env ''RATE_LIMIT_BACKEND'' ''memory'')) = ''redis''"
    and "build_limiters_from_env env installed connect = Inr b"
  shows "limiter_backend_name b = ''redis'' \<and> installed \<and>
    (\<exists>url timeout. env ''REDIS_URL'' = Some url \<and> url \<noteq> [] \<and> connect url timeout = Inr ())"
  using assms
  by (auto simp: build_limiters_from_env_def limiter_backend_name_def Let_def getenv_def
      truthy_str_def split: if_splits option.splits)

text \<open>Whatever is built has a positive window, as the window arithmetic needs.\<close>

lemma positive_int_env_ge_1: "1 \<le> d \<Longrightarrow> positive_int_env env name d = Inr v \<Longrightarrow> 1 \<le> v"
  by (auto simp: positive_int_env_def split: option.splits if_splits)

text \<open>
  Limiters built from any environment are well formed: windows are positive, in-memory
  limiters start empty, and Redis limiters share one prefix under two distinct budget types.
\<close>

theorem build_limiters_positive_window:
  assumes "build_limiters_from_env env installed connect = Inr b"
  shows "case b of
      MemoryLimiters r t \<Rightarrow> memory_wf r \<and> memory_wf t \<and> windows r = Map.empty \<and> windows t = Map.empty
    | RedisLimiters r t \<Rightarrow> 1 \<le> rl_window_seconds r \<and> 1 \<le> rl_window_seconds t \<and>
        rl_budget_type r = ''requests'' \<and> rl_budget_type t = ''input_tokens'' \<and>
        rl_key_prefix r = rl_key_prefix t"
  using assms positive_int_env_ge_1 [of 60 env "''RATE_LIMIT_WINDOW_SECONDS''"]
  by (auto simp: build_limiters_from_env_def Let_def memory_wf_def new_memory_limiter_def
      new_redis_request_limiter_def new_redis_token_limiter_def new_redis_limiter_def
      split: if_splits option.splits)

end
