(* ===== verification/AuditLog.thy ===== *)
theory AuditLog
  imports Models
begin

text \<open>
  \<^verbatim>\<open>gateway/audit.py\<close>: the budget that bounds how many anonymous denials are written, and
  the append-only JSON-lines sink.
\<close>

section \<open>The anonymous denial budget\<close>

record denial_budget =
  limit_per_minute :: int
  db_window_started :: pyfloat
  db_count :: int

definition new_denial_budget :: "int \<Rightarrow> pyfloat \<Rightarrow> denial_budget" where
  "new_denial_budget limit now =
     \<lparr>limit_per_minute = limit, db_window_started = now, db_count = 0\<rparr>"

definition denial_window_over :: "denial_budget \<Rightarrow> pyfloat \<Rightarrow> bool" where
  "denial_window_over b now \<longleftrightarrow> num_le (NInt 60) (NFlt (fsub now (db_window_started b)))"

text \<open>\<^verbatim>\<open>DenialAuditBudget.allow\<close>, under its lock: one atomic step.\<close>

definition denial_budget_allow :: "denial_budget \<Rightarrow> pyfloat \<Rightarrow> bool \<times> denial_budget" where
  "denial_budget_allow b now =
     (let b' = (if denial_window_over b now then b\<lparr>db_window_started := now, db_count := 0\<rparr> else b) in
      if limit_per_minute b' \<le> db_count b' then (False, b')
      else (True, b'\<lparr>db_count := db_count b' + 1\<rparr>))"

fun denial_run :: "denial_budget \<Rightarrow> pyfloat list \<Rightarrow> bool list \<times> denial_budget" where
  "denial_run b [] = ([], b)"
| "denial_run b (now # nows) =
     (let (r, b') = denial_budget_allow b now; (rs, b'') = denial_run b' nows in (r # rs, b''))"

definition denial_budget_wf :: "denial_budget \<Rightarrow> bool" where
  "denial_budget_wf b \<longleftrightarrow> 0 \<le> db_count b \<and> (db_count b \<le> limit_per_minute b \<or> db_count b = 0)"

lemma denial_budget_wf_new: "denial_budget_wf (new_denial_budget l now)"
  by (simp add: denial_budget_wf_def new_denial_budget_def)

lemma denial_budget_wf_allow:
  "denial_budget_wf b \<Longrightarrow> denial_budget_allow b now = (r, b') \<Longrightarrow> denial_budget_wf b'"
  by (auto simp: denial_budget_wf_def denial_budget_allow_def Let_def split: if_splits)

text \<open>
  Inside one minute the denial budget admits exactly as many anonymous denials as it has
  left, and refuses every later one.
\<close>

theorem denial_budget_minute_exact:
  assumes "\<forall>now \<in> set nows. \<not> denial_window_over b now"
    and "db_count b \<le> limit_per_minute b"
    and "denial_run b nows = (rs, b')"
  shows "int (count_list rs True) = min (int (length nows)) (limit_per_minute b - db_count b)"
  using assms
proof (induction nows arbitrary: b rs)
  case (Cons now nows)
  obtain r b1 where step: "denial_budget_allow b now = (r, b1)" by fastforce
  obtain rs1 where run: "denial_run b1 nows = (rs1, b')" and rs: "rs = r # rs1"
    using Cons.prems(3) step by (auto split: prod.splits)
  have b1: "b1 = (if limit_per_minute b \<le> db_count b then b else b\<lparr>db_count := db_count b + 1\<rparr>)"
    and r: "r \<longleftrightarrow> \<not> limit_per_minute b \<le> db_count b"
    using step Cons.prems(1) by (auto simp: denial_budget_allow_def split: if_splits)
  have "int (count_list rs1 True) = min (int (length nows)) (limit_per_minute b1 - db_count b1)"
    using Cons.prems b1 run by (intro Cons.IH [of b1]) (auto simp: denial_window_over_def)
  then show ?case using rs r b1 Cons.prems(2) by (cases r) auto
qed simp

text \<open>A minute later the budget is full again.\<close>

theorem denial_budget_recovers:
  assumes "denial_window_over b now" and "0 < limit_per_minute b"
  shows "\<exists>b'. denial_budget_allow b now = (True, b') \<and> db_count b' = 1 \<and> db_window_started b' = now"
  using assms by (simp add: denial_budget_allow_def)

section \<open>The audit sink\<close>

text \<open>\<^verbatim>\<open>{"timestamp": ..., **asdict(event)}\<close>\<close>

definition audit_payload :: "string \<Rightarrow> audit_event \<Rightarrow> pyval" where
  "audit_payload timestamp event =
     VDict
      [(''timestamp'', VStr timestamp),
       (''principal_id'', VStr (ae_principal_id event)),
       (''model_id'', VStr (ae_model_id event)),
       (''allowed'', VBool (ae_allowed event)),
       (''reason'', opt_str (ae_reason event)),
       (''decision_reasons'', VList (map VStr (ae_decision_reasons event))),
       (''latency_ms'', opt_num (ae_latency_ms event)),
       (''auth_method'', VStr (ae_auth_method event)),
       (''auth_subject'', opt_str (ae_auth_subject event)),
       (''auth_issuer'', opt_str (ae_auth_issuer event)),
       (''trace_id'', VStr (ae_trace_id event)),
       (''span_id'', VStr (ae_span_id event)),
       (''parent_span_id'', opt_str (ae_parent_span_id event)),
       (''estimated_input_tokens'', opt_int (ae_estimated_input_tokens event)),
       (''token_budget_limit'', opt_int (ae_token_budget_limit event))]"

text \<open>
  \<^verbatim>\<open>JsonlAuditSink.write\<close> on the text of the log file. \<open>json_dumps\<close> is
  \<^verbatim>\<open>json.dumps(payload, sort_keys=True)\<close>; without indentation it writes no line break, as
  control characters inside strings are escaped.
\<close>

definition newline :: char where
  "newline = CHR 0x0A"

definition audit_write :: "(pyval \<Rightarrow> string) \<Rightarrow> string \<Rightarrow> audit_event \<Rightarrow> string \<Rightarrow> string" where
  "audit_write json_dumps timestamp event content =
     content @ json_dumps (audit_payload timestamp event) @ [newline]"

definition one_line :: "(pyval \<Rightarrow> string) \<Rightarrow> bool" where
  "one_line json_dumps \<longleftrightarrow> (\<forall>v. newline \<notin> set (json_dumps v))"

fun audit_write_all :: "(pyval \<Rightarrow> string) \<Rightarrow> (string \<times> audit_event) list \<Rightarrow> string \<Rightarrow> string" where
  "audit_write_all json_dumps [] content = content"
| "audit_write_all json_dumps ((ts, e) # es) content =
     audit_write_all json_dumps es (audit_write json_dumps ts e content)"

lemma audit_write_all_append:
  "audit_write_all jd es content =
     content @ concat (map (\<lambda>(ts, e). jd (audit_payload ts e) @ [newline]) es)"
  by (induction es arbitrary: content) (auto simp: audit_write_def)

theorem audit_log_lines:
  assumes "one_line json_dumps"
  shows "py_split newline (audit_write_all json_dumps es []) =
    map (\<lambda>(ts, e). json_dumps (audit_payload ts e)) es @ [[]]"
proof -
  let ?ls = "map (\<lambda>(ts, e). json_dumps (audit_payload ts e)) es"
  have "audit_write_all json_dumps es [] = concat (map (\<lambda>l. l @ [newline]) ?ls)"
    by (simp add: audit_write_all_append split_def comp_def)
  moreover have "\<forall>l \<in> set ?ls. newline \<notin> set l" using assms by (auto simp: one_line_def)
  ultimately show ?thesis using py_split_lines [of ?ls newline] by simp
qed

text \<open>The log is append-only: what is in it stays in it.\<close>

theorem audit_log_append_only:
  "\<exists>added. audit_write_all json_dumps es content = content @ added"
  by (simp add: audit_write_all_append)

end
