(* ===== verification/Metrics.thy ===== *)
theory Metrics
  imports Models "HOL-Library.List_Lexorder" "HOL-Library.Product_Lexorder"
begin

text \<open>
  \<^verbatim>\<open>gateway/metrics.py\<close>: the counters and histograms of \<open>GatewayMetrics\<close>, the operations
  that update them under the lock, and the Prometheus text exposition.
\<close>

section \<open>An order on floats\<close>

text \<open>
  \<^verbatim>\<open>sorted\<close> on the bucket bounds uses \<open><\<close> on floats, which is a linear order as long as no
  bound is NaN. The library's sorting wants a linear order on the whole type: NaN is put last.
\<close>

fun float_rank :: "pyfloat \<Rightarrow> int \<times> rat" where
  "float_rank NegInf = (0, 0)"
| "float_rank (Fin r) = (1, r)"
| "float_rank PosInf = (2, 0)"
| "float_rank NaN = (3, 0)"

lemma float_rank_inject [simp]: "float_rank a = float_rank b \<longleftrightarrow> a = b"
  by (cases a; cases b) auto

instantiation pyfloat :: linorder
begin

definition less_eq_pyfloat :: "pyfloat \<Rightarrow> pyfloat \<Rightarrow> bool" where
  "less_eq_pyfloat a b \<longleftrightarrow> float_rank a \<le> float_rank b"

definition less_pyfloat :: "pyfloat \<Rightarrow> pyfloat \<Rightarrow> bool" where
  "less_pyfloat a b \<longleftrightarrow> float_rank a < float_rank b"

instance
  by standard (auto simp: less_eq_pyfloat_def less_pyfloat_def less_le)

end

lemma pyfloat_less_flt: "a \<noteq> NaN \<Longrightarrow> b \<noteq> NaN \<Longrightarrow> a < b \<longleftrightarrow> flt a b"
  by (cases a; cases b) (auto simp: less_pyfloat_def)

lemma pyfloat_le_fle: "a \<noteq> NaN \<Longrightarrow> b \<noteq> NaN \<Longrightarrow> a \<le> b \<longleftrightarrow> fle a b"
  by (cases a; cases b) (auto simp: less_eq_pyfloat_def)

section \<open>Counters\<close>

type_synonym 'k counter_dict = "('k, int) dict"

definition counter_get :: "'k counter_dict \<Rightarrow> 'k \<Rightarrow> int" where
  "counter_get d k = dget_default d k 0"

definition counter_add :: "'k counter_dict \<Rightarrow> 'k \<Rightarrow> int \<Rightarrow> 'k counter_dict" where
  \<comment> \<open>\<^verbatim>\<open>counter[k] += n\<close>\<close>
  "counter_add d k n = dset d k (counter_get d k + n)"

lemma counter_get_Nil [simp]: "counter_get [] k = 0"
  by (simp add: counter_get_def dget_default_def)

lemma counter_get_add [simp]:
  "counter_get (counter_add d k n) k' = counter_get d k' + (if k' = k then n else 0)"
  by (simp add: counter_get_def counter_add_def dget_default_def split: option.splits)

lemma dkeys_counter_add [simp]: "set (dkeys (counter_add d k n)) = insert k (set (dkeys d))"
  by (simp add: counter_add_def)

lemma distinct_counter_add [simp]: "distinct (dkeys d) \<Longrightarrow> distinct (dkeys (counter_add d k n))"
  by (simp add: counter_add_def distinct_dkeys_dset)

section \<open>Histograms\<close>

text \<open>
  The latency histogram and the limiter histogram are updated by the same statements; they
  differ in the key, a model id or a pair of limiter and backend.
\<close>

record 'k histogram =
  h_count :: "'k counter_dict"
  h_sum :: "('k, pyfloat) dict"
  h_buckets :: "('k \<times> pyfloat) counter_dict"

definition empty_histogram :: "'k histogram" where
  "empty_histogram = \<lparr>h_count = [], h_sum = [], h_buckets = []\<rparr>"

fun count_buckets ::
  "pyfloat list \<Rightarrow> 'k \<Rightarrow> pyfloat \<Rightarrow> ('k \<times> pyfloat) counter_dict \<Rightarrow> ('k \<times> pyfloat) counter_dict" where
  "count_buckets [] k x d = d"
| "count_buckets (b # bs) k x d =
     count_buckets bs k x (if fle x b then counter_add d (k, b) 1 else d)"

definition histogram_observe :: "pyfloat list \<Rightarrow> 'k histogram \<Rightarrow> 'k \<Rightarrow> pyfloat \<Rightarrow> 'k histogram" where
  "histogram_observe bounds h k x =
     h\<lparr>h_count := counter_add (h_count h) k 1,
       h_sum := dset (h_sum h) k (fadd (dget_default (h_sum h) k (Fin 0)) x),
       h_buckets := count_buckets bounds k x (h_buckets h)\<rparr>"

lemma count_buckets_get:
  "distinct bs \<Longrightarrow> counter_get (count_buckets bs k x d) (k', b) =
     counter_get d (k', b) + (if k' = k \<and> b \<in> set bs \<and> fle x b then 1 else 0)"
  by (induction bs arbitrary: d) auto

definition observe_all :: "pyfloat list \<Rightarrow> 'k histogram \<Rightarrow> ('k \<times> pyfloat) list \<Rightarrow> 'k histogram" where
  "observe_all bounds h xs = foldl (\<lambda>h (k, x). histogram_observe bounds h k x) h xs"

lemma histogram_observe_fields [simp]:
  "h_count (histogram_observe bs h k x) = counter_add (h_count h) k 1"
  "h_buckets (histogram_observe bs h k x) = count_buckets bs k x (h_buckets h)"
  by (simp_all add: histogram_observe_def)

text \<open>A bucket counts the observations of its key that are at most its bound.\<close>

lemma observe_all_counts:
  assumes "distinct bs"
  shows "counter_get (h_count (observe_all bs h xs)) k =
      counter_get (h_count h) k + int (length (filter (\<lambda>(k', x). k' = k) xs)) \<and>
    (b \<in> set bs \<longrightarrow> counter_get (h_buckets (observe_all bs h xs)) (k, b) =
      counter_get (h_buckets h) (k, b) +
      int (length (filter (\<lambda>(k', x). k' = k \<and> fle x b) xs)))"
proof (induction xs arbitrary: h)
  case (Cons p xs)
  obtain k' x where p: "p = (k', x)" by fastforce
  show ?case
    using Cons.IH [of "histogram_observe bs h k' x"] assms
    by (auto simp: observe_all_def p count_buckets_get)
qed (simp add: observe_all_def)

lemma length_filter_mono:
  "(\<And>x. x \<in> set xs \<Longrightarrow> P x \<Longrightarrow> Q x) \<Longrightarrow> length (filter P xs) \<le> length (filter Q xs)"
  by (induction xs) (auto simp: le_SucI)

section \<open>The metrics registry\<close>

record gateway_metrics =
  latency_bounds :: "pyfloat list"
  limiter_latency_bounds :: "pyfloat list"
  m_requests :: "(string \<times> string) counter_dict"
  m_denials :: "(string \<times> string) counter_dict"
  m_audit_suppressed :: int
  m_auth_events :: "(string \<times> string) counter_dict"
  m_input_tokens :: "(string \<times> string) counter_dict"
  m_latency :: "string histogram"
  m_limiter_latency :: "(string \<times> string) histogram"

definition DEFAULT_LATENCY_BUCKETS :: "pyfloat list" where
  "DEFAULT_LATENCY_BUCKETS =
     map to_f64 [25 / 1000, 5 / 100, 1 / 10, 25 / 100, 5 / 10, 1, 25 / 10, 5]"

definition DEFAULT_LIMITER_LATENCY_BUCKETS :: "pyfloat list" where
  "DEFAULT_LIMITER_LATENCY_BUCKETS =
     map to_f64 [25 / 100000, 5 / 10000, 1 / 1000, 25 / 10000, 5 / 1000, 1 / 100, 25 / 1000, 5 / 100]"

definition new_gateway_metrics :: "pyfloat list \<Rightarrow> pyfloat list \<Rightarrow> gateway_metrics" where
  "new_gateway_metrics latency_buckets limiter_latency_buckets =
     \<lparr>latency_bounds = sort latency_buckets,
      limiter_latency_bounds = sort limiter_latency_buckets,
      m_requests = [], m_denials = [], m_audit_suppressed = 0, m_auth_events = [],
      m_input_tokens = [], m_latency = empty_histogram, m_limiter_latency = empty_histogram\<rparr>"

fun count_denials :: "string \<Rightarrow> string list \<Rightarrow> (string \<times> string) counter_dict \<Rightarrow> (string \<times> string) counter_dict" where
  "count_denials model_id [] d = d"
| "count_denials model_id (r # rs) d = count_denials model_id rs (counter_add d (model_id, r) 1)"

definition record_request :: "gateway_metrics \<Rightarrow> string \<Rightarrow> string \<Rightarrow> string list \<Rightarrow> gateway_metrics" where
  "record_request m model_id outcome denial_reasons =
     (let m' = m\<lparr>m_requests := counter_add (m_requests m) (model_id, outcome) 1\<rparr> in
      if outcome \<noteq> ''allowed''
      then let reasons = (if denial_reasons = [] then [''unspecified''] else denial_reasons) in
           m'\<lparr>m_denials := count_denials model_id reasons (m_denials m')\<rparr>
      else m')"

definition record_audit_suppressed :: "gateway_metrics \<Rightarrow> gateway_metrics" where
  "record_audit_suppressed m = m\<lparr>m_audit_suppressed := m_audit_suppressed m + 1\<rparr>"

definition record_auth_event :: "gateway_metrics \<Rightarrow> string \<Rightarrow> string \<Rightarrow> gateway_metrics" where
  "record_auth_event m auth_method outcome =
     m\<lparr>m_auth_events := counter_add (m_auth_events m) (auth_method, outcome) 1\<rparr>"

definition record_input_tokens :: "gateway_metrics \<Rightarrow> string \<Rightarrow> string \<Rightarrow> int \<Rightarrow> gateway_metrics" where
  "record_input_tokens m model_id outcome token_count =
     m\<lparr>m_input_tokens := counter_add (m_input_tokens m) (model_id, outcome) token_count\<rparr>"

definition observe_latency :: "gateway_metrics \<Rightarrow> string \<Rightarrow> pyfloat \<Rightarrow> gateway_metrics" where
  "observe_latency m model_id latency_seconds =
     m\<lparr>m_latency := histogram_observe (latency_bounds m) (m_latency m) model_id latency_seconds\<rparr>"

definition observe_limiter_latency ::
  "gateway_metrics \<Rightarrow> string \<Rightarrow> string \<Rightarrow> pyfloat \<Rightarrow> gateway_metrics" where
  "observe_limiter_latency m limiter backend latency_seconds =
     m\<lparr>m_limiter_latency := histogram_observe (limiter_latency_bounds m) (m_limiter_latency m)
         (limiter, backend) latency_seconds\<rparr>"

section \<open>Formatting\<close>

definition escape_label_value :: "string \<Rightarrow> string" where
  "escape_label_value value =
     py_replace_char (CHR 0x22) [CHR 0x5C, CHR 0x22]
       (py_replace_char (CHR 0x0A) [CHR 0x5C, CHR ''n'']
         (py_replace_char (CHR 0x5C) [CHR 0x5C, CHR 0x5C] value))"

fun strip_zeros_point :: "string \<Rightarrow> string" where
  "strip_zeros_point s = py_rstrip_char (CHR ''.'') (py_rstrip_char (CHR ''0'') s)"

text \<open>\<^verbatim>\<open>float(value).is_integer()\<close>, and the two branches of \<^verbatim>\<open>format_number\<close>.\<close>

definition format_number :: "pynum \<Rightarrow> string result" where
  "format_number value =
     bind_result (num_to_float value) (\<lambda>f.
       if (case f of Fin r \<Rightarrow> r = of_int \<lfloor>r\<rfloor> | _ \<Rightarrow> False)
       then Inr (int_str (case value of NInt i \<Rightarrow> i | NFlt g \<Rightarrow> (case g of Fin r \<Rightarrow> \<lfloor>r\<rfloor> | _ \<Rightarrow> 0)))
       else Inr (strip_zeros_point (fmt_fixed 6 f)))"

text \<open>
  \<^verbatim>\<open>f"{value:g}"\<close>: six significant digits, in fixed notation for decimal exponents from
  -4 to 5 and in scientific notation outside them, trailing zeros dropped.
\<close>

definition dec_exponent :: "rat \<Rightarrow> int" where
  \<comment> \<open>the decimal exponent of a positive rational\<close>
  "dec_exponent x =
     (if 1 \<le> x then int (length (nat_str \<lfloor>x\<rfloor>)) - 1
      else - int (length (nat_str (\<lceil>1 / x\<rceil> - 1))))"

definition pow10 :: "int \<Rightarrow> rat" where
  "pow10 k = (if 0 \<le> k then 10 ^ nat k else 1 / 10 ^ nat (- k))"

definition format_g_pos :: "rat \<Rightarrow> string" where
  "format_g_pos x =
     (let e0 = dec_exponent x;
          m0 = round_half_even (x * pow10 (5 - e0));
          e = (if m0 = 1000000 then e0 + 1 else e0);
          m = (if m0 = 1000000 then 100000 else m0)
      in if - 4 \<le> e \<and> e < 6
         then strip_zeros_point
           (if e = 5 then nat_str m @ ''.''
            else fmt_fixed (nat (5 - e)) (Fin (of_int m * pow10 (e - 5))))
         else strip_zeros_point (fmt_fixed 5 (Fin (of_int m / 100000))) @ ''e'' @
           (if e < 0 then ''-'' else ''+'') @ pad_zeros 2 (nat_str \<bar>e\<bar>))"

fun format_bucket :: "pyfloat \<Rightarrow> string" where
  "format_bucket (Fin r) =
     (if r = 0 then ''0'' else if r < 0 then ''-'' @ format_g_pos (- r) else format_g_pos r)"
| "format_bucket PosInf = ''inf''"
| "format_bucket NegInf = ''-inf''"
| "format_bucket NaN = ''nan''"

record metric_sample =
  ms_name :: string
  ms_labels :: "(string, string) dict"
  ms_value :: pynum

abbreviation sample :: "string \<Rightarrow> (string, string) dict \<Rightarrow> pynum \<Rightarrow> metric_sample" where
  "sample n l v \<equiv> \<lparr>ms_name = n, ms_labels = l, ms_value = v\<rparr>"

definition quote_label :: "string \<times> string \<Rightarrow> string" where
  "quote_label kv = fst kv @ ''='' @ [CHR 0x22] @ escape_label_value (snd kv) @ [CHR 0x22]"

definition format_sample :: "metric_sample \<Rightarrow> string result" where
  "format_sample s =
     (let labels = py_join '','' (map quote_label (sort (ms_labels s)));
          label_block = (if labels \<noteq> [] then ''{'' @ labels @ ''}'' else [])
      in bind_result (format_number (ms_value s)) (\<lambda>n.
           Inr (ms_name s @ label_block @ '' '' @ n)))"

definition format_samples :: "metric_sample list \<Rightarrow> string list result" where
  "format_samples samples = map_result format_sample samples"


section \<open>Samples\<close>

definition model_policy_samples :: "(string, model_policy) dict \<Rightarrow> metric_sample list" where
  "model_policy_samples model_policies =
     map (\<lambda>policy. sample ''security_gateway_model_policy_info''
        [(''model_id'', mp_model_id policy),
         (''input_tokens_per_minute'', int_str (input_tokens_per_minute policy)),
         (''requests_per_minute'', int_str (requests_per_minute policy)),
         (''sensitivity'', sensitivity policy),
         (''requires_reason'', if requires_reason policy then ''true'' else ''false'')]
        (NInt 1))
       (sort_key mp_model_id (map snd model_policies))"

definition pair_samples ::
  "string \<Rightarrow> string \<Rightarrow> string \<Rightarrow> (string \<times> string) counter_dict \<Rightarrow> metric_sample list" where
  \<comment> \<open>the list comprehension over \<^verbatim>\<open>sorted(counter.items())\<close> that four methods share\<close>
  "pair_samples name l1 l2 d =
     map (\<lambda>((a, b), n). sample name [(l1, a), (l2, b)] (NInt n)) (sort d)"

definition request_samples :: "gateway_metrics \<Rightarrow> metric_sample list" where
  "request_samples m =
     pair_samples ''security_gateway_requests_total'' ''model_id'' ''outcome'' (m_requests m)"

definition denial_samples :: "gateway_metrics \<Rightarrow> metric_sample list" where
  "denial_samples m =
     pair_samples ''security_gateway_denials_total'' ''model_id'' ''reason'' (m_denials m)"

definition auth_samples :: "gateway_metrics \<Rightarrow> metric_sample list" where
  "auth_samples m =
     pair_samples ''security_gateway_auth_events_total'' ''auth_method'' ''outcome'' (m_auth_events m)"

definition input_token_samples :: "gateway_metrics \<Rightarrow> metric_sample list" where
  "input_token_samples m =
     pair_samples ''security_gateway_input_tokens_total'' ''model_id'' ''outcome'' (m_input_tokens m)"

definition histogram_samples ::
  "string \<Rightarrow> pyfloat list \<Rightarrow> (string, string) dict \<Rightarrow> 'k histogram \<Rightarrow> 'k \<Rightarrow> metric_sample list" where
  \<comment> \<open>the body of the loop over keys in both latency methods\<close>
  "histogram_samples name bounds labels h k =
     map (\<lambda>b. sample (name @ ''_bucket'') (labels @ [(''le'', format_bucket b)])
        (NInt (counter_get (h_buckets h) (k, b)))) bounds @
     [sample (name @ ''_bucket'') (labels @ [(''le'', ''+Inf'')]) (NInt (counter_get (h_count h) k)),
      sample (name @ ''_count'') labels (NInt (counter_get (h_count h) k)),
      sample (name @ ''_sum'') labels (NFlt (dget_default (h_sum h) k (Fin 0)))]"

definition latency_samples :: "gateway_metrics \<Rightarrow> metric_sample list" where
  "latency_samples m =
     concat (map (\<lambda>model_id.
       histogram_samples ''security_gateway_inference_latency_seconds'' (latency_bounds m)
         [(''model_id'', model_id)] (m_latency m) model_id)
       (sort (dkeys (h_count (m_latency m)))))"

definition limiter_latency_samples :: "gateway_metrics \<Rightarrow> metric_sample list" where
  "limiter_latency_samples m =
     concat (map (\<lambda>(limiter, backend).
       histogram_samples ''security_gateway_limiter_latency_seconds'' (limiter_latency_bounds m)
         [(''backend'', backend), (''limiter'', limiter)] (m_limiter_latency m) (limiter, backend))
       (sort (dkeys (h_count (m_limiter_latency m)))))"

definition all_samples :: "gateway_metrics \<Rightarrow> (string, model_policy) dict \<Rightarrow> metric_sample list" where
  "all_samples m model_policies =
     model_policy_samples model_policies @ request_samples m @ denial_samples m @
     auth_samples m @ input_token_samples m @ latency_samples m @ limiter_latency_samples m"

section \<open>The exposition\<close>

definition named :: "string \<Rightarrow> metric_sample list \<Rightarrow> metric_sample list" where
  "named name samples = filter (\<lambda>s. ms_name s = name) samples"

definition named_prefix :: "string \<Rightarrow> metric_sample list \<Rightarrow> metric_sample list" where
  "named_prefix prefix samples = filter (\<lambda>s. py_startswith (ms_name s) prefix) samples"

definition render_prometheus ::
  "gateway_metrics \<Rightarrow> (string, model_policy) dict \<Rightarrow> string result" where
  "render_prometheus m model_policies =
    (let samples = all_samples m model_policies; audit_suppressed = m_audit_suppressed m in
     bind_result (format_samples (named ''security_gateway_model_policy_info'' samples)) (\<lambda>policy_lines.
     bind_result (format_samples (named ''security_gateway_requests_total'' samples)) (\<lambda>request_lines.
     bind_result (format_samples (named ''security_gateway_denials_total'' samples)) (\<lambda>denial_lines.
     bind_result (format_samples (named ''security_gateway_auth_events_total'' samples)) (\<lambda>auth_lines.
     bind_result (format_samples (named ''security_gateway_input_tokens_total'' samples)) (\<lambda>token_lines.
     bind_result (format_samples
       (named_prefix ''security_gateway_inference_latency_seconds'' samples)) (\<lambda>latency_lines.
     bind_result (format_samples
       (named_prefix ''security_gateway_limiter_latency_seconds'' samples)) (\<lambda>limiter_lines.
       Inr (py_join [CHR 0x0A] (
         [''# HELP security_gateway_model_policy_info Configured model policy metadata.'',
          ''# TYPE security_gateway_model_policy_info gauge''] @ policy_lines @
         [''# HELP security_gateway_requests_total Inference gateway requests by model and outcome.'',
          ''# TYPE security_gateway_requests_total counter''] @ request_lines @
         [''# HELP security_gateway_denials_total Denied requests by model and reason.'',
          ''# TYPE security_gateway_denials_total counter''] @ denial_lines @
         [''# HELP security_gateway_audit_suppressed_total Unauthenticated denials not written to the audit log.'',
          ''# TYPE security_gateway_audit_suppressed_total counter'',
          ''security_gateway_audit_suppressed_total '' @ int_str audit_suppressed] @
         [''# HELP security_gateway_auth_events_total Authentication attempts by method and outcome.'',
          ''# TYPE security_gateway_auth_events_total counter''] @ auth_lines @
         [''# HELP security_gateway_input_tokens_total Estimated input tokens by model and outcome.'',
          ''# TYPE security_gateway_input_tokens_total counter''] @ token_lines @
         [''# HELP security_gateway_inference_latency_seconds Successful inference latency histogram.'',
          ''# TYPE security_gateway_inference_latency_seconds histogram''] @ latency_lines @
         [''# HELP security_gateway_limiter_latency_seconds Limiter decision latency by control and backend.'',
          ''# TYPE security_gateway_limiter_latency_seconds histogram''] @ limiter_lines) @ [CHR 0x0A]))))))))
    )"

section \<open>What the exposition guarantees\<close>

text \<open>
  A scraper reads a label value up to the first quote that no backslash escapes, undoing the
  three escapes of the text format.
\<close>

fun scan_label_value :: "string \<Rightarrow> (string \<times> string) option" where
  "scan_label_value [] = None"
| "scan_label_value [c] = (if c = CHR 0x22 then Some ([], []) else None)"
| "scan_label_value (c # d # s) =
     (if c = CHR 0x22 then Some ([], d # s)
      else if c = CHR 0x5C then
        (if d = CHR ''n'' then map_option (\<lambda>(v, r). (CHR 0x0A # v, r)) (scan_label_value s)
         else map_option (\<lambda>(v, r). (d # v, r)) (scan_label_value s))
      else map_option (\<lambda>(v, r). (c # v, r)) (scan_label_value (d # s)))"

fun escape_char :: "char \<Rightarrow> string" where
  "escape_char c =
     (if c = CHR 0x5C then [CHR 0x5C, CHR 0x5C]
      else if c = CHR 0x0A then [CHR 0x5C, CHR ''n'']
      else if c = CHR 0x22 then [CHR 0x5C, CHR 0x22] else [c])"

lemma py_replace_char_append: "py_replace_char c r (s @ t) = py_replace_char c r s @ py_replace_char c r t"
  by (induction s) auto

lemma escape_label_value_eq: "escape_label_value v = concat (map escape_char v)"
  by (induction v) (auto simp: escape_label_value_def py_replace_char_append)

lemma scan_label_Cons:
  "s \<noteq> [] \<Longrightarrow> c \<noteq> CHR 0x22 \<Longrightarrow> c \<noteq> CHR 0x5C \<Longrightarrow>
     scan_label_value (c # s) = map_option (\<lambda>(v, r). (c # v, r)) (scan_label_value s)"
  by (cases s) auto

theorem escape_label_roundtrip:
  "scan_label_value (escape_label_value v @ CHR 0x22 # rest) = Some (v, rest) \<and>
   CHR 0x0A \<notin> set (escape_label_value v)"
proof (induction v)
  case Nil
  then show ?case by (cases rest) (simp_all add: escape_label_value_eq)
next
  case (Cons c v)
  then show ?case
    by (auto simp: escape_label_value_eq scan_label_Cons)
qed

section \<open>Counters are event counts\<close>

text \<open>A run of the registry's update methods, in any order.\<close>

datatype metric_event =
    RequestEvent string string "string list"
  | SuppressedEvent
  | AuthEvent string string
  | TokensEvent string string int
  | LatencyEvent string pyfloat
  | LimiterEvent string string pyfloat

fun apply_event :: "gateway_metrics \<Rightarrow> metric_event \<Rightarrow> gateway_metrics" where
  "apply_event m (RequestEvent model outcome reasons) = record_request m model outcome reasons"
| "apply_event m SuppressedEvent = record_audit_suppressed m"
| "apply_event m (AuthEvent meth outcome) = record_auth_event m meth outcome"
| "apply_event m (TokensEvent model outcome n) = record_input_tokens m model outcome n"
| "apply_event m (LatencyEvent model x) = observe_latency m model x"
| "apply_event m (LimiterEvent limiter backend x) = observe_limiter_latency m limiter backend x"

fun run_events :: "gateway_metrics \<Rightarrow> metric_event list \<Rightarrow> gateway_metrics" where
  "run_events m [] = m"
| "run_events m (e # es) = run_events (apply_event m e) es"

text \<open>How much one event adds to each counter.\<close>

fun request_weight :: "string \<times> string \<Rightarrow> metric_event \<Rightarrow> int" where
  "request_weight k (RequestEvent model outcome reasons) = (if (model, outcome) = k then 1 else 0)"
| "request_weight k _ = 0"

fun denial_weight :: "string \<times> string \<Rightarrow> metric_event \<Rightarrow> int" where
  "denial_weight (m, r) (RequestEvent model outcome reasons) =
     (if model = m \<and> outcome \<noteq> ''allowed''
      then int (count_list (if reasons = [] then [''unspecified''] else reasons) r) else 0)"
| "denial_weight k _ = 0"

fun suppressed_weight :: "metric_event \<Rightarrow> int" where
  "suppressed_weight SuppressedEvent = 1"
| "suppressed_weight _ = 0"

fun token_weight :: "string \<times> string \<Rightarrow> metric_event \<Rightarrow> int" where
  "token_weight k (TokensEvent model outcome n) = (if (model, outcome) = k then n else 0)"
| "token_weight k _ = 0"

fun latency_weight :: "string \<Rightarrow> pyfloat option \<Rightarrow> metric_event \<Rightarrow> int" where
  "latency_weight k b (LatencyEvent model x) =
     (if model = k \<and> (case b of None \<Rightarrow> True | Some bound \<Rightarrow> fle x bound) then 1 else 0)"
| "latency_weight k b _ = 0"

fun limiter_weight :: "string \<times> string \<Rightarrow> pyfloat option \<Rightarrow> metric_event \<Rightarrow> int" where
  "limiter_weight k b (LimiterEvent limiter backend x) =
     (if (limiter, backend) = k \<and> (case b of None \<Rightarrow> True | Some bound \<Rightarrow> fle x bound) then 1 else 0)"
| "limiter_weight k b _ = 0"

definition total_weight :: "(metric_event \<Rightarrow> int) \<Rightarrow> metric_event list \<Rightarrow> int" where
  "total_weight w es = sum_list (map w es)"

lemmas metric_ops =
  record_request_def record_audit_suppressed_def record_auth_event_def record_input_tokens_def
  observe_latency_def observe_limiter_latency_def

lemma count_denials_get:
  "counter_get (count_denials m rs d) (m', r) =
     counter_get d (m', r) + (if m' = m then int (count_list rs r) else 0)"
  by (induction rs arbitrary: d) auto

lemma apply_event_bounds [simp]:
  "latency_bounds (apply_event m e) = latency_bounds m"
  "limiter_latency_bounds (apply_event m e) = limiter_latency_bounds m"
  by (cases e; simp add: metric_ops Let_def)+

lemma apply_event_counters:
  "counter_get (m_requests (apply_event m e)) k = counter_get (m_requests m) k + request_weight k e"
  "counter_get (m_denials (apply_event m e)) k = counter_get (m_denials m) k + denial_weight k e"
  "m_audit_suppressed (apply_event m e) = m_audit_suppressed m + suppressed_weight e"
  "counter_get (m_input_tokens (apply_event m e)) k = counter_get (m_input_tokens m) k + token_weight k e"
  by (cases e; cases k; simp add: metric_ops Let_def count_denials_get)+

lemma apply_event_latency:
  "counter_get (h_count (m_latency (apply_event m e))) k =
     counter_get (h_count (m_latency m)) k + latency_weight k None e"
  "distinct (latency_bounds m) \<Longrightarrow> b \<in> set (latency_bounds m) \<Longrightarrow>
     counter_get (h_buckets (m_latency (apply_event m e))) (k, b) =
     counter_get (h_buckets (m_latency m)) (k, b) + latency_weight k (Some b) e"
  by (cases e; simp add: metric_ops Let_def count_buckets_get)+

lemma apply_event_limiter:
  "counter_get (h_count (m_limiter_latency (apply_event m e))) q =
     counter_get (h_count (m_limiter_latency m)) q + limiter_weight q None e"
  "distinct (limiter_latency_bounds m) \<Longrightarrow> b \<in> set (limiter_latency_bounds m) \<Longrightarrow>
     counter_get (h_buckets (m_limiter_latency (apply_event m e))) (q, b) =
     counter_get (h_buckets (m_limiter_latency m)) (q, b) + limiter_weight q (Some b) e"
  by (cases e; cases q; simp add: metric_ops Let_def count_buckets_get)+

lemmas apply_event_facts = apply_event_counters apply_event_latency apply_event_limiter

lemma run_events_counters:
  "counter_get (m_requests (run_events m es)) k = counter_get (m_requests m) k + total_weight (request_weight k) es"
  "counter_get (m_denials (run_events m es)) k = counter_get (m_denials m) k + total_weight (denial_weight k) es"
  "m_audit_suppressed (run_events m es) = m_audit_suppressed m + total_weight suppressed_weight es"
  "counter_get (m_input_tokens (run_events m es)) k = counter_get (m_input_tokens m) k + total_weight (token_weight k) es"
  by (induction es arbitrary: m) (simp_all add: total_weight_def apply_event_counters)

lemma run_events_latency:
  "counter_get (h_count (m_latency (run_events m es))) k =
     counter_get (h_count (m_latency m)) k + total_weight (latency_weight k None) es"
  "distinct (latency_bounds m) \<Longrightarrow> b \<in> set (latency_bounds m) \<Longrightarrow>
     counter_get (h_buckets (m_latency (run_events m es))) (k, b) =
     counter_get (h_buckets (m_latency m)) (k, b) + total_weight (latency_weight k (Some b)) es"
  by (induction es arbitrary: m) (simp_all add: total_weight_def apply_event_latency)

lemma run_events_limiter:
  "counter_get (h_count (m_limiter_latency (run_events m es))) q =
     counter_get (h_count (m_limiter_latency m)) q + total_weight (limiter_weight q None) es"
  "distinct (limiter_latency_bounds m) \<Longrightarrow> b \<in> set (limiter_latency_bounds m) \<Longrightarrow>
     counter_get (h_buckets (m_limiter_latency (run_events m es))) (q, b) =
     counter_get (h_buckets (m_limiter_latency m)) (q, b) + total_weight (limiter_weight q (Some b)) es"
  by (induction es arbitrary: m) (simp_all add: total_weight_def apply_event_limiter)

lemma new_metrics_fields [simp]:
  "latency_bounds (new_gateway_metrics bs ls) = sort bs"
  "limiter_latency_bounds (new_gateway_metrics bs ls) = sort ls"
  "m_requests (new_gateway_metrics bs ls) = []"
  "m_denials (new_gateway_metrics bs ls) = []"
  "m_audit_suppressed (new_gateway_metrics bs ls) = 0"
  "m_input_tokens (new_gateway_metrics bs ls) = []"
  "m_latency (new_gateway_metrics bs ls) = empty_histogram"
  "m_limiter_latency (new_gateway_metrics bs ls) = empty_histogram"
  by (simp_all add: new_gateway_metrics_def)

lemma empty_histogram_fields [simp]:
  "h_count empty_histogram = []" "h_buckets empty_histogram = []"
  by (simp_all add: empty_histogram_def)

text \<open>
  After any sequence of recorded events, the request, denial, token and suppression
  counters equal the totals of those events, per label.
\<close>

theorem metrics_count_events:
  "counter_get (m_requests (run_events (new_gateway_metrics bs ls) es)) (model, outcome) =
     total_weight (request_weight (model, outcome)) es \<and>
   counter_get (m_denials (run_events (new_gateway_metrics bs ls) es)) (model, reason) =
     total_weight (denial_weight (model, reason)) es \<and>
   counter_get (m_input_tokens (run_events (new_gateway_metrics bs ls) es)) (model, outcome) =
     total_weight (token_weight (model, outcome)) es \<and>
   m_audit_suppressed (run_events (new_gateway_metrics bs ls) es) = total_weight suppressed_weight es"
  by (simp add: run_events_counters)

lemma latency_weight_mono:
  "fle b b' \<Longrightarrow> latency_weight k (Some b) e \<le> latency_weight k (Some b') e"
  "latency_weight k (Some b) e \<le> latency_weight k None e"
  by (cases e; auto intro: fle_trans)+

lemma total_weight_mono: "(\<And>e. w e \<le> w' e) \<Longrightarrow> total_weight w es \<le> total_weight w' es"
  by (induction es) (auto simp: total_weight_def intro: add_mono)

theorem latency_histogram_cumulative:
  assumes "distinct bs" and "b \<in> set bs" and "b' \<in> set bs" and "fle b b'"
  shows "let m = run_events (new_gateway_metrics bs ls) es in
    counter_get (h_buckets (m_latency m)) (k, b) = total_weight (latency_weight k (Some b)) es \<and>
    counter_get (h_buckets (m_latency m)) (k, b) \<le> counter_get (h_buckets (m_latency m)) (k, b') \<and>
    counter_get (h_buckets (m_latency m)) (k, b') \<le> counter_get (h_count (m_latency m)) k"
  using assms by (simp add: run_events_latency Let_def total_weight_mono latency_weight_mono)

section \<open>No sample is lost or rendered twice\<close>

lemma named_append [simp]:
  "named n (xs @ ys) = named n xs @ named n ys"
  "named_prefix n (xs @ ys) = named_prefix n xs @ named_prefix n ys"
  by (simp_all add: named_def named_prefix_def)

lemma named_pair_samples [simp]:
  "named n (pair_samples name l1 l2 d) = (if name = n then pair_samples name l1 l2 d else [])"
  "named_prefix n (pair_samples name l1 l2 d) =
     (if py_startswith name n then pair_samples name l1 l2 d else [])"
  by (auto simp: named_def named_prefix_def pair_samples_def filter_map comp_def case_prod_beta)

lemma named_policy_samples [simp]:
  "named n (model_policy_samples p) =
     (if ''security_gateway_model_policy_info'' = n then model_policy_samples p else [])"
  "named_prefix n (model_policy_samples p) =
     (if py_startswith ''security_gateway_model_policy_info'' n then model_policy_samples p else [])"
  by (auto simp: named_def named_prefix_def model_policy_samples_def filter_map comp_def)

lemma filter_concat_all:
  "(\<And>x. x \<in> set xs \<Longrightarrow> filter P (f x) = (if Q then f x else [])) \<Longrightarrow>
     filter P (concat (map f xs)) = (if Q then concat (map f xs) else [])"
  by (induction xs) auto

lemma histogram_sample_names:
  "s \<in> set (histogram_samples name bs l h k) \<Longrightarrow>
     ms_name s \<in> {name @ ''_bucket'', name @ ''_count'', name @ ''_sum''}"
  by (auto simp: histogram_samples_def)

lemma latency_sample_names:
  "s \<in> set (latency_samples m) \<Longrightarrow>
     \<exists>t. ms_name s = ''security_gateway_inference_latency_seconds'' @ t \<and> t \<noteq> []"
  "s \<in> set (limiter_latency_samples m) \<Longrightarrow>
     \<exists>t. ms_name s = ''security_gateway_limiter_latency_seconds'' @ t \<and> t \<noteq> []"
  by (fastforce simp: latency_samples_def limiter_latency_samples_def dest: histogram_sample_names)+

theorem render_sections_complete:
  "named ''security_gateway_model_policy_info'' (all_samples m p) = model_policy_samples p \<and>
   named ''security_gateway_requests_total'' (all_samples m p) = request_samples m \<and>
   named ''security_gateway_denials_total'' (all_samples m p) = denial_samples m \<and>
   named ''security_gateway_auth_events_total'' (all_samples m p) = auth_samples m \<and>
   named ''security_gateway_input_tokens_total'' (all_samples m p) = input_token_samples m \<and>
   named_prefix ''security_gateway_inference_latency_seconds'' (all_samples m p) = latency_samples m \<and>
   named_prefix ''security_gateway_limiter_latency_seconds'' (all_samples m p) = limiter_latency_samples m"
proof -
  have lat: "filter P (latency_samples m) = (if Q then latency_samples m else [])"
    if "\<And>s t. ms_name s = ''security_gateway_inference_latency_seconds'' @ t \<Longrightarrow> t \<noteq> [] \<Longrightarrow> P s = Q" for P Q
    using latency_sample_names(1) [of _ m] that by (cases Q) (fastforce simp: filter_id_conv filter_empty_conv)+
  have lim: "filter P (limiter_latency_samples m) = (if Q then limiter_latency_samples m else [])"
    if "\<And>s t. ms_name s = ''security_gateway_limiter_latency_seconds'' @ t \<Longrightarrow> t \<noteq> [] \<Longrightarrow> P s = Q" for P Q
    using latency_sample_names(2) [of _ m] that by (cases Q) (fastforce simp: filter_id_conv filter_empty_conv)+
  note groups = request_samples_def denial_samples_def auth_samples_def input_token_samples_def
  show ?thesis
    by (simp add: all_samples_def groups py_startswith_def)
      (simp add: named_def named_prefix_def py_startswith_def
        lat [where Q = False] lat [where Q = True] lim [where Q = False] lim [where Q = True])
qed

end
