(* ===== verification/Identity.thy ===== *)
theory Identity
  imports Models
begin

text \<open>
  \<^verbatim>\<open>gateway/identity.py\<close>: who makes a request. A bearer token is a compact JWT signed with
  HS256; the demo header names a principal of the registry and only counts when no
  \<^verbatim>\<open>Authorization\<close> header is present.

  Two library calls are parameters, collected in \<open>jwt_runtime\<close>: HMAC-SHA256, and the
  UTF-8 decoding plus \<^verbatim>\<open>json.loads\<close> of a token segment. Byte strings are strings here. The
  base64 decoder of the standard library is modelled, leniency included.
\<close>

section \<open>Settings\<close>

record auth_settings =
  jwt_issuer :: "string option"
  jwt_audience :: "string option"
  jwt_hs256_secret :: "string option"
  roles_claim :: string
  scopes_claim :: string
  allow_demo_principals :: bool
  clock_skew_seconds :: int
  max_token_lifetime_seconds :: int

definition parse_bool :: "string option \<Rightarrow> bool \<Rightarrow> bool" where
  "parse_bool value dflt =
     (case value of
        None \<Rightarrow> dflt
      | Some v \<Rightarrow> py_lower (py_strip v) \<in> {''1'', ''true'', ''yes'', ''on''})"

definition auth_settings_from_env :: "environ \<Rightarrow> auth_settings result" where
  "auth_settings_from_env env =
     bind_result (int_or_value_error (getenv env ''OIDC_CLOCK_SKEW_SECONDS'' ''60'')) (\<lambda>skew.
     bind_result (int_or_value_error (getenv env ''OIDC_MAX_TOKEN_LIFETIME_SECONDS'' ''86400'')) (\<lambda>life.
       Inr \<lparr>jwt_issuer = empty_to_none (env ''OIDC_ISSUER''),
            jwt_audience = empty_to_none (env ''OIDC_AUDIENCE''),
            jwt_hs256_secret = empty_to_none (env ''OIDC_JWT_HS256_SECRET''),
            roles_claim = getenv env ''OIDC_ROLES_CLAIM'' ''roles'',
            scopes_claim = getenv env ''OIDC_SCOPES_CLAIM'' ''scope'',
            allow_demo_principals = parse_bool (env ''ALLOW_DEMO_PRINCIPALS'') False,
            clock_skew_seconds = skew,
            max_token_lifetime_seconds = life\<rparr>))"

record resolved_principal =
  rp_principal :: "principal option"
  rp_auth_method :: string
  rp_issuer :: "string option"
  rp_subject :: "string option"
  rp_failure_reason :: "string option"

section \<open>Base64url\<close>

text \<open>
  \<^verbatim>\<open>base64.urlsafe_b64decode\<close> maps \<^verbatim>\<open>-\<close> and \<^verbatim>\<open>_\<close> to \<^verbatim>\<open>+\<close> and \<^verbatim>\<open>/\<close> and runs
  \<^verbatim>\<open>binascii.a2b_base64\<close> in its lenient mode: characters outside the alphabet are skipped, and
  enough padding ends the input. The arguments of \<open>a2b_base64\<close> are the position in the
  current group of four, the bits left over and the pads seen.
\<close>

definition b64_translate :: "char \<Rightarrow> char" where
  "b64_translate c = (if c = CHR ''-'' then CHR ''+'' else if c = CHR ''_'' then CHR ''/'' else c)"

definition b64_value :: "char \<Rightarrow> int option" where
  "b64_value c =
     (let n = (of_char c :: int) in
      if 65 \<le> n \<and> n \<le> 90 then Some (n - 65)
      else if 97 \<le> n \<and> n \<le> 122 then Some (n - 71)
      else if 48 \<le> n \<and> n \<le> 57 then Some (n + 4)
      else if n = 43 then Some 62
      else if n = 47 then Some 63
      else None)"

definition emit_byte :: "int \<Rightarrow> string result \<Rightarrow> string result" where
  "emit_byte b rest = bind_result rest (\<lambda>bs. Inr (char_of b # bs))"

fun a2b_base64 :: "int \<Rightarrow> int \<Rightarrow> int \<Rightarrow> string \<Rightarrow> string result" where
  "a2b_base64 quad left pads [] =
     (if quad = 0 then Inr []
      else Inl (ValueError (if quad = 1 then ''number of data characters cannot be 1 more than a multiple of 4''
                            else ''Incorrect padding'')))"
| "a2b_base64 quad left pads (c # s) =
     (if c = CHR ''='' then
        (if 2 \<le> quad
         then if 4 \<le> quad + (pads + 1) then Inr [] else a2b_base64 quad left (pads + 1) s
         else a2b_base64 quad left pads s)
      else case b64_value c of
          None \<Rightarrow> a2b_base64 quad left pads s
        | Some v \<Rightarrow>
            if quad = 0 then a2b_base64 1 v 0 s
            else if quad = 1 then emit_byte (left * 4 + v div 16) (a2b_base64 2 (v mod 16) 0 s)
            else if quad = 2 then emit_byte (left * 16 + v div 4) (a2b_base64 3 (v mod 4) 0 s)
            else emit_byte (left * 64 + v) (a2b_base64 0 0 0 s))"

definition ascii_encode :: "string \<Rightarrow> string result" where
  "ascii_encode s =
     (if list_all (\<lambda>c. (of_char c :: int) < 128) s then Inr s
      else Inl (ValueError ''ordinal not in range(128)''))"

definition base64url_padding :: "string \<Rightarrow> string" where
  "base64url_padding value = replicate (nat ((- int (length value)) mod 4)) (CHR ''='')"

text \<open>An exception of the \<^verbatim>\<open>ValueError\<close> family becomes "malformed jwt"; others pass.\<close>

fun is_value_error :: "py_error \<Rightarrow> bool" where
  "is_value_error (ValueError m) = True"
| "is_value_error (AuthenticationError m) = True"
| "is_value_error e = False"

definition except_value_error :: "'a result \<Rightarrow> py_error \<Rightarrow> 'a result" where
  "except_value_error r e =
     (case r of Inr x \<Rightarrow> Inr x | Inl e' \<Rightarrow> if is_value_error e' then Inl e else Inl e')"

definition base64url_decode :: "string \<Rightarrow> string result" where
  "base64url_decode value =
     except_value_error
       (bind_result (ascii_encode (value @ base64url_padding value)) (\<lambda>b.
          a2b_base64 0 0 0 (map b64_translate b)))
       (AuthenticationError ''malformed jwt'')"

section \<open>Claims\<close>

type_synonym claims = "(string, pyval) dict"

definition claim :: "claims \<Rightarrow> string \<Rightarrow> pyval" where
  \<comment> \<open>\<^verbatim>\<open>claims.get(name)\<close>: an absent claim and a JSON null are both \<^verbatim>\<open>None\<close>\<close>
  "claim c name = dget_default c name VNone"

definition claim_values :: "pyval \<Rightarrow> string set" where
  "claim_values value =
     (case value of
        VStr s \<Rightarrow> set (py_split_ws (py_replace_char (CHR '','') '' '' s))
      | VList xs \<Rightarrow> set (concat (map (\<lambda>part. case part of VStr s \<Rightarrow> if s \<noteq> [] then [s] else [] | _ \<Rightarrow> []) xs))
      | _ \<Rightarrow> {})"

definition numeric_date :: "pyval \<Rightarrow> string \<Rightarrow> pyfloat result" where
  \<comment> \<open>a bool is an int to \<^verbatim>\<open>isinstance\<close>\<close>
  "numeric_date value claim_name =
     (case value of
        VNum n \<Rightarrow> num_to_float n
      | VBool b \<Rightarrow> num_to_float (NInt (if b then 1 else 0))
      | _ \<Rightarrow> Inl (AuthenticationError (''invalid '' @ claim_name @ '' claim'')))"

fun first_string :: "pyval list \<Rightarrow> string" where
  "first_string [] = ''unknown''"
| "first_string (v # vs) =
     (case v of VStr s \<Rightarrow> if s \<noteq> [] then s else first_string vs | _ \<Rightarrow> first_string vs)"

definition check_not_before :: "claims \<Rightarrow> string \<Rightarrow> string \<Rightarrow> int \<Rightarrow> pyfloat \<Rightarrow> unit result" where
  \<comment> \<open>the same three lines for \<^verbatim>\<open>nbf\<close> and for \<^verbatim>\<open>iat\<close>\<close>
  "check_not_before c name msg skew now =
     (if claim c name = VNone then Inr ()
      else bind_result (numeric_date (claim c name) name) (\<lambda>t.
           bind_result (num_sub (NFlt t) (NInt skew)) (\<lambda>d.
             check (\<not> num_lt (NFlt now) d) (AuthenticationError msg))))"

definition validate_claims :: "claims \<Rightarrow> auth_settings \<Rightarrow> pyfloat \<Rightarrow> unit result" where
  "validate_claims c settings now =
     (let skew = clock_skew_seconds settings in
      bind_result (check (\<not> (truthy_str (jwt_issuer settings) \<and>
          claim c ''iss'' \<noteq> VStr (the (jwt_issuer settings))))
        (AuthenticationError ''unexpected issuer'')) (\<lambda>_.
      bind_result (check (\<not> (truthy_str (jwt_audience settings) \<and>
          the (jwt_audience settings) \<notin> claim_values (claim c ''aud'')))
        (AuthenticationError ''unexpected audience'')) (\<lambda>_.
      bind_result (check (claim c ''exp'' \<noteq> VNone) (AuthenticationError ''missing expiry'')) (\<lambda>_.
      bind_result (numeric_date (claim c ''exp'') ''exp'') (\<lambda>expires_at.
      bind_result (num_add (NFlt expires_at) (NInt skew)) (\<lambda>deadline.
      bind_result (check (\<not> num_lt deadline (NFlt now)) (AuthenticationError ''token expired'')) (\<lambda>_.
      bind_result (check (\<not> num_lt (NInt (max_token_lifetime_seconds settings + skew))
          (NFlt (fsub expires_at now))) (AuthenticationError ''token lifetime too long'')) (\<lambda>_.
      bind_result (check_not_before c ''nbf'' ''token not yet valid'' skew now) (\<lambda>_.
        check_not_before c ''iat'' ''token issued in the future'' skew now)))))))))"

section \<open>Tokens\<close>

record jwt_runtime =
  hmac_sha256 :: "string \<Rightarrow> string \<Rightarrow> string"
  json_loads :: "string \<Rightarrow> pyval result"

definition utf8_encode :: "string \<Rightarrow> string" where
  \<comment> \<open>the UTF-8 bytes of a string of code points below 256\<close>
  "utf8_encode s =
     concat (map (\<lambda>c. let n = (of_char c :: int) in
       if n < 128 then [c] else [char_of (192 + n div 64), char_of (128 + n mod 64)]) s)"

definition decode_json :: "jwt_runtime \<Rightarrow> string \<Rightarrow> claims result" where
  "decode_json rt segment =
     bind_result (except_value_error
         (bind_result (base64url_decode segment) (json_loads rt)) (AuthenticationError ''malformed jwt''))
       (\<lambda>value. case value of VDict d \<Rightarrow> Inr d | _ \<Rightarrow> Inl (AuthenticationError ''malformed jwt''))"

definition extract_bearer_token :: "string \<Rightarrow> string result" where
  "extract_bearer_token authorization_header =
     (let (scheme, sep, token) = py_partition (CHR '' '') (py_strip authorization_header) in
      if py_lower scheme \<noteq> ''bearer'' \<or> py_strip token = []
      then Inl (AuthenticationError ''invalid authorization scheme'')
      else Inr (py_strip token))"

definition jwt_parts :: "string \<Rightarrow> (string \<times> string \<times> string) result" where
  "jwt_parts token =
     (case py_split (CHR ''.'') token of
        [h, p, s] \<Rightarrow> Inr (h, p, s)
      | _ \<Rightarrow> Inl (AuthenticationError ''malformed jwt''))"

definition verify_hs256_jwt ::
  "jwt_runtime \<Rightarrow> string \<Rightarrow> auth_settings \<Rightarrow> pyfloat \<Rightarrow> claims result" where
  "verify_hs256_jwt rt token settings now =
     (if \<not> truthy_str (jwt_hs256_secret settings)
      then Inl (AuthenticationError ''jwt verifier not configured'')
      else
        bind_result (jwt_parts token) (\<lambda>(h, p, s).
        bind_result (decode_json rt h) (\<lambda>header.
        bind_result (decode_json rt p) (\<lambda>payload.
        bind_result (check (claim header ''alg'' = VStr ''HS256'')
          (AuthenticationError ''unsupported jwt algorithm'')) (\<lambda>_.
        bind_result (ascii_encode (h @ ''.'' @ p)) (\<lambda>signing_input.
        bind_result (base64url_decode s) (\<lambda>actual.
        bind_result (check
            (hmac_sha256 rt (utf8_encode (the (jwt_hs256_secret settings))) signing_input = actual)
            (AuthenticationError ''invalid jwt signature'')) (\<lambda>_.
        bind_result (validate_claims payload settings now) (\<lambda>_. Inr payload)))))))))"

definition principal_from_claims :: "claims \<Rightarrow> auth_settings \<Rightarrow> resolved_principal result" where
  "principal_from_claims c settings =
     (case claim c ''sub'' of
        VStr subject \<Rightarrow>
          if subject = [] then Inl (AuthenticationError ''missing jwt subject'')
          else Inr
            \<lparr>rp_principal = Some
               \<lparr>p_principal_id = subject,
                p_display_name =
                  first_string [claim c ''name'', claim c ''preferred_username'', claim c ''email'', VStr subject],
                roles = claim_values (claim c (roles_claim settings)) \<union>
                        claim_values (claim c (scopes_claim settings))\<rparr>,
             rp_auth_method = ''jwt'',
             rp_issuer = Some (first_string [claim c ''iss'']),
             rp_subject = Some subject,
             rp_failure_reason = None\<rparr>
      | _ \<Rightarrow> Inl (AuthenticationError ''missing jwt subject''))"

definition resolve_principal ::
  "jwt_runtime \<Rightarrow> string option \<Rightarrow> string option \<Rightarrow> auth_settings \<Rightarrow> pyfloat \<Rightarrow> resolved_principal result" where
  "resolve_principal rt authorization_header demo_principal_id settings now =
     (if truthy_str authorization_header then
        (case bind_result (extract_bearer_token (the authorization_header)) (\<lambda>token.
              bind_result (verify_hs256_jwt rt token settings now) (\<lambda>c.
                principal_from_claims c settings)) of
           Inl (AuthenticationError msg) \<Rightarrow>
             Inr \<lparr>rp_principal = None, rp_auth_method = ''jwt'', rp_issuer = None,
                  rp_subject = None, rp_failure_reason = Some msg\<rparr>
         | r \<Rightarrow> r)
      else if truthy_str demo_principal_id then
        (if \<not> allow_demo_principals settings then
           Inr \<lparr>rp_principal = None, rp_auth_method = ''demo-header'', rp_issuer = None,
                rp_subject = demo_principal_id,
                rp_failure_reason = Some ''demo principals disabled''\<rparr>
         else
           let principal = dget PRINCIPALS (the demo_principal_id) in
           Inr \<lparr>rp_principal = principal, rp_auth_method = ''demo-header'',
                rp_issuer = Some ''local-demo'', rp_subject = demo_principal_id,
                rp_failure_reason =
                  (if principal \<noteq> None then None else Some ''unknown demo principal'')\<rparr>)
      else Inr \<lparr>rp_principal = None, rp_auth_method = ''none'', rp_issuer = None, rp_subject = None,
                rp_failure_reason = Some ''missing bearer token or demo principal header''\<rparr>)"

section \<open>Base64url round trip\<close>

text \<open>The encoder a token issuer uses (\<^verbatim>\<open>urlsafe_b64encode(...).rstrip(b"=")\<close>).\<close>

definition b64url_char :: "int \<Rightarrow> char" where
  "b64url_char i =
     (if i < 26 then char_of (i + 65) else if i < 52 then char_of (i + 71)
      else if i < 62 then char_of (i - 4) else if i = 62 then CHR ''-'' else CHR ''_'')"

fun b64url_encode :: "string \<Rightarrow> string" where
  "b64url_encode [] = []"
| "b64url_encode [a] =
     (let x = (of_char a :: int) in [b64url_char (x div 4), b64url_char (x mod 4 * 16)])"
| "b64url_encode [a, b] =
     (let x = (of_char a :: int); y = (of_char b :: int) in
      [b64url_char (x div 4), b64url_char (x mod 4 * 16 + y div 16), b64url_char (y mod 16 * 4)])"
| "b64url_encode (a # b # c # s) =
     (let x = (of_char a :: int); y = (of_char b :: int); z = (of_char c :: int) in
      [b64url_char (x div 4), b64url_char (x mod 4 * 16 + y div 16),
       b64url_char (y mod 16 * 4 + z div 64), b64url_char (z mod 64)] @ b64url_encode s)"

lemma b64url_char_table:
  "list_all (\<lambda>i. b64_value (b64_translate (b64url_char i)) = Some i \<and>
     b64_translate (b64url_char i) \<noteq> CHR ''='' \<and> (of_char (b64url_char i) :: int) < 128) [0..63]"
  by code_simp

lemma b64url_char_facts:
  assumes "0 \<le> i" "i < 64"
  shows "b64_value (b64_translate (b64url_char i)) = Some i"
    "b64_translate (b64url_char i) \<noteq> CHR ''=''" "(of_char (b64url_char i) :: int) < 128"
proof -
  have "i \<in> set [0..63]" using assms by simp
  with b64url_char_table show "b64_value (b64_translate (b64url_char i)) = Some i"
    "b64_translate (b64url_char i) \<noteq> CHR ''=''" "(of_char (b64url_char i) :: int) < 128"
    by (simp_all add: list_all_iff)
qed

lemma of_char_bounds: "0 \<le> (of_char c :: int)" "(of_char c :: int) < 256"
proof -
  have "(of_char c :: int) mod 256 = of_char c" by simp
  then show "0 \<le> (of_char c :: int)" "(of_char c :: int) < 256"
    by (metis pos_mod_sign pos_mod_bound zero_less_numeral)+
qed

lemma sextet_ranges:
  fixes x y z :: int
  assumes "0 \<le> x" "x < 256" "0 \<le> y" "y < 256" "0 \<le> z" "z < 256"
  shows "0 \<le> x div 4" "x div 4 < 64"
    "0 \<le> x mod 4 * 16" "x mod 4 * 16 < 64"
    "0 \<le> x mod 4 * 16 + y div 16" "x mod 4 * 16 + y div 16 < 64"
    "0 \<le> y mod 16 * 4" "y mod 16 * 4 < 64"
    "0 \<le> y mod 16 * 4 + z div 64" "y mod 16 * 4 + z div 64 < 64"
    "0 \<le> z mod 64" "z mod 64 < 64"
  using assms by presburger+

lemma sextet_carries:
  fixes x :: int
  assumes "0 \<le> x" "x < 256"
  shows "x div 16 div 16 = 0" "x div 16 mod 16 = x div 16"
    "x div 64 div 4 = 0" "x div 64 mod 4 = x div 64"
  using assms by auto

lemmas sextets = sextet_ranges [OF of_char_bounds of_char_bounds of_char_bounds]
  sextet_carries [OF of_char_bounds]

lemma base64url_padding_step:
  "base64url_padding (a # b # c # d # s) = base64url_padding s"
proof -
  have "(- int (length (a # b # c # d # s))) mod 4 = (- int (length s)) mod 4" by simp presburger
  then show ?thesis by (simp only: base64url_padding_def)
qed

lemma a2b_encode:
  "a2b_base64 0 0 0 (map b64_translate (b64url_encode bs @ base64url_padding (b64url_encode bs))) = Inr bs"
proof (induction bs rule: b64url_encode.induct)
  case (2 a)
  have "b64_translate (CHR ''='') = CHR ''=''" by (simp add: b64_translate_def)
  then show ?case
    by (simp add: Let_def base64url_padding_def b64url_char_facts sextets emit_byte_def
        numeral_2_eq_2)
next
  case (3 a b)
  have "b64_translate (CHR ''='') = CHR ''=''" by (simp add: b64_translate_def)
  then show ?case
    by (simp add: Let_def base64url_padding_def b64url_char_facts sextets emit_byte_def)
next
  case (4 a b c s)
  then show ?case
    by (simp add: Let_def base64url_padding_step b64url_char_facts sextets emit_byte_def)
qed (simp add: base64url_padding_def)

lemma b64url_encode_ascii:
  "list_all (\<lambda>c. (of_char c :: int) < 128) (b64url_encode bs @ base64url_padding xs)"
  by (induction bs rule: b64url_encode.induct)
    (simp_all add: Let_def b64url_char_facts sextets base64url_padding_def list_all_iff)

lemma base64url_decode_encode: "base64url_decode (b64url_encode bs) = Inr bs"
  using a2b_encode [of bs] b64url_encode_ascii [of bs "b64url_encode bs"]
  by (simp add: base64url_decode_def ascii_encode_def except_value_error_def)

text \<open>
  Decoding the unpadded URL-safe base64 encoding of any byte string gives the byte string
  back.
\<close>

theorem base64url_roundtrip: "base64url_decode (b64url_encode bs) = Inr bs"
  by (rule base64url_decode_encode)

section \<open>Authentication fails closed\<close>

definition audience_ok :: "claims \<Rightarrow> auth_settings \<Rightarrow> bool" where
  "audience_ok c settings \<longleftrightarrow>
     \<not> truthy_str (jwt_audience settings) \<or>
     the (jwt_audience settings) \<in> claim_values (claim c ''aud'')"

definition issuer_ok :: "claims \<Rightarrow> auth_settings \<Rightarrow> bool" where
  "issuer_ok c settings \<longleftrightarrow>
     \<not> truthy_str (jwt_issuer settings) \<or> claim c ''iss'' = VStr (the (jwt_issuer settings))"

text \<open>A token is signed when the secret's MAC of its first two segments is its third.\<close>

definition token_signed :: "jwt_runtime \<Rightarrow> string \<Rightarrow> string \<Rightarrow> claims \<Rightarrow> bool" where
  "token_signed rt key token c \<longleftrightarrow>
     (\<exists>h p s header. jwt_parts token = Inr (h, p, s) \<and>
        decode_json rt h = Inr header \<and> claim header ''alg'' = VStr ''HS256'' \<and>
        decode_json rt p = Inr c \<and>
        base64url_decode s = Inr (hmac_sha256 rt (utf8_encode key) (h @ ''.'' @ p)))"

lemma ascii_encode_Inr: "ascii_encode s = Inr t \<Longrightarrow> t = s"
  by (auto simp: ascii_encode_def split: if_splits)

lemma verify_signed:
  assumes "verify_hs256_jwt rt token settings now = Inr c"
  shows "truthy_str (jwt_hs256_secret settings) \<and>
    token_signed rt (the (jwt_hs256_secret settings)) token c \<and>
    validate_claims c settings now = Inr ()"
  using assms
  by (auto simp: verify_hs256_jwt_def token_signed_def dest: ascii_encode_Inr split: if_splits)

lemma validate_claims_ok:
  assumes "validate_claims c settings now = Inr ()"
  shows "issuer_ok c settings \<and> audience_ok c settings \<and> claim c ''exp'' \<noteq> VNone"
  using assms
  unfolding validate_claims_def Let_def bind_check issuer_ok_def audience_ok_def by blast

lemma principal_from_claims_ok:
  assumes "principal_from_claims c settings = Inr r"
  shows "\<exists>p. rp_principal r = Some p \<and> rp_failure_reason r = None \<and> rp_auth_method r = ''jwt'' \<and>
    claim c ''sub'' = VStr (p_principal_id p) \<and> p_principal_id p \<noteq> [] \<and>
    rp_subject r = Some (p_principal_id p) \<and>
    roles p = claim_values (claim c (roles_claim settings)) \<union>
      claim_values (claim c (scopes_claim settings))"
proof -
  obtain subject where "claim c ''sub'' = VStr subject"
    using assms by (cases "claim c ''sub''") (simp_all add: principal_from_claims_def)
  then show ?thesis
    using assms by (cases "subject = []") (auto simp: principal_from_claims_def)
qed

lemma resolve_jwt:
  assumes "resolve_principal rt (Some header) demo settings now = Inr r" "header \<noteq> []"
    and "rp_principal r = Some p"
  obtains token c where "extract_bearer_token header = Inr token"
    "verify_hs256_jwt rt token settings now = Inr c" "principal_from_claims c settings = Inr r"
  using assms
  by (auto simp: resolve_principal_def bind_result_def split: sum.splits py_error.splits)

text \<open>
  C: a principal from the \<^verbatim>\<open>Authorization\<close> header always comes from a bearer token whose MAC
  under the configured secret matches, whose algorithm is HS256, whose issuer and audience
  are the configured ones and which carries an expiry; its id and roles are the claims'.
\<close>

text \<open>
  C6: If a request with an Authorization header resolves to a principal, then its bearer token
  carries an HS256 signature by the configured secret over exactly the header and payload that
  were read, issuer and audience match the configuration, an expiry is present, and the
  principal's id and roles are those of the signed claims.
\<close>

theorem jwt_principal_needs_signed_token:
  assumes "resolve_principal rt (Some header) demo settings now = Inr r"
    and "header \<noteq> []" and "rp_principal r = Some p"
  shows "\<exists>token c. extract_bearer_token header = Inr token \<and>
    truthy_str (jwt_hs256_secret settings) \<and>
    token_signed rt (the (jwt_hs256_secret settings)) token c \<and>
    issuer_ok c settings \<and> audience_ok c settings \<and> claim c ''exp'' \<noteq> VNone \<and>
    claim c ''sub'' = VStr (p_principal_id p) \<and> p_principal_id p \<noteq> [] \<and>
    roles p = claim_values (claim c (roles_claim settings)) \<union>
      claim_values (claim c (scopes_claim settings))"
proof -
  obtain token c where t: "extract_bearer_token header = Inr token"
    "verify_hs256_jwt rt token settings now = Inr c" "principal_from_claims c settings = Inr r"
    using resolve_jwt [OF assms] .
  show ?thesis
    using t(1) verify_signed [OF t(2)] validate_claims_ok [of c settings now]
      principal_from_claims_ok [OF t(3)] assms(3) by auto
qed

text \<open>
  C: without a header the only principals are the registry's, and only with demo principals
  enabled; with a header the demo header and its switch play no part.
\<close>

lemma resolve_demo:
  assumes "resolve_principal rt header demo settings now = Inr r" and "\<not> truthy_str header"
    and "rp_principal r = Some p"
  shows "allow_demo_principals settings \<and> truthy_str demo \<and> dget PRINCIPALS (the demo) = Some p"
  using assms by (auto simp: resolve_principal_def Let_def split: if_splits)

text \<open>
  A demo principal is only handed out when the configuration allows demo principals and the
  header names a registered one; with an Authorization header present, neither the demo header
  nor that switch has any influence.
\<close>

theorem demo_principals_gated:
  "(\<not> truthy_str header \<longrightarrow> resolve_principal rt header demo settings now = Inr r \<longrightarrow>
      rp_principal r = Some p \<longrightarrow>
      allow_demo_principals settings \<and> (\<exists>name. demo = Some name \<and> dget PRINCIPALS name = Some p)) \<and>
   (truthy_str header \<longrightarrow>
      resolve_principal rt header demo settings now =
      resolve_principal rt header demo' (settings\<lparr>allow_demo_principals := flag\<rparr>) now)"
proof
  show "\<not> truthy_str header \<longrightarrow> resolve_principal rt header demo settings now = Inr r \<longrightarrow>
      rp_principal r = Some p \<longrightarrow>
      allow_demo_principals settings \<and> (\<exists>name. demo = Some name \<and> dget PRINCIPALS name = Some p)"
    using resolve_demo [of rt header demo settings now r p]
    by (auto simp: truthy_str_def split: option.splits)
  have v: "validate_claims c (settings\<lparr>allow_demo_principals := flag\<rparr>) now =
      validate_claims c settings now" for c
    by (simp add: validate_claims_def Let_def)
  have "verify_hs256_jwt rt token (settings\<lparr>allow_demo_principals := flag\<rparr>) now =
      verify_hs256_jwt rt token settings now" for token
    by (simp add: verify_hs256_jwt_def v)
  moreover have "principal_from_claims c (settings\<lparr>allow_demo_principals := flag\<rparr>) =
      principal_from_claims c settings" for c
    by (simp add: principal_from_claims_def split: pyval.split)
  ultimately show "truthy_str header \<longrightarrow>
      resolve_principal rt header demo settings now =
      resolve_principal rt header demo' (settings\<lparr>allow_demo_principals := flag\<rparr>) now"
    by (simp add: resolve_principal_def)
qed

text \<open>A failed authentication has a reason, a successful one has none.\<close>

lemma resolve_failure_reason:
  assumes "resolve_principal rt header demo settings now = Inr r"
  shows "rp_failure_reason r = None \<longleftrightarrow> rp_principal r \<noteq> None"
  using assms
  by (auto simp: resolve_principal_def Let_def bind_result_def
      split: if_splits sum.splits py_error.splits dest!: principal_from_claims_ok)

section \<open>The time window of an accepted token\<close>

lemma num_arith_small:
  assumes "\<bar>skew\<bar> \<le> 2 ^ 53"
  shows "num_add (NFlt f) (NInt skew) = Inr (NFlt (fadd f (Fin (of_int skew))))"
    "num_sub (NFlt f) (NInt skew) = Inr (NFlt (fsub f (Fin (of_int skew))))"
    "float_op g (NFlt f) (NInt skew) = bind_result (g f (Fin (of_int skew))) (\<lambda>z. Inr (NFlt z))"
  using assms by (simp_all add: float_op_def int_to_float_small)

lemma validate_claims_small_skew:
  assumes "\<bar>clock_skew_seconds settings\<bar> \<le> 2 ^ 53"
    and "validate_claims c settings now = Inr ()"
  shows "\<exists>e. numeric_date (claim c ''exp'') ''exp'' = Inr e \<and>
    \<not> flt (fadd e (Fin (of_int (clock_skew_seconds settings)))) now \<and>
    \<not> flt (Fin (of_int (max_token_lifetime_seconds settings + clock_skew_seconds settings))) (fsub e now)"
  using assms(2) unfolding validate_claims_def Let_def bind_check
  by (auto simp: num_arith_small [OF assms(1)] num_lt_def)

text \<open>
  An integer expiry: the token is past at most by the skew, and the expiry is at most the
  lifetime and the skew ahead, up to the rounding of one float subtraction.
\<close>

lemma to_f64_above:
  assumes "\<bar>l\<bar> < 2 ^ 52" and "of_int l + 1 / 2 \<le> x"
  shows "flt (Fin (of_int l)) (to_f64 x)"
proof -
  have eq: "(of_int l + 1 / 2 :: rat) = of_int (2 * l + 1) * pow2 (- 1)" by (simp add: pow2_def field_simps)
  have "\<bar>2 * l + 1\<bar> < 2 ^ 53" using assms(1) by simp
  then have "\<bar>rat_of_int (2 * l + 1)\<bar> < 2 ^ 53"
    by (metis of_int_abs of_int_less_iff of_int_numeral of_int_power)
  then have small: "\<bar>of_int l + 1 / 2 :: rat\<bar> < pow2 (51 + 1)"
    unfolding eq by (simp add: pow2_def abs_mult)
  have "(2 * l + 1 :: int) \<noteq> 0" by presburger
  then have "rat_of_int (2 * l + 1) \<noteq> 0" by (simp only: of_int_eq_0_iff not_False_eq_True)
  then have nz: "(of_int l + 1 / 2 :: rat) \<noteq> 0" unfolding eq by (metis mult_eq_0_iff pow2_nonzero)
  have "quantum (of_int l + 1 / 2) \<le> - 1"
    using exponent_le [OF nz small] by (simp add: quantum_def)
  with eq have ex: "round64 (of_int l + 1 / 2) = of_int l + 1 / 2" by (rule round64_exact)
  have "of_int l < (of_int l + 1 / 2 :: rat)" by simp
  also have "\<dots> \<le> round64 x" using round64_mono [OF assms(2)] ex by simp
  finally have "of_int l < round64 x" .
  moreover have "0 < round64 x \<or> \<not> 1024 \<le> exponent (round64 x)"
  proof (rule ccontr)
    assume "\<not> (0 < round64 x \<or> \<not> 1024 \<le> exponent (round64 x))"
    then have neg: "round64 x \<le> 0" and e: "1024 \<le> exponent (round64 x)" by auto
    then have "round64 x \<noteq> 0" by (auto simp: exponent_def bit_count.simps quotient_of_int [of 0, simplified] Let_def pow2_def)
    from exponent_bounds(1) [OF this] have "pow2 1024 \<le> \<bar>round64 x\<bar>"
      using pow2_mono [OF e] by linarith
    moreover have "(2::rat) ^ 52 \<le> pow2 1024" by (simp add: pow2_def)
    moreover have "- (2 ^ 52) < rat_of_int l"
      using assms(1) by (metis abs_less_iff minus_less_iff of_int_less_iff of_int_minus of_int_numeral of_int_power)
    ultimately show False using neg \<open>of_int l < round64 x\<close> by linarith
  qed
  ultimately show ?thesis by (auto simp: to_f64_def Let_def)
qed

text \<open>
  C18: An accepted token with an integer expiry has not expired by more than the clock skew, and
  does not live longer than the maximum lifetime plus the skew, up to half a second of rounding.
\<close>

theorem accepted_token_window:
  assumes "claim c ''exp'' = VNum (NInt e)" and "validate_claims c settings (Fin t) = Inr ()"
    and "\<bar>e\<bar> < 2 ^ 51" and "\<bar>clock_skew_seconds settings\<bar> < 2 ^ 51"
    and "\<bar>max_token_lifetime_seconds settings + clock_skew_seconds settings\<bar> < 2 ^ 52"
  shows "t \<le> of_int (e + clock_skew_seconds settings) \<and>
    of_int e - t < of_int (max_token_lifetime_seconds settings + clock_skew_seconds settings) + 1 / 2"
proof -
  let ?k = "clock_skew_seconds settings"
  have e: "numeric_date (claim c ''exp'') ''exp'' = Inr (Fin (of_int e))"
    using assms(1,3) by (simp add: numeric_date_def int_to_float_small)
  have "fadd (Fin (of_int e)) (Fin (of_int ?k)) = Fin (of_int (e + ?k))"
    using assms(3,4) to_f64_of_int [of "e + ?k"] by simp
  then have "\<not> flt (Fin (of_int (e + ?k))) (Fin t)"
    and life: "\<not> flt (Fin (of_int (max_token_lifetime_seconds settings + ?k))) (to_f64 (of_int e - t))"
    using validate_claims_small_skew [of settings c "Fin t"] assms(2,4) e by (auto simp: fsub_def)
  moreover have "\<not> of_int (max_token_lifetime_seconds settings + ?k) + 1 / 2 \<le> of_int e - t"
    using life to_f64_above [OF assms(5), of "of_int e - t"] by blast
  ultimately show ?thesis by simp
qed

text \<open>
  \<^verbatim>\<open>json.loads\<close> reads the literal \<^verbatim>\<open>NaN\<close> as a float, and every comparison with it is false:
  a signed token with that expiry is accepted at any time, its lifetime unbounded.
\<close>

text \<open>
  A signed token whose expiry is the JSON number NaN, with no other dates, passes the claim
  checks at every time.
\<close>

theorem nan_expiry_never_expires:
  assumes "claim c ''exp'' = VNum (NFlt NaN)" and "claim c ''nbf'' = VNone" and "claim c ''iat'' = VNone"
    and "\<bar>clock_skew_seconds settings\<bar> \<le> 2 ^ 53"
    and "issuer_ok c settings" and "audience_ok c settings"
  shows "validate_claims c settings now = Inr ()"
proof -
  have "fsub NaN now = NaN" by (cases now) (simp_all add: fsub_def)
  moreover have "fadd NaN y = NaN" for y by (cases y) simp_all
  ultimately show ?thesis
    using assms
    by (auto simp: validate_claims_def Let_def check_not_before_def numeric_date_def
        num_arith_small num_lt_def issuer_ok_def audience_ok_def)
qed

text \<open>An integer expiry too large for a float escapes as an \<^verbatim>\<open>OverflowError\<close>.\<close>

lemma huge_expiry_raises:
  assumes "claim c ''exp'' = VNum (NInt n)" and "int_to_float n = Inl err"
    and "issuer_ok c settings" and "audience_ok c settings"
  shows "validate_claims c settings now = Inl err"
  using assms
  by (auto simp: validate_claims_def Let_def numeric_date_def issuer_ok_def audience_ok_def)

lemma exponent_pow2: "exponent (pow2 k) = k"
proof -
  have "\<not> exponent (pow2 k) + 1 \<le> k"
    using exponent_bounds(2) [of "pow2 k"] pow2_mono [of "exponent (pow2 k) + 1" k] by fastforce
  moreover have "exponent (pow2 k) \<le> k" by (rule exponent_le) (simp_all add: pow2_add abs_of_pos)
  ultimately show ?thesis by simp
qed

lemma huge_int_overflows:
  assumes "n = 2 ^ nat 1024"
  shows "int_to_float n = Inl (OverflowError ''int too large to convert to float'')"
proof -
  have n: "rat_of_int n = pow2 1024" unfolding assms by (rule pow2_int [symmetric]) simp
  have "round64 (pow2 1024) = pow2 1024"
    by (rule round64_exact [of _ 1 1024]) (simp_all add: quantum_def exponent_pow2)
  then have "to_f64 (rat_of_int n) = PosInf"
    unfolding n by (simp add: to_f64_def exponent_pow2)
  then show ?thesis by (simp add: int_to_float_def)
qed

section \<open>Failure reasons are fixed strings\<close>

definition AUTH_MESSAGES :: "string list" where
  "AUTH_MESSAGES =
     [''demo principals disabled'', ''unknown demo principal'',
      ''missing bearer token or demo principal header'', ''invalid authorization scheme'',
      ''jwt verifier not configured'', ''malformed jwt'', ''unsupported jwt algorithm'',
      ''invalid jwt signature'', ''missing jwt subject'', ''unexpected issuer'',
      ''unexpected audience'', ''missing expiry'', ''token expired'', ''token lifetime too long'',
      ''token not yet valid'', ''token issued in the future'', ''invalid exp claim'',
      ''invalid nbf claim'', ''invalid iat claim'']"

definition known_auth_error :: "'a result \<Rightarrow> bool" where
  "known_auth_error r \<longleftrightarrow> (\<forall>m. r = Inl (AuthenticationError m) \<longrightarrow> m \<in> set AUTH_MESSAGES)"

named_theorems known_auth \<open>which authentication errors a function can raise\<close>

lemma known_auth_simps [simp]:
  "known_auth_error (Inr x)"
  "known_auth_error (Inl (AuthenticationError m)) \<longleftrightarrow> m \<in> set AUTH_MESSAGES"
  "known_auth_error (check b (AuthenticationError m)) \<longleftrightarrow> b \<or> m \<in> set AUTH_MESSAGES"
  by (auto simp: known_auth_error_def)

lemma known_auth_bind [known_auth]:
  "known_auth_error r \<Longrightarrow> (\<And>x. r = Inr x \<Longrightarrow> known_auth_error (f x)) \<Longrightarrow> known_auth_error (bind_result r f)"
  by (auto simp: known_auth_error_def bind_result_eq_Inl)

lemma num_no_auth_error [known_auth]:
  "known_auth_error (int_to_float i)" "known_auth_error (num_to_float n)"
  "known_auth_error (num_add (NFlt a) (NInt i))" "known_auth_error (num_sub (NFlt a) (NInt i))"
  "known_auth_error (float_op (\<lambda>x y. Inr (g x y)) (NFlt a) (NInt i))"
proof -
  show i: "known_auth_error (int_to_float i)" for i
    by (simp add: known_auth_error_def int_to_float_def split: pyfloat.split)
  then show "known_auth_error (num_to_float n)" by (cases n) simp_all
  show "known_auth_error (num_add (NFlt a) (NInt i))" "known_auth_error (num_sub (NFlt a) (NInt i))"
    "known_auth_error (float_op (\<lambda>x y. Inr (g x y)) (NFlt a) (NInt i))"
    using i [of i] by (auto simp: float_op_def intro!: known_auth_bind)
qed

lemma except_value_error_known [known_auth]:
  "m \<in> set AUTH_MESSAGES \<Longrightarrow> known_auth_error (except_value_error r (AuthenticationError m))"
  by (cases r) (auto simp: except_value_error_def known_auth_error_def)

lemma numeric_date_known [known_auth]:
  "''invalid '' @ n @ '' claim'' \<in> set AUTH_MESSAGES \<Longrightarrow> known_auth_error (numeric_date v n)"
  using num_no_auth_error by (simp add: numeric_date_def split: pyval.split)

lemma check_not_before_known [known_auth]:
  "''invalid '' @ n @ '' claim'' \<in> set AUTH_MESSAGES \<Longrightarrow> m \<in> set AUTH_MESSAGES \<Longrightarrow>
     known_auth_error (check_not_before c n m skew now)"
  unfolding check_not_before_def
  by (cases "claim c n = VNone") (auto intro!: known_auth)

lemma auth_message_mem:
  "''unexpected issuer'' \<in> set AUTH_MESSAGES" "''unexpected audience'' \<in> set AUTH_MESSAGES"
  "''missing expiry'' \<in> set AUTH_MESSAGES" "''token expired'' \<in> set AUTH_MESSAGES"
  "''token lifetime too long'' \<in> set AUTH_MESSAGES" "''token not yet valid'' \<in> set AUTH_MESSAGES"
  "''token issued in the future'' \<in> set AUTH_MESSAGES" "''malformed jwt'' \<in> set AUTH_MESSAGES"
  "''invalid '' @ ''exp'' @ '' claim'' \<in> set AUTH_MESSAGES"
  "''invalid '' @ ''nbf'' @ '' claim'' \<in> set AUTH_MESSAGES"
  "''invalid '' @ ''iat'' @ '' claim'' \<in> set AUTH_MESSAGES"
  "''unsupported jwt algorithm'' \<in> set AUTH_MESSAGES" "''invalid jwt signature'' \<in> set AUTH_MESSAGES"
  "''jwt verifier not configured'' \<in> set AUTH_MESSAGES" "''missing jwt subject'' \<in> set AUTH_MESSAGES"
  "''invalid authorization scheme'' \<in> set AUTH_MESSAGES" "''demo principals disabled'' \<in> set AUTH_MESSAGES"
  "''unknown demo principal'' \<in> set AUTH_MESSAGES"
  "''missing bearer token or demo principal header'' \<in> set AUTH_MESSAGES"
  by (simp_all add: AUTH_MESSAGES_def)

lemma validate_claims_known [known_auth]: "known_auth_error (validate_claims c settings now)"
  unfolding validate_claims_def Let_def
  by (intro known_auth; (simp only: known_auth_simps)?; simp add: AUTH_MESSAGES_def)

lemma decode_json_known [known_auth]: "known_auth_error (decode_json rt s)"
  unfolding decode_json_def
  by (intro known_auth) (simp_all add: auth_message_mem split: pyval.split)

lemma jwt_parts_known [known_auth]: "known_auth_error (jwt_parts token)"
  by (auto simp: jwt_parts_def auth_message_mem split: list.split)

lemma ascii_encode_known [known_auth]: "known_auth_error (ascii_encode s)"
  by (simp add: ascii_encode_def known_auth_error_def)

lemma base64url_decode_known [known_auth]: "known_auth_error (base64url_decode s)"
  unfolding base64url_decode_def by (intro known_auth auth_message_mem)

lemma verify_known [known_auth]: "known_auth_error (verify_hs256_jwt rt token settings now)"
  unfolding verify_hs256_jwt_def
  by (auto intro!: known_auth simp: auth_message_mem split: prod.split)

lemma principal_from_claims_known [known_auth]: "known_auth_error (principal_from_claims c settings)"
  by (simp add: principal_from_claims_def auth_message_mem split: pyval.split)

lemma extract_bearer_known [known_auth]: "known_auth_error (extract_bearer_token h)"
  by (simp add: extract_bearer_token_def auth_message_mem split: prod.split)

lemma resolve_failure_message:
  assumes "resolve_principal rt header demo settings now = Inr r" and "rp_failure_reason r = Some m"
  shows "m \<in> set AUTH_MESSAGES"
proof (cases "truthy_str header")
  case True
  let ?b = "bind_result (extract_bearer_token (the header)) (\<lambda>token.
      bind_result (verify_hs256_jwt rt token settings now) (\<lambda>c. principal_from_claims c settings))"
  have "known_auth_error ?b" by (intro known_auth)
  then show ?thesis
    using True assms
    by (cases ?b) (auto simp: resolve_principal_def known_auth_error_def
        dest: principal_from_claims_ok split: py_error.splits)
next
  case False
  then show ?thesis
    using assms by (auto simp: resolve_principal_def Let_def auth_message_mem split: if_splits)
qed

lemma resolve_auth_method:
  assumes "resolve_principal rt header demo settings now = Inr r"
  shows "rp_auth_method r \<in> {''jwt'', ''demo-header'', ''none''}"
  using assms
  by (auto simp: resolve_principal_def Let_def bind_result_def
      split: if_splits sum.splits py_error.splits dest: principal_from_claims_ok)

end
