(* ===== verification/Backend.thy ===== *)
theory Backend
  imports Models
begin

text \<open>
  \<^verbatim>\<open>gateway/backend_adapter.py\<close> and \<^verbatim>\<open>gateway/mock_inference.py\<close>: the call of the inference
  backend, buffered (\<open>run_configured_inference\<close>) and streamed
  (\<open>open_completion_response\<close>).

  What leaves the process is a parameter: \<open>http_stack\<close> holds \<^verbatim>\<open>Client.build_request\<close> and
  \<^verbatim>\<open>Client.send\<close> of httpx, \<^verbatim>\<open>urlopen\<close> with the read of its body, \<^verbatim>\<open>json.loads\<close> and the SHA-256 of
  the mock. A \<open>ValueError\<close> of \<open>hs_json_loads\<close> stands for the two decoding errors that the code
  names; any other exception of the call is one of the others. Readings of the clock are arguments, in the order they are taken.
\<close>

section \<open>The outside\<close>

text \<open>
  A streamed response: its status, its headers and its body, the raw chunks in order and
  the exception, if any, that ends them.
\<close>

record httpx_response =
  hr_status :: int
  hr_headers :: "string \<Rightarrow> string option"
  hr_chunks :: "string list"
  hr_failure :: "py_error option"

record upstream_request =
  ur_url :: string
  ur_payload :: pyval
  ur_headers :: "(string, string) dict"
  ur_timeout :: pyfloat

record http_stack =
  hs_build :: "upstream_request \<Rightarrow> unit result"
  hs_send :: "upstream_request \<Rightarrow> httpx_response result"
  hs_urlopen :: "upstream_request \<Rightarrow> string result"
  hs_json_loads :: "string \<Rightarrow> pyval result"
  hs_sha256_hex :: "string \<Rightarrow> string"

datatype backend_event = Sent upstream_request | ResponseClosed

text \<open>The two exceptions that callers of this module catch.\<close>

fun is_adapter_error :: "py_error \<Rightarrow> bool" where
  "is_adapter_error (BackendAdapterError m) = True"
| "is_adapter_error e = False"

fun is_httpx_error :: "py_error \<Rightarrow> bool" where
  "is_httpx_error (HttpxError m) = True"
| "is_httpx_error e = False"

lemma is_adapter_error_iff: "is_adapter_error e \<longleftrightarrow> (\<exists>m. e = BackendAdapterError m)"
  by (cases e) simp_all

section \<open>Settings\<close>

definition DEFAULT_MAX_BACKEND_CONNECTIONS :: int where "DEFAULT_MAX_BACKEND_CONNECTIONS = 256"
definition DEFAULT_MAX_KEEPALIVE_CONNECTIONS :: int where "DEFAULT_MAX_KEEPALIVE_CONNECTIONS = 128"
definition MAX_COMPLETION_TOKENS :: int where "MAX_COMPLETION_TOKENS = 256"

definition positive_int_env_or_default :: "environ \<Rightarrow> string \<Rightarrow> int \<Rightarrow> int result" where
  "positive_int_env_or_default env name dflt =
     (case env name of
        None \<Rightarrow> Inr dflt
      | Some raw \<Rightarrow>
          (case py_int raw of
             None \<Rightarrow> Inl (BackendAdapterError (name @ '' must be an integer''))
           | Some value \<Rightarrow>
               if value < 1 then Inl (BackendAdapterError (name @ '' must be positive''))
               else Inr value))"

definition env_bool :: "environ \<Rightarrow> string \<Rightarrow> bool \<Rightarrow> bool" where
  "env_bool env name dflt =
     (case env name of
        None \<Rightarrow> dflt
      | Some raw \<Rightarrow> py_lower (py_strip raw) \<in> {''1'', ''true'', ''yes'', ''on''})"

definition timeout_from_ms :: "string \<Rightarrow> pyfloat result" where
  "timeout_from_ms timeout_ms =
     (case py_float timeout_ms of
        None \<Rightarrow> Inl (BackendAdapterError ''backend timeout must be numeric'')
      | Some f \<Rightarrow> fdiv f (Fin 1000))"

definition backend_timeout_seconds :: "environ \<Rightarrow> pyfloat result" where
  "backend_timeout_seconds env =
     timeout_from_ms (getenv env ''INFERENCE_BACKEND_TIMEOUT_MS'' ''5000'')"

text \<open>The process-wide client: its limits, read once when the first request needs it.\<close>

record http_client =
  max_connections :: int
  max_keepalive_connections :: int
  trust_env :: bool

definition backend_http_client ::
  "environ \<Rightarrow> http_client option \<Rightarrow> http_client result \<times> http_client option" where
  "backend_http_client env client =
     (case client of
        Some c \<Rightarrow> (Inr c, client)
      | None \<Rightarrow>
          (case bind_result (positive_int_env_or_default env ''INFERENCE_BACKEND_MAX_CONNECTIONS''
                   DEFAULT_MAX_BACKEND_CONNECTIONS) (\<lambda>n.
                bind_result (positive_int_env_or_default env ''INFERENCE_BACKEND_MAX_KEEPALIVE_CONNECTIONS''
                   DEFAULT_MAX_KEEPALIVE_CONNECTIONS) (\<lambda>k.
                Inr \<lparr>max_connections = n, max_keepalive_connections = k,
                     trust_env = env_bool env ''INFERENCE_BACKEND_TRUST_ENV'' False\<rparr>)) of
             Inl e \<Rightarrow> (Inl e, None)
           | Inr c \<Rightarrow> (Inr c, Some c)))"

section \<open>The completion URL\<close>

definition completion_url :: "string \<Rightarrow> string result" where
  "completion_url endpoint =
     (let normalized = py_rstrip_char (CHR ''/'') (py_strip endpoint) in
      if normalized = [] then Inl (BackendAdapterError ''backend endpoint must not be empty'')
      else if py_endswith normalized ''/completions'' then Inr normalized
      else if py_endswith normalized ''/v1'' then Inr (normalized @ ''/completions'')
      else Inr (normalized @ ''/v1/completions''))"

section \<open>The streamed call\<close>

definition upstream_headers :: "pyval \<Rightarrow> string option \<Rightarrow> string option \<Rightarrow> (string, string) dict" where
  "upstream_headers stream api_key request_id =
     [(''Accept'', if truthy stream then ''text/event-stream'' else ''application/json''),
      (''Content-Type'', ''application/json'')] @
     (if truthy_str api_key then [(''Authorization'', ''Bearer '' @ the api_key)] else []) @
     (if truthy_str request_id then [(''X-Request-Id'', the request_id)] else [])"

text \<open>From \<^verbatim>\<open>build_request\<close> to the check of the status.\<close>

definition send_upstream :: "http_stack \<Rightarrow> upstream_request \<Rightarrow> httpx_response result \<times> backend_event list" where
  "send_upstream net request =
     (case hs_build net request of
        Inl e \<Rightarrow> (Inl e, [])
      | Inr _ \<Rightarrow>
        (case hs_send net request of
           Inl (HttpxError m) \<Rightarrow>
             (Inl (BackendAdapterError ''inference backend request failed''), [Sent request])
         | Inl e \<Rightarrow> (Inl e, [Sent request])
         | Inr response \<Rightarrow>
             if hr_status response < 200 \<or> 300 \<le> hr_status response
             then (Inl (BackendAdapterError ''inference backend returned a non-success status''),
                   [Sent request, ResponseClosed])
             else (Inr response, [Sent request])))"

definition open_completion_response ::
  "http_stack \<Rightarrow> environ \<Rightarrow> http_client option \<Rightarrow> (string, pyval) dict \<Rightarrow> string option \<Rightarrow>
   httpx_response result \<times> backend_event list \<times> http_client option" where
  "open_completion_response net env client payload request_id =
    (let configured_endpoint = getenv env ''INFERENCE_BACKEND_COMPLETIONS_URL'' [] in
     if py_strip configured_endpoint = []
     then (Inl (BackendAdapterError ''inference backend is not configured''), [], client)
     else case backend_timeout_seconds env of
       Inl e \<Rightarrow> (Inl e, [], client)
     | Inr timeout \<Rightarrow>
       if fle timeout (Fin 0)
       then (Inl (BackendAdapterError ''backend timeout must be positive''), [], client)
       else
         let headers = upstream_headers (dget_default payload ''stream'' VNone)
               (env ''INFERENCE_BACKEND_API_KEY'') request_id;
             (backend_client, client') = backend_http_client env client
         in case bind_result backend_client (\<lambda>_. completion_url configured_endpoint) of
              Inl e \<Rightarrow> (Inl e, [], client')
            | Inr url \<Rightarrow>
              let (r, evs) = send_upstream net
                \<lparr>ur_url = url, ur_payload = VDict payload, ur_headers = headers, ur_timeout = timeout\<rparr>
              in (r, evs, client'))"

section \<open>The buffered call\<close>

record inference_result =
  ir_model_id :: string
  ir_output :: string
  ir_latency_ms :: pyfloat
  ir_backend :: string
  ir_usage :: "(string, int) dict option"

definition extract_completion :: "pyval \<Rightarrow> (string \<times> string option) result" where
  "extract_completion response_payload =
     (case response_payload of
        VDict d \<Rightarrow>
          (case dget_default d ''choices'' VNone of
             VList (VDict choice # rest) \<Rightarrow>
               (let output =
                  (case dget_default choice ''text'' VNone of
                     VNone \<Rightarrow>
                       (case dget_default choice ''message'' VNone of
                          VDict message \<Rightarrow> dget_default message ''content'' VNone
                        | _ \<Rightarrow> VNone)
                   | v \<Rightarrow> v)
                in case output of
                     VStr text \<Rightarrow>
                       Inr (text, case dget_default d ''model'' VNone of
                                    VStr m \<Rightarrow> if m \<noteq> [] then Some m else None
                                  | _ \<Rightarrow> None)
                   | _ \<Rightarrow> Inl (BackendAdapterError ''inference backend response has no text content''))
           | _ \<Rightarrow> Inl (BackendAdapterError ''inference backend response has no choices''))
      | _ \<Rightarrow> Inl (BackendAdapterError ''inference backend response must be an object''))"

definition usage_counts :: "(string, pyval) dict \<Rightarrow> (string, int) dict" where
  \<comment> \<open>integers only: \<^verbatim>\<open>VBool\<close> is no \<^verbatim>\<open>VNum\<close>\<close>
  "usage_counts usage =
     concat (map (\<lambda>(k, v).
       if k \<in> {''prompt_tokens'', ''completion_tokens'', ''total_tokens''}
       then (case v of VNum (NInt i) \<Rightarrow> [(k, i)] | _ \<Rightarrow> []) else []) usage)"

definition elapsed_ms :: "pyfloat \<Rightarrow> pyfloat \<Rightarrow> pyfloat" where
  \<comment> \<open>\<^verbatim>\<open>round((perf_counter() - started) * 1000, 3)\<close>\<close>
  "elapsed_ms started ended = fround 3 (fmul (fsub ended started) (Fin 1000))"

text \<open>From \<^verbatim>\<open>extract_completion(response_payload)\<close> to the returned dictionary.\<close>

definition completion_result :: "string \<Rightarrow> pyfloat \<Rightarrow> pyval \<Rightarrow> inference_result result" where
  "completion_result model_id latency_ms response_payload =
     bind_result (extract_completion response_payload) (\<lambda>(output, response_model).
       let usage = (case response_payload of VDict d \<Rightarrow> dget_default d ''usage'' VNone | _ \<Rightarrow> VNone);
           base = \<lparr>ir_model_id = (case response_model of Some m \<Rightarrow> m | None \<Rightarrow> model_id),
                   ir_output = output, ir_latency_ms = latency_ms,
                   ir_backend = ''openai-compatible'', ir_usage = None\<rparr>
       in case usage of
            VNone \<Rightarrow> Inr base
          | VDict u \<Rightarrow> Inr (if u \<noteq> [] then base\<lparr>ir_usage := Some (usage_counts u)\<rparr> else base)
          | _ \<Rightarrow> Inl (BackendAdapterError ''inference backend returned invalid usage metadata''))"

text \<open>\<^verbatim>\<open>HTTPError\<close>, \<^verbatim>\<open>URLError\<close> and \<^verbatim>\<open>TimeoutError\<close> are \<^verbatim>\<open>OSError\<close>s.\<close>

definition run_openai_compatible_inference ::
  "http_stack \<Rightarrow> string \<Rightarrow> string \<Rightarrow> string \<Rightarrow> string option \<Rightarrow> pyfloat \<Rightarrow> pyfloat \<Rightarrow> pyfloat \<Rightarrow>
   inference_result result \<times> backend_event list" where
  "run_openai_compatible_inference net model_id user_input endpoint api_key timeout_seconds started ended =
    (if fle timeout_seconds (Fin 0)
     then (Inl (BackendAdapterError ''backend timeout must be positive''), [])
     else
       let payload = VDict [(''model'', VStr model_id), (''prompt'', VStr user_input),
                            (''max_tokens'', VInt MAX_COMPLETION_TOKENS), (''stream'', VBool False)];
           headers = [(''Accept'', ''application/json''), (''Content-Type'', ''application/json'')] @
             (if truthy_str api_key then [(''Authorization'', ''Bearer '' @ the api_key)] else [])
       in case completion_url endpoint of
            Inl e \<Rightarrow> (Inl e, [])
          | Inr url \<Rightarrow>
            let request = \<lparr>ur_url = url, ur_payload = payload, ur_headers = headers,
                           ur_timeout = timeout_seconds\<rparr> in
            (case hs_build net request of
               Inl e \<Rightarrow> (Inl e, [])
             | Inr _ \<Rightarrow>
               ((case hs_urlopen net request of
                   Inl (OSError m) \<Rightarrow> Inl (BackendAdapterError ''inference backend request failed'')
                 | Inl e \<Rightarrow> Inl e
                 | Inr raw_payload \<Rightarrow>
                   (case hs_json_loads net raw_payload of
                      Inl (ValueError m) \<Rightarrow>
                        Inl (BackendAdapterError ''inference backend returned invalid JSON'')
                    | Inl e \<Rightarrow> Inl e
                    | Inr response_payload \<Rightarrow>
                        completion_result model_id (elapsed_ms started ended) response_payload)),
                [Sent request])))"

definition run_mock_inference ::
  "http_stack \<Rightarrow> string \<Rightarrow> string \<Rightarrow> pyfloat \<Rightarrow> pyfloat \<Rightarrow> inference_result" where
  "run_mock_inference net model_id user_input started ended =
     \<lparr>ir_model_id = model_id,
      ir_output = ''synthetic response '' @ take 12 (hs_sha256_hex net (model_id @ '':'' @ user_input)),
      ir_latency_ms = elapsed_ms started ended,
      ir_backend = ''mock-gpu'', ir_usage = None\<rparr>"

definition run_configured_inference ::
  "http_stack \<Rightarrow> environ \<Rightarrow> string \<Rightarrow> string \<Rightarrow> pyfloat \<Rightarrow> pyfloat \<Rightarrow>
   inference_result result \<times> backend_event list" where
  "run_configured_inference net env model_id user_input started ended =
    (let endpoint = py_strip (getenv env ''INFERENCE_BACKEND_COMPLETIONS_URL'' []) in
     if endpoint = [] then (Inr (run_mock_inference net model_id user_input started ended), [])
     else case timeout_from_ms (getenv env ''INFERENCE_BACKEND_TIMEOUT_MS'' ''5000'') of
       Inl e \<Rightarrow> (Inl e, [])
     | Inr timeout_seconds \<Rightarrow>
         run_openai_compatible_inference net model_id user_input endpoint
           (env ''INFERENCE_BACKEND_API_KEY'') timeout_seconds started ended)"

section \<open>The URL is configuration, and a fixed point\<close>

lemma rstrip_char_last: "py_rstrip_char c s \<noteq> [] \<Longrightarrow> last (py_rstrip_char c s) \<noteq> c"
  using hd_dropWhile [of "\<lambda>x. x = c" "rev s"] by (simp add: py_rstrip_char_def last_rev)

lemma rstrip_char_prefix: "\<exists>n. s = py_rstrip_char c s @ replicate n c"
proof -
  have tw: "takeWhile (\<lambda>x. x = c) xs = replicate (length (takeWhile (\<lambda>x. x = c) xs)) c" for xs
    by (induction xs) auto
  have "rev s = takeWhile (\<lambda>x. x = c) (rev s) @ dropWhile (\<lambda>x. x = c) (rev s)" by simp
  then have "s = py_rstrip_char c s @ rev (takeWhile (\<lambda>x. x = c) (rev s))"
    by (metis py_rstrip_char_def rev_append rev_rev_ident)
  then show ?thesis using tw by (metis rev_replicate)
qed

lemma rstrip_char_id: "s = [] \<or> last s \<noteq> c \<Longrightarrow> py_rstrip_char c s = s"
  by (cases s rule: rev_cases) (auto simp: py_rstrip_char_def)

lemma completion_url_empty:
  "(\<exists>e. completion_url endpoint = Inl e) \<longleftrightarrow> (\<forall>c \<in> set (py_strip endpoint). c = CHR ''/'')"
proof -
  have "py_rstrip_char (CHR ''/'') s = [] \<longleftrightarrow> (\<forall>c \<in> set s. c = CHR ''/'')" for s
    by (simp add: py_rstrip_char_def dropWhile_eq_Nil_conv)
  then show ?thesis by (simp add: completion_url_def Let_def)
qed

lemma py_endswith_append: "py_endswith (s @ t) t" "py_endswith (s @ ''/v1/completions'') ''/completions''"
  by (simp_all add: py_endswith_iff)

theorem completion_url_normal:
  assumes "completion_url endpoint = Inr url"
  shows "py_endswith url ''/completions'' \<and> completion_url url = Inr url"
proof -
  let ?n = "py_rstrip_char (CHR ''/'') (py_strip endpoint)"
  have ne: "?n \<noteq> []" using assms by (auto simp: completion_url_def Let_def)
  have ends: "py_endswith url ''/completions''" and pre: "\<exists>t. url = ?n @ t"
    using assms by (auto simp: completion_url_def Let_def py_endswith_append split: if_splits)
  have "py_strip endpoint \<noteq> []" using ne by (auto simp: py_rstrip_char_def)
  then have "\<not> py_isspace (hd (py_strip endpoint))" by (simp add: py_strip_hd_last)
  moreover have "hd (py_strip endpoint) = hd ?n" using ne rstrip_char_prefix by (metis hd_append)
  moreover have "hd ?n = hd url" using pre ne by auto
  ultimately have hd: "\<not> py_isspace (hd url)" by simp
  obtain t where url: "url = t @ ''/completions''" using ends by (auto simp: py_endswith_iff)
  then have last: "last url = CHR ''s''" by simp
  then have "py_strip url = url" using hd by (intro py_strip_id) (simp add: py_isspace_def)
  moreover have "py_rstrip_char (CHR ''/'') url = url" using last by (intro rstrip_char_id) simp
  ultimately show ?thesis using ends url by (simp add: completion_url_def)
qed

section \<open>What the callers rely on\<close>

lemma send_upstream_safe:
  assumes "send_upstream net request = (r, evs)"
  shows "set evs \<subseteq> {Sent request, ResponseClosed} \<and>
    (\<forall>response. r = Inr response \<longrightarrow>
      200 \<le> hr_status response \<and> hr_status response < 300 \<and> ResponseClosed \<notin> set evs) \<and>
    (\<forall>response. Sent request \<in> set evs \<longrightarrow> hs_send net request = Inr response \<longrightarrow>
      r = Inr response \<or> ResponseClosed \<in> set evs)"
  using assms
  by (cases "hs_build net request"; cases "hs_send net request")
    (auto simp: send_upstream_def split: if_splits py_error.splits)

lemma open_completion_sends:
  assumes "open_completion_response net env client payload request_id = (r, evs, client')"
  shows "(\<exists>e. r = Inl e \<and> evs = []) \<or>
    (\<exists>request. send_upstream net request = (r, evs) \<and>
      completion_url (getenv env ''INFERENCE_BACKEND_COMPLETIONS_URL'' []) = Inr (ur_url request) \<and>
      ur_headers request = upstream_headers (dget_default payload ''stream'' VNone)
        (env ''INFERENCE_BACKEND_API_KEY'') request_id)"
  using assms
  by (auto simp: open_completion_response_def Let_def bind_result_def
      split: if_splits sum.splits prod.splits)

lemma upstream_authorization:
  "dget (upstream_headers stream key rid) ''Authorization'' =
     (if truthy_str key then Some (''Bearer '' @ the key) else None)"
  by (simp add: upstream_headers_def)

text \<open>
  C15: An opened upstream response has a 2xx status and is open; a response that is not handed
  to the caller was closed; and every request sent goes to the configured URL with the
  configured key, whatever the payload and the request id are.
\<close>

theorem open_completion_response_safe:
  assumes "open_completion_response net env client payload request_id = (r, evs, client')"
  shows "(\<forall>response. r = Inr response \<longrightarrow>
      200 \<le> hr_status response \<and> hr_status response < 300 \<and> ResponseClosed \<notin> set evs) \<and>
    (\<forall>req response. Sent req \<in> set evs \<longrightarrow> hs_send net req = Inr response \<longrightarrow>
      r = Inr response \<or> ResponseClosed \<in> set evs) \<and>
    (\<forall>req. Sent req \<in> set evs \<longrightarrow>
      completion_url (getenv env ''INFERENCE_BACKEND_COMPLETIONS_URL'' []) = Inr (ur_url req) \<and>
      dget (ur_headers req) ''Authorization'' =
        (if truthy_str (env ''INFERENCE_BACKEND_API_KEY'')
         then Some (''Bearer '' @ the (env ''INFERENCE_BACKEND_API_KEY'')) else None))"
  using open_completion_sends [OF assms]
proof
  assume "\<exists>request. send_upstream net request = (r, evs) \<and>
      completion_url (getenv env ''INFERENCE_BACKEND_COMPLETIONS_URL'' []) = Inr (ur_url request) \<and>
      ur_headers request = upstream_headers (dget_default payload ''stream'' VNone)
        (env ''INFERENCE_BACKEND_API_KEY'') request_id"
  then obtain request where q: "send_upstream net request = (r, evs)"
    "completion_url (getenv env ''INFERENCE_BACKEND_COMPLETIONS_URL'' []) = Inr (ur_url request)"
    "ur_headers request = upstream_headers (dget_default payload ''stream'' VNone)
        (env ''INFERENCE_BACKEND_API_KEY'') request_id" by blast
  have only: "Sent req \<in> set evs \<Longrightarrow> req = request" for req
    using send_upstream_safe [OF q(1)] by auto
  note safe = send_upstream_safe [OF q(1)]
  show ?thesis
  proof (intro conjI allI impI; (elim conjE)?)
    fix req response assume "Sent req \<in> set evs" "hs_send net req = Inr response"
    then show "r = Inr response \<or> ResponseClosed \<in> set evs" using safe only by metis
  next
    fix req assume "Sent req \<in> set evs"
    then have "req = request" by (rule only)
    then show "completion_url (getenv env ''INFERENCE_BACKEND_COMPLETIONS_URL'' []) = Inr (ur_url req)"
      "dget (ur_headers req) ''Authorization'' =
        (if truthy_str (env ''INFERENCE_BACKEND_API_KEY'')
         then Some (''Bearer '' @ the (env ''INFERENCE_BACKEND_API_KEY'')) else None)"
      using q by (simp_all only: upstream_authorization)
  qed (use safe in metis)+
qed auto

text \<open>
  The buffered call fails as a \<open>BackendAdapterError\<close> whenever the transport fails with an
  \<open>OSError\<close> and the decoder with one of its decoding errors; without a configured endpoint
  nothing leaves the process.
\<close>

definition stack_raises_os_errors :: "http_stack \<Rightarrow> bool" where
  "stack_raises_os_errors net \<longleftrightarrow>
     (\<forall>req. hs_build net req = Inr ()) \<and>
     (\<forall>req e. hs_urlopen net req = Inl e \<longrightarrow> (\<exists>m. e = OSError m)) \<and>
     (\<forall>raw e. hs_json_loads net raw = Inl e \<longrightarrow> (\<exists>m. e = ValueError m))"

lemma extract_completion_error: "extract_completion v = Inl e \<Longrightarrow> is_adapter_error e"
  by (auto simp: extract_completion_def is_adapter_error_iff Let_def
      split: pyval.splits list.splits)

lemma completion_result_error: "completion_result m t v = Inl e \<Longrightarrow> is_adapter_error e"
  by (auto simp: completion_result_def is_adapter_error_iff [symmetric] bind_result_eq_Inl Let_def
      extract_completion_error split: pyval.splits if_splits)
    (auto simp: is_adapter_error_iff, metis pyval.exhaust)

lemma completion_url_error: "completion_url u = Inl e \<Longrightarrow> is_adapter_error e"
  by (auto simp: completion_url_def is_adapter_error_iff Let_def split: if_splits)

lemma timeout_from_ms_error: "timeout_from_ms t = Inl e \<Longrightarrow> is_adapter_error e"
  by (cases "py_float t"; cases "the (py_float t)")
    (auto simp: timeout_from_ms_def is_adapter_error_iff)

lemma run_openai_error:
  assumes "stack_raises_os_errors net"
    and "run_openai_compatible_inference net model_id user_input endpoint key timeout t0 t1 = (Inl e, evs)"
  shows "is_adapter_error e"
proof -
  have adapter: "is_adapter_error (BackendAdapterError m)" for m by (simp add: is_adapter_error_iff)
  have build: "\<And>req. hs_build net req = Inr ()"
    and open_err: "\<And>req e. hs_urlopen net req = Inl e \<Longrightarrow> \<exists>m. e = OSError m"
    and json_err: "\<And>raw e. hs_json_loads net raw = Inl e \<Longrightarrow> \<exists>m. e = ValueError m"
    using assms(1) by (auto simp: stack_raises_os_errors_def)
  show ?thesis
    using assms(2)
    by (auto simp: run_openai_compatible_inference_def Let_def build bind_result_eq_Inl adapter
        intro: completion_url_error completion_result_error
        dest!: open_err json_err split: if_splits sum.splits pyval.splits)
qed

text \<open>
  With a network stack that raises operating system errors only, the backend call raises
  nothing but the adapter's own error, and without a configured endpoint it is the mock and
  sends nothing.
\<close>

theorem run_configured_inference_errors:
  assumes "stack_raises_os_errors net"
    and "run_configured_inference net env model_id user_input t0 t1 = (r, evs)"
  shows "(\<forall>e. r = Inl e \<longrightarrow> is_adapter_error e) \<and>
    (py_strip (getenv env ''INFERENCE_BACKEND_COMPLETIONS_URL'' []) = [] \<longrightarrow>
      evs = [] \<and> (\<exists>result. r = Inr result \<and> ir_backend result = ''mock-gpu''))"
  using assms run_openai_error [OF assms(1)] timeout_from_ms_error
  by (auto simp: run_configured_inference_def Let_def run_mock_inference_def
      split: if_splits sum.splits)

end
