(* ===== verification/TraceContext.thy ===== *)
theory TraceContext
  imports Models
begin

text \<open>
  \<^verbatim>\<open>gateway/trace_context.py\<close>: reading, creating and writing W3C \<^verbatim>\<open>traceparent\<close> headers. The
  random ids are inputs: the values that \<^verbatim>\<open>trace_id_factory()\<close> and \<^verbatim>\<open>span_id_factory()\<close>
  return.
\<close>

record request_trace =
  tr_trace_id :: string
  tr_span_id :: string
  tr_parent_span_id :: "string option"
  tr_sampled :: bool
  tr_source :: string

record traceparent_parts =
  tp_version :: string
  tp_trace_id :: string
  tp_parent_id :: string
  tp_trace_flags :: string

definition is_all_zero :: "string \<Rightarrow> bool" where
  "is_all_zero value \<longleftrightarrow> set value = {CHR ''0''}"

lemma is_all_zero_code [code]: "is_all_zero value \<longleftrightarrow> value \<noteq> [] \<and> list_all (\<lambda>c. c = CHR ''0'') value"
  by (cases "value") (auto simp: is_all_zero_def list_all_iff)

definition hex_field :: "nat \<Rightarrow> string \<Rightarrow> bool" where
  \<comment> \<open>\<^verbatim>\<open>[0-9a-fA-F]{n}\<close>\<close>
  "hex_field n s \<longleftrightarrow> length s = n \<and> list_all is_hex s"

text \<open>
  \<^verbatim>\<open>_TRACEPARENT_PATTERN.match\<close>: the four groups hold hex digits only, so the dashes of the
  pattern are the dashes of the text.
\<close>

definition match_traceparent :: "string \<Rightarrow> traceparent_parts option" where
  "match_traceparent s =
     (case py_split (CHR ''-'') s of
        [v, t, p, f] \<Rightarrow>
          if hex_field 2 v \<and> hex_field 32 t \<and> hex_field 16 p \<and> hex_field 2 f
          then Some \<lparr>tp_version = v, tp_trace_id = t, tp_parent_id = p, tp_trace_flags = f\<rparr>
          else None
      | _ \<Rightarrow> None)"

definition lower_parts :: "traceparent_parts \<Rightarrow> traceparent_parts" where
  "lower_parts p =
     \<lparr>tp_version = py_lower (tp_version p), tp_trace_id = py_lower (tp_trace_id p),
      tp_parent_id = py_lower (tp_parent_id p), tp_trace_flags = py_lower (tp_trace_flags p)\<rparr>"

definition parse_traceparent :: "string option \<Rightarrow> traceparent_parts option" where
  "parse_traceparent traceparent =
     (case traceparent of
        None \<Rightarrow> None
      | Some header \<Rightarrow>
          if header = [] then None
          else case match_traceparent (py_strip header) of
            None \<Rightarrow> None
          | Some m \<Rightarrow>
              let parts = lower_parts m in
              if tp_version parts = ''ff'' then None
              else if is_all_zero (tp_trace_id parts) \<or> is_all_zero (tp_parent_id parts) then None
              else Some parts)"

definition nonzero_hex :: "string \<Rightarrow> nat \<Rightarrow> string result" where
  "nonzero_hex produced expected_length =
     (let value = py_lower produced in
      if length value \<noteq> expected_length \<or> \<not> (value \<noteq> [] \<and> list_all is_lower_hex value)
      then Inl (ValueError ''trace id factory returned invalid hex'')
      else if is_all_zero value then Inl (ValueError ''trace id factory returned zero value'')
      else Inr value)"

definition resolve_trace_context :: "string option \<Rightarrow> string \<Rightarrow> string \<Rightarrow> request_trace result" where
  "resolve_trace_context traceparent new_trace_id new_span_id =
     (let parsed = parse_traceparent traceparent in
      bind_result (nonzero_hex new_span_id 16) (\<lambda>span_id.
        case parsed of
          None \<Rightarrow>
            bind_result (nonzero_hex new_trace_id 32) (\<lambda>trace_id.
              Inr \<lparr>tr_trace_id = trace_id, tr_span_id = span_id, tr_parent_span_id = None,
                   tr_sampled = False, tr_source = ''generated''\<rparr>)
        | Some p \<Rightarrow>
            Inr \<lparr>tr_trace_id = tp_trace_id p, tr_span_id = span_id,
                 tr_parent_span_id = Some (tp_parent_id p),
                 tr_sampled = odd (hex_val 0 (tp_trace_flags p)), tr_source = ''remote''\<rparr>))"

definition format_traceparent :: "request_trace \<Rightarrow> string" where
  "format_traceparent trace =
     ''00-'' @ tr_trace_id trace @ ''-'' @ tr_span_id trace @ ''-'' @
     (if tr_sampled trace then ''01'' else ''00'')"

section \<open>Well-formed identifiers\<close>

definition wf_id :: "nat \<Rightarrow> string \<Rightarrow> bool" where
  "wf_id n s \<longleftrightarrow> length s = n \<and> list_all is_lower_hex s \<and> \<not> is_all_zero s"

definition wf_trace :: "request_trace \<Rightarrow> bool" where
  "wf_trace t \<longleftrightarrow>
     wf_id 32 (tr_trace_id t) \<and> wf_id 16 (tr_span_id t) \<and>
     (\<forall>p. tr_parent_span_id t = Some p \<longrightarrow> wf_id 16 p)"

lemma nonzero_hex_Inr: "nonzero_hex s n = Inr v \<Longrightarrow> wf_id n v"
  by (auto simp: nonzero_hex_def wf_id_def Let_def split: if_splits)

lemma nonzero_hex_wf: "0 < n \<Longrightarrow> wf_id n s \<Longrightarrow> nonzero_hex s n = Inr s"
  by (auto simp: nonzero_hex_def wf_id_def py_lower_lower_hex list_all_iff Let_def)

lemma hex_field_lower: "hex_field n s \<Longrightarrow> length (py_lower s) = n \<and> list_all is_lower_hex (py_lower s)"
  by (auto simp: hex_field_def py_lower_def list_all_iff lower_char_hex)

lemma wf_id_hex_field: "wf_id n s \<Longrightarrow> hex_field n s"
  by (auto simp: wf_id_def hex_field_def list_all_iff)

lemma wf_id_lower [simp]: "wf_id n s \<Longrightarrow> py_lower s = s"
  by (simp add: wf_id_def py_lower_lower_hex list_all_iff)

lemma match_traceparent_fields:
  "match_traceparent s = Some p \<Longrightarrow>
     hex_field 2 (tp_version p) \<and> hex_field 32 (tp_trace_id p) \<and>
     hex_field 16 (tp_parent_id p) \<and> hex_field 2 (tp_trace_flags p)"
  by (auto simp: match_traceparent_def split: list.splits if_splits)

lemma parse_traceparent_wf:
  assumes "parse_traceparent header = Some p"
  shows "wf_id 32 (tp_trace_id p) \<and> wf_id 16 (tp_parent_id p) \<and> tp_version p \<noteq> ''ff'' \<and>
    length (tp_version p) = 2 \<and> length (tp_trace_flags p) = 2"
  using assms
  by (auto simp: parse_traceparent_def lower_parts_def wf_id_def Let_def
      dest!: match_traceparent_fields hex_field_lower split: option.splits if_splits)

lemma dash_notin_hex: "list_all is_hex s \<Longrightarrow> CHR ''-'' \<notin> set s"
  by (auto simp: list_all_iff is_hex_def is_lower_hex_def)

lemma match_format:
  assumes "hex_field 2 v" "hex_field 32 t" "hex_field 16 p" "hex_field 2 f"
  shows "match_traceparent (v @ ''-'' @ t @ ''-'' @ p @ ''-'' @ f) =
    Some \<lparr>tp_version = v, tp_trace_id = t, tp_parent_id = p, tp_trace_flags = f\<rparr>"
  using assms dash_notin_hex [of v] dash_notin_hex [of t] dash_notin_hex [of p] dash_notin_hex [of f]
  by (simp add: match_traceparent_def hex_field_def py_split_append py_split_id)

section \<open>Properties\<close>

text \<open>Whatever header arrives, the trace of a request has well-formed, nonzero ids.\<close>

theorem resolve_trace_context_wf:
  assumes "resolve_trace_context header new_trace new_span = Inr t"
  shows "wf_trace t"
proof (cases "parse_traceparent header")
  case None
  with assms show ?thesis
    by (auto simp: resolve_trace_context_def wf_trace_def dest!: nonzero_hex_Inr)
next
  case (Some p)
  with assms parse_traceparent_wf [OF Some] show ?thesis
    by (auto simp: resolve_trace_context_def wf_trace_def dest!: nonzero_hex_Inr)
qed

text \<open>With ids from a working generator, no header makes the resolution raise.\<close>

theorem resolve_trace_context_total:
  assumes "wf_id 32 new_trace" and "wf_id 16 new_span"
  shows "\<exists>t. resolve_trace_context header new_trace new_span = Inr t \<and> tr_span_id t = new_span"
  using assms by (auto simp: resolve_trace_context_def nonzero_hex_wf Let_def split: option.splits)

lemma hex_flags: "hex_field 2 ''00''" "hex_field 2 ''01''" "hex_val 0 ''00'' = 0" "hex_val 0 ''01'' = 1"
  "py_lower ''00'' = ''00''" "py_lower ''01'' = ''01''"
  by code_simp+

lemma sampled_flags: "odd (hex_val 0 (if b then ''01'' else ''00'')) \<longleftrightarrow> b"
  by (simp only: hex_flags split: if_splits) simp

theorem parse_format_traceparent:
  assumes "wf_trace t"
  shows "parse_traceparent (Some (format_traceparent t)) =
    Some \<lparr>tp_version = ''00'', tp_trace_id = tr_trace_id t, tp_parent_id = tr_span_id t,
          tp_trace_flags = (if tr_sampled t then ''01'' else ''00'')\<rparr>"
proof -
  let ?f = "if tr_sampled t then ''01'' else ''00''"
  have ids: "wf_id 32 (tr_trace_id t)" "wf_id 16 (tr_span_id t)" using assms by (simp_all add: wf_trace_def)
  have fmt: "format_traceparent t = ''00'' @ ''-'' @ tr_trace_id t @ ''-'' @ tr_span_id t @ ''-'' @ ?f"
    by (simp add: format_traceparent_def)
  have "\<not> py_isspace (hd (format_traceparent t))" "\<not> py_isspace (last (format_traceparent t))"
    by (simp_all add: format_traceparent_def py_isspace_def)
  then have strip: "py_strip (format_traceparent t) = format_traceparent t" by (intro py_strip_id) simp
  have match: "match_traceparent (format_traceparent t) =
      Some \<lparr>tp_version = ''00'', tp_trace_id = tr_trace_id t, tp_parent_id = tr_span_id t,
            tp_trace_flags = ?f\<rparr>"
    unfolding fmt using ids by (intro match_format) (simp_all add: hex_flags wf_id_hex_field)
  have "format_traceparent t \<noteq> []" by (simp add: format_traceparent_def)
  then show ?thesis using ids
    by (simp add: parse_traceparent_def strip match lower_parts_def hex_flags wf_id_def)
qed

text \<open>
  A service that receives the header the gateway writes continues the same trace as a child
  of the gateway's span, with the same sampling decision.
\<close>

theorem trace_propagates:
  assumes "resolve_trace_context header new_trace new_span = Inr t"
    and "resolve_trace_context (Some (format_traceparent t)) next_trace next_span = Inr u"
  shows "tr_trace_id u = tr_trace_id t \<and> tr_parent_span_id u = Some (tr_span_id t) \<and>
    tr_sampled u = tr_sampled t \<and> tr_source u = ''remote''"
  using assms(2) parse_format_traceparent [OF resolve_trace_context_wf [OF assms(1)]]
  by (auto simp: resolve_trace_context_def sampled_flags Let_def simp del: hex_val.simps)

end
