(* ===== verification/TraceExporter.thy ===== *)
theory TraceExporter
  imports TraceContext "HOL-Library.List_Lexorder" "HOL-Library.Multiset"
begin

text \<open>
  \<^verbatim>\<open>gateway/trace_exporter.py\<close>: the span record of a request, its attribute allow-list, the
  OTLP payload that groups span records, and the exporters. Files and the collector are
  parameters (\<open>export_world\<close>); what an exporter does to them is a list of effects.
\<close>

section \<open>Span records\<close>

definition SAFE_ATTRIBUTE_KEYS :: "string list" where
  "SAFE_ATTRIBUTE_KEYS =
     [''http.route'', ''ai.gateway.auth_method'', ''ai.gateway.decision_count'',
      ''ai.gateway.latency_ms'', ''ai.gateway.model_id'', ''ai.gateway.outcome'',
      ''ai.gateway.sampled'', ''ai.gateway.estimated_input_tokens'',
      ''ai.gateway.token_budget_limit'', ''ai.gateway.trace_source'']"

fun is_scalar :: "pyval \<Rightarrow> bool" where
  "is_scalar (VStr s) = True"
| "is_scalar (VNum n) = True"
| "is_scalar (VBool b) = True"
| "is_scalar v = False"

definition sorted_items :: "(string, 'v) dict \<Rightarrow> (string \<times> 'v) list" where
  \<comment> \<open>\<^verbatim>\<open>sorted(d.items())\<close>: the keys are distinct, so values are never compared\<close>
  "sorted_items d = sort_key fst d"

definition sanitize_attributes :: "(string, pyval) dict \<Rightarrow> (string, pyval) dict" where
  "sanitize_attributes attributes =
     filter (\<lambda>(key, v). key \<in> set SAFE_ATTRIBUTE_KEYS \<and> is_scalar v) (sorted_items attributes)"

fun dict_update :: "(string, pyval) dict \<Rightarrow> (string, pyval) dict \<Rightarrow> (string, pyval) dict" where
  "dict_update d [] = d"
| "dict_update d ((k, v) # kvs) = dict_update (dset d k v) kvs"

record span_args =
  sa_model_id :: string
  sa_outcome :: string
  sa_auth_method :: string
  sa_decision_reasons :: "string list"
  sa_latency_ms :: "pynum option"
  sa_started_at :: int
  sa_ended_at :: int
  sa_extra_attributes :: "(string, pyval) dict"
  sa_route :: string

definition span_attributes :: "request_trace \<Rightarrow> span_args \<Rightarrow> (string, pyval) dict" where
  "span_attributes trace a =
     (let attributes =
        [(''http.route'', VStr (sa_route a)),
         (''ai.gateway.auth_method'', VStr (sa_auth_method a)),
         (''ai.gateway.decision_count'', VInt (int (length (sa_decision_reasons a)))),
         (''ai.gateway.model_id'', VStr (sa_model_id a)),
         (''ai.gateway.outcome'', VStr (sa_outcome a)),
         (''ai.gateway.sampled'', VBool (tr_sampled trace)),
         (''ai.gateway.trace_source'', VStr (tr_source trace))];
          attributes = (case sa_latency_ms a of
             None \<Rightarrow> attributes
           | Some ms \<Rightarrow> dset attributes ''ai.gateway.latency_ms'' (VNum (num_round 3 ms)))
      in dict_update attributes (sa_extra_attributes a))"

definition build_span_record :: "request_trace \<Rightarrow> string \<Rightarrow> span_args \<Rightarrow> (string, pyval) dict" where
  "build_span_record trace service_name a =
     [(''resource'', VDict [(''service.name'', VStr service_name)]),
      (''scope'', VDict
        [(''name'', VStr ''gateway.trace_exporter''),
         (''schema_url'', VStr ''https://opentelemetry.io/schemas/1.28.0'')]),
      (''span'', VDict
        [(''attributes'', VDict (sanitize_attributes (span_attributes trace a))),
         (''end_time_unix_nano'', VInt (sa_ended_at a)),
         (''kind'', VStr ''SERVER''),
         (''name'', VStr (''POST '' @ sa_route a)),
         (''parent_span_id'', opt_str (tr_parent_span_id trace)),
         (''span_id'', VStr (tr_span_id trace)),
         (''start_time_unix_nano'', VInt (sa_started_at a)),
         (''status'', VDict
           [(''code'', VStr (if sa_outcome a = ''allowed'' then ''OK'' else ''ERROR'')),
            (''message'', VStr (sa_outcome a))]),
         (''trace_id'', VStr (tr_trace_id trace)),
         (''traceparent'', VStr (format_traceparent trace))])]"

section \<open>The OTLP payload\<close>

text \<open>
  \<open>json_dumps\<close> is \<^verbatim>\<open>json.dumps(..., sort_keys=True)\<close>; \<open>str_of\<close> is Python's \<^verbatim>\<open>str\<close>, with the
  representation of floats and containers left to the parameter \<open>repr\<close>.
\<close>

fun str_of :: "(pyval \<Rightarrow> string) \<Rightarrow> pyval \<Rightarrow> string" where
  "str_of repr (VStr s) = s"
| "str_of repr VNone = ''None''"
| "str_of repr (VBool b) = (if b then ''True'' else ''False'')"
| "str_of repr (VNum (NInt i)) = int_str i"
| "str_of repr v = repr v"

definition dict_item :: "(string, pyval) dict \<Rightarrow> string \<Rightarrow> pyval result" where
  \<comment> \<open>\<^verbatim>\<open>d[key]\<close>\<close>
  "dict_item d key = (case dget d key of None \<Rightarrow> Inl (KeyError key) | Some v \<Rightarrow> Inr v)"

definition as_mapping :: "pyval \<Rightarrow> (string, pyval) dict result" where
  "as_mapping v =
     (case v of VDict d \<Rightarrow> Inr d | _ \<Rightarrow> Inl (TypeError ''expected mapping-shaped span record''))"

definition otlp_value :: "(pyval \<Rightarrow> string) \<Rightarrow> pyval \<Rightarrow> pyval" where
  "otlp_value repr v =
     (case v of
        VBool b \<Rightarrow> VDict [(''boolValue'', v)]
      | VNum (NInt i) \<Rightarrow> VDict [(''intValue'', VStr (int_str i))]
      | VNum (NFlt f) \<Rightarrow> VDict [(''doubleValue'', v)]
      | _ \<Rightarrow> VDict [(''stringValue'', VStr (str_of repr v))])"

definition otlp_attributes :: "(pyval \<Rightarrow> string) \<Rightarrow> (string, pyval) dict \<Rightarrow> pyval" where
  "otlp_attributes repr attributes =
     VList (map (\<lambda>(key, v). VDict [(''key'', VStr key), (''value'', otlp_value repr v)])
       (sorted_items attributes))"

definition otlp_span :: "(pyval \<Rightarrow> string) \<Rightarrow> (string, pyval) dict \<Rightarrow> pyval result" where
  "otlp_span repr sp =
     bind_result (as_mapping (dget_default sp ''status'' (VDict []))) (\<lambda>status.
     bind_result (dict_item sp ''trace_id'') (\<lambda>trace_id.
     bind_result (dict_item sp ''span_id'') (\<lambda>span_id.
     bind_result (dict_item sp ''name'') (\<lambda>name.
     bind_result (dict_item sp ''start_time_unix_nano'') (\<lambda>start.
     bind_result (dict_item sp ''end_time_unix_nano'') (\<lambda>stop.
     bind_result (as_mapping (dget_default sp ''attributes'' (VDict []))) (\<lambda>attributes.
       let parent = dget_default sp ''parent_span_id'' VNone in
       Inr (VDict
         [(''traceId'', VStr (str_of repr trace_id)),
          (''spanId'', VStr (str_of repr span_id)),
          (''parentSpanId'', VStr (if truthy parent then str_of repr parent else [])),
          (''name'', VStr (str_of repr name)),
          (''kind'', VInt 2),
          (''startTimeUnixNano'', VStr (str_of repr start)),
          (''endTimeUnixNano'', VStr (str_of repr stop)),
          (''attributes'', otlp_attributes repr attributes),
          (''status'', VDict
            [(''code'', VInt (if dget_default status ''code'' VNone = VStr ''OK'' then 1 else 2)),
             (''message'', VStr (str_of repr (dget_default status ''message'' (VStr []))))])]))))))))"

text \<open>One entry of \<^verbatim>\<open>grouped\<close>: a resource with its single scope and the spans so far.\<close>

record otlp_group =
  og_resource :: pyval
  og_scope :: pyval
  og_spans :: "pyval list"

type_synonym span_groups = "(string \<times> string, otlp_group) dict"

definition new_group :: "(pyval \<Rightarrow> string) \<Rightarrow> (string, pyval) dict \<Rightarrow> (string, pyval) dict \<Rightarrow> otlp_group" where
  "new_group repr resource scope =
     \<lparr>og_resource = VDict [(''attributes'', otlp_attributes repr resource)],
      og_scope = VDict
        [(''name'', VStr (str_of repr (dget_default scope ''name'' (VStr [])))),
         (''schemaUrl'', VStr (str_of repr (dget_default scope ''schema_url'' (VStr []))))],
      og_spans = []\<rparr>"

definition group_record ::
  "(pyval \<Rightarrow> string) \<Rightarrow> (pyval \<Rightarrow> string) \<Rightarrow> span_groups \<Rightarrow> (string, pyval) dict \<Rightarrow> span_groups result" where
  "group_record repr json_dumps grouped record =
     bind_result (bind_result (dict_item record ''resource'') as_mapping) (\<lambda>resource.
     bind_result (bind_result (dict_item record ''scope'') as_mapping) (\<lambda>scope.
       let group_key = (json_dumps (VDict resource), json_dumps (VDict scope));
           g = (case dget grouped group_key of
                  None \<Rightarrow> new_group repr resource scope | Some g \<Rightarrow> g)
       in bind_result (bind_result (dict_item record ''span'') as_mapping) (\<lambda>sp.
          bind_result (otlp_span repr sp) (\<lambda>s.
            Inr (dset grouped group_key (g\<lparr>og_spans := og_spans g @ [s]\<rparr>))))))"

fun group_records ::
  "(pyval \<Rightarrow> string) \<Rightarrow> (pyval \<Rightarrow> string) \<Rightarrow> span_groups \<Rightarrow> (string, pyval) dict list \<Rightarrow> span_groups result" where
  "group_records repr json_dumps grouped [] = Inr grouped"
| "group_records repr json_dumps grouped (r # rs) =
     bind_result (group_record repr json_dumps grouped r) (\<lambda>g. group_records repr json_dumps g rs)"

definition group_value :: "otlp_group \<Rightarrow> pyval" where
  "group_value g =
     VDict [(''resource'', og_resource g),
            (''scopeSpans'', VList [VDict [(''scope'', og_scope g), (''spans'', VList (og_spans g))]])]"

definition build_otlp_traces_payload ::
  "(pyval \<Rightarrow> string) \<Rightarrow> (pyval \<Rightarrow> string) \<Rightarrow> (string, pyval) dict list \<Rightarrow> pyval result" where
  "build_otlp_traces_payload repr json_dumps records =
     bind_result (group_records repr json_dumps [] records) (\<lambda>grouped.
       Inr (VDict [(''resourceSpans'', VList (map (group_value \<circ> snd) grouped))]))"

section \<open>Exporters\<close>

datatype exporter =
    JsonlTraceExporter string string
  | OtlpHttpTraceExporter string string pyfloat "string option"
  | CompositeTraceExporter "exporter list"

datatype export_effect = SpanLine string string | SpanPost string pyval pyfloat

record export_world =
  ew_json_dumps :: "pyval \<Rightarrow> string"
  ew_repr :: "pyval \<Rightarrow> string"
  ew_append :: "string \<Rightarrow> string \<Rightarrow> unit result"
  ew_post :: "string \<Rightarrow> pyval \<Rightarrow> pyfloat \<Rightarrow> unit result"

text \<open>\<^verbatim>\<open>JsonlTraceExporter.write_span\<close>: one line at the end of the file.\<close>

definition jsonl_write_span ::
  "export_world \<Rightarrow> request_trace \<Rightarrow> span_args \<Rightarrow> string \<Rightarrow> string \<Rightarrow>
   unit result \<times> exporter \<times> export_effect list" where
  [simp]: "jsonl_write_span w trace a path service_name =
     (let line = ew_json_dumps w (VDict (build_span_record trace service_name a)) @ [CHR 0x0A] in
      (ew_append w path line, JsonlTraceExporter path service_name,
       if ew_append w path line = Inr () then [SpanLine path line] else []))"

text \<open>
  \<^verbatim>\<open>OtlpHttpTraceExporter.write_span\<close>: an \<^verbatim>\<open>OSError\<close> of the post is kept in
  \<^verbatim>\<open>last_error\<close> and goes no further.
\<close>

definition otlp_write_span ::
  "export_world \<Rightarrow> request_trace \<Rightarrow> span_args \<Rightarrow> string \<Rightarrow> string \<Rightarrow> pyfloat \<Rightarrow> string option \<Rightarrow>
   unit result \<times> exporter \<times> export_effect list" where
  [simp]: "otlp_write_span w trace a endpoint service_name timeout last_error =
     (case build_otlp_traces_payload (ew_repr w) (ew_json_dumps w) [build_span_record trace service_name a] of
        Inl e \<Rightarrow> (Inl e, OtlpHttpTraceExporter endpoint service_name timeout last_error, [])
      | Inr payload \<Rightarrow>
          (case ew_post w endpoint payload timeout of
             Inr _ \<Rightarrow> (Inr (), OtlpHttpTraceExporter endpoint service_name timeout None,
                        [SpanPost endpoint payload timeout])
           | Inl (OSError m) \<Rightarrow> (Inr (), OtlpHttpTraceExporter endpoint service_name timeout (Some m), [])
           | Inl e \<Rightarrow> (Inl e, OtlpHttpTraceExporter endpoint service_name timeout last_error, [])))"

fun write_span ::
  "export_world \<Rightarrow> request_trace \<Rightarrow> span_args \<Rightarrow> exporter \<Rightarrow>
   unit result \<times> exporter \<times> export_effect list"
and write_spans ::
  "export_world \<Rightarrow> request_trace \<Rightarrow> span_args \<Rightarrow> exporter list \<Rightarrow>
   unit result \<times> exporter list \<times> export_effect list"
where
  "write_span w trace a (JsonlTraceExporter path service_name) = jsonl_write_span w trace a path service_name"
| "write_span w trace a (OtlpHttpTraceExporter endpoint service_name timeout last_error) =
     otlp_write_span w trace a endpoint service_name timeout last_error"
| "write_span w trace a (CompositeTraceExporter exporters) =
     (let (r, exporters', effects) = write_spans w trace a exporters in
      (r, CompositeTraceExporter exporters', effects))"
| "write_spans w trace a [] = (Inr (), [], [])"
| "write_spans w trace a (x # xs) =
     (case write_span w trace a x of
        (Inl e, x', effects) \<Rightarrow> (Inl e, x' # xs, effects)
      | (Inr _, x', effects) \<Rightarrow>
          (let (r, xs', effects') = write_spans w trace a xs in (r, x' # xs', effects @ effects')))"

definition env_float :: "environ \<Rightarrow> string \<Rightarrow> pyfloat \<Rightarrow> pyfloat" where
  "env_float env name dflt =
     (case empty_to_none (env name) of
        None \<Rightarrow> dflt
      | Some v \<Rightarrow> (case py_float v of None \<Rightarrow> dflt | Some f \<Rightarrow> f))"

definition getenv_or :: "environ \<Rightarrow> string \<Rightarrow> string \<Rightarrow> string option" where
  \<comment> \<open>\<^verbatim>\<open>os.getenv(a) or os.getenv(b)\<close>\<close>
  "getenv_or env a b = (if truthy_str (env a) then env a else env b)"

definition build_trace_exporter_from_env :: "environ \<Rightarrow> exporter option" where
  "build_trace_exporter_from_env env =
     (let service_name = getenv env ''OTEL_SERVICE_NAME'' ''secure-gpu-inference-gateway'';
          jsonl = (case empty_to_none (getenv_or env ''TRACE_EXPORT_PATH'' ''OTEL_TRACE_EXPORT_PATH'') of
             None \<Rightarrow> [] | Some path \<Rightarrow> [JsonlTraceExporter path service_name]);
          otlp = (case empty_to_none (getenv_or env ''OTEL_EXPORTER_OTLP_TRACES_ENDPOINT''
                    ''OTLP_TRACES_ENDPOINT'') of
             None \<Rightarrow> []
           | Some endpoint \<Rightarrow>
               [OtlpHttpTraceExporter endpoint service_name
                  (env_float env ''OTEL_EXPORTER_OTLP_TIMEOUT'' (Fin 2)) None])
      in case jsonl @ otlp of
           [] \<Rightarrow> None
         | [x] \<Rightarrow> Some x
         | xs \<Rightarrow> Some (CompositeTraceExporter xs))"

text \<open>\<^verbatim>\<open>JsonlTraceExporter.from_env\<close>\<close>

definition jsonl_from_env :: "environ \<Rightarrow> exporter option" where
  "jsonl_from_env env =
     (case empty_to_none (getenv_or env ''TRACE_EXPORT_PATH'' ''OTEL_TRACE_EXPORT_PATH'') of
        None \<Rightarrow> None
      | Some path \<Rightarrow> Some (JsonlTraceExporter path
          (getenv env ''OTEL_SERVICE_NAME'' ''secure-gpu-inference-gateway'')))"

section \<open>Reading a span file back\<close>

text \<open>A text file read line by line: \<^verbatim>\<open>\r\n\<close> and \<^verbatim>\<open>\r\<close> end a line as \<^verbatim>\<open>\n\<close> does.\<close>

fun universal_newlines :: "string \<Rightarrow> string" where
  "universal_newlines [] = []"
| "universal_newlines (c # cs) =
     (if c = CHR 0x0D
      then CHR 0x0A # (case cs of d # ds \<Rightarrow> if d = CHR 0x0A then universal_newlines ds else universal_newlines cs
                                | [] \<Rightarrow> [])
      else c # universal_newlines cs)"

fun load_records :: "(string \<Rightarrow> pyval result) \<Rightarrow> string list \<Rightarrow> pyval list result" where
  "load_records json_loads [] = Inr []"
| "load_records json_loads (line # lines) =
     (if py_strip line = [] then load_records json_loads lines
      else bind_result (json_loads line) (\<lambda>record.
           bind_result (load_records json_loads lines) (\<lambda>records. Inr (record # records))))"

definition load_jsonl_span_records :: "(string \<Rightarrow> pyval result) \<Rightarrow> string \<Rightarrow> pyval list result" where
  "load_jsonl_span_records json_loads content =
     load_records json_loads (py_split (CHR 0x0A) (universal_newlines content))"

text \<open>What the span file holds after the exporter has written spans to it.\<close>

definition json_line_ok :: "(string \<Rightarrow> pyval result) \<Rightarrow> (pyval \<Rightarrow> string) \<Rightarrow> pyval \<Rightarrow> bool" where
  "json_line_ok json_loads json_dumps v \<longleftrightarrow>
     json_loads (json_dumps v) = Inr v \<and> CHR 0x0A \<notin> set (json_dumps v) \<and>
     CHR 0x0D \<notin> set (json_dumps v) \<and> py_strip (json_dumps v) \<noteq> []"

fun appended_text :: "export_effect list \<Rightarrow> string" where
  "appended_text [] = []"
| "appended_text (SpanLine path line # effects) = line @ appended_text effects"
| "appended_text (SpanPost endpoint payload timeout # effects) = appended_text effects"

fun span_file :: "export_world \<Rightarrow> string \<Rightarrow> string \<Rightarrow> (request_trace \<times> span_args) list \<Rightarrow> string" where
  "span_file w path service [] = []"
| "span_file w path service ((trace, a) # spans) =
     appended_text (snd (snd (write_span w trace a (JsonlTraceExporter path service)))) @
     span_file w path service spans"

lemma universal_newlines_id: "CHR 0x0D \<notin> set s \<Longrightarrow> universal_newlines s = s"
  by (induction s) auto

lemma load_records_lines:
  assumes "\<forall>v \<in> set vs. json_line_ok json_loads json_dumps v"
  shows "load_records json_loads (map json_dumps vs @ [[]]) = Inr vs"
  using assms by (induction vs) (auto simp: json_line_ok_def py_strip_Nil)

lemma span_file_lines:
  assumes "\<forall>line. ew_append w path line = Inr ()"
  shows "span_file w path service spans =
    concat (map (\<lambda>l. l @ [CHR 0x0A]) (map (ew_json_dumps w)
      (map (\<lambda>(trace, a). VDict (build_span_record trace service a)) spans)))"
  using assms by (induction spans) (auto simp: Let_def)

lemma span_records_loaded:
  assumes "\<forall>line. ew_append w path line = Inr ()"
    and "\<forall>(trace, a) \<in> set spans.
      json_line_ok json_loads (ew_json_dumps w) (VDict (build_span_record trace service a))"
  shows "load_jsonl_span_records json_loads (span_file w path service spans) =
    Inr (map (\<lambda>(trace, a). VDict (build_span_record trace service a)) spans)"
proof -
  let ?vs = "map (\<lambda>(trace, a). VDict (build_span_record trace service a)) spans"
  let ?ls = "map (ew_json_dumps w) ?vs"
  have ok: "\<forall>v \<in> set ?vs. json_line_ok json_loads (ew_json_dumps w) v" using assms(2) by auto
  then have cr: "CHR 0x0D \<notin> set (concat (map (\<lambda>l. l @ [CHR 0x0A]) ?ls))"
    and lines: "\<forall>l \<in> set ?ls. CHR 0x0A \<notin> set l"
    by (auto simp: json_line_ok_def)
  show ?thesis
    unfolding load_jsonl_span_records_def span_file_lines [OF assms(1)] universal_newlines_id [OF cr]
      py_split_lines [OF lines]
    by (rule load_records_lines [OF ok])
qed

text \<open>
  C37: Loading the trace file that the JSON-lines exporter has written gives back the span
  record of every request traced, in order.
\<close>

theorem span_file_roundtrip:
  assumes "\<forall>line. ew_append w path line = Inr ()"
    and "\<forall>(trace, a) \<in> set spans.
      json_line_ok json_loads (ew_json_dumps w) (VDict (build_span_record trace service a))"
  shows "load_jsonl_span_records json_loads (span_file w path service spans) =
    Inr (map (\<lambda>(trace, a). VDict (build_span_record trace service a)) spans)"
  using assms by (rule span_records_loaded)

section \<open>What a span may reveal\<close>

lemma sorted_items_facts [simp]:
  "set (sorted_items d) = set d"
  "distinct (map fst (sorted_items d)) \<longleftrightarrow> distinct (dkeys d)"
  "sorted (map fst (sorted_items d))"
proof -
  have "mset (map fst (sorted_items d)) = mset (map fst d)" by (simp add: sorted_items_def)
  then show "distinct (map fst (sorted_items d)) \<longleftrightarrow> distinct (dkeys d)"
    unfolding dkeys_def by (rule mset_eq_imp_distinct_iff)
qed (simp_all add: sorted_items_def)

text \<open>The attributes that \<^verbatim>\<open>build_span_record\<close> stores in a span record.\<close>

definition record_attributes :: "(string, pyval) dict \<Rightarrow> (string, pyval) dict" where
  "record_attributes r =
     (case dget_default r ''span'' VNone of
        VDict sp \<Rightarrow> (case dget_default sp ''attributes'' VNone of VDict d \<Rightarrow> d | _ \<Rightarrow> [])
      | _ \<Rightarrow> [])"

lemma record_attributes_build [simp]:
  "record_attributes (build_span_record trace service a) = sanitize_attributes (span_attributes trace a)"
  by (simp add: record_attributes_def build_span_record_def dget_default_def)

lemma sanitize_set:
  "(k, v) \<in> set (sanitize_attributes d) \<longleftrightarrow> (k, v) \<in> set d \<and> k \<in> set SAFE_ATTRIBUTE_KEYS \<and> is_scalar v"
  by (auto simp: sanitize_attributes_def)

text \<open>
  Whatever the extra attributes are, a span carries allow-listed keys with scalar values
  only, and of the decision reasons it carries nothing but their number.
\<close>

theorem span_record_reveals:
  "(\<forall>(k, v) \<in> set (record_attributes (build_span_record trace service a)).
      k \<in> set SAFE_ATTRIBUTE_KEYS \<and> is_scalar v) \<and>
   build_span_record trace service (a\<lparr>sa_decision_reasons := replicate (length (sa_decision_reasons a)) []\<rparr>) =
     build_span_record trace service a"
proof
  show "\<forall>(k, v) \<in> set (record_attributes (build_span_record trace service a)).
      k \<in> set SAFE_ATTRIBUTE_KEYS \<and> is_scalar v"
    by (auto simp: sanitize_set)
  show "build_span_record trace service (a\<lparr>sa_decision_reasons := replicate (length (sa_decision_reasons a)) []\<rparr>) =
     build_span_record trace service a"
    by (simp add: build_span_record_def span_attributes_def)
qed

section \<open>Grouping keeps every span\<close>

lemma dget_dset_same: "dget (dset d k v) = (dget d)(k \<mapsto> v)"
  by (rule ext) simp

text \<open>The group a record belongs to and the OTLP span it becomes.\<close>

definition record_key :: "(pyval \<Rightarrow> string) \<Rightarrow> (string, pyval) dict \<Rightarrow> string \<times> string" where
  "record_key json_dumps r =
     (json_dumps (dget_default r ''resource'' VNone), json_dumps (dget_default r ''scope'' VNone))"

definition record_span :: "(pyval \<Rightarrow> string) \<Rightarrow> (string, pyval) dict \<Rightarrow> pyval result" where
  "record_span repr r = bind_result (bind_result (dict_item r ''span'') as_mapping) (otlp_span repr)"

definition group_spans :: "span_groups \<Rightarrow> string \<times> string \<Rightarrow> pyval list" where
  "group_spans grouped k = (case dget grouped k of None \<Rightarrow> [] | Some g \<Rightarrow> og_spans g)"

lemma as_mapping_Inr: "as_mapping v = Inr d \<longleftrightarrow> v = VDict d"
  by (cases v) (simp_all add: as_mapping_def)

lemma dict_item_Inr: "dict_item d k = Inr v \<longleftrightarrow> dget d k = Some v"
  by (cases "dget d k") (simp_all add: dict_item_def)

lemma group_record_step:
  assumes "group_record repr json_dumps grouped r = Inr grouped'"
  shows "\<exists>s. record_span repr r = Inr s \<and>
    group_spans grouped' k =
      group_spans grouped k @ (if k = record_key json_dumps r then [s] else []) \<and>
    dkeys grouped' = (if record_key json_dumps r \<in> set (dkeys grouped) then dkeys grouped
      else dkeys grouped @ [record_key json_dumps r])"
proof -
  obtain resource scope sp s where
    res: "dget r ''resource'' = Some (VDict resource)" and sc: "dget r ''scope'' = Some (VDict scope)"
    and sp: "dget r ''span'' = Some (VDict sp)" and s: "otlp_span repr sp = Inr s"
    and g': "grouped' = dset grouped (json_dumps (VDict resource), json_dumps (VDict scope))
      ((case dget grouped (json_dumps (VDict resource), json_dumps (VDict scope)) of
          None \<Rightarrow> new_group repr resource scope | Some g \<Rightarrow> g)
        \<lparr>og_spans := og_spans (case dget grouped (json_dumps (VDict resource), json_dumps (VDict scope)) of
          None \<Rightarrow> new_group repr resource scope | Some g \<Rightarrow> g) @ [s]\<rparr>)"
    using assms by (auto simp: group_record_def Let_def as_mapping_Inr dict_item_Inr)
  have key: "record_key json_dumps r = (json_dumps (VDict resource), json_dumps (VDict scope))"
    by (simp add: record_key_def dget_default_def res sc)
  have "record_span repr r = Inr s"
    using sp s by (simp add: record_span_def as_mapping_Inr dict_item_Inr)
  moreover have "group_spans grouped' k =
      group_spans grouped k @ (if k = record_key json_dumps r then [s] else [])"
    by (auto simp: g' key group_spans_def new_group_def split: option.splits)
  ultimately show ?thesis by (simp add: g' key dkeys_dset)
qed

lemma group_records_spans:
  assumes "group_records repr json_dumps grouped rs = Inr grouped'"
  shows "map Inr (group_spans grouped' k) = map Inr (group_spans grouped k) @
      map (record_span repr) (filter (\<lambda>r. record_key json_dumps r = k) rs) \<and>
    set (dkeys grouped') = set (dkeys grouped) \<union> record_key json_dumps ` set rs \<and>
    (distinct (dkeys grouped) \<longrightarrow> distinct (dkeys grouped'))"
  using assms
proof (induction rs arbitrary: grouped)
  case (Cons r rs)
  then obtain g where step: "group_record repr json_dumps grouped r = Inr g"
    and rest: "group_records repr json_dumps g rs = Inr grouped'" by auto
  obtain s where "record_span repr r = Inr s"
    and "group_spans g k = group_spans grouped k @ (if k = record_key json_dumps r then [s] else [])"
    and "dkeys g = (if record_key json_dumps r \<in> set (dkeys grouped) then dkeys grouped
      else dkeys grouped @ [record_key json_dumps r])"
    using group_record_step [OF step] by blast
  then show ?case using Cons.IH [OF rest] by (auto split: if_splits)
qed simp

text \<open>
  The OTLP payload has one group for each resource and scope, and that group holds the
  spans of exactly the records with that resource and scope, in the order of the records.
\<close>

theorem otlp_grouping_exact:
  assumes "group_records repr json_dumps [] records = Inr grouped"
  shows "distinct (dkeys grouped) \<and>
    set (dkeys grouped) = record_key json_dumps ` set records \<and>
    map Inr (group_spans grouped k) =
      map (record_span repr) (filter (\<lambda>r. record_key json_dumps r = k) records)"
  using group_records_spans [OF assms, of k]
  by (auto simp: group_spans_def dkeys_def)

section \<open>Export of one span\<close>

text \<open>The record of a request always converts.\<close>

lemma otlp_span_build:
  "\<exists>s. group_record repr json_dumps grouped (build_span_record trace service a) =
     Inr (dset grouped (record_key json_dumps (build_span_record trace service a)) s)"
  by (auto simp: group_record_def build_span_record_def otlp_span_def dict_item_def as_mapping_def
      dget_default_def record_key_def Let_def)

lemma build_payload_total:
  "\<exists>payload. build_otlp_traces_payload repr json_dumps [build_span_record trace service a] = Inr payload"
  using otlp_span_build [of repr json_dumps "[]" trace service a]
  by (auto simp: build_otlp_traces_payload_def)

text \<open>
  How many leaf exporters an exporter has; a composite writes to each of them as long as
  none raises, and a collector that cannot be reached raises nothing.
\<close>

fun leaves :: "exporter \<Rightarrow> exporter list" where
  "leaves (CompositeTraceExporter xs) = concat (map leaves xs)"
| "leaves x = [x]"

fun is_otlp :: "exporter \<Rightarrow> bool" where
  "is_otlp (OtlpHttpTraceExporter e s t l) = True"
| "is_otlp x = False"

definition post_raises_os_errors :: "export_world \<Rightarrow> bool" where
  "post_raises_os_errors w \<longleftrightarrow> (\<forall>e p t err. ew_post w e p t = Inl err \<longrightarrow> (\<exists>m. err = OSError m))"

lemma write_span_otlp_total:
  assumes "post_raises_os_errors w"
  shows "fst (write_span w trace a (OtlpHttpTraceExporter endpoint service t l)) = Inr ()"
proof -
  obtain payload where
    p: "build_otlp_traces_payload (ew_repr w) (ew_json_dumps w) [build_span_record trace service a] = Inr payload"
    using build_payload_total by blast
  show ?thesis
  proof (cases "ew_post w endpoint payload t")
    case (Inl err)
    moreover obtain m where "err = OSError m" using assms Inl unfolding post_raises_os_errors_def by blast
    ultimately show ?thesis using p by simp
  qed (simp add: p)
qed

lemma write_span_error:
  shows "post_raises_os_errors w \<Longrightarrow> fst (write_span w trace a x) = Inl e \<Longrightarrow>
      \<exists>path service line. JsonlTraceExporter path service \<in> set (leaves x) \<and> ew_append w path line = Inl e"
    and "post_raises_os_errors w \<Longrightarrow> fst (write_spans w trace a xs) = Inl e \<Longrightarrow>
      \<exists>path service line. JsonlTraceExporter path service \<in> set (concat (map leaves xs)) \<and>
        ew_append w path line = Inl e"
proof (induction w trace a x and w trace a xs rule: write_span_write_spans.induct)
  case (1 w trace a path service_name)
  then show ?case by (auto simp: Let_def)
next
  case (2 w trace a endpoint service_name timeout last_error)
  then show ?case
    using write_span_otlp_total [OF 2(1), of trace a endpoint service_name timeout last_error]
    by (simp del: write_span.simps)
next
  case (3 w trace a exporters)
  then show ?case by (simp add: case_prod_beta)
next
  case (5 w trace a x xs)
  obtain r x' effs where step: "write_span w trace a x = (r, x', effs)" by (cases "write_span w trace a x")
  show ?case
  proof (cases r)
    case (Inl err)
    then show ?thesis using 5(1) 5(3,4) step by auto
  next
    case (Inr u)
    then have "fst (write_spans w trace a xs) = Inl e"
      using 5(4) step by (auto simp: case_prod_beta)
    moreover have "(r, x', effs) = write_span w trace a x" by (simp add: step)
    ultimately have "\<exists>path service line. JsonlTraceExporter path service \<in> set (concat (map leaves xs)) \<and>
        ew_append w path line = Inl e"
      by (rule 5(2) [OF _ Inr refl 5(3), rotated])
    then show ?thesis by auto
  qed
qed simp

text \<open>One line per file exporter and one post per collector that answers.\<close>

fun line_paths :: "export_effect list \<Rightarrow> string list" where
  "line_paths [] = []"
| "line_paths (SpanLine path line # es) = path # line_paths es"
| "line_paths (SpanPost e p t # es) = line_paths es"

fun leaf_paths :: "exporter list \<Rightarrow> string list" where
  "leaf_paths [] = []"
| "leaf_paths (JsonlTraceExporter path service # xs) = path # leaf_paths xs"
| "leaf_paths (x # xs) = leaf_paths xs"

lemma line_paths_append [simp]: "line_paths (es @ es') = line_paths es @ line_paths es'"
  by (induction es rule: line_paths.induct) simp_all

lemma leaf_paths_append [simp]: "leaf_paths (xs @ ys) = leaf_paths xs @ leaf_paths ys"
  by (induction xs rule: leaf_paths.induct) simp_all

lemma write_span_lines:
  shows "fst (write_span w trace a x) = Inr () \<Longrightarrow>
      line_paths (snd (snd (write_span w trace a x))) = leaf_paths (leaves x)"
    and "fst (write_spans w trace a xs) = Inr () \<Longrightarrow>
      line_paths (snd (snd (write_spans w trace a xs))) = leaf_paths (concat (map leaves xs))"
proof (induction w trace a x and w trace a xs rule: write_span_write_spans.induct)
  case (5 w trace a x xs)
  obtain r x' effs where step: "write_span w trace a x = (r, x', effs)" by (cases "write_span w trace a x")
  have r: "r = Inr ()" using 5(3) step by (cases r) auto
  have "(r, x', effs) = write_span w trace a x" by (simp add: step)
  moreover have "fst (write_spans w trace a xs) = Inr ()"
    using 5(3) step r by (auto simp: case_prod_beta)
  ultimately have "line_paths (snd (snd (write_spans w trace a xs))) = leaf_paths (concat (map leaves xs))"
    by (rule 5(2) [OF _ r refl])
  then show ?case using 5(1) step r by (simp add: case_prod_beta)
qed (auto simp: Let_def case_prod_beta split: sum.splits py_error.splits)

theorem trace_export_outcome:
  assumes "post_raises_os_errors w" and "write_span w trace a x = (r, x', effects)"
  shows "(\<forall>e. r = Inl e \<longrightarrow> (\<exists>path line. path \<in> set (leaf_paths (leaves x)) \<and> ew_append w path line = Inl e)) \<and>
    (r = Inr () \<longrightarrow> line_paths effects = leaf_paths (leaves x))"
proof -
  have mem: "JsonlTraceExporter path service \<in> set xs \<Longrightarrow> path \<in> set (leaf_paths xs)" for path service xs
    by (induction xs rule: leaf_paths.induct) auto
  show ?thesis
    using write_span_error(1) [OF assms(1), of trace a x] write_span_lines(1) [of w trace a x] assms(2) mem
    by fastforce
qed

end
