(* ===== verification/Gateway.thy ===== *)
theory Gateway
  imports Policy RedisLimit AuditLog Metrics Identity Backend TraceExporter
begin

text \<open>
  \<^verbatim>\<open>gateway/app.py\<close>: the request handlers over the module-level objects. The state of the
  process is the record \<open>gateway\<close>; what the handlers call outside it (the environment, the
  Redis server, the HTTP stack, the files) is the record \<open>world\<close>; and every reading of a
  clock or a random source is a field of \<open>readings\<close>, so that a handler is a function.

  Handlers are written in a state and exception monad: an \<^verbatim>\<open>HTTPException\<close> is \<open>HttpError\<close>, any
  other exception, which FastAPI turns into a 500, is \<open>Crash\<close>. The request models are taken
  as validated; their bounds are \<open>inference_request_ok\<close> and \<open>completion_request_ok\<close>.
\<close>

section \<open>State, world and readings\<close>

record 's world =
  w_env :: environ
  w_policies :: "(string, model_policy) dict"
  w_auth :: auth_settings
  w_jwt :: jwt_runtime
  w_sha256_hex :: "string \<Rightarrow> string"
  w_eval :: "'s eval_fun"
  w_http :: http_stack
  w_json_dumps :: "pyval \<Rightarrow> string"
  w_audit_append :: "string \<Rightarrow> unit result"
  w_export :: export_world

record 's gateway =
  gw_limiters :: limiter_backend
  gw_store :: 's
  gw_metrics :: gateway_metrics
  gw_audit :: "(string \<times> audit_event) list"
  gw_exporter :: "exporter option"
  gw_exports :: "export_effect list"
  gw_denial_budget :: denial_budget
  gw_client :: "http_client option"
  gw_backend_log :: "backend_event list"
  gw_backend_calls :: "(string \<times> string) list"

text \<open>\<open>rd_perf n\<close> is the n-th reading of \<^verbatim>\<open>perf_counter\<close> in the handler.\<close>

record readings =
  rd_started_ns :: int
  rd_ended_ns :: int
  rd_trace_id :: string
  rd_span_id :: string
  rd_auth_now :: pyfloat
  rd_request_now :: pyfloat
  rd_token_now :: pyfloat
  rd_denial_now :: pyfloat
  rd_timestamp :: string
  rd_perf :: "int \<Rightarrow> pyfloat"
  rd_backend_started :: pyfloat
  rd_backend_ended :: pyfloat

record http_exception =
  he_status :: int
  he_detail :: pyval
  he_headers :: "(string, string) dict"

datatype failure = HttpError http_exception | Crash py_error

type_synonym ('s, 'a) handler = "'s gateway \<Rightarrow> (failure + 'a) \<times> 's gateway"

definition gbind :: "('s, 'a) handler \<Rightarrow> ('a \<Rightarrow> ('s, 'b) handler) \<Rightarrow> ('s, 'b) handler" where
  "gbind m f g = (case m g of (Inl e, g') \<Rightarrow> (Inl e, g') | (Inr x, g') \<Rightarrow> f x g')"

definition gthen :: "('s, 'a) handler \<Rightarrow> ('s, 'b) handler \<Rightarrow> ('s, 'b) handler" where
  "gthen m k = gbind m (\<lambda>_. k)"

definition greturn :: "'a \<Rightarrow> ('s, 'a) handler" where
  "greturn x g = (Inr x, g)"

definition gfail :: "failure \<Rightarrow> ('s, 'a) handler" where
  "gfail e g = (Inl e, g)"

definition gresult :: "'a result \<Rightarrow> ('s, 'a) handler" where
  "gresult r = (case r of Inl e \<Rightarrow> gfail (Crash e) | Inr x \<Rightarrow> greturn x)"

definition gmetrics :: "(gateway_metrics \<Rightarrow> gateway_metrics) \<Rightarrow> ('s, unit) handler" where
  "gmetrics f g = (Inr (), g\<lparr>gw_metrics := f (gw_metrics g)\<rparr>)"

section \<open>The limiters behind one interface\<close>

definition request_decide ::
  "'s world \<Rightarrow> pyfloat \<Rightarrow> string \<Rightarrow> string \<Rightarrow> int \<Rightarrow> limiter_backend \<times> 's \<Rightarrow>
     bool result \<times> limiter_backend \<times> 's" where
  "request_decide w now p m limit ls =
     (case ls of
        (MemoryLimiters r t, store) \<Rightarrow>
          (let (b, r') = rate_limiter_allow r now p m limit in (Inr b, MemoryLimiters r' t, store))
      | (RedisLimiters r t, store) \<Rightarrow>
          (let (d, store') = redis_request_allow (w_sha256_hex w) (w_eval w) r store now p m limit in
           (d, RedisLimiters r t, store')))"

definition token_decide ::
  "'s world \<Rightarrow> pyfloat \<Rightarrow> string \<Rightarrow> string \<Rightarrow> int \<Rightarrow> int \<Rightarrow> limiter_backend \<times> 's \<Rightarrow>
     bool result \<times> limiter_backend \<times> 's" where
  "token_decide w now p m cost limit ls =
     (case ls of
        (MemoryLimiters r t, store) \<Rightarrow>
          (let (d, t') = token_budget_allow t now p m cost limit in (d, MemoryLimiters r t', store))
      | (RedisLimiters r t, store) \<Rightarrow>
          (let (d, store') = redis_token_allow (w_sha256_hex w) (w_eval w) t store now p m cost limit in
           (d, RedisLimiters r t, store')))"

definition request_allow ::
  "'s world \<Rightarrow> pyfloat \<Rightarrow> string \<Rightarrow> string \<Rightarrow> int \<Rightarrow> ('s, bool) handler" where
  "request_allow w now p m limit g =
     (let (d, lims, store) = request_decide w now p m limit (gw_limiters g, gw_store g) in
      gresult d (g\<lparr>gw_limiters := lims, gw_store := store\<rparr>))"

definition token_allow ::
  "'s world \<Rightarrow> pyfloat \<Rightarrow> string \<Rightarrow> string \<Rightarrow> int \<Rightarrow> int \<Rightarrow> ('s, bool) handler" where
  "token_allow w now p m cost limit g =
     (let (d, lims, store) = token_decide w now p m cost limit (gw_limiters g, gw_store g) in
      gresult d (g\<lparr>gw_limiters := lims, gw_store := store\<rparr>))"

definition observe_limiter :: "string \<Rightarrow> pyfloat \<Rightarrow> ('s, unit) handler" where
  "observe_limiter limiter secs g =
     gmetrics (\<lambda>m. observe_limiter_latency m limiter (limiter_backend_name (gw_limiters g)) secs) g"

section \<open>Events\<close>

definition UNKNOWN_MODEL_LABEL :: string where
  "UNKNOWN_MODEL_LABEL = ''unknown''"

definition metric_model_label :: "'s world \<Rightarrow> string \<Rightarrow> string" where
  "metric_model_label w model_id =
     (if dget (w_policies w) model_id \<noteq> None then model_id else UNKNOWN_MODEL_LABEL)"

definition with_auth_failure :: "string list \<Rightarrow> string option \<Rightarrow> string list" where
  "with_auth_failure decision_reasons failure_reason =
     (if truthy_str failure_reason
      then (''authentication failed: '' @ the failure_reason) # decision_reasons
      else decision_reasons)"

definition trace_budget_attributes :: "int \<Rightarrow> int option \<Rightarrow> (string, pyval) dict" where
  "trace_budget_attributes estimated_input_tokens token_budget_limit =
     (''ai.gateway.estimated_input_tokens'', VInt estimated_input_tokens) #
     (case token_budget_limit of
        None \<Rightarrow> [] | Some l \<Rightarrow> [(''ai.gateway.token_budget_limit'', VInt l)])"

text \<open>The keyword arguments that the audit event and the trace span of a request share.\<close>

record event_fields =
  ef_resolved :: resolved_principal
  ef_trace :: request_trace
  ef_model_id :: string
  ef_outcome :: string
  ef_allowed :: bool
  ef_reason :: "string option"
  ef_decision_reasons :: "string list"
  ef_latency_ms :: "pyfloat option"
  ef_tokens :: int
  ef_limit :: "int option"
  ef_started_ns :: int
  ef_route :: string

definition event_principal_id :: "resolved_principal \<Rightarrow> string" where
  "event_principal_id resolved =
     (case rp_principal resolved of
        Some p \<Rightarrow> p_principal_id p
      | None \<Rightarrow> if truthy_str (rp_subject resolved) then the (rp_subject resolved) else ''unknown'')"

definition audit_event_of :: "event_fields \<Rightarrow> audit_event" where
  "audit_event_of f =
     \<lparr>ae_principal_id = event_principal_id (ef_resolved f),
      ae_model_id = ef_model_id f,
      ae_allowed = ef_allowed f,
      ae_reason = ef_reason f,
      ae_decision_reasons = ef_decision_reasons f,
      ae_latency_ms = map_option NFlt (ef_latency_ms f),
      ae_auth_method = rp_auth_method (ef_resolved f),
      ae_auth_subject = rp_subject (ef_resolved f),
      ae_auth_issuer = rp_issuer (ef_resolved f),
      ae_trace_id = tr_trace_id (ef_trace f),
      ae_span_id = tr_span_id (ef_trace f),
      ae_parent_span_id = tr_parent_span_id (ef_trace f),
      ae_estimated_input_tokens = Some (ef_tokens f),
      ae_token_budget_limit = ef_limit f\<rparr>"

definition sink_write :: "'s world \<Rightarrow> readings \<Rightarrow> audit_event \<Rightarrow> ('s, unit) handler" where
  \<comment> \<open>\<^verbatim>\<open>audit_sink.write\<close>: the file may refuse the line\<close>
  "sink_write w rd event g =
     (case w_audit_append w (w_json_dumps w (audit_payload (rd_timestamp rd) event) @ [newline]) of
        Inl e \<Rightarrow> (Inl (Crash e), g)
      | Inr _ \<Rightarrow> (Inr (), g\<lparr>gw_audit := gw_audit g @ [(rd_timestamp rd, event)]\<rparr>))"

definition export_trace_span :: "'s world \<Rightarrow> readings \<Rightarrow> event_fields \<Rightarrow> ('s, unit) handler" where
  "export_trace_span w rd f g =
     (case gw_exporter g of
        None \<Rightarrow> (Inr (), g)
      | Some x \<Rightarrow>
          (let (r, x', effects) = write_span (w_export w) (ef_trace f)
             \<lparr>sa_model_id = ef_model_id f, sa_outcome = ef_outcome f,
              sa_auth_method = rp_auth_method (ef_resolved f),
              sa_decision_reasons = ef_decision_reasons f,
              sa_latency_ms = map_option NFlt (ef_latency_ms f),
              sa_started_at = ef_started_ns f, sa_ended_at = rd_ended_ns rd,
              sa_extra_attributes = trace_budget_attributes (ef_tokens f) (ef_limit f),
              sa_route = ef_route f\<rparr> x
           in gresult r (g\<lparr>gw_exporter := Some x', gw_exports := gw_exports g @ effects\<rparr>)))"

definition denial_is_recorded :: "readings \<Rightarrow> resolved_principal \<Rightarrow> ('s, bool) handler" where
  "denial_is_recorded rd resolved g =
     (if rp_principal resolved \<noteq> None then (Inr True, g)
      else
        let (b, budget') = denial_budget_allow (gw_denial_budget g) (rd_denial_now rd);
            g' = g\<lparr>gw_denial_budget := budget'\<rparr>
        in if b then (Inr True, g') else gthen (gmetrics record_audit_suppressed) (greturn False) g')"

definition write_event :: "'s world \<Rightarrow> readings \<Rightarrow> event_fields \<Rightarrow> ('s, unit) handler" where
  \<comment> \<open>the pair of calls that ends every branch\<close>
  "write_event w rd f = gthen (sink_write w rd (audit_event_of f)) (export_trace_span w rd f)"

definition count_event :: "string \<Rightarrow> event_fields \<Rightarrow> ('s, unit) handler" where
  \<comment> \<open>the pair of metric calls before it\<close>
  "count_event label f =
     gthen (gmetrics (\<lambda>m. record_request m label (ef_outcome f) (ef_decision_reasons f)))
       (gmetrics (\<lambda>m. record_input_tokens m label (ef_outcome f) (ef_tokens f)))"

definition record_completion_event_fields ::
  "'s world \<Rightarrow> readings \<Rightarrow> event_fields \<Rightarrow> ('s, unit) handler" where
  "record_completion_event_fields w rd f =
     gthen (count_event (metric_model_label w (ef_model_id f)) f)
     (gthen (case ef_latency_ms f of
          Some ms \<Rightarrow>
            if ef_outcome f = ''allowed''
            then gbind (gresult (fdiv ms (Fin 1000))) (\<lambda>secs.
                 gmetrics (\<lambda>m. observe_latency m (metric_model_label w (ef_model_id f)) secs))
            else greturn ()
        | None \<Rightarrow> greturn ())
     (if ef_allowed f then write_event w rd f
      else gbind (denial_is_recorded rd (ef_resolved f)) (\<lambda>recorded.
           if recorded then write_event w rd f else greturn ())))"

definition http_error ::
  "int \<Rightarrow> (string \<times> pyval) list \<Rightarrow> (string, string) dict \<Rightarrow> ('s, 'a) handler" where
  "http_error status detail headers =
     gfail (HttpError \<lparr>he_status = status, he_detail = VDict detail, he_headers = headers\<rparr>)"

section \<open>Health, metrics, models\<close>

definition health :: "(string, string) dict" where
  "health = [(''status'', ''ok'')]"

definition prometheus_metrics :: "'s world \<Rightarrow> string option \<Rightarrow> ('s, string) handler" where
  "prometheus_metrics w authorization g =
     (let expected = w_env w ''METRICS_BEARER_TOKEN'' in
      if truthy_str expected \<and>
         utf8_encode (case authorization of None \<Rightarrow> [] | Some a \<Rightarrow> a) \<noteq>
         utf8_encode (''Bearer '' @ the expected)
      then http_error 401 [(''reason'', VStr ''metrics token required'')] [] g
      else gresult (render_prometheus (gw_metrics g) (w_policies w)) g)"

definition auth_outcome :: "resolved_principal \<Rightarrow> string" where
  "auth_outcome resolved = (if rp_principal resolved \<noteq> None then ''accepted'' else ''failed'')"

definition list_models ::
  "'s world \<Rightarrow> readings \<Rightarrow> string option \<Rightarrow> string option \<Rightarrow> ('s, pyval list) handler" where
  "list_models w rd authorization x_principal_id =
     gbind (gresult (resolve_principal (w_jwt w) authorization x_principal_id (w_auth w) (rd_auth_now rd)))
     (\<lambda>resolved.
       gthen (gmetrics (\<lambda>m. record_auth_event m (rp_auth_method resolved) (auth_outcome resolved)))
       (if rp_principal resolved = None
        then http_error 401 [(''reason'', VStr ''authentication required'')] []
        else greturn (map (\<lambda>policy. VDict
          [(''model_id'', VStr (mp_model_id policy)),
           (''description'', VStr (mp_description policy)),
           (''sensitivity'', VStr (sensitivity policy)),
           (''requests_per_minute'', VInt (requests_per_minute policy)),
           (''input_tokens_per_minute'', VInt (input_tokens_per_minute policy)),
           (''requires_reason'', VBool (requires_reason policy))]) (map snd (w_policies w)))))"

section \<open>Buffered inference\<close>

text \<open>\<^verbatim>\<open>assert principal is not None\<close> and \<^verbatim>\<open>assert model_policy is not None\<close>.\<close>

definition assert_both ::
  "'p option \<Rightarrow> 'q option \<Rightarrow> ('p \<Rightarrow> 'q \<Rightarrow> ('s, 'a) handler) \<Rightarrow> ('s, 'a) handler" where
  "assert_both x y m =
     (case x of
        None \<Rightarrow> gfail (Crash AssertionError)
      | Some p \<Rightarrow> (case y of None \<Rightarrow> gfail (Crash AssertionError) | Some policy \<Rightarrow> m p policy))"

text \<open>\<^verbatim>\<open>try: ... except BackendAdapterError: ...\<close> around the outcome of a backend call.\<close>

definition on_adapter_error ::
  "'r result \<Rightarrow> ('s, 'a) handler \<Rightarrow> ('r \<Rightarrow> ('s, 'a) handler) \<Rightarrow> ('s, 'a) handler" where
  "on_adapter_error outcome handle continue =
     (case outcome of
        Inl e \<Rightarrow> if is_adapter_error e then handle else gfail (Crash e)
      | Inr x \<Rightarrow> continue x)"

record inference_request =
  iq_input :: string
  iq_reason :: "string option"

definition inference_request_ok :: "string \<Rightarrow> inference_request \<Rightarrow> bool" where
  \<comment> \<open>the bounds of the path parameter and of \<^verbatim>\<open>InferenceRequest\<close>\<close>
  "inference_request_ok model_id q \<longleftrightarrow>
     length model_id \<le> 200 \<and> 1 \<le> length (iq_input q) \<and> length (iq_input q) \<le> 4000 \<and>
     (case iq_reason q of None \<Rightarrow> True | Some r \<Rightarrow> length r \<le> 500)"

record inference_response =
  is_model_id :: string
  is_output :: string
  is_latency_ms :: pyfloat
  is_backend :: string
  is_traceparent :: string
  is_audit :: "(string, pyval) dict"

definition trace_headers :: "request_trace \<Rightarrow> (string, string) dict" where
  "trace_headers trace = [(''traceparent'', format_traceparent trace)]"

definition infer_fields ::
  "readings \<Rightarrow> resolved_principal \<Rightarrow> request_trace \<Rightarrow> string \<Rightarrow> inference_request \<Rightarrow> int option \<Rightarrow>
   string \<Rightarrow> bool \<Rightarrow> string list \<Rightarrow> pyfloat option \<Rightarrow> event_fields" where
  "infer_fields rd resolved trace model_id q budget_limit outcome allowed reasons latency_ms =
     \<lparr>ef_resolved = resolved, ef_trace = trace, ef_model_id = model_id, ef_outcome = outcome,
      ef_allowed = allowed, ef_reason = iq_reason q, ef_decision_reasons = reasons,
      ef_latency_ms = latency_ms, ef_tokens = estimate_input_tokens (iq_input q),
      ef_limit = budget_limit, ef_started_ns = rd_started_ns rd, ef_route = ''/v1/infer/{model_id}''\<rparr>"

definition call_backend ::
  "'s world \<Rightarrow> readings \<Rightarrow> string \<Rightarrow> string \<Rightarrow> ('s, inference_result result) handler" where
  \<comment> \<open>\<^verbatim>\<open>run_configured_inference\<close>, with what it raises as a value\<close>
  "call_backend w rd model_id user_input g =
     (let (r, evs) = run_configured_inference (w_http w) (w_env w) model_id user_input
            (rd_backend_started rd) (rd_backend_ended rd)
      in (Inr r, g\<lparr>gw_backend_log := gw_backend_log g @ evs,
                   gw_backend_calls := gw_backend_calls g @ [(model_id, user_input)]\<rparr>))"

text \<open>The part of \<^verbatim>\<open>infer\<close> after both limiters have admitted the request.\<close>

definition infer_admitted ::
  "'s world \<Rightarrow> readings \<Rightarrow> request_trace \<Rightarrow> resolved_principal \<Rightarrow> principal \<Rightarrow> string list \<Rightarrow>
   string \<Rightarrow> inference_request \<Rightarrow> int option \<Rightarrow> ('s, inference_response) handler" where
  "infer_admitted w rd trace resolved p reasons model_id q budget_limit =
     gbind (call_backend w rd model_id (iq_input q)) (\<lambda>outcome.
     on_adapter_error outcome
         (let f = infer_fields rd resolved trace model_id q budget_limit ''backend_error'' True
                [''inference backend unavailable''] None
          in gthen (count_event model_id f) (gthen (write_event w rd f)
             (http_error 502 [(''reason'', VStr ''inference backend unavailable''),
                              (''trace_id'', VStr (tr_trace_id trace))] (trace_headers trace))))
       (\<lambda>result.
          let latency_ms = ir_latency_ms result;
              f = infer_fields rd resolved trace model_id q budget_limit ''allowed'' True reasons
                (Some latency_ms)
          in gthen (gmetrics (\<lambda>m. record_request m model_id ''allowed'' []))
             (gthen (gmetrics (\<lambda>m. record_input_tokens m model_id ''allowed'' (ef_tokens f)))
             (gbind (gresult (fdiv latency_ms (Fin 1000))) (\<lambda>secs.
              gthen (gmetrics (\<lambda>m. observe_latency m model_id secs))
             (gthen (write_event w rd f)
             (greturn
               \<lparr>is_model_id = ir_model_id result, is_output = ir_output result,
                is_latency_ms = latency_ms, is_backend = ir_backend result,
                is_traceparent = format_traceparent trace,
                is_audit =
                  [(''principal_id'', VStr (p_principal_id p)),
                   (''auth_method'', VStr (rp_auth_method resolved)),
                   (''decision'', VStr ''allow''),
                   (''decision_reasons'', VList (map VStr reasons)),
                   (''trace_id'', VStr (tr_trace_id trace)),
                   (''span_id'', VStr (tr_span_id trace)),
                   (''estimated_input_tokens'', VInt (ef_tokens f)),
                   (''token_budget_limit'', opt_int budget_limit)]\<rparr>)))))))"

definition infer ::
  "'s world \<Rightarrow> readings \<Rightarrow> string \<Rightarrow> inference_request \<Rightarrow> string option \<Rightarrow> string option \<Rightarrow>
   string option \<Rightarrow> ('s, inference_response) handler" where
  "infer w rd model_id q x_principal_id authorization traceparent =
     gbind (gresult (resolve_trace_context traceparent (rd_trace_id rd) (rd_span_id rd))) (\<lambda>trace.
     gbind (gresult (resolve_principal (w_jwt w) authorization x_principal_id (w_auth w) (rd_auth_now rd)))
     (\<lambda>resolved.
     let model_policy = dget (w_policies w) model_id;
         tokens = estimate_input_tokens (iq_input q);
         budget_limit = map_option input_tokens_per_minute model_policy;
         decision = evaluate_policy (rp_principal resolved) model_policy (iq_reason q);
         decision_reasons = with_auth_failure (pd_reasons decision) (rp_failure_reason resolved);
         fields = infer_fields rd resolved trace model_id q budget_limit
     in gthen (gmetrics (\<lambda>m. record_auth_event m (rp_auth_method resolved) (auth_outcome resolved)))
        (if \<not> pd_allowed decision then
           (let f = fields ''policy_denied'' False decision_reasons None in
            gthen (count_event (metric_model_label w model_id) f)
            (gbind (denial_is_recorded rd resolved) (\<lambda>recorded.
             gthen (if recorded then write_event w rd f else greturn ())
             (http_error 403 [(''reasons'', VList (map VStr decision_reasons)),
                              (''trace_id'', VStr (tr_trace_id trace))] (trace_headers trace)))))
         else
           assert_both (rp_principal resolved) model_policy (\<lambda>p policy.
               gbind (request_allow w (rd_request_now rd) (p_principal_id p) model_id
                 (requests_per_minute policy)) (\<lambda>request_allowed.
               gthen (observe_limiter ''requests'' (fsub (rd_perf rd 1) (rd_perf rd 0)))
               (if \<not> request_allowed then
                  (let f = fields ''rate_limited'' False [''rate limit exceeded''] None in
                   gthen (count_event model_id f) (gthen (write_event w rd f)
                   (http_error 429 [(''reason'', VStr ''rate limit exceeded''),
                                    (''trace_id'', VStr (tr_trace_id trace))] (trace_headers trace))))
                else
                  gbind (token_allow w (rd_token_now rd) (p_principal_id p) model_id tokens
                    (input_tokens_per_minute policy)) (\<lambda>token_budget_allowed.
                  gthen (observe_limiter ''input_tokens'' (fsub (rd_perf rd 3) (rd_perf rd 2)))
                  (if \<not> token_budget_allowed then
                     (let f = fields ''token_budget_limited'' False [''token budget exceeded''] None in
                      gthen (count_event model_id f) (gthen (write_event w rd f)
                      (http_error 429
                        [(''reason'', VStr ''token budget exceeded''),
                         (''trace_id'', VStr (tr_trace_id trace)),
                         (''estimated_input_tokens'', VInt tokens),
                         (''input_tokens_per_minute'', VInt (input_tokens_per_minute policy))]
                        (trace_headers trace))))
                   else infer_admitted w rd trace resolved p (pd_reasons decision) model_id q
                          budget_limit))))))))"

section \<open>Completions\<close>

text \<open>
  A validated \<open>CompletionRequest\<close> is the dictionary of the fields the caller set, in the order
  of the class; \<^verbatim>\<open>model_dump(mode="json", exclude_unset=True)\<close> is that dictionary. The bounds
  are those of the class, \<^verbatim>\<open>extra="forbid"\<close> included.
\<close>

type_synonym completion_request = "(string, pyval) dict"

definition int_between :: "int \<Rightarrow> int \<Rightarrow> pyval \<Rightarrow> bool" where
  "int_between lo hi v = (case v of VNum (NInt i) \<Rightarrow> lo \<le> i \<and> i \<le> hi | _ \<Rightarrow> False)"

definition float_where :: "(pyfloat \<Rightarrow> bool) \<Rightarrow> pyval \<Rightarrow> bool" where
  "float_where P v = (case v of VNum (NFlt f) \<Rightarrow> P f | _ \<Rightarrow> False)"

definition str_between :: "nat \<Rightarrow> nat \<Rightarrow> pyval \<Rightarrow> bool" where
  "str_between lo hi v = (case v of VStr s \<Rightarrow> lo \<le> length s \<and> length s \<le> hi | _ \<Rightarrow> False)"

definition is_bool :: "pyval \<Rightarrow> bool" where
  "is_bool v = (case v of VBool b \<Rightarrow> True | _ \<Rightarrow> False)"

definition stream_options_ok :: "pyval \<Rightarrow> bool" where
  "stream_options_ok v =
     (case v of
        VDict d \<Rightarrow> list_all (\<lambda>(k, x).
          k = ''include_usage'' \<and> is_bool x \<or>
          k = ''continuous_usage_stats'' \<and> (x = VNone \<or> is_bool x)) d
      | _ \<Rightarrow> False)"

definition completion_field_ok :: "string \<Rightarrow> pyval \<Rightarrow> bool" where
  "completion_field_ok k v \<longleftrightarrow>
     (if k = ''model'' then str_between 1 200 v
      else if k = ''prompt'' then str_between 1 32768 v
      else if k = ''max_tokens'' then int_between 1 4096 v
      else if k = ''stream'' then is_bool v
      else if k = ''stream_options'' then v = VNone \<or> stream_options_ok v
      else if k = ''temperature'' then v = VNone \<or> float_where (\<lambda>f. fle (Fin 0) f \<and> fle f (Fin 2)) v
      else if k = ''top_p'' \<or> k = ''min_p'' then
        v = VNone \<or> float_where (\<lambda>f. fle (Fin 0) f \<and> fle f (Fin 1)) v
      else if k = ''top_k'' then v = VNone \<or> (case v of VNum (NInt i) \<Rightarrow> - 1 \<le> i | _ \<Rightarrow> False)
      else if k = ''repetition_penalty'' then v = VNone \<or> float_where (\<lambda>f. flt (Fin 0) f) v
      else if k = ''logprobs'' then v = VNone \<or> int_between 0 20 v
      else if k = ''seed'' then v = VNone \<or> (case v of VNum (NInt i) \<Rightarrow> True | _ \<Rightarrow> False)
      else if k = ''ignore_eos'' \<or> k = ''echo'' then v = VNone \<or> is_bool v
      else if k = ''stop'' then
        (case v of VNone \<Rightarrow> True | VStr s \<Rightarrow> True
         | VList xs \<Rightarrow> list_all (\<lambda>x. case x of VStr s \<Rightarrow> True | _ \<Rightarrow> False) xs | _ \<Rightarrow> False)
      else if k = ''n'' then int_between 1 1 v
      else False)"

definition completion_request_ok :: "completion_request \<Rightarrow> bool" where
  "completion_request_ok q \<longleftrightarrow>
     distinct (dkeys q) \<and> dget q ''model'' \<noteq> None \<and> dget q ''prompt'' \<noteq> None \<and>
     list_all (\<lambda>(k, v). completion_field_ok k v) q"

definition str_field :: "completion_request \<Rightarrow> string \<Rightarrow> string" where
  "str_field q k = (case dget q k of Some (VStr s) \<Rightarrow> s | _ \<Rightarrow> [])"

definition wants_stream :: "completion_request \<Rightarrow> bool" where
  "wants_stream q = truthy (dget_default q ''stream'' (VBool True))"

record completion_admission =
  ca_resolved :: resolved_principal
  ca_trace :: request_trace
  ca_model_id :: string
  ca_reason :: "string option"
  ca_decision_reasons :: "string list"
  ca_tokens :: int
  ca_budget_limit :: int
  ca_started_ns :: int
  ca_started_perf :: pyfloat
  ca_request_limiter_ms :: pyfloat
  ca_token_limiter_ms :: pyfloat

definition ms_between :: "pyfloat \<Rightarrow> pyfloat \<Rightarrow> pyfloat" where
  \<comment> \<open>\<^verbatim>\<open>(perf_counter() - started) * 1000\<close>\<close>
  "ms_between started ended = fmul (fsub ended started) (Fin 1000)"

definition completion_fields ::
  "resolved_principal \<Rightarrow> request_trace \<Rightarrow> string \<Rightarrow> string option \<Rightarrow> int \<Rightarrow> int option \<Rightarrow> int \<Rightarrow>
   string \<Rightarrow> bool \<Rightarrow> string list \<Rightarrow> pyfloat option \<Rightarrow> event_fields" where
  "completion_fields resolved trace model_id reason tokens budget_limit started_ns
      outcome allowed reasons latency_ms =
     \<lparr>ef_resolved = resolved, ef_trace = trace, ef_model_id = model_id, ef_outcome = outcome,
      ef_allowed = allowed, ef_reason = reason, ef_decision_reasons = reasons,
      ef_latency_ms = latency_ms, ef_tokens = tokens, ef_limit = budget_limit,
      ef_started_ns = started_ns, ef_route = ''/v1/completions''\<rparr>"

text \<open>
  Readings of \<^verbatim>\<open>perf_counter\<close>: 0 when the handler starts, 1 to 4 around the limiters, then
  5 for the admission, 6 and 7 around the upstream call, 8 when the body has been read.
\<close>

definition dur :: "string \<Rightarrow> pyfloat \<Rightarrow> string" where
  "dur name ms = name @ '';dur='' @ fmt_fixed 3 ms"

definition admit_completion ::
  "'s world \<Rightarrow> readings \<Rightarrow> string \<Rightarrow> string \<Rightarrow> string option \<Rightarrow> string option \<Rightarrow> string option \<Rightarrow>
   string option \<Rightarrow> ('s, completion_admission) handler" where
  "admit_completion w rd model_id prompt reason authorization demo_principal_id traceparent =
     gbind (gresult (resolve_trace_context traceparent (rd_trace_id rd) (rd_span_id rd))) (\<lambda>trace.
     gbind (gresult (resolve_principal (w_jwt w) authorization demo_principal_id (w_auth w) (rd_auth_now rd)))
     (\<lambda>resolved.
     let model_policy = dget (w_policies w) model_id;
         tokens = estimate_input_tokens prompt;
         budget_limit = map_option input_tokens_per_minute model_policy;
         decision = evaluate_policy (rp_principal resolved) model_policy reason;
         decision_reasons = with_auth_failure (pd_reasons decision) (rp_failure_reason resolved);
         fields = completion_fields resolved trace model_id reason tokens budget_limit (rd_started_ns rd)
     in gthen (gmetrics (\<lambda>m. record_auth_event m (rp_auth_method resolved) (auth_outcome resolved)))
        (if \<not> pd_allowed decision then
           gthen (record_completion_event_fields w rd (fields ''policy_denied'' False decision_reasons None))
           (http_error 403 [(''reasons'', VList (map VStr decision_reasons)),
                            (''trace_id'', VStr (tr_trace_id trace))] (trace_headers trace))
         else
           assert_both (rp_principal resolved) model_policy (\<lambda>p policy.
               gbind (request_allow w (rd_request_now rd) (p_principal_id p) model_id
                 (requests_per_minute policy)) (\<lambda>request_allowed.
               let request_limiter_ms = ms_between (rd_perf rd 1) (rd_perf rd 2) in
               gbind (gresult (fdiv request_limiter_ms (Fin 1000))) (\<lambda>secs.
               gthen (observe_limiter ''requests'' secs)
               (if \<not> request_allowed then
                  gthen (record_completion_event_fields w rd
                    (fields ''rate_limited'' False [''rate limit exceeded''] None))
                  (http_error 429 [(''reason'', VStr ''rate limit exceeded''),
                                   (''trace_id'', VStr (tr_trace_id trace))]
                    (trace_headers trace @ [(''server-timing'', dur ''request-limit'' request_limiter_ms)]))
                else
                  gbind (token_allow w (rd_token_now rd) (p_principal_id p) model_id tokens
                    (input_tokens_per_minute policy)) (\<lambda>token_allowed.
                  let token_limiter_ms = ms_between (rd_perf rd 3) (rd_perf rd 4) in
                  gbind (gresult (fdiv token_limiter_ms (Fin 1000))) (\<lambda>secs'.
                  gthen (observe_limiter ''input_tokens'' secs')
                  (if \<not> token_allowed then
                     gthen (record_completion_event_fields w rd
                       (fields ''token_budget_limited'' False [''token budget exceeded''] None))
                     (http_error 429
                       [(''reason'', VStr ''token budget exceeded''),
                        (''trace_id'', VStr (tr_trace_id trace)),
                        (''estimated_input_tokens'', VInt tokens),
                        (''input_tokens_per_minute'', VInt (input_tokens_per_minute policy))]
                       (trace_headers trace @
                        [(''server-timing'', dur ''request-limit'' request_limiter_ms @ '', '' @
                                           dur ''token-budget'' token_limiter_ms)]))
                   else
                     greturn
                       \<lparr>ca_resolved = resolved, ca_trace = trace, ca_model_id = model_id,
                        ca_reason = reason, ca_decision_reasons = decision_reasons,
                        ca_tokens = tokens, ca_budget_limit = input_tokens_per_minute policy,
                        ca_started_ns = rd_started_ns rd, ca_started_perf = rd_perf rd 0,
                        ca_request_limiter_ms = request_limiter_ms,
                        ca_token_limiter_ms = token_limiter_ms\<rparr>))))))))))"

definition record_completion_event ::
  "'s world \<Rightarrow> readings \<Rightarrow> completion_admission \<Rightarrow> string \<Rightarrow> bool \<Rightarrow> string list \<Rightarrow> pyfloat option \<Rightarrow>
   ('s, unit) handler" where
  "record_completion_event w rd a outcome allowed reasons latency_ms =
     record_completion_event_fields w rd
       (completion_fields (ca_resolved a) (ca_trace a) (ca_model_id a) (ca_reason a) (ca_tokens a)
          (Some (ca_budget_limit a)) (ca_started_ns a) outcome allowed reasons latency_ms)"

definition completion_response_headers ::
  "completion_admission \<Rightarrow> pyfloat option \<Rightarrow> pyfloat option \<Rightarrow> (string, string) dict" where
  "completion_response_headers a admission_ms upstream_headers_ms =
     trace_headers (ca_trace a) @
     [(''server-timing'', py_join '', ''
        ((case admission_ms of None \<Rightarrow> [] | Some ms \<Rightarrow> [dur ''gateway-admission'' ms]) @
         [dur ''request-limit'' (ca_request_limiter_ms a), dur ''token-budget'' (ca_token_limiter_ms a)] @
         (case upstream_headers_ms of None \<Rightarrow> [] | Some ms \<Rightarrow> [dur ''upstream-headers'' ms])))]"

fun copy_headers :: "(string \<Rightarrow> string option) \<Rightarrow> string list \<Rightarrow> (string, string) dict \<Rightarrow> (string, string) dict" where
  "copy_headers up [] headers = headers"
| "copy_headers up (n # ns) headers =
     copy_headers up ns (if truthy_str (up n) then dset headers n (the (up n)) else headers)"

datatype completion_reply =
    StreamReply int "(string, string) dict" httpx_response completion_admission
  | BodyReply int "(string, string) dict" string

definition open_upstream ::
  "'s world \<Rightarrow> completion_request \<Rightarrow> string option \<Rightarrow> string \<Rightarrow> ('s, httpx_response result) handler" where
  "open_upstream w q x_request_id model_id g =
     (let (r, evs, client') = open_completion_response (w_http w) (w_env w) (gw_client g) q x_request_id
      in (Inr r, g\<lparr>gw_backend_log := gw_backend_log g @ evs, gw_client := client',
                   gw_backend_calls := gw_backend_calls g @ [(model_id, str_field q ''prompt'')]\<rparr>))"

definition log_close :: "('s, unit) handler" where
  "log_close g = (Inr (), g\<lparr>gw_backend_log := gw_backend_log g @ [ResponseClosed]\<rparr>)"

definition backend_unavailable ::
  "'s world \<Rightarrow> readings \<Rightarrow> completion_admission \<Rightarrow> pyfloat \<Rightarrow> (string, string) dict \<Rightarrow> ('s, 'a) handler" where
  \<comment> \<open>the two \<^verbatim>\<open>except\<close> blocks of \<^verbatim>\<open>completions\<close> that answer 502\<close>
  "backend_unavailable w rd a ended headers =
     gthen (record_completion_event w rd a ''backend_error'' True [''inference backend unavailable'']
       (Some (ms_between (ca_started_perf a) ended)))
     (http_error 502 [(''reason'', VStr ''inference backend unavailable''),
                      (''trace_id'', VStr (tr_trace_id (ca_trace a)))] headers)"

text \<open>\<^verbatim>\<open>finally: backend_response.close()\<close> runs after the block, whatever the block does.\<close>

definition gfinally :: "('s, 'a) handler \<Rightarrow> ('s, unit) handler \<Rightarrow> ('s, 'a) handler" where
  "gfinally m cleanup g =
     (let (r, g') = m g in
      case cleanup g' of (Inl e, g'') \<Rightarrow> (Inl e, g'') | (Inr _, g'') \<Rightarrow> (r, g''))"

definition completions ::
  "'s world \<Rightarrow> readings \<Rightarrow> completion_request \<Rightarrow> string option \<Rightarrow> string option \<Rightarrow> string option \<Rightarrow>
   string option \<Rightarrow> string option \<Rightarrow> ('s, completion_reply) handler" where
  "completions w rd q authorization x_principal_id x_inference_reason traceparent x_request_id =
     gbind (admit_completion w rd (str_field q ''model'') (str_field q ''prompt'') x_inference_reason
       authorization x_principal_id traceparent) (\<lambda>a.
     gbind (open_upstream w q x_request_id (ca_model_id a)) (\<lambda>opened.
     on_adapter_error opened
       (backend_unavailable w rd a (rd_perf rd 7) (completion_response_headers a None None))
       (\<lambda>backend_response.
          let headers = copy_headers (hr_headers backend_response)
                [''cache-control'', ''content-type'', ''x-request-id'']
                (completion_response_headers a (Some (ms_between (ca_started_perf a) (rd_perf rd 5)))
                   (Some (ms_between (rd_perf rd 6) (rd_perf rd 7))))
          in if wants_stream q then greturn (StreamReply (hr_status backend_response) headers backend_response a)
             else
               gbind (gfinally
                 (case hr_failure backend_response of
                    None \<Rightarrow> greturn (concat (hr_chunks backend_response))
                  | Some e \<Rightarrow>
                      if is_httpx_error e
                      then gthen log_close (backend_unavailable w rd a (rd_perf rd 8) headers)
                      else gfail (Crash e))
                 log_close) (\<lambda>body.
               gthen (record_completion_event w rd a ''allowed'' True (ca_decision_reasons a)
                 (Some (ms_between (ca_started_perf a) (rd_perf rd 8))))
               (greturn (BodyReply (hr_status backend_response) headers body))))))"

end
