(* ===== verification/Scenario.thy ===== *)
theory Scenario
  imports Gateway
begin

text \<open>
  A concrete gateway for the witnesses: the demo principals, the default policies, the
  in-memory limiters, the mock backend and one JSON-lines span file. Its Redis server is
  down, which \<open>demo_redis_limiters\<close> finds out.
\<close>

definition demo_jwt :: jwt_runtime where
  "demo_jwt = \<lparr>hmac_sha256 = (\<lambda>key message. key @ message), json_loads = (\<lambda>s. Inl (ValueError s))\<rparr>"

definition demo_auth :: auth_settings where
  "demo_auth = \<lparr>jwt_issuer = None, jwt_audience = None, jwt_hs256_secret = None,
     roles_claim = ''roles'', scopes_claim = ''scope'', allow_demo_principals = True,
     clock_skew_seconds = 30, max_token_lifetime_seconds = 3600\<rparr>"

definition demo_stack :: http_stack where
  "demo_stack = \<lparr>hs_build = (\<lambda>req. Inr ()),
     hs_send = (\<lambda>req. Inr \<lparr>hr_status = 200, hr_headers = (\<lambda>n. None),
       hr_chunks = [''data: one'', ''data: two''], hr_failure = None\<rparr>),
     hs_urlopen = (\<lambda>req. Inl (OSError ''refused'')), hs_json_loads = (\<lambda>raw. Inl (ValueError raw)),
     hs_sha256_hex = (\<lambda>s. replicate 64 (CHR ''a''))\<rparr>"

definition demo_env :: environ where
  "demo_env = [''METRICS_BEARER_TOKEN'' \<mapsto> ''scrape'']"

definition live_env :: environ where
  "live_env = demo_env(''INFERENCE_BACKEND_COMPLETIONS_URL'' \<mapsto> ''http://vllm:8000/v1'')"

definition demo_export :: export_world where
  "demo_export = \<lparr>ew_json_dumps = (\<lambda>v. ''{}''), ew_repr = (\<lambda>v. ''repr''),
     ew_append = (\<lambda>path line. Inr ()), ew_post = (\<lambda>url body timeout. Inl (OSError ''refused''))\<rparr>"

definition demo_world :: "unit world" where
  "demo_world = \<lparr>w_env = demo_env, w_policies = model_policies_of 60 12000, w_auth = demo_auth,
     w_jwt = demo_jwt, w_sha256_hex = (\<lambda>s. replicate 64 (CHR ''0'')),
     w_eval = (\<lambda>key cost limit window s. (Inl (RedisError ''connection refused''), s)),
     w_http = demo_stack, w_json_dumps = (\<lambda>v. ''{}''), w_audit_append = (\<lambda>line. Inr ()),
     w_export = demo_export\<rparr>"

definition demo_readings :: readings where
  "demo_readings = \<lparr>rd_started_ns = 1000, rd_ended_ns = 5000,
     rd_trace_id = replicate 32 (CHR ''a''), rd_span_id = replicate 16 (CHR ''b''),
     rd_auth_now = Fin 1000, rd_request_now = Fin 100, rd_token_now = Fin 100,
     rd_denial_now = Fin 100, rd_timestamp = ''2026-01-01T00:00:00+00:00'',
     rd_perf = (\<lambda>n. Fin (of_int n)), rd_backend_started = Fin 10, rd_backend_ended = Fin 11\<rparr>"

definition demo_limiters :: limiter_backend where
  "demo_limiters = MemoryLimiters (new_memory_limiter 60) (new_memory_limiter 60)"

definition demo_gateway :: "limiter_backend \<Rightarrow> unit gateway" where
  "demo_gateway lims = \<lparr>gw_limiters = lims, gw_store = (),
     gw_metrics = new_gateway_metrics DEFAULT_LATENCY_BUCKETS DEFAULT_LIMITER_LATENCY_BUCKETS,
     gw_audit = [], gw_exporter = Some (JsonlTraceExporter ''spans.jsonl'' ''gateway''),
     gw_exports = [], gw_denial_budget = new_denial_budget 1 (Fin 90), gw_client = None,
     gw_backend_log = [], gw_backend_calls = []\<rparr>"

definition demo_redis_limiters :: limiter_backend where
  "demo_redis_limiters = RedisLimiters
     \<lparr>rl_budget_type = ''requests'', rl_window_seconds = 60, rl_key_prefix = ''gateway''\<rparr>
     \<lparr>rl_budget_type = ''input_tokens'', rl_window_seconds = 60, rl_key_prefix = ''gateway''\<rparr>"

definition demo_query :: inference_request where
  "demo_query = \<lparr>iq_input = ''hello gpu'', iq_reason = Some ''drill''\<rparr>"

definition demo_completion :: "bool \<Rightarrow> completion_request" where
  "demo_completion streamed = [(''model'', VStr ''benchmark-echo''), (''prompt'', VStr ''hello gpu''),
     (''stream'', VBool streamed)]"

end
