(* ===== verification/GatewayWp.thy ===== *)
theory GatewayWp
  imports Gateway
begin

text \<open>
  A weakest-precondition calculus for the handlers of \<^theory_text>\<open>Gateway\<close>: one rule per building block,
  so that a claim about a handler is proved path by path.
\<close>

section \<open>Weakest preconditions for handlers\<close>

text \<open>
  \<open>gwp m Q g\<close> says that running \<open>m\<close> from \<open>g\<close> ends in \<open>Q\<close>. One rule per building block,
  collected in \<open>gwp_rules\<close>, turns a claim about a handler into one goal per path of it.
\<close>

definition gwp :: "('s, 'a) handler \<Rightarrow> (failure + 'a \<Rightarrow> 's gateway \<Rightarrow> bool) \<Rightarrow> 's gateway \<Rightarrow> bool" where
  "gwp m Q g = (case m g of (r, g') \<Rightarrow> Q r g')"

named_theorems gwp_rules \<open>weakest precondition rules of the handlers\<close>

lemma gwpD: "gwp m Q g \<Longrightarrow> m g = (r, g') \<Longrightarrow> Q r g'"
  by (simp add: gwp_def)

text \<open>The postcondition of the first of two handlers in sequence.\<close>

definition wp_next ::
  "(failure + 'b \<Rightarrow> 's gateway \<Rightarrow> bool) \<Rightarrow> ('a \<Rightarrow> ('s, 'b) handler) \<Rightarrow> failure + 'a \<Rightarrow> 's gateway \<Rightarrow> bool" where
  "wp_next Q f r g = (case r of Inl e \<Rightarrow> Q (Inl e) g | Inr x \<Rightarrow> gwp (f x) Q g)"

lemma wp_next_Inl [gwp_rules]: "Q (Inl e) g \<Longrightarrow> wp_next Q f (Inl e) g"
  by (simp add: wp_next_def)

lemma wp_next_Inr [gwp_rules]: "gwp (f x) Q g \<Longrightarrow> wp_next Q f (Inr x) g"
  by (simp add: wp_next_def)

lemma gwp_bind [gwp_rules]: "gwp m (wp_next Q f) g \<Longrightarrow> gwp (gbind m f) Q g"
  by (auto simp: gwp_def gbind_def wp_next_def split: prod.splits sum.splits)

lemma gwp_then [gwp_rules]: "gwp m (wp_next Q (\<lambda>_. k)) g \<Longrightarrow> gwp (gthen m k) Q g"
  unfolding gthen_def by (rule gwp_bind)

lemma gwp_return [gwp_rules]: "Q (Inr x) g \<Longrightarrow> gwp (greturn x) Q g"
  by (simp add: gwp_def greturn_def)

lemma gwp_fail [gwp_rules]: "Q (Inl e) g \<Longrightarrow> gwp (gfail e) Q g"
  by (simp add: gwp_def gfail_def)

lemma gwp_http_error [gwp_rules]:
  "Q (Inl (HttpError \<lparr>he_status = status, he_detail = VDict d, he_headers = h\<rparr>)) g \<Longrightarrow>
     gwp (http_error status d h) Q g"
  unfolding http_error_def by (rule gwp_fail)

lemma gwp_result [gwp_rules]:
  "(\<And>e. r = Inl e \<Longrightarrow> Q (Inl (Crash e)) g) \<Longrightarrow> (\<And>x. r = Inr x \<Longrightarrow> Q (Inr x) g) \<Longrightarrow> gwp (gresult r) Q g"
  by (cases r) (auto simp: gresult_def gwp_def gfail_def greturn_def)

lemma gwp_metrics [gwp_rules]:
  "Q (Inr ()) (g\<lparr>gw_metrics := f (gw_metrics g)\<rparr>) \<Longrightarrow> gwp (gmetrics f) Q g"
  by (simp add: gwp_def gmetrics_def)

lemma gwp_observe_limiter [gwp_rules]:
  "Q (Inr ()) (g\<lparr>gw_metrics := observe_limiter_latency (gw_metrics g) limiter
     (limiter_backend_name (gw_limiters g)) secs\<rparr>) \<Longrightarrow> gwp (observe_limiter limiter secs) Q g"
  by (simp add: gwp_def observe_limiter_def gmetrics_def)

lemma gwp_if [gwp_rules]:
  "(b \<Longrightarrow> gwp m Q g) \<Longrightarrow> (\<not> b \<Longrightarrow> gwp k Q g) \<Longrightarrow> gwp (if b then m else k) Q g"
  by simp

lemma gwp_count_event [gwp_rules]:
  "Q (Inr ()) (g\<lparr>gw_metrics := record_input_tokens
       (record_request (gw_metrics g) label (ef_outcome f) (ef_decision_reasons f))
       label (ef_outcome f) (ef_tokens f)\<rparr>) \<Longrightarrow> gwp (count_event label f) Q g"
  by (simp add: gwp_def count_event_def gthen_def gbind_def gmetrics_def)

text \<open>
  Writing the event of a request: the audit line comes first, so a failed export leaves a
  written event, and a refused line leaves no span.
\<close>

lemma gwp_write_event [gwp_rules]:
  assumes "\<And>e. Q (Inl (Crash e)) g"
    and "\<And>e x effs. Q (Inl (Crash e))
      (g\<lparr>gw_audit := gw_audit g @ [(rd_timestamp rd, audit_event_of f)], gw_exporter := x, gw_exports := effs\<rparr>)"
    and "\<And>x effs. Q (Inr ())
      (g\<lparr>gw_audit := gw_audit g @ [(rd_timestamp rd, audit_event_of f)], gw_exporter := x, gw_exports := effs\<rparr>)"
  shows "gwp (write_event w rd f) Q g"
proof (cases "w_audit_append w (w_json_dumps w (audit_payload (rd_timestamp rd) (audit_event_of f)) @ [newline])")
  case (Inl e)
  then show ?thesis
    using assms(1) by (simp add: gwp_def write_event_def gthen_def gbind_def sink_write_def)
next
  case (Inr u)
  let ?g = "g\<lparr>gw_audit := gw_audit g @ [(rd_timestamp rd, audit_event_of f)]\<rparr>"
  have "gwp (export_trace_span w rd f) Q ?g"
  proof (cases "gw_exporter g")
    case None
    have "?g = g\<lparr>gw_audit := gw_audit g @ [(rd_timestamp rd, audit_event_of f)],
        gw_exporter := gw_exporter g, gw_exports := gw_exports g\<rparr>" by simp
    then have "Q (Inr ()) ?g" using assms(3) by metis
    then show ?thesis using None by (simp add: gwp_def export_trace_span_def)
  next
    case (Some x)
    then show ?thesis
      using assms(2,3)
      by (auto simp: gwp_def export_trace_span_def gresult_def gfail_def greturn_def
          split: prod.splits sum.splits)
  qed
  then show ?thesis
    using Inr by (simp add: gwp_def write_event_def gthen_def gbind_def sink_write_def)
qed

lemma gwp_denial_is_recorded [gwp_rules]:
  assumes "rp_principal resolved \<noteq> None \<Longrightarrow> Q (Inr True) g"
    and "\<And>b. rp_principal resolved = None \<Longrightarrow> Q (Inr True) (g\<lparr>gw_denial_budget := b\<rparr>)"
    and "\<And>b. rp_principal resolved = None \<Longrightarrow>
      Q (Inr False) (g\<lparr>gw_denial_budget := b, gw_metrics := record_audit_suppressed (gw_metrics g)\<rparr>)"
  shows "gwp (denial_is_recorded rd resolved) Q g"
  using assms
  by (auto simp: gwp_def denial_is_recorded_def Let_def gthen_def gbind_def gmetrics_def greturn_def
      split: prod.splits)

lemma gwp_request_allow [gwp_rules]:
  assumes "\<And>b lims store. request_decide w now p m l (gw_limiters g, gw_store g) = (Inr b, lims, store) \<Longrightarrow>
      Q (Inr b) (g\<lparr>gw_limiters := lims, gw_store := store\<rparr>)"
    and "\<And>e lims store. request_decide w now p m l (gw_limiters g, gw_store g) = (Inl e, lims, store) \<Longrightarrow>
      Q (Inl (Crash e)) (g\<lparr>gw_limiters := lims, gw_store := store\<rparr>)"
  shows "gwp (request_allow w now p m l) Q g"
  using assms
  by (auto simp: gwp_def request_allow_def gresult_def gfail_def greturn_def split: prod.splits sum.splits)

lemma gwp_token_allow [gwp_rules]:
  assumes "\<And>b lims store. token_decide w now p m c l (gw_limiters g, gw_store g) = (Inr b, lims, store) \<Longrightarrow>
      Q (Inr b) (g\<lparr>gw_limiters := lims, gw_store := store\<rparr>)"
    and "\<And>e lims store. token_decide w now p m c l (gw_limiters g, gw_store g) = (Inl e, lims, store) \<Longrightarrow>
      Q (Inl (Crash e)) (g\<lparr>gw_limiters := lims, gw_store := store\<rparr>)"
  shows "gwp (token_allow w now p m c l) Q g"
  using assms
  by (auto simp: gwp_def token_allow_def gresult_def gfail_def greturn_def split: prod.splits sum.splits)

lemma gwp_call_backend [gwp_rules]:
  assumes "\<And>r log. Q (Inr r) (g\<lparr>gw_backend_log := log, gw_backend_calls := gw_backend_calls g @ [(model_id, input)]\<rparr>)"
  shows "gwp (call_backend w rd model_id input) Q g"
  using assms by (auto simp: gwp_def call_backend_def split: prod.splits)

lemma gwp_open_upstream [gwp_rules]:
  assumes "\<And>r log c. Q (Inr r) (g\<lparr>gw_backend_log := log, gw_client := c,
      gw_backend_calls := gw_backend_calls g @ [(model_id, str_field q ''prompt'')]\<rparr>)"
  shows "gwp (open_upstream w q rid model_id) Q g"
  using assms by (auto simp: gwp_def open_upstream_def split: prod.splits)

lemma gwp_log_close [gwp_rules]:
  "Q (Inr ()) (g\<lparr>gw_backend_log := gw_backend_log g @ [ResponseClosed]\<rparr>) \<Longrightarrow> gwp log_close Q g"
  by (simp add: gwp_def log_close_def)

definition wp_cleanup ::
  "(failure + 'b \<Rightarrow> 's gateway \<Rightarrow> bool) \<Rightarrow> failure + 'b \<Rightarrow> failure + unit \<Rightarrow> 's gateway \<Rightarrow> bool" where
  "wp_cleanup Q r c g = (case c of Inl e \<Rightarrow> Q (Inl e) g | Inr _ \<Rightarrow> Q r g)"

lemma wp_cleanup_Inr [gwp_rules]: "Q r g \<Longrightarrow> wp_cleanup Q r (Inr u) g"
  by (simp add: wp_cleanup_def)

lemma gwp_finally [gwp_rules]:
  "gwp m (\<lambda>r. gwp cleanup (wp_cleanup Q r)) g \<Longrightarrow> gwp (gfinally m cleanup) Q g"
  by (auto simp: gwp_def gfinally_def wp_cleanup_def split: prod.splits sum.splits)

lemma gwp_on_adapter_error [gwp_rules]:
  assumes "gwp handle Q g" and "\<And>e. Q (Inl (Crash e)) g" and "\<And>x. outcome = Inr x \<Longrightarrow> gwp (continue x) Q g"
  shows "gwp (on_adapter_error outcome handle continue) Q g"
  using assms by (auto simp: on_adapter_error_def gwp_def gfail_def split: sum.splits)

text \<open>The two optional values that admission has checked by evaluating the policy.\<close>

lemma gwp_assert_both [gwp_rules]:
  assumes "\<And>p policy. x = Some p \<Longrightarrow> y = Some policy \<Longrightarrow> gwp (m p policy) Q g"
    and "x = None \<or> y = None \<Longrightarrow> Q (Inl (Crash AssertionError)) g"
  shows "gwp (assert_both x y m) Q g"
  using assms by (auto simp: assert_both_def gwp_def gfail_def split: option.splits)

section \<open>Recording a completion\<close>

lemma suppressed_kept [simp]:
  "m_audit_suppressed (record_request m a b c) = m_audit_suppressed m"
  "m_audit_suppressed (record_input_tokens m a b n) = m_audit_suppressed m"
  "m_audit_suppressed (record_auth_event m a b) = m_audit_suppressed m"
  "m_audit_suppressed (observe_latency m a x) = m_audit_suppressed m"
  "m_audit_suppressed (observe_limiter_latency m a b x) = m_audit_suppressed m"
  "m_audit_suppressed (record_audit_suppressed m) = m_audit_suppressed m + 1"
  by (simp_all add: metric_ops Let_def)

lemma gwp_case_option [gwp_rules]:
  "(x = None \<Longrightarrow> gwp m Q g) \<Longrightarrow> (\<And>y. x = Some y \<Longrightarrow> gwp (k y) Q g) \<Longrightarrow>
     gwp (case x of None \<Rightarrow> m | Some y \<Rightarrow> k y) Q g"
  by (cases x) simp_all

text \<open>
  Recording a completion: the metrics always, then the event, or for an anonymous denial
  over the budget the count of suppressed events.
\<close>

definition completion_metrics :: "'s world \<Rightarrow> event_fields \<Rightarrow> gateway_metrics \<Rightarrow> gateway_metrics" where
  "completion_metrics w f m =
     (let label = metric_model_label w (ef_model_id f);
          m' = record_input_tokens (record_request m label (ef_outcome f) (ef_decision_reasons f))
             label (ef_outcome f) (ef_tokens f)
      in case ef_latency_ms f of
           None \<Rightarrow> m'
         | Some ms \<Rightarrow>
             if ef_outcome f = ''allowed''
             then (case fdiv ms (Fin 1000) of Inl e \<Rightarrow> m' | Inr secs \<Rightarrow> observe_latency m' label secs)
             else m')"

lemma completion_metrics_suppressed [simp]:
  "m_audit_suppressed (completion_metrics w f m) = m_audit_suppressed m"
  by (simp add: completion_metrics_def Let_def split: option.split sum.split)

lemma fdiv_1000: "\<exists>s. fdiv x (Fin 1000) = Inr s"
  by (cases x) auto

lemma record_completion_unfold:
  "record_completion_event_fields w rd f g =
     (if ef_allowed f then write_event w rd f
      else gbind (denial_is_recorded rd (ef_resolved f)) (\<lambda>recorded.
           if recorded then write_event w rd f else greturn ()))
     (g\<lparr>gw_metrics := completion_metrics w f (gw_metrics g)\<rparr>)"
proof (cases "ef_latency_ms f")
  case None
  then show ?thesis
    by (simp add: record_completion_event_fields_def count_event_def gthen_def gbind_def gmetrics_def
        greturn_def completion_metrics_def Let_def)
next
  case (Some ms)
  obtain secs where "fdiv ms (Fin 1000) = Inr secs" using fdiv_1000 by blast
  with Some show ?thesis
    by (simp add: record_completion_event_fields_def count_event_def gthen_def gbind_def gmetrics_def
        greturn_def gresult_def completion_metrics_def Let_def)
qed

lemma gwp_record_completion [gwp_rules]:
  assumes written: "\<And>b x effs. Q (Inr ()) (g\<lparr>gw_metrics := completion_metrics w f (gw_metrics g),
        gw_denial_budget := b, gw_audit := gw_audit g @ [(rd_timestamp rd, audit_event_of f)],
        gw_exporter := x, gw_exports := effs\<rparr>)"
    and suppressed: "\<And>b. rp_principal (ef_resolved f) = None \<Longrightarrow> \<not> ef_allowed f \<Longrightarrow>
        Q (Inr ()) (g\<lparr>gw_denial_budget := b,
          gw_metrics := record_audit_suppressed (completion_metrics w f (gw_metrics g))\<rparr>)"
    and crashed: "\<And>e b a x effs. Q (Inl (Crash e)) (g\<lparr>gw_metrics := completion_metrics w f (gw_metrics g),
        gw_denial_budget := b, gw_audit := a, gw_exporter := x, gw_exports := effs\<rparr>)"
  shows "gwp (record_completion_event_fields w rd f) Q g"
proof -
  let ?g = "g\<lparr>gw_metrics := completion_metrics w f (gw_metrics g)\<rparr>"
  have w: "gwp (write_event w rd f) Q (?g\<lparr>gw_denial_budget := b\<rparr>)" for b
  proof (rule gwp_write_event)
    fix e
    show "Q (Inl (Crash e)) (?g\<lparr>gw_denial_budget := b\<rparr>)"
      using crashed [where e = e and b = b and a = "gw_audit g" and x = "gw_exporter g" and
          effs = "gw_exports g"] by simp
  qed (use written crashed in simp_all)
  have w0: "gwp (write_event w rd f) Q ?g" using w [of "gw_denial_budget g"] by simp
  have "gwp (if ef_allowed f then write_event w rd f
      else gbind (denial_is_recorded rd (ef_resolved f)) (\<lambda>recorded.
           if recorded then write_event w rd f else greturn ())) Q ?g"
    by (intro gwp_if gwp_bind gwp_denial_is_recorded wp_next_Inr gwp_return)
      (use w w0 suppressed in simp_all)
  then show ?thesis by (simp add: gwp_def record_completion_unfold)
qed

lemma completion_fields_simps [simp]:
  "ef_model_id (completion_fields res tr m rs tk l st oc al ds lat) = m"
  "ef_allowed (completion_fields res tr m rs tk l st oc al ds lat) = al"
  "ef_outcome (completion_fields res tr m rs tk l st oc al ds lat) = oc"
  "ef_decision_reasons (completion_fields res tr m rs tk l st oc al ds lat) = ds"
  "ef_tokens (completion_fields res tr m rs tk l st oc al ds lat) = tk"
  "ef_latency_ms (completion_fields res tr m rs tk l st oc al ds lat) = lat"
  "ef_resolved (completion_fields res tr m rs tk l st oc al ds lat) = res"
  "ef_trace (completion_fields res tr m rs tk l st oc al ds lat) = tr"
  by (simp_all add: completion_fields_def)

lemma gwp_mono: "gwp m P g \<Longrightarrow> (\<And>r g'. P r g' \<Longrightarrow> Q r g') \<Longrightarrow> gwp m Q g"
  by (auto simp: gwp_def)

lemma gwp_record_completion_event [gwp_rules]:
  "gwp (record_completion_event_fields w rd (completion_fields (ca_resolved a) (ca_trace a)
     (ca_model_id a) (ca_reason a) (ca_tokens a) (Some (ca_budget_limit a)) (ca_started_ns a)
     outcome allowed reasons latency_ms)) Q g \<Longrightarrow>
   gwp (record_completion_event w rd a outcome allowed reasons latency_ms) Q g"
  by (simp add: record_completion_event_def)

lemma infer_fields_simps [simp]:
  "ef_model_id (infer_fields rd res tr m q l oc al rs lat) = m"
  "ef_allowed (infer_fields rd res tr m q l oc al rs lat) = al"
  "ef_outcome (infer_fields rd res tr m q l oc al rs lat) = oc"
  "ef_decision_reasons (infer_fields rd res tr m q l oc al rs lat) = rs"
  "ef_tokens (infer_fields rd res tr m q l oc al rs lat) = estimate_input_tokens (iq_input q)"
  "ef_latency_ms (infer_fields rd res tr m q l oc al rs lat) = lat"
  by (simp_all add: infer_fields_def)

lemma audit_event_simps [simp]:
  "ae_model_id (audit_event_of f) = ef_model_id f" "ae_allowed (audit_event_of f) = ef_allowed f"
  by (simp_all add: audit_event_of_def)

section \<open>A gateway whose files accept every line\<close>

definition audit_accepts :: "'s world \<Rightarrow> bool" where
  "audit_accepts w \<longleftrightarrow> (\<forall>line. w_audit_append w line = Inr ())"

definition export_accepts :: "'s world \<Rightarrow> bool" where
  "export_accepts w \<longleftrightarrow> (\<forall>trace a x. fst (write_span (w_export w) trace a x) = Inr ())"

lemma write_event_ok:
  assumes "audit_accepts w" and "export_accepts w"
  shows "fst (write_event w rd f g) = Inr ()"
proof -
  have "\<exists>x' effs. write_span (w_export w) t a x = (Inr (), x', effs)" for t a x
    using assms(2) by (metis export_accepts_def prod.collapse)
  then have "fst (export_trace_span w rd f g') = Inr ()" for g'
    by (cases "gw_exporter g'")
      (auto simp: export_trace_span_def gresult_def greturn_def gfail_def assms(2) [unfolded export_accepts_def]
        split: prod.splits sum.splits, metis fst_conv sum.distinct(1) old.sum.distinct(2))
  then show ?thesis
    using assms(1) by (simp add: audit_accepts_def write_event_def gthen_def gbind_def sink_write_def)
qed

lemma gwp_write_event_ok:
  assumes "audit_accepts w" and "export_accepts w" and "\<And>g'. Q (Inr ()) g'"
  shows "gwp (write_event w rd f) Q g"
  using write_event_ok [OF assms(1,2), of rd f g] assms(3) by (auto simp: gwp_def split: prod.splits)

end
