(* ===== verification/Admission.thy ===== *)
theory Admission
  imports GatewayWp
begin

text \<open>
  What \<open>infer\<close> and \<open>completions\<close> promise: every answer is accounted for in the audit log, and
  both endpoints refine one admission decision, \<open>admission_verdict\<close>.
\<close>

section \<open>Every answered request is accounted for\<close>

text \<open>
  An answer other than a 500 leaves one audit event of the request, marked allowed exactly
  when the request reached the backend; the one exception is an anonymous denial over the
  budget, which leaves a count.
\<close>

definition accounted ::
  "readings \<Rightarrow> string \<Rightarrow> bool \<Rightarrow> 's gateway \<Rightarrow> (failure + 'a) \<Rightarrow> 's gateway \<Rightarrow> bool" where
  "accounted rd model_id anonymous g r g' \<longleftrightarrow>
     (case r of
        Inl (Crash e) \<Rightarrow> True
      | Inl (HttpError x) \<Rightarrow>
          (\<exists>ev. gw_audit g' = gw_audit g @ [(rd_timestamp rd, ev)] \<and> ae_model_id ev = model_id \<and>
             (ae_allowed ev \<longleftrightarrow> he_status x = 502)) \<or>
          (anonymous \<and> he_status x = 403 \<and> gw_audit g' = gw_audit g \<and>
           m_audit_suppressed (gw_metrics g') = m_audit_suppressed (gw_metrics g) + 1)
      | Inr a \<Rightarrow>
          (\<exists>ev. gw_audit g' = gw_audit g @ [(rd_timestamp rd, ev)] \<and> ae_model_id ev = model_id \<and>
             ae_allowed ev))"

definition anonymous_caller ::
  "'s world \<Rightarrow> readings \<Rightarrow> string option \<Rightarrow> string option \<Rightarrow> bool" where
  "anonymous_caller w rd authorization x_principal_id \<longleftrightarrow>
     (case resolve_principal (w_jwt w) authorization x_principal_id (w_auth w) (rd_auth_now rd) of
        Inl e \<Rightarrow> True | Inr resolved \<Rightarrow> rp_principal resolved = None)"

lemma accounted_crash [simp]: "accounted rd m a g (Inl (Crash e)) g'"
  by (simp add: accounted_def)

lemma infer_admitted_accounted:
  assumes "gw_audit g' = gw_audit g"
  shows "gwp (infer_admitted w rd trace resolved p reasons model_id q l) (accounted rd model_id anon g) g'"
  unfolding infer_admitted_def Let_def
  by (intro gwp_rules; simp add: accounted_def assms)


section \<open>The admission decision\<close>

text \<open>
  What both endpoints promise, on the limiters alone: policy, then the request limiter, then
  the token limiter, each asked only when the ones before it admit.
\<close>

datatype verdict = Denied | RateLimited | TokenLimited | Admitted

definition admission_verdict ::
  "'s world \<Rightarrow> readings \<Rightarrow> string \<Rightarrow> string \<Rightarrow> string option \<Rightarrow> string option \<Rightarrow> string option \<Rightarrow>
   limiter_backend \<times> 's \<Rightarrow> verdict result \<times> limiter_backend \<times> 's" where
  "admission_verdict w rd model_id input reason authorization demo ls =
     (case resolve_principal (w_jwt w) authorization demo (w_auth w) (rd_auth_now rd) of
        Inl e \<Rightarrow> (Inl e, ls)
      | Inr resolved \<Rightarrow>
          if \<not> pd_allowed (evaluate_policy (rp_principal resolved) (dget (w_policies w) model_id) reason)
          then (Inr Denied, ls)
          else
            let p = p_principal_id (the (rp_principal resolved));
                policy = the (dget (w_policies w) model_id)
            in case request_decide w (rd_request_now rd) p model_id (requests_per_minute policy) ls of
                 (Inl e, ls') \<Rightarrow> (Inl e, ls')
               | (Inr False, ls') \<Rightarrow> (Inr RateLimited, ls')
               | (Inr True, ls') \<Rightarrow>
                   (case token_decide w (rd_token_now rd) p model_id (estimate_input_tokens input)
                           (input_tokens_per_minute policy) ls' of
                      (Inl e, ls'') \<Rightarrow> (Inl e, ls'')
                    | (Inr b, ls'') \<Rightarrow> (Inr (if b then Admitted else TokenLimited), ls'')))"

definition status_of :: "failure + 'a \<Rightarrow> int option" where
  "status_of r =
     (case r of Inl (HttpError x) \<Rightarrow> Some (he_status x) | Inl (Crash e) \<Rightarrow> None | Inr a \<Rightarrow> Some 200)"

fun verdict_status :: "verdict \<Rightarrow> int set" where
  "verdict_status Denied = {403}"
| "verdict_status RateLimited = {429}"
| "verdict_status TokenLimited = {429}"
| "verdict_status Admitted = {200, 502}"

text \<open>
  A handler refines the decision: when it answers, its status is the verdict's and the
  limiters are left as the decision leaves them; and it calls the backend at most once,
  and only when the verdict is to admit.
\<close>

definition refines_verdict ::
  "(verdict result \<times> limiter_backend \<times> 's) \<Rightarrow> string \<times> string \<Rightarrow> 's gateway \<Rightarrow> (failure + 'a) \<Rightarrow>
   's gateway \<Rightarrow> bool" where
  "refines_verdict spec call g r g' \<longleftrightarrow>
     (\<forall>status. status_of r = Some status \<longrightarrow>
        (\<exists>v. spec = (Inr v, gw_limiters g', gw_store g') \<and> status \<in> verdict_status v \<and>
           (v = Admitted \<longrightarrow> gw_backend_calls g' = gw_backend_calls g @ [call]))) \<and>
     (gw_backend_calls g' = gw_backend_calls g \<or>
      gw_backend_calls g' = gw_backend_calls g @ [call] \<and> fst spec = Inr Admitted)"

lemma status_of_simps [simp]:
  "status_of (Inl (HttpError x)) = Some (he_status x)" "status_of (Inl (Crash e)) = None"
  "status_of (Inr a) = Some 200"
  by (simp_all add: status_of_def)

lemma infer_admitted_refines:
  assumes "spec = (Inr Admitted, gw_limiters g1, gw_store g1)" and "gw_backend_calls g1 = gw_backend_calls g"
  shows "gwp (infer_admitted w rd trace resolved p reasons model_id q l)
    (refines_verdict spec (model_id, iq_input q) g) g1"
  unfolding infer_admitted_def Let_def
  by (intro gwp_rules; simp add: refines_verdict_def assms)

lemma infer_refines:
  assumes "infer w rd model_id q x_principal_id authorization traceparent g = (r, g')"
  shows "refines_verdict
    (admission_verdict w rd model_id (iq_input q) (iq_reason q) authorization x_principal_id
       (gw_limiters g, gw_store g)) (model_id, iq_input q) g r g'"
proof -
  have "gwp (infer w rd model_id q x_principal_id authorization traceparent)
      (refines_verdict (admission_verdict w rd model_id (iq_input q) (iq_reason q) authorization
        x_principal_id (gw_limiters g, gw_store g)) (model_id, iq_input q) g) g"
    unfolding infer_def Let_def
    by (intro gwp_rules infer_admitted_refines; simp add: admission_verdict_def refines_verdict_def)
  then show ?thesis using assms by (rule gwpD)
qed

text \<open>
  C2: The infer endpoint refines the same admission decision: an answer's status code is one the
  verdict allows, the limiters end as the verdict leaves them, and the backend is called once if
  the request was admitted and never otherwise.
\<close>

theorem infer_refines_admission:
  assumes "infer w rd model_id q x_principal_id authorization traceparent g = (r, g')"
  shows "refines_verdict
    (admission_verdict w rd model_id (iq_input q) (iq_reason q) authorization x_principal_id
       (gw_limiters g, gw_store g)) (model_id, iq_input q) g r g'"
  using assms by (rule infer_refines)

section \<open>Completions\<close>

definition reply_accounted ::
  "readings \<Rightarrow> string \<Rightarrow> bool \<Rightarrow> 's gateway \<Rightarrow> (failure + completion_reply) \<Rightarrow> 's gateway \<Rightarrow> bool" where
  "reply_accounted rd model_id anonymous g r g' \<longleftrightarrow>
     (case r of
        Inr (StreamReply status headers response a) \<Rightarrow>
          gw_audit g' = gw_audit g \<and> ca_model_id a = model_id
      | r' \<Rightarrow> accounted rd model_id anonymous g r' g')"

lemma admit_completion_accounted:
  "gwp (admit_completion w rd model_id prompt reason authorization demo traceparent)
     (\<lambda>r g'. case r of
        Inl e \<Rightarrow> accounted rd model_id (anonymous_caller w rd authorization demo) g
          (Inl e :: failure + completion_reply) g'
      | Inr a \<Rightarrow> gw_audit g' = gw_audit g \<and> ca_model_id a = model_id) g"
  unfolding admit_completion_def Let_def
  by (intro gwp_rules; simp add: accounted_def anonymous_caller_def)

lemma admit_completion_refines:
  "gwp (admit_completion w rd model_id prompt reason authorization demo traceparent)
     (\<lambda>r g'. case r of
        Inl e \<Rightarrow> refines_verdict (admission_verdict w rd model_id prompt reason authorization demo
            (gw_limiters g, gw_store g)) call g (Inl e :: failure + completion_reply) g'
      | Inr a \<Rightarrow> admission_verdict w rd model_id prompt reason authorization demo
            (gw_limiters g, gw_store g) = (Inr Admitted, gw_limiters g', gw_store g') \<and>
          ca_model_id a = model_id \<and> gw_backend_calls g' = gw_backend_calls g) g"
  unfolding admit_completion_def Let_def
  by (intro gwp_rules; simp add: admission_verdict_def refines_verdict_def)



section \<open>Consequences\<close>

text \<open>A failing limiter: nothing is served, and nothing is recorded either.\<close>

lemma limiter_error_admitted_impossible: "fst spec = Inl e \<Longrightarrow> fst spec \<noteq> Inr Admitted"
  by simp

text \<open>
  C20: When authentication or a limiter raises, the infer endpoint fails closed: the request
  crashes, no backend is called, and no audit event or span is written.
\<close>

theorem limiter_error_fails_closed:
  assumes "infer w rd model_id q demo authorization traceparent g = (r, g')"
    and "fst (admission_verdict w rd model_id (iq_input q) (iq_reason q) authorization demo
          (gw_limiters g, gw_store g)) = Inl e"
  shows "(\<exists>e'. r = Inl (Crash e')) \<and> gw_backend_calls g' = gw_backend_calls g \<and>
    gw_audit g' = gw_audit g \<and> gw_exports g' = gw_exports g"
proof -
  have "gwp (infer w rd model_id q demo authorization traceparent)
      (\<lambda>r g'. (\<exists>e'. r = Inl (Crash e')) \<and> gw_backend_calls g' = gw_backend_calls g \<and>
        gw_audit g' = gw_audit g \<and> gw_exports g' = gw_exports g) g"
    unfolding infer_def Let_def
    apply (intro gwp_rules)
    using assms(2)
    apply (simp_all add: admission_verdict_def split: bool.splits sum.splits prod.splits)
    done
  then show ?thesis using assms(1) by (rule gwpD)
qed

text \<open>An admitted request is served when the backend answers and the files accept their lines.\<close>

lemma infer_serves:
  assumes trace: "resolve_trace_context traceparent (rd_trace_id rd) (rd_span_id rd) = Inr trace"
    and verdict: "fst (admission_verdict w rd model_id (iq_input q) (iq_reason q) authorization demo
      (gw_limiters g, gw_store g)) = Inr Admitted"
    and backend: "fst (run_configured_inference (w_http w) (w_env w) model_id (iq_input q)
      (rd_backend_started rd) (rd_backend_ended rd)) = Inr result"
    and files: "audit_accepts w" "export_accepts w"
  shows "\<exists>a g'. infer w rd model_id q demo authorization traceparent g = (Inr a, g') \<and>
    is_output a = ir_output result \<and> is_backend a = ir_backend result \<and>
    is_traceparent a = format_traceparent trace"
proof -
  let ?Q = "\<lambda>r (g' :: 'a gateway). \<exists>a. r = Inr a \<and> is_output a = ir_output result \<and> is_backend a = ir_backend result \<and>
    is_traceparent a = format_traceparent trace"
  obtain secs where secs: "fdiv (ir_latency_ms result) (Fin 1000) = Inr secs" using fdiv_1000 by blast
  have call: "gwp (call_backend w rd model_id (iq_input q)) Q g1" if "\<And>g'. Q (Inr (Inr result)) g'" for Q g1
    using that backend by (auto simp: gwp_def call_backend_def split: prod.splits)
  have adm: "gwp (infer_admitted w rd trace resolved p reasons model_id q l) ?Q g1" for resolved p reasons l g1
    unfolding infer_admitted_def Let_def
    apply (intro gwp_bind call wp_next_Inr)
    apply (simp only: on_adapter_error_def sum.case secs)
    apply (intro gwp_then gwp_bind gwp_metrics gwp_result wp_next_Inr gwp_return gwp_write_event_ok files; simp)
    done
  have "gwp (infer w rd model_id q demo authorization traceparent) ?Q g"
    unfolding infer_def Let_def
    apply (intro gwp_rules adm)
    using verdict trace
    apply (simp_all add: admission_verdict_def del: evaluate_policy.simps)
    using adm apply blast
    apply (auto dest!: evaluate_policy_known)
    done
  then show ?thesis by (auto simp: gwp_def split: prod.splits)
qed

text \<open>
  C16: An admitted request is served: when the verdict is Admitted, the backend answers and the
  files accept their lines, the infer endpoint returns the backend's output together with the
  trace of the request.
\<close>

theorem infer_serves_admitted:
  assumes "resolve_trace_context traceparent (rd_trace_id rd) (rd_span_id rd) = Inr trace"
    and "fst (admission_verdict w rd model_id (iq_input q) (iq_reason q) authorization demo
      (gw_limiters g, gw_store g)) = Inr Admitted"
    and "fst (run_configured_inference (w_http w) (w_env w) model_id (iq_input q)
      (rd_backend_started rd) (rd_backend_ended rd)) = Inr result"
    and "audit_accepts w" and "export_accepts w"
  shows "\<exists>a g'. infer w rd model_id q demo authorization traceparent g = (Inr a, g') \<and>
    is_output a = ir_output result \<and> is_backend a = ir_backend result \<and>
    is_traceparent a = format_traceparent trace"
  using assms by (rule infer_serves)

text \<open>The audit block of a reply repeats the audit event that was written for it.\<close>

definition reply_matches_event :: "inference_response \<Rightarrow> audit_event \<Rightarrow> bool" where
  "reply_matches_event a ev \<longleftrightarrow>
     dget (is_audit a) ''principal_id'' = Some (VStr (ae_principal_id ev)) \<and>
     dget (is_audit a) ''auth_method'' = Some (VStr (ae_auth_method ev)) \<and>
     dget (is_audit a) ''decision_reasons'' = Some (VList (map VStr (ae_decision_reasons ev))) \<and>
     dget (is_audit a) ''trace_id'' = Some (VStr (ae_trace_id ev)) \<and>
     dget (is_audit a) ''span_id'' = Some (VStr (ae_span_id ev)) \<and>
     dget (is_audit a) ''estimated_input_tokens'' = Some (opt_int (ae_estimated_input_tokens ev)) \<and>
     dget (is_audit a) ''token_budget_limit'' = Some (opt_int (ae_token_budget_limit ev)) \<and>
     ae_latency_ms ev = Some (NFlt (is_latency_ms a))"

lemma infer_admitted_reply:
  assumes "rp_principal resolved = Some p"
  shows "gwp (infer_admitted w rd trace resolved p reasons model_id q l)
    (\<lambda>r g'. \<forall>a. r = Inr a \<longrightarrow>
       (\<exists>ev. last (gw_audit g') = (rd_timestamp rd, ev) \<and> reply_matches_event a ev)) g"
  unfolding infer_admitted_def Let_def
  by (intro gwp_rules;
      simp add: reply_matches_event_def audit_event_of_def event_principal_id_def assms
        infer_fields_def opt_int_def)

theorem infer_reply_matches_audit:
  assumes "infer w rd model_id q demo authorization traceparent g = (Inr a, g')"
  shows "\<exists>ev. last (gw_audit g') = (rd_timestamp rd, ev) \<and> reply_matches_event a ev"
proof -
  have "gwp (infer w rd model_id q demo authorization traceparent)
    (\<lambda>r g'. \<forall>a. r = Inr a \<longrightarrow>
       (\<exists>ev. last (gw_audit g') = (rd_timestamp rd, ev) \<and> reply_matches_event a ev)) g"
    unfolding infer_def Let_def by (intro gwp_rules infer_admitted_reply; simp)
  then show ?thesis using assms by (auto simp: gwp_def)
qed

text \<open>
  The token budget is asked after the request limiter, so a request denied for tokens has
  spent one of the caller's requests.
\<close>

lemma memory_request_admits:
  assumes "memory_wf rl" and "1 \<le> l" and "rate_limiter_allow rl now p m l = (True, rl')"
  shows "memory_spent rl' now (p, m) = memory_spent rl now (p, m) + 1"
  using assms memory_spent_charge [OF assms(1), of now "(p, m)" 1]
  by (auto simp: rate_limiter_allow_eq split: if_splits)

text \<open>
  A request denied for its tokens has spent one of the caller's requests, and none of the
  token budget.
\<close>

theorem token_denial_spends_request:
  assumes "admission_verdict w rd model_id input reason authorization demo (MemoryLimiters rl tb, store)
      = (Inr TokenLimited, MemoryLimiters rl' tb', store')"
    and "resolve_principal (w_jwt w) authorization demo (w_auth w) (rd_auth_now rd) = Inr resolved"
    and "rp_principal resolved = Some p"
    and "memory_wf rl" and "memory_wf tb" and "policies_wf (w_policies w)"
  shows "memory_spent rl' (rd_request_now rd) (p_principal_id p, model_id) =
      memory_spent rl (rd_request_now rd) (p_principal_id p, model_id) + 1 \<and> tb' = tb"
proof -
  from assms(1-3) have allowed: "pd_allowed (evaluate_policy (Some p) (dget (w_policies w) model_id) reason)"
    by (auto simp: admission_verdict_def simp del: evaluate_policy.simps split: if_splits)
  then obtain policy where policy: "dget (w_policies w) model_id = Some policy"
    using evaluate_policy_known by blast
  then have limits: "1 \<le> requests_per_minute policy" "1 \<le> input_tokens_per_minute policy"
    using policies_wf_dget [OF assms(6)] by auto
  obtain b rl1 where rq: "rate_limiter_allow rl (rd_request_now rd) (p_principal_id p) model_id
      (requests_per_minute policy) = (b, rl1)" by fastforce
  have "b" using assms(1-3) allowed policy rq
    by (cases b) (auto simp: admission_verdict_def request_decide_def simp del: evaluate_policy.simps)
  moreover obtain d tb1 where tk: "token_budget_allow tb (rd_token_now rd) (p_principal_id p) model_id
      (estimate_input_tokens input) (input_tokens_per_minute policy) = (d, tb1)" by fastforce
  ultimately have "rl' = rl1" and "tb' = tb1" and "d = Inr False"
    using assms(1-3) allowed policy rq
    by (auto simp: admission_verdict_def request_decide_def token_decide_def
        simp del: evaluate_policy.simps split: sum.splits if_splits)
  moreover have "tb1 = tb" using tk \<open>d = Inr False\<close> limits estimate_input_tokens_ge_1 [of input]
    by (simp add: token_budget_allow_eq split: if_splits)
  ultimately show ?thesis
    using memory_request_admits [OF assms(4) limits(1)] rq \<open>b\<close> by simp
qed

text \<open>The metrics endpoint answers the configured bearer token only.\<close>

lemma utf8_char_inj:
  "(let n = (of_char c :: int) in if n < 128 then [c] else [char_of (192 + n div 64), char_of (128 + n mod 64)]) @ xs =
   (let n = (of_char d :: int) in if n < 128 then [d] else [char_of (192 + n div 64), char_of (128 + n mod 64)]) @ ys
   \<Longrightarrow> c = d \<and> xs = ys"
proof -
  assume eq: "(let n = (of_char c :: int) in if n < 128 then [c] else [char_of (192 + n div 64), char_of (128 + n mod 64)]) @ xs =
   (let n = (of_char d :: int) in if n < 128 then [d] else [char_of (192 + n div 64), char_of (128 + n mod 64)]) @ ys"
  have b: "0 \<le> (of_char e :: int)" "(of_char e :: int) < 256" for e by (rule of_char_bounds)+
  have hi: "(of_char (char_of (192 + n div 64) :: char) :: int) = 192 + n div 64"
    and lo: "(of_char (char_of (128 + n mod 64) :: char) :: int) = 128 + n mod 64"
    if "0 \<le> n" "n < 256" for n :: int
  proof -
    have "192 + n div 64 < 256" "0 \<le> 192 + n div 64" using that by auto
    then show "(of_char (char_of (192 + n div 64) :: char) :: int) = 192 + n div 64" by simp
    have "128 + n mod 64 < 256" "0 \<le> 128 + n mod 64" by auto
    then show "(of_char (char_of (128 + n mod 64) :: char) :: int) = 128 + n mod 64" by simp
  qed
  let ?c = "of_char c :: int" and ?d = "of_char d :: int"
  consider "?c < 128" "?d < 128" | "\<not> ?c < 128" "?d < 128" | "?c < 128" "\<not> ?d < 128"
    | "\<not> ?c < 128" "\<not> ?d < 128" by blast
  then show ?thesis
  proof cases
    case 1
    with eq show ?thesis by (simp add: Let_def)
  next
    case 2
    then have "char_of (192 + ?c div 64) = d" using eq by (simp add: Let_def)
    then have "?d = 192 + ?c div 64" using hi [of ?c] b [of c] by metis
    then show ?thesis using 2 b [of c] by linarith
  next
    case 3
    then have "char_of (192 + ?d div 64) = c" using eq by (simp add: Let_def)
    then have "?c = 192 + ?d div 64" using hi [of ?d] b [of d] by metis
    then show ?thesis using 3 b [of d] by linarith
  next
    case 4
    then have "char_of (192 + ?c div 64) = (char_of (192 + ?d div 64) :: char)"
      and "char_of (128 + ?c mod 64) = (char_of (128 + ?d mod 64) :: char)" and xs: "xs = ys"
      using eq by (simp_all add: Let_def)
    then have "192 + ?c div 64 = 192 + ?d div 64" "128 + ?c mod 64 = 128 + ?d mod 64"
      using hi [OF b, of c] hi [OF b, of d] lo [OF b, of c] lo [OF b, of d] by metis+
    then have "?c = ?d" by (metis add_left_cancel div_mult_mod_eq)
    with xs show ?thesis by simp
  qed
qed

lemma utf8_encode_inj: "utf8_encode s = utf8_encode t \<Longrightarrow> s = t"
proof (induction s arbitrary: t)
  case Nil
  then show ?case by (cases t) (auto simp: utf8_encode_def Let_def split: if_splits)
next
  case (Cons c s)
  then obtain d u where t: "t = d # u"
    by (cases t) (auto simp: utf8_encode_def Let_def split: if_splits)
  have "c = d \<and> utf8_encode s = utf8_encode u"
    using Cons.prems unfolding t utf8_encode_def by (intro utf8_char_inj) simp
  then show ?case using Cons.IH t by blast
qed

theorem metrics_endpoint_guarded:
  assumes "prometheus_metrics w authorization g = (r, g')"
  shows "g' = g \<and>
    (\<forall>body. r = Inr body \<longrightarrow> render_prometheus (gw_metrics g) (w_policies w) = Inr body) \<and>
    (\<forall>key. w_env w ''METRICS_BEARER_TOKEN'' = Some key \<longrightarrow> key \<noteq> [] \<longrightarrow>
       authorization \<noteq> Some (''Bearer '' @ key) \<longrightarrow> status_of r = Some 401)"
  using assms
  by (auto simp: prometheus_metrics_def Let_def http_error_def gfail_def gresult_def greturn_def
      split: if_splits sum.splits option.splits dest!: utf8_encode_inj)

theorem list_models_authenticated:
  assumes "list_models w rd authorization demo g = (r, g')"
  shows "(\<forall>models. r = Inr models \<longrightarrow> \<not> anonymous_caller w rd authorization demo \<and>
      length models = length (w_policies w)) \<and>
    gw_limiters g' = gw_limiters g \<and> gw_store g' = gw_store g \<and> gw_audit g' = gw_audit g \<and>
    gw_backend_calls g' = gw_backend_calls g"
proof -
  have "gwp (list_models w rd authorization demo)
      (\<lambda>r g'. (\<forall>models. r = Inr models \<longrightarrow> \<not> anonymous_caller w rd authorization demo \<and>
        length models = length (w_policies w)) \<and>
        gw_limiters g' = gw_limiters g \<and> gw_store g' = gw_store g \<and> gw_audit g' = gw_audit g \<and>
        gw_backend_calls g' = gw_backend_calls g) g"
    unfolding list_models_def by (intro gwp_rules; simp add: anonymous_caller_def)
  then show ?thesis using assms by (rule gwpD)
qed

end
