(* ===== verification/CompletionStream.thy ===== *)
theory CompletionStream
  imports GatewayWp
begin

text \<open>
  The streamed half of \<^verbatim>\<open>completions\<close>: the generator \<^verbatim>\<open>iter_completion_response\<close> as a state
  machine, its invariant over every reachable state, and what reaches the client.
\<close>

section \<open>The streamed body\<close>

text \<open>
  \<^verbatim>\<open>iter_completion_response\<close> is a generator. The server resumes it for the next chunk, and
  closes it when the client has gone. Its body runs from the first resumption only: closing
  a generator that was never started runs nothing, its \<^verbatim>\<open>finally\<close> included.
\<close>

datatype stream_pc = NotStarted | Suspended "string list" | Finished | Abandoned

record stream =
  st_response :: httpx_response
  st_admission :: completion_admission
  st_pc :: stream_pc

fun next_chunk :: "string list \<Rightarrow> (string \<times> string list) option" where
  "next_chunk [] = None"
| "next_chunk (c # cs) = (if c \<noteq> [] then Some (c, cs) else next_chunk cs)"

definition stream_finish ::
  "'s world \<Rightarrow> readings \<Rightarrow> completion_admission \<Rightarrow> string \<Rightarrow> string list \<Rightarrow> ('s, unit) handler" where
  \<comment> \<open>the \<^verbatim>\<open>finally\<close> block\<close>
  "stream_finish w rd a outcome reasons =
     gthen log_close
       (record_completion_event w rd a outcome True reasons
          (Some (ms_between (ca_started_perf a) (rd_perf rd 0))))"

definition stream_ending :: "httpx_response \<Rightarrow> completion_admission \<Rightarrow> string \<times> string list" where
  \<comment> \<open>only an \<^verbatim>\<open>httpx.HTTPError\<close> changes the outcome from the initial "allowed"\<close>
  "stream_ending response a =
     (case hr_failure response of
        None \<Rightarrow> (''allowed'', ca_decision_reasons a)
      | Some e \<Rightarrow>
          if is_httpx_error e then (''backend_error'', [''inference backend unavailable''])
          else (''allowed'', ca_decision_reasons a))"

definition stream_pending :: "stream \<Rightarrow> string list option" where
  "stream_pending st =
     (case st_pc st of
        NotStarted \<Rightarrow> Some (hr_chunks (st_response st))
      | Suspended cs \<Rightarrow> Some cs
      | _ \<Rightarrow> None)"

text \<open>\<^verbatim>\<open>next(generator)\<close>: the chunk it yields, if any.\<close>

definition stream_resume ::
  "'s world \<Rightarrow> readings \<Rightarrow> stream \<times> 's gateway \<Rightarrow> string option \<times> stream \<times> 's gateway" where
  "stream_resume w rd sg =
     (let (st, g) = sg in
      case stream_pending st of
        None \<Rightarrow> (None, st, g)
      | Some cs \<Rightarrow>
          (case next_chunk cs of
             Some (c, rest) \<Rightarrow> (Some c, st\<lparr>st_pc := Suspended rest\<rparr>, g)
           | None \<Rightarrow>
               (let (outcome, reasons) = stream_ending (st_response st) (st_admission st) in
                (None, st\<lparr>st_pc := Finished\<rparr>,
                 snd (stream_finish w rd (st_admission st) outcome reasons g)))))"

text \<open>\<^verbatim>\<open>generator.close()\<close>\<close>

definition stream_close ::
  "'s world \<Rightarrow> readings \<Rightarrow> stream \<times> 's gateway \<Rightarrow> stream \<times> 's gateway" where
  "stream_close w rd sg =
     (let (st, g) = sg in
      case st_pc st of
        NotStarted \<Rightarrow> (st\<lparr>st_pc := Abandoned\<rparr>, g)
      | Suspended cs \<Rightarrow>
          (st\<lparr>st_pc := Finished\<rparr>,
           snd (stream_finish w rd (st_admission st) ''backend_error''
             [''client disconnected during inference''] g))
      | _ \<Rightarrow> (st, g))"

inductive stream_step :: "'s world \<Rightarrow> stream \<times> 's gateway \<Rightarrow> stream \<times> 's gateway \<Rightarrow> bool" for w where
  resume: "stream_resume w rd sg = (c, sg') \<Longrightarrow> stream_step w sg sg'"
| close: "stream_close w rd sg = sg' \<Longrightarrow> stream_step w sg sg'"

inductive stream_reach :: "'s world \<Rightarrow> stream \<times> 's gateway \<Rightarrow> stream \<times> 's gateway \<Rightarrow> bool" for w sg where
  start: "stream_reach w sg sg"
| step: "stream_reach w sg sg' \<Longrightarrow> stream_step w sg' sg'' \<Longrightarrow> stream_reach w sg sg''"

inductive_cases stream_stepE: "stream_step w sg sg'"

lemma write_event_audit:
  assumes "audit_accepts w"
  shows "gw_audit (snd (write_event w rd f g)) = gw_audit g @ [(rd_timestamp rd, audit_event_of f)] \<and>
    gw_backend_log (snd (write_event w rd f g)) = gw_backend_log g"
  using assms
  by (auto simp: audit_accepts_def write_event_def gthen_def gbind_def sink_write_def
      export_trace_span_def gresult_def gfail_def greturn_def
      split: option.splits sum.splits prod.splits)

lemma stream_finish_effect:
  assumes "audit_accepts w"
  shows "\<exists>ev. gw_audit (snd (stream_finish w rd a outcome reasons g)) = gw_audit g @ [(rd_timestamp rd, ev)] \<and>
    ae_allowed ev \<and> ae_model_id ev = ca_model_id a \<and> ae_decision_reasons ev = reasons \<and>
    ae_trace_id ev = tr_trace_id (ca_trace a) \<and>
    gw_backend_log (snd (stream_finish w rd a outcome reasons g)) = gw_backend_log g @ [ResponseClosed]"
proof -
  let ?f = "completion_fields (ca_resolved a) (ca_trace a) (ca_model_id a) (ca_reason a) (ca_tokens a)
      (Some (ca_budget_limit a)) (ca_started_ns a) outcome True reasons
      (Some (ms_between (ca_started_perf a) (rd_perf rd 0)))"
  let ?g = "g\<lparr>gw_backend_log := gw_backend_log g @ [ResponseClosed],
      gw_metrics := completion_metrics w ?f (gw_metrics g)\<rparr>"
  have "stream_finish w rd a outcome reasons g = write_event w rd ?f ?g"
    by (simp add: stream_finish_def gthen_def gbind_def log_close_def record_completion_event_def
        record_completion_unfold)
  moreover have "ae_decision_reasons (audit_event_of ?f) = reasons"
    "ae_trace_id (audit_event_of ?f) = tr_trace_id (ca_trace a)"
    by (simp_all add: audit_event_of_def)
  ultimately show ?thesis using write_event_audit [OF assms, of rd ?f ?g] by auto
qed

text \<open>The ways a started stream can end, and what is then recorded of it.\<close>

definition stream_endings :: "httpx_response \<Rightarrow> completion_admission \<Rightarrow> string list set" where
  "stream_endings response a =
     {snd (stream_ending response a), [''client disconnected during inference'']}"

definition stream_accounted :: "stream \<Rightarrow> 's gateway \<Rightarrow> stream \<times> 's gateway \<Rightarrow> bool" where
  "stream_accounted st0 g0 sg \<longleftrightarrow>
     (let (st, g) = sg in
      st_response st = st_response st0 \<and> st_admission st = st_admission st0 \<and>
      (if st_pc st = Finished then
         (\<exists>ts ev. gw_audit g = gw_audit g0 @ [(ts, ev)] \<and> ae_allowed ev \<and>
            ae_model_id ev = ca_model_id (st_admission st0) \<and>
            ae_trace_id ev = tr_trace_id (ca_trace (st_admission st0)) \<and>
            ae_decision_reasons ev \<in> stream_endings (st_response st0) (st_admission st0)) \<and>
         gw_backend_log g = gw_backend_log g0 @ [ResponseClosed]
       else g = g0))"

lemma stream_accounted_resume:
  assumes "audit_accepts w" and "stream_accounted st0 g0 sg" and "stream_resume w rd sg = (c, sg')"
  shows "stream_accounted st0 g0 sg'"
proof -
  obtain st g where sg: "sg = (st, g)" by fastforce
  show ?thesis
  proof (cases "stream_pending st")
    case None
    then show ?thesis using assms by (simp add: stream_resume_def sg)
  next
    case (Some cs)
    then have open_pc: "st_pc st \<noteq> Finished" by (auto simp: stream_pending_def)
    then have g: "g = g0" and st: "st_response st = st_response st0" "st_admission st = st_admission st0"
      using assms(2) by (auto simp: stream_accounted_def sg)
    show ?thesis
    proof (cases "next_chunk cs")
      case (Some p)
      then show ?thesis
        using assms(3) \<open>stream_pending st = Some cs\<close> g st
        by (cases p) (auto simp: stream_resume_def sg stream_accounted_def)
    next
      case None
      obtain oc rs where e: "stream_ending (st_response st) (st_admission st) = (oc, rs)" by fastforce
      have sg': "sg' = (st\<lparr>st_pc := Finished\<rparr>, snd (stream_finish w rd (st_admission st) oc rs g))"
        using assms(3) \<open>stream_pending st = Some cs\<close> None e by (simp add: stream_resume_def sg)
      show ?thesis
        using stream_finish_effect [OF assms(1), of rd "st_admission st" oc rs g] e
        by (auto simp: sg' g st stream_accounted_def stream_endings_def)
    qed
  qed
qed

lemma stream_accounted_close:
  assumes "audit_accepts w" and "stream_accounted st0 g0 sg"
  shows "stream_accounted st0 g0 (stream_close w rd sg)"
proof -
  obtain st g where sg: "sg = (st, g)" by fastforce
  show ?thesis
  proof (cases "st_pc st")
    case (Suspended cs)
    then have g: "g = g0" and st: "st_response st = st_response st0" "st_admission st = st_admission st0"
      using assms(2) by (auto simp: stream_accounted_def sg)
    show ?thesis
      using stream_finish_effect [OF assms(1), of rd "st_admission st" "''backend_error''"
          "[''client disconnected during inference'']" g] Suspended
      by (auto simp: sg g st stream_close_def stream_accounted_def stream_endings_def)
  qed (use assms(2) in \<open>auto simp: sg stream_close_def stream_accounted_def\<close>)
qed


text \<open>
  A stream dropped before its first chunk is neither recorded nor closed, and can no longer
  be resumed.
\<close>

theorem stream_abandoned_unrecorded:
  assumes "st_pc st = NotStarted"
  shows "\<exists>st'. stream_close w rd (st, g) = (st', g) \<and> st_pc st' = Abandoned \<and>
    stream_resume w rd' (st', g) = (None, st', g)"
  using assms by (simp add: stream_close_def stream_resume_def stream_pending_def)

text \<open>A client that keeps reading gets every chunk, and the stream ends.\<close>

fun stream_drain ::
  "nat \<Rightarrow> 's world \<Rightarrow> readings \<Rightarrow> stream \<times> 's gateway \<Rightarrow> string list \<times> stream \<times> 's gateway" where
  "stream_drain 0 w rd sg = ([], sg)"
| "stream_drain (Suc n) w rd sg =
     (case stream_resume w rd sg of
        (None, sg') \<Rightarrow> ([], sg')
      | (Some c, sg') \<Rightarrow> (let (cs, sg'') = stream_drain n w rd sg' in (c # cs, sg'')))"

lemma next_chunk_None: "next_chunk cs = None \<longleftrightarrow> filter (\<lambda>c. c \<noteq> []) cs = []"
  by (induction cs) auto

lemma next_chunk_Some:
  "next_chunk cs = Some (c, rest) \<Longrightarrow>
     filter (\<lambda>c. c \<noteq> []) cs = c # filter (\<lambda>c. c \<noteq> []) rest \<and> length rest < length cs"
  by (induction cs) (auto split: if_splits)

lemma stream_drain_chunks:
  assumes "stream_pending st = Some cs" and "length cs < n"
  shows "fst (stream_drain n w rd (st, g)) = filter (\<lambda>c. c \<noteq> []) cs \<and>
    st_pc (fst (snd (stream_drain n w rd (st, g)))) = Finished"
  using assms
proof (induction n arbitrary: st cs)
  case (Suc n)
  show ?case
  proof (cases "next_chunk cs")
    case None
    then show ?thesis
      using Suc.prems
      by (auto simp: stream_resume_def next_chunk_None [THEN iffD1] case_prod_beta)
  next
    case (Some p)
    obtain c rest where p: "p = (c, rest)" by fastforce
    let ?st = "st\<lparr>st_pc := Suspended rest\<rparr>"
    have "stream_pending ?st = Some rest" by (simp add: stream_pending_def)
    moreover have "length rest < n" using next_chunk_Some [of cs c rest] Some p Suc.prems by simp
    ultimately have "fst (stream_drain n w rd (?st, g)) = filter (\<lambda>c. c \<noteq> []) rest \<and>
        st_pc (fst (snd (stream_drain n w rd (?st, g)))) = Finished" by (rule Suc.IH)
    then show ?thesis
      using Some p Suc.prems next_chunk_Some [of cs c rest]
      by (simp add: stream_resume_def case_prod_beta)
  qed
qed simp


end
