(* ===== verification/MetricKeys.thy ===== *)
theory MetricKeys
  imports CompletionStream
begin

text \<open>
  Callers cannot create metric series: every key of every counter comes from a fixed set, and
  every handler keeps it so.
\<close>

section \<open>The metric series are bounded\<close>

text \<open>
  Every key of a counter comes from a fixed set, whatever callers send: model labels are the
  configured models and \<^verbatim>\<open>unknown\<close>, outcomes and reasons are fixed strings.
\<close>

definition OUTCOMES :: "string set" where
  "OUTCOMES =
     {''allowed'', ''policy_denied'', ''rate_limited'', ''token_budget_limited'', ''backend_error''}"

definition REASONS :: "string set" where
  "REASONS =
     POLICY_REASONS \<union> (\<lambda>m. ''authentication failed: '' @ m) ` set AUTH_MESSAGES \<union>
     {''unspecified'', ''rate limit exceeded'', ''token budget exceeded'',
      ''inference backend unavailable'', ''client disconnected during inference''}"

definition AUTH_METHODS :: "string set" where
  "AUTH_METHODS = {''jwt'', ''demo-header'', ''none''}"

definition AUTH_OUTCOMES :: "string set" where
  "AUTH_OUTCOMES = {''accepted'', ''failed''}"

definition LIMITER_NAMES :: "string set" where
  "LIMITER_NAMES = {''requests'', ''input_tokens''}"

definition BACKEND_NAMES :: "string set" where
  "BACKEND_NAMES = {''memory'', ''redis''}"

definition model_labels :: "'s world \<Rightarrow> string set" where
  "model_labels w = insert UNKNOWN_MODEL_LABEL (set (dkeys (w_policies w)))"

definition metric_keys_ok :: "'s world \<Rightarrow> gateway_metrics \<Rightarrow> bool" where
  "metric_keys_ok w m \<longleftrightarrow>
     set (dkeys (m_requests m)) \<subseteq> model_labels w \<times> OUTCOMES \<and>
     set (dkeys (m_denials m)) \<subseteq> model_labels w \<times> REASONS \<and>
     set (dkeys (m_input_tokens m)) \<subseteq> model_labels w \<times> OUTCOMES \<and>
     set (dkeys (h_count (m_latency m))) \<subseteq> model_labels w \<and>
     set (dkeys (m_auth_events m)) \<subseteq>
       AUTH_METHODS \<times> AUTH_OUTCOMES \<and>
     set (dkeys (h_count (m_limiter_latency m))) \<subseteq> LIMITER_NAMES \<times> BACKEND_NAMES"

lemma count_denials_keys: "set (dkeys (count_denials l rs d)) = set (dkeys d) \<union> {l} \<times> set rs"
  by (induction rs arbitrary: d) auto

lemma record_request_keys:
  "set (dkeys (m_requests (record_request m l oc rs))) = insert (l, oc) (set (dkeys (m_requests m)))"
  "set (dkeys (m_denials (record_request m l oc rs))) \<subseteq>
     set (dkeys (m_denials m)) \<union> {l} \<times> insert ''unspecified'' (set rs)"
  by (auto simp: record_request_def Let_def count_denials_keys)

lemma metric_keys_record:
  "metric_keys_ok w m \<Longrightarrow> l \<in> model_labels w \<Longrightarrow> oc \<in> OUTCOMES \<Longrightarrow> set rs \<subseteq> REASONS \<Longrightarrow>
     metric_keys_ok w (record_request m l oc rs)"
proof -
  assume m: "metric_keys_ok w m" and l: "l \<in> model_labels w" and oc: "oc \<in> OUTCOMES"
    and rs: "set rs \<subseteq> REASONS"
  have "''unspecified'' \<in> REASONS" by (simp add: REASONS_def)
  with l rs have "{l} \<times> insert ''unspecified'' (set rs) \<subseteq> model_labels w \<times> REASONS" by blast
  then have "set (dkeys (m_denials (record_request m l oc rs))) \<subseteq> model_labels w \<times> REASONS"
    using record_request_keys(2) [of m l oc rs] m by (auto simp: metric_keys_ok_def)
  moreover have "m_input_tokens (record_request m l oc rs) = m_input_tokens m"
    "m_latency (record_request m l oc rs) = m_latency m"
    "m_auth_events (record_request m l oc rs) = m_auth_events m"
    "m_limiter_latency (record_request m l oc rs) = m_limiter_latency m"
    by (simp_all add: record_request_def Let_def)
  ultimately show ?thesis
    using m l oc by (simp add: metric_keys_ok_def record_request_keys(1))
qed

lemma metric_keys_others:
  "metric_keys_ok w m \<Longrightarrow> l \<in> model_labels w \<Longrightarrow> oc \<in> OUTCOMES \<Longrightarrow>
     metric_keys_ok w (record_input_tokens m l oc n)"
  "metric_keys_ok w m \<Longrightarrow> l \<in> model_labels w \<Longrightarrow> metric_keys_ok w (observe_latency m l x)"
  "metric_keys_ok w m \<Longrightarrow> metric_keys_ok w (record_audit_suppressed m)"
  by (simp_all add: metric_keys_ok_def record_input_tokens_def observe_latency_def
      record_audit_suppressed_def)

lemma metric_keys_auth:
  "metric_keys_ok w m \<Longrightarrow> meth \<in> AUTH_METHODS \<Longrightarrow>
     metric_keys_ok w (record_auth_event m meth (auth_outcome resolved))"
proof -
  have "auth_outcome resolved \<in> AUTH_OUTCOMES" by (simp add: auth_outcome_def AUTH_OUTCOMES_def)
  then show "metric_keys_ok w m \<Longrightarrow> meth \<in> AUTH_METHODS \<Longrightarrow> ?thesis"
    by (simp add: metric_keys_ok_def record_auth_event_def)
qed

lemma metric_keys_limiter:
  "metric_keys_ok w m \<Longrightarrow> which \<in> LIMITER_NAMES \<Longrightarrow>
     metric_keys_ok w (observe_limiter_latency m which (limiter_backend_name b) x)"
proof -
  have "limiter_backend_name b \<in> BACKEND_NAMES"
    by (simp add: limiter_backend_name_def BACKEND_NAMES_def split: limiter_backend.split)
  then show "metric_keys_ok w m \<Longrightarrow> which \<in> LIMITER_NAMES \<Longrightarrow> ?thesis"
    by (simp add: metric_keys_ok_def observe_limiter_latency_def)
qed

lemma metric_model_label_mem: "metric_model_label w model_id \<in> model_labels w"
  by (auto simp: metric_model_label_def model_labels_def dget_None_iff)

lemma known_model_label: "dget (w_policies w) model_id = Some policy \<Longrightarrow> model_id \<in> model_labels w"
  using dget_None_iff [of "w_policies w" model_id] by (simp add: model_labels_def)

lemma policy_reasons_ok: "set (pd_reasons (evaluate_policy p m reason)) \<subseteq> REASONS"
  using evaluate_policy_reasons_fixed [of p m reason] by (auto simp: REASONS_def)

lemma decision_reasons_ok:
  assumes "resolve_principal rt header demo settings now = Inr resolved"
  shows "set (with_auth_failure (pd_reasons (evaluate_policy p m reason)) (rp_failure_reason resolved)) \<subseteq> REASONS"
proof (cases "rp_failure_reason resolved")
  case None
  then show ?thesis using policy_reasons_ok by (simp add: with_auth_failure_def)
next
  case (Some f)
  then have "f \<in> set AUTH_MESSAGES" using resolve_failure_message [OF assms] by blast
  then have "''authentication failed: '' @ f \<in> REASONS" unfolding REASONS_def by blast
  then show ?thesis
    using Some policy_reasons_ok [of p m reason] by (auto simp: with_auth_failure_def)
qed

lemma OUTCOMES_mem:
  "''allowed'' \<in> OUTCOMES" "''policy_denied'' \<in> OUTCOMES" "''rate_limited'' \<in> OUTCOMES"
  "''token_budget_limited'' \<in> OUTCOMES" "''backend_error'' \<in> OUTCOMES"
  by (simp_all add: OUTCOMES_def)

lemma REASONS_mem:
  "set [] \<subseteq> REASONS" "set [''rate limit exceeded''] \<subseteq> REASONS" "set [''token budget exceeded''] \<subseteq> REASONS"
  "set [''inference backend unavailable''] \<subseteq> REASONS"
  "set [''client disconnected during inference''] \<subseteq> REASONS"
  "''rate limit exceeded'' \<in> REASONS" "''token budget exceeded'' \<in> REASONS"
  "''inference backend unavailable'' \<in> REASONS"
  by (simp_all add: REASONS_def)

lemma limiter_names: "''requests'' \<in> LIMITER_NAMES" "''input_tokens'' \<in> LIMITER_NAMES"
  by (simp_all add: LIMITER_NAMES_def)

lemma auth_method_mem:
  "resolve_principal rt header demo settings now = Inr r \<Longrightarrow> rp_auth_method r \<in> AUTH_METHODS"
  unfolding AUTH_METHODS_def by (rule resolve_auth_method)

lemmas metric_keys_core =
  metric_keys_record metric_keys_others metric_keys_auth metric_keys_limiter limiter_names
  OUTCOMES_mem REASONS_mem

lemmas metric_keys_intros =
  metric_keys_core metric_model_label_mem known_model_label policy_reasons_ok decision_reasons_ok

lemma completion_metrics_keys:
  assumes "metric_keys_ok w m" "ef_outcome f \<in> OUTCOMES" "set (ef_decision_reasons f) \<subseteq> REASONS"
  shows "metric_keys_ok w (completion_metrics w f m)"
  using assms
  by (auto simp: completion_metrics_def Let_def split: option.split sum.split
      intro!: metric_keys_record metric_keys_others metric_model_label_mem)

lemma infer_admitted_keys:
  assumes "metric_keys_ok w (gw_metrics g)" "model_id \<in> model_labels w" "set reasons \<subseteq> REASONS"
  shows "gwp (infer_admitted w rd trace resolved p reasons model_id q l)
    (\<lambda>r g'. metric_keys_ok w (gw_metrics g')) g"
  unfolding infer_admitted_def Let_def
  by (intro gwp_rules; simp; intro metric_keys_core assms)

lemma infer_metric_keys:
  assumes "metric_keys_ok w (gw_metrics g)"
  shows "gwp (infer w rd model_id q demo authorization traceparent)
    (\<lambda>r g'. metric_keys_ok w (gw_metrics g')) g"
  unfolding infer_def Let_def
  apply (intro gwp_rules infer_admitted_keys)
  apply (simp_all del: evaluate_policy.simps)
  apply (intro metric_keys_intros assms auth_method_mem | assumption)+
  done

lemma completion_admission_reasons:
  assumes "metric_keys_ok w (gw_metrics g)"
  shows "gwp (admit_completion w rd model_id prompt reason authorization demo traceparent)
     (\<lambda>r g'. metric_keys_ok w (gw_metrics g') \<and>
        (\<forall>a. r = Inr a \<longrightarrow> set (ca_decision_reasons a) \<subseteq> REASONS)) g"
  unfolding admit_completion_def Let_def
  apply (intro gwp_rules)
  apply (simp_all del: evaluate_policy.simps)
  apply (intro conjI metric_keys_intros completion_metrics_keys assms auth_method_mem | assumption
    | (simp only: completion_fields_simps, intro metric_keys_intros))+
  done

lemma completions_metric_keys:
  assumes "metric_keys_ok w (gw_metrics g)"
  shows "gwp (completions w rd q authorization demo reason traceparent request_id)
    (\<lambda>r g'. metric_keys_ok w (gw_metrics g') \<and>
       (\<forall>s h resp a. r = Inr (StreamReply s h resp a) \<longrightarrow> set (ca_decision_reasons a) \<subseteq> REASONS)) g"
  unfolding completions_def Let_def backend_unavailable_def
  apply (rule gwp_bind, rule gwp_mono, rule completion_admission_reasons [OF assms])
  subgoal for r g1
    apply (cases r; simp add: wp_next_def)
    apply (intro gwp_rules; simp;
      (intro conjI metric_keys_intros completion_metrics_keys | simp only: completion_fields_simps | blast)+)
    done
  done

section \<open>Metric series over whole requests\<close>

lemma write_event_metrics: "gw_metrics (snd (write_event w rd f g)) = gw_metrics g"
  by (auto simp: write_event_def gthen_def gbind_def sink_write_def export_trace_span_def
      gresult_def gfail_def greturn_def split: option.splits sum.splits prod.splits)

lemma stream_finish_metrics:
  assumes "metric_keys_ok w (gw_metrics g)" and "outcome \<in> OUTCOMES" and "set reasons \<subseteq> REASONS"
  shows "metric_keys_ok w (gw_metrics (snd (stream_finish w rd a outcome reasons g)))"
  using assms
  by (simp add: stream_finish_def gthen_def gbind_def log_close_def record_completion_event_def
      record_completion_unfold write_event_metrics completion_metrics_keys)

lemma stream_ending_keys:
  assumes "set (ca_decision_reasons a) \<subseteq> REASONS" and "stream_ending response a = (oc, rs)"
  shows "oc \<in> OUTCOMES \<and> set rs \<subseteq> REASONS"
  using assms
  by (auto simp: stream_ending_def OUTCOMES_mem REASONS_mem split: option.splits if_splits)

lemma stream_step_metrics:
  assumes "stream_step w sg sg'" and "metric_keys_ok w (gw_metrics (snd sg))"
    and "set (ca_decision_reasons (st_admission (fst sg))) \<subseteq> REASONS"
  shows "metric_keys_ok w (gw_metrics (snd sg')) \<and> st_admission (fst sg') = st_admission (fst sg)"
  using assms(1)
proof (cases rule: stream_step.cases)
  case (resume rd c)
  obtain oc rs where e: "stream_ending (st_response (fst sg)) (st_admission (fst sg)) = (oc, rs)" by fastforce
  show ?thesis
    using resume assms(2) stream_finish_metrics [OF assms(2), of oc rs]
      stream_ending_keys [OF assms(3) e] e
    by (cases sg) (auto simp: stream_resume_def split: option.splits prod.splits)
next
  case (close rd)
  then show ?thesis
    using assms(2) stream_finish_metrics [OF assms(2)] OUTCOMES_mem REASONS_mem
    by (cases sg) (auto simp: stream_close_def split: stream_pc.splits)
qed

lemma stream_reach_metrics:
  assumes "stream_reach w sg sg'" and "metric_keys_ok w (gw_metrics (snd sg))"
    and "set (ca_decision_reasons (st_admission (fst sg))) \<subseteq> REASONS"
  shows "metric_keys_ok w (gw_metrics (snd sg')) \<and> st_admission (fst sg') = st_admission (fst sg)"
  using assms
proof (induction rule: stream_reach.induct)
  case (step sg' sg'')
  then show ?case using stream_step_metrics [of w sg' sg''] by simp
qed simp

text \<open>
  C38: No request adds a metric series outside a fixed set: after every handler, and after every
  step of a stream, the label values of all counters stay among the registered models and the
  fixed outcomes, reasons, authentication methods and limiter names.
\<close>

theorem metric_series_bounded:
  assumes "metric_keys_ok w (gw_metrics g)"
  shows "metric_keys_ok w (gw_metrics (snd (infer w rd model_id iq demo authorization traceparent g))) \<and>
    metric_keys_ok w (gw_metrics (snd (list_models w rd authorization demo g))) \<and>
    (\<forall>r g'. completions w rd q authorization demo reason traceparent request_id g = (r, g') \<longrightarrow>
       metric_keys_ok w (gw_metrics g') \<and>
       (\<forall>s h response a sg. r = Inr (StreamReply s h response a) \<longrightarrow>
          stream_reach w (\<lparr>st_response = response, st_admission = a, st_pc = NotStarted\<rparr>, g') sg \<longrightarrow>
          metric_keys_ok w (gw_metrics (snd sg))))"
proof (intro conjI allI impI)
  show "metric_keys_ok w (gw_metrics (snd (infer w rd model_id iq demo authorization traceparent g)))"
    using infer_metric_keys [OF assms, of rd model_id iq demo authorization traceparent]
    by (simp add: gwp_def case_prod_beta)
  have "gwp (list_models w rd authorization demo) (\<lambda>r g'. metric_keys_ok w (gw_metrics g')) g"
    unfolding list_models_def
    by (intro gwp_rules; simp add: assms metric_keys_auth auth_method_mem)
  then show "metric_keys_ok w (gw_metrics (snd (list_models w rd authorization demo g)))"
    by (simp add: gwp_def case_prod_beta)
  fix r g'
  assume c: "completions w rd q authorization demo reason traceparent request_id g = (r, g')"
  note keys = gwpD [OF completions_metric_keys [OF assms] c]
  then show "metric_keys_ok w (gw_metrics g')" by blast
  fix s h response a sg
  assume "r = Inr (StreamReply s h response a)"
    and "stream_reach w (\<lparr>st_response = response, st_admission = a, st_pc = NotStarted\<rparr>, g') sg"
  then show "metric_keys_ok w (gw_metrics (snd sg))"
    using keys stream_reach_metrics [of w _ sg] by fastforce
qed

end
