(* ===== verification/RedisStore.thy ===== *)
theory RedisStore
  imports RedisLimit
begin

text \<open>
  A store that behaves as Redis documents \<^verbatim>\<open>GET\<close>, \<^verbatim>\<open>INCRBY\<close> and \<^verbatim>\<open>PEXPIRE\<close>, without expiry, for the
  witnesses of the properties about the Redis limiters.
\<close>

definition map_commands :: "(string \<rightharpoonup> string) redis_commands" where
  "map_commands = \<lparr>redis_get = (\<lambda>s key. s key),
     redis_incrby = (\<lambda>s key c.
       let n = (case s key of None \<Rightarrow> 0 | Some v \<Rightarrow> (case lua_tonumber v of None \<Rightarrow> 0 | Some n \<Rightarrow> n)) + c
       in (n, s(key \<mapsto> int_str n))),
     redis_pexpire = (\<lambda>s key ttl. s)\<rparr>"

definition map_eval :: "(string \<rightharpoonup> string) eval_fun" where
  "map_eval key a1 a2 a3 s =
     (let (r, s') = fixed_window_script map_commands key a1 a2 a3 s in (script_reply r, s'))"

lemma map_commands_ok [simp]: "redis_commands_ok map_commands"
  by (simp add: redis_commands_ok_def map_commands_def counter_def Let_def)

lemma map_eval_ok [simp]: "eval_ok map_commands map_eval"
  by (auto simp: eval_ok_def map_eval_def split: prod.splits)

lemma empty_counters_ok [simp]: "counters_ok map_commands Map.empty"
  by (simp add: counters_ok_def map_commands_def)

end
