(* ===== verification/Witnesses.thy ===== *)
theory Witnesses
  imports Scenario Admission CompletionStream MetricKeys RedisStore
begin

text \<open>
  Each property with a hypothesis, applied to a concrete input at which the hypothesis holds.
\<close>

section \<open>Policy and limiters\<close>

definition analyst :: principal where
  "analyst = the (dget PRINCIPALS ''analyst-1'')"

definition summarizer :: model_policy where
  "summarizer = the (dget (model_policies_of 60 12000) ''mission-summarizer'')"

lemma estimate_input_tokens_exact_witness: "estimate_input_tokens ''  hello gpu '' = 3"
  by (rule trans [OF estimate_input_tokens_exact]) code_simp+

lemma evaluate_policy_allowed_iff_witness:
  "pd_allowed (evaluate_policy (Some analyst) (Some summarizer) (Some '' drill''))"
proof -
  have "CHR ''d'' \<in> set '' drill''" and "\<not> py_isspace (CHR ''d'')" by code_simp+
  moreover have "roles analyst \<inter> allowed_roles summarizer \<noteq> {}" by code_simp
  ultimately show ?thesis by (subst evaluate_policy_allowed_iff) blast
qed

definition a_call :: "rat \<Rightarrow> int \<Rightarrow> call" where
  "a_call t cost = \<lparr>c_now = Fin t, c_principal = ''p'', c_model = ''m'', c_cost = cost, c_limit = 5\<rparr>"

definition half_spent :: memory_limiter where
  "half_spent = \<lparr>window_seconds = 60,
     windows = [(''p'', ''m'') \<mapsto> \<lparr>started_at = Fin 100, window_count = 2\<rparr>]\<rparr>"

lemma token_budget_window_bound_witness:
  "2 + admitted_cost Pair (''p'', ''m'') [a_call 110 2, a_call 120 2]
     (fst (run_calls token_budget_allow half_spent [a_call 110 2, a_call 120 2])) \<le> 5"
proof -
  have "\<forall>c \<in> set [a_call 110 2, a_call 120 2]. 1 \<le> c_cost c \<and> 1 \<le> c_limit c \<and>
      ((c_principal c, c_model c) = (''p'', ''m'') \<longrightarrow>
        c_limit c = 5 \<and> \<not> rolls_over half_spent (c_now c) (Some \<lparr>started_at = Fin 100, window_count = 2\<rparr>))"
    by code_simp
  from token_budget_window_bound [OF _ _ _ this surjective_pairing] show ?thesis
    by (simp add: half_spent_def)
qed

lemma rate_limiter_window_bound_witness:
  "2 + admitted_cost Pair (''p'', ''m'') [a_call 110 1, a_call 120 1]
     (fst (run_calls rate_limiter_call half_spent [a_call 110 1, a_call 120 1])) \<le> 5"
proof -
  have "\<forall>c \<in> set [a_call 110 1, a_call 120 1]. c_cost c = 1 \<and> 1 \<le> c_limit c \<and>
      ((c_principal c, c_model c) = (''p'', ''m'') \<longrightarrow>
        c_limit c = 5 \<and> \<not> rolls_over half_spent (c_now c) (Some \<lparr>started_at = Fin 100, window_count = 2\<rparr>))"
    by code_simp
  from rate_limiter_window_bound [OF _ _ _ this surjective_pairing] show ?thesis
    by (simp add: half_spent_def)
qed

lemma rate_limiter_is_unit_token_budget_witness:
  "rate_limiter_call half_spent (Fin 110) ''p'' ''m'' 1 5 = token_budget_allow half_spent (Fin 110) ''p'' ''m'' 1 5"
  by (rule rate_limiter_is_unit_token_budget) simp

lemma token_budget_recovers_witness:
  "fst (token_budget_allow half_spent (Fin 160) ''p'' ''m'' 5 5) = Inr True"
proof (rule token_budget_recovers)
  show "rolls_over half_spent (Fin 160) (windows half_spent (''p'', ''m''))" by code_simp
qed simp_all

section \<open>Redis\<close>

definition zero_hash :: "string \<Rightarrow> string" where
  "zero_hash x = replicate 64 (CHR ''0'')"

definition token_keys :: redis_limiter where
  "token_keys = \<lparr>rl_budget_type = ''input_tokens'', rl_window_seconds = 60, rl_key_prefix = ''gw''\<rparr>"

lemma zero_hash_ok [simp]: "hex_digest zero_hash"
  by (simp add: hex_digest_def zero_hash_def is_lower_hex_def)


lemma redis_allow_decides_witness:
  "fst (redis_allow zero_hash map_eval token_keys Map.empty (Fin 61) ''p'' ''m'' 3 5) = Inr True \<and>
   redis_spent map_commands token_keys Map.empty (Fin 61) (redis_slot zero_hash ''p'' ''m'') + 3 \<le> 5"
proof -
  have f: "fst (redis_allow zero_hash map_eval token_keys Map.empty (Fin 61) ''p'' ''m'' 3 5) = Inr True"
    by code_simp
  then have "redis_allow zero_hash map_eval token_keys Map.empty (Fin 61) ''p'' ''m'' 3 5 =
      (Inr True, snd (redis_allow zero_hash map_eval token_keys Map.empty (Fin 61) ''p'' ''m'' 3 5))"
    by (metis prod.collapse)
  from redis_allow_decides [OF map_commands_ok map_eval_ok zero_hash_ok empty_counters_ok _ _ this] f
  show ?thesis by simp
qed

definition redis_env :: environ where
  "redis_env = [''RATE_LIMIT_BACKEND'' \<mapsto> '' Redis '', ''REDIS_URL'' \<mapsto> ''redis://limits:6379'']"

lemma redis_mode_fails_closed_witness:
  "\<exists>b. build_limiters_from_env redis_env True (\<lambda>url timeout. Inr ()) = Inr b \<and>
     limiter_backend_name b = ''redis''"
proof -
  have "py_lower (py_strip (getenv redis_env ''RATE_LIMIT_BACKEND'' ''memory'')) = ''redis''"
    by code_simp
  moreover have "\<not> isl (build_limiters_from_env redis_env True (\<lambda>url timeout. Inr ()))"
    by code_simp
  then obtain b where "build_limiters_from_env redis_env True (\<lambda>url timeout. Inr ()) = Inr b"
    by (cases "build_limiters_from_env redis_env True (\<lambda>url timeout. Inr ())") auto
  ultimately show ?thesis using redis_mode_fails_closed by blast
qed

lemma build_limiters_positive_window_witness:
  "\<exists>r t. build_limiters_from_env Map.empty False (\<lambda>url timeout. Inr ()) = Inr (MemoryLimiters r t) \<and>
     memory_wf r \<and> memory_wf t"
proof -
  have "case build_limiters_from_env Map.empty False (\<lambda>url timeout. Inr ()) of
      Inr (MemoryLimiters r t) \<Rightarrow> True | _ \<Rightarrow> False" by code_simp
  then obtain r t where "build_limiters_from_env Map.empty False (\<lambda>url timeout. Inr ()) =
      Inr (MemoryLimiters r t)" by (auto split: sum.splits limiter_backend.splits)
  from build_limiters_positive_window [OF this] this show ?thesis by auto
qed

section \<open>Audit, metrics, identity\<close>

lemma denial_budget_minute_exact_witness:
  "count_list (fst (denial_run (new_denial_budget 2 (Fin 0)) [Fin 1, Fin 2, Fin 3])) True = 2"
proof -
  have "\<forall>now \<in> set [Fin 1, Fin 2, Fin 3]. \<not> denial_window_over (new_denial_budget 2 (Fin 0)) now"
    by code_simp
  from denial_budget_minute_exact [OF this _ surjective_pairing] show ?thesis
    by (simp add: new_denial_budget_def)
qed

lemma audit_log_lines_witness:
  "py_split newline (audit_write_all (\<lambda>v. ''{}'') [(''t'', audit_event_of undefined)] []) = [''{}'', []]"
proof -
  have "one_line (\<lambda>v. ''{}'')" by (simp add: one_line_def newline_def)
  from audit_log_lines [OF this, of "[(''t'', audit_event_of undefined)]"] show ?thesis by simp
qed

lemma latency_histogram_cumulative_witness:
  "counter_get (h_buckets (m_latency (run_events (new_gateway_metrics [Fin 1, Fin 2] []) []))) (''m'', Fin 1) \<le>
   counter_get (h_buckets (m_latency (run_events (new_gateway_metrics [Fin 1, Fin 2] []) []))) (''m'', Fin 2)"
  using latency_histogram_cumulative [of "[Fin 1, Fin 2]" "Fin 1" "Fin 2" "[]" "[]" "''m''"]
  by (simp add: Let_def)

definition jwt_settings :: auth_settings where
  "jwt_settings = \<lparr>jwt_issuer = Some ''idp'', jwt_audience = Some ''gateway'', jwt_hs256_secret = Some ''k'',
     roles_claim = ''roles'', scopes_claim = ''scope'', allow_demo_principals = False,
     clock_skew_seconds = 30, max_token_lifetime_seconds = 3600\<rparr>"

definition analyst_claims :: claims where
  "analyst_claims = [(''sub'', VStr ''a''), (''iss'', VStr ''idp''), (''aud'', VStr ''gateway''),
     (''exp'', VInt 1300), (''roles'', VList [VStr ''analyst''])]"

definition toy_runtime :: jwt_runtime where
  "toy_runtime = \<lparr>hmac_sha256 = (\<lambda>key message. key @ message),
     json_loads = (\<lambda>s. if s = ''h'' then Inr (VDict [(''alg'', VStr ''HS256'')])
       else if s = ''p'' then Inr (VDict analyst_claims) else Inl (ValueError s))\<rparr>"

definition toy_token :: string where
  "toy_token = b64url_encode ''h'' @ ''.'' @ b64url_encode ''p'' @ ''.'' @
     b64url_encode (''k'' @ b64url_encode ''h'' @ ''.'' @ b64url_encode ''p'')"

lemma jwt_principal_needs_signed_token_witness:
  "\<exists>r p c. resolve_principal toy_runtime (Some (''Bearer '' @ toy_token)) None jwt_settings (Fin 1000) = Inr r \<and>
     rp_principal r = Some p \<and> token_signed toy_runtime ''k'' toy_token c"
proof -
  have "case resolve_principal toy_runtime (Some (''Bearer '' @ toy_token)) None jwt_settings (Fin 1000) of
     Inr r \<Rightarrow> rp_principal r \<noteq> None | Inl e \<Rightarrow> False" by code_simp
  then obtain r p where r: "resolve_principal toy_runtime (Some (''Bearer '' @ toy_token)) None jwt_settings
      (Fin 1000) = Inr r" and p: "rp_principal r = Some p"
    by (auto split: sum.splits)
  have "extract_bearer_token (''Bearer '' @ toy_token) = Inr toy_token" by code_simp
  then show ?thesis
    using jwt_principal_needs_signed_token [OF r _ p] r p by (auto simp: jwt_settings_def)
qed

lemma demo_principals_gated_witness:
  "\<exists>p. dget PRINCIPALS ''analyst-1'' = Some p \<and> allow_demo_principals demo_auth"
proof -
  have "resolve_principal demo_jwt None (Some ''analyst-1'') demo_auth (Fin 0) =
     Inr \<lparr>rp_principal = Some analyst, rp_auth_method = ''demo-header'', rp_issuer = Some ''local-demo'',
          rp_subject = Some ''analyst-1'', rp_failure_reason = None\<rparr>"
    by (simp add: resolve_principal_def demo_auth_def analyst_def PRINCIPALS_def)
  then show ?thesis
    using demo_principals_gated [of None demo_jwt "Some ''analyst-1''" demo_auth "Fin 0" _ analyst] by auto
qed

lemma accepted_token_window_witness:
  "validate_claims analyst_claims jwt_settings (Fin 1000) = Inr () \<and>
   (1000::rat) \<le> of_int (1300 + clock_skew_seconds jwt_settings)"
proof -
  have c: "claim analyst_claims ''exp'' = VNum (NInt 1300)" by code_simp
  have v: "validate_claims analyst_claims jwt_settings (Fin 1000) = Inr ()" by code_simp
  from accepted_token_window [OF c v] v show ?thesis by (simp add: jwt_settings_def)
qed

lemma nan_expiry_never_expires_witness:
  "validate_claims [(''exp'', VNum (NFlt NaN)), (''iss'', VStr ''idp''), (''aud'', VStr ''gateway'')]
     jwt_settings (Fin (10 ^ 12)) = Inr ()"
  by (rule nan_expiry_never_expires) code_simp+

section \<open>Backend and traces\<close>

lemma completion_url_normal_witness:
  "completion_url ''http://vllm:8000/v1/completions'' = Inr ''http://vllm:8000/v1/completions''"
proof -
  have "completion_url ''http://vllm:8000/v1/'' = Inr ''http://vllm:8000/v1/completions''" by code_simp
  from completion_url_normal [OF this] show ?thesis by simp
qed

lemma open_completion_response_safe_witness:
  "\<exists>response. fst (open_completion_response demo_stack live_env None (demo_completion True) (Some ''r-1'')) =
     Inr response \<and> hr_status response < 300"
proof -
  have "\<not> isl (fst (open_completion_response demo_stack live_env None (demo_completion True) (Some ''r-1'')))"
    by code_simp
  then obtain response where r:
    "fst (open_completion_response demo_stack live_env None (demo_completion True) (Some ''r-1'')) = Inr response"
    by (metis isl_def sum.exhaust)
  obtain a b c where o: "open_completion_response demo_stack live_env None (demo_completion True) (Some ''r-1'') =
    (a, b, c)" by (metis prod.collapse)
  from open_completion_response_safe [OF o] r o show ?thesis by auto
qed

lemma demo_stack_os_errors: "stack_raises_os_errors demo_stack"
  by (simp add: stack_raises_os_errors_def demo_stack_def)

lemma run_configured_inference_errors_witness:
  "\<exists>e. fst (run_configured_inference demo_stack live_env ''m'' ''hi'' (Fin 1) (Fin 2)) = Inl e \<and> is_adapter_error e"
proof -
  have "isl (fst (run_configured_inference demo_stack live_env ''m'' ''hi'' (Fin 1) (Fin 2)))" by code_simp
  then obtain e where e: "fst (run_configured_inference demo_stack live_env ''m'' ''hi'' (Fin 1) (Fin 2)) = Inl e"
    by (auto simp: isl_def)
  obtain r evs where r: "run_configured_inference demo_stack live_env ''m'' ''hi'' (Fin 1) (Fin 2) = (r, evs)"
    by fastforce
  from run_configured_inference_errors [OF demo_stack_os_errors r] e r show ?thesis by auto
qed

lemma trace_propagates_witness:
  "\<exists>t u. resolve_trace_context None (replicate 32 (CHR ''a'')) (replicate 16 (CHR ''b'')) = Inr t \<and>
     resolve_trace_context (Some (format_traceparent t)) (replicate 32 (CHR ''c'')) (replicate 16 (CHR ''d'')) = Inr u \<and>
     tr_trace_id u = replicate 32 (CHR ''a'')"
proof -
  define t where "t = \<lparr>tr_trace_id = replicate 32 (CHR ''a''), tr_span_id = replicate 16 (CHR ''b''),
    tr_parent_span_id = None, tr_sampled = False, tr_source = ''generated''\<rparr>"
  define u where "u = \<lparr>tr_trace_id = replicate 32 (CHR ''a''), tr_span_id = replicate 16 (CHR ''d''),
    tr_parent_span_id = Some (replicate 16 (CHR ''b'')), tr_sampled = False, tr_source = ''remote''\<rparr>"
  have t: "resolve_trace_context None (replicate 32 (CHR ''a'')) (replicate 16 (CHR ''b'')) = Inr t"
    unfolding t_def by code_simp
  have u: "resolve_trace_context (Some (format_traceparent t)) (replicate 32 (CHR ''c''))
      (replicate 16 (CHR ''d'')) = Inr u"
    unfolding t_def u_def by code_simp
  from trace_propagates [OF t u] t u show ?thesis by (auto simp: t_def)
qed

lemma resolve_trace_context_total_witness:
  "\<exists>t. resolve_trace_context (Some ''nonsense'') (replicate 32 (CHR ''a'')) (replicate 16 (CHR ''b'')) = Inr t \<and>
     tr_span_id t = replicate 16 (CHR ''b'')"
  by (rule resolve_trace_context_total) code_simp+

definition a_span :: span_args where
  "a_span = \<lparr>sa_model_id = ''m'', sa_outcome = ''allowed'', sa_auth_method = ''jwt'',
     sa_decision_reasons = [''secret''], sa_latency_ms = None, sa_started_at = 1, sa_ended_at = 2,
     sa_extra_attributes = [(''prompt'', VStr ''secret'')], sa_route = ''/v1/completions''\<rparr>"

definition a_trace :: request_trace where
  "a_trace = \<lparr>tr_trace_id = replicate 32 (CHR ''a''), tr_span_id = replicate 16 (CHR ''b''),
    tr_parent_span_id = None, tr_sampled = False, tr_source = ''generated''\<rparr>"

lemma span_record_reveals_witness:
  "build_span_record a_trace ''gateway'' (a_span\<lparr>sa_decision_reasons := [[]]\<rparr>) =
   build_span_record a_trace ''gateway'' a_span"
  using span_record_reveals [of a_trace "''gateway''" a_span] by (simp add: a_span_def)

definition tiny_json :: export_world where
  "tiny_json = demo_export\<lparr>ew_json_dumps := (\<lambda>v. if v = VDict (build_span_record a_trace ''gateway'' a_span)
     then ''{1}'' else ''{2}'')\<rparr>"

lemma span_file_roundtrip_witness:
  "load_jsonl_span_records
     (\<lambda>s. if s = ''{1}'' then Inr (VDict (build_span_record a_trace ''gateway'' a_span)) else Inl (ValueError s))
     (span_file tiny_json ''spans.jsonl'' ''gateway'' [(a_trace, a_span), (a_trace, a_span)]) =
   Inr [VDict (build_span_record a_trace ''gateway'' a_span), VDict (build_span_record a_trace ''gateway'' a_span)]"
proof -
  have strip: "py_strip ''{1}'' \<noteq> []" by code_simp
  show ?thesis
    by (rule trans [OF span_file_roundtrip])
      (simp_all add: tiny_json_def demo_export_def json_line_ok_def strip)
qed

definition two_records :: "(string, pyval) dict list" where
  "two_records = [build_span_record a_trace ''gateway'' a_span, build_span_record a_trace ''batch'' a_span]"

definition dumps_name :: "pyval \<Rightarrow> string" where
  "dumps_name v = (case v of VDict [(k, VDict [(k', VStr s)])] \<Rightarrow> s | VDict d \<Rightarrow> ''dict'' | _ \<Rightarrow> ''other'')"

lemma otlp_grouping_exact_witness:
  "\<exists>grouped. group_records (\<lambda>v. []) dumps_name [] two_records = Inr grouped \<and> distinct (dkeys grouped) \<and>
     set (dkeys grouped) = record_key dumps_name ` set two_records"
proof -
  have "case group_records (\<lambda>v. []) dumps_name [] two_records of Inr grouped \<Rightarrow> True | Inl e \<Rightarrow> False"
    by code_simp
  then obtain grouped where g: "group_records (\<lambda>v. []) dumps_name [] two_records = Inr grouped"
    by (auto split: sum.splits)
  from otlp_grouping_exact [OF g] g show ?thesis by blast
qed

definition two_exporters :: exporter where
  "two_exporters = CompositeTraceExporter [OtlpHttpTraceExporter ''http://collector'' ''gateway'' (Fin 1) None,
     JsonlTraceExporter ''spans.jsonl'' ''gateway'']"

lemma demo_export_os_errors: "post_raises_os_errors demo_export"
  by (simp add: post_raises_os_errors_def demo_export_def)

lemma trace_export_outcome_witness:
  "\<exists>x effects. write_span demo_export a_trace a_span two_exporters = (Inr (), x, effects) \<and>
     line_paths effects = [''spans.jsonl'']"
proof -
  obtain r x effects where w: "write_span demo_export a_trace a_span two_exporters = (r, x, effects)"
    by (metis prod.collapse)
  have leaves: "leaf_paths (leaves two_exporters) = [''spans.jsonl'']" by code_simp
  have "r = Inr ()"
  proof (cases r)
    case (Inl e)
    with trace_export_outcome [OF demo_export_os_errors w] show ?thesis by (auto simp: demo_export_def)
  qed simp
  with trace_export_outcome [OF demo_export_os_errors w] w leaves show ?thesis by simp
qed

section \<open>The handlers\<close>

lemma demo_gateway_simps [simp]:
  "gw_limiters (demo_gateway l) = l" "gw_store (demo_gateway l) = ()" "gw_audit (demo_gateway l) = []"
  "gw_backend_calls (demo_gateway l) = []"
  by (simp_all add: demo_gateway_def)

lemma demo_files [simp]: "audit_accepts demo_world" "export_accepts demo_world"
proof -
  show "audit_accepts demo_world" by (simp add: audit_accepts_def demo_world_def)
  have post: "post_raises_os_errors demo_export" by (rule demo_export_os_errors)
  have "fst (write_span demo_export t a x) = Inr ()" for t a x
    by (cases "fst (write_span demo_export t a x)")
      (use write_span_error(1) [OF post] in \<open>fastforce simp: demo_export_def\<close>, simp)
  then show "export_accepts demo_world" by (simp add: export_accepts_def demo_world_def)
qed

lemma demo_verdict:
  "fst (admission_verdict demo_world demo_readings ''benchmark-echo'' (iq_input demo_query)
     (iq_reason demo_query) None (Some ''analyst-1'') (demo_limiters, ())) = Inr Admitted"
  by code_simp

lemma demo_denied:
  "fst (admission_verdict demo_world demo_readings ''threat-triage'' (iq_input demo_query)
     (iq_reason demo_query) None (Some ''analyst-1'') (demo_limiters, ())) = Inr Denied"
  by code_simp

lemma demo_redis_down:
  "fst (admission_verdict demo_world demo_readings ''benchmark-echo'' (iq_input demo_query)
     (iq_reason demo_query) None (Some ''analyst-1'') (demo_redis_limiters, ())) =
   Inl (RedisError ''connection refused'')"
  by code_simp

lemma demo_trace: "resolve_trace_context None (rd_trace_id demo_readings) (rd_span_id demo_readings) = Inr a_trace"
  unfolding a_trace_def by code_simp

lemma demo_backend:
  "fst (run_configured_inference (w_http demo_world) (w_env demo_world) ''benchmark-echo'' (iq_input demo_query)
     (rd_backend_started demo_readings) (rd_backend_ended demo_readings)) =
   Inr (run_mock_inference demo_stack ''benchmark-echo'' (iq_input demo_query) (Fin 10) (Fin 11))"
  by code_simp

lemma demo_served:
  "\<exists>a g'. infer demo_world demo_readings ''benchmark-echo'' demo_query (Some ''analyst-1'') None None
     (demo_gateway demo_limiters) = (Inr a, g')"
  using infer_serves [OF demo_trace _ demo_backend, of None "Some ''analyst-1''" "demo_gateway demo_limiters"]
    demo_verdict by auto


lemma infer_refines_admission_witness:
  "\<exists>r g'. infer demo_world demo_readings ''threat-triage'' demo_query (Some ''analyst-1'') None None
     (demo_gateway demo_limiters) = (r, g') \<and> gw_backend_calls g' = []"
proof -
  obtain r g' where i: "infer demo_world demo_readings ''threat-triage'' demo_query (Some ''analyst-1'') None None
     (demo_gateway demo_limiters) = (r, g')" by fastforce
  from infer_refines_admission [OF i] i demo_denied show ?thesis by (auto simp: refines_verdict_def)
qed

lemma infer_serves_admitted_witness:
  "\<exists>a g'. infer demo_world demo_readings ''benchmark-echo'' demo_query (Some ''analyst-1'') None None
     (demo_gateway demo_limiters) = (Inr a, g') \<and> is_backend a = ''mock-gpu''"
  using infer_serves_admitted [of None demo_readings a_trace demo_world "''benchmark-echo''" demo_query None
      "Some ''analyst-1''" "demo_gateway demo_limiters", OF demo_trace _ demo_backend] demo_verdict
  by (auto simp: run_mock_inference_def)

lemma infer_reply_matches_audit_witness:
  "\<exists>a g' ev. infer demo_world demo_readings ''benchmark-echo'' demo_query (Some ''analyst-1'') None None
     (demo_gateway demo_limiters) = (Inr a, g') \<and>
     last (gw_audit g') = (rd_timestamp demo_readings, ev) \<and> reply_matches_event a ev"
proof -
  obtain a g' where i: "infer demo_world demo_readings ''benchmark-echo'' demo_query (Some ''analyst-1'') None None
     (demo_gateway demo_limiters) = (Inr a, g')" using demo_served by blast
  from infer_reply_matches_audit [OF i] i show ?thesis by blast
qed

lemma limiter_error_fails_closed_witness:
  "\<exists>e g'. infer demo_world demo_readings ''benchmark-echo'' demo_query (Some ''analyst-1'') None None
     (demo_gateway demo_redis_limiters) = (Inl (Crash e), g') \<and> gw_audit g' = []"
proof -
  obtain r g' where i: "infer demo_world demo_readings ''benchmark-echo'' demo_query (Some ''analyst-1'') None None
     (demo_gateway demo_redis_limiters) = (r, g')" by fastforce
  from limiter_error_fails_closed [OF i] demo_redis_down i show ?thesis by auto
qed



definition spent_tokens :: memory_limiter where
  "spent_tokens = \<lparr>window_seconds = 60,
     windows = [(''analyst-1'', ''benchmark-echo'') \<mapsto> \<lparr>started_at = Fin 90, window_count = 12000\<rparr>]\<rparr>"

lemma token_denial_spends_request_witness:
  "\<exists>rl tb. admission_verdict demo_world demo_readings ''benchmark-echo'' ''hello'' None None (Some ''analyst-1'')
       (MemoryLimiters (new_memory_limiter 60) spent_tokens, ()) = (Inr TokenLimited, MemoryLimiters rl tb, ()) \<and>
     memory_spent rl (Fin 100) (''analyst-1'', ''benchmark-echo'') =
       memory_spent (new_memory_limiter 60) (Fin 100) (''analyst-1'', ''benchmark-echo'') + 1"
proof -
  let ?v = "admission_verdict demo_world demo_readings ''benchmark-echo'' ''hello'' None None (Some ''analyst-1'')
       (MemoryLimiters (new_memory_limiter 60) spent_tokens, ())"
  have c: "case ?v of (Inr v, MemoryLimiters r t, s) \<Rightarrow> v = TokenLimited | _ \<Rightarrow> False" by code_simp
  obtain d l s where e: "?v = (d, l, s)" by (metis prod.collapse)
  from c obtain rl tb where v: "?v = (Inr TokenLimited, MemoryLimiters rl tb, ())"
    unfolding e by (cases d; cases l) auto
  have r: "resolve_principal (w_jwt demo_world) None (Some ''analyst-1'') (w_auth demo_world) (rd_auth_now demo_readings) =
     Inr \<lparr>rp_principal = Some analyst, rp_auth_method = ''demo-header'', rp_issuer = Some ''local-demo'',
          rp_subject = Some ''analyst-1'', rp_failure_reason = None\<rparr>"
    by (simp add: resolve_principal_def demo_world_def demo_auth_def analyst_def PRINCIPALS_def)
  have "memory_wf (new_memory_limiter 60)" "memory_wf spent_tokens" "policies_wf (w_policies demo_world)"
    by code_simp+
  moreover have "p_principal_id analyst = ''analyst-1''" by code_simp
  ultimately show ?thesis
    using token_denial_spends_request [OF v r] v by (simp add: demo_readings_def)
qed

lemma metrics_endpoint_guarded_witness:
  "status_of (fst (prometheus_metrics demo_world (Some ''Bearer wrong'') (demo_gateway demo_limiters))) = Some 401"
  using metrics_endpoint_guarded [of demo_world "Some ''Bearer wrong''" "demo_gateway demo_limiters",
      OF surjective_pairing]
  by (simp add: demo_world_def demo_env_def)

lemma list_models_authenticated_witness:
  "\<exists>r g'. list_models demo_world demo_readings None None (demo_gateway demo_limiters) = (r, g') \<and> isl r"
proof -
  obtain r g' where l: "list_models demo_world demo_readings None None (demo_gateway demo_limiters) = (r, g')"
    by fastforce
  have "anonymous_caller demo_world demo_readings None None" by code_simp
  with list_models_authenticated [OF l] l show ?thesis by (cases r) auto
qed

text \<open>A stream of two chunks, and its admission.\<close>

definition demo_admission :: completion_admission where
  "demo_admission = \<lparr>ca_resolved = \<lparr>rp_principal = Some analyst, rp_auth_method = ''demo-header'',
       rp_issuer = None, rp_subject = None, rp_failure_reason = None\<rparr>,
     ca_trace = a_trace, ca_model_id = ''benchmark-echo'', ca_reason = None,
     ca_decision_reasons = [''policy allowed request''], ca_tokens = 3, ca_budget_limit = 12000, ca_started_ns = 1,
     ca_started_perf = Fin 0, ca_request_limiter_ms = Fin 1, ca_token_limiter_ms = Fin 1\<rparr>"

definition demo_stream :: stream where
  "demo_stream = \<lparr>st_response = \<lparr>hr_status = 200, hr_headers = (\<lambda>n. None),
       hr_chunks = [''one'', ''two''], hr_failure = None\<rparr>,
     st_admission = demo_admission, st_pc = NotStarted\<rparr>"


lemma stream_abandoned_unrecorded_witness:
  "\<exists>st g. stream_close demo_world demo_readings (demo_stream, demo_gateway demo_limiters) =
     (st, demo_gateway demo_limiters) \<and> st_pc st = Abandoned"
  using stream_abandoned_unrecorded [of demo_stream demo_world demo_readings "demo_gateway demo_limiters"]
  by (auto simp: demo_stream_def)


lemma metric_series_bounded_witness:
  "metric_keys_ok demo_world (gw_metrics (snd (infer demo_world demo_readings ''no-such-model'' demo_query None None None
     (demo_gateway demo_limiters))))"
proof -
  have "metric_keys_ok demo_world (gw_metrics (demo_gateway demo_limiters))"
    by (simp add: metric_keys_ok_def demo_gateway_def new_gateway_metrics_def empty_histogram_def dkeys_def)
  from metric_series_bounded [OF this] show ?thesis by blast
qed

end
