(* ===== verification/Report.thy ===== *)
theory Report
  imports Metrics TraceExporter RedisLimit
begin

text \<open>
  What the report builders share: access to JSON-like dictionaries, release gates, and the
  contract between the gates of a report and its verdict. A value of the wrong shape is a
  \<open>TypeError\<close>, which stands for Python's \<^verbatim>\<open>TypeError\<close> and \<^verbatim>\<open>AttributeError\<close> alike.
\<close>

section \<open>Dictionaries as values\<close>

definition value_item :: "pyval \<Rightarrow> string \<Rightarrow> pyval result" where
  \<comment> \<open>\<^verbatim>\<open>v[key]\<close>\<close>
  "value_item v key =
     (case v of VDict d \<Rightarrow> dict_item d key | _ \<Rightarrow> Inl (TypeError ''not a dictionary''))"

definition value_get :: "pyval \<Rightarrow> string \<Rightarrow> pyval \<Rightarrow> pyval result" where
  \<comment> \<open>\<^verbatim>\<open>v.get(key, default)\<close>\<close>
  "value_get v key dflt =
     (case v of VDict d \<Rightarrow> Inr (dget_default d key dflt) | _ \<Rightarrow> Inl (TypeError ''not a dictionary''))"

definition value_list :: "pyval \<Rightarrow> pyval list result" where
  "value_list v = (case v of VList xs \<Rightarrow> Inr xs | _ \<Rightarrow> Inl (TypeError ''not a list''))"

definition value_num :: "pyval \<Rightarrow> pynum result" where
  \<comment> \<open>an operand of arithmetic: \<^verbatim>\<open>True\<close> is 1\<close>
  "value_num v =
     (case v of VNum n \<Rightarrow> Inr n | VBool b \<Rightarrow> Inr (NInt (if b then 1 else 0))
      | _ \<Rightarrow> Inl (TypeError ''unsupported operand''))"

fun value_iter :: "pyval \<Rightarrow> pyval list result" where
  \<comment> \<open>what a \<^verbatim>\<open>for\<close> loop over a value goes through\<close>
  "value_iter (VList xs) = Inr xs"
| "value_iter (VDict d) = Inr (map VStr (dkeys d))"
| "value_iter (VStr s) = Inr (map (\<lambda>c. VStr [c]) s)"
| "value_iter _ = Inl (TypeError ''object is not iterable'')"

fun all_result :: "('a \<Rightarrow> bool result) \<Rightarrow> 'a list \<Rightarrow> bool result" where
  \<comment> \<open>\<^verbatim>\<open>all(...)\<close>, which stops at the first false element\<close>
  "all_result f [] = Inr True"
| "all_result f (x # xs) = bind_result (f x) (\<lambda>b. if b then all_result f xs else Inr False)"

lemma map_result_each: "map_result f xs = Inr ys \<Longrightarrow> x \<in> set xs \<Longrightarrow> \<exists>y. f x = Inr y"
  by (induction xs arbitrary: ys) auto

lemma map_result_exists: "(\<And>x. x \<in> set xs \<Longrightarrow> \<exists>y. f x = Inr y) \<Longrightarrow> \<exists>ys. map_result f xs = Inr ys"
  by (induction xs) fastforce+

lemma value_item_dict [simp]: "value_item (VDict d) key = dict_item d key"
  by (simp add: value_item_def)

lemma value_get_dict [simp]: "value_get (VDict d) key dflt = Inr (dget_default d key dflt)"
  by (simp add: value_get_def)

lemma value_list_list [simp]: "value_list (VList xs) = Inr xs"
  by (simp add: value_list_def)

lemma value_num_num [simp]: "value_num (VNum n) = Inr n"
  by (simp add: value_num_def)

section \<open>Gates\<close>

definition status_text :: "bool \<Rightarrow> string" where
  "status_text ok = (if ok then ''pass'' else ''hold'')"

definition release_gate :: "string \<Rightarrow> string \<Rightarrow> (string, pyval) dict \<Rightarrow> pyval" where
  "release_gate name status details =
     VDict ([(''name'', VStr name), (''status'', VStr status)] @ details)"

definition gate_passes :: "pyval \<Rightarrow> bool" where
  \<comment> \<open>\<^verbatim>\<open>gate["status"] == "pass"\<close>\<close>
  "gate_passes g \<longleftrightarrow> value_item g ''status'' = Inr (VStr ''pass'')"

definition readiness :: "pyval list \<Rightarrow> string" where
  "readiness gates = status_text (list_all gate_passes gates)"

lemma status_text_pass [simp]: "status_text b = ''pass'' \<longleftrightarrow> b" "''pass'' = status_text b \<longleftrightarrow> b"
  by (auto simp: status_text_def)

lemma status_text_inject [simp]: "status_text a = status_text b \<longleftrightarrow> a = b"
  by (simp add: status_text_def)

lemma release_gate_inject [simp]:
  "release_gate n s d = release_gate n' s' d' \<longleftrightarrow> n = n' \<and> s = s' \<and> d = d'"
  by (simp add: release_gate_def)

lemma gate_passes_release_gate [simp]: "gate_passes (release_gate name status details) \<longleftrightarrow> status = ''pass''"
  by (simp add: gate_passes_def release_gate_def dict_item_def)

lemma readiness_pass [simp]: "readiness gates = ''pass'' \<longleftrightarrow> list_all gate_passes gates"
  by (simp add: readiness_def)

definition omitted_gate :: "string list \<Rightarrow> pyval" where
  \<comment> \<open>the gate every report ends with\<close>
  "omitted_gate categories =
     release_gate ''no_sensitive_data'' ''pass'' [(''omitted_categories'', VList (map VStr categories))]"

lemma gate_passes_omitted [simp]: "gate_passes (omitted_gate categories)"
  by (simp add: omitted_gate_def)

text \<open>
  The contract of a release report: its verdict and its recommendation are functions of
  its gates, the gates are listed in it, and they pass exactly when \<open>ready\<close> holds of what
  the report was built from.
\<close>

locale release_report =
  fixes build :: "'i \<Rightarrow> (string, pyval) dict result"
    and gates :: "'i \<Rightarrow> pyval list result"
    and ready :: "'i \<Rightarrow> bool"
    and go stop :: string
  assumes built: "build i = Inr r \<Longrightarrow> \<exists>gs. gates i = Inr gs \<and>
      dget r ''release_gates'' = Some (VList gs) \<and>
      dget r ''readiness_status'' = Some (VStr (readiness gs)) \<and>
      dget r ''rollout_recommendation'' = Some (VStr (if readiness gs = ''pass'' then go else stop))"
    and gates_ready: "gates i = Inr gs \<Longrightarrow> list_all gate_passes gs \<longleftrightarrow> ready i"
    and texts_differ: "go \<noteq> stop"
begin

lemma verdict: "build i = Inr r \<Longrightarrow> dget r ''readiness_status'' = Some (VStr (status_text (ready i)))"
  using built [of i r] gates_ready [of i] by (auto simp: readiness_def)

lemma ready_iff: "build i = Inr r \<Longrightarrow> dget r ''readiness_status'' = Some (VStr ''pass'') \<longleftrightarrow> ready i"
  using verdict [of i r] by auto

lemma recommendation_iff:
  "build i = Inr r \<Longrightarrow> dget r ''rollout_recommendation'' = Some (VStr go) \<longleftrightarrow> ready i"
  using built [of i r] gates_ready [of i] texts_differ by (auto split: if_splits)

lemma failed_gate_listed:
  assumes "build i = Inr r" and "\<not> ready i"
  shows "\<exists>gs g. dget r ''release_gates'' = Some (VList gs) \<and> g \<in> set gs \<and> \<not> gate_passes g"
  using built [OF assms(1)] gates_ready [of i] assms(2) by (auto simp: list_all_iff)

end

end
