(* ===== verification/CapacityPlan.thy ===== *)
theory CapacityPlan
  imports Report
begin

text \<open>
  \<^verbatim>\<open>gateway/capacity_plan.py\<close>: the load a measured profile leaves room for at a target GPU
  utilization, against the limits of the model's policy. Arithmetic is Python's, on ints and
  binary64 floats, with the exceptions it may raise.
\<close>

definition DEFAULT_TARGET_GPU_UTILIZATION :: pyfloat where
  "DEFAULT_TARGET_GPU_UTILIZATION = to_f64 (72 / 100)"

definition DEFAULT_SAFETY_MARGIN :: pyfloat where
  "DEFAULT_SAFETY_MARGIN = to_f64 (20 / 100)"

record capacity_profile =
  cp_model_id :: string
  cp_profile_name :: string
  cp_requests_per_second :: pynum
  cp_input_tokens_per_second :: pynum
  cp_decode_tokens_per_second :: pynum
  cp_p95_latency_ms :: pynum
  cp_gpu_utilization :: pynum
  cp_gpu_hourly_cost_usd :: pynum
  cp_accelerator_class :: string

definition check_positive :: "string \<Rightarrow> pynum \<Rightarrow> unit result" where
  "check_positive name v = check (\<not> num_le v (NInt 0)) (ValueError (name @ '' must be positive''))"

definition validate_profile :: "capacity_profile \<Rightarrow> unit result" where
  "validate_profile p =
     bind_result (check_positive ''measured_requests_per_second'' (cp_requests_per_second p)) (\<lambda>_.
     bind_result (check_positive ''measured_input_tokens_per_second'' (cp_input_tokens_per_second p)) (\<lambda>_.
     bind_result (check_positive ''measured_decode_tokens_per_second'' (cp_decode_tokens_per_second p)) (\<lambda>_.
     bind_result (check_positive ''observed_p95_latency_ms'' (cp_p95_latency_ms p)) (\<lambda>_.
     bind_result (check_positive ''gpu_hourly_cost_usd'' (cp_gpu_hourly_cost_usd p)) (\<lambda>_.
       check (num_lt (NInt 0) (cp_gpu_utilization p) \<and> num_le (cp_gpu_utilization p) (NInt 1))
         (ValueError ''observed_gpu_utilization must be in (0, 1]''))))))"

record capacity_assumption =
  as_target_gpu_utilization :: pynum
  as_safety_margin :: pynum

definition default_assumption :: capacity_assumption where
  "default_assumption =
     \<lparr>as_target_gpu_utilization = NFlt DEFAULT_TARGET_GPU_UTILIZATION,
      as_safety_margin = NFlt DEFAULT_SAFETY_MARGIN\<rparr>"

definition validate_assumption :: "capacity_assumption \<Rightarrow> unit result" where
  "validate_assumption a =
     bind_result (check (num_lt (NInt 0) (as_target_gpu_utilization a) \<and>
         num_le (as_target_gpu_utilization a) (NInt 1))
       (ValueError ''target_gpu_utilization must be in (0, 1]'')) (\<lambda>_.
       check (num_le (NInt 0) (as_safety_margin a) \<and> num_lt (as_safety_margin a) (NInt 1))
         (ValueError ''safety_margin must be in [0, 1)''))"

definition DEFAULT_CAPACITY_PROFILES :: "capacity_profile list" where
  "DEFAULT_CAPACITY_PROFILES =
     [\<lparr>cp_model_id = ''mission-summarizer'', cp_profile_name = ''synthetic-standard-summary'',
       cp_requests_per_second = NFlt (to_f64 (125 / 10)), cp_input_tokens_per_second = NInt 3300,
       cp_decode_tokens_per_second = NInt 820, cp_p95_latency_ms = NInt 410,
       cp_gpu_utilization = NFlt (to_f64 (68 / 100)), cp_gpu_hourly_cost_usd = NFlt (to_f64 (280 / 100)),
       cp_accelerator_class = ''synthetic-review-gpu''\<rparr>,
      \<lparr>cp_model_id = ''threat-triage'', cp_profile_name = ''synthetic-restricted-triage'',
       cp_requests_per_second = NFlt (to_f64 (94 / 10)), cp_input_tokens_per_second = NInt 2800,
       cp_decode_tokens_per_second = NInt 690, cp_p95_latency_ms = NInt 530,
       cp_gpu_utilization = NFlt (to_f64 (74 / 100)), cp_gpu_hourly_cost_usd = NFlt (to_f64 (280 / 100)),
       cp_accelerator_class = ''synthetic-review-gpu''\<rparr>,
      \<lparr>cp_model_id = ''benchmark-echo'', cp_profile_name = ''synthetic-health-check'',
       cp_requests_per_second = NFlt (to_f64 55), cp_input_tokens_per_second = NInt 9100,
       cp_decode_tokens_per_second = NInt 1300, cp_p95_latency_ms = NInt 95,
       cp_gpu_utilization = NFlt (to_f64 (36 / 100)), cp_gpu_hourly_cost_usd = NFlt (to_f64 (120 / 100)),
       cp_accelerator_class = ''synthetic-review-gpu''\<rparr>]"

definition cost_per_units :: "pynum \<Rightarrow> pynum \<Rightarrow> int \<Rightarrow> pynum result" where
  "cost_per_units hourly_cost units_per_second unit_count =
     bind_result (check_positive ''hourly_cost'' hourly_cost) (\<lambda>_.
     bind_result (check_positive ''units_per_second'' units_per_second) (\<lambda>_.
     bind_result (num_mul units_per_second (NInt 3600)) (\<lambda>units_per_hour.
     bind_result (num_div hourly_cost units_per_hour) (\<lambda>unit_cost.
       num_mul unit_cost (NInt unit_count)))))"

text \<open>\<^verbatim>\<open>utilization_scale * (1 - safety_margin)\<close>\<close>

definition usable_scale :: "capacity_profile \<Rightarrow> capacity_assumption \<Rightarrow> pynum result" where
  "usable_scale p a =
     bind_result (num_div (as_target_gpu_utilization a) (cp_gpu_utilization p)) (\<lambda>utilization_scale.
     bind_result (num_sub (NInt 1) (as_safety_margin a)) (\<lambda>headroom.
       num_mul utilization_scale headroom))"

definition capacity_status :: "pynum \<Rightarrow> pynum \<Rightarrow> string" where
  "capacity_status request_utilization input_token_utilization =
     (if num_le (num_max request_utilization input_token_utilization) (NInt 1)
      then ''within_synthetic_capacity'' else ''exceeds_synthetic_capacity'')"

definition estimate_profile_capacity ::
  "capacity_profile \<Rightarrow> model_policy \<Rightarrow> capacity_assumption \<Rightarrow> (string, pyval) dict result" where
  "estimate_profile_capacity p policy a =
     bind_result (validate_profile p) (\<lambda>_.
     bind_result (validate_assumption a) (\<lambda>_.
     bind_result (usable_scale p a) (\<lambda>scale.
     bind_result (num_mul (cp_requests_per_second p) scale) (\<lambda>requests_per_second.
     bind_result (num_mul (cp_input_tokens_per_second p) scale) (\<lambda>input_tokens_per_second.
     bind_result (num_mul (cp_decode_tokens_per_second p) scale) (\<lambda>decode_tokens_per_second.
     bind_result (num_mul requests_per_second (NInt 60)) (\<lambda>requests_per_min.
     bind_result (num_mul input_tokens_per_second (NInt 60)) (\<lambda>input_tokens_per_min.
     bind_result (num_mul decode_tokens_per_second (NInt 60)) (\<lambda>decode_tokens_per_min.
     bind_result (num_div (NInt (requests_per_minute policy)) requests_per_min) (\<lambda>request_utilization.
     bind_result (num_div (NInt (input_tokens_per_minute policy)) input_tokens_per_min)
       (\<lambda>input_token_utilization.
     bind_result (cost_per_units (cp_gpu_hourly_cost_usd p) requests_per_second 1000) (\<lambda>request_cost.
     bind_result (cost_per_units (cp_gpu_hourly_cost_usd p) input_tokens_per_second 1000000)
       (\<lambda>input_token_cost.
       Inr [(''model_id'', VStr (cp_model_id p)),
            (''profile_name'', VStr (cp_profile_name p)),
            (''accelerator_class'', VStr (cp_accelerator_class p)),
            (''observed_p95_latency_ms'', VNum (num_round 3 (cp_p95_latency_ms p))),
            (''observed_gpu_utilization'', VNum (num_round 6 (cp_gpu_utilization p))),
            (''modeled_requests_per_minute'', VNum (num_round 3 requests_per_min)),
            (''modeled_input_tokens_per_minute'', VNum (num_round 3 input_tokens_per_min)),
            (''modeled_decode_tokens_per_minute'', VNum (num_round 3 decode_tokens_per_min)),
            (''policy_requests_per_minute'', VInt (requests_per_minute policy)),
            (''policy_input_tokens_per_minute'', VInt (input_tokens_per_minute policy)),
            (''policy_request_utilization'', VNum (num_round 6 request_utilization)),
            (''policy_input_token_utilization'', VNum (num_round 6 input_token_utilization)),
            (''cost_per_1000_requests_usd'', VNum (num_round 6 request_cost)),
            (''cost_per_1m_input_tokens_usd'', VNum (num_round 6 input_token_cost)),
            (''status'', VStr (capacity_status request_utilization input_token_utilization))])))))))))))))"

definition policy_item :: "(string, model_policy) dict \<Rightarrow> string \<Rightarrow> model_policy result" where
  \<comment> \<open>\<^verbatim>\<open>policies[profile.model_id]\<close>\<close>
  "policy_item policies model_id =
     (case dget policies model_id of None \<Rightarrow> Inl (KeyError model_id) | Some m \<Rightarrow> Inr m)"

definition build_capacity_report ::
  "capacity_profile list \<Rightarrow> (string, model_policy) dict \<Rightarrow> capacity_assumption \<Rightarrow>
   (string, pyval) dict result" where
  "build_capacity_report profiles policies a =
     bind_result (validate_assumption a) (\<lambda>_.
     bind_result (map_result (\<lambda>p. bind_result (policy_item policies (cp_model_id p)) (\<lambda>m.
         bind_result (estimate_profile_capacity p m a) (\<lambda>e. Inr (VDict e)))) profiles) (\<lambda>estimates.
       Inr [(''schema_version'', VInt 1),
            (''data_scope'', VStr (''synthetic aggregate benchmark profile; excludes request bodies, '' @
               ''decoded text, identities, secrets, and production logs'')),
            (''assumptions'', VDict
              [(''target_gpu_utilization'', VNum (as_target_gpu_utilization a)),
               (''safety_margin'', VNum (as_safety_margin a)),
               (''cost_basis'', VStr ''single synthetic accelerator-hour'')]),
            (''models'', VList estimates)]))"

section \<open>What a status says\<close>

text \<open>
  The ratio of a policy limit per minute to the rate a profile leaves room for, as the
  estimate computes it for requests and for input tokens.
\<close>

definition policy_ratio :: "capacity_profile \<Rightarrow> capacity_assumption \<Rightarrow> pynum \<Rightarrow> int \<Rightarrow> pynum result" where
  "policy_ratio p a rate limit =
     bind_result (usable_scale p a) (\<lambda>scale.
     bind_result (num_mul rate scale) (\<lambda>per_second.
     bind_result (num_mul per_second (NInt 60)) (\<lambda>per_min. num_div (NInt limit) per_min)))"

definition num_nan :: "pynum \<Rightarrow> bool" where
  "num_nan x \<longleftrightarrow> num_val x = NaN"

lemma num_max_le:
  "num_le (num_max q t) (NInt 1) \<longleftrightarrow> num_le q (NInt 1) \<and> (num_le t (NInt 1) \<or> num_nan t)"
proof -
  have "fle (if flt a b then b else a) (Fin 1) \<longleftrightarrow> fle a (Fin 1) \<and> (fle b (Fin 1) \<or> b = NaN)" for a b
    by (cases a; cases b) auto
  from this [of "num_val q" "num_val t"] show ?thesis
    by (auto simp: num_max_def num_le_def num_lt_def num_nan_def)
qed

lemma capacity_within_cases:
  assumes "estimate_profile_capacity p policy a = Inr est"
  shows "\<exists>q t. policy_ratio p a (cp_requests_per_second p) (requests_per_minute policy) = Inr q \<and>
    policy_ratio p a (cp_input_tokens_per_second p) (input_tokens_per_minute policy) = Inr t \<and>
    dget est ''policy_request_utilization'' = Some (VNum (num_round 6 q)) \<and>
    dget est ''policy_input_token_utilization'' = Some (VNum (num_round 6 t)) \<and>
    (dget est ''status'' = Some (VStr ''within_synthetic_capacity'') \<longleftrightarrow>
       num_le q (NInt 1) \<and> (num_le t (NInt 1) \<or> num_nan t))"
  using assms
  by (auto simp: estimate_profile_capacity_def bind_result_eq_Inr policy_ratio_def capacity_status_def num_max_le)

theorem capacity_within_iff:
  assumes "estimate_profile_capacity p policy a = Inr est"
  shows "\<exists>q t. policy_ratio p a (cp_requests_per_second p) (requests_per_minute policy) = Inr q \<and>
    policy_ratio p a (cp_input_tokens_per_second p) (input_tokens_per_minute policy) = Inr t \<and>
    dget est ''policy_request_utilization'' = Some (VNum (num_round 6 q)) \<and>
    dget est ''policy_input_token_utilization'' = Some (VNum (num_round 6 t)) \<and>
    (dget est ''status'' = Some (VStr ''within_synthetic_capacity'') \<longleftrightarrow>
       num_le q (NInt 1) \<and> (num_le t (NInt 1) \<or> num_nan t))"
  using assms by (rule capacity_within_cases)

text \<open>A limit that the modeled rate covers has a ratio of at most one, rounding included.\<close>

lemma covered_limit_ratio:
  assumes "0 \<le> l" and "l \<le> 2 ^ 53" and "0 < r" and "of_int l \<le> r"
  shows "\<exists>q. num_div (NInt l) (NFlt (Fin r)) = Inr q \<and> num_le q (NInt 1)"
proof -
  have "int_to_float l = Inr (Fin (of_int l))" using assms(1,2) by (intro int_to_float_small) simp
  moreover have "fle (to_f64 (of_int l / r)) (to_f64 1)" using assms by (intro to_f64_mono) simp
  moreover have "to_f64 1 = Fin 1" using to_f64_of_int [of 1] by simp
  ultimately show ?thesis using assms(3) by (simp add: float_op_def num_le_def)
qed

text \<open>An input rate that is not a number passes the validation, and no token limit exceeds it.\<close>

lemma nan_rate_validates:
  assumes "validate_profile p = Inr ()"
  shows "validate_profile (p\<lparr>cp_input_tokens_per_second := NFlt NaN\<rparr>) = Inr ()"
  using assms by (simp add: validate_profile_def check_positive_def bind_result_eq_Inr num_le_def)

end
