(* ===== verification/Percentile.thy ===== *)
theory Percentile
  imports Report
begin

text \<open>
  The percentile of \<^verbatim>\<open>gateway/workload_replay.py\<close>: its rank is computed in binary64 and
  rounded up. For the percentiles the reports ask for it is the nearest rank. Samples are
  latencies, and the statements on their order exclude NaN, which Python does not order.
\<close>

section \<open>The percentile\<close>

text \<open>\<^verbatim>\<open>math.ceil((percentile_value / 100) * n) - 1\<close>: the product is a float.\<close>

definition percentile_index :: "int \<Rightarrow> nat \<Rightarrow> int result" where
  "percentile_index p n =
     bind_result (num_div (NInt p) (NInt 100)) (\<lambda>fraction.
     bind_result (num_mul fraction (NInt (int n))) (\<lambda>rank.
       (case num_val rank of
          Fin r \<Rightarrow> Inr (\<lceil>r\<rceil> - 1)
        | NaN \<Rightarrow> Inl (ValueError ''cannot convert float NaN to integer'')
        | _ \<Rightarrow> Inl (OverflowError ''cannot convert float infinity to integer''))))"

definition percentile :: "pyfloat list \<Rightarrow> int \<Rightarrow> pyfloat option result" where
  "percentile samples p =
     (if samples = [] then Inr None
      else if \<not> (0 < p \<and> p \<le> 100) then Inl (ValueError ''percentile_value must be in (0, 100]'')
      else
        let sorted_samples = sort samples in
        bind_result (percentile_index p (length samples)) (\<lambda>index.
          if nat (max 0 index) < length sorted_samples
          then Inr (Some (fround 3 (sorted_samples ! nat (max 0 index))))
          else Inl (IndexError ''list index out of range'')))"

section \<open>The percentile is the nearest rank\<close>

text \<open>
  The rank is a float product rounded up: rounding cannot carry it past an integer, since
  for the two percentiles in use it stays \<open>1 / 32\<close> above the integer below.
\<close>

lemma round64_thirty_seconds:
  assumes "\<bar>m\<bar> \<le> 2 ^ 46"
  shows "round64 (of_int m / 32) = of_int m / 32"
proof (cases "m = 0")
  case False
  have "(of_int \<bar>m\<bar> :: rat) \<le> of_int (2 ^ 46)" using assms by (simp only: of_int_le_iff)
  then have "exponent (of_int m / 32) \<le> 41"
    using False by (intro exponent_le) (simp_all add: pow2_def)
  then have "quantum (of_int m / 32) \<le> - 5" by (simp add: quantum_def)
  then show ?thesis by (intro round64_exact [of _ m "- 5"]) (simp_all add: pow2_def)
qed simp

lemma ceiling_round64:
  assumes "of_int c - 31 / 32 \<le> x" and "x \<le> of_int c" and "\<bar>c\<bar> \<le> 2 ^ 40"
  shows "\<lceil>round64 x\<rceil> = c"
proof -
  have "round64 (of_int (32 * c - 31) / 32) \<le> round64 x"
    using assms(1) by (intro round64_mono) (simp add: field_simps)
  moreover have "round64 (of_int (32 * c - 31) / 32) = of_int (32 * c - 31) / 32"
    using assms(3) by (intro round64_thirty_seconds) (simp add: abs_le_iff)
  moreover have "round64 x \<le> of_int c"
    using round64_mono [OF assms(2)] round64_of_int [of c] assms(3) by simp
  ultimately show ?thesis by (intro ceiling_unique) (simp_all add: field_simps)
qed

lemma to_f64_finite:
  assumes "\<bar>x\<bar> \<le> 2 ^ 53"
  shows "to_f64 x = Fin (round64 x)"
proof -
  have "to_f64 (of_int (2 ^ 53)) = Fin (of_int (2 ^ 53))" by (rule to_f64_of_int) simp
  moreover have "to_f64 (of_int (- (2 ^ 53))) = Fin (of_int (- (2 ^ 53)))" by (rule to_f64_of_int) simp
  ultimately have "fle (to_f64 x) (Fin (of_int (2 ^ 53)))" "fle (Fin (of_int (- (2 ^ 53)))) (to_f64 x)"
    using to_f64_mono [of x "of_int (2 ^ 53)"] to_f64_mono [of "of_int (- (2 ^ 53))" x] assms
    by (simp_all add: abs_le_iff)
  then show ?thesis by (auto simp: to_f64_def Let_def split: if_splits)
qed

lemma exponent_unique:
  assumes "pow2 e \<le> \<bar>x\<bar>" and "\<bar>x\<bar> < pow2 (e + 1)"
  shows "exponent x = e"
proof -
  have "x \<noteq> 0" using assms(1) pow2_pos [of e] by (simp add: less_le_not_le flip: abs_le_zero_iff)
  then have "exponent x \<le> e" using assms(2) by (rule exponent_le)
  moreover have "\<not> exponent x + 1 \<le> e"
    using pow2_mono [of "exponent x + 1" e] exponent_bounds(2) [OF \<open>x \<noteq> 0\<close>] assms(1) by linarith
  ultimately show ?thesis by simp
qed

lemma percentile_fractions:
  "round64 (1 / 2) = 1 / 2" "round64 (19 / 20) = 4278419646001971 / 4503599627370496"
proof -
  show "round64 (1 / 2) = 1 / 2" using round64_thirty_seconds [of 16] by simp
  have "\<lfloor>42784196460019712 / 5 :: rat\<rfloor> = 8556839292003942" by linarith
  moreover have "exponent (19 / 20) = - 1" by (rule exponent_unique) (simp_all add: pow2_def)
  ultimately show "round64 (19 / 20) = 4278419646001971 / 4503599627370496"
    by (simp add: round64_def quantum_def pow2_def round_half_even_def Let_def)
qed

lemma rank_gap:
  fixes c n :: int
  assumes "p = 50 \<or> p = 95" and "100 * c \<le> p * n + 99"
  shows "100 * (c - 1) + 5 \<le> p * n"
proof -
  have "100 * (c - 1) + 5 \<le> 50 * n" if "100 * c \<le> 50 * n + 99"
  proof -
    have "2 * c \<le> n + 1" using that by linarith
    then show ?thesis by simp
  qed
  moreover have "100 * (c - 1) + 5 \<le> 95 * n" if "100 * c \<le> 95 * n + 99"
  proof -
    have "20 * c \<le> 19 * n + 19" using that by linarith
    then show ?thesis by simp
  qed
  ultimately show ?thesis using assms by blast
qed

lemma percentile_index_exact:
  assumes p: "p = 50 \<or> p = 95" and n: "0 < n" "int n \<le> 2 ^ 40"
  shows "percentile_index p n = Inr ((p * int n + 99) div 100 - 1)"
proof -
  let ?f = "round64 (of_int p / of_int 100)" and ?c = "(p * int n + 99) div 100"
  have bound: "of_int (int n) \<le> (2 ^ 40 :: rat)" using n(2) by (metis of_int_le_iff of_int_numeral of_int_power)
  have f: "0 \<le> ?f" "?f \<le> of_int p / 100" "of_int p / 100 - 1 / 2 ^ 53 \<le> ?f"
    using p by (auto simp: percentile_fractions)
  have q: "100 * ?c \<le> p * int n + 99" "p * int n \<le> 100 * ?c" using p by auto
  have "100 * (?c - 1) + 5 \<le> p * int n" using p q(1) by (rule rank_gap)
  then have "rat_of_int (100 * (?c - 1) + 5) \<le> of_int (p * int n)" by (simp only: of_int_le_iff)
  then have low: "of_int ?c - 1 + 1 / 20 \<le> of_int p / 100 * (of_int (int n) :: rat)" by simp
  have up: "of_int p / 100 * (of_int (int n) :: rat) \<le> of_int ?c"
  proof -
    have "rat_of_int (p * int n) \<le> of_int (100 * ?c)" using q(2) by (simp only: of_int_le_iff)
    then show ?thesis by simp
  qed
  have x1: "?f * of_int (int n) \<le> of_int ?c"
    using mult_right_mono [OF f(2), of "of_int (int n)"] up by simp
  have "(of_int p / 100 - 1 / 2 ^ 53) * of_int (int n) \<le> ?f * of_int (int n)"
    by (intro mult_right_mono f(3)) simp
  moreover have "of_int (int n) / 2 ^ 53 \<le> (1 / 2 ^ 13 :: rat)" using bound by simp
  ultimately have x2: "of_int ?c - 31 / 32 \<le> ?f * of_int (int n)" using low by (simp add: algebra_simps)
  have c: "0 \<le> ?c" "?c \<le> 2 ^ 40" using p n by auto
  have "\<bar>?f * of_int (int n)\<bar> \<le> 2 ^ 53"
  proof -
    have "rat_of_int ?c \<le> of_int (2 ^ 40)" using c by (simp only: of_int_le_iff)
    then show ?thesis using f(1) x1 by simp
  qed
  then have m: "to_f64 (?f * of_int (int n)) = Fin (round64 (?f * of_int (int n)))" by (rule to_f64_finite)
  have d: "num_div (NInt p) (NInt 100) = Inr (NFlt (Fin ?f))"
    using to_f64_finite [of "of_int p / of_int 100"] p by auto
  have "int_to_float (int n) = Inr (Fin (of_int (int n)))"
    using n by (intro int_to_float_small) simp
  then show ?thesis
    using d m ceiling_round64 [OF x2 x1] c by (simp add: percentile_index_def float_op_def)
qed


text \<open>Order statistics: how many elements are below an element of a sorted list.\<close>

lemma sorted_nth_rank:
  fixes xs :: "'a::linorder list"
  assumes "sorted xs" and "k < length xs"
  shows "k + 1 \<le> length (filter (\<lambda>y. y \<le> xs ! k) xs)" "length (filter (\<lambda>y. y < xs ! k) xs) \<le> k"
proof -
  have "{..k} \<subseteq> {i. i < length xs \<and> xs ! i \<le> xs ! k}" using assms by (auto intro: sorted_nth_mono)
  then have "card {..k} \<le> card {i. i < length xs \<and> xs ! i \<le> xs ! k}" by (rule card_mono [rotated]) simp
  then show "k + 1 \<le> length (filter (\<lambda>y. y \<le> xs ! k) xs)" by (simp add: length_filter_conv_card)
  have "{i. i < length xs \<and> xs ! i < xs ! k} \<subseteq> {..<k}"
    using assms by (auto simp: not_less [symmetric]) (metis not_less sorted_nth_mono)
  then have "card {i. i < length xs \<and> xs ! i < xs ! k} \<le> card {..<k}" by (rule card_mono [rotated]) simp
  then show "length (filter (\<lambda>y. y < xs ! k) xs) \<le> k" by (simp add: length_filter_conv_card)
qed

lemma sort_eq_Nil_iff [simp]: "sort xs = [] \<longleftrightarrow> xs = []"
  by (metis length_0_conv length_sort)

lemma length_filter_sort: "length (filter P (sort xs)) = length (filter P xs)"
  by (simp add: filter_sort)

lemma rank_bounds:
  assumes "p = 50 \<or> p = 95" and "0 < n"
  shows "1 \<le> (p * int n + 99) div 100" "(p * int n + 99) div 100 \<le> int n"
    "p * int n \<le> 100 * ((p * int n + 99) div 100)" "100 * ((p * int n + 99) div 100 - 1) < p * int n"
proof -
  have 1: "1 \<le> int n" using assms(2) by linarith
  then have "int n \<le> p * int n" "p * int n \<le> 95 * int n" using assms(1) by auto
  with 1 show "1 \<le> (p * int n + 99) div 100" "(p * int n + 99) div 100 \<le> int n" by linarith+
  have "p * int n + 99 = 100 * ((p * int n + 99) div 100) + (p * int n + 99) mod 100" by simp
  moreover have "0 \<le> (p * int n + 99) mod 100" "(p * int n + 99) mod 100 < 100" by simp_all
  ultimately show "p * int n \<le> 100 * ((p * int n + 99) div 100)"
    "100 * ((p * int n + 99) div 100 - 1) < p * int n" by (simp_all only: right_diff_distrib)
qed

lemma percentile_rank:
  assumes "p = 50 \<or> p = 95" and "samples \<noteq> []" and "NaN \<notin> set samples"
    and "int (length samples) \<le> 2 ^ 40"
  shows "\<exists>x \<in> set samples. percentile samples p = Inr (Some (fround 3 x)) \<and>
    p * int (length samples) \<le> 100 * int (length (filter (\<lambda>y. fle y x) samples)) \<and>
    100 * int (length (filter (\<lambda>y. flt y x) samples)) < p * int (length samples)"
proof -
  let ?n = "length samples" and ?s = "sort samples"
  let ?c = "(p * int ?n + 99) div 100"
  define k where "k = nat (?c - 1)"
  have n: "0 < ?n" using assms(2) by simp
  then have c: "1 \<le> ?c" "?c \<le> int ?n" "p * int ?n \<le> 100 * ?c" "100 * (?c - 1) < p * int ?n"
    using rank_bounds [OF assms(1) n] by simp_all
  then have k: "int k = ?c - 1" "k < ?n" by (simp_all add: k_def)
  let ?x = "?s ! k"
  have x: "?x \<in> set samples" using k(2) nth_mem [of k ?s] by simp
  have idx: "percentile samples p = Inr (Some (fround 3 ?x))"
    using percentile_index_exact [OF assms(1) n assms(4)] assms(1,2) c(1) k
    by (auto simp: percentile_def Let_def k_def)
  have nan: "y \<noteq> NaN" if "y \<in> set samples" for y using that assms(3) by auto
  have le: "filter (\<lambda>y. fle y ?x) samples = filter (\<lambda>y. y \<le> ?x) samples"
    using nan x by (intro filter_cong) (auto simp: pyfloat_le_fle)
  have lt: "filter (\<lambda>y. flt y ?x) samples = filter (\<lambda>y. y < ?x) samples"
    using nan x by (intro filter_cong) (auto simp: pyfloat_less_flt)
  have "k + 1 \<le> length (filter (\<lambda>y. fle y ?x) samples)" "length (filter (\<lambda>y. flt y ?x) samples) \<le> k"
    using sorted_nth_rank [of ?s k] k(2) by (simp_all add: le lt length_filter_sort)
  with c k(1) have "p * int ?n \<le> 100 * int (length (filter (\<lambda>y. fle y ?x) samples))"
    "100 * int (length (filter (\<lambda>y. flt y ?x) samples)) < p * int ?n" by linarith+
  with x idx show ?thesis by blast
qed

lemma percentile_total:
  assumes "p = 50 \<or> p = 95" and "int (length samples) \<le> 2 ^ 40"
  shows "\<exists>r. percentile samples p = Inr r \<and> (r = None \<longleftrightarrow> samples = [])"
proof (cases "samples = []")
  case False
  then have n: "0 < length samples" by simp
  then have "(p * int (length samples) + 99) div 100 \<le> int (length samples)"
    using rank_bounds(2) [OF assms(1)] by simp
  then show ?thesis
    using percentile_index_exact [OF assms(1) n assms(2)] False assms(1) n
    by (auto simp: percentile_def Let_def nat_less_iff)
qed (simp add: percentile_def)

text \<open>
  C33: The 50th and 95th percentiles of the reports are nearest ranks, in spite of the float
  product: an element of the samples, rounded, that at least p percent of the samples do not
  exceed while fewer than p percent lie below it.
\<close>

theorem percentile_nearest_rank:
  assumes "p = 50 \<or> p = 95" and "samples \<noteq> []" and "NaN \<notin> set samples"
    and "int (length samples) \<le> 2 ^ 40"
  shows "\<exists>x \<in> set samples. percentile samples p = Inr (Some (fround 3 x)) \<and>
    p * int (length samples) \<le> 100 * int (length (filter (\<lambda>y. fle y x) samples)) \<and>
    100 * int (length (filter (\<lambda>y. flt y x) samples)) < p * int (length samples)"
  using assms by (rule percentile_rank)

end
