(* ===== verification/WorkloadReplay.thy ===== *)
theory WorkloadReplay
  imports Percentile Policy
begin

text \<open>
  \<^verbatim>\<open>gateway/workload_replay.py\<close>: a list of synthetic requests run through the policy and
  fresh in-memory limiters, and the report with its gates. \<open>clock n\<close> holds what the request
  limiter and the token limiter read from \<^verbatim>\<open>time.time()\<close> at the n-th request.
\<close>

section \<open>Requests and thresholds\<close>

definition REQUIRED_OUTCOMES :: "string list" where
  "REQUIRED_OUTCOMES = [''allowed'', ''policy_denied'', ''rate_limited'', ''token_budget_limited'']"

record replay_request =
  rr_principal_id :: string
  rr_model_id :: string
  rr_characters :: int
  rr_reason_present :: bool

definition replay_tokens :: "replay_request \<Rightarrow> int" where
  "replay_tokens q = estimate_input_tokens (replicate (nat (rr_characters q)) (CHR ''x''))"

record replay_thresholds =
  rt_max_allowed_p95_latency_ms :: pyfloat
  rt_required_outcomes :: "string list"

definition default_replay_thresholds :: replay_thresholds where
  "default_replay_thresholds =
     \<lparr>rt_max_allowed_p95_latency_ms = Fin 120, rt_required_outcomes = REQUIRED_OUTCOMES\<rparr>"

definition validate_replay_thresholds :: "replay_thresholds \<Rightarrow> unit result" where
  "validate_replay_thresholds th =
     bind_result (check (\<not> fle (rt_max_allowed_p95_latency_ms th) (Fin 0))
       (ValueError ''max_allowed_p95_latency_ms must be positive'')) (\<lambda>_.
       check (rt_required_outcomes th \<noteq> []) (ValueError ''required_outcomes must not be empty''))"

definition a_request :: "string \<Rightarrow> string \<Rightarrow> int \<Rightarrow> bool \<Rightarrow> replay_request" where
  "a_request principal_id model_id characters reason_present =
     \<lparr>rr_principal_id = principal_id, rr_model_id = model_id, rr_characters = characters,
      rr_reason_present = reason_present\<rparr>"

definition DEFAULT_REPLAY_REQUESTS :: "replay_request list" where
  "DEFAULT_REPLAY_REQUESTS =
     [a_request ''analyst-1'' ''mission-summarizer'' 72 True,
      a_request ''security-1'' ''threat-triage'' 72 True,
      a_request ''analyst-1'' ''benchmark-echo'' 32 False,
      a_request ''analyst-1'' ''threat-triage'' 64 True,
      a_request ''admin-1'' ''mission-summarizer'' 64 False,
      a_request ''unknown-reviewer'' ''benchmark-echo'' 32 False] @
     replicate 9 (a_request ''admin-1'' ''mission-summarizer'' 4000 True) @
     replicate 21 (a_request ''admin-1'' ''threat-triage'' 16 True)"

section \<open>Latencies\<close>

definition base_latency_ms :: "string \<Rightarrow> pyfloat" where
  "base_latency_ms model_id =
     (if model_id = ''benchmark-echo'' then Fin 18
      else if model_id = ''mission-summarizer'' then Fin 42
      else if model_id = ''threat-triage'' then Fin 55 else Fin 50)"

definition estimate_latency_ms :: "string \<Rightarrow> int \<Rightarrow> int \<Rightarrow> pyfloat result" where
  "estimate_latency_ms model_id token_cost sequence =
     bind_result (int_to_float token_cost) (\<lambda>cost.
     let scaled = fmul cost (to_f64 (18 / 1000));
         token_component = (if flt (Fin 34) scaled then Fin 34 else scaled);
         sequence_jitter = fmul (Fin (of_int (sequence mod 5))) (to_f64 (7 / 10))
     in Inr (fround 3 (fadd (fadd (base_latency_ms model_id) token_component) sequence_jitter)))"

definition latency_summary :: "pyfloat list \<Rightarrow> pyval result" where
  "latency_summary samples =
     bind_result (percentile samples 50) (\<lambda>p50.
     bind_result (percentile samples 95) (\<lambda>p95.
       Inr (VDict [(''count'', VInt (int (length samples))), (''p50'', opt_float p50), (''p95'', opt_float p95),
         (''max'', if samples = [] then VNone else VFloat (fround 3 (foldl max (hd samples) (tl samples))))])))"

section \<open>Running the requests\<close>

record replay_state =
  rs_requests :: memory_limiter
  rs_tokens :: memory_limiter
  rs_outcomes :: "string counter_dict"
  rs_model_outcomes :: "(string, string counter_dict) dict"
  rs_model_tokens :: "string counter_dict"
  rs_model_latency :: "(string, pyfloat list) dict"
  rs_latencies :: "pyfloat list"

definition new_replay :: replay_state where
  "new_replay = \<lparr>rs_requests = new_memory_limiter 60, rs_tokens = new_memory_limiter 60, rs_outcomes = [],
     rs_model_outcomes = [], rs_model_tokens = [], rs_model_latency = [], rs_latencies = []\<rparr>"

text \<open>The branch a request takes, with the limiters it has spent from.\<close>

definition replay_outcome ::
  "(string, model_policy) dict \<Rightarrow> pyfloat \<times> pyfloat \<Rightarrow> replay_request \<Rightarrow> memory_limiter \<Rightarrow> memory_limiter \<Rightarrow>
   (string \<times> memory_limiter \<times> memory_limiter) result" where
  "replay_outcome policies now q rl tk =
     (let policy = dget policies (rr_model_id q);
          principal = dget PRINCIPALS (rr_principal_id q);
          reason = (if rr_reason_present q then Some ''synthetic workload-readiness replay'' else None)
      in if \<not> pd_allowed (evaluate_policy principal policy reason) then Inr (''policy_denied'', rl, tk)
         else case (principal, policy) of
           (Some p, Some m) \<Rightarrow>
             (let (request_allowed, rl') = rate_limiter_allow rl (fst now) (p_principal_id p) (rr_model_id q)
                     (requests_per_minute m)
              in if \<not> request_allowed then Inr (''rate_limited'', rl', tk)
                 else case token_budget_allow tk (snd now) (p_principal_id p) (rr_model_id q) (replay_tokens q)
                         (input_tokens_per_minute m) of
                   (Inl e, tk') \<Rightarrow> Inl e
                 | (Inr token_allowed, tk') \<Rightarrow>
                     Inr (if token_allowed then ''allowed'' else ''token_budget_limited'', rl', tk'))
         | _ \<Rightarrow> Inr (''policy_denied'', rl, tk))"

definition replay_step ::
  "(string, model_policy) dict \<Rightarrow> pyfloat \<times> pyfloat \<Rightarrow> int \<Rightarrow> replay_request \<Rightarrow> replay_state \<Rightarrow>
   replay_state result" where
  "replay_step policies now sequence q st =
     bind_result (replay_outcome policies now q (rs_requests st) (rs_tokens st)) (\<lambda>(outcome, rl, tk).
     let model_id = rr_model_id q;
         counted = st\<lparr>rs_requests := rl, rs_tokens := tk,
           rs_outcomes := counter_add (rs_outcomes st) outcome 1,
           rs_model_outcomes := dset (rs_model_outcomes st) model_id
             (counter_add (dget_default (rs_model_outcomes st) model_id []) outcome 1),
           rs_model_tokens := counter_add (rs_model_tokens st) model_id (replay_tokens q)\<rparr>
     in if outcome = ''allowed''
        then bind_result (estimate_latency_ms model_id (replay_tokens q) sequence) (\<lambda>ms.
          Inr (counted\<lparr>rs_latencies := rs_latencies st @ [ms],
            rs_model_latency := dset (rs_model_latency st) model_id
              (dget_default (rs_model_latency st) model_id [] @ [ms])\<rparr>))
        else Inr counted)"

fun replay ::
  "(string, model_policy) dict \<Rightarrow> (int \<Rightarrow> pyfloat \<times> pyfloat) \<Rightarrow> int \<Rightarrow> replay_request list \<Rightarrow> replay_state \<Rightarrow>
   replay_state result" where
  "replay policies clock sequence [] st = Inr st"
| "replay policies clock sequence (q # qs) st =
     bind_result (replay_step policies (clock sequence) sequence q st)
       (replay policies clock (sequence + 1) qs)"

section \<open>The report\<close>

definition counter_sum :: "string counter_dict \<Rightarrow> int" where
  \<comment> \<open>\<^verbatim>\<open>sum(counter.values())\<close>\<close>
  "counter_sum d = sum_list (map snd d)"

definition sorted_counts :: "string counter_dict \<Rightarrow> pyval" where
  \<comment> \<open>\<^verbatim>\<open>dict(sorted(counter.items()))\<close>\<close>
  "sorted_counts d = VDict (map (\<lambda>(k, n). (k, VInt n)) (sorted_items d))"

definition missing_outcomes :: "string counter_dict \<Rightarrow> replay_thresholds \<Rightarrow> string list" where
  "missing_outcomes outcomes th = filter (\<lambda>k. counter_get outcomes k = 0) (rt_required_outcomes th)"

definition replay_release_gates ::
  "string counter_dict \<Rightarrow> pyfloat list \<Rightarrow> replay_thresholds \<Rightarrow> pyval list result" where
  "replay_release_gates outcomes latencies th =
     bind_result (percentile latencies 95) (\<lambda>p95.
     let missing = missing_outcomes outcomes th in
     Inr [release_gate ''guardrail_outcome_coverage'' (status_text (missing = []))
            [(''missing_outcomes'', VList (map VStr missing))],
          release_gate ''allowed_latency_p95''
            (status_text (case p95 of None \<Rightarrow> False | Some ms \<Rightarrow> fle ms (rt_max_allowed_p95_latency_ms th)))
            [(''observed_ms'', opt_float p95),
             (''threshold_ms'', VFloat (rt_max_allowed_p95_latency_ms th))],
          omitted_gate [''payload contents'', ''model responses'', ''identity fields'',
            ''access justification text'', ''auth material'', ''production logs'']])"

definition build_model_report ::
  "string \<Rightarrow> model_policy option \<Rightarrow> string counter_dict \<Rightarrow> int \<Rightarrow> pyfloat list \<Rightarrow> pyval result" where
  "build_model_report model_id policy outcomes total_input_tokens latencies =
     bind_result (latency_summary latencies) (\<lambda>summary.
       Inr (VDict ([(''model_id'', VStr model_id), (''request_count'', VInt (counter_sum outcomes)),
         (''outcomes'', sorted_counts outcomes), (''estimated_input_tokens'', VInt total_input_tokens),
         (''allowed_latency_ms'', summary)] @
         (case policy of None \<Rightarrow> []
          | Some m \<Rightarrow> [(''policy_limits'', VDict
              [(''requests_per_minute'', VInt (requests_per_minute m)),
               (''input_tokens_per_minute'', VInt (input_tokens_per_minute m))])]))))"

definition replay_report ::
  "(string, model_policy) dict \<Rightarrow> replay_thresholds \<Rightarrow> replay_state \<Rightarrow> (string, pyval) dict result" where
  "replay_report policies th st =
     bind_result (replay_release_gates (rs_outcomes st) (rs_latencies st) th) (\<lambda>gates.
     bind_result (map_result (\<lambda>m. build_model_report m (dget policies m)
         (dget_default (rs_model_outcomes st) m []) (counter_get (rs_model_tokens st) m)
         (dget_default (rs_model_latency st) m [])) (sort (dkeys (rs_model_outcomes st)))) (\<lambda>model_reports.
     bind_result (latency_summary (rs_latencies st)) (\<lambda>summary.
     let readiness_status = readiness gates in
     Inr [(''schema_version'', VInt 1), (''generated_by'', VStr ''gateway.workload_replay''),
          (''scenario_name'', VStr ''synthetic_gateway_workload_readiness''),
          (''data_scope'', VStr (''synthetic aggregate workload replay; excludes request bodies, decoded '' @
             ''text, identities, secrets, access reasons, and production logs'')),
          (''readiness_status'', VStr readiness_status),
          (''rollout_recommendation'', VStr
             (if readiness_status = ''pass'' then ''ready_for_local_review'' else ''hold_for_investigation'')),
          (''thresholds'', VDict
             [(''max_allowed_p95_latency_ms'', VFloat (rt_max_allowed_p95_latency_ms th)),
              (''required_outcomes'', VList (map VStr (rt_required_outcomes th)))]),
          (''request_count'', VInt (counter_sum (rs_outcomes st))),
          (''outcomes'', sorted_counts (rs_outcomes st)),
          (''latency_ms'', summary),
          (''guardrail_coverage'', VDict
             [(''observed_outcomes'', VList (map VStr (sort (dkeys (rs_outcomes st))))),
              (''missing_outcomes'', VList (map VStr (missing_outcomes (rs_outcomes st) th)))]),
          (''models'', VList model_reports),
          (''release_gates'', VList gates)])))"

definition build_workload_report ::
  "replay_request list \<Rightarrow> (string, model_policy) dict \<Rightarrow> replay_thresholds \<Rightarrow> (int \<Rightarrow> pyfloat \<times> pyfloat) \<Rightarrow>
   (string, pyval) dict result" where
  "build_workload_report requests policies th clock =
     bind_result (validate_replay_thresholds th) (\<lambda>_.
     bind_result (replay policies clock 1 requests new_replay) (replay_report policies th))"

section \<open>The replay accounts for every request\<close>

lemma counter_sum_add [simp]: "counter_sum (counter_add d k n) = counter_sum d + n"
proof -
  have "counter_sum (dset d k v) = counter_sum d - counter_get d k + v" for v
    by (induction d) (auto simp: counter_sum_def dset_def counter_get_def dget_default_def)
  then show ?thesis by (simp add: counter_add_def)
qed

lemma counter_sum_Nil [simp]: "counter_sum [] = 0"
  by (simp add: counter_sum_def)

lemma replay_outcome_known:
  "replay_outcome policies now q rl tk = Inr (outcome, rl', tk') \<Longrightarrow> outcome \<in> set REQUIRED_OUTCOMES"
  by (auto simp: replay_outcome_def Let_def REQUIRED_OUTCOMES_def
      split: if_splits option.splits prod.splits sum.splits)

text \<open>What a replay state holds of the requests \<open>qs\<close> it has seen.\<close>

definition model_outcomes_of :: "replay_state \<Rightarrow> string \<Rightarrow> string counter_dict" where
  "model_outcomes_of st m = dget_default (rs_model_outcomes st) m []"

definition model_latency_of :: "replay_state \<Rightarrow> string \<Rightarrow> pyfloat list" where
  "model_latency_of st m = dget_default (rs_model_latency st) m []"

definition requests_for :: "string \<Rightarrow> replay_request list \<Rightarrow> replay_request list" where
  "requests_for m = filter (\<lambda>q. rr_model_id q = m)"

definition replay_accounts :: "replay_request list \<Rightarrow> replay_state \<Rightarrow> bool" where
  "replay_accounts qs st \<longleftrightarrow>
     counter_sum (rs_outcomes st) = int (length qs) \<and>
     set (dkeys (rs_outcomes st)) \<subseteq> set REQUIRED_OUTCOMES \<and>
     int (length (rs_latencies st)) = counter_get (rs_outcomes st) ''allowed'' \<and>
     length (rs_latencies st) \<le> length qs \<and>
     set (dkeys (rs_model_outcomes st)) = rr_model_id ` set qs \<and>
     (\<forall>m. counter_sum (model_outcomes_of st m) = int (length (requests_for m qs)) \<and>
        counter_get (rs_model_tokens st) m = sum_list (map replay_tokens (requests_for m qs)) \<and>
        int (length (model_latency_of st m)) = counter_get (model_outcomes_of st m) ''allowed'' \<and>
        length (model_latency_of st m) \<le> length (requests_for m qs))"

lemma dget_default_dset [simp]:
  "dget_default (dset d k v) k' dflt = (if k' = k then v else dget_default d k' dflt)"
  by (simp add: dget_default_def)

lemma requests_for_snoc [simp]:
  "requests_for m (qs @ [q]) = requests_for m qs @ (if rr_model_id q = m then [q] else [])"
  by (simp add: requests_for_def)

lemma replay_step_accounts:
  assumes "replay_accounts qs st" and "replay_step policies now n q st = Inr st'"
  shows "replay_accounts (qs @ [q]) st'"
proof -
  obtain outcome rl tk where o: "replay_outcome policies now q (rs_requests st) (rs_tokens st) =
      Inr (outcome, rl, tk)"
    using assms(2) by (auto simp: replay_step_def)
  note replay_outcome_known [OF o]
  then show ?thesis using assms o
    by (auto simp: replay_step_def replay_accounts_def Let_def model_outcomes_of_def
        model_latency_of_def intro: le_SucI split: if_splits)
qed

lemma replay_keeps_accounts:
  assumes "replay_accounts seen st" and "replay policies clock n qs st = Inr st'"
  shows "replay_accounts (seen @ qs) st'"
  using assms
proof (induction qs arbitrary: seen st n)
  case (Cons q qs)
  then obtain st1 where s: "replay_step policies (clock n) n q st = Inr st1"
    and r: "replay policies clock (n + 1) qs st1 = Inr st'" by auto
  from Cons.IH [OF replay_step_accounts [OF Cons.prems(1) s] r] show ?case by simp
qed simp

lemma replay_accounts_new: "replay_accounts [] new_replay"
  by (simp add: replay_accounts_def new_replay_def model_outcomes_of_def model_latency_of_def
      requests_for_def dget_default_def dkeys_def)

theorem replay_accounts_all:
  assumes "replay policies clock 1 qs new_replay = Inr st"
  shows "replay_accounts qs st"
  using replay_keeps_accounts [OF replay_accounts_new assms] by simp

section \<open>What the report says\<close>

definition replay_ready ::
  "replay_request list \<times> (string, model_policy) dict \<times> replay_thresholds \<times> (int \<Rightarrow> pyfloat \<times> pyfloat) \<Rightarrow>
   bool" where
  "replay_ready = (\<lambda>(requests, policies, th, clock).
     case replay policies clock 1 requests new_replay of
       Inl e \<Rightarrow> False
     | Inr st \<Rightarrow> list_all (\<lambda>k. counter_get (rs_outcomes st) k \<noteq> 0) (rt_required_outcomes th) \<and>
         (case percentile (rs_latencies st) 95 of
            Inr (Some ms) \<Rightarrow> fle ms (rt_max_allowed_p95_latency_ms th)
          | _ \<Rightarrow> False))"

definition replay_gates ::
  "replay_request list \<times> (string, model_policy) dict \<times> replay_thresholds \<times> (int \<Rightarrow> pyfloat \<times> pyfloat) \<Rightarrow>
   pyval list result" where
  "replay_gates = (\<lambda>(requests, policies, th, clock).
     bind_result (replay policies clock 1 requests new_replay)
       (\<lambda>st. replay_release_gates (rs_outcomes st) (rs_latencies st) th))"

lemma missing_outcomes_Nil: "missing_outcomes outcomes th = [] \<longleftrightarrow>
    list_all (\<lambda>k. counter_get outcomes k \<noteq> 0) (rt_required_outcomes th)"
  by (auto simp: missing_outcomes_def filter_empty_conv list_all_iff)

lemma replay_gates_ready: "replay_gates i = Inr gs \<Longrightarrow> list_all gate_passes gs \<longleftrightarrow> replay_ready i"
  by (auto simp: replay_gates_def replay_ready_def replay_release_gates_def missing_outcomes_Nil
      split: prod.splits option.splits)

lemma replay_report_built:
  "build_workload_report requests policies th clock = Inr r \<Longrightarrow>
     \<exists>gs. replay_gates (requests, policies, th, clock) = Inr gs \<and>
      dget r ''release_gates'' = Some (VList gs) \<and>
      dget r ''readiness_status'' = Some (VStr (readiness gs)) \<and>
      dget r ''rollout_recommendation'' = Some (VStr (if readiness gs = ''pass''
        then ''ready_for_local_review'' else ''hold_for_investigation''))"
  by (auto simp: build_workload_report_def replay_report_def replay_gates_def Let_def)

interpretation workload: release_report
  "\<lambda>(requests, policies, th, clock). build_workload_report requests policies th clock"
  replay_gates replay_ready "''ready_for_local_review''" "''hold_for_investigation''"
  by unfold_locales (auto simp: replay_gates_ready dest!: replay_report_built split: prod.splits)

text \<open>
  A workload report counts every request once, by outcome and by model, with their tokens
  and one latency per allowed request, and passes exactly when every required outcome was seen
  and the 95th percentile of the allowed latencies is within the threshold.
\<close>

theorem workload_report_ready:
  assumes "build_workload_report requests policies th clock = Inr r"
  shows "\<exists>st. replay policies clock 1 requests new_replay = Inr st \<and> replay_accounts requests st \<and>
    dget r ''request_count'' = Some (VInt (int (length requests))) \<and>
    (dget r ''readiness_status'' = Some (VStr ''pass'') \<longleftrightarrow>
       list_all (\<lambda>k. counter_get (rs_outcomes st) k \<noteq> 0) (rt_required_outcomes th) \<and>
       (\<exists>ms. percentile (rs_latencies st) 95 = Inr (Some ms) \<and> fle ms (rt_max_allowed_p95_latency_ms th)))"
proof -
  obtain st where st: "replay policies clock 1 requests new_replay = Inr st"
    and rep: "replay_report policies th st = Inr r"
    using assms by (auto simp: build_workload_report_def)
  note acc = replay_keeps_accounts [OF replay_accounts_new st, simplified]
  have "dget r ''request_count'' = Some (VInt (int (length requests)))"
    using rep acc by (auto simp: replay_report_def Let_def replay_accounts_def)
  moreover have "dget r ''readiness_status'' = Some (VStr ''pass'') \<longleftrightarrow>
      replay_ready (requests, policies, th, clock)"
    using workload.ready_iff [of "(requests, policies, th, clock)" r] assms by simp
  ultimately show ?thesis
    using st acc by (auto simp: replay_ready_def split: sum.splits option.splits)
qed

section \<open>A replay never raises\<close>

text \<open>
  With the policies' token limits positive, the requests of a size a float can hold, and
  fewer than \<open>2 ^ 40\<close> of them, no step of a replay or of its report can raise.
\<close>

lemma replay_tokens_bound: "rr_characters q \<le> 2 ^ 52 \<Longrightarrow> replay_tokens q \<le> 2 ^ 53"
proof -
  assume q: "rr_characters q \<le> 2 ^ 52"
  let ?text = "replicate (nat (rr_characters q)) (CHR ''x'')"
  have "int (length ?text) < 2 ^ 53" using q by simp
  then have "replay_tokens q = max 1 ((int (length (py_strip ?text)) + 3) div 4)"
    unfolding replay_tokens_def by (rule estimate_input_tokens_ceil)
  moreover have "int (length (py_strip ?text)) \<le> 2 ^ 52"
    using length_py_strip [of ?text] q by simp
  ultimately show ?thesis by simp
qed

lemma replay_outcome_total:
  assumes "\<And>m p. dget policies m = Some p \<Longrightarrow> 1 \<le> input_tokens_per_minute p"
  shows "\<exists>oc rl' tk'. replay_outcome policies now q rl tk = Inr (oc, rl', tk')"
proof -
  have "1 \<le> replay_tokens q" by (simp add: replay_tokens_def estimate_input_tokens_ge_1)
  then have "token_budget_allow tk (snd now) p m (replay_tokens q) (input_tokens_per_minute pol) \<noteq> (Inl e, tk')"
    if "dget policies m = Some pol" for p m pol e tk'
    using assms [OF that] by (simp add: token_budget_allow_eq)
  then show ?thesis
    by (auto simp del: evaluate_policy.simps simp: replay_outcome_def Let_def
        split: option.splits prod.splits sum.splits)
qed

lemma replay_step_total:
  assumes "\<And>m p. dget policies m = Some p \<Longrightarrow> 1 \<le> input_tokens_per_minute p"
    and "rr_characters q \<le> 2 ^ 52"
  shows "\<exists>st'. replay_step policies now n q st = Inr st'"
proof -
  have t: "1 \<le> replay_tokens q" by (simp add: replay_tokens_def estimate_input_tokens_ge_1)
  have cost: "int_to_float (replay_tokens q) = Inr (Fin (of_int (replay_tokens q)))"
    using t replay_tokens_bound [OF assms(2)] by (intro int_to_float_small) simp
  have "\<exists>oc rl' tk'. replay_outcome policies now q rl tk = Inr (oc, rl', tk')" for rl tk
    using replay_outcome_total [OF assms(1)] .
  moreover have "\<exists>ms. estimate_latency_ms m (replay_tokens q) k = Inr ms" for m k
    unfolding estimate_latency_ms_def Let_def cost bind_result_simps by blast
  ultimately obtain oc rl tk ms where "replay_outcome policies now q (rs_requests st) (rs_tokens st) = Inr (oc, rl, tk)"
    and "estimate_latency_ms (rr_model_id q) (replay_tokens q) n = Inr ms" by meson
  then show ?thesis by (simp add: replay_step_def Let_def)
qed

lemma replay_total:
  assumes "\<And>m p. dget policies m = Some p \<Longrightarrow> 1 \<le> input_tokens_per_minute p"
    and "\<forall>q \<in> set qs. rr_characters q \<le> 2 ^ 52"
  shows "\<exists>st'. replay policies clock n qs st = Inr st'"
  using assms(2)
proof (induction qs arbitrary: n st)
  case (Cons q qs)
  obtain st1 where "replay_step policies (clock n) n q st = Inr st1"
    using replay_step_total [of policies q "clock n" n st] assms(1) Cons.prems by auto
  then show ?case using Cons.IH [of "n + 1" st1] Cons.prems by simp
qed simp

lemma latency_summary_total:
  "int (length xs) \<le> 2 ^ 40 \<Longrightarrow> \<exists>v. latency_summary xs = Inr v"
  using percentile_total [of 50 xs] percentile_total [of 95 xs]
  by (auto simp: latency_summary_def)

lemma requests_for_length: "length (requests_for m qs) \<le> length qs"
  by (simp add: requests_for_def)

lemma replay_report_total:
  assumes "replay_accounts qs st" and "int (length qs) \<le> 2 ^ 40"
  shows "\<exists>r. replay_report policies th st = Inr r"
proof -
  have l: "int (length (rs_latencies st)) \<le> 2 ^ 40" using assms by (simp add: replay_accounts_def)
  have m: "int (length (dget_default (rs_model_latency st) m [])) \<le> 2 ^ 40" for m
  proof -
    have "length (model_latency_of st m) \<le> length (requests_for m qs)"
      using assms(1) by (simp add: replay_accounts_def)
    then show ?thesis using requests_for_length [of m qs] assms(2) by (simp add: model_latency_of_def)
  qed
  have "\<exists>v. build_model_report m pol oc t (dget_default (rs_model_latency st) m []) = Inr v" for m pol oc t
    using latency_summary_total [OF m] by (auto simp: build_model_report_def)
  then obtain reports where "map_result (\<lambda>m. build_model_report m (dget policies m)
         (dget_default (rs_model_outcomes st) m []) (counter_get (rs_model_tokens st) m)
         (dget_default (rs_model_latency st) m [])) (sort (dkeys (rs_model_outcomes st))) = Inr reports"
    using map_result_exists by meson
  moreover obtain p where "percentile (rs_latencies st) 95 = Inr p" using percentile_total [OF _ l] by blast
  moreover obtain s where "latency_summary (rs_latencies st) = Inr s" using latency_summary_total [OF l] by blast
  ultimately show ?thesis by (simp add: replay_report_def replay_release_gates_def Let_def)
qed

theorem workload_report_total:
  assumes "validate_replay_thresholds th = Inr ()"
    and "\<forall>(m, p) \<in> set policies. 1 \<le> input_tokens_per_minute p"
    and "\<forall>q \<in> set requests. rr_characters q \<le> 2 ^ 52" and "int (length requests) \<le> 2 ^ 40"
  shows "\<exists>r. build_workload_report requests policies th clock = Inr r"
proof -
  have "1 \<le> input_tokens_per_minute p" if "dget policies m = Some p" for m p
    using assms(2) dget_in_set [OF that] by auto
  then obtain st where st: "replay policies clock 1 requests new_replay = Inr st"
    using replay_total [of policies requests clock 1 new_replay] assms(3) by blast
  obtain r where "replay_report policies th st = Inr r"
    using replay_report_total [OF replay_keeps_accounts [OF replay_accounts_new st]] assms(4) by auto
  with st assms(1) show ?thesis by (simp add: build_workload_report_def)
qed

section \<open>Modeled latencies are bounded\<close>

text \<open>
  The latency of an allowed request is a base of at most 55, at most 34 for its tokens, and
  less than 3 for its place in the sequence, roundings included.
\<close>

lemma fadd_bounded: "fle a (Fin x) \<Longrightarrow> fle b (Fin y) \<Longrightarrow> fle (fadd a b) (to_f64 (x + y))"
  by (cases a; cases b) (auto intro: to_f64_mono)

lemma fround_bounded: "fle a (Fin x) \<Longrightarrow> fle (fround n a) (fround n (Fin x))"
  by (cases a) (auto intro!: to_f64_mono round_half_even_mono divide_right_mono mult_right_mono)

lemma fround_of_int:
  assumes "\<bar>m\<bar> \<le> 2 ^ 53"
  shows "fround n (Fin (of_int m)) = Fin (of_int m)"
proof -
  have "rat_of_int m * 10 ^ n = of_int (m * 10 ^ n)" by simp
  then have "round_half_even (rat_of_int m * 10 ^ n) = m * 10 ^ n" by (simp only: round_half_even_of_int)
  then show ?thesis using to_f64_of_int [OF assms] by simp
qed

lemma jitter_bounded: "fle (fmul (Fin (of_int (k mod 5))) (to_f64 (7 / 10))) (Fin 3)"
proof -
  have "round64 (7 / 10) \<le> round64 (of_int 24 / 32)" by (intro round64_mono) simp
  then have r: "round64 (7 / 10) \<le> 3 / 4" using round64_thirty_seconds [of 24] by simp
  have f: "to_f64 (7 / 10) = Fin (round64 (7 / 10))" by (rule to_f64_finite) simp
  have k: "0 \<le> rat_of_int (k mod 5)" "rat_of_int (k mod 5) \<le> 4"
  proof -
    have "k mod 5 \<le> 4" by presburger
    then show "rat_of_int (k mod 5) \<le> 4" by (metis of_int_le_iff of_int_numeral)
  qed simp
  have "rat_of_int (k mod 5) * round64 (7 / 10) \<le> 4 * (3 / 4)"
    using k r by (intro mult_mono) (simp_all add: round64_nonneg)
  then have "fle (to_f64 (rat_of_int (k mod 5) * round64 (7 / 10))) (to_f64 (of_int 3))"
    by (intro to_f64_mono) simp
  then show ?thesis using to_f64_of_int [of 3] by (simp add: f)
qed

lemma estimate_latency_bounded:
  assumes "estimate_latency_ms m c k = Inr ms"
  shows "fle ms (Fin 92)"
proof -
  obtain r where r: "int_to_float c = Inr (Fin r)"
    and ms: "ms = fround 3 (fadd (fadd (base_latency_ms m)
      (if flt (Fin 34) (fmul (Fin r) (to_f64 (18 / 1000))) then Fin 34 else fmul (Fin r) (to_f64 (18 / 1000))))
      (fmul (Fin (of_int (k mod 5))) (to_f64 (7 / 10))))"
    using assms int_to_float_not_NaN unfolding estimate_latency_ms_def Let_def bind_result_eq_Inr by blast
  let ?s = "fmul (Fin r) (to_f64 (18 / 1000))"
  have "to_f64 (18 / 1000) = Fin (round64 (18 / 1000))" by (rule to_f64_finite) simp
  then have "?s \<noteq> NaN" by simp
  then have "fle (if flt (Fin 34) ?s then Fin 34 else ?s) (Fin 34)"
    using flt_iff_not_fle [of "Fin 34" ?s] by auto
  moreover have "fle (base_latency_ms m) (Fin 55)" by (simp add: base_latency_ms_def)
  ultimately have "fle (fadd (base_latency_ms m) (if flt (Fin 34) ?s then Fin 34 else ?s)) (to_f64 (55 + 34))"
    by (intro fadd_bounded)
  then have "fle (fadd (base_latency_ms m) (if flt (Fin 34) ?s then Fin 34 else ?s)) (Fin 89)"
    using to_f64_of_int [of 89] by simp
  from fadd_bounded [OF this jitter_bounded [of k]] have "fle (fround 3 (fadd (fadd (base_latency_ms m)
      (if flt (Fin 34) ?s then Fin 34 else ?s)) (fmul (Fin (of_int (k mod 5))) (to_f64 (7 / 10)))))
      (fround 3 (Fin (of_int 92)))"
    using to_f64_of_int [of 92] by (intro fround_bounded) simp
  then show ?thesis unfolding ms using fround_of_int [of 92 3] by simp
qed

lemma replay_step_latencies:
  assumes "\<forall>ms \<in> set (rs_latencies st). fle ms (Fin 92)" and "replay_step policies now n q st = Inr st'"
  shows "\<forall>ms \<in> set (rs_latencies st'). fle ms (Fin 92)"
  using assms estimate_latency_bounded by (auto simp: replay_step_def Let_def split: if_splits)

lemma replay_latencies:
  assumes "\<forall>ms \<in> set (rs_latencies st). fle ms (Fin 92)" and "replay policies clock n qs st = Inr st'"
  shows "\<forall>ms \<in> set (rs_latencies st'). fle ms (Fin 92)"
  using assms
proof (induction qs arbitrary: st n)
  case (Cons q qs)
  then obtain st1 where "replay_step policies (clock n) n q st = Inr st1"
    and "replay policies clock (n + 1) qs st1 = Inr st'" by auto
  with Cons.IH [of st1 "n + 1"] replay_step_latencies [OF Cons.prems(1)] show ?case by blast
qed simp

text \<open>
  With a threshold of at least 92, as the default of 120 is, the latency gate holds nothing
  back: a report is ready exactly when every required outcome, and an allowed request, was seen.
\<close>

theorem latency_gate_never_holds:
  assumes "replay policies clock 1 requests new_replay = Inr st"
    and "fle (Fin 92) (rt_max_allowed_p95_latency_ms th)" and "int (length requests) \<le> 2 ^ 40"
  shows "replay_ready (requests, policies, th, clock) \<longleftrightarrow>
    list_all (\<lambda>k. counter_get (rs_outcomes st) k \<noteq> 0) (rt_required_outcomes th) \<and>
    counter_get (rs_outcomes st) ''allowed'' \<noteq> 0"
proof -
  have acc: "replay_accounts requests st" using replay_keeps_accounts [OF replay_accounts_new assms(1)] by simp
  then have n: "int (length (rs_latencies st)) \<le> 2 ^ 40"
    and some: "rs_latencies st = [] \<longleftrightarrow> counter_get (rs_outcomes st) ''allowed'' = 0"
    using assms(3) by (auto simp: replay_accounts_def)
  have le: "\<forall>ms \<in> set (rs_latencies st). fle ms (Fin 92)"
    using replay_latencies [OF _ assms(1)] by (simp add: new_replay_def)
  then have nan: "NaN \<notin> set (rs_latencies st)" by auto
  have "\<exists>ms. percentile (rs_latencies st) 95 = Inr (Some ms) \<and> fle ms (rt_max_allowed_p95_latency_ms th)"
    if ne: "rs_latencies st \<noteq> []"
  proof -
    obtain x where "x \<in> set (rs_latencies st)" and p: "percentile (rs_latencies st) 95 = Inr (Some (fround 3 x))"
      using percentile_rank [OF _ ne nan n, of 95] by auto
    then have "fle (fround 3 x) (Fin 92)" using fround_bounded [of x 92 3] le fround_of_int [of 92 3] by simp
    then show ?thesis using p fle_trans assms(2) by blast
  qed
  moreover have "percentile [] 95 = Inr None" by (simp add: percentile_def)
  ultimately show ?thesis
    using assms(1) some by (cases "rs_latencies st = []") (auto simp: replay_ready_def)
qed

end
