(* ===== verification/LimiterPlan.thy ===== *)
theory LimiterPlan
  imports Report Policy
begin

text \<open>
  \<^verbatim>\<open>gateway/distributed_limiter.py\<close>: the limit rules derived from the model policies, the
  sample decisions, and the report with its gates. \<open>sha256_hex\<close> is the hex digest of the
  UTF-8 text.
\<close>

section \<open>The Lua script as text\<close>

definition newline :: string where
  "newline = [CHR 0x0A]"

definition quoted :: "string \<Rightarrow> string" where
  "quoted s = [CHR 0x22] @ s @ [CHR 0x22]"

definition REDIS_FIXED_WINDOW_LUA :: string where
  "REDIS_FIXED_WINDOW_LUA = concat (map (\<lambda>l. l @ newline)
     [''local cost = tonumber(ARGV[1])'',
      ''local limit = tonumber(ARGV[3])'',
      ''local current = tonumber(redis.call('' @ quoted ''GET'' @ '', KEYS[1]) or '' @ quoted ''0'' @ '')'',
      ''if current + cost > limit then'',
      ''  return {0, current, limit}'',
      ''end'',
      ''current = redis.call('' @ quoted ''INCRBY'' @ '', KEYS[1], cost)'',
      ''if current == cost then'',
      ''  redis.call('' @ quoted ''PEXPIRE'' @ '', KEYS[1], ARGV[2])'',
      ''end'',
      ''return {1, current, limit}''])"

section \<open>Limit rules\<close>

definition WINDOW_SECONDS :: int where
  "WINDOW_SECONDS = 60"

record limit_rule =
  lr_model_id :: string
  lr_budget_type :: string
  lr_limit :: int
  lr_metric_name :: string
  lr_denial_outcome :: string
  lr_window_seconds :: int

definition rule_to_report :: "limit_rule \<Rightarrow> pyval" where
  "rule_to_report r = VDict
     [(''model_id'', VStr (lr_model_id r)),
      (''budget_type'', VStr (lr_budget_type r)),
      (''limit'', VInt (lr_limit r)),
      (''window_seconds'', VInt (lr_window_seconds r)),
      (''redis_key_template'',
        VStr (''sgig:{environment}:{model_id}:{budget_type}:'' @ ''{caller_hash}:{window_epoch_minute}'')),
      (''envoy_descriptor'', VDict
        [(''entries'', VList
           [VDict [(''key'', VStr ''service''), (''value'', VStr ''secure-gpu-inference-gateway'')],
            VDict [(''key'', VStr ''model_id''), (''value'', VStr (lr_model_id r))],
            VDict [(''key'', VStr ''budget_type''), (''value'', VStr (lr_budget_type r))]]),
         (''unit'', VStr ''minute''),
         (''limit_per_unit'', VInt (lr_limit r))]),
      (''existing_metric'', VStr (lr_metric_name r)),
      (''denial_outcome'', VStr (lr_denial_outcome r))]"

definition policy_rules :: "model_policy \<Rightarrow> limit_rule list" where
  "policy_rules m =
     [\<lparr>lr_model_id = mp_model_id m, lr_budget_type = ''request_count'',
       lr_limit = requests_per_minute m, lr_metric_name = ''security_gateway_requests_total'',
       lr_denial_outcome = ''rate_limited'', lr_window_seconds = WINDOW_SECONDS\<rparr>,
      \<lparr>lr_model_id = mp_model_id m, lr_budget_type = ''estimated_input_tokens'',
       lr_limit = input_tokens_per_minute m, lr_metric_name = ''security_gateway_input_tokens_total'',
       lr_denial_outcome = ''token_budget_limited'', lr_window_seconds = WINDOW_SECONDS\<rparr>]"

definition build_limit_rules :: "(string, model_policy) dict \<Rightarrow> limit_rule list" where
  "build_limit_rules policies = concat (map policy_rules (sort_key mp_model_id (map snd policies)))"

section \<open>Gates and samples\<close>

definition SCRIPT_FRAGMENTS :: "string list" where
  "SCRIPT_FRAGMENTS = [''INCRBY'', ''PEXPIRE'', ''tonumber(ARGV[3])'']"

definition limiter_release_gates :: "(string \<Rightarrow> string) \<Rightarrow> limit_rule list \<Rightarrow> int \<Rightarrow> pyval list" where
  "limiter_release_gates sha256_hex rules expected_rule_count =
     (let budget_types = remdups (map lr_budget_type rules) in
      [release_gate ''policy_budget_rule_coverage'' (status_text (int (length rules) = expected_rule_count))
         [(''expected_rules'', VInt expected_rule_count), (''observed_rules'', VInt (int (length rules)))],
       release_gate ''request_and_token_budget_coverage''
         (status_text (set budget_types = {''request_count'', ''estimated_input_tokens''}))
         [(''observed_budget_types'', VList (map VStr (sort budget_types)))],
       release_gate ''redis_atomic_window_shape''
         (status_text (list_all (\<lambda>fragment. py_contains REDIS_FIXED_WINDOW_LUA fragment) SCRIPT_FRAGMENTS))
         [(''script_sha256'', VStr (sha256_hex REDIS_FIXED_WINDOW_LUA))],
       omitted_gate [''request payloads'', ''model responses'', ''subject identifiers'',
         ''access justification text'', ''auth material'', ''production logs'']])"

definition example_hash :: "(string \<Rightarrow> string) \<Rightarrow> string \<Rightarrow> limit_rule \<Rightarrow> pyval" where
  "example_hash sha256_hex who r =
     VStr (take 16 (sha256_hex (who @ '':'' @ lr_model_id r @ '':'' @ lr_budget_type r)))"

definition window_cost :: "limit_rule \<Rightarrow> int" where
  "window_cost r = (if lr_budget_type r = ''request_count'' then 1 else min 64 (lr_limit r))"

definition rule_samples :: "(string \<Rightarrow> string) \<Rightarrow> limit_rule \<Rightarrow> (string, pyval) dict list" where
  "rule_samples sha256_hex r =
     [[(''model_id'', VStr (lr_model_id r)), (''budget_type'', VStr (lr_budget_type r)),
       (''caller_hash_example'', example_hash sha256_hex ''synthetic-reviewer'' r),
       (''window_cost'', VInt (window_cost r)), (''limit'', VInt (lr_limit r)),
       (''allowed'', VBool True)],
      [(''model_id'', VStr (lr_model_id r)), (''budget_type'', VStr (lr_budget_type r)),
       (''caller_hash_example'', example_hash sha256_hex ''synthetic-over-limit'' r),
       (''window_cost'', VInt (lr_limit r + 1)), (''limit'', VInt (lr_limit r)),
       (''allowed'', VBool False), (''denial_outcome'', VStr (lr_denial_outcome r))]]"

definition sample_decisions :: "(string \<Rightarrow> string) \<Rightarrow> limit_rule list \<Rightarrow> (string, pyval) dict list" where
  "sample_decisions sha256_hex rules = concat (map (rule_samples sha256_hex) (take 4 rules))"

definition build_distributed_limiter_report ::
  "(string \<Rightarrow> string) \<Rightarrow> (string, model_policy) dict \<Rightarrow> (string, pyval) dict" where
  "build_distributed_limiter_report sha256_hex policies =
     (let rules = build_limit_rules policies;
          script_hash = sha256_hex REDIS_FIXED_WINDOW_LUA;
          release_gates = limiter_release_gates sha256_hex rules (int (length policies) * 2)
      in [(''schema_version'', VInt 1),
          (''generated_by'', VStr ''gateway.distributed_limiter''),
          (''scenario_name'', VStr ''distributed_request_token_limiter_readiness''),
          (''data_scope'', VStr (''synthetic limiter migration evidence; excludes request bodies, '' @
             ''decoded text, subject identifiers, secrets, access reasons, and production logs'')),
          (''target_backends'', VList [VStr ''redis_fixed_window_lua'',
             VStr ''envoy_global_rate_limit_descriptors'']),
          (''window_seconds'', VInt WINDOW_SECONDS),
          (''rule_count'', VInt (int (length rules))),
          (''rules'', VList (map rule_to_report rules)),
          (''redis_atomic_script'', VDict [(''sha256'', VStr script_hash),
             (''properties'', VList [VStr ''single-key atomic increment'',
               VStr ''ttl applied on first window increment'',
               VStr ''over-limit result returned without payload capture''])]),
          (''sample_decisions'', VList (map VDict (sample_decisions sha256_hex rules))),
          (''observability'', VDict
             [(''existing_metrics'', VList [VStr ''security_gateway_requests_total'',
                VStr ''security_gateway_denials_total'', VStr ''security_gateway_input_tokens_total'']),
              (''recommended_low_cardinality_labels'',
                VList [VStr ''model_id'', VStr ''budget_type'', VStr ''outcome''])]),
          (''release_gates'', VList release_gates),
          (''readiness_status'', VStr (readiness release_gates)),
          (''rollout_recommendation'', VStr
             (if readiness release_gates = ''pass'' then ''ready_for_redis_or_envoy_integration_spike''
              else ''hold_for_limiter_design_review''))])"

section \<open>Properties\<close>

lemma length_build_limit_rules [simp]: "length (build_limit_rules policies) = 2 * length policies"
  by (simp add: build_limit_rules_def policy_rules_def length_concat comp_def sum_list_triv)

lemma set_build_limit_rules:
  "set (build_limit_rules policies) = (\<Union>m \<in> snd ` set policies. set (policy_rules m))"
  by (auto simp: build_limit_rules_def)

lemma rule_budget_types: "lr_budget_type ` set (build_limit_rules policies) =
    (if policies = [] then {} else {''request_count'', ''estimated_input_tokens''})"
proof (cases policies)
  case (Cons p ps)
  then show ?thesis by (force simp: set_build_limit_rules policy_rules_def image_UN)
qed (simp add: set_build_limit_rules)

lemma script_has_fragments:
  "list_all (\<lambda>fragment. py_contains REDIS_FIXED_WINDOW_LUA fragment) SCRIPT_FRAGMENTS"
  by code_simp

definition limiter_gates ::
  "(string \<Rightarrow> string) \<times> (string, model_policy) dict \<Rightarrow> pyval list result" where
  "limiter_gates = (\<lambda>(sha, policies).
     Inr (limiter_release_gates sha (build_limit_rules policies) (int (length policies) * 2)))"

lemma limiter_gates_ready:
  "limiter_gates i = Inr gs \<Longrightarrow> list_all gate_passes gs \<longleftrightarrow> snd i \<noteq> []"
  using script_has_fragments rule_budget_types [of "snd i"]
  by (auto simp: limiter_gates_def limiter_release_gates_def Let_def split: prod.splits)

interpretation limiter_plan: release_report
  "\<lambda>(sha, policies). Inr (build_distributed_limiter_report sha policies)" limiter_gates "\<lambda>i. snd i \<noteq> []"
  "''ready_for_redis_or_envoy_integration_spike''" "''hold_for_limiter_design_review''"
proof unfold_locales
  show "list_all gate_passes gs \<longleftrightarrow> snd i \<noteq> []" if "limiter_gates i = Inr gs"
    for i :: "(string \<Rightarrow> string) \<times> (string, model_policy) dict" and gs
    using limiter_gates_ready [OF that] .
qed (auto simp: build_distributed_limiter_report_def Let_def limiter_gates_def split: prod.splits)

theorem limiter_report_rules:
  "dget (build_distributed_limiter_report sha256_hex policies) ''rule_count'' = Some (VInt (2 * int (length policies))) \<and>
   (dget (build_distributed_limiter_report sha256_hex policies) ''readiness_status'' = Some (VStr ''pass'') \<longleftrightarrow>
      policies \<noteq> []) \<and>
   lr_model_id ` set (build_limit_rules policies) = mp_model_id ` snd ` set policies"
proof -
  have "lr_model_id ` set (build_limit_rules policies) = mp_model_id ` snd ` set policies"
    by (force simp: set_build_limit_rules policy_rules_def image_UN)
  then show ?thesis
    using limiter_plan.ready_iff [of "(sha256_hex, policies)" "build_distributed_limiter_report sha256_hex policies"]
    by (simp add: build_distributed_limiter_report_def Let_def)
qed

text \<open>
  Each sample decision is the one the token limiter takes in a fresh window, when the
  policy limits are positive as the registry requires.
\<close>

definition sample_agrees :: "(string, pyval) dict \<Rightarrow> bool" where
  "sample_agrees s =
     (case (dget s ''window_cost'', dget s ''limit'', dget s ''allowed'') of
        (Some (VNum (NInt cost)), Some (VNum (NInt limit)), Some (VBool allowed)) \<Rightarrow>
          fst (token_budget_allow (new_memory_limiter WINDOW_SECONDS) (Fin 0) ''caller'' ''model'' cost limit) =
            Inr allowed
      | _ \<Rightarrow> False)"

lemma rule_limits_positive:
  assumes "policies_wf policies" and "r \<in> set (build_limit_rules policies)"
  shows "1 \<le> lr_limit r"
  using assms by (auto simp: set_build_limit_rules policy_rules_def policies_wf_def)

theorem sample_decisions_agree:
  assumes "policies_wf policies" and "s \<in> set (sample_decisions sha256_hex (build_limit_rules policies))"
  shows "sample_agrees s"
proof -
  obtain r where r: "r \<in> set (take 4 (build_limit_rules policies))" and s: "s \<in> set (rule_samples sha256_hex r)"
    using assms(2) by (auto simp: sample_decisions_def)
  have "1 \<le> lr_limit r" using rule_limits_positive [OF assms(1) in_set_takeD [OF r]] .
  then show ?thesis using s
    by (auto simp: sample_agrees_def rule_samples_def window_cost_def token_budget_allow_eq memory_spent_def
        rolls_over_def new_memory_limiter_def)
qed

text \<open>
  The budget types of the report are not the ones the Redis limiters put in their keys.
\<close>

lemma report_budget_types_unused:
  assumes "new_redis_request_limiter secs prefix = Inr L \<or> new_redis_token_limiter secs prefix = Inr L"
  shows "rl_budget_type L \<notin> lr_budget_type ` set (build_limit_rules policies)"
  using assms
  by (auto simp: rule_budget_types new_redis_request_limiter_def new_redis_token_limiter_def new_redis_limiter_def
      bind_result_eq_Inr split: if_splits)

end
