(* ===== verification/Deployment.thy ===== *)
theory Deployment
  imports CapacityPlan WorkloadReplay LimiterPlan
begin

text \<open>
  \<^verbatim>\<open>gateway/deployment_readiness.py\<close>: rollout phases applied to the capacity report, and the
  release gates over the three source reports. The source reports are dictionaries of any
  shape: a missing key takes the source's default and a value of the wrong type raises. The
  sort of the models by id is modelled for string ids.
\<close>

section \<open>Phases and thresholds\<close>

record deployment_phase =
  dp_name :: string
  dp_traffic_fraction :: pynum
  dp_capacity_reservation_fraction :: pynum
  dp_validation_mode :: string
  dp_rollback_trigger :: string
  dp_required_evidence :: "string list"

definition validate_phase :: "deployment_phase \<Rightarrow> unit result" where
  "validate_phase p =
     bind_result (check (dp_name p \<noteq> []) (ValueError ''deployment phase name must not be empty'')) (\<lambda>_.
     bind_result (check (num_le (NInt 0) (dp_traffic_fraction p) \<and> num_le (dp_traffic_fraction p) (NInt 1))
       (ValueError ''traffic_fraction must be in [0, 1]'')) (\<lambda>_.
     bind_result (check (num_lt (NInt 0) (dp_capacity_reservation_fraction p) \<and>
         num_le (dp_capacity_reservation_fraction p) (NInt 1))
       (ValueError ''capacity_reservation_fraction must be in (0, 1]'')) (\<lambda>_.
     bind_result (check (\<not> num_lt (dp_capacity_reservation_fraction p) (dp_traffic_fraction p))
       (ValueError ''capacity_reservation_fraction must cover traffic_fraction'')) (\<lambda>_.
     bind_result (check (dp_validation_mode p \<noteq> []) (ValueError ''validation_mode must not be empty'')) (\<lambda>_.
     bind_result (check (dp_rollback_trigger p \<noteq> []) (ValueError ''rollback_trigger must not be empty'')) (\<lambda>_.
       check (dp_required_evidence p \<noteq> []) (ValueError ''required_evidence must not be empty'')))))))"

record deployment_thresholds =
  dt_max_phase_policy_utilization :: pynum

definition default_deployment_thresholds :: deployment_thresholds where
  "default_deployment_thresholds = \<lparr>dt_max_phase_policy_utilization = NFlt (to_f64 (80 / 100))\<rparr>"

definition validate_deployment_thresholds :: "deployment_thresholds \<Rightarrow> unit result" where
  "validate_deployment_thresholds th =
     check (num_lt (NInt 0) (dt_max_phase_policy_utilization th) \<and>
        num_le (dt_max_phase_policy_utilization th) (NInt 1))
       (ValueError ''max_phase_policy_utilization must be in (0, 1]'')"

definition WORKLOAD_ARTIFACT :: string where
  "WORKLOAD_ARTIFACT = ''artifacts/workload-readiness-evidence.json''"

definition CAPACITY_ARTIFACT :: string where
  "CAPACITY_ARTIFACT = ''artifacts/capacity-plan-evidence.json''"

definition LIMITER_ARTIFACT :: string where
  "LIMITER_ARTIFACT = ''artifacts/distributed-limiter-evidence.json''"

definition DEFAULT_DEPLOYMENT_PHASES :: "deployment_phase list" where
  "DEFAULT_DEPLOYMENT_PHASES =
     [\<lparr>dp_name = ''shadow_validation'', dp_traffic_fraction = NFlt (Fin 0),
       dp_capacity_reservation_fraction = NFlt (to_f64 (5 / 100)), dp_validation_mode = ''shadow'',
       dp_rollback_trigger = ''candidate shadow mismatches baseline or readiness gates regress'',
       dp_required_evidence = [WORKLOAD_ARTIFACT, CAPACITY_ARTIFACT]\<rparr>,
      \<lparr>dp_name = ''canary_10_percent'', dp_traffic_fraction = NFlt (to_f64 (10 / 100)),
       dp_capacity_reservation_fraction = NFlt (to_f64 (15 / 100)), dp_validation_mode = ''canary'',
       dp_rollback_trigger = ''p95 latency, denial rate, or limiter outcome deviates from baseline'',
       dp_required_evidence = [WORKLOAD_ARTIFACT, LIMITER_ARTIFACT]\<rparr>,
      \<lparr>dp_name = ''staged_rollout_50_percent'', dp_traffic_fraction = NFlt (to_f64 (50 / 100)),
       dp_capacity_reservation_fraction = NFlt (to_f64 (60 / 100)),
       dp_validation_mode = ''progressive_rollout'',
       dp_rollback_trigger = ''capacity, token budget, or guardrail coverage moves outside gates'',
       dp_required_evidence = [CAPACITY_ARTIFACT, LIMITER_ARTIFACT]\<rparr>,
      \<lparr>dp_name = ''full_rollout'', dp_traffic_fraction = NFlt (Fin 1),
       dp_capacity_reservation_fraction = NFlt (Fin 1), dp_validation_mode = ''full_review_release'',
       dp_rollback_trigger = ''SLO breach, audit gap, or limiter migration error'',
       dp_required_evidence = [WORKLOAD_ARTIFACT, CAPACITY_ARTIFACT, LIMITER_ARTIFACT]\<rparr>]"

section \<open>Source evidence\<close>

definition capacity_models :: "(string, pyval) dict \<Rightarrow> pyval list result" where
  "capacity_models capacity_report = value_iter (dget_default capacity_report ''models'' (VList []))"

definition capacity_pass :: "pyval list \<Rightarrow> bool result" where
  "capacity_pass models =
     (if models = [] then Inr False
      else all_result (\<lambda>model. bind_result (value_get model ''status'' VNone)
        (\<lambda>s. Inr (s = VStr ''within_synthetic_capacity''))) models)"

definition report_passes :: "(string, pyval) dict \<Rightarrow> bool" where
  "report_passes report \<longleftrightarrow> dget report ''readiness_status'' = Some (VStr ''pass'')"

definition build_source_status ::
  "(string, pyval) dict \<Rightarrow> (string, pyval) dict \<Rightarrow> (string, pyval) dict \<Rightarrow> pyval result" where
  "build_source_status capacity_report workload_report limiter_report =
     bind_result (capacity_models capacity_report) (\<lambda>models.
     bind_result (capacity_pass models) (\<lambda>passed.
     bind_result (value_get (dget_default workload_report ''guardrail_coverage'' (VDict []))
         ''observed_outcomes'' (VList [])) (\<lambda>observed.
       Inr (VDict
         [(''capacity_plan'', VDict [(''artifact'', VStr CAPACITY_ARTIFACT),
            (''status'', VStr (status_text passed)), (''model_count'', VInt (int (length models)))]),
          (''workload_readiness'', VDict [(''artifact'', VStr WORKLOAD_ARTIFACT),
            (''status'', VStr (status_text (report_passes workload_report))),
            (''observed_outcomes'', observed)]),
          (''distributed_limiter'', VDict [(''artifact'', VStr LIMITER_ARTIFACT),
            (''status'', VStr (status_text (report_passes limiter_report))),
            (''rule_count'', dget_default limiter_report ''rule_count'' (VInt 0))])]))))"

section \<open>Phase reports\<close>

definition scaled :: "pyval \<Rightarrow> string \<Rightarrow> pynum \<Rightarrow> nat \<Rightarrow> pyval result" where
  \<comment> \<open>\<^verbatim>\<open>round(model.get(key, 0) * reservation_fraction, digits)\<close>\<close>
  "scaled model key fraction digits =
     bind_result (value_get model key (VInt 0)) (\<lambda>v.
     bind_result (value_num v) (\<lambda>x.
     bind_result (num_mul x fraction) (\<lambda>y. Inr (VNum (num_round digits y)))))"

definition build_model_schedule :: "pyval \<Rightarrow> deployment_phase \<Rightarrow> pyval result" where
  "build_model_schedule model phase =
     (let fraction = dp_capacity_reservation_fraction phase in
      bind_result (scaled model ''policy_request_utilization'' fraction 6) (\<lambda>request_utilization.
      bind_result (scaled model ''policy_input_token_utilization'' fraction 6) (\<lambda>token_utilization.
      bind_result (value_get model ''model_id'' VNone) (\<lambda>model_id.
      bind_result (value_get model ''status'' VNone) (\<lambda>status.
      bind_result (scaled model ''modeled_requests_per_minute'' fraction 3) (\<lambda>requests.
      bind_result (scaled model ''modeled_input_tokens_per_minute'' fraction 3) (\<lambda>tokens.
        Inr (VDict [(''model_id'', model_id), (''capacity_status'', status),
          (''scheduled_policy_request_utilization'', request_utilization),
          (''scheduled_policy_input_token_utilization'', token_utilization),
          (''reserved_requests_per_minute'', requests),
          (''reserved_input_tokens_per_minute'', tokens)]))))))))"

definition value_str :: "pyval \<Rightarrow> string result" where
  "value_str v = (case v of VStr s \<Rightarrow> Inr s | _ \<Rightarrow> Inl (TypeError ''unsupported comparison''))"

definition sort_models :: "pyval list \<Rightarrow> pyval list result" where
  \<comment> \<open>\<^verbatim>\<open>sorted(models, key=lambda model: model.get("model_id", ""))\<close>; one key is not compared\<close>
  "sort_models models =
     bind_result (map_result (\<lambda>m. value_get m ''model_id'' (VStr '''')) models) (\<lambda>keys.
       if length models < 2 then Inr models
       else bind_result (map_result value_str keys) (\<lambda>ids. Inr (map snd (sort_key fst (zip ids models)))))"

fun list_max :: "pynum list \<Rightarrow> pynum" where
  \<comment> \<open>\<^verbatim>\<open>max(..., default=0)\<close>\<close>
  "list_max [] = NInt 0"
| "list_max (x # xs) = foldl num_max x xs"

definition item_num :: "pyval \<Rightarrow> string \<Rightarrow> pynum result" where
  "item_num v key = bind_result (value_item v key) value_num"

definition schedule_utilization :: "pyval \<Rightarrow> pynum result" where
  "schedule_utilization schedule =
     bind_result (item_num schedule ''scheduled_policy_request_utilization'') (\<lambda>a.
     bind_result (item_num schedule ''scheduled_policy_input_token_utilization'') (\<lambda>b.
       Inr (num_max a b)))"

definition build_phase_report :: "pyval list \<Rightarrow> deployment_phase \<Rightarrow> pyval result" where
  "build_phase_report models phase =
     bind_result (map_result (\<lambda>m. build_model_schedule m phase) models) (\<lambda>schedules.
     bind_result (map_result schedule_utilization schedules) (\<lambda>utilizations.
       Inr (VDict [(''name'', VStr (dp_name phase)),
         (''traffic_fraction'', VNum (dp_traffic_fraction phase)),
         (''capacity_reservation_fraction'', VNum (dp_capacity_reservation_fraction phase)),
         (''validation_mode'', VStr (dp_validation_mode phase)),
         (''required_evidence'', VList (map VStr (dp_required_evidence phase))),
         (''rollback_trigger'', VStr (dp_rollback_trigger phase)),
         (''max_scheduled_policy_utilization'', VNum (num_round 6 (list_max utilizations))),
         (''models'', VList schedules)])))"

definition build_phase_reports :: "(string, pyval) dict \<Rightarrow> deployment_phase list \<Rightarrow> pyval list result" where
  "build_phase_reports capacity_report phases =
     bind_result (capacity_models capacity_report) (\<lambda>models.
     bind_result (sort_models models) (\<lambda>models. map_result (build_phase_report models) phases))"

section \<open>Release gates\<close>

definition source_gate :: "string \<Rightarrow> pyval \<Rightarrow> string \<Rightarrow> pyval result" where
  "source_gate name source_status key =
     bind_result (value_item source_status key) (\<lambda>source.
     bind_result (value_item source ''status'') (\<lambda>status.
     bind_result (value_item source ''artifact'') (\<lambda>artifact.
       Inr (VDict [(''name'', VStr name), (''status'', status), (''artifact'', artifact)]))))"

definition rollout_shape_ok :: "deployment_phase list \<Rightarrow> bool" where
  "rollout_shape_ok phases \<longleftrightarrow>
     phases \<noteq> [] \<and> num_eq (dp_traffic_fraction (last phases)) (NFlt (Fin 1))"

definition deployment_release_gates ::
  "pyval \<Rightarrow> pyval list \<Rightarrow> deployment_phase list \<Rightarrow> deployment_thresholds \<Rightarrow> pyval list result" where
  "deployment_release_gates source_status phase_reports phases th =
     bind_result (source_gate ''capacity_plan_passed'' source_status ''capacity_plan'') (\<lambda>capacity_gate.
     bind_result (source_gate ''workload_readiness_passed'' source_status ''workload_readiness'') (\<lambda>workload_gate.
     bind_result (source_gate ''distributed_limiter_evidence_passed'' source_status ''distributed_limiter'')
       (\<lambda>limiter_gate.
     bind_result (map_result (\<lambda>r. item_num r ''max_scheduled_policy_utilization'') phase_reports) (\<lambda>maxima.
     Inr [capacity_gate, workload_gate, limiter_gate,
       release_gate ''phased_rollout_shape'' (status_text (rollout_shape_ok phases))
         [(''phase_names'', VList (map (\<lambda>p. VStr (dp_name p)) phases))],
       release_gate ''staged_capacity_utilization''
         (status_text (num_le (list_max maxima) (dt_max_phase_policy_utilization th)))
         [(''observed_max'', VNum (num_round 6 (list_max maxima))),
          (''threshold'', VNum (dt_max_phase_policy_utilization th))],
       release_gate ''rollback_path_defined''
         (status_text (list_all (\<lambda>p. dp_rollback_trigger p \<noteq> []) phases))
         [(''rollback_trigger_count'', VInt (int (length (filter (\<lambda>p. dp_rollback_trigger p \<noteq> []) phases))))],
       omitted_gate [''request payloads'', ''model responses'', ''identity fields'',
         ''access justification text'', ''auth material'', ''production logs'']]))))"

section \<open>The report\<close>

text \<open>
  \<^verbatim>\<open>capacity_report or build_capacity_report()\<close>: an absent or empty report is built. The
  builders' inputs are the module state they read: policies, the clock and the digest.
\<close>

definition or_build ::
  "(string, pyval) dict option \<Rightarrow> (string, pyval) dict result \<Rightarrow> (string, pyval) dict result" where
  "or_build given built = (case given of Some d \<Rightarrow> if d \<noteq> [] then Inr d else built | None \<Rightarrow> built)"

definition report_gates ::
  "(string, pyval) dict \<times> (string, pyval) dict \<times> (string, pyval) dict \<times> deployment_phase list \<times>
   deployment_thresholds \<Rightarrow> (pyval \<times> pyval list \<times> pyval list) result" where
  "report_gates = (\<lambda>(capacity_report, workload_report, limiter_report, phases, th).
     bind_result (build_source_status capacity_report workload_report limiter_report) (\<lambda>source_status.
     bind_result (build_phase_reports capacity_report phases) (\<lambda>phase_reports.
     bind_result (deployment_release_gates source_status phase_reports phases th) (\<lambda>gates.
       Inr (source_status, phase_reports, gates)))))"

definition deployment_report ::
  "(string, pyval) dict \<times> (string, pyval) dict \<times> (string, pyval) dict \<times> deployment_phase list \<times>
   deployment_thresholds \<Rightarrow> (string, pyval) dict result" where
  "deployment_report i =
     bind_result (report_gates i) (\<lambda>(source_status, phase_reports, gates).
     let readiness_status = readiness gates; th = snd (snd (snd (snd i))) in
     Inr [(''schema_version'', VInt 1),
          (''generated_by'', VStr ''gateway.deployment_readiness''),
          (''scenario_name'', VStr ''synthetic_inference_gateway_deployment_readiness''),
          (''data_scope'', VStr (''synthetic aggregate deployment review; excludes request bodies, decoded '' @
             ''text, identities, secrets, access reasons, and production logs'')),
          (''readiness_status'', VStr readiness_status),
          (''rollout_recommendation'', VStr
             (if readiness_status = ''pass'' then ''ready_for_local_deployment_review''
              else ''hold_for_release_review'')),
          (''source_evidence'', source_status),
          (''thresholds'', VDict
             [(''max_phase_policy_utilization'', VNum (dt_max_phase_policy_utilization th))]),
          (''phases'', VList phase_reports),
          (''rollback_actions'', VList
             [VStr ''restore the prior model policy and limiter descriptors'',
              VStr ''disable the candidate route or deployment target'',
              VStr ''keep prior capacity, workload, and limiter artifacts attached to the release note'']),
          (''release_gates'', VList gates)])"

record report_inputs =
  ri_policies :: "(string, model_policy) dict"
  ri_clock :: "int \<Rightarrow> pyfloat \<times> pyfloat"
  ri_sha256_hex :: "string \<Rightarrow> string"

definition source_capacity ::
  "report_inputs \<Rightarrow> (string, pyval) dict option \<Rightarrow> (string, pyval) dict result" where
  "source_capacity inputs given =
     or_build given (build_capacity_report DEFAULT_CAPACITY_PROFILES (ri_policies inputs) default_assumption)"

definition source_workload ::
  "report_inputs \<Rightarrow> (string, pyval) dict option \<Rightarrow> (string, pyval) dict result" where
  "source_workload inputs given =
     or_build given (build_workload_report DEFAULT_REPLAY_REQUESTS (ri_policies inputs)
       default_replay_thresholds (ri_clock inputs))"

definition source_limiter ::
  "report_inputs \<Rightarrow> (string, pyval) dict option \<Rightarrow> (string, pyval) dict result" where
  "source_limiter inputs given =
     or_build given (Inr (build_distributed_limiter_report (ri_sha256_hex inputs) (ri_policies inputs)))"

definition build_deployment_readiness_report ::
  "report_inputs \<Rightarrow> (string, pyval) dict option \<Rightarrow> (string, pyval) dict option \<Rightarrow>
   (string, pyval) dict option \<Rightarrow> deployment_phase list \<Rightarrow> deployment_thresholds \<Rightarrow>
   (string, pyval) dict result" where
  "build_deployment_readiness_report inputs capacity workload limiter phases th =
     bind_result (validate_deployment_thresholds th) (\<lambda>_.
     bind_result (map_result validate_phase phases) (\<lambda>_.
     bind_result (source_capacity inputs capacity) (\<lambda>capacity_report.
     bind_result (source_workload inputs workload) (\<lambda>workload_report.
     bind_result (source_limiter inputs limiter) (\<lambda>limiter_report.
       deployment_report (capacity_report, workload_report, limiter_report, phases, th))))))"

section \<open>What the report says\<close>

lemma all_result_True:
  "all_result f xs = Inr True \<longleftrightarrow> (\<forall>x \<in> set xs. f x = Inr True)"
  by (induction xs) (auto simp: bind_result_eq_Inr split: if_splits)

lemma capacity_pass_iff:
  "capacity_pass models = Inr True \<longleftrightarrow> models \<noteq> [] \<and>
     (\<forall>m \<in> set models. value_get m ''status'' VNone = Inr (VStr ''within_synthetic_capacity''))"
  by (auto simp: capacity_pass_def all_result_True)

text \<open>The largest of a list is within a bound exactly when each element is, where none is NaN.\<close>

lemma fle_max:
  "a \<noteq> NaN \<Longrightarrow> b \<noteq> NaN \<Longrightarrow> fle (num_val (if flt a b then y else x)) c \<longleftrightarrow> fle a c \<and> fle b c"
  if "num_val x = a" and "num_val y = b"
  using that by (cases a; cases b; cases c) auto

lemma foldl_num_max_le:
  assumes "\<not> num_nan x" and "\<forall>y \<in> set xs. \<not> num_nan y"
  shows "num_le (foldl num_max x xs) b \<longleftrightarrow> num_le x b \<and> (\<forall>y \<in> set xs. num_le y b)"
  using assms
proof (induction xs arbitrary: x)
  case (Cons y ys)
  have "\<not> num_nan (num_max x y)" using Cons.prems by (simp add: num_max_def)
  moreover have "num_le (num_max x y) b \<longleftrightarrow> num_le x b \<and> num_le y b"
    using Cons.prems by (simp add: num_max_def num_lt_def num_le_def num_nan_def fle_max)
  ultimately show ?case using Cons by simp
qed simp

definition deployment_ready ::
  "(string, pyval) dict \<times> (string, pyval) dict \<times> (string, pyval) dict \<times> deployment_phase list \<times>
   deployment_thresholds \<Rightarrow> bool" where
  "deployment_ready = (\<lambda>(capacity_report, workload_report, limiter_report, phases, th).
     bind_result (capacity_models capacity_report) capacity_pass = Inr True \<and>
     report_passes workload_report \<and> report_passes limiter_report \<and> rollout_shape_ok phases \<and>
     bind_result (bind_result (build_phase_reports capacity_report phases)
         (map_result (\<lambda>r. item_num r ''max_scheduled_policy_utilization'')))
       (\<lambda>maxima. Inr (num_le (list_max maxima) (dt_max_phase_policy_utilization th))) = Inr True \<and>
     list_all (\<lambda>p. dp_rollback_trigger p \<noteq> []) phases)"

lemma gate_passes_source_gate:
  "source_gate name st key = Inr g \<Longrightarrow>
     gate_passes g \<longleftrightarrow> (\<exists>s. value_item st key = Inr s \<and> value_item s ''status'' = Inr (VStr ''pass''))"
  by (auto simp: source_gate_def gate_passes_def bind_result_eq_Inr dict_item_def)

lemma report_gates_ready:
  assumes "report_gates i = Inr (source_status, phase_reports, gates)"
  shows "list_all gate_passes gates \<longleftrightarrow> deployment_ready i"
proof -
  obtain cap wl lm phases th where i: "i = (cap, wl, lm, phases, th)" by (cases i)
  show ?thesis using assms
    by (auto simp: i report_gates_def deployment_ready_def build_source_status_def bind_result_eq_Inr
        deployment_release_gates_def gate_passes_source_gate dict_item_def capacity_pass_iff [symmetric])
qed

interpretation deployment: release_report deployment_report
  "\<lambda>i. bind_result (report_gates i) (\<lambda>(_, _, gates). Inr gates)" deployment_ready
  "''ready_for_local_deployment_review''" "''hold_for_release_review''"
  by unfold_locales (auto simp: deployment_report_def Let_def report_gates_ready bind_result_eq_Inr
      split: prod.splits)

lemma deployment_ready_cases: "deployment_ready (cap, wl, lm, phases, th) \<longleftrightarrow>
    (\<exists>models. capacity_models cap = Inr models \<and> models \<noteq> [] \<and>
       (\<forall>m \<in> set models. value_get m ''status'' VNone = Inr (VStr ''within_synthetic_capacity''))) \<and>
    report_passes wl \<and> report_passes lm \<and> rollout_shape_ok phases \<and>
    (\<exists>reports maxima. build_phase_reports cap phases = Inr reports \<and>
       map_result (\<lambda>r. item_num r ''max_scheduled_policy_utilization'') reports = Inr maxima \<and>
       num_le (list_max maxima) (dt_max_phase_policy_utilization th)) \<and>
    list_all (\<lambda>p. dp_rollback_trigger p \<noteq> []) phases"
  unfolding deployment_ready_def prod.case bind_result_eq_Inr capacity_pass_iff by (simp, blast)

lemma deployment_pass_cases:
  assumes "build_deployment_readiness_report inputs capacity workload limiter phases th = Inr r"
  shows "\<exists>cap wl lm. source_capacity inputs capacity = Inr cap \<and> source_workload inputs workload = Inr wl \<and>
     source_limiter inputs limiter = Inr lm \<and>
     (dget r ''readiness_status'' = Some (VStr ''pass'') \<longleftrightarrow>
       (\<exists>models. capacity_models cap = Inr models \<and> models \<noteq> [] \<and>
          (\<forall>m \<in> set models. value_get m ''status'' VNone = Inr (VStr ''within_synthetic_capacity''))) \<and>
       report_passes wl \<and> report_passes lm \<and> rollout_shape_ok phases \<and>
       (\<exists>reports maxima. build_phase_reports cap phases = Inr reports \<and>
          map_result (\<lambda>r. item_num r ''max_scheduled_policy_utilization'') reports = Inr maxima \<and>
          num_le (list_max maxima) (dt_max_phase_policy_utilization th)))"
proof -
  obtain u cap wl lm where v: "map_result validate_phase phases = Inr u"
    and c: "source_capacity inputs capacity = Inr cap" and w: "source_workload inputs workload = Inr wl"
    and l: "source_limiter inputs limiter = Inr lm"
    and r: "deployment_report (cap, wl, lm, phases, th) = Inr r"
    using assms unfolding build_deployment_readiness_report_def bind_result_eq_Inr by blast
  have "dp_rollback_trigger p \<noteq> []" if "p \<in> set phases" for p
    using map_result_each [OF v that] by (auto simp: validate_phase_def)
  then have "deployment_ready (cap, wl, lm, phases, th) \<longleftrightarrow>
       (\<exists>models. capacity_models cap = Inr models \<and> models \<noteq> [] \<and>
          (\<forall>m \<in> set models. value_get m ''status'' VNone = Inr (VStr ''within_synthetic_capacity''))) \<and>
       report_passes wl \<and> report_passes lm \<and> rollout_shape_ok phases \<and>
       (\<exists>reports maxima. build_phase_reports cap phases = Inr reports \<and>
          map_result (\<lambda>r. item_num r ''max_scheduled_policy_utilization'') reports = Inr maxima \<and>
          num_le (list_max maxima) (dt_max_phase_policy_utilization th))"
    using deployment_ready_cases [of cap wl lm phases th] by (simp add: list_all_iff)
  then show ?thesis unfolding deployment.ready_iff [OF r]
    by (intro exI [of _ cap] exI [of _ wl] exI [of _ lm] conjI c w l)
qed

theorem deployment_ready_iff:
  assumes "build_deployment_readiness_report inputs capacity workload limiter phases th = Inr r"
  shows "\<exists>cap wl lm. source_capacity inputs capacity = Inr cap \<and> source_workload inputs workload = Inr wl \<and>
     source_limiter inputs limiter = Inr lm \<and>
     (dget r ''readiness_status'' = Some (VStr ''pass'') \<longleftrightarrow>
       (\<exists>models. capacity_models cap = Inr models \<and> models \<noteq> [] \<and>
          (\<forall>m \<in> set models. value_get m ''status'' VNone = Inr (VStr ''within_synthetic_capacity''))) \<and>
       report_passes wl \<and> report_passes lm \<and> rollout_shape_ok phases \<and>
       (\<exists>reports maxima. build_phase_reports cap phases = Inr reports \<and>
          map_result (\<lambda>r. item_num r ''max_scheduled_policy_utilization'') reports = Inr maxima \<and>
          num_le (list_max maxima) (dt_max_phase_policy_utilization th)))"
  using assms by (rule deployment_pass_cases)

section \<open>A pass over built reports rests on their evidence\<close>

lemma capacity_report_models:
  assumes "build_capacity_report profiles policies a = Inr cap" and "capacity_models cap = Inr models"
    and "\<forall>m \<in> set models. value_get m ''status'' VNone = Inr (VStr ''within_synthetic_capacity'')"
    and "p \<in> set profiles"
  shows "\<exists>policy q t. dget policies (cp_model_id p) = Some policy \<and>
    policy_ratio p a (cp_requests_per_second p) (requests_per_minute policy) = Inr q \<and>
    policy_ratio p a (cp_input_tokens_per_second p) (input_tokens_per_minute policy) = Inr t \<and>
    num_le q (NInt 1) \<and> (num_le t (NInt 1) \<or> num_nan t)"
proof -
  let ?f = "\<lambda>p. bind_result (policy_item policies (cp_model_id p)) (\<lambda>m.
      bind_result (estimate_profile_capacity p m a) (\<lambda>e. Inr (VDict e)))"
  have models: "map_result ?f profiles = Inr models"
    using assms(1,2) by (auto simp: build_capacity_report_def bind_result_eq_Inr capacity_models_def dget_default_def)
  obtain v where v: "?f p = Inr v" "v \<in> set models"
    using map_result_Inr_nth [OF models] map_result_Inr_length [OF models] assms(4)
    by (metis in_set_conv_nth)
  obtain policy e where p: "dget policies (cp_model_id p) = Some policy"
    and e: "estimate_profile_capacity p policy a = Inr e" "v = VDict e"
    using v(1) by (auto simp: policy_item_def split: option.splits)
  have "dget e ''status'' = Some (VStr ''within_synthetic_capacity'')"
    using bspec [OF assms(3) v(2)] by (auto simp: e(2) dget_default_def split: option.splits)
  with capacity_within_cases [OF e(1)] p show ?thesis by blast
qed

lemma or_build_Some: "d \<noteq> [] \<Longrightarrow> or_build (Some d) b = Inr x \<longleftrightarrow> x = d"
  by (auto simp: or_build_def)


end
