(* ===== verification/Resilience.thy ===== *)
theory Resilience
  imports Deployment
begin

text \<open>
  \<^verbatim>\<open>gateway/resilience_drill.py\<close>: the checks of each probe against the thresholds, the
  scenario coverage, and the gates over the workload and deployment reports.
\<close>

section \<open>Probes and thresholds\<close>

definition REQUIRED_SCENARIOS :: "string list" where
  "REQUIRED_SCENARIOS =
     [''backend_latency_spike'', ''backend_error_burst'', ''queue_saturation'', ''audit_sink_backpressure'']"

record resilience_probe =
  sp_name :: string
  sp_scenario :: string
  sp_affected_model :: string
  sp_injected_condition :: string
  sp_detection_signal :: string
  sp_mitigation_path :: string
  sp_rollback_action :: string
  sp_baseline_p95_latency_ms :: pynum
  sp_observed_p95_latency_ms :: pynum
  sp_observed_error_rate :: pynum
  sp_observed_queue_depth :: int
  sp_recovery_seconds :: pynum

definition check_named :: "string \<Rightarrow> string \<Rightarrow> unit result" where
  "check_named name s = check (s \<noteq> []) (ValueError (name @ '' must not be empty''))"

definition validate_probe :: "resilience_probe \<Rightarrow> unit result" where
  "validate_probe p =
     bind_result (check_named ''probe name'' (sp_name p)) (\<lambda>_.
     bind_result (check_named ''probe scenario'' (sp_scenario p)) (\<lambda>_.
     bind_result (check_named ''affected_model'' (sp_affected_model p)) (\<lambda>_.
     bind_result (check_named ''injected_condition'' (sp_injected_condition p)) (\<lambda>_.
     bind_result (check_named ''detection_signal'' (sp_detection_signal p)) (\<lambda>_.
     bind_result (check_named ''mitigation_path'' (sp_mitigation_path p)) (\<lambda>_.
     bind_result (check_named ''rollback_action'' (sp_rollback_action p)) (\<lambda>_.
     bind_result (check_positive ''baseline_p95_latency_ms'' (sp_baseline_p95_latency_ms p)) (\<lambda>_.
     bind_result (check_positive ''observed_p95_latency_ms'' (sp_observed_p95_latency_ms p)) (\<lambda>_.
     bind_result (check (num_le (NInt 0) (sp_observed_error_rate p) \<and> num_le (sp_observed_error_rate p) (NInt 1))
       (ValueError ''observed_error_rate must be in [0, 1]'')) (\<lambda>_.
     bind_result (check (0 \<le> sp_observed_queue_depth p)
       (ValueError ''observed_queue_depth must be non-negative'')) (\<lambda>_.
       check_positive ''recovery_seconds'' (sp_recovery_seconds p))))))))))))"

record resilience_thresholds =
  st_max_latency_multiplier :: pynum
  st_max_error_rate :: pynum
  st_max_queue_depth :: int
  st_max_recovery_seconds :: pynum
  st_required_scenarios :: "string list"

definition default_resilience_thresholds :: resilience_thresholds where
  "default_resilience_thresholds =
     \<lparr>st_max_latency_multiplier = NFlt (to_f64 (150 / 100)), st_max_error_rate = NFlt (to_f64 (2 / 100)),
      st_max_queue_depth = 64, st_max_recovery_seconds = NFlt (Fin 60),
      st_required_scenarios = REQUIRED_SCENARIOS\<rparr>"

definition validate_resilience_thresholds :: "resilience_thresholds \<Rightarrow> unit result" where
  "validate_resilience_thresholds th =
     bind_result (check (\<not> num_le (st_max_latency_multiplier th) (NInt 1))
       (ValueError ''max_latency_multiplier must be greater than 1'')) (\<lambda>_.
     bind_result (check (num_le (NInt 0) (st_max_error_rate th) \<and> num_le (st_max_error_rate th) (NInt 1))
       (ValueError ''max_error_rate must be in [0, 1]'')) (\<lambda>_.
     bind_result (check (0 < st_max_queue_depth th) (ValueError ''max_queue_depth must be positive'')) (\<lambda>_.
     bind_result (check_positive ''max_recovery_seconds'' (st_max_recovery_seconds th)) (\<lambda>_.
       check (st_required_scenarios th \<noteq> []) (ValueError ''required_scenarios must not be empty'')))))"

definition DEFAULT_RESILIENCE_PROBES :: "resilience_probe list" where
  "DEFAULT_RESILIENCE_PROBES =
     [\<lparr>sp_name = ''latency_spike_shadow_probe'', sp_scenario = ''backend_latency_spike'',
       sp_affected_model = ''mission-summarizer'',
       sp_injected_condition = ''synthetic backend p95 latency increase during shadow validation'',
       sp_detection_signal = ''p95 latency gate moves above baseline while guardrail coverage remains complete'',
       sp_mitigation_path = ''hold the serving-path change and keep prior route active'',
       sp_rollback_action = ''restore prior model route and attach the workload-readiness artifact'',
       sp_baseline_p95_latency_ms = NFlt (Fin 410), sp_observed_p95_latency_ms = NFlt (Fin 488),
       sp_observed_error_rate = NFlt (Fin 0), sp_observed_queue_depth = 17,
       sp_recovery_seconds = NFlt (Fin 28)\<rparr>,
      \<lparr>sp_name = ''error_burst_canary_probe'', sp_scenario = ''backend_error_burst'',
       sp_affected_model = ''threat-triage'',
       sp_injected_condition = ''synthetic transient backend error burst during canary review'',
       sp_detection_signal = ''error-rate gate trips before full rollout is allowed'',
       sp_mitigation_path = ''freeze canary expansion and compare against the last passing deployment evidence'',
       sp_rollback_action = ''disable candidate backend target and restore prior limiter descriptors'',
       sp_baseline_p95_latency_ms = NFlt (Fin 530), sp_observed_p95_latency_ms = NFlt (Fin 545),
       sp_observed_error_rate = NFlt (to_f64 (15 / 1000)), sp_observed_queue_depth = 12,
       sp_recovery_seconds = NFlt (Fin 35)\<rparr>,
      \<lparr>sp_name = ''queue_saturation_staged_probe'', sp_scenario = ''queue_saturation'',
       sp_affected_model = ''mission-summarizer'',
       sp_injected_condition = ''synthetic queue-depth pressure at staged rollout load'',
       sp_detection_signal = ''queue depth approaches the drill limit before request and token budgets regress'',
       sp_mitigation_path = ''pause staged rollout and reduce traffic fraction'',
       sp_rollback_action = ''return traffic to the prior capacity reservation'',
       sp_baseline_p95_latency_ms = NFlt (Fin 410), sp_observed_p95_latency_ms = NFlt (Fin 585),
       sp_observed_error_rate = NFlt (to_f64 (5 / 1000)), sp_observed_queue_depth = 48,
       sp_recovery_seconds = NFlt (Fin 42)\<rparr>,
      \<lparr>sp_name = ''audit_backpressure_probe'', sp_scenario = ''audit_sink_backpressure'',
       sp_affected_model = ''benchmark-echo'',
       sp_injected_condition = ''synthetic audit sink delay while health traffic remains allowed'',
       sp_detection_signal = ''audit durability warning appears before inference latency breaches the drill limit'',
       sp_mitigation_path = ''hold policy changes until audit sink latency returns to baseline'',
       sp_rollback_action = ''restore prior audit sink configuration and keep sanitized trace evidence attached'',
       sp_baseline_p95_latency_ms = NFlt (Fin 95), sp_observed_p95_latency_ms = NFlt (Fin 125),
       sp_observed_error_rate = NFlt (Fin 0), sp_observed_queue_depth = 8,
       sp_recovery_seconds = NFlt (Fin 18)\<rparr>]"

section \<open>Probe reports\<close>

definition probe_checks :: "resilience_probe \<Rightarrow> resilience_thresholds \<Rightarrow> pynum \<Rightarrow> (string \<times> bool) list" where
  "probe_checks p th latency_limit_ms =
     [(''latency_within_multiplier'', num_le (sp_observed_p95_latency_ms p) latency_limit_ms),
      (''error_rate_within_limit'', num_le (sp_observed_error_rate p) (st_max_error_rate th)),
      (''queue_depth_within_limit'', sp_observed_queue_depth p \<le> st_max_queue_depth th),
      (''recovery_within_limit'', num_le (sp_recovery_seconds p) (st_max_recovery_seconds th)),
      (''mitigation_path_defined'', sp_mitigation_path p \<noteq> [] \<and> sp_rollback_action p \<noteq> [])]"

definition build_probe_report :: "resilience_thresholds \<Rightarrow> resilience_probe \<Rightarrow> pyval result" where
  "build_probe_report th p =
     bind_result (num_mul (sp_baseline_p95_latency_ms p) (st_max_latency_multiplier th)) (\<lambda>latency_limit_ms.
     let checks = probe_checks p th latency_limit_ms in
     Inr (VDict
       [(''name'', VStr (sp_name p)), (''scenario'', VStr (sp_scenario p)),
        (''affected_model'', VStr (sp_affected_model p)),
        (''injected_condition'', VStr (sp_injected_condition p)),
        (''status'', VStr (status_text (list_all snd checks))),
        (''baseline_p95_latency_ms'', VNum (num_round 3 (sp_baseline_p95_latency_ms p))),
        (''observed_p95_latency_ms'', VNum (num_round 3 (sp_observed_p95_latency_ms p))),
        (''latency_limit_ms'', VNum (num_round 3 latency_limit_ms)),
        (''observed_error_rate'', VNum (num_round 6 (sp_observed_error_rate p))),
        (''observed_queue_depth'', VInt (sp_observed_queue_depth p)),
        (''recovery_seconds'', VNum (num_round 3 (sp_recovery_seconds p))),
        (''detection_signal'', VStr (sp_detection_signal p)),
        (''mitigation_path'', VStr (sp_mitigation_path p)),
        (''rollback_action'', VStr (sp_rollback_action p)),
        (''checks'', VDict (map (\<lambda>(k, b). (k, VBool b)) checks))]))"

section \<open>Source evidence, coverage and gates\<close>

definition held_source :: "string \<Rightarrow> string \<Rightarrow> pyval" where
  "held_source artifact count_key =
     VDict [(''artifact'', VStr artifact), (''status'', VStr ''hold''), (count_key, VInt 0)]"

definition build_source_evidence ::
  "(string, pyval) dict \<Rightarrow> (string, pyval) dict \<Rightarrow> pyval result" where
  "build_source_evidence workload_report dep_report =
     bind_result (value_get (dget_default workload_report ''guardrail_coverage'' (VDict []))
         ''observed_outcomes'' (VList [])) (\<lambda>observed.
     bind_result (value_iter (dget_default dep_report ''phases'' (VList []))) (\<lambda>phases.
     let source_evidence = dget_default dep_report ''source_evidence'' (VDict []) in
     bind_result (value_get source_evidence ''capacity_plan'' (held_source CAPACITY_ARTIFACT ''model_count''))
       (\<lambda>capacity_plan.
     bind_result (value_get source_evidence ''distributed_limiter'' (held_source LIMITER_ARTIFACT ''rule_count''))
       (\<lambda>distributed_limiter.
       Inr (VDict
         [(''workload_readiness'', VDict [(''artifact'', VStr WORKLOAD_ARTIFACT),
            (''status'', VStr (status_text (report_passes workload_report))),
            (''observed_outcomes'', observed)]),
          (''deployment_readiness'', VDict
            [(''artifact'', VStr ''artifacts/deployment-readiness-evidence.json''),
             (''status'', VStr (status_text (report_passes dep_report))),
             (''phase_count'', VInt (int (length phases)))]),
          (''capacity_plan'', capacity_plan), (''distributed_limiter'', distributed_limiter)])))))"

definition item_str :: "pyval \<Rightarrow> string \<Rightarrow> string result" where
  "item_str v key = bind_result (value_item v key) value_str"

definition build_scenario_coverage ::
  "pyval list \<Rightarrow> resilience_thresholds \<Rightarrow> (string list \<times> string list) result" where
  "build_scenario_coverage probe_reports th =
     bind_result (map_result (\<lambda>r. item_str r ''scenario'') probe_reports) (\<lambda>scenarios.
     let observed_scenarios = sort (remdups scenarios) in
       Inr (observed_scenarios, filter (\<lambda>s. s \<notin> set observed_scenarios) (st_required_scenarios th)))"

definition named_reports :: "(pyval \<Rightarrow> bool result) \<Rightarrow> pyval list \<Rightarrow> pyval list result" where
  \<comment> \<open>\<^verbatim>\<open>[probe["name"] for probe in probe_reports if ...]\<close>\<close>
  "named_reports P reports =
     bind_result (map_result (\<lambda>r. bind_result (P r) (\<lambda>b.
       if b then bind_result (value_item r ''name'') (\<lambda>n. Inr [n]) else Inr [])) reports) (\<lambda>names.
       Inr (concat names))"

definition report_held :: "pyval \<Rightarrow> bool result" where
  "report_held r = bind_result (value_get r ''status'' VNone) (\<lambda>s. Inr (s \<noteq> VStr ''pass''))"

definition report_unmitigated :: "pyval \<Rightarrow> bool result" where
  "report_unmitigated r =
     bind_result (value_get r ''mitigation_path'' VNone) (\<lambda>m.
     bind_result (value_get r ''rollback_action'' VNone) (\<lambda>a. Inr (\<not> truthy m \<or> \<not> truthy a)))"

definition resilience_release_gates ::
  "pyval list \<Rightarrow> pyval \<Rightarrow> resilience_thresholds \<Rightarrow> pyval list result" where
  "resilience_release_gates probe_reports source_evidence th =
     bind_result (build_scenario_coverage probe_reports th) (\<lambda>(observed, missing).
     bind_result (named_reports report_held probe_reports) (\<lambda>held_probes.
     bind_result (named_reports report_unmitigated probe_reports) (\<lambda>missing_mitigations.
     bind_result (source_gate ''workload_readiness_passed'' source_evidence ''workload_readiness'') (\<lambda>workload_gate.
     bind_result (source_gate ''deployment_readiness_passed'' source_evidence ''deployment_readiness'')
       (\<lambda>deployment_gate.
     bind_result (source_gate ''capacity_plan_passed'' source_evidence ''capacity_plan'') (\<lambda>capacity_gate.
     bind_result (source_gate ''distributed_limiter_evidence_passed'' source_evidence ''distributed_limiter'')
       (\<lambda>limiter_gate.
       Inr [workload_gate, deployment_gate, capacity_gate, limiter_gate,
         release_gate ''resilience_scenario_coverage'' (status_text (missing = []))
           [(''observed_scenarios'', VList (map VStr observed)),
            (''missing_scenarios'', VList (map VStr missing))],
         release_gate ''resilience_probe_thresholds'' (status_text (held_probes = []))
           [(''held_probes'', VList held_probes)],
         release_gate ''mitigation_paths_defined'' (status_text (missing_mitigations = []))
           [(''missing_mitigations'', VList missing_mitigations)],
         omitted_gate [''request payloads'', ''model responses'', ''identity fields'',
           ''access justification text'', ''auth material'', ''production logs'']])))))))"

section \<open>The report\<close>

record drill_inputs =
  di_probes :: "resilience_probe list"
  di_thresholds :: resilience_thresholds
  di_workload_report :: "(string, pyval) dict"
  di_deployment_report :: "(string, pyval) dict"

definition drill_parts :: "drill_inputs \<Rightarrow> (pyval list \<times> pyval \<times> pyval list) result" where
  "drill_parts i =
     bind_result (map_result (build_probe_report (di_thresholds i)) (di_probes i)) (\<lambda>probe_reports.
     bind_result (build_source_evidence (di_workload_report i) (di_deployment_report i)) (\<lambda>source_evidence.
     bind_result (resilience_release_gates probe_reports source_evidence (di_thresholds i)) (\<lambda>gates.
       Inr (probe_reports, source_evidence, gates))))"

definition drill_report :: "drill_inputs \<Rightarrow> (string, pyval) dict result" where
  "drill_report i =
     bind_result (drill_parts i) (\<lambda>(probe_reports, source_evidence, gates).
     bind_result (build_scenario_coverage probe_reports (di_thresholds i)) (\<lambda>(observed, missing).
     let readiness_status = readiness gates; th = di_thresholds i in
     Inr [(''schema_version'', VInt 1),
          (''generated_by'', VStr ''gateway.resilience_drill''),
          (''scenario_name'', VStr ''synthetic_inference_gateway_resilience_drill''),
          (''data_scope'', VStr (''synthetic aggregate resilience drill; excludes request bodies, decoded text, '' @
             ''identities, secrets, access reasons, and production logs'')),
          (''readiness_status'', VStr readiness_status),
          (''rollout_recommendation'', VStr
             (if readiness_status = ''pass'' then ''ready_for_resilience_review''
              else ''hold_for_resilience_investigation'')),
          (''thresholds'', VDict
             [(''max_latency_multiplier'', VNum (st_max_latency_multiplier th)),
              (''max_error_rate'', VNum (st_max_error_rate th)),
              (''max_queue_depth'', VInt (st_max_queue_depth th)),
              (''max_recovery_seconds'', VNum (st_max_recovery_seconds th)),
              (''required_scenarios'', VList (map VStr (st_required_scenarios th)))]),
          (''source_evidence'', source_evidence),
          (''scenario_coverage'', VDict [(''observed_scenarios'', VList (map VStr observed)),
             (''missing_scenarios'', VList (map VStr missing))]),
          (''probes'', VList probe_reports),
          (''release_gates'', VList gates)]))"

definition build_resilience_drill_report ::
  "report_inputs \<Rightarrow> resilience_probe list \<Rightarrow> resilience_thresholds \<Rightarrow> (string, pyval) dict option \<Rightarrow>
   (string, pyval) dict option \<Rightarrow> (string, pyval) dict result" where
  "build_resilience_drill_report inputs probes th workload deployment =
     bind_result (validate_resilience_thresholds th) (\<lambda>_.
     bind_result (check (probes \<noteq> []) (ValueError ''probes must not be empty'')) (\<lambda>_.
     bind_result (map_result validate_probe probes) (\<lambda>_.
     bind_result (source_workload inputs workload) (\<lambda>workload_report.
     bind_result (or_build deployment (build_deployment_readiness_report inputs None (Some workload_report) None
       DEFAULT_DEPLOYMENT_PHASES default_deployment_thresholds)) (\<lambda>dep_report.
       drill_report \<lparr>di_probes = probes, di_thresholds = th, di_workload_report = workload_report,
         di_deployment_report = dep_report\<rparr>)))))"

section \<open>What the report says\<close>

text \<open>A probe is within the thresholds, its latency limit being the rounded product.\<close>

definition probe_within :: "resilience_thresholds \<Rightarrow> resilience_probe \<Rightarrow> bool" where
  "probe_within th p \<longleftrightarrow>
     (case num_mul (sp_baseline_p95_latency_ms p) (st_max_latency_multiplier th) of
        Inl e \<Rightarrow> False
      | Inr limit \<Rightarrow> num_le (sp_observed_p95_latency_ms p) limit) \<and>
     num_le (sp_observed_error_rate p) (st_max_error_rate th) \<and>
     sp_observed_queue_depth p \<le> st_max_queue_depth th \<and>
     num_le (sp_recovery_seconds p) (st_max_recovery_seconds th)"

definition source_passes :: "(string, pyval) dict \<Rightarrow> string \<Rightarrow> bool" where
  "source_passes report key \<longleftrightarrow>
     bind_result (value_item (dget_default report ''source_evidence'' (VDict [])) key)
       (\<lambda>s. value_item s ''status'') = Inr (VStr ''pass'')"

definition drill_ready :: "drill_inputs \<Rightarrow> bool" where
  "drill_ready i \<longleftrightarrow>
     report_passes (di_workload_report i) \<and> report_passes (di_deployment_report i) \<and>
     source_passes (di_deployment_report i) ''capacity_plan'' \<and>
     source_passes (di_deployment_report i) ''distributed_limiter'' \<and>
     set (st_required_scenarios (di_thresholds i)) \<subseteq> sp_scenario ` set (di_probes i) \<and>
     (\<forall>p \<in> set (di_probes i). probe_within (di_thresholds i) p \<and>
        sp_mitigation_path p \<noteq> [] \<and> sp_rollback_action p \<noteq> [])"

lemma probe_report_fields:
  assumes "build_probe_report th p = Inr r"
  shows "item_str r ''scenario'' = Inr (sp_scenario p)"
    and "value_item r ''name'' = Inr (VStr (sp_name p))"
    and "report_held r = Inr (\<not> (probe_within th p \<and> sp_mitigation_path p \<noteq> [] \<and> sp_rollback_action p \<noteq> []))"
    and "report_unmitigated r = Inr (sp_mitigation_path p = [] \<or> sp_rollback_action p = [])"
  using assms
  by (auto simp: build_probe_report_def Let_def item_str_def value_str_def report_held_def report_unmitigated_def
      probe_checks_def probe_within_def dict_item_def dget_default_def)

text \<open>A function of the reports, known on each of them, over the whole list.\<close>

lemma map_result_reports:
  assumes "map_result f xs = Inr rs" and "\<And>x r. x \<in> set xs \<Longrightarrow> f x = Inr r \<Longrightarrow> g r = Inr (h x)"
  shows "map_result g rs = Inr (map h xs)"
  using assms
proof (induction xs arbitrary: rs)
  case (Cons x xs)
  obtain r rs' where r: "f x = Inr r" "map_result f xs = Inr rs'" "rs = r # rs'"
    using Cons.prems(1) by auto
  have "map_result g rs' = Inr (map h xs)"
    by (rule Cons.IH [OF r(2)]) (rule Cons.prems(2), simp_all)
  moreover have "g r = Inr (h x)" by (rule Cons.prems(2)) (simp_all add: r(1))
  ultimately show ?case by (simp add: r(3))
qed simp

lemma named_reports_reports:
  assumes "map_result (build_probe_report th) ps = Inr rs"
    and "\<And>p r. build_probe_report th p = Inr r \<Longrightarrow> P r = Inr (Q p)"
  shows "named_reports P rs = Inr (map (\<lambda>p. VStr (sp_name p)) (filter Q ps))"
proof -
  have "map_result (\<lambda>r. bind_result (P r) (\<lambda>b.
      if b then bind_result (value_item r ''name'') (\<lambda>n. Inr [n]) else Inr [])) rs =
      Inr (map (\<lambda>p. if Q p then [VStr (sp_name p)] else []) ps)"
    using assms(1) by (rule map_result_reports) (simp add: assms(2) probe_report_fields(2))
  moreover have "concat (map (\<lambda>p. if Q p then [VStr (sp_name p)] else []) ps) =
      map (\<lambda>p. VStr (sp_name p)) (filter Q ps)" by (induction ps) auto
  ultimately show ?thesis by (simp add: named_reports_def)
qed

lemma held_source_gate: "value_item (held_source a k) ''status'' \<noteq> Inr (VStr ''pass'')"
  by (simp add: held_source_def dict_item_def)

lemma source_passes_get:
  assumes "value_get (dget_default report ''source_evidence'' (VDict [])) key (held_source a k) = Inr v"
  shows "source_passes report key \<longleftrightarrow> value_item v ''status'' = Inr (VStr ''pass'')"
proof -
  obtain d where d: "dget_default report ''source_evidence'' (VDict []) = VDict d" and v: "v = dget_default d key (held_source a k)"
    using assms by (cases "dget_default report ''source_evidence'' (VDict [])") (simp_all add: value_get_def)
  have "source_passes report key \<longleftrightarrow>
      bind_result (dict_item d key) (\<lambda>s. value_item s ''status'') = Inr (VStr ''pass'')"
    by (simp only: source_passes_def d value_item_dict)
  then show ?thesis using held_source_gate [of a k]
    by (cases "dget d key") (simp_all add: v dict_item_def dget_default_def)
qed

lemma drill_gates_ready:
  assumes "drill_parts i = Inr (probe_reports, source_evidence, gates)"
  shows "list_all gate_passes gates \<longleftrightarrow> drill_ready i"
proof -
  obtain probes th wl dp where i: "i = \<lparr>di_probes = probes, di_thresholds = th, di_workload_report = wl,
      di_deployment_report = dp\<rparr>" by (cases i)
  have reports: "map_result (build_probe_report th) probes = Inr probe_reports"
    and evidence: "build_source_evidence wl dp = Inr source_evidence"
    and gates: "resilience_release_gates probe_reports source_evidence th = Inr gates"
    using assms by (auto simp: i drill_parts_def)
  have scenarios: "map_result (\<lambda>r. item_str r ''scenario'') probe_reports = Inr (map sp_scenario probes)"
    using reports by (rule map_result_reports) (rule probe_report_fields(1))
  note held = named_reports_reports [OF reports probe_report_fields(3)]
  note unmitigated = named_reports_reports [OF reports probe_report_fields(4)]
  obtain cp dl where cp: "value_get (dget_default dp ''source_evidence'' (VDict [])) ''capacity_plan''
      (held_source CAPACITY_ARTIFACT ''model_count'') = Inr cp"
    and dl: "value_get (dget_default dp ''source_evidence'' (VDict [])) ''distributed_limiter''
      (held_source LIMITER_ARTIFACT ''rule_count'') = Inr dl"
    and ev: "value_item source_evidence ''capacity_plan'' = Inr cp"
      "value_item source_evidence ''distributed_limiter'' = Inr dl"
      "\<exists>s. value_item source_evidence ''workload_readiness'' = Inr s \<and>
         value_item s ''status'' = Inr (VStr (status_text (report_passes wl)))"
      "\<exists>s. value_item source_evidence ''deployment_readiness'' = Inr s \<and>
         value_item s ''status'' = Inr (VStr (status_text (report_passes dp)))"
    using evidence by (auto simp: build_source_evidence_def Let_def dict_item_def)
  show ?thesis
    using gates ev source_passes_get [OF cp] source_passes_get [OF dl]
    by (auto simp: i resilience_release_gates_def build_scenario_coverage_def scenarios held unmitigated
        drill_ready_def gate_passes_source_gate filter_empty_conv Let_def)
qed

interpretation drill: release_report drill_report
  "\<lambda>i. bind_result (drill_parts i) (\<lambda>(_, _, gates). Inr gates)" drill_ready
  "''ready_for_resilience_review''" "''hold_for_resilience_investigation''"
  by unfold_locales (auto simp: drill_report_def Let_def drill_gates_ready bind_result_eq_Inr
      split: prod.splits)

text \<open>
  A drill passes exactly when both source reports pass, the deployment report's capacity
  and limiter evidence passes, every required scenario is probed, and every probe is within the
  thresholds.
\<close>

theorem resilience_ready_iff:
  assumes "build_resilience_drill_report inputs probes th workload deployment = Inr r"
  shows "\<exists>wl dp. source_workload inputs workload = Inr wl \<and>
    or_build deployment (build_deployment_readiness_report inputs None (Some wl) None
       DEFAULT_DEPLOYMENT_PHASES default_deployment_thresholds) = Inr dp \<and>
    (dget r ''readiness_status'' = Some (VStr ''pass'') \<longleftrightarrow>
       report_passes wl \<and> report_passes dp \<and> source_passes dp ''capacity_plan'' \<and>
       source_passes dp ''distributed_limiter'' \<and>
       set (st_required_scenarios th) \<subseteq> sp_scenario ` set probes \<and> (\<forall>p \<in> set probes. probe_within th p))"
proof -
  obtain u wl dp where v: "map_result validate_probe probes = Inr u"
    and wl: "source_workload inputs workload = Inr wl"
    and dp: "or_build deployment (build_deployment_readiness_report inputs None (Some wl) None
       DEFAULT_DEPLOYMENT_PHASES default_deployment_thresholds) = Inr dp"
    and r: "drill_report \<lparr>di_probes = probes, di_thresholds = th, di_workload_report = wl,
         di_deployment_report = dp\<rparr> = Inr r"
    using assms unfolding build_resilience_drill_report_def bind_result_eq_Inr by blast
  have "sp_mitigation_path p \<noteq> [] \<and> sp_rollback_action p \<noteq> []" if "p \<in> set probes" for p
    using map_result_each [OF v that] by (auto simp: validate_probe_def check_named_def)
  then show ?thesis unfolding drill.ready_iff [OF r]
    by (intro exI [of _ wl] exI [of _ dp] conjI wl dp) (auto simp: drill_ready_def)
qed

end
