(* ===== verification/BackendProbe.thy ===== *)
theory BackendProbe
  imports Percentile Backend
begin

text \<open>
  \<^verbatim>\<open>gateway/backend_probe.py\<close>: a bounded sequence of requests to a backend and the aggregate
  report on them. The request function acts on a world \<open>'w\<close>; the default one is the
  buffered call of the backend adapter. Percentiles are asked for at integer values.
\<close>

section \<open>The exact percentile\<close>

definition MAX_REQUESTS :: int where
  "MAX_REQUESTS = 32"

definition probe_percentile :: "pyfloat list \<Rightarrow> int \<Rightarrow> pyfloat option result" where
  "probe_percentile values percentile_value =
     (if values = [] then Inr None
      else
        let ordered = sort values;
            rank = max 1 ((int (length ordered) * percentile_value + 99) div 100)
        in if rank \<le> int (length ordered) then Inr (Some (fround 3 (ordered ! nat (rank - 1))))
           else Inl (IndexError ''list index out of range''))"

section \<open>The probe\<close>

text \<open>\<^verbatim>\<open>request_fn(model_id, user_input, endpoint=..., api_key=..., timeout_seconds=...)\<close>\<close>

type_synonym 'w request_fun =
  "'w \<Rightarrow> string \<Rightarrow> string \<Rightarrow> string \<Rightarrow> string option \<Rightarrow> pyfloat \<Rightarrow> (string, pyval) dict result \<times> 'w"

record probe_counts =
  pc_latencies :: "pyfloat list"
  pc_total_tokens :: int
  pc_errors :: int

definition reported_tokens :: "(string, pyval) dict \<Rightarrow> int" where
  "reported_tokens result =
     (case dget_default result ''usage'' VNone of
        VDict usage \<Rightarrow>
          (case dget_default usage ''total_tokens'' VNone of VNum (NInt v) \<Rightarrow> if 0 \<le> v then v else 0 | _ \<Rightarrow> 0)
      | _ \<Rightarrow> 0)"

definition count_probe :: "(string, pyval) dict result \<Rightarrow> probe_counts \<Rightarrow> probe_counts result" where
  "count_probe result s =
     (case result of
        Inl (BackendAdapterError m) \<Rightarrow> Inr (s\<lparr>pc_errors := pc_errors s + 1\<rparr>)
      | Inl e \<Rightarrow> Inl e
      | Inr d \<Rightarrow>
          (case dget_default d ''latency_ms'' VNone of
             VNum latency_ms \<Rightarrow>
               bind_result (num_to_float latency_ms) (\<lambda>ms.
                 Inr (s\<lparr>pc_latencies := pc_latencies s @ [ms],
                   pc_total_tokens := pc_total_tokens s + reported_tokens d\<rparr>))
           | _ \<Rightarrow> Inr (s\<lparr>pc_errors := pc_errors s + 1\<rparr>)))"

fun probe_all ::
  "'w request_fun \<Rightarrow> string \<Rightarrow> string \<Rightarrow> string option \<Rightarrow> pyfloat \<Rightarrow> string list \<Rightarrow> probe_counts \<Rightarrow> 'w \<Rightarrow>
   probe_counts result \<times> 'w" where
  "probe_all request_fn model_id endpoint api_key timeout [] s w = (Inr s, w)"
| "probe_all request_fn model_id endpoint api_key timeout (user_input # inputs) s w =
     (let (result, w') = request_fn w model_id user_input endpoint api_key timeout in
      case count_probe result s of
        Inl e \<Rightarrow> (Inl e, w')
      | Inr s' \<Rightarrow> probe_all request_fn model_id endpoint api_key timeout inputs s' w')"

definition probe_report :: "string \<Rightarrow> int \<Rightarrow> probe_counts \<Rightarrow> (string, pyval) dict result" where
  "probe_report model_id attempted s =
     (let successful = int (length (pc_latencies s)) in
      bind_result (num_div (NInt successful) (NInt attempted)) (\<lambda>rate.
      bind_result (probe_percentile (pc_latencies s) 50) (\<lambda>p50.
      bind_result (probe_percentile (pc_latencies s) 95) (\<lambda>p95.
      bind_result (probe_percentile (pc_latencies s) 99) (\<lambda>p99.
        Inr [(''schema_version'', VInt 1),
             (''status'', VStr (status_text (successful = attempted \<and> 0 < successful))),
             (''backend_protocol'', VStr ''openai-compatible-completions''),
             (''model_id'', VStr model_id),
             (''attempted_requests'', VInt attempted),
             (''successful_requests'', VInt successful),
             (''failed_requests'', VInt (pc_errors s)),
             (''success_rate'', VNum (num_round 4 rate)),
             (''latency_ms'', VDict
                [(''p50'', opt_float p50), (''p95'', opt_float p95), (''p99'', opt_float p99),
                 (''max'', if pc_latencies s = [] then VNone
                   else VFloat (fround 3 (foldl max (hd (pc_latencies s)) (tl (pc_latencies s)))))]),
             (''total_tokens_reported'', VInt (pc_total_tokens s)),
             (''evidence_scope'', VList
                [VStr ''protocol and response-shape validation'', VStr ''bounded sequential request probe'',
                 VStr ''aggregate latency and success-rate measurements'']),
             (''exclusions'', VList
                [VStr ''request bodies'', VStr ''decoded output'', VStr ''API keys'', VStr ''endpoint URLs'',
                 VStr ''principal identities''])])))))"

definition run_probe ::
  "'w request_fun \<Rightarrow> string \<Rightarrow> string list \<Rightarrow> string \<Rightarrow> string option \<Rightarrow> pyfloat \<Rightarrow> 'w \<Rightarrow>
   (string, pyval) dict result \<times> 'w" where
  "run_probe request_fn model_id inputs endpoint api_key timeout w =
     (if py_strip model_id = [] then (Inl (ValueError ''model_id must not be empty''), w)
      else if inputs = [] \<or> list_ex (\<lambda>v. py_strip v = []) inputs
      then (Inl (ValueError ''inputs must contain at least one non-empty value''), w)
      else if MAX_REQUESTS < int (length inputs)
      then (Inl (ValueError (''inputs must contain no more than '' @ int_str MAX_REQUESTS @ '' values'')), w)
      else
        let (counts, w') = probe_all request_fn model_id endpoint api_key timeout inputs
              \<lparr>pc_latencies = [], pc_total_tokens = 0, pc_errors = 0\<rparr> w
        in (bind_result counts (probe_report model_id (int (length inputs))), w'))"

section \<open>The two percentiles agree\<close>

text \<open>
  The integer percentile of the backend probe and the float percentile of the workload
  report agree at 50 and 95.
\<close>

theorem probe_percentile_agrees:
  assumes "p = 50 \<or> p = 95" and "int (length samples) \<le> 2 ^ 40"
  shows "probe_percentile samples p = percentile samples p"
proof (cases "samples = []")
  case False
  then have n: "0 < length samples" by simp
  let ?c = "(p * int (length samples) + 99) div 100"
  note b = rank_bounds [OF assms(1) n]
  have c: "max 1 ((int (length samples) * p + 99) div 100) = ?c" using b(1) by (simp add: mult.commute max_def)
  have k: "nat (max 0 (?c - 1)) < length samples" "max 0 (?c - 1) = ?c - 1" using b(1,2) by simp_all
  have "probe_percentile samples p = Inr (Some (fround 3 (sort samples ! nat (?c - 1))))"
    unfolding probe_percentile_def Let_def length_sort c using False b(2) by simp
  moreover have "percentile samples p = Inr (Some (fround 3 (sort samples ! nat (?c - 1))))"
    unfolding percentile_def Let_def length_sort percentile_index_exact [OF assms(1) n assms(2)]
      bind_result_simps k(2) using False k assms(1) by auto
  ultimately show ?thesis by simp
qed (simp add: probe_percentile_def percentile_def)

text \<open>Every percentile up to 100 exists.\<close>

lemma probe_percentile_total:
  assumes "p \<le> 100"
  shows "\<exists>r. probe_percentile samples p = Inr r"
proof -
  have "int (length samples) * p \<le> int (length samples) * 100" using assms by (intro mult_left_mono) simp_all
  then have "samples \<noteq> [] \<Longrightarrow> max 1 ((int (length samples) * p + 99) div 100) \<le> int (length samples)"
    by (cases samples) simp_all
  then show ?thesis by (auto simp: probe_percentile_def Let_def)
qed

section \<open>Accounting\<close>

definition probe_ok :: "probe_counts \<Rightarrow> nat \<Rightarrow> bool" where
  "probe_ok s n \<longleftrightarrow> int (length (pc_latencies s)) + pc_errors s = int n \<and> 0 \<le> pc_errors s \<and> 0 \<le> pc_total_tokens s"

lemma reported_tokens_nonneg: "0 \<le> reported_tokens d"
  by (simp add: reported_tokens_def split: pyval.splits pynum.splits)

lemma count_probe_ok: "count_probe result s = Inr s' \<Longrightarrow> probe_ok s n \<Longrightarrow> probe_ok s' (Suc n)"
  using reported_tokens_nonneg
  by (auto simp: count_probe_def probe_ok_def bind_result_eq_Inr
      split: sum.splits py_error.splits pyval.splits)

lemma probe_all_ok:
  "probe_all f m e k t inputs s w = (Inr s', w') \<Longrightarrow> probe_ok s n \<Longrightarrow> probe_ok s' (n + length inputs)"
proof (induction inputs arbitrary: s w n)
  case (Cons i inputs)
  from Cons.prems(1) obtain r w1 s1 where "count_probe r s = Inr s1"
    and "probe_all f m e k t inputs s1 w1 = (Inr s', w')"
    by (auto split: prod.splits sum.splits)
  from Cons.IH [OF this(2) count_probe_ok [OF this(1) Cons.prems(2)]] show ?case by simp
qed simp

text \<open>
  A probe report accounts for every request: successes and failures add up to the inputs,
  between 1 and 32 of them, and it passes exactly when none failed.
\<close>

theorem run_probe_accounts:
  assumes "run_probe request_fn model_id inputs endpoint api_key timeout w = (Inr r, w')"
  shows "\<exists>successful failed. dget r ''successful_requests'' = Some (VInt successful) \<and>
    dget r ''failed_requests'' = Some (VInt failed) \<and> 0 \<le> failed \<and> 0 \<le> successful \<and>
    dget r ''attempted_requests'' = Some (VInt (successful + failed)) \<and>
    successful + failed = int (length inputs) \<and> 1 \<le> successful + failed \<and> successful + failed \<le> MAX_REQUESTS \<and>
    (dget r ''status'' = Some (VStr ''pass'') \<longleftrightarrow> failed = 0)"
proof -
  obtain s where s: "probe_all request_fn model_id endpoint api_key timeout inputs
      \<lparr>pc_latencies = [], pc_total_tokens = 0, pc_errors = 0\<rparr> w = (Inr s, w')"
    and r: "probe_report model_id (int (length inputs)) s = Inr r"
    and i: "inputs \<noteq> []" "int (length inputs) \<le> MAX_REQUESTS"
    using assms by (auto simp: run_probe_def bind_result_eq_Inr split: if_splits prod.splits)
  have ok: "probe_ok s (length inputs)"
    using probe_all_ok [OF s, of 0] by (simp add: probe_ok_def)
  from i(1) have "1 \<le> int (length inputs)" by (cases inputs) simp_all
  then show ?thesis using r ok i(2)
    by (auto simp: probe_report_def Let_def probe_ok_def bind_result_eq_Inr)
qed

section \<open>With the backend adapter\<close>

definition inference_dict :: "inference_result \<Rightarrow> (string, pyval) dict" where
  "inference_dict r =
     [(''model_id'', VStr (ir_model_id r)), (''output'', VStr (ir_output r)),
      (''latency_ms'', VFloat (ir_latency_ms r)), (''backend'', VStr (ir_backend r))] @
     (case ir_usage r of None \<Rightarrow> [] | Some u \<Rightarrow> [(''usage'', VDict (map (\<lambda>(k, n). (k, VInt n)) u))])"

text \<open>
  The default \<^verbatim>\<open>request_fn\<close>: the world is the number of requests made and what they sent;
  \<open>net n\<close> and \<open>clock n\<close> are the network and the two clock readings of the n-th request.
\<close>

definition openai_request ::
  "(nat \<Rightarrow> http_stack) \<Rightarrow> (nat \<Rightarrow> pyfloat \<times> pyfloat) \<Rightarrow> (nat \<times> backend_event list) request_fun" where
  "openai_request net clock w model_id user_input endpoint api_key timeout =
     (let (n, sent) = w;
          (r, evs) = run_openai_compatible_inference (net n) model_id user_input endpoint api_key timeout
             (fst (clock n)) (snd (clock n))
      in (bind_result r (\<lambda>d. Inr (inference_dict d)), (Suc n, sent @ evs)))"

lemma inference_dict_latency: "dget (inference_dict r) ''latency_ms'' = Some (VFloat (ir_latency_ms r))"
  by (simp add: inference_dict_def)

lemma adapter_error_counted: "is_adapter_error e \<Longrightarrow> \<exists>s'. count_probe (Inl e) s = Inr s'"
  by (auto simp: is_adapter_error_iff count_probe_def)

lemma count_probe_openai:
  assumes "stack_raises_os_errors (net n)"
    and "openai_request net clock (n, sent) m i ep k t = (r, w')"
  shows "\<exists>s'. count_probe r s = Inr s'"
proof -
  obtain x evs where x: "run_openai_compatible_inference (net n) m i ep k t (fst (clock n)) (snd (clock n)) = (x, evs)"
    by fastforce
  then have r: "r = bind_result x (\<lambda>d. Inr (inference_dict d))"
    using assms(2) by (simp add: openai_request_def)
  show ?thesis
  proof (cases x)
    case (Inl e)
    then show ?thesis using run_openai_error [OF assms(1)] x adapter_error_counted r by fastforce
  next
    case (Inr d)
    then show ?thesis by (simp add: r count_probe_def dget_default_def inference_dict_latency)
  qed
qed

lemma probe_all_openai:
  assumes "\<And>n. stack_raises_os_errors (net n)"
  shows "\<exists>s' w'. probe_all (openai_request net clock) m ep k t inputs s w = (Inr s', w') \<and>
    fst w' = fst w + length inputs"
proof (induction inputs arbitrary: s w)
  case (Cons i inputs)
  obtain n sent where w: "w = (n, sent)" by fastforce
  obtain r w1 where rq: "openai_request net clock (n, sent) m i ep k t = (r, w1)" by (meson surj_pair)
  have n: "fst w1 = Suc n" using rq by (auto simp: openai_request_def split: prod.splits)
  obtain s1 where "count_probe r s = Inr s1" using count_probe_openai [OF assms rq] by blast
  moreover obtain s' w' where "probe_all (openai_request net clock) m ep k t inputs s1 w1 = (Inr s', w')"
    "fst w' = fst w1 + length inputs" using Cons.IH by blast
  ultimately show ?case by (simp add: w rq n)
qed simp

lemma probe_report_total:
  assumes "probe_ok s n" and "0 < n" and "int n \<le> MAX_REQUESTS"
  shows "\<exists>r. probe_report m (int n) s = Inr r"
proof -
  have "\<bar>rat_of_int (int (length (pc_latencies s))) / of_int (int n)\<bar> \<le> 2 ^ 53"
  proof -
    have "int (length (pc_latencies s)) \<le> int n" using assms(1) by (simp add: probe_ok_def)
    then have "rat_of_int (int (length (pc_latencies s))) / of_int (int n) \<le> 1"
      using assms(2) by (simp add: divide_le_eq)
    then show ?thesis by simp
  qed
  from to_f64_finite [OF this] have "\<exists>q. num_div (NInt (int (length (pc_latencies s)))) (NInt (int n)) = Inr q"
    using assms(2) by simp
  moreover obtain a b c where "probe_percentile (pc_latencies s) 50 = Inr a"
    "probe_percentile (pc_latencies s) 95 = Inr b" "probe_percentile (pc_latencies s) 99 = Inr c"
    using probe_percentile_total [of 50] probe_percentile_total [of 95] probe_percentile_total [of 99] by fastforce
  ultimately show ?thesis by (auto simp: probe_report_def Let_def)
qed

theorem run_probe_backend:
  assumes "\<forall>n. stack_raises_os_errors (net n)"
    and "py_strip model_id \<noteq> []" and "inputs \<noteq> []" and "list_all (\<lambda>v. py_strip v \<noteq> []) inputs"
    and "int (length inputs) \<le> MAX_REQUESTS"
  shows "\<exists>r w'. run_probe (openai_request net clock) model_id inputs endpoint api_key timeout (0, []) = (Inr r, w') \<and>
    fst w' = length inputs"
proof -
  obtain s w' where s: "probe_all (openai_request net clock) model_id endpoint api_key timeout inputs
      \<lparr>pc_latencies = [], pc_total_tokens = 0, pc_errors = 0\<rparr> (0, []) = (Inr s, w')" and n: "fst w' = length inputs"
    using probe_all_openai [where net = net and w = "(0, [])"] assms(1) by fastforce
  have "probe_ok s (length inputs)" using probe_all_ok [OF s, of 0] by (simp add: probe_ok_def)
  then obtain r where "probe_report model_id (int (length inputs)) s = Inr r"
    using probe_report_total assms(3,5) by blast
  moreover have "\<not> list_ex (\<lambda>v. py_strip v = []) inputs"
    using assms(4) by (auto simp: list_all_iff list_ex_iff)
  ultimately show ?thesis using assms(2,3,5) s n by (simp add: run_probe_def)
qed

end
