(* ===== verification/Telemetry.thy ===== *)
theory Telemetry
  imports WorkloadReplay
begin

text \<open>
  \<^verbatim>\<open>gateway/telemetry_snapshot.py\<close>: the parser of the metrics text, the aggregation of its
  samples into a snapshot, and the check that keeps sensitive fields out of it. Strings are
  of code points below 256, where \<^verbatim>\<open>\d\<close> is an ASCII digit and \<^verbatim>\<open>\s\<close> is \<^verbatim>\<open>str.isspace\<close>.
\<close>

section \<open>Lines\<close>

definition is_linebreak :: "char \<Rightarrow> bool" where
  \<comment> \<open>where \<^verbatim>\<open>str.splitlines\<close> cuts\<close>
  "is_linebreak c \<longleftrightarrow>
     (let n = (of_char c :: int) in 10 \<le> n \<and> n \<le> 13 \<or> 28 \<le> n \<and> n \<le> 30 \<or> n = 133)"

fun after_linebreak :: "string \<Rightarrow> string" where
  \<comment> \<open>a carriage return and a line feed are one line break\<close>
  "after_linebreak [] = []"
| "after_linebreak (c # s) =
     (if c = CHR 0x0D \<and> s \<noteq> [] \<and> hd s = CHR 0x0A then tl s else s)"

lemma length_after_linebreak: "length (after_linebreak s) \<le> length s - 1"
  by (cases s) auto

function py_splitlines :: "string \<Rightarrow> string list" where
  "py_splitlines s =
     (if s = [] then []
      else takeWhile (\<lambda>c. \<not> is_linebreak c) s #
        py_splitlines (after_linebreak (dropWhile (\<lambda>c. \<not> is_linebreak c) s)))"
  by pat_completeness auto
termination
proof (relation "measure length", goal_cases)
  case (2 s)
  let ?d = "dropWhile (\<lambda>c. \<not> is_linebreak c) s"
  have "length ?d \<le> length s" by (rule length_dropWhile_le)
  moreover have "length (after_linebreak ?d) \<le> length ?d - 1" by (rule length_after_linebreak)
  moreover have "0 < length s" using 2 by simp
  ultimately have "length (after_linebreak ?d) < length s" by linarith
  then show ?case by simp
qed simp

declare py_splitlines.simps [simp del]

section \<open>One sample line\<close>

definition name_start :: "char \<Rightarrow> bool" where
  "name_start c \<longleftrightarrow>
     (let n = (of_char c :: int) in 97 \<le> n \<and> n \<le> 122 \<or> 65 \<le> n \<and> n \<le> 90 \<or> n = 95 \<or> n = 58)"

definition name_char :: "char \<Rightarrow> bool" where
  "name_char c \<longleftrightarrow> name_start c \<or> is_digit c"

definition unsigned :: "string \<Rightarrow> string" where
  \<comment> \<open>\<^verbatim>\<open>[-+]?\<close>\<close>
  "unsigned s = (case s of c # t \<Rightarrow> if c = CHR ''-'' \<or> c = CHR ''+'' then t else s | [] \<Rightarrow> [])"

definition digits :: "string \<Rightarrow> bool" where
  "digits s \<longleftrightarrow> s \<noteq> [] \<and> list_all is_digit s"

definition decimal_text :: "string \<Rightarrow> bool" where
  \<comment> \<open>\<^verbatim>\<open>\d+(?:\.\d*)?|\.\d+\<close>\<close>
  "decimal_text s \<longleftrightarrow>
     (let (whole, point, frac) = py_partition (CHR ''.'') s in
      list_all is_digit whole \<and> list_all is_digit frac \<and> (whole \<noteq> [] \<or> frac \<noteq> []))"

definition exponent_mark :: "char \<Rightarrow> bool" where
  "exponent_mark c \<longleftrightarrow> c = CHR ''e'' \<or> c = CHR ''E''"

definition value_text :: "string \<Rightarrow> bool" where
  "value_text s \<longleftrightarrow>
     s = ''NaN'' \<or> unsigned s = ''Inf'' \<or>
     (let t = unsigned s;
          mantissa = takeWhile (\<lambda>c. \<not> exponent_mark c) t;
          e = dropWhile (\<lambda>c. \<not> exponent_mark c) t
      in decimal_text mantissa \<and> (e = [] \<or> digits (unsigned (tl e))))"

definition match_value :: "string \<Rightarrow> string option" where
  \<comment> \<open>\<^verbatim>\<open>\s+(?P<value>...)(?:\s+\d+)?$\<close>: neither the value nor the timestamp has a space in it\<close>
  "match_value s =
     (if s \<noteq> [] \<and> py_isspace (hd s)
      then case py_split_ws s of
          [v] \<Rightarrow> if value_text v then Some v else None
        | [v, timestamp] \<Rightarrow> if value_text v \<and> digits timestamp then Some v else None
        | _ \<Rightarrow> None
      else None)"

definition last_brace :: "string \<Rightarrow> (string \<times> string) option" where
  \<comment> \<open>the text before and after the last closing brace\<close>
  "last_brace s =
     (let tail = takeWhile (\<lambda>c. c \<noteq> CHR ''}'') (rev s) in
      if length tail = length s then None
      else Some (take (length s - length tail - 1) s, rev tail))"

text \<open>
  \<^verbatim>\<open>METRIC_LINE.match\<close> on a stripped line, with the name, the label text (empty when there
  is none) and the value. No value contains a brace, so the greedy label group ends at the
  last one.
\<close>

definition match_metric_line :: "string \<Rightarrow> (string \<times> string \<times> string) option" where
  "match_metric_line line =
     (if line = [] \<or> \<not> name_start (hd line) then None
      else
        let name = takeWhile name_char line; rest = dropWhile name_char line in
        if rest \<noteq> [] \<and> hd rest = CHR ''{''
        then (case last_brace (tl rest) of
                None \<Rightarrow> None
              | Some (labels, tail) \<Rightarrow> map_option (\<lambda>v. (name, labels, v)) (match_value tail))
        else map_option (\<lambda>v. (name, [], v)) (match_value rest))"

section \<open>Labels and numbers\<close>

definition unescape :: "char \<Rightarrow> char" where
  "unescape c =
     (if c = CHR ''n'' then CHR 0x0A else if c = CHR ''r'' then CHR 0x0D
      else if c = CHR ''t'' then CHR 0x09 else c)"

fun label_value :: "string \<Rightarrow> (string \<times> string) result" where
  \<comment> \<open>from behind the opening quote: the value and what follows the closing quote\<close>
  "label_value [] = Inl (ValueError ''unterminated Prometheus label'')"
| "label_value [c] =
     (if c = CHR 0x22 then Inr ([], [])
      else if c = CHR 0x5C then Inl (ValueError ''unterminated Prometheus label escape'')
      else Inl (ValueError ''unterminated Prometheus label''))"
| "label_value (c # d # s) =
     (if c = CHR 0x22 then Inr ([], d # s)
      else if c = CHR 0x5C
      then bind_result (label_value s) (\<lambda>(v, rest). Inr (unescape d # v, rest))
      else bind_result (label_value (d # s)) (\<lambda>(v, rest). Inr (c # v, rest)))"

lemma label_value_shorter: "label_value s = Inr (v, rest) \<Longrightarrow> length rest < length s"
proof (induction s arbitrary: v rest rule: label_value.induct)
  case (3 c d s)
  consider "c = CHR 0x22" | "c = CHR 0x5C" | "c \<noteq> CHR 0x22" "c \<noteq> CHR 0x5C" by blast
  then show ?case
  proof cases
    case 1
    then show ?thesis using "3.prems" by simp
  next
    case 2
    then show ?thesis using "3.prems" "3.IH"(1) by fastforce
  next
    case 3
    then show ?thesis using "3.prems" "3.IH"(2) by fastforce
  qed
qed (auto split: if_splits)

definition label_skip :: "string \<Rightarrow> string" where
  "label_skip s = dropWhile (\<lambda>c. c = CHR '' '' \<or> c = CHR '','') s"

definition label_key :: "string \<Rightarrow> (string \<times> string) result" where
  \<comment> \<open>the key, and the text behind the equals sign and the opening quote\<close>
  "label_key s =
     (let stop = (\<lambda>c. c = CHR ''='' \<or> c = CHR '','');
          key = py_strip (takeWhile (\<lambda>c. \<not> stop c) s);
          rest = dropWhile (\<lambda>c. \<not> stop c) s
      in if key = [] \<or> rest = [] \<or> hd rest \<noteq> CHR ''='' then Inl (ValueError ''invalid Prometheus label'')
         else if tl rest = [] \<or> hd (tl rest) \<noteq> CHR 0x22
         then Inl (ValueError ''Prometheus labels must be quoted'')
         else Inr (key, tl (tl rest)))"

lemma label_key_shorter:
  assumes "label_key s = Inr (key, rest)"
  shows "length rest < length s"
proof -
  obtain r where r: "r = dropWhile (\<lambda>c. \<not> (c = CHR ''='' \<or> c = CHR '','')) s" by simp
  with assms have "rest = tl (tl r)" "r \<noteq> []" by (auto simp: label_key_def Let_def split: if_splits)
  moreover have "length r \<le> length s" unfolding r by (rule length_dropWhile_le)
  ultimately show ?thesis by (cases r) auto
qed

function parse_labels_from :: "(string, string) dict \<Rightarrow> string \<Rightarrow> (string, string) dict result" where
  "parse_labels_from labels s =
     (if s = [] then Inr labels
      else case label_key (label_skip s) of
        Inl e \<Rightarrow> Inl e
      | Inr (key, t) \<Rightarrow>
          (case label_value t of
             Inl e \<Rightarrow> Inl e
           | Inr (v, rest) \<Rightarrow>
               if rest \<noteq> [] \<and> hd rest \<noteq> CHR '','' then Inl (ValueError ''invalid Prometheus label separator'')
               else parse_labels_from (dset labels key v) (tl rest)))"
  by pat_completeness auto
termination
proof (relation "measure (\<lambda>(_, s). length s)", goal_cases)
  case (2 labels s x key t y v rest)
  then have "length t < length (label_skip s)" "length rest < length t"
    using label_key_shorter label_value_shorter by blast+
  moreover have "length (label_skip s) \<le> length s" by (simp add: label_skip_def length_dropWhile_le)
  ultimately show ?case by simp
qed simp

declare parse_labels_from.simps [simp del]

definition parse_labels :: "string \<Rightarrow> (string, string) dict result" where
  "parse_labels s = parse_labels_from [] s"

definition parse_number :: "string \<Rightarrow> pyfloat result" where
  "parse_number value =
     (if value = ''Inf'' \<or> value = ''+Inf'' then Inr PosInf
      else if value = ''-Inf'' then Inr NegInf
      else case py_float value of
          None \<Rightarrow> Inl (ValueError ''could not convert string to float'')
        | Some f \<Rightarrow> Inr f)"

section \<open>Parsing the text\<close>

definition ALLOWED_METRICS :: "string list" where
  "ALLOWED_METRICS =
     [''security_gateway_requests_total'', ''security_gateway_input_tokens_total'',
      ''security_gateway_inference_latency_seconds_bucket'',
      ''security_gateway_inference_latency_seconds_count'',
      ''security_gateway_inference_latency_seconds_sum'']"

record parsed_sample =
  ps_name :: string
  ps_labels :: "(string, string) dict"
  ps_value :: pyfloat

definition parse_line :: "int \<Rightarrow> string \<Rightarrow> parsed_sample list result" where
  \<comment> \<open>the body of the loop: no sample or one\<close>
  "parse_line line_number raw_line =
     (let line = py_strip raw_line in
      if line = [] \<or> py_startswith line ''#'' then Inr []
      else case match_metric_line line of
        None \<Rightarrow> Inl (ValueError (''invalid Prometheus sample on line '' @ int_str line_number))
      | Some (name, labels, value) \<Rightarrow>
          if name \<notin> set ALLOWED_METRICS then Inr []
          else bind_result (parse_labels labels) (\<lambda>ls. bind_result (parse_number value) (\<lambda>v.
            Inr [\<lparr>ps_name = name, ps_labels = ls, ps_value = v\<rparr>])))"

fun parse_lines :: "int \<Rightarrow> string list \<Rightarrow> parsed_sample list result" where
  "parse_lines n [] = Inr []"
| "parse_lines n (l # ls) =
     bind_result (parse_line n l) (\<lambda>xs. bind_result (parse_lines (n + 1) ls) (\<lambda>ys. Inr (xs @ ys)))"

definition parse_prometheus :: "string \<Rightarrow> parsed_sample list result" where
  "parse_prometheus text = parse_lines 1 (py_splitlines text)"

section \<open>Aggregation\<close>

definition as_int :: "pyfloat \<Rightarrow> int result" where
  "as_int value =
     (case value of
        Fin r \<Rightarrow> if r < 0 \<or> r \<noteq> of_int \<lfloor>r\<rfloor>
          then Inl (ValueError ''counter values must be non-negative integers'') else Inr \<lfloor>r\<rfloor>
      | _ \<Rightarrow> Inl (ValueError ''counter values must be non-negative integers''))"

record latency_data =
  ld_buckets :: "(pyfloat \<times> int) list"
  ld_count :: int
  ld_sum_seconds :: pyfloat

definition empty_latency :: latency_data where
  "empty_latency = \<lparr>ld_buckets = [], ld_count = 0, ld_sum_seconds = Fin 0\<rparr>"

record telemetry =
  tl_requests :: "string counter_dict"
  tl_tokens :: "string counter_dict"
  tl_latency :: "(string, latency_data) dict"

definition empty_telemetry :: telemetry where
  "empty_telemetry = \<lparr>tl_requests = [], tl_tokens = [], tl_latency = []\<rparr>"

definition update_latency :: "telemetry \<Rightarrow> string \<Rightarrow> (latency_data \<Rightarrow> latency_data) \<Rightarrow> telemetry" where
  \<comment> \<open>an update of \<^verbatim>\<open>latency[model_id]\<close>, a default dictionary\<close>
  "update_latency t model_id f =
     t\<lparr>tl_latency := dset (tl_latency t) model_id (f (dget_default (tl_latency t) model_id empty_latency))\<rparr>"

definition aggregate_sample :: "parsed_sample \<Rightarrow> telemetry \<Rightarrow> telemetry result" where
  "aggregate_sample s t =
     (let name = ps_name s; value = ps_value s; label = dget_default (ps_labels s) in
      if name = ''security_gateway_requests_total''
      then let outcome = label ''outcome'' [] in
           if outcome = [] then Inr t
           else bind_result (as_int value) (\<lambda>n. Inr (t\<lparr>tl_requests := counter_add (tl_requests t) outcome n\<rparr>))
      else if name = ''security_gateway_input_tokens_total''
      then let outcome = label ''outcome'' [] in
           if outcome = [] then Inr t
           else bind_result (as_int value) (\<lambda>n. Inr (t\<lparr>tl_tokens := counter_add (tl_tokens t) outcome n\<rparr>))
      else if name = ''security_gateway_inference_latency_seconds_bucket''
      then let model_id = label ''model_id'' []; bucket = label ''le'' [] in
           if model_id = [] \<or> bucket = [] then Inr t
           else bind_result (parse_number bucket) (\<lambda>b. bind_result (as_int value) (\<lambda>n.
             Inr (update_latency t model_id (\<lambda>d. d\<lparr>ld_buckets := ld_buckets d @ [(b, n)]\<rparr>))))
      else if name = ''security_gateway_inference_latency_seconds_count''
      then let model_id = label ''model_id'' [] in
           if model_id = [] then Inr t
           else bind_result (as_int value) (\<lambda>n. Inr (update_latency t model_id (\<lambda>d. d\<lparr>ld_count := n\<rparr>)))
      else if name = ''security_gateway_inference_latency_seconds_sum''
      then let model_id = label ''model_id'' [] in
           if model_id = [] then Inr t
           else Inr (update_latency t model_id (\<lambda>d. d\<lparr>ld_sum_seconds := value\<rparr>))
      else Inr t)"

fun aggregate_samples :: "parsed_sample list \<Rightarrow> telemetry \<Rightarrow> telemetry result" where
  "aggregate_samples [] t = Inr t"
| "aggregate_samples (s # ss) t = bind_result (aggregate_sample s t) (aggregate_samples ss)"

text \<open>\<^verbatim>\<open>math.ceil(count * 0.95)\<close>\<close>

definition p95_target :: "int \<Rightarrow> int result" where
  "p95_target observations =
     bind_result (num_mul (NInt observations) (NFlt (to_f64 (95 / 100)))) (\<lambda>x.
       (case num_val x of
          Fin r \<Rightarrow> Inr (max 1 \<lceil>r\<rceil>)
        | NaN \<Rightarrow> Inl (ValueError ''cannot convert float NaN to integer'')
        | _ \<Rightarrow> Inl (OverflowError ''cannot convert float infinity to integer'')))"

definition is_inf :: "pyfloat \<Rightarrow> bool" where
  "is_inf f \<longleftrightarrow> f = PosInf \<or> f = NegInf"

fun p95_bound :: "int \<Rightarrow> (pyfloat \<times> int) list \<Rightarrow> pyfloat option" where
  "p95_bound target [] = None"
| "p95_bound target ((upper_bound, cumulative_count) # buckets) =
     (if is_inf upper_bound then None
      else if target \<le> cumulative_count then Some (fround 3 (fmul upper_bound (Fin 1000)))
      else p95_bound target buckets)"

definition histogram_summary :: "latency_data \<Rightarrow> pyval result" where
  "histogram_summary d =
     (let count = ld_count d; buckets = sort_key fst (ld_buckets d) in
      bind_result (if count \<noteq> 0 \<and> buckets \<noteq> []
        then bind_result (p95_target count) (\<lambda>target. Inr (p95_bound target buckets)) else Inr None) (\<lambda>p95.
      bind_result (if count \<noteq> 0
        then bind_result (num_div (NFlt (fmul (ld_sum_seconds d) (Fin 1000))) (NInt count))
          (\<lambda>m. Inr (VNum (num_round 3 m))) else Inr VNone) (\<lambda>mean.
        Inr (VDict [(''count'', VInt count), (''mean_ms'', mean), (''p95_upper_bound_ms'', opt_float p95)]))))"

section \<open>The probe report in the snapshot\<close>

fun plain_scalar :: "pyval \<Rightarrow> bool" where
  \<comment> \<open>\<^verbatim>\<open>isinstance(value, (str, int, float)) and not isinstance(value, bool)\<close>\<close>
  "plain_scalar (VStr s) = True"
| "plain_scalar (VNum n) = True"
| "plain_scalar _ = False"

definition PROBE_KEYS :: "string list" where
  "PROBE_KEYS =
     [''status'', ''backend_protocol'', ''model_id'', ''attempted_requests'', ''successful_requests'',
      ''failed_requests'', ''success_rate'', ''total_tokens_reported'']"

definition probe_fields :: "(string, pyval) dict \<Rightarrow> (string, pyval) dict" where
  "probe_fields report =
     concat (map (\<lambda>key. let value = dget_default report key VNone in
       if plain_scalar value then [(key, value)] else []) PROBE_KEYS)"

definition probe_latency :: "(string, pyval) dict \<Rightarrow> (string, pyval) dict result" where
  "probe_latency raw_latency =
     bind_result (map_result (\<lambda>key.
       (case dget_default raw_latency key VNone of
          VNum n \<Rightarrow> bind_result (num_to_float n) (\<lambda>f. Inr [(key, VFloat (fround 3 f))])
        | _ \<Rightarrow> Inr [])) [''p50'', ''p95'', ''p99'', ''max'']) (\<lambda>xs. Inr (concat xs))"

definition aggregate_probe :: "(string, pyval) dict \<Rightarrow> (string, pyval) dict result" where
  "aggregate_probe report =
     bind_result (case dget_default report ''latency_ms'' VNone of
        VDict raw_latency \<Rightarrow> bind_result (probe_latency raw_latency) (\<lambda>latency.
          Inr (if latency \<noteq> [] then [(''latency_ms'', VDict latency)] else []))
      | _ \<Rightarrow> Inr []) (\<lambda>latency_ms.
       Inr (probe_fields report @ latency_ms @
         [(''evidence_scope'', VList [VStr ''whitelisted aggregate backend-probe fields'',
             VStr ''response-shape validation and latency summary''])]))"

section \<open>No sensitive data\<close>

definition FORBIDDEN_TERMS :: "string list" where
  "FORBIDDEN_TERMS =
     [''authorization'', ''api_key'', ''endpoint'', ''prompt'', ''principal'', ''request_body'', ''decoded_output'']"

definition mentions_forbidden :: "string \<Rightarrow> bool" where
  "mentions_forbidden s \<longleftrightarrow> list_ex (\<lambda>term. py_contains (py_lower s) term) FORBIDDEN_TERMS"

text \<open>\<open>excluded\<close>: some key on the path, in lower case, is \<open>exclusions\<close>.\<close>

fun walk :: "bool \<Rightarrow> pyval \<Rightarrow> unit result"
  and walk_items :: "bool \<Rightarrow> (string \<times> pyval) list \<Rightarrow> unit result"
  and walk_list :: "bool \<Rightarrow> pyval list \<Rightarrow> unit result" where
  "walk excluded (VDict d) = walk_items excluded d"
| "walk excluded (VList xs) = walk_list excluded xs"
| "walk excluded (VStr s) =
     check (excluded \<or> \<not> mentions_forbidden s) (ValueError ''public snapshot contains forbidden value'')"
| "walk excluded VNone = Inr ()"
| "walk excluded (VBool b) = Inr ()"
| "walk excluded (VNum n) = Inr ()"
| "walk_items excluded [] = Inr ()"
| "walk_items excluded ((key, child) # d) =
     bind_result (check (\<not> mentions_forbidden key)
       (ValueError (''public snapshot contains forbidden field: '' @ key))) (\<lambda>_.
     bind_result (walk (excluded \<or> py_lower key = ''exclusions'') child) (\<lambda>_. walk_items excluded d))"
| "walk_list excluded [] = Inr ()"
| "walk_list excluded (x # xs) = bind_result (walk excluded x) (\<lambda>_. walk_list excluded xs)"

definition assert_no_sensitive_data :: "pyval \<Rightarrow> unit result" where
  "assert_no_sensitive_data v = walk False v"

section \<open>The snapshot\<close>

definition telemetry_gates :: "telemetry \<Rightarrow> pyval list" where
  "telemetry_gates t =
     [release_gate ''gateway_request_metrics_present'' (status_text (0 < counter_sum (tl_requests t)))
        [(''observed'', VInt (counter_sum (tl_requests t)))],
      release_gate ''gateway_latency_metrics_present'' (status_text (tl_latency t \<noteq> []))
        [(''observed_models'', VInt (int (length (tl_latency t))))]]"

definition allowed_rate :: "telemetry \<Rightarrow> pyval result" where
  "allowed_rate t =
     (let total_requests = counter_sum (tl_requests t) in
      if total_requests \<noteq> 0
      then bind_result (num_div (NInt (counter_get (tl_requests t) ''allowed'')) (NInt total_requests))
        (\<lambda>rate. Inr (VNum (num_round 4 rate)))
      else Inr VNone)"

definition gateway_section :: "telemetry \<Rightarrow> pyval result" where
  "gateway_section t =
     bind_result (allowed_rate t) (\<lambda>rate.
     bind_result (map_result (\<lambda>(m, d). bind_result (histogram_summary d) (\<lambda>s. Inr (m, s)))
         (sorted_items (tl_latency t))) (\<lambda>latency_ms.
       Inr (VDict
         [(''requests'', VDict [(''total'', VInt (counter_sum (tl_requests t))),
            (''by_outcome'', sorted_counts (tl_requests t)), (''allowed_rate'', rate)]),
          (''estimated_input_tokens'', sorted_counts (tl_tokens t)),
          (''latency_ms'', VDict latency_ms)])))"

definition probe_passes :: "(string, pyval) dict option \<Rightarrow> bool" where
  "probe_passes probe_report \<longleftrightarrow>
     (case probe_report of None \<Rightarrow> True | Some r \<Rightarrow> dget r ''status'' = Some (VStr ''pass''))"

definition snapshot_parts ::
  "telemetry \<Rightarrow> (string, pyval) dict option \<Rightarrow> (string, pyval) dict result" where
  "snapshot_parts t probe_report =
     bind_result (gateway_section t) (\<lambda>gateway.
     bind_result (case probe_report of None \<Rightarrow> Inr ([], [])
        | Some r \<Rightarrow> bind_result (aggregate_probe r) (\<lambda>p.
            Inr ([(''backend_probe'', VDict p)],
              [VDict [(''name'', VStr ''backend_probe_status''),
                 (''status'', dget_default r ''status'' (VStr ''hold'')),
                 (''observed_success_rate'', dget_default r ''success_rate'' VNone)]]))) (\<lambda>(probe, probe_gates).
       Inr ([(''schema_version'', VInt 1),
         (''status'', VStr (status_text
            (0 < counter_sum (tl_requests t) \<and> tl_latency t \<noteq> [] \<and> probe_passes probe_report))),
         (''evidence_scope'', VList [VStr ''aggregate gateway Prometheus snapshot'',
            VStr ''request-outcome and estimated-token correlation'',
            VStr ''histogram upper-bound latency summaries'']),
         (''gateway'', gateway),
         (''release_gates'', VList (telemetry_gates t @ probe_gates)),
         (''exclusions'', VList [VStr ''request bodies'', VStr ''decoded output'', VStr ''API keys'',
            VStr ''endpoint URLs'', VStr ''principal identities''])] @ probe)))"

definition build_snapshot :: "string \<Rightarrow> (string, pyval) dict option \<Rightarrow> (string, pyval) dict result" where
  "build_snapshot metrics_text probe_report =
     bind_result (parse_prometheus metrics_text) (\<lambda>samples.
     bind_result (aggregate_samples samples empty_telemetry) (\<lambda>t.
     bind_result (snapshot_parts t probe_report) (\<lambda>snapshot.
     bind_result (assert_no_sensitive_data (VDict snapshot)) (\<lambda>_. Inr snapshot))))"

section \<open>What a returned snapshot says\<close>

theorem snapshot_pass_iff:
  assumes "build_snapshot metrics_text probe_report = Inr r"
  shows "\<exists>samples t. parse_prometheus metrics_text = Inr samples \<and> aggregate_samples samples empty_telemetry = Inr t \<and>
    (dget r ''status'' = Some (VStr ''pass'') \<longleftrightarrow>
       0 < counter_sum (tl_requests t) \<and> tl_latency t \<noteq> [] \<and> probe_passes probe_report)"
  using assms by (auto simp: build_snapshot_def snapshot_parts_def)

text \<open>What a value holds, with the keys on the way to it.\<close>

inductive reaches :: "pyval \<Rightarrow> string list \<Rightarrow> pyval \<Rightarrow> bool" where
  self: "reaches v [] v"
| item: "(k, c) \<in> set d \<Longrightarrow> reaches c path u \<Longrightarrow> reaches (VDict d) (k # path) u"
| elem: "x \<in> set xs \<Longrightarrow> reaches x path u \<Longrightarrow> reaches (VList xs) path u"

inductive_simps reaches_simps:
  "reaches (VDict d) path u" "reaches (VList xs) path u" "reaches (VStr s) path u"
  "reaches VNone path u" "reaches (VBool b) path u" "reaches (VNum n) path u"

definition clean_at :: "bool \<Rightarrow> string list \<Rightarrow> pyval \<Rightarrow> bool" where
  "clean_at excluded path u \<longleftrightarrow>
     (\<forall>k \<in> set path. \<not> mentions_forbidden k) \<and>
     (\<forall>s. u = VStr s \<longrightarrow> excluded \<or> ''exclusions'' \<in> py_lower ` set path \<or> \<not> mentions_forbidden s)"

lemma clean_at_Cons: "clean_at excluded (k # path) u \<longleftrightarrow>
    \<not> mentions_forbidden k \<and> clean_at (excluded \<or> py_lower k = ''exclusions'') path u"
  by (auto simp: clean_at_def)

lemma clean_at_Nil: "clean_at excluded [] u \<longleftrightarrow> (\<forall>s. u = VStr s \<longrightarrow> excluded \<or> \<not> mentions_forbidden s)"
  by (simp add: clean_at_def)

lemma clean_dict: "(\<forall>path u. reaches (VDict d) path u \<longrightarrow> clean_at excluded path u) \<longleftrightarrow>
    (\<forall>(k, c) \<in> set d. \<not> mentions_forbidden k \<and>
       (\<forall>path u. reaches c path u \<longrightarrow> clean_at (excluded \<or> py_lower k = ''exclusions'') path u))"
    (is "?all \<longleftrightarrow> ?items")
proof
  assume all: ?all
  have "clean_at excluded (k # path) u" if "(k, c) \<in> set d" "reaches c path u" for k c path u
    using all reaches.item [OF that] by blast
  then show ?items unfolding clean_at_Cons using reaches.self by fast
next
  assume items: ?items
  then have "clean_at excluded (k # path) u" if "(k, c) \<in> set d" "reaches c path u" for k c path u
    using that unfolding clean_at_Cons by fast
  then show ?all by (auto simp: reaches_simps clean_at_Nil)
qed

lemma clean_list: "(\<forall>path u. reaches (VList xs) path u \<longrightarrow> clean_at excluded path u) \<longleftrightarrow>
    (\<forall>x \<in> set xs. \<forall>path u. reaches x path u \<longrightarrow> clean_at excluded path u)"
  unfolding reaches_simps(2) by (auto simp: clean_at_Nil)

lemma walk_iff:
  "walk excluded v = Inr () \<longleftrightarrow> (\<forall>path u. reaches v path u \<longrightarrow> clean_at excluded path u)"
  "walk_items excluded d = Inr () \<longleftrightarrow>
     (\<forall>(k, c) \<in> set d. \<not> mentions_forbidden k \<and>
        (\<forall>path u. reaches c path u \<longrightarrow> clean_at (excluded \<or> py_lower k = ''exclusions'') path u))"
  "walk_list excluded xs = Inr () \<longleftrightarrow>
     (\<forall>x \<in> set xs. \<forall>path u. reaches x path u \<longrightarrow> clean_at excluded path u)"
  by (induction excluded v and excluded d and excluded xs rule: walk_walk_items_walk_list.induct)
    (simp_all add: clean_dict clean_list, auto simp: reaches_simps clean_at_Nil)

text \<open>
  C25: A snapshot that is returned holds no forbidden term in any key on the way to any value,
  nor in any string outside the list of exclusions.
\<close>

theorem snapshot_exposes_nothing_forbidden:
  assumes "build_snapshot metrics_text probe_report = Inr r" and "reaches (VDict r) path u"
  shows "(\<forall>k \<in> set path. \<not> mentions_forbidden k) \<and>
    (\<forall>s. u = VStr s \<longrightarrow> ''exclusions'' \<in> py_lower ` set path \<or> \<not> mentions_forbidden s)"
proof -
  have "walk False (VDict r) = Inr ()"
    using assms(1) by (auto simp: build_snapshot_def assert_no_sensitive_data_def)
  then have "clean_at False path u" using assms(2) by (simp only: walk_iff(1))
  then show ?thesis by (simp add: clean_at_def)
qed

end
