(* ===== verification/TelemetryRoundtrip.thy ===== *)
theory TelemetryRoundtrip
  imports Telemetry
begin

text \<open>
  The snapshot parser reads what the metrics registry writes: label blocks, counter values,
  sample lines and texts made of them. Then what the 95th percentile bound of a snapshot
  says of the observations behind it.
\<close>

section \<open>Labels\<close>

lemma label_value_Cons:
  "s \<noteq> [] \<Longrightarrow> c \<noteq> CHR 0x22 \<Longrightarrow> c \<noteq> CHR 0x5C \<Longrightarrow>
     label_value (c # s) = bind_result (label_value s) (\<lambda>(v, rest). Inr (c # v, rest))"
  by (cases s) auto

lemma label_value_escaped: "label_value (escape_label_value v @ CHR 0x22 # rest) = Inr (v, rest)"
proof (induction v)
  case Nil
  then show ?case by (cases rest) (simp_all add: escape_label_value_eq)
next
  case (Cons c v)
  then show ?case by (auto simp: escape_label_value_eq label_value_Cons unescape_def)
qed

definition label_key_ok :: "string \<Rightarrow> bool" where
  "label_key_ok k \<longleftrightarrow> k \<noteq> [] \<and> list_all name_char k"

lemma name_char_plain:
  "name_char c \<Longrightarrow> \<not> py_isspace c \<and> c \<noteq> CHR '' '' \<and> c \<noteq> CHR '','' \<and> c \<noteq> CHR ''='' \<and> c \<noteq> CHR ''{''"
  by (auto simp: name_char_def name_start_def is_digit_def py_isspace_def Let_def)

lemma py_strip_plain: "list_all (\<lambda>c. \<not> py_isspace c) s \<Longrightarrow> py_strip s = s"
  by (cases "s = []") (auto simp: list_all_iff intro!: py_strip_id)

lemma label_key_reads:
  assumes "label_key_ok k"
  shows "label_key (label_skip (k @ CHR ''='' # CHR 0x22 # t)) = Inr (k, t)"
proof -
  let ?stop = "\<lambda>c. c = CHR ''='' \<or> c = CHR '',''"
  have plain: "\<And>c. c \<in> set k \<Longrightarrow> \<not> py_isspace c \<and> c \<noteq> CHR '' '' \<and> c \<noteq> CHR '','' \<and> c \<noteq> CHR ''=''"
    using assms name_char_plain by (auto simp: label_key_ok_def list_all_iff)
  have k: "k \<noteq> []" "py_strip k = k" using assms plain by (auto simp: label_key_ok_def list_all_iff intro!: py_strip_plain)
  have "label_skip (k @ CHR ''='' # CHR 0x22 # t) = k @ CHR ''='' # CHR 0x22 # t"
    unfolding label_skip_def using k(1) plain [of "hd k"] by (intro dropWhile_hd) auto
  moreover have "takeWhile (\<lambda>c. \<not> ?stop c) (k @ CHR ''='' # CHR 0x22 # t) = k"
    "dropWhile (\<lambda>c. \<not> ?stop c) (k @ CHR ''='' # CHR 0x22 # t) = CHR ''='' # CHR 0x22 # t"
    using plain by (simp_all add: takeWhile_append2 dropWhile_append2)
  ultimately show ?thesis using k by (simp add: label_key_def)
qed

lemma parse_labels_from_item:
  assumes "label_key_ok k"
  shows "parse_labels_from labels (quote_label (k, v) @ rest) =
    (if rest \<noteq> [] \<and> hd rest \<noteq> CHR '','' then Inl (ValueError ''invalid Prometheus label separator'')
     else parse_labels_from (dset labels k v) (tl rest))"
proof -
  have s: "quote_label (k, v) @ rest = k @ CHR ''='' # CHR 0x22 # (escape_label_value v @ CHR 0x22 # rest)"
    by (simp add: quote_label_def)
  show ?thesis
    unfolding s by (subst parse_labels_from.simps) (simp add: label_key_reads [OF assms] label_value_escaped)
qed

lemma quote_label_nonempty [simp]: "quote_label kv \<noteq> []"
  by (simp add: quote_label_def)

lemma parse_labels_from_join:
  assumes "\<forall>(k, v) \<in> set ls. label_key_ok k"
  shows "parse_labels_from labels (py_join '','' (map quote_label ls)) =
    Inr (foldl (\<lambda>d (k, v). dset d k v) labels ls)"
  using assms
proof (induction ls arbitrary: labels)
  case Nil
  then show ?case by (simp add: parse_labels_from.simps)
next
  case (Cons kv ls)
  obtain k v where kv: "kv = (k, v)" by fastforce
  then have k: "label_key_ok k" using Cons.prems by simp
  show ?case
  proof (cases ls)
    case Nil
    then show ?thesis
      using parse_labels_from_item [OF k, of labels v "[]"] by (simp add: kv parse_labels_from.simps [of _ "[]"])
  next
    case (Cons kv' ls')
    then have "py_join '','' (map quote_label (kv # ls)) =
        quote_label (k, v) @ CHR '','' # py_join '','' (map quote_label ls)" by (simp add: kv)
    then show ?thesis using Cons.IH Cons.prems parse_labels_from_item [OF k] by (simp add: kv)
  qed
qed

lemma foldl_dset_distinct:
  assumes "distinct (dkeys (acc @ ls))"
  shows "foldl (\<lambda>d (k, v). dset d k v) acc ls = acc @ ls"
  using assms
proof (induction ls arbitrary: acc)
  case (Cons kv ls)
  obtain k v where kv: "kv = (k, v)" by fastforce
  have "k \<notin> fst ` set acc" using Cons.prems by (auto simp: kv dkeys_def)
  then have "dset acc k v = acc @ [kv]"
    by (induction acc) (auto simp: dset_def kv)
  then show ?case using Cons.IH [of "acc @ [kv]"] Cons.prems by (simp add: kv)
qed simp

theorem parse_labels_reads_back:
  assumes "\<forall>(k, v) \<in> set ls. label_key_ok k" and "distinct (dkeys ls)"
  shows "parse_labels (py_join '','' (map quote_label ls)) = Inr ls"
  using parse_labels_from_join [OF assms(1), of "[]"] foldl_dset_distinct [of "[]" ls] assms(2)
  by (simp add: parse_labels_def)

section \<open>Counter values\<close>

lemma digit_plain: "is_digit c \<Longrightarrow> \<not> py_isspace c \<and> \<not> exponent_mark c \<and> c \<noteq> CHR ''.'' \<and> c \<noteq> CHR ''-'' \<and>
    c \<noteq> CHR ''+'' \<and> c \<noteq> CHR ''}'' \<and> c \<noteq> CHR ''e'' \<and> lower_char c = c \<and> \<not> is_linebreak c"
  by (auto simp: is_digit_def py_isspace_def exponent_mark_def lower_char_def is_linebreak_def Let_def)

lemma digits_plain:
  assumes "digits s" and "c \<in> set s"
  shows "\<not> py_isspace c" "\<not> exponent_mark c" "c \<noteq> CHR ''.''" "c \<noteq> CHR ''-''" "c \<noteq> CHR ''+''"
    "c \<noteq> CHR ''}''" "c \<noteq> CHR ''e''" "lower_char c = c" "\<not> is_linebreak c" "is_digit c"
  using assms digit_plain [of c] by (auto simp: digits_def list_all_iff)

lemma digits_nat_str: "0 \<le> n \<Longrightarrow> digits (nat_str n)"
  by (auto simp: digits_def list_all_iff dest: nat_str_digits)

lemma py_partition_absent: "sep \<notin> set s \<Longrightarrow> py_partition sep s = (s, [], [])"
  by (induction s) auto

lemma value_text_digits:
  assumes "digits s"
  shows "value_text s"
proof -
  have ne: "s \<noteq> []" using assms by (simp add: digits_def)
  then have u: "unsigned s = s"
    using digits_plain(4,5) [OF assms, of "hd s"] by (cases s) (auto simp: unsigned_def)
  have t: "takeWhile (\<lambda>c. \<not> exponent_mark c) s = s" "dropWhile (\<lambda>c. \<not> exponent_mark c) s = []"
    using digits_plain(2) [OF assms] by (simp_all add: takeWhile_eq_all_conv dropWhile_eq_Nil_conv)
  have p: "py_partition (CHR ''.'') s = (s, [], [])"
    using digits_plain(3) [OF assms] by (intro py_partition_absent) auto
  show ?thesis
    using assms ne unfolding value_text_def Let_def u t decimal_text_def p by (simp add: digits_def)
qed

lemma underscores_ok_digits: "digits s \<Longrightarrow> underscores_ok s"
proof (induction s rule: underscores_ok.induct)
  case (3 c d s)
  then have "d \<noteq> CHR ''_''" by (auto simp: digits_def is_digit_def)
  with 3 show ?case by (simp add: digits_def)
qed (simp_all add: digits_def)

lemma py_float_digits:
  assumes "digits s"
  shows "py_float s = Some (to_f64 (of_int (digits_val 0 s)))"
proof -
  have ne: "s \<noteq> []" using assms by (simp add: digits_def)
  have "py_strip s = s"
    using digits_plain(1) [OF assms] by (intro py_strip_plain) (simp add: list_all_iff)
  moreover have "py_lower s = s" unfolding py_lower_def using digits_plain(8) [OF assms] by (rule map_idI)
  moreover have "strip_sign s = (False, s)"
    using ne digits_plain(4,5) [OF assms, of "hd s"] by (auto simp: strip_sign_def)
  ultimately have b: "strip_sign (py_lower (py_strip s)) = (False, s)" by simp
  have not_word: "s \<noteq> ''inf'' \<and> s \<noteq> ''infinity'' \<and> s \<noteq> ''nan''"
    using assms by (auto simp: digits_def is_digit_def)
  have e: "py_partition (CHR ''e'') s = (s, [], [])" "py_partition (CHR ''.'') s = (s, [], [])"
    using digits_plain(3,7) [OF assms] by (auto intro!: py_partition_absent)
  have f: "filter is_digit s = s" using assms by (simp add: digits_def list_all_iff filter_id_conv)
  show ?thesis
    unfolding py_float_def b prod.case Let_def
    using not_word ne underscores_ok_digits [OF assms] by (simp add: e f digit_group_def strip_sign_def)
qed

lemma parse_number_counter:
  assumes "0 \<le> n" and "n \<le> 2 ^ 53"
  shows "parse_number (nat_str n) = Inr (Fin (of_int n))"
proof -
  note d = digits_nat_str [OF assms(1)]
  have "nat_str n \<noteq> ''Inf'' \<and> nat_str n \<noteq> ''+Inf'' \<and> nat_str n \<noteq> ''-Inf''"
    using d by (auto simp: digits_def is_digit_def)
  then show ?thesis
    using py_float_digits [OF d] to_f64_of_int [of n] assms by (simp add: parse_number_def digits_val_nat_str)
qed

section \<open>Sample lines\<close>

lemma match_value_digits: "digits s \<Longrightarrow> match_value ('' '' @ s) = Some s"
proof -
  assume d: "digits s"
  then have ne: "s \<noteq> []" by (simp add: digits_def)
  note plain = digits_plain(1) [OF d]
  have drop: "dropWhile py_isspace ('' '' @ s) = s"
  proof -
    have "dropWhile py_isspace s = s" using ne plain by (intro dropWhile_hd) auto
    then show ?thesis by (simp add: py_isspace_def)
  qed
  have t: "takeWhile (\<lambda>c. \<not> py_isspace c) s = s" "dropWhile (\<lambda>c. \<not> py_isspace c) s = []"
    using plain by (simp_all add: takeWhile_eq_all_conv dropWhile_eq_Nil_conv)
  have "py_split_ws [] = []" by (subst py_split_ws_unfold) simp
  then have "py_split_ws ('' '' @ s) = [s]"
    by (subst py_split_ws_unfold) (use ne in \<open>simp only: drop t if_False\<close>)
  then show ?thesis using value_text_digits [OF d] by (simp add: match_value_def py_isspace_def)
qed

lemma last_brace_tail:
  assumes "CHR ''}'' \<notin> set t"
  shows "last_brace (l @ CHR ''}'' # t) = Some (l, t)"
proof -
  have "takeWhile (\<lambda>c. c \<noteq> CHR ''}'') (rev (l @ CHR ''}'' # t)) = rev t"
    using takeWhile_append2 [of "rev t" "\<lambda>c. c \<noteq> CHR ''}''" "CHR ''}'' # rev l"] assms by auto
  then show ?thesis by (simp add: last_brace_def Let_def)
qed

lemma name_split:
  assumes "label_key_ok name" and "\<not> name_char c"
  shows "takeWhile name_char (name @ c # t) = name" "dropWhile name_char (name @ c # t) = c # t"
  using assms by (simp_all add: label_key_ok_def list_all_iff takeWhile_append2 dropWhile_append2)

lemma match_sample_line:
  assumes "label_key_ok name" and "name_start (hd name)" and "digits value"
  shows "match_metric_line (name @ (if labels = [] then [] else ''{'' @ labels @ ''}'') @ '' '' @ value) =
    Some (name, labels, value)"
proof -
  have n: "name \<noteq> []" using assms(1) by (simp add: label_key_ok_def)
  have special: "\<not> name_char (CHR ''{'')" "\<not> name_char (CHR '' '')"
    by (simp_all add: name_char_def name_start_def is_digit_def)
  have v: "match_value (CHR '' '' # value) = Some value" using match_value_digits [OF assms(3)] by simp
  show ?thesis
  proof (cases "labels = []")
    case True
    then show ?thesis
      using n assms(2) v by (simp add: match_metric_line_def name_split [OF assms(1) special(2)])
  next
    case False
    have "CHR ''}'' \<notin> set (CHR '' '' # value)" using digits_plain(6) [OF assms(3)] by auto
    from last_brace_tail [OF this, of labels]
    show ?thesis
      using False n assms(2) v by (simp add: match_metric_line_def name_split [OF assms(1) special(1)])
  qed
qed

text \<open>A counter sample: its name and label keys are identifiers, its value a count a float holds.\<close>

definition counter_sample_ok :: "metric_sample \<Rightarrow> bool" where
  "counter_sample_ok s \<longleftrightarrow>
     ms_name s \<in> set ALLOWED_METRICS \<and> list_all (\<lambda>(k, v). label_key_ok k) (ms_labels s) \<and>
     distinct (dkeys (ms_labels s)) \<and>
     (case ms_value s of NInt n \<Rightarrow> 0 \<le> n \<and> n \<le> 2 ^ 53 | NFlt f \<Rightarrow> False)"

definition read_back :: "metric_sample \<Rightarrow> parsed_sample" where
  "read_back s = \<lparr>ps_name = ms_name s, ps_labels = sort (ms_labels s), ps_value = num_val (ms_value s)\<rparr>"

lemma allowed_names:
  "name \<in> set ALLOWED_METRICS \<Longrightarrow> label_key_ok name \<and> name_start (hd name) \<and> \<not> py_startswith (name @ t) ''#''"
  by (auto simp: ALLOWED_METRICS_def label_key_ok_def name_char_def name_start_def is_digit_def py_startswith_def)

lemma py_join_quote_Nil: "py_join '','' (map quote_label ls) = [] \<longleftrightarrow> ls = []"
  by (cases ls; cases "tl ls") auto

lemma format_counter_line:
  assumes "counter_sample_ok s" and "format_sample s = Inr line"
  obtains n where "ms_value s = NInt n" "0 \<le> n" "n \<le> 2 ^ 53"
    "line = ms_name s @ (if ms_labels s = [] then []
        else ''{'' @ py_join '','' (map quote_label (sort (ms_labels s))) @ ''}'') @ '' '' @ nat_str n"
proof -
  obtain n where n: "ms_value s = NInt n" "0 \<le> n" "n \<le> 2 ^ 53"
    using assms(1) by (auto simp: counter_sample_ok_def split: pynum.splits)
  have "format_number (NInt n) = Inr (int_str n)"
    using int_to_float_small [of n] n by (simp add: format_number_def)
  then have "line = ms_name s @ (if ms_labels s = [] then []
        else ''{'' @ py_join '','' (map quote_label (sort (ms_labels s))) @ ''}'') @ '' '' @ nat_str n"
    using assms(2) n by (auto simp: format_sample_def Let_def py_join_quote_Nil int_str_def)
  with n that show thesis by blast
qed

lemma parse_counter_line:
  assumes "counter_sample_ok s" and "format_sample s = Inr line"
  shows "parse_line k line = Inr [read_back s]"
proof -
  obtain n where n: "ms_value s = NInt n" "0 \<le> n" "n \<le> 2 ^ 53"
    and line: "line = ms_name s @ (if ms_labels s = [] then []
        else ''{'' @ py_join '','' (map quote_label (sort (ms_labels s))) @ ''}'') @ '' '' @ nat_str n"
    using format_counter_line [OF assms] by blast
  have name: "ms_name s \<in> set ALLOWED_METRICS" using assms(1) by (simp add: counter_sample_ok_def)
  note nm = allowed_names [OF name]
  note d = digits_nat_str [OF n(2)]
  let ?labels = "if ms_labels s = [] then [] else py_join '','' (map quote_label (sort (ms_labels s)))"
  have m: "match_metric_line line = Some (ms_name s, ?labels, nat_str n)"
    using match_sample_line [of "ms_name s" "nat_str n" ?labels] nm d by (auto simp: line py_join_quote_Nil)
  have "list_all (\<lambda>(k, v). label_key_ok k) (sort (ms_labels s))" "distinct (dkeys (sort (ms_labels s)))"
    using assms(1) by (auto simp: counter_sample_ok_def list_all_iff dkeys_def distinct_map)
  then have labels: "parse_labels ?labels = Inr (sort (ms_labels s))"
    using parse_labels_reads_back [of "sort (ms_labels s)"] by (auto simp: list_all_iff parse_labels_def parse_labels_from.simps)
  have strip: "py_strip line = line"
  proof (rule py_strip_id)
    have "hd line = hd (ms_name s)" "last line = last (nat_str n)"
      using nm by (auto simp: line label_key_ok_def)
    moreover have "\<not> py_isspace (hd (ms_name s))"
      using nm name_char_plain [of "hd (ms_name s)"] by (simp add: name_char_def)
    moreover have "\<not> py_isspace (last (nat_str n))" using digits_plain(1) [OF d] by simp
    ultimately show "line = [] \<or> \<not> py_isspace (hd line) \<and> \<not> py_isspace (last line)" by simp
  qed
  have "line \<noteq> []" "\<not> py_startswith line ''#''" using nm line by (auto simp: label_key_ok_def)
  then show ?thesis
    using m labels n name parse_number_counter [OF n(2,3)]
    by (simp add: parse_line_def strip read_back_def)
qed

section \<open>Whole texts\<close>

text \<open>A sample line is one line when no label value holds a line break that is not escaped.\<close>

definition single_line :: "metric_sample \<Rightarrow> bool" where
  "single_line s \<longleftrightarrow> list_all (\<lambda>(k, v). list_all (\<lambda>c. is_linebreak c \<longrightarrow> c = CHR 0x0A) v) (ms_labels s)"

lemma py_splitlines_Cons:
  assumes "list_all (\<lambda>c. \<not> is_linebreak c) l"
  shows "py_splitlines (l @ CHR 0x0A # t) = l # py_splitlines t"
proof -
  have n: "is_linebreak (CHR 0x0A)" by (simp add: is_linebreak_def)
  have "takeWhile (\<lambda>c. \<not> is_linebreak c) (l @ CHR 0x0A # t) = l"
    "dropWhile (\<lambda>c. \<not> is_linebreak c) (l @ CHR 0x0A # t) = CHR 0x0A # t"
    using assms n by (simp_all add: list_all_iff takeWhile_append2 dropWhile_append2)
  then show ?thesis by (subst py_splitlines.simps) (simp add: Let_def)
qed

lemma py_splitlines_lines:
  assumes "\<forall>l \<in> set ls. list_all (\<lambda>c. \<not> is_linebreak c) l"
  shows "py_splitlines (concat (map (\<lambda>l. l @ [CHR 0x0A]) ls)) = ls"
  using assms by (induction ls) (simp_all add: py_splitlines_Cons py_splitlines.simps [of "[]"])

lemma py_join_newline: "ls \<noteq> [] \<Longrightarrow> py_join [c] ls @ [c] = concat (map (\<lambda>l. l @ [c]) ls)"
  by (induction "[c]" ls rule: py_join.induct) auto

lemma set_py_join: "set (py_join sep ls) \<subseteq> set sep \<union> (\<Union>l \<in> set ls. set l)"
  by (induction sep ls rule: py_join.induct) auto

lemma name_char_line: "name_char c \<Longrightarrow> \<not> is_linebreak c"
  by (auto simp: name_char_def name_start_def is_digit_def is_linebreak_def Let_def)

lemma set_escape:
  "c \<in> set (escape_label_value v) \<Longrightarrow> c = CHR 0x5C \<or> c = CHR ''n'' \<or> c = CHR 0x22 \<or> c \<in> set v \<and> c \<noteq> CHR 0x0A"
  by (auto simp: escape_label_value_eq split: if_splits)

lemma quote_label_line:
  assumes "label_key_ok k" and "list_all (\<lambda>c. is_linebreak c \<longrightarrow> c = CHR 0x0A) v" and "c \<in> set (quote_label (k, v))"
  shows "\<not> is_linebreak c"
proof -
  have plain: "\<not> is_linebreak (CHR 0x5C)" "\<not> is_linebreak (CHR ''n'')" "\<not> is_linebreak (CHR 0x22)"
    "\<not> is_linebreak (CHR ''='')" by (simp_all add: is_linebreak_def)
  from assms(3) consider "c \<in> set k" | "c = CHR ''=''" | "c = CHR 0x22" | "c \<in> set (escape_label_value v)"
    by (auto simp: quote_label_def)
  then show ?thesis
  proof cases
    case 1
    then show ?thesis using assms(1) name_char_line by (simp add: label_key_ok_def list_all_iff)
  next
    case 4
    then show ?thesis using set_escape [OF 4] plain assms(2) by (auto simp: list_all_iff)
  qed (use plain in simp_all)
qed

lemma counter_line_single:
  assumes "counter_sample_ok s" and "single_line s" and "format_sample s = Inr line"
  shows "list_all (\<lambda>c. \<not> is_linebreak c) line"
proof -
  obtain n where n: "0 \<le> n"
    and line: "line = ms_name s @ (if ms_labels s = [] then []
        else ''{'' @ py_join '','' (map quote_label (sort (ms_labels s))) @ ''}'') @ '' '' @ nat_str n"
    using format_counter_line [OF assms(1,3)] by blast
  have plain: "\<not> is_linebreak (CHR ''{'')" "\<not> is_linebreak (CHR ''}'')" "\<not> is_linebreak (CHR '','')"
    "\<not> is_linebreak (CHR '' '')" by (simp_all add: is_linebreak_def)
  have "\<not> is_linebreak c" if "c \<in> set (py_join '','' (map quote_label (sort (ms_labels s))))" for c
  proof -
    have "c = CHR '','' \<or> (\<exists>kv \<in> set (ms_labels s). c \<in> set (quote_label kv))"
      using subsetD [OF set_py_join that] by auto
    moreover have "\<not> is_linebreak c" if "(k, v) \<in> set (ms_labels s)" "c \<in> set (quote_label (k, v))" for k v
      using that assms(1,2) by (intro quote_label_line [of k v]) (auto simp: counter_sample_ok_def single_line_def list_all_iff)
    ultimately show ?thesis using plain by force
  qed
  moreover have "\<not> is_linebreak c" if "c \<in> set (ms_name s)" for c
  proof -
    have "label_key_ok (ms_name s)" using assms(1) allowed_names by (simp add: counter_sample_ok_def)
    then show ?thesis using that name_char_line by (simp add: label_key_ok_def list_all_iff)
  qed
  moreover have "\<not> is_linebreak c" if "c \<in> set (nat_str n)" for c
    using digits_plain(9) [OF digits_nat_str [OF n] that] .
  ultimately show ?thesis using plain by (auto simp: line list_all_iff)
qed

lemma parse_counter_lines:
  assumes "list_all counter_sample_ok samples" and "format_samples samples = Inr lines"
  shows "parse_lines k lines = Inr (map read_back samples)"
  using assms
proof (induction samples arbitrary: k lines)
  case (Cons s samples)
  then show ?case using parse_counter_line [of s] by (auto simp: format_samples_def)
qed (simp add: format_samples_def)

lemma counter_text_reads_back:
  assumes "list_all (\<lambda>s. counter_sample_ok s \<and> single_line s) samples" and "samples \<noteq> []"
    and "format_samples samples = Inr lines"
  shows "parse_prometheus (py_join [CHR 0x0A] lines @ [CHR 0x0A]) = Inr (map read_back samples)"
proof -
  have "list_all (\<lambda>c. \<not> is_linebreak c) l" if l: "l \<in> set lines" for l
  proof -
    obtain s where "s \<in> set samples" "format_sample s = Inr l"
      using map_result_set [of format_sample samples lines l] assms(3) l by (auto simp: format_samples_def)
    then show ?thesis using counter_line_single [of s l] assms(1) by (simp add: list_all_iff)
  qed
  moreover have "lines \<noteq> []"
    using assms(2,3) map_result_Inr_length [of format_sample samples lines] by (auto simp: format_samples_def)
  ultimately have "py_splitlines (py_join [CHR 0x0A] lines @ [CHR 0x0A]) = lines"
    by (subst py_join_newline) (auto intro!: py_splitlines_lines)
  then show ?thesis
    using parse_counter_lines [of samples lines 1] assms(1,3) by (simp add: parse_prometheus_def list_all_iff)
qed

section \<open>Request counts\<close>

lemma dget_sort:
  assumes "distinct (dkeys d)"
  shows "dget (sort d) k = dget d k"
proof -
  have "map_of (sort d) = map_of d"
    using assms by (subst map_of_inject_set) (simp_all add: dkeys_def distinct_map)
  then show ?thesis by (simp add: dget_def)
qed

definition request_labels :: "string \<times> string \<Rightarrow> (string, string) dict" where
  "request_labels k = [(''model_id'', fst k), (''outcome'', snd k)]"

lemma request_samples_map:
  "request_samples m = map (\<lambda>(k, n). sample ''security_gateway_requests_total'' (request_labels k) (NInt n))
     (sort (m_requests m))"
  by (simp add: request_samples_def pair_samples_def request_labels_def split_beta)

text \<open>What the snapshot needs of the registry: counts that a float holds, labels on one line.\<close>

definition readable_requests :: "gateway_metrics \<Rightarrow> bool" where
  "readable_requests m \<longleftrightarrow>
     list_all (\<lambda>(k, n). 0 \<le> n \<and> n \<le> 2 ^ 53 \<and>
       single_line (sample [] (request_labels k) (NInt n))) (m_requests m)"

lemma request_samples_ok:
  assumes "readable_requests m"
  shows "list_all (\<lambda>s. counter_sample_ok s \<and> single_line s) (request_samples m)"
proof -
  have "counter_sample_ok s \<and> single_line s"
    if "(k, n) \<in> set (m_requests m)" "s = sample ''security_gateway_requests_total'' (request_labels k) (NInt n)" for k n s
  proof -
    have "0 \<le> n \<and> n \<le> 2 ^ 53 \<and> single_line (sample [] (request_labels k) (NInt n))"
      using assms that(1) by (auto simp: readable_requests_def list_all_iff)
    then show ?thesis
      by (simp add: that(2) counter_sample_ok_def single_line_def request_labels_def ALLOWED_METRICS_def
          label_key_ok_def name_char_def name_start_def dkeys_def)
  qed
  then show ?thesis by (auto simp: request_samples_map list_all_iff)
qed

lemma aggregate_request:
  assumes "outcome \<noteq> []" and "0 \<le> n"
  shows "aggregate_sample
    (read_back (sample ''security_gateway_requests_total'' (request_labels (model_id, outcome)) (NInt n))) t =
    Inr (t\<lparr>tl_requests := counter_add (tl_requests t) outcome n\<rparr>)"
proof -
  have "dget (sort (request_labels (model_id, outcome))) ''outcome'' = Some outcome"
    by (subst dget_sort) (simp_all add: request_labels_def dkeys_def)
  then show ?thesis
    using assms by (simp add: aggregate_sample_def read_back_def dget_default_def as_int_def)
qed

definition outcome_total :: "string \<Rightarrow> (string \<times> string) counter_dict \<Rightarrow> int" where
  "outcome_total outcome d = sum_list (map snd (filter (\<lambda>((m, oc), n). oc = outcome) d))"

lemma aggregate_requests:
  assumes "\<forall>((m, oc), n) \<in> set d. oc \<noteq> [] \<and> 0 \<le> n"
  shows "\<exists>t'. aggregate_samples (map read_back (map (\<lambda>(k, n).
      sample ''security_gateway_requests_total'' (request_labels k) (NInt n)) d)) t = Inr t' \<and>
    (\<forall>oc. counter_get (tl_requests t') oc = counter_get (tl_requests t) oc + outcome_total oc d) \<and>
    counter_sum (tl_requests t') = counter_sum (tl_requests t) + sum_list (map snd d)"
  using assms
proof (induction d arbitrary: t)
  case (Cons x d)
  obtain m oc n where x: "x = ((m, oc), n)" by (metis surj_pair)
  let ?t = "t\<lparr>tl_requests := counter_add (tl_requests t) oc n\<rparr>"
  have step: "aggregate_sample (read_back (sample ''security_gateway_requests_total''
      (request_labels (m, oc)) (NInt n))) t = Inr ?t"
    using Cons.prems by (intro aggregate_request) (simp_all add: x)
  obtain t' where "aggregate_samples (map read_back (map (\<lambda>(k, n).
      sample ''security_gateway_requests_total'' (request_labels k) (NInt n)) d)) ?t = Inr t'"
    "\<forall>oc. counter_get (tl_requests t') oc = counter_get (tl_requests ?t) oc + outcome_total oc d"
    "counter_sum (tl_requests t') = counter_sum (tl_requests ?t) + sum_list (map snd d)"
    using Cons.IH [of ?t] Cons.prems by auto
  then show ?case using step by (auto simp: x outcome_total_def)
qed (simp add: outcome_total_def)

lemma sum_list_sort: "sum_list (map f (filter P (sort d))) = sum_list (map f (filter P d :: 'a::linorder list) :: int list)"
proof -
  have "mset (filter P (sort d)) = mset (filter P d)" by simp
  then have "mset (map f (filter P (sort d))) = mset (map f (filter P d))" by (simp only: mset_map)
  then show ?thesis by (metis sum_mset_sum_list)
qed

text \<open>
  C26: Reading the request lines of a registry back gives, for each outcome, the sum of the
  registry's request counters over all models, and their total.
\<close>

theorem snapshot_counts_requests:
  assumes "readable_requests m" and "\<forall>((model_id, outcome), n) \<in> set (m_requests m). outcome \<noteq> []"
    and "m_requests m \<noteq> []" and "format_samples (request_samples m) = Inr lines"
  shows "\<exists>samples t. parse_prometheus (py_join [CHR 0x0A] lines @ [CHR 0x0A]) = Inr samples \<and>
    aggregate_samples samples empty_telemetry = Inr t \<and>
    (\<forall>outcome. counter_get (tl_requests t) outcome = outcome_total outcome (m_requests m)) \<and>
    counter_sum (tl_requests t) = sum_list (map snd (m_requests m))"
proof -
  have "request_samples m \<noteq> []" using assms(3) by (auto simp: request_samples_map)
  then have "parse_prometheus (py_join [CHR 0x0A] lines @ [CHR 0x0A]) = Inr (map read_back (request_samples m))"
    using counter_text_reads_back [OF request_samples_ok [OF assms(1)]] assms(4) by blast
  moreover have "\<forall>((m, oc), n) \<in> set (sort (m_requests m)). oc \<noteq> [] \<and> 0 \<le> n"
    using assms(1,2) by (auto simp: readable_requests_def list_all_iff)
  from aggregate_requests [OF this, of empty_telemetry]
  obtain t where "aggregate_samples (map read_back (request_samples m)) empty_telemetry = Inr t"
    "\<forall>oc. counter_get (tl_requests t) oc = outcome_total oc (sort (m_requests m))"
    "counter_sum (tl_requests t) = sum_list (map snd (sort (m_requests m)))"
    by (auto simp: request_samples_map empty_telemetry_def)
  moreover have "outcome_total oc (sort (m_requests m)) = outcome_total oc (m_requests m)" for oc
    by (simp add: outcome_total_def sum_list_sort)
  moreover have "sum_list (map snd (sort (m_requests m))) = sum_list (map snd (m_requests m))"
    using sum_list_sort [of snd "\<lambda>_. True" "m_requests m"] by simp
  ultimately show ?thesis by simp
qed


section \<open>The 95th percentile bound\<close>

lemma p95_target_exact:
  assumes "0 < n" and "int n \<le> 2 ^ 40"
  shows "p95_target (int n) = Inr ((95 * int n + 99) div 100)"
proof -
  have f: "to_f64 (95 / 100) = Fin (round64 (95 / 100))" by (rule to_f64_finite) simp
  have i: "int_to_float (int n) = Inr (Fin (of_int (int n)))" using assms by (intro int_to_float_small) simp
  obtain r where r: "fmul (Fin (of_int (int n))) (Fin (round64 (95 / 100))) = Fin r" "\<lceil>r\<rceil> = (95 * int n + 99) div 100"
    using percentile_index_exact [of 95 n] assms f i
    by (auto simp: percentile_index_def float_op_def mult.commute split: pyfloat.splits)
  have "num_mul (NInt (int n)) (NFlt (to_f64 (95 / 100))) = Inr (NFlt (Fin r))"
    using i r(1) by (simp only: num_mul.simps float_op_def num_to_float.simps bind_result_simps f)
  moreover have "1 \<le> (95 * int n + 99) div 100" using rank_bounds(1) [of 95 n] assms(1) by simp
  ultimately show ?thesis using r(2) by (simp only: p95_target_def bind_result_simps num_val.simps pyfloat.case) simp
qed

lemma p95_bound_split:
  "p95_bound target bk = Some v \<Longrightarrow> \<exists>pre b c post. bk = pre @ (b, c) # post \<and> target \<le> c \<and> \<not> is_inf b \<and>
     v = fround 3 (fmul b (Fin 1000)) \<and> (\<forall>(b', c') \<in> set pre. c' < target)"
proof (induction target bk rule: p95_bound.induct)
  case (2 target b c bk)
  show ?case
  proof (cases "target \<le> c")
    case True
    then show ?thesis using "2.prems"
      by (intro exI [of _ "[]"] exI [of _ b] exI [of _ c] exI [of _ bk]) (auto split: if_splits)
  next
    case False
    then obtain pre b' c' post where "bk = pre @ (b', c') # post" "target \<le> c'" "\<not> is_inf b'"
      "v = fround 3 (fmul b' (Fin 1000))" "\<forall>(b'', c'') \<in> set pre. c'' < target"
      using 2 by (auto split: if_splits)
    with False show ?thesis by (intro exI [of _ "(b, c) # pre"] exI [of _ b'] exI [of _ c'] exI [of _ post]) auto
  qed
qed simp

text \<open>
  The buckets of a histogram as the exposition writes them, the last one unbounded, and the
  observations of one key.
\<close>

definition exposed_buckets :: "pyfloat list \<Rightarrow> 'k histogram \<Rightarrow> 'k \<Rightarrow> (pyfloat \<times> int) list" where
  "exposed_buckets bounds h k =
     map (\<lambda>b. (b, counter_get (h_buckets h) (k, b))) bounds @ [(PosInf, counter_get (h_count h) k)]"

definition observed :: "'k \<Rightarrow> ('k \<times> pyfloat) list \<Rightarrow> pyfloat list" where
  "observed k xs = map snd (filter (\<lambda>(k', x). k' = k) xs)"

lemma length_observed: "length (filter P (observed k xs)) = length (filter (\<lambda>(k', x). k' = k \<and> P x) xs)"
  unfolding observed_def filter_map length_map filter_filter
  by (rule arg_cong [where f = length]) (auto intro: filter_cong)

text \<open>
  C31: The 95th percentile bound of a snapshot is the smallest bucket bound that at least 95
  percent of the observations of the model lie within.
\<close>

theorem p95_bound_covers:
  assumes "distinct bounds" and "observed k xs \<noteq> []" and "int (length (observed k xs)) \<le> 2 ^ 40"
    and "p95_target (int (length (observed k xs))) = Inr target"
    and "p95_bound target (sort_key fst (exposed_buckets bounds (observe_all bounds empty_histogram xs) k)) = Some ms"
  shows "\<exists>b \<in> set bounds. ms = fround 3 (fmul b (Fin 1000)) \<and>
    95 * int (length (observed k xs)) \<le> 100 * int (length (filter (\<lambda>x. fle x b) (observed k xs))) \<and>
    (\<forall>b' \<in> set bounds. b' < b \<longrightarrow>
       100 * int (length (filter (\<lambda>x. fle x b') (observed k xs))) < 95 * int (length (observed k xs)))"
proof -
  let ?n = "length (observed k xs)" and ?h = "observe_all bounds empty_histogram xs"
  let ?bk = "exposed_buckets bounds ?h k"
  have n: "0 < ?n" using assms(2) by simp
  have target: "target = (95 * int ?n + 99) div 100" using p95_target_exact [OF n assms(3)] assms(4) by simp
  have counts: "counter_get (h_buckets ?h) (k, b) = int (length (filter (\<lambda>x. fle x b) (observed k xs)))"
    if "b \<in> set bounds" for b
    using observe_all_counts [OF assms(1), of empty_histogram xs k b] that
    by (simp add: length_observed empty_histogram_def)
  obtain pre b c post where s: "sort_key fst ?bk = pre @ (b, c) # post"
    and b: "target \<le> c" "\<not> is_inf b" "ms = fround 3 (fmul b (Fin 1000))" "\<forall>(b', c') \<in> set pre. c' < target"
    using p95_bound_split [OF assms(5)] by blast
  have sorted: "sorted (map fst (pre @ (b, c) # post))" using sorted_sort_key [of fst ?bk] by (simp only: s)
  have "(b, c) \<in> set (sort_key fst ?bk)" by (simp only: s) simp
  then have bc: "b \<in> set bounds" "c = int (length (filter (\<lambda>x. fle x b) (observed k xs)))"
    using b(2) counts by (auto simp: exposed_buckets_def is_inf_def)
  have "100 * int (length (filter (\<lambda>x. fle x b') (observed k xs))) < 95 * int ?n"
    if b': "b' \<in> set bounds" "b' < b" for b'
  proof -
    let ?c = "int (length (filter (\<lambda>x. fle x b') (observed k xs)))"
    have "(b', ?c) \<in> set (sort_key fst ?bk)" using b'(1) counts [OF b'(1)] by (auto simp: exposed_buckets_def)
    moreover have "(b', ?c) \<notin> set ((b, c) # post)" using sorted b'(2) by (auto simp: sorted_append leD)
    ultimately have "(b', ?c) \<in> set pre" by (simp only: s) auto
    then have "?c < target" using b(4) by auto
    then show ?thesis using rank_bounds(4) [of 95 ?n] n by (simp add: target)
  qed
  moreover have "95 * int ?n \<le> 100 * c" using rank_bounds(3) [of 95 ?n] n b(1) by (simp add: target)
  ultimately show ?thesis using b(3) bc by (intro bexI [of _ b] conjI) simp_all
qed

end
