(* ===== verification/ReportWitnesses.thy ===== *)
theory ReportWitnesses
  imports Resilience BackendProbe TelemetryRoundtrip
begin

text \<open>
  The properties of the report builders, each applied to a concrete input at which its
  hypotheses hold.
\<close>

section \<open>Percentiles and the replay\<close>

lemma percentile_nearest_rank_witness:
  "\<exists>x \<in> set [Fin 1, Fin 2, Fin 3]. percentile [Fin 1, Fin 2, Fin 3] 50 = Inr (Some (fround 3 x)) \<and>
    50 * 3 \<le> 100 * int (length (filter (\<lambda>y. fle y x) [Fin 1, Fin 2, Fin 3])) \<and>
    100 * int (length (filter (\<lambda>y. flt y x) [Fin 1, Fin 2, Fin 3])) < 50 * 3"
  using percentile_nearest_rank [of 50 "[Fin 1, Fin 2, Fin 3]"] by simp

lemma probe_percentile_agrees_witness:
  "probe_percentile [Fin 3, Fin 1, Fin 2] 95 = percentile [Fin 3, Fin 1, Fin 2] 95"
  by (rule probe_percentile_agrees) simp_all

definition still_clock :: "int \<Rightarrow> pyfloat \<times> pyfloat" where
  "still_clock n = (Fin 0, Fin 0)"

lemma default_thresholds_valid: "validate_replay_thresholds default_replay_thresholds = Inr ()"
  by (simp add: validate_replay_thresholds_def default_replay_thresholds_def REQUIRED_OUTCOMES_def)

lemma default_requests_small:
  "\<forall>q \<in> set DEFAULT_REPLAY_REQUESTS. rr_characters q \<le> 2 ^ 52" "length DEFAULT_REPLAY_REQUESTS = 36"
  by (auto simp: DEFAULT_REPLAY_REQUESTS_def a_request_def)

lemma demo_policies_wf: "policies_wf (model_policies_of 60 12000)"
  by (rule policies_wf_of) simp_all

lemma default_report_built:
  "\<exists>r. build_workload_report DEFAULT_REPLAY_REQUESTS (model_policies_of 60 12000) default_replay_thresholds
     still_clock = Inr r"
  using default_thresholds_valid demo_policies_wf default_requests_small
  by (intro workload_report_total) (auto simp: policies_wf_def)

lemma workload_report_ready_witness:
  "\<exists>r st. replay (model_policies_of 60 12000) still_clock 1 DEFAULT_REPLAY_REQUESTS new_replay = Inr st \<and>
     replay_accounts DEFAULT_REPLAY_REQUESTS st \<and> dget r ''request_count'' = Some (VInt 36)"
proof -
  obtain r where "build_workload_report DEFAULT_REPLAY_REQUESTS (model_policies_of 60 12000)
      default_replay_thresholds still_clock = Inr r"
    using default_report_built by blast
  from workload_report_ready [OF this] show ?thesis by (auto simp: default_requests_small)
qed

section \<open>Capacity\<close>

definition demo_profile :: capacity_profile where
  "demo_profile = \<lparr>cp_model_id = ''benchmark-echo'', cp_profile_name = ''p'', cp_requests_per_second = NInt 2,
     cp_input_tokens_per_second = NInt 256, cp_decode_tokens_per_second = NInt 1, cp_p95_latency_ms = NInt 8,
     cp_gpu_utilization = NFlt (Fin (1 / 2)), cp_gpu_hourly_cost_usd = NInt 1, cp_accelerator_class = ''gpu''\<rparr>"

definition demo_assumption :: capacity_assumption where
  "demo_assumption = \<lparr>as_target_gpu_utilization = NFlt (Fin (1 / 2)), as_safety_margin = NInt 0\<rparr>"

definition demo_policy :: model_policy where
  "demo_policy = the (dget (model_policies_of 60 12000) ''benchmark-echo'')"

lemma demo_estimate:
  "(case estimate_profile_capacity demo_profile demo_policy demo_assumption of
      Inr e \<Rightarrow> dget e ''status'' = Some (VStr ''within_synthetic_capacity'') | Inl _ \<Rightarrow> False)"
  by code_simp

lemma capacity_within_iff_witness:
  "\<exists>q t. policy_ratio demo_profile demo_assumption (NInt 2) (requests_per_minute demo_policy) = Inr q \<and>
     policy_ratio demo_profile demo_assumption (NInt 256) (input_tokens_per_minute demo_policy) = Inr t \<and>
     num_le q (NInt 1) \<and> (num_le t (NInt 1) \<or> num_nan t)"
proof -
  obtain e where e: "estimate_profile_capacity demo_profile demo_policy demo_assumption = Inr e"
    and "dget e ''status'' = Some (VStr ''within_synthetic_capacity'')"
    using demo_estimate by (auto split: sum.splits)
  then show ?thesis using capacity_within_iff [OF e] by (auto simp: demo_profile_def)
qed

section \<open>Probe and drill\<close>

definition fixed_latency :: "unit request_fun" where
  "fixed_latency w m i ep k t = (if i = ''down'' then Inl (BackendAdapterError ''down'')
     else Inr [(''latency_ms'', VInt 4)], w)"

lemma run_probe_accounts_witness:
  "\<exists>r. fst (run_probe fixed_latency ''m'' [''up'', ''down''] ''e'' None (Fin 1) ()) = Inr r \<and>
     dget r ''attempted_requests'' = Some (VInt 2) \<and> dget r ''status'' \<noteq> Some (VStr ''pass'')"
proof -
  have "(case fst (run_probe fixed_latency ''m'' [''up'', ''down''] ''e'' None (Fin 1) ()) of
      Inr r \<Rightarrow> dget r ''failed_requests'' = Some (VInt 1) | Inl _ \<Rightarrow> False)" by code_simp
  then obtain r w where r: "run_probe fixed_latency ''m'' [''up'', ''down''] ''e'' None (Fin 1) () = (Inr r, w)"
    and "dget r ''failed_requests'' = Some (VInt 1)"
    by (cases "run_probe fixed_latency ''m'' [''up'', ''down''] ''e'' None (Fin 1) ()") (auto split: sum.splits)
  with run_probe_accounts [OF r] show ?thesis by auto
qed

definition demo_probe :: resilience_probe where
  "demo_probe = \<lparr>sp_name = ''n'', sp_scenario = ''queue_saturation'', sp_affected_model = ''m'',
     sp_injected_condition = ''c'', sp_detection_signal = ''d'', sp_mitigation_path = ''p'',
     sp_rollback_action = ''r'', sp_baseline_p95_latency_ms = NInt 4, sp_observed_p95_latency_ms = NInt 5,
     sp_observed_error_rate = NInt 0, sp_observed_queue_depth = 3, sp_recovery_seconds = NInt 2\<rparr>"

definition demo_drill_thresholds :: resilience_thresholds where
  "demo_drill_thresholds = \<lparr>st_max_latency_multiplier = NFlt (Fin (3 / 2)), st_max_error_rate = NInt 0,
     st_max_queue_depth = 4, st_max_recovery_seconds = NInt 4, st_required_scenarios = [''queue_saturation'']\<rparr>"

definition passing_report :: "(string, pyval) dict" where
  "passing_report = [(''readiness_status'', VStr ''pass''),
     (''source_evidence'', VDict
        [(''capacity_plan'', VDict [(''artifact'', VStr ''a''), (''status'', VStr ''pass'')]),
         (''distributed_limiter'', VDict [(''artifact'', VStr ''a''), (''status'', VStr ''pass'')])])]"

definition demo_inputs :: report_inputs where
  "demo_inputs = \<lparr>ri_policies = [], ri_clock = still_clock, ri_sha256_hex = (\<lambda>s. s)\<rparr>"

definition demo_drill :: drill_inputs where
  "demo_drill = \<lparr>di_probes = [demo_probe], di_thresholds = demo_drill_thresholds,
     di_workload_report = passing_report, di_deployment_report = passing_report\<rparr>"

lemma passing_report_nonempty [simp]: "passing_report \<noteq> []"
  by (simp add: passing_report_def)

lemma resilience_ready_iff_witness:
  "\<exists>r. build_resilience_drill_report demo_inputs [demo_probe] demo_drill_thresholds
      (Some passing_report) (Some passing_report) = Inr r \<and>
     dget r ''readiness_status'' = Some (VStr ''pass'') \<and> probe_within demo_drill_thresholds demo_probe"
proof -
  have d: "(case drill_report demo_drill of
      Inr r \<Rightarrow> dget r ''readiness_status'' = Some (VStr ''pass'') | Inl _ \<Rightarrow> False)" by code_simp
  have v: "validate_resilience_thresholds demo_drill_thresholds = Inr ()" "validate_probe demo_probe = Inr ()"
    by code_simp+
  have "build_resilience_drill_report demo_inputs [demo_probe] demo_drill_thresholds
      (Some passing_report) (Some passing_report) = drill_report demo_drill"
    by (simp add: build_resilience_drill_report_def v source_workload_def or_build_def passing_report_nonempty
        demo_drill_def)
  then obtain r where r: "build_resilience_drill_report demo_inputs [demo_probe] demo_drill_thresholds
      (Some passing_report) (Some passing_report) = Inr r"
    and "dget r ''readiness_status'' = Some (VStr ''pass'')" using d by (auto split: sum.splits)
  with resilience_ready_iff [OF r] show ?thesis by auto
qed

section \<open>A deployment over built reports\<close>

definition demo_request :: replay_request where
  "demo_request = a_request ''analyst-1'' ''benchmark-echo'' 32 False"

definition demo_replay_thresholds :: replay_thresholds where
  "demo_replay_thresholds = \<lparr>rt_max_allowed_p95_latency_ms = Fin 92, rt_required_outcomes = [''allowed'']\<rparr>"

definition demo_phase :: deployment_phase where
  "demo_phase = \<lparr>dp_name = ''full'', dp_traffic_fraction = NFlt (Fin 1),
     dp_capacity_reservation_fraction = NInt 1, dp_validation_mode = ''m'', dp_rollback_trigger = ''t'',
     dp_required_evidence = [''e'']\<rparr>"

abbreviation demo_policies :: "(string, model_policy) dict" where
  "demo_policies \<equiv> [(''benchmark-echo'', demo_policy)]"

lemma demo_outcome:
  "(case replay_outcome demo_policies (still_clock 1) demo_request (new_memory_limiter 60) (new_memory_limiter 60) of
      Inr (outcome, _, _) \<Rightarrow> outcome = ''allowed'' | Inl _ \<Rightarrow> False)"
  by code_simp

lemma demo_policies_positive: "\<forall>(m, p) \<in> set demo_policies. 1 \<le> input_tokens_per_minute p"
  by code_simp

lemma demo_workload:
  obtains wl st where "build_workload_report [demo_request] demo_policies demo_replay_thresholds still_clock = Inr wl"
    and "replay_ready ([demo_request], demo_policies, demo_replay_thresholds, still_clock)"
proof -
  obtain wl where wl: "build_workload_report [demo_request] demo_policies demo_replay_thresholds still_clock = Inr wl"
    using workload_report_total [of demo_replay_thresholds demo_policies "[demo_request]" still_clock]
      demo_policies_positive
    by (auto simp: demo_replay_thresholds_def validate_replay_thresholds_def demo_request_def a_request_def)
  obtain rl tk where o: "replay_outcome demo_policies (still_clock 1) demo_request (new_memory_limiter 60)
      (new_memory_limiter 60) = Inr (''allowed'', rl, tk)"
    using demo_outcome by (auto split: sum.splits prod.splits)
  obtain st where st: "replay demo_policies still_clock 1 [demo_request] new_replay = Inr st"
    using wl by (auto simp: build_workload_report_def)
  then have "counter_get (rs_outcomes st) ''allowed'' = 1"
    using o by (auto simp: replay_step_def new_replay_def Let_def)
  then have "replay_ready ([demo_request], demo_policies, demo_replay_thresholds, still_clock)"
    using latency_gate_never_holds [OF st, of demo_replay_thresholds] by (simp add: demo_replay_thresholds_def)
  with wl that show thesis by blast
qed

definition demo_deployment_thresholds :: deployment_thresholds where
  "demo_deployment_thresholds = \<lparr>dt_max_phase_policy_utilization = NInt 1\<rparr>"

lemma demo_capacity:
  "(case build_capacity_report [demo_profile] demo_policies demo_assumption of
      Inr cap \<Rightarrow>
        (case capacity_models cap of Inr models \<Rightarrow> (case capacity_pass models of Inr b \<Rightarrow> b | _ \<Rightarrow> False) | _ \<Rightarrow> False) \<and>
        (case build_phase_reports cap [demo_phase] of
           Inr reports \<Rightarrow> (case map_result (\<lambda>r. item_num r ''max_scheduled_policy_utilization'') reports of
               Inr ms \<Rightarrow> num_le (list_max ms) (NInt 1) | _ \<Rightarrow> False)
         | _ \<Rightarrow> False)
    | Inl _ \<Rightarrow> False)"
  by code_simp

lemma demo_phase_valid:
  "validate_phase demo_phase = Inr ()" "validate_deployment_thresholds demo_deployment_thresholds = Inr ()"
  "rollout_shape_ok [demo_phase]"
  by code_simp+


end
