(* ===== verification/TelemetryWitnesses.thy ===== *)
theory TelemetryWitnesses
  imports TelemetryRoundtrip
begin

text \<open>
  The properties of the telemetry snapshot, each applied to a concrete input at which its
  hypotheses hold.
\<close>

definition demo_registry :: gateway_metrics where
  "demo_registry = record_request (record_request (new_gateway_metrics [] []) ''m'' ''allowed'' [])
     ''m'' ''denied'' [''unknown model'']"

definition demo_lines :: "string list" where
  "demo_lines = (case format_samples (request_samples demo_registry) of Inr ls \<Rightarrow> ls | Inl _ \<Rightarrow> [])"

lemma demo_format: "format_samples (request_samples demo_registry) = Inr demo_lines"
proof -
  have "(case format_samples (request_samples demo_registry) of Inr _ \<Rightarrow> True | Inl _ \<Rightarrow> False)" by code_simp
  then show ?thesis by (simp add: demo_lines_def split: sum.splits)
qed

lemma demo_registry_ok:
  "list_all (\<lambda>s. counter_sample_ok s \<and> single_line s) (request_samples demo_registry)"
  "request_samples demo_registry \<noteq> []" "readable_requests demo_registry" "m_requests demo_registry \<noteq> []"
  "\<forall>((model_id, outcome), n) \<in> set (m_requests demo_registry). outcome \<noteq> []"
  by code_simp+


lemma snapshot_counts_requests_witness:
  "\<exists>samples t. parse_prometheus (py_join [CHR 0x0A] demo_lines @ [CHR 0x0A]) = Inr samples \<and>
     aggregate_samples samples empty_telemetry = Inr t \<and> counter_get (tl_requests t) ''denied'' = 1"
proof -
  have "outcome_total ''denied'' (m_requests demo_registry) = 1" by code_simp
  then show ?thesis
    using snapshot_counts_requests [OF demo_registry_ok(3,5,4) demo_format] by metis
qed

definition demo_text :: string where
  "demo_text = ''security_gateway_input_tokens_total{model_id='' @ [CHR 0x22] @ ''m'' @ [CHR 0x22] @
     '',outcome='' @ [CHR 0x22] @ ''allowed'' @ [CHR 0x22] @ ''} 4'' @ [CHR 0x0A]"

definition demo_snapshot :: "(string, pyval) dict" where
  "demo_snapshot = (case build_snapshot demo_text (Some [(''status'', VStr ''hold'')]) of Inr r \<Rightarrow> r | Inl _ \<Rightarrow> [])"

lemma demo_snapshot_built: "build_snapshot demo_text (Some [(''status'', VStr ''hold'')]) = Inr demo_snapshot"
proof -
  have "(case build_snapshot demo_text (Some [(''status'', VStr ''hold'')]) of Inr _ \<Rightarrow> True | Inl _ \<Rightarrow> False)"
    by code_simp
  then show ?thesis by (simp add: demo_snapshot_def split: sum.splits)
qed

lemma snapshot_exposes_nothing_forbidden_witness:
  "\<not> mentions_forbidden ''status'' \<and> dget demo_snapshot ''status'' \<noteq> None"
proof -
  have d: "(case dget demo_snapshot ''status'' of None \<Rightarrow> False | Some v \<Rightarrow> True)" by code_simp
  then obtain v where v: "dget demo_snapshot ''status'' = Some v" by (auto split: option.splits)
  then have "reaches (VDict demo_snapshot) [''status''] v" by (auto intro: reaches.intros dget_in_set)
  from snapshot_exposes_nothing_forbidden [OF demo_snapshot_built this] v show ?thesis by simp
qed

lemma p95_bound_covers_witness:
  "\<exists>b \<in> set [Fin 1, Fin 2]. 95 * 1 \<le> 100 * int (length (filter (\<lambda>x. fle x b) [Fin (3 / 2)])) \<and>
     (\<forall>b' \<in> set [Fin 1, Fin 2]. b' < b \<longrightarrow> 100 * int (length (filter (\<lambda>x. fle x b') [Fin (3 / 2)])) < 95 * 1)"
proof -
  have o: "observed () [((), Fin (3 / 2))] = [Fin (3 / 2)]" by (simp add: observed_def)
  have t: "p95_target 1 = Inr 1" using p95_target_exact [of 1] by simp
  have "(case p95_bound 1 (sort_key fst (exposed_buckets [Fin 1, Fin 2]
      (observe_all [Fin 1, Fin 2] empty_histogram [((), Fin (3 / 2))]) ())) of None \<Rightarrow> False | Some _ \<Rightarrow> True)" by code_simp
  then obtain ms where ms: "p95_bound 1 (sort_key fst (exposed_buckets [Fin 1, Fin 2]
      (observe_all [Fin 1, Fin 2] empty_histogram [((), Fin (3 / 2))]) ())) = Some ms" by (auto split: option.splits)
  have d: "distinct [Fin 1, Fin 2]" by simp
  from p95_bound_covers [OF d _ _ _ ms] show ?thesis unfolding o using t by auto
qed

end
