(* ===== verification/BenchStats.thy ===== *)
theory BenchStats
  imports Percentile
begin

text \<open>
  The statistics of the benchmark tools: the interpolated percentile, means, deviations and
  differences of \<^verbatim>\<open>bench/analyze.py\<close>, and the number summaries of \<^verbatim>\<open>bench/environment.py\<close>.
  \<open>fsum\<close>, \<open>fmean\<close> and \<open>pstdev\<close> follow Python's \<^verbatim>\<open>math\<close> and \<^verbatim>\<open>statistics\<close>: the sum and the
  variance are exact and rounded once.
\<close>

section \<open>Numbers out of JSON values\<close>

fun num_of_value :: "pyval \<Rightarrow> pynum option" where
  \<comment> \<open>\<^verbatim>\<open>isinstance(value, int | float)\<close>: a bool is an int\<close>
  "num_of_value (VNum n) = Some n"
| "num_of_value (VBool b) = Some (NInt (if b then 1 else 0))"
| "num_of_value v = None"

definition floats_of :: "pyval list \<Rightarrow> pyfloat list result" where
  "floats_of values = map_result num_to_float (List.map_filter num_of_value values)"

definition trunc_rat :: "rat \<Rightarrow> int" where
  "trunc_rat r = (if 0 \<le> r then \<lfloor>r\<rfloor> else \<lceil>r\<rceil>)"

fun num_to_int :: "pynum \<Rightarrow> int result" where
  \<comment> \<open>\<^verbatim>\<open>int(number)\<close>\<close>
  "num_to_int (NInt i) = Inr i"
| "num_to_int (NFlt (Fin r)) = Inr (trunc_rat r)"
| "num_to_int (NFlt NaN) = Inl (ValueError ''cannot convert float NaN to integer'')"
| "num_to_int (NFlt f) = Inl (OverflowError ''cannot convert float infinity to integer'')"

text \<open>\<^verbatim>\<open>int(value)\<close> and \<^verbatim>\<open>float(value)\<close> of a JSON value\<close>

definition value_to_int :: "pyval \<Rightarrow> int result" where
  "value_to_int v =
     (case v of
        VStr s \<Rightarrow> (case py_int s of None \<Rightarrow> Inl (ValueError ''invalid literal for int()'') | Some i \<Rightarrow> Inr i)
      | _ \<Rightarrow> (case num_of_value v of None \<Rightarrow> Inl (TypeError ''int() argument'') | Some n \<Rightarrow> num_to_int n))"

definition value_to_float :: "pyval \<Rightarrow> pyfloat result" where
  "value_to_float v =
     (case v of
        VStr s \<Rightarrow> (case py_float s of None \<Rightarrow> Inl (ValueError ''could not convert string to float'') | Some f \<Rightarrow> Inr f)
      | _ \<Rightarrow> (case num_of_value v of None \<Rightarrow> Inl (TypeError ''float() argument'') | Some n \<Rightarrow> num_to_float n))"

definition value_or :: "pyval \<Rightarrow> pyval \<Rightarrow> pyval" where
  \<comment> \<open>\<^verbatim>\<open>value or default\<close>\<close>
  "value_or v dflt = (if truthy v then v else dflt)"

section \<open>Sums, means and deviations\<close>

definition fsum :: "pyfloat list \<Rightarrow> pyfloat result" where
  "fsum xs =
     (if PosInf \<in> set xs \<and> NegInf \<in> set xs then Inl (ValueError ''-inf + inf in fsum'')
      else if NaN \<in> set xs then Inr NaN
      else if PosInf \<in> set xs then Inr PosInf
      else if NegInf \<in> set xs then Inr NegInf
      else
        case to_f64 (sum_list (map (\<lambda>f. case f of Fin r \<Rightarrow> r | _ \<Rightarrow> 0) xs)) of
          Fin r \<Rightarrow> Inr (Fin r)
        | _ \<Rightarrow> Inl (OverflowError ''intermediate overflow in fsum''))"

definition fmean :: "pyfloat list \<Rightarrow> pyfloat result" where
  "fmean xs =
     bind_result (fsum xs) (\<lambda>total.
     bind_result (int_to_float (int (length xs))) (\<lambda>n. fdiv total n))"

subsection \<open>The builtin sum\<close>

text \<open>
  \<^verbatim>\<open>sum\<close> of floats, as CPython computes it since 3.12: a compensated sum that starts from the
  int 0. \<open>lo\<close> collects what the additions to \<open>hi\<close> lose.
\<close>

fun fabs :: "pyfloat \<Rightarrow> pyfloat" where
  "fabs (Fin r) = Fin \<bar>r\<bar>" | "fabs NegInf = PosInf" | "fabs f = f"

fun compensated :: "pyfloat \<Rightarrow> pyfloat \<Rightarrow> pyfloat list \<Rightarrow> pyfloat" where
  "compensated hi lo [] = (if finite_float lo \<and> lo \<noteq> Fin 0 then fadd hi lo else hi)"
| "compensated hi lo (x # xs) =
     (let t = fadd hi x;
          lost = (if fle (fabs x) (fabs hi) then fadd (fsub hi t) x else fadd (fsub x t) hi)
      in compensated t (fadd lo lost) xs)"

definition float_sum :: "pyfloat list \<Rightarrow> pyfloat" where
  \<comment> \<open>the empty sum is the int 0, which every use converts\<close>
  "float_sum xs = (case xs of [] \<Rightarrow> Fin 0 | x # rest \<Rightarrow> compensated x (Fin 0) rest)"

function isqrt :: "int \<Rightarrow> int" where
  \<comment> \<open>\<^verbatim>\<open>math.isqrt\<close>\<close>
  "isqrt n =
     (if n \<le> 0 then 0
      else let r = 2 * isqrt (n div 4) in if (r + 1) * (r + 1) \<le> n then r + 1 else r)"
  by pat_completeness auto
termination by (relation "measure nat") auto

declare isqrt.simps [simp del]

text \<open>
  \<^verbatim>\<open>statistics._float_sqrt_of_frac\<close>: the square root of a fraction, taken to 109 bits with
  the last one odd when inexact, so that the division rounds it correctly.
\<close>

definition isqrt_to_odd :: "int \<Rightarrow> int \<Rightarrow> int" where
  "isqrt_to_odd n m =
     (let a = isqrt (n div m) in if a * a * m = n \<or> odd a then a else a + 1)"

definition sqrt_of_frac :: "rat \<Rightarrow> pyfloat result" where
  "sqrt_of_frac x =
     (let (n, m) = quotient_of x;
          q = (bit_count n - bit_count m - 109) div 2
      in bind_result
           (if 0 \<le> q then num_div (NInt (isqrt_to_odd n (m * 4 ^ nat q) * 2 ^ nat q)) (NInt 1)
            else num_div (NInt (isqrt_to_odd (n * 4 ^ nat (- q)) m)) (NInt (2 ^ nat (- q))))
           num_to_float)"

definition exact_floats :: "pyfloat list \<Rightarrow> rat list result" where
  "exact_floats xs =
     map_result (\<lambda>f. case f of Fin r \<Rightarrow> Inr r
       | _ \<Rightarrow> Inl (TypeError ''float object has no attribute numerator'')) xs"

definition pstdev :: "pyfloat list \<Rightarrow> pyfloat result" where
  "pstdev xs =
     bind_result (exact_floats xs) (\<lambda>rs.
       let n = of_nat (length rs); s = sum_list rs; ss = sum_list (map (\<lambda>r. r * r) rs)
       in sqrt_of_frac ((n * ss - s * s) / n / n))"

definition list_fmin :: "pyfloat list \<Rightarrow> pyfloat" where
  \<comment> \<open>\<^verbatim>\<open>min(values)\<close>: the first of the least\<close>
  "list_fmin xs = foldl (\<lambda>m x. if flt x m then x else m) (hd xs) (tl xs)"

definition list_fmax :: "pyfloat list \<Rightarrow> pyfloat" where
  "list_fmax xs = foldl (\<lambda>m x. if flt m x then x else m) (hd xs) (tl xs)"

section \<open>The interpolated percentile\<close>

definition py_nth :: "'a list \<Rightarrow> int \<Rightarrow> 'a result" where
  \<comment> \<open>\<^verbatim>\<open>xs[i]\<close>: a negative index counts from the end\<close>
  "py_nth xs i =
     (let j = (if i < 0 then i + int (length xs) else i) in
      if 0 \<le> j \<and> j < int (length xs) then Inr (xs ! nat j)
      else Inl (IndexError ''list index out of range''))"

definition interpolate :: "pyfloat list \<Rightarrow> int \<Rightarrow> pyfloat result" where
  \<comment> \<open>of a list in ascending order\<close>
  "interpolate ordered percent =
     (let last_index = int (length ordered) - 1 in
      bind_result (num_div (NInt (last_index * percent)) (NInt 100)) (\<lambda>position.
      bind_result (num_to_int position) (\<lambda>lower.
      let upper = min (lower + 1) last_index in
      bind_result (num_sub position (NInt lower)) (\<lambda>fraction.
      bind_result (num_to_float fraction) (\<lambda>weight.
      bind_result (py_nth ordered lower) (\<lambda>below.
      bind_result (py_nth ordered upper) (\<lambda>above.
        Inr (fadd below (fmul (fsub above below) weight)))))))))"

definition bench_percentile :: "pyfloat list \<Rightarrow> int \<Rightarrow> pyfloat option result" where
  "bench_percentile numbers percent =
     (let ordered = sort numbers in
      if ordered = [] then Inr None
      else if length ordered = 1 then Inr (Some (hd ordered))
      else bind_result (interpolate ordered percent) (\<lambda>x. Inr (Some x)))"

definition ordered_percentile :: "pyfloat list \<Rightarrow> int \<Rightarrow> pyfloat result" where
  \<comment> \<open>\<^verbatim>\<open>environment.percentile\<close>, whose caller has sorted\<close>
  "ordered_percentile ordered percent =
     (if length ordered = 1 then Inr (hd ordered) else interpolate ordered percent)"

section \<open>Distributions\<close>

definition rounded :: "pynum option \<Rightarrow> pynum option" where
  "rounded value = map_option (num_round 6) value"

definition rounded_float :: "pyfloat option \<Rightarrow> pyfloat option" where
  \<comment> \<open>\<^verbatim>\<open>rounded\<close> of a float\<close>
  "rounded_float value = map_option (fround 6) value"

record distribution =
  di_count :: int
  di_mean :: "pyfloat option"
  di_stddev :: "pyfloat option"
  di_min :: "pyfloat option"
  di_max :: "pyfloat option"
  di_p50 :: "pyfloat option"
  di_p95 :: "pyfloat option"
  di_p99 :: "pyfloat option"

definition no_distribution :: distribution where
  "no_distribution =
     \<lparr>di_count = 0, di_mean = None, di_stddev = None, di_min = None, di_max = None,
      di_p50 = None, di_p95 = None, di_p99 = None\<rparr>"

definition distribution_of :: "pyfloat list \<Rightarrow> distribution result" where
  \<comment> \<open>\<^verbatim>\<open>distribution\<close> once its numbers are picked out\<close>
  "distribution_of numbers =
     (if numbers = [] then Inr no_distribution
      else
        bind_result (fmean numbers) (\<lambda>mean.
        bind_result (pstdev numbers) (\<lambda>stddev.
        bind_result (bench_percentile numbers 50) (\<lambda>p50.
        bind_result (bench_percentile numbers 95) (\<lambda>p95.
        bind_result (bench_percentile numbers 99) (\<lambda>p99.
          Inr \<lparr>di_count = int (length numbers), di_mean = Some (fround 6 mean),
               di_stddev = Some (fround 6 stddev), di_min = Some (fround 6 (list_fmin numbers)),
               di_max = Some (fround 6 (list_fmax numbers)), di_p50 = rounded_float p50,
               di_p95 = rounded_float p95, di_p99 = rounded_float p99\<rparr>))))))"

definition distribution_values :: "pyval list \<Rightarrow> distribution result" where
  "distribution_values values = bind_result (floats_of values) distribution_of"

definition population_stddev :: "pyfloat option list \<Rightarrow> pyfloat option result" where
  "population_stddev values =
     (let numbers = List.map_filter id values in
      if numbers = [] then Inr None
      else bind_result (pstdev numbers) (\<lambda>s. Inr (Some (fround 6 s))))"

section \<open>Differences and ratios\<close>

definition difference :: "pyfloat option \<Rightarrow> pyfloat option \<Rightarrow> pyfloat option" where
  "difference left right =
     (case (left, right) of (Some l, Some r) \<Rightarrow> Some (fround 6 (fsub l r)) | _ \<Rightarrow> None)"

definition usable_baseline :: "pynum option \<Rightarrow> bool" where
  \<comment> \<open>\<^verbatim>\<open>baseline not in (None, 0)\<close>\<close>
  "usable_baseline baseline \<longleftrightarrow> (case baseline of None \<Rightarrow> False | Some b \<Rightarrow> \<not> num_eq b (NInt 0))"

definition quotient :: "pynum \<Rightarrow> pynum \<Rightarrow> pyfloat result" where
  \<comment> \<open>\<^verbatim>\<open>float(value) / float(baseline)\<close>\<close>
  "quotient v b =
     bind_result (num_to_float v) (\<lambda>x. bind_result (num_to_float b) (\<lambda>y. fdiv x y))"

definition percent_change :: "pynum option \<Rightarrow> pynum option \<Rightarrow> pyfloat option result" where
  "percent_change v baseline =
     (if v = None \<or> \<not> usable_baseline baseline then Inr None
      else bind_result (quotient (the v) (the baseline)) (\<lambda>q.
        Inr (Some (fround 6 (fmul (fsub q (Fin 1)) (Fin 100))))))"

definition ratio_percent :: "pynum option \<Rightarrow> pynum option \<Rightarrow> pyfloat option result" where
  "ratio_percent v baseline =
     (if v = None \<or> \<not> usable_baseline baseline then Inr None
      else bind_result (quotient (the v) (the baseline)) (\<lambda>q. Inr (Some (fround 6 (fmul q (Fin 100))))))"

definition show_number :: "pyfloat option \<Rightarrow> string" where
  \<comment> \<open>\<^verbatim>\<open>format_number\<close>\<close>
  "show_number v = (case v of None \<Rightarrow> ''n/a'' | Some f \<Rightarrow> fmt_fixed 2 f)"

section \<open>Number summaries of the environment capture\<close>

record number_summary =
  ns_mean :: pyfloat
  ns_min :: pyfloat
  ns_max :: pyfloat
  ns_p95 :: pyfloat

definition summarize_numbers :: "pyval list \<Rightarrow> number_summary option result" where
  "summarize_numbers values =
     bind_result (floats_of values) (\<lambda>numbers.
       if numbers = [] then Inr None
       else
         let ordered = sort numbers in
         bind_result (fmean ordered) (\<lambda>mean.
         bind_result (ordered_percentile ordered 95) (\<lambda>p95.
           Inr (Some \<lparr>ns_mean = fround 3 mean, ns_min = fround 3 (hd ordered),
             ns_max = fround 3 (last ordered), ns_p95 = fround 3 p95\<rparr>))))"

definition read_number :: "string \<Rightarrow> pynum option" where
  \<comment> \<open>\<^verbatim>\<open>environment.number\<close>\<close>
  "read_number text =
     (case py_float text of
        None \<Rightarrow> None
      | Some (Fin r) \<Rightarrow> Some (if r = of_int \<lfloor>r\<rfloor> then NInt \<lfloor>r\<rfloor> else NFlt (Fin r))
      | Some f \<Rightarrow> Some (NFlt f))"

end
