(* ===== verification/BenchConfig.thy ===== *)
theory BenchConfig
  imports BenchStats
begin

text \<open>
  \<^verbatim>\<open>bench/run.py\<close>, the part before anything runs: the checks on the configuration, the
  schedule of paired conditions, their identifiers, and what is redacted before a command or
  a configuration is written to disk. The configuration is a JSON object; \<open>repr\<close> is Python's
  representation of floats and containers.
\<close>

section \<open>Python values as keys\<close>

fun hashable :: "pyval \<Rightarrow> bool" where
  "hashable (VList xs) = False"
| "hashable (VDict d) = False"
| "hashable v = True"

definition key_eq :: "pyval \<Rightarrow> pyval \<Rightarrow> bool" where
  \<comment> \<open>\<^verbatim>\<open>==\<close> on hashable values: numbers and bools compare by value\<close>
  "key_eq a b \<longleftrightarrow>
     (case (num_of_value a, num_of_value b) of
        (Some m, Some n) \<Rightarrow> num_eq m n
      | _ \<Rightarrow> a = b)"

definition key_member :: "pyval \<Rightarrow> pyval list \<Rightarrow> bool result" where
  "key_member k ks =
     (if hashable k then Inr (list_ex (key_eq k) ks) else Inl (TypeError ''unhashable type''))"

section \<open>Checks on the configuration\<close>

definition REQUIRED_KEYS :: "string list" where
  "REQUIRED_KEYS = [''schema_version'', ''vllm_command'', ''paths'', ''model'', ''workloads'',
     ''concurrency'', ''repetitions'', ''seed'']"

definition is_command :: "pyval \<Rightarrow> bool" where
  \<comment> \<open>a non-empty list of non-empty strings\<close>
  "is_command v =
     (case v of
        VList parts \<Rightarrow> parts \<noteq> [] \<and> list_all (\<lambda>p. case p of VStr s \<Rightarrow> s \<noteq> [] | _ \<Rightarrow> False) parts
      | _ \<Rightarrow> False)"

fun is_object :: "pyval \<Rightarrow> bool" where
  "is_object (VDict d) = True"
| "is_object v = False"

definition has_http_url :: "pyval \<Rightarrow> bool" where
  \<comment> \<open>only a string is shown with a scheme in front\<close>
  "has_http_url v =
     (case v of VStr s \<Rightarrow> py_startswith s ''http://'' \<or> py_startswith s ''https://'' | _ \<Rightarrow> False)"

fun check_all :: "('a \<Rightarrow> unit result) \<Rightarrow> 'a list \<Rightarrow> unit result" where
  \<comment> \<open>a loop of checks, which the first error ends\<close>
  "check_all f [] = Inr ()"
| "check_all f (x # xs) = bind_result (f x) (\<lambda>_. check_all f xs)"

definition check_path :: "string \<times> pyval \<Rightarrow> unit result" where
  "check_path p =
     (let (path_name, path_config) = p in
      bind_result (value_get path_config ''base_url'' (VStr [])) (\<lambda>url.
      bind_result (check (has_http_url url) (ValueError (path_name @ '' base_url must be HTTP(S)''))) (\<lambda>_.
      bind_result (value_get path_config ''headers'' (VDict [])) (\<lambda>headers.
        check (is_object headers) (ValueError (path_name @ '' headers must be an object''))))))"

definition value_items :: "pyval \<Rightarrow> (string \<times> pyval) list result" where
  \<comment> \<open>\<^verbatim>\<open>v.items()\<close>\<close>
  "value_items v = (case v of VDict d \<Rightarrow> Inr d | _ \<Rightarrow> Inl (TypeError ''no attribute items''))"

definition check_paths :: "pyval \<Rightarrow> unit result" where
  "check_paths paths =
     bind_result (value_iter paths) (\<lambda>names.
     bind_result (check (list_all hashable names) (TypeError ''unhashable type'')) (\<lambda>_.
       check (set names = {VStr ''direct'', VStr ''gateway''})
         (ValueError ''paths must define exactly direct and gateway'')))"

definition check_model_variable :: "string \<times> pyval \<Rightarrow> unit result" where
  "check_model_variable v =
     bind_result (check (py_startswith (fst v) ''VLLM_'')
       (ValueError ''model.vllm_environment keys must start with VLLM_'')) (\<lambda>_.
       check (case snd v of VStr s \<Rightarrow> True | VNum n \<Rightarrow> True | VBool b \<Rightarrow> True | _ \<Rightarrow> False)
         (ValueError ''model.vllm_environment values must be scalar''))"

definition check_model :: "pyval \<Rightarrow> unit result" where
  "check_model model =
     bind_result (value_get model ''id'' VNone) (\<lambda>model_id.
     bind_result (value_get model ''served_name'' VNone) (\<lambda>served_name.
     bind_result (check (truthy model_id \<and> truthy served_name)
       (ValueError ''model id and served_name are required'')) (\<lambda>_.
     bind_result (value_get model ''vllm_environment'' (VDict [])) (\<lambda>variables.
     bind_result (check (is_object variables)
       (ValueError ''model.vllm_environment must be an object'')) (\<lambda>_.
     bind_result (value_items variables) (check_all check_model_variable))))))"

definition positive_field :: "(pyval \<Rightarrow> string) \<Rightarrow> pyval \<Rightarrow> pyval \<Rightarrow> string \<Rightarrow> unit result" where
  "positive_field repr name workload field =
     bind_result (value_get workload field (VInt 0)) (\<lambda>v.
     bind_result (value_to_int v) (\<lambda>i.
       check (1 \<le> i) (ValueError (str_of repr name @ '' '' @ field @ '' must be positive''))))"

definition check_workload :: "(pyval \<Rightarrow> string) \<Rightarrow> pyval list \<Rightarrow> pyval \<Rightarrow> pyval result" where
  \<comment> \<open>returns the name, which must be new\<close>
  "check_workload repr workload_names workload =
     bind_result (value_get workload ''name'' VNone) (\<lambda>name.
     bind_result (if truthy name then key_member name workload_names else Inr True) (\<lambda>bad.
     bind_result (check (\<not> bad) (ValueError ''workload names must be non-empty and unique'')) (\<lambda>_.
     bind_result (positive_field repr name workload ''input_tokens'') (\<lambda>_.
     bind_result (positive_field repr name workload ''output_tokens'') (\<lambda>_.
     bind_result (value_items workload) (\<lambda>fields.
     bind_result
       (if dget fields ''min_requests'' \<noteq> None
        then positive_field repr name workload ''min_requests'' else Inr ()) (\<lambda>_.
       Inr name)))))))"

fun check_workloads :: "(pyval \<Rightarrow> string) \<Rightarrow> pyval list \<Rightarrow> pyval list \<Rightarrow> unit result" where
  "check_workloads repr workload_names [] = Inr ()"
| "check_workloads repr workload_names (w # ws) =
     bind_result (check_workload repr workload_names w) (\<lambda>name.
       check_workloads repr (workload_names @ [name]) ws)"

definition concurrency_levels :: "(string, pyval) dict \<Rightarrow> int list result" where
  \<comment> \<open>\<^verbatim>\<open>[int(value) for value in config["concurrency"]]\<close>\<close>
  "concurrency_levels config =
     bind_result (dict_item config ''concurrency'') (\<lambda>v.
     bind_result (value_iter v) (map_result value_to_int))"

definition check_levels :: "int list \<Rightarrow> unit result" where
  "check_levels levels =
     bind_result (check (levels \<noteq> [] \<and> \<not> list_ex (\<lambda>v. v < 1) levels)
       (ValueError ''concurrency values must be positive'')) (\<lambda>_.
       check (distinct levels) (ValueError ''concurrency values must be unique''))"

definition check_optional_command :: "(string, pyval) dict \<Rightarrow> string \<Rightarrow> unit result" where
  "check_optional_command config name =
     (let command = dget_default config name VNone in
      check (command = VNone \<or> is_command command)
        (ValueError (name @ '' must be a non-empty argument list'')))"

definition check_python_environment :: "string \<times> pyval \<Rightarrow> unit result" where
  "check_python_environment e =
     bind_result (check (fst e \<noteq> []) (ValueError ''python_environments keys must be non-empty strings'')) (\<lambda>_.
       check (is_command (snd e)) (ValueError ''python_environments values must be non-empty argument lists''))"

definition check_python_environments :: "(string, pyval) dict \<Rightarrow> unit result" where
  "check_python_environments config =
     (let environments = dget_default config ''python_environments'' (VDict []) in
      bind_result (check (is_object environments) (ValueError ''python_environments must be an object'')) (\<lambda>_.
      bind_result (value_items environments) (check_all check_python_environment)))"

definition check_counts :: "(string, pyval) dict \<Rightarrow> unit result" where
  \<comment> \<open>repetitions and the sampling interval\<close>
  "check_counts config =
     bind_result (dict_item config ''repetitions'') (\<lambda>r.
     bind_result (value_to_int r) (\<lambda>repetitions.
     bind_result (check (1 \<le> repetitions) (ValueError ''repetitions must be positive'')) (\<lambda>_.
     bind_result (value_to_float (dget_default config ''sample_interval_seconds'' (VFloat (Fin (1 / 2))))) (\<lambda>interval.
       check (\<not> fle interval (Fin 0)) (ValueError ''sample_interval_seconds must be positive'')))))"

definition validate_config :: "(pyval \<Rightarrow> string) \<Rightarrow> (string, pyval) dict \<Rightarrow> unit result" where
  "validate_config repr config =
     (let missing = filter (\<lambda>key. dget config key = None) REQUIRED_KEYS in
      bind_result (check (missing = []) (ValueError (''benchmark config is missing: '' @ py_join '', '' missing))) (\<lambda>_.
      bind_result (dict_item config ''schema_version'') (\<lambda>version.
      bind_result (check (key_eq version (VInt 1)) (ValueError ''unsupported benchmark config schema'')) (\<lambda>_.
      bind_result (dict_item config ''vllm_command'') (\<lambda>command.
      bind_result (check (case command of VList parts \<Rightarrow> parts \<noteq> [] | _ \<Rightarrow> False)
        (ValueError ''vllm_command must be a non-empty argument list'')) (\<lambda>_.
      bind_result (dict_item config ''paths'') (\<lambda>paths.
      bind_result (check_paths paths) (\<lambda>_.
      bind_result (check (is_object (dget_default config ''gateway_configuration'' (VDict [])))
        (ValueError ''gateway_configuration must be an object'')) (\<lambda>_.
      bind_result (value_items paths) (\<lambda>path_configs.
      bind_result (check_all check_path path_configs) (\<lambda>_.
      bind_result (dict_item config ''model'') (\<lambda>model.
      bind_result (check_model model) (\<lambda>_.
      bind_result (dict_item config ''workloads'') (\<lambda>w.
      bind_result (value_iter w) (\<lambda>workloads.
      bind_result (check_workloads repr [] workloads) (\<lambda>_.
      bind_result (concurrency_levels config) (\<lambda>levels.
      bind_result (check_levels levels) (\<lambda>_.
      bind_result (check_counts config) (\<lambda>_.
      bind_result (check_all (check_optional_command config) [''git_command'', ''nvidia_smi_command'']) (\<lambda>_.
        check_python_environments config))))))))))))))))))))"

end
