(* ===== verification/BenchSchedule.thy ===== *)
theory BenchSchedule
  imports BenchConfig
begin

text \<open>
  The schedule of \<^verbatim>\<open>bench/run.py\<close>: every workload and concurrency once per repetition on
  both paths, in alternating order, with one seed and one request count per pair; and the
  identifiers under which the conditions are written to disk.
\<close>

section \<open>The smoke configuration\<close>

definition first_item :: "pyval \<Rightarrow> pyval result" where
  \<comment> \<open>\<^verbatim>\<open>values[0]\<close> of a list\<close>
  "first_item v = bind_result (value_list v) (\<lambda>xs. py_nth xs 0)"

definition smoke_config :: "(pyval \<Rightarrow> string) \<Rightarrow> (string, pyval) dict \<Rightarrow> (string, pyval) dict result" where
  "smoke_config repr config =
     bind_result (bind_result (dict_item config ''workloads'') first_item) (\<lambda>w.
     bind_result (value_items w) (\<lambda>fields.
     let workload = VDict (dset fields ''min_requests'' (VInt 2)) in
     bind_result (bind_result (dict_item config ''concurrency'') first_item) (\<lambda>level.
     bind_result (value_item workload ''name'') (\<lambda>name.
       Inr (dset (dset (dset (dset (dset (dset (dset (dset config
         ''workloads'' (VList [workload]))
         ''concurrency'' (VList [level]))
         ''repetitions'' (VInt 1))
         ''min_requests_per_condition'' (VInt 2))
         ''requests_per_concurrency'' (VInt 1))
         ''warmup_requests'' (VInt 1))
         ''headline'' (VDict [(''workload'', name), (''concurrency'', level)]))
         ''run_name'' (VStr (str_of repr (dget_default config ''run_name'' (VStr ''benchmark'')) @ ''-smoke'')))))))"

section \<open>The schedule\<close>

record condition =
  cn_path :: string
  cn_repetition :: int
  cn_workload :: pyval
  cn_concurrency :: int
  cn_seed :: int
  cn_request_count :: int

definition path_order :: "int \<Rightarrow> string list" where
  "path_order k = (if k mod 2 \<noteq> 0 then [''gateway'', ''direct''] else [''direct'', ''gateway''])"

definition cell_request_count :: "(string, pyval) dict \<Rightarrow> pyval \<Rightarrow> pyval \<Rightarrow> int result" where
  "cell_request_count config workload concurrency =
     bind_result (value_get workload ''min_requests''
       (dget_default config ''min_requests_per_condition'' (VInt 32))) (\<lambda>m.
     bind_result (value_to_int m) (\<lambda>minimum_requests.
     bind_result (value_to_int concurrency) (\<lambda>level.
     bind_result (value_to_int (dget_default config ''requests_per_concurrency'' (VInt 2))) (\<lambda>per_level.
       Inr (max minimum_requests (level * per_level))))))"

definition cell_conditions ::
  "(string, pyval) dict \<Rightarrow> int \<Rightarrow> int \<times> pyval \<Rightarrow> int \<times> pyval \<Rightarrow> condition list result" where
  \<comment> \<open>the two conditions of one repetition, workload and concurrency\<close>
  "cell_conditions config repetition iw ic =
     (let (workload_index, workload) = iw; (concurrency_index, concurrency) = ic in
      bind_result (bind_result (dict_item config ''seed'') value_to_int) (\<lambda>base_seed.
      let seed = base_seed + repetition * 1000 + workload_index in
      bind_result (cell_request_count config workload concurrency) (\<lambda>request_count.
      bind_result (value_to_int concurrency) (\<lambda>level.
        Inr (map (\<lambda>path_name.
          \<lparr>cn_path = path_name, cn_repetition = repetition, cn_workload = workload,
           cn_concurrency = level, cn_seed = seed, cn_request_count = request_count\<rparr>)
          (path_order (repetition + workload_index + concurrency_index)))))))"

definition enumerated :: "'a list \<Rightarrow> (int \<times> 'a) list" where
  "enumerated xs = map (\<lambda>(i, x). (int i, x)) (enumerate 0 xs)"

definition concat_result :: "('a \<Rightarrow> 'b list result) \<Rightarrow> 'a list \<Rightarrow> 'b list result" where
  "concat_result f xs = bind_result (map_result f xs) (\<lambda>yss. Inr (concat yss))"

definition workload_conditions :: "(string, pyval) dict \<Rightarrow> int \<Rightarrow> int \<times> pyval \<Rightarrow> condition list result" where
  "workload_conditions config repetition iw =
     bind_result (bind_result (dict_item config ''concurrency'') value_iter) (\<lambda>levels.
       concat_result (cell_conditions config repetition iw) (enumerated levels))"

definition repetition_conditions :: "(string, pyval) dict \<Rightarrow> int \<Rightarrow> condition list result" where
  "repetition_conditions config repetition =
     bind_result (bind_result (dict_item config ''workloads'') value_iter) (\<lambda>workloads.
       concat_result (workload_conditions config repetition) (enumerated workloads))"

definition build_schedule :: "(string, pyval) dict \<Rightarrow> condition list result" where
  "build_schedule config =
     bind_result (bind_result (dict_item config ''repetitions'') value_to_int) (\<lambda>repetitions.
       concat_result (repetition_conditions config) [0..repetitions - 1])"

section \<open>Identifiers\<close>

definition name_char_ok :: "char \<Rightarrow> bool" where
  "name_char_ok c \<longleftrightarrow>
     (let n = (of_char c :: nat) in
      48 \<le> n \<and> n \<le> 57 \<or> 65 \<le> n \<and> n \<le> 90 \<or> 97 \<le> n \<and> n \<le> 122 \<or> n \<in> {45, 46, 95})"

text \<open>\<^verbatim>\<open>re.sub(r"[^a-zA-Z0-9_.-]+", "-", value)\<close>: \<open>inside\<close> a run, nothing more is written.\<close>

fun replace_runs :: "bool \<Rightarrow> string \<Rightarrow> string" where
  "replace_runs inside [] = []"
| "replace_runs inside (c # s) =
     (if name_char_ok c then c # replace_runs False s
      else if inside then replace_runs True s else CHR ''-'' # replace_runs True s)"

definition strip_char :: "char \<Rightarrow> string \<Rightarrow> string" where
  \<comment> \<open>\<^verbatim>\<open>s.strip(c)\<close>\<close>
  "strip_char c s = rev (dropWhile (\<lambda>x. x = c) (rev (dropWhile (\<lambda>x. x = c) s)))"

definition safe_name :: "string \<Rightarrow> string" where
  "safe_name v =
     (let s = strip_char (CHR ''-'') (replace_runs False v) in if s = [] then ''run'' else s)"

definition padded_int :: "nat \<Rightarrow> int \<Rightarrow> string" where
  \<comment> \<open>\<^verbatim>\<open>f"{n:0wd}"\<close>; the sign counts\<close>
  "padded_int w n =
     (if n < 0 then CHR ''-'' # pad_zeros (w - 1) (nat_str (- n)) else pad_zeros w (nat_str n))"

definition identifier_of :: "int \<Rightarrow> string \<Rightarrow> int \<Rightarrow> string \<Rightarrow> string" where
  "identifier_of repetition workload level path =
     ''r'' @ padded_int 2 repetition @ ''-'' @ workload @ ''-c'' @ padded_int 3 level @ ''-'' @ path"

definition workload_name :: "pyval \<Rightarrow> string result" where
  "workload_name workload =
     bind_result (value_item workload ''name'') (\<lambda>name.
       case name of VStr s \<Rightarrow> Inr s | _ \<Rightarrow> Inl (TypeError ''expected string or bytes-like object''))"

definition condition_id :: "condition \<Rightarrow> string result" where
  "condition_id condition =
     bind_result (workload_name (cn_workload condition)) (\<lambda>name.
       Inr (identifier_of (cn_repetition condition) (safe_name name) (cn_concurrency condition) (cn_path condition)))"

section \<open>Pairs\<close>

lemma concat_result_Inr:
  "concat_result f xs = Inr ys \<longleftrightarrow> (\<exists>yss. map_result f xs = Inr yss \<and> ys = concat yss)"
  by (auto simp: concat_result_def)

lemma concat_result_Cons:
  "concat_result f (x # xs) = Inr ys \<longleftrightarrow> (\<exists>y zs. f x = Inr y \<and> concat_result f xs = Inr zs \<and> ys = y @ zs)"
  by (auto simp: concat_result_Inr)

lemma concat_result_Nil [simp]: "concat_result f [] = Inr []"
  by (simp add: concat_result_def)

lemma concat_result_closed:
  assumes "concat_result f xs = Inr ys" and "P []" and "\<And>a b. P a \<Longrightarrow> P b \<Longrightarrow> P (a @ b)"
    and "\<And>x zs. x \<in> set xs \<Longrightarrow> f x = Inr zs \<Longrightarrow> P zs"
  shows "P ys"
  using assms(1,4)
proof (induction xs arbitrary: ys)
  case (Cons x xs)
  then obtain y zs where "f x = Inr y" "concat_result f xs = Inr zs" "ys = y @ zs"
    by (auto simp: concat_result_Cons)
  with Cons show ?case by (auto intro: assms(3))
qed (simp add: assms(2))

lemma concat_result_length:
  assumes "concat_result f xs = Inr ys" and "\<And>x zs. x \<in> set xs \<Longrightarrow> f x = Inr zs \<Longrightarrow> length zs = k"
  shows "length ys = length xs * k"
  using assms(1,2)
proof (induction xs arbitrary: ys)
  case (Cons x xs)
  then obtain y zs where y: "f x = Inr y" "concat_result f xs = Inr zs" "ys = y @ zs"
    by (auto simp: concat_result_Cons)
  have "length zs = length xs * k" using Cons.prems(2) y(2) by (intro Cons.IH) auto
  moreover have "length y = k" using Cons.prems(2) [OF _ y(1)] by simp
  ultimately show ?case using y(3) by simp
qed simp

lemma concat_result_total:
  "(\<And>x. x \<in> set xs \<Longrightarrow> \<exists>y. f x = Inr y) \<Longrightarrow> \<exists>ys. concat_result f xs = Inr ys"
  using map_result_exists [of xs f] by (auto simp: concat_result_def)

text \<open>Keys of the pieces of a concatenation are distinct when each piece shows where it is from.\<close>

lemma concat_result_distinct:
  assumes "concat_result f xs = Inr ys" and "distinct (map g xs)"
    and "\<And>x zs. x \<in> set xs \<Longrightarrow> f x = Inr zs \<Longrightarrow> distinct (map key zs) \<and> (\<forall>z \<in> set zs. origin (key z) = g x)"
  shows "distinct (map key ys) \<and> (\<forall>y \<in> set ys. origin (key y) \<in> g ` set xs)"
  using assms
proof (induction xs arbitrary: ys)
  case (Cons x xs)
  then obtain y zs where y: "f x = Inr y" "concat_result f xs = Inr zs" "ys = y @ zs"
    by (auto simp: concat_result_Cons)
  have zs: "distinct (map key zs) \<and> (\<forall>z \<in> set zs. origin (key z) \<in> g ` set xs)"
    using Cons.prems y(2) by (intro Cons.IH) auto
  have "distinct (map key y)" "\<forall>z \<in> set y. origin (key z) = g x" using Cons.prems(3) [OF _ y(1)] by auto
  moreover have "g x \<notin> g ` set xs" using Cons.prems(2) by simp
  ultimately show ?case using zs y(3) by (fastforce simp: image_iff)
qed simp

text \<open>The conditions of the two paths are the same, in the same order, but for the path.\<close>

definition without_path :: "condition \<Rightarrow> condition" where
  "without_path c = c\<lparr>cn_path := []\<rparr>"

definition on_path :: "string \<Rightarrow> condition list \<Rightarrow> condition list" where
  "on_path path rows = map without_path (filter (\<lambda>c. cn_path c = path) rows)"

definition paired :: "condition list \<Rightarrow> bool" where
  "paired rows \<longleftrightarrow> on_path ''direct'' rows = on_path ''gateway'' rows \<and>
     list_all (\<lambda>c. cn_path c = ''direct'' \<or> cn_path c = ''gateway'') rows"

lemma paired_append: "paired a \<Longrightarrow> paired b \<Longrightarrow> paired (a @ b)"
  by (simp add: paired_def on_path_def)

lemma paired_Nil [simp]: "paired []"
  by (simp add: paired_def on_path_def)

lemma cell_conditions_Inr:
  assumes "cell_conditions config repetition iw ic = Inr rows"
  shows "\<exists>level seed n. value_to_int (snd ic) = Inr level \<and>
    rows = map (\<lambda>path. \<lparr>cn_path = path, cn_repetition = repetition, cn_workload = snd iw,
      cn_concurrency = level, cn_seed = seed, cn_request_count = n\<rparr>) (path_order (repetition + fst iw + fst ic))"
  using assms by (cases iw; cases ic) (fastforce simp: cell_conditions_def Let_def)

lemma cell_conditions_paired:
  assumes "cell_conditions config repetition iw ic = Inr rows"
  shows "paired rows" "length rows = 2"
  using cell_conditions_Inr [OF assms]
  by (auto simp: paired_def on_path_def path_order_def without_path_def)

lemma schedule_paired:
  assumes "build_schedule config = Inr rows"
  shows "paired rows"
proof -
  have workload: "paired zs" if "workload_conditions config repetition iw = Inr zs" for repetition iw zs
    using that by (auto simp: workload_conditions_def
        elim!: concat_result_closed intro: paired_append cell_conditions_paired(1))
  have "paired zs" if "repetition_conditions config repetition = Inr zs" for repetition zs
    using that by (auto simp: repetition_conditions_def
        elim!: concat_result_closed intro: paired_append workload)
  then show ?thesis
    using assms by (auto simp: build_schedule_def elim!: concat_result_closed intro: paired_append)
qed

lemma length_enumerated [simp]: "length (enumerated xs) = length xs"
  by (simp add: enumerated_def)

lemma schedule_length:
  assumes "build_schedule config = Inr rows"
    and "bind_result (dict_item config ''repetitions'') value_to_int = Inr repetitions"
    and "bind_result (dict_item config ''workloads'') value_iter = Inr workloads"
    and "bind_result (dict_item config ''concurrency'') value_iter = Inr levels"
  shows "length rows = nat repetitions * (length workloads * (length levels * 2))"
proof -
  have workload: "length zs = length levels * 2" if "workload_conditions config repetition iw = Inr zs" for repetition iw zs
    using that assms(4) by (auto simp: workload_conditions_def dest!: concat_result_length [where k = 2]
        intro: cell_conditions_paired(2))
  have "length zs = length workloads * (length levels * 2)" if "repetition_conditions config repetition = Inr zs" for repetition zs
    using that assms(3) by (auto simp: repetition_conditions_def dest!: concat_result_length [where k = "length levels * 2"]
        intro: workload)
  then show ?thesis
    using assms(1,2) by (auto simp: build_schedule_def dest!: concat_result_length
        [where k = "length workloads * (length levels * 2)"])
qed

section \<open>What a schedule holds\<close>

definition config_list :: "(string, pyval) dict \<Rightarrow> string \<Rightarrow> pyval list result" where
  "config_list config key = bind_result (dict_item config key) value_iter"

definition config_int :: "(string, pyval) dict \<Rightarrow> string \<Rightarrow> int result" where
  "config_int config key = bind_result (dict_item config key) value_to_int"

lemma set_enumerated: "p \<in> set (enumerated xs) \<Longrightarrow> 0 \<le> fst p \<and> snd p \<in> set xs"
  by (auto simp: enumerated_def set_zip in_set_enumerate_eq)

lemma map_snd_enumerated: "map (\<lambda>p. f (snd p)) (enumerated xs) = map f xs"
proof -
  have "map (\<lambda>p. f (snd p)) (enumerated xs) = map f (map snd (enumerate 0 xs))"
    unfolding enumerated_def map_map by (simp only: comp_def case_prod_beta snd_conv)
  then show ?thesis by (simp add: enumerate_eq_zip)
qed

lemma concat_result_ball:
  assumes "concat_result f xs = Inr ys" and "\<And>x zs. x \<in> set xs \<Longrightarrow> f x = Inr zs \<Longrightarrow> \<forall>z \<in> set zs. P z"
  shows "\<forall>y \<in> set ys. P y"
  using assms(1) by (rule concat_result_closed) (use assms(2) in auto)

lemma map_result_image: "map_result f xs = Inr ys \<Longrightarrow> x \<in> set xs \<Longrightarrow> f x = Inr y \<Longrightarrow> y \<in> set ys"
  by (induction xs arbitrary: ys) auto

lemma schedule_rows:
  assumes "build_schedule config = Inr rows" and "config_list config ''workloads'' = Inr workloads"
    and "config_list config ''concurrency'' = Inr levels"
  shows "\<forall>c \<in> set rows. 0 \<le> cn_repetition c \<and> cn_workload c \<in> set workloads \<and>
    (\<exists>v \<in> set levels. value_to_int v = Inr (cn_concurrency c))"
proof -
  define ok where "ok (c :: condition) \<longleftrightarrow> 0 \<le> cn_repetition c \<and> cn_workload c \<in> set workloads \<and>
    (\<exists>v \<in> set levels. value_to_int v = Inr (cn_concurrency c))" for c
  have cell: "\<forall>c \<in> set zs. ok c"
    if "cell_conditions config r iw ic = Inr zs" "0 \<le> r" "iw \<in> set (enumerated workloads)" "ic \<in> set (enumerated levels)"
    for r iw ic zs
    using cell_conditions_Inr [OF that(1)] that(2) set_enumerated [OF that(3)] set_enumerated [OF that(4)]
    by (force simp: ok_def)
  have workload: "\<forall>c \<in> set zs. ok c"
    if "workload_conditions config r iw = Inr zs" "0 \<le> r" "iw \<in> set (enumerated workloads)" for r iw zs
  proof (rule concat_result_ball)
    show "concat_result (cell_conditions config r iw) (enumerated levels) = Inr zs"
      using that(1) assms(3) by (auto simp: workload_conditions_def config_list_def)
  qed (use cell that(2,3) in blast)
  have rep: "\<forall>c \<in> set zs. ok c" if "repetition_conditions config r = Inr zs" "0 \<le> r" for r zs
  proof (rule concat_result_ball)
    show "concat_result (workload_conditions config r) (enumerated workloads) = Inr zs"
      using that(1) assms(2) by (auto simp: repetition_conditions_def config_list_def)
  qed (use workload that(2) in blast)
  obtain n where "concat_result (repetition_conditions config) [0..n - 1] = Inr rows"
    using assms(1) by (auto simp: build_schedule_def)
  then have "\<forall>c \<in> set rows. ok c" by (rule concat_result_ball) (use rep in auto)
  then show ?thesis by (simp add: ok_def)
qed

lemma cell_conditions_total:
  assumes "config_int config ''seed'' = Inr seed" and "cell_request_count config (snd iw) (snd ic) = Inr n"
    and "value_to_int (snd ic) = Inr level"
  shows "\<exists>rows. cell_conditions config r iw ic = Inr rows"
  using assms by (cases iw; cases ic) (auto simp: cell_conditions_def config_int_def Let_def)

section \<open>Distinct identifiers\<close>

lemma append_Cons_left: "c \<notin> set u \<Longrightarrow> c \<notin> set v \<Longrightarrow> u @ c # x = v @ c # y \<longleftrightarrow> u = v \<and> x = y"
  by (induction u arbitrary: v) (auto simp: Cons_eq_append_conv append_eq_Cons_conv, (case_tac v; auto)+)

lemma append_Cons_right: "c \<notin> set x \<Longrightarrow> c \<notin> set y \<Longrightarrow> u @ c # x = v @ c # y \<longleftrightarrow> u = v \<and> x = y"
  using append_Cons_left [of c "rev x" "rev y" "rev u" "rev v"]
  by (metis rev_append rev_rev_ident set_rev rev.simps(2) append_assoc append_Cons append_Nil)

lemma padded_int_digits: "0 \<le> n \<Longrightarrow> c \<in> set (padded_int w n) \<Longrightarrow> is_digit c"
  by (auto simp: padded_int_def split: if_splits intro: nat_str_digits) (simp add: is_digit_def)

lemma digits_val_zeros: "digits_val 0 (replicate k (CHR ''0'') @ s) = digits_val 0 s"
  by (induction k) (simp_all add: digit_val_def)

lemma padded_int_inject: "0 \<le> m \<Longrightarrow> 0 \<le> n \<Longrightarrow> padded_int w m = padded_int w n \<longleftrightarrow> m = n"
  by (metis digits_val_nat_str digits_val_zeros not_le padded_int_def pad_zeros.simps)

lemma identifier_of_inject:
  assumes "0 \<le> r" "0 \<le> r'" "0 \<le> l" "0 \<le> l'" "p \<in> {''direct'', ''gateway''}" "p' \<in> {''direct'', ''gateway''}"
  shows "identifier_of r w l p = identifier_of r' w' l' p' \<longleftrightarrow> r = r' \<and> w = w' \<and> l = l' \<and> p = p'"
proof -
  have not_digit: "\<not> is_digit (CHR ''-'')" "\<not> is_digit (CHR ''c'')" by (simp_all add: is_digit_def)
  have dash: "CHR ''-'' \<notin> set (padded_int n m)" "CHR ''c'' \<notin> set (padded_int n m)" if "0 \<le> m" for n m
    using padded_int_digits [OF that] not_digit by blast+
  have path: "CHR ''-'' \<notin> set q" if "q \<in> {''direct'', ''gateway''}" for q using that by auto
  have "identifier_of r w l p = identifier_of r' w' l' p' \<longleftrightarrow>
      padded_int 2 r @ CHR ''-'' # ((w @ ''-'') @ CHR ''c'' # padded_int 3 l) @ CHR ''-'' # p =
      padded_int 2 r' @ CHR ''-'' # ((w' @ ''-'') @ CHR ''c'' # padded_int 3 l') @ CHR ''-'' # p'"
    by (simp add: identifier_of_def)
  also have "\<dots> \<longleftrightarrow> r = r' \<and> w = w' \<and> l = l' \<and> p = p'"
    by (simp only: append_Cons_left [OF dash(1) [OF assms(1)] dash(1) [OF assms(2)]]
      append_Cons_right [OF path [OF assms(5)] path [OF assms(6)]]
      append_Cons_right [OF dash(2) [OF assms(3)] dash(2) [OF assms(4)]]
      padded_int_inject [OF assms(1,2)] padded_int_inject [OF assms(3,4)] append_same_eq) blast
  finally show ?thesis .
qed

definition safe_workload_name :: "pyval \<Rightarrow> string" where
  "safe_workload_name w = (case workload_name w of Inl e \<Rightarrow> [] | Inr name \<Rightarrow> safe_name name)"

definition condition_key :: "condition \<Rightarrow> int \<times> string \<times> int \<times> string" where
  "condition_key c = (cn_repetition c, safe_workload_name (cn_workload c), cn_concurrency c, cn_path c)"

lemma schedule_keys_distinct:
  assumes "build_schedule config = Inr rows" and "config_list config ''workloads'' = Inr workloads"
    and "config_list config ''concurrency'' = Inr raw_levels" and "map_result value_to_int raw_levels = Inr levels"
    and "distinct levels" and "distinct (map safe_workload_name workloads)"
  shows "distinct (map condition_key rows)"
proof -
  have levels: "distinct (map value_to_int raw_levels)"
  proof -
    have "map value_to_int raw_levels = map Inr levels"
      using assms(4) by (intro nth_equalityI) (auto simp: map_result_Inr_length dest: map_result_Inr_nth)
    then show ?thesis using assms(5) by (simp add: distinct_map inj_on_def)
  qed
  have cell: "distinct (map condition_key zs) \<and>
      (\<forall>z \<in> set zs. (\<lambda>(r, n, l, p). (Inr l :: int result)) (condition_key z) = value_to_int (snd ic) \<and>
        fst (snd (condition_key z)) = safe_workload_name (snd iw) \<and> fst (condition_key z) = r)"
    if "cell_conditions config r iw ic = Inr zs" for r iw ic zs
    using cell_conditions_Inr [OF that] by (auto simp: condition_key_def path_order_def)
  have workload: "distinct (map condition_key zs) \<and>
      (\<forall>z \<in> set zs. fst (snd (condition_key z)) = safe_workload_name (snd iw) \<and> fst (condition_key z) = r)"
    if "workload_conditions config r iw = Inr zs" for r iw zs
  proof
    have c: "concat_result (cell_conditions config r iw) (enumerated raw_levels) = Inr zs"
      using that assms(3) by (auto simp: workload_conditions_def config_list_def)
    then show "\<forall>z \<in> set zs. fst (snd (condition_key z)) = safe_workload_name (snd iw) \<and> fst (condition_key z) = r"
      by (rule concat_result_ball) (use cell in blast)
    show "distinct (map condition_key zs)"
      using c levels cell
      by (intro concat_result_distinct [OF c, THEN conjunct1, of "\<lambda>p. value_to_int (snd p)" _ "\<lambda>(r, n, l, p). Inr l"])
         (simp add: map_snd_enumerated, blast)
  qed
  have rep: "distinct (map condition_key zs) \<and> (\<forall>z \<in> set zs. fst (condition_key z) = r)"
    if "repetition_conditions config r = Inr zs" for r zs
  proof
    have c: "concat_result (workload_conditions config r) (enumerated workloads) = Inr zs"
      using that assms(2) by (auto simp: repetition_conditions_def config_list_def)
    then show "\<forall>z \<in> set zs. fst (condition_key z) = r"
      by (rule concat_result_ball) (use workload in blast)
    show "distinct (map condition_key zs)"
      using c assms(6) workload
      by (intro concat_result_distinct [OF c, THEN conjunct1, of "\<lambda>p. safe_workload_name (snd p)" _ "\<lambda>k. fst (snd k)"])
         (simp add: map_snd_enumerated, blast)
  qed
  obtain n where c: "concat_result (repetition_conditions config) [0..n - 1] = Inr rows"
    using assms(1) by (auto simp: build_schedule_def)
  show ?thesis
    using rep by (intro concat_result_distinct [OF c, THEN conjunct1, of "\<lambda>r. r" _ fst]) auto
qed

text \<open>
  C27: When the workload names stay different after cleaning, all conditions of the schedule of
  a valid configuration have different identifiers, so that no result file overwrites another.
\<close>

theorem identifiers_distinct:
  assumes "validate_config repr config = Inr ()" and "build_schedule config = Inr rows"
    and "config_list config ''workloads'' = Inr workloads"
    and "map_result workload_name workloads = Inr names" and "distinct (map safe_name names)"
  shows "\<exists>ids. map_result condition_id rows = Inr ids \<and> distinct ids"
proof -
  obtain raw_levels levels where l: "config_list config ''concurrency'' = Inr raw_levels"
      "map_result value_to_int raw_levels = Inr levels" "distinct levels" "\<forall>l \<in> set levels. 1 \<le> l"
    using assms(1)
    by (auto simp: validate_config_def Let_def concurrency_levels_def config_list_def check_levels_def list_ex_iff not_less)
  have safe: "safe_workload_name (workloads ! i) = safe_name (names ! i)" if "i < length workloads" for i
    using map_result_Inr_nth [OF assms(4) that] by (simp add: safe_workload_name_def)
  have "map safe_workload_name workloads = map safe_name names"
    using safe map_result_Inr_length [OF assms(4)] by (intro nth_equalityI) simp_all
  then have keys: "distinct (map condition_key rows)"
    using schedule_keys_distinct [OF assms(2,3) l(1,2,3)] assms(5) by simp
  define ident where "ident = (\<lambda>(r, n, l, p). identifier_of r n l p)"
  note rows = schedule_rows [OF assms(2,3) l(1)]
  have named: "\<exists>name. workload_name w = Inr name" if "w \<in> set workloads" for w
    using map_result_each [OF assms(4) that] .
  have "condition_id c = Inr (ident (condition_key c))" if "c \<in> set rows" for c
    using named [of "cn_workload c"] rows that
    by (auto simp: condition_id_def ident_def condition_key_def safe_workload_name_def)
  then have ids: "map_result condition_id rows = Inr (map (\<lambda>c. ident (condition_key c)) rows)"
    by (rule map_result_total)
  have small: "0 \<le> cn_repetition c \<and> 0 \<le> cn_concurrency c \<and> cn_path c \<in> {''direct'', ''gateway''}" if c: "c \<in> set rows" for c
  proof -
    obtain v where "v \<in> set raw_levels" "value_to_int v = Inr (cn_concurrency c)"
      using bspec [OF rows c] by blast
    then have "cn_concurrency c \<in> set levels" by (rule map_result_image [OF l(2)])
    then have "1 \<le> cn_concurrency c" using l(4) by simp
    then have "0 \<le> cn_concurrency c" by simp
    then show ?thesis
      using bspec [OF rows c] schedule_paired [OF assms(2)] c by (auto simp: paired_def list_all_iff)
  qed
  have "inj_on ident (condition_key ` set rows)"
  proof (rule inj_onI, elim imageE)
    fix x y a b assume eq: "ident x = ident y" and x: "x = condition_key a" "a \<in> set rows"
      and y: "y = condition_key b" "b \<in> set rows"
    have "0 \<le> cn_repetition a" "0 \<le> cn_concurrency a" "cn_path a \<in> {''direct'', ''gateway''}"
      "0 \<le> cn_repetition b" "0 \<le> cn_concurrency b" "cn_path b \<in> {''direct'', ''gateway''}"
      using small [OF x(2)] small [OF y(2)] by blast+
    then show "x = y" using eq x(1) y(1) by (simp add: ident_def condition_key_def identifier_of_inject del: insert_iff)
  qed
  then have "distinct (map ident (map condition_key rows))" using keys by (simp add: distinct_map comp_inj_on)
  then show ?thesis using ids by (simp add: comp_def)
qed

section \<open>A valid configuration has a complete schedule\<close>

definition workload_checked :: "pyval \<Rightarrow> bool" where
  "workload_checked w \<longleftrightarrow>
     (\<exists>fields. w = VDict fields \<and>
       (\<forall>v. dget fields ''min_requests'' = Some v \<longrightarrow> (\<exists>m \<ge> 1. value_to_int v = Inr m)))"

lemma check_workload_checked:
  assumes "check_workload repr ns w = Inr name"
  shows "workload_checked w"
proof -
  obtain fields where "value_items w = Inr fields"
      "dget fields ''min_requests'' \<noteq> None \<Longrightarrow> positive_field repr name w ''min_requests'' = Inr ()"
    using assms by (fastforce simp: check_workload_def split: if_splits)
  then show ?thesis
    by (cases w) (auto simp: workload_checked_def value_items_def positive_field_def dget_default_def split: option.splits)
qed

lemma check_workloads_checked: "check_workloads repr ns ws = Inr () \<Longrightarrow> \<forall>w \<in> set ws. workload_checked w"
  by (induction ws arbitrary: ns) (auto dest: check_workload_checked)

lemma validate_config_facts:
  assumes "validate_config repr config = Inr ()"
  obtains workloads raw_levels levels repetitions where
    "config_list config ''workloads'' = Inr workloads" "\<forall>w \<in> set workloads. workload_checked w"
    "config_list config ''concurrency'' = Inr raw_levels" "map_result value_to_int raw_levels = Inr levels"
    "levels \<noteq> []" "distinct levels" "\<forall>l \<in> set levels. 1 \<le> l"
    "config_int config ''repetitions'' = Inr repetitions" "1 \<le> repetitions"
proof -
  have "\<exists>workloads. config_list config ''workloads'' = Inr workloads \<and> check_workloads repr [] workloads = Inr ()"
    using assms by (auto simp: validate_config_def Let_def config_list_def)
  moreover have "\<exists>raw_levels levels. config_list config ''concurrency'' = Inr raw_levels \<and>
      map_result value_to_int raw_levels = Inr levels \<and> levels \<noteq> [] \<and> distinct levels \<and> (\<forall>l \<in> set levels. 1 \<le> l)"
    using assms by (auto simp: validate_config_def Let_def concurrency_levels_def config_list_def check_levels_def list_ex_iff not_less)
  moreover have "\<exists>repetitions. config_int config ''repetitions'' = Inr repetitions \<and> 1 \<le> repetitions"
    using assms by (auto simp: validate_config_def Let_def check_counts_def config_int_def)
  ultimately show ?thesis using that check_workloads_checked by blast
qed

definition default_int :: "(string, pyval) dict \<Rightarrow> string \<Rightarrow> int \<Rightarrow> bool" where
  \<comment> \<open>an optional integer setting that \<^verbatim>\<open>int\<close> accepts\<close>
  "default_int config key dflt \<longleftrightarrow> (\<exists>i. value_to_int (dget_default config key (VInt dflt)) = Inr i)"

lemma cell_request_count_total:
  assumes "workload_checked w" and "value_to_int v = Inr level"
    and "default_int config ''min_requests_per_condition'' 32" and "default_int config ''requests_per_concurrency'' 2"
  shows "\<exists>n. cell_request_count config w v = Inr n"
proof -
  obtain fields where f: "w = VDict fields"
      "\<forall>v. dget fields ''min_requests'' = Some v \<longrightarrow> (\<exists>m \<ge> 1. value_to_int v = Inr m)"
    using assms(1) by (auto simp: workload_checked_def)
  show ?thesis
    using f assms(2-4) by (cases "dget fields ''min_requests''")
      (auto simp: cell_request_count_def default_int_def dget_default_def [of fields])
qed


text \<open>
  The names of a valid configuration are unique, the identifiers made of them need not be:
  \<open>a b\<close> and \<open>a-b\<close> share theirs, and the second overwrites the results of the first.
\<close>

definition a_workload :: "string \<Rightarrow> pyval" where
  "a_workload name = VDict [(''name'', VStr name), (''input_tokens'', VInt 32), (''output_tokens'', VInt 16)]"

definition a_config :: "string list \<Rightarrow> pyval list \<Rightarrow> int \<Rightarrow> (string, pyval) dict" where
  "a_config names levels repetitions =
     [(''schema_version'', VInt 1), (''vllm_command'', VList [VStr ''vllm'', VStr ''bench'', VStr ''serve'']),
      (''paths'', VDict
         [(''direct'', VDict [(''base_url'', VStr ''http://127.0.0.1:8001'')]),
          (''gateway'', VDict [(''base_url'', VStr ''http://127.0.0.1:8000''),
             (''headers'', VDict [(''Authorization'', VStr ''Bearer secret''), (''X-Principal-Id'', VStr ''analyst-1'')])])]),
      (''model'', VDict [(''id'', VStr ''Qwen/Qwen2.5-3B-Instruct''), (''served_name'', VStr ''benchmark-echo'')]),
      (''workloads'', VList (map a_workload names)), (''concurrency'', VList levels),
      (''repetitions'', VInt repetitions), (''seed'', VInt 20260803)]"

theorem identifiers_collide:
  "validate_config (\<lambda>v. []) (a_config [''a b'', ''a-b''] [VInt 1] 1) = Inr () \<and>
   bind_result (build_schedule (a_config [''a b'', ''a-b''] [VInt 1] 1)) (map_result condition_id) =
     Inr [''r00-a-b-c001-direct'', ''r00-a-b-c001-gateway'', ''r00-a-b-c001-gateway'', ''r00-a-b-c001-direct'']"
  by code_simp

end
