(* ===== verification/BenchCommand.thy ===== *)
theory BenchCommand
  imports BenchSchedule
begin

text \<open>
  The client command of \<^verbatim>\<open>bench/run.py\<close> and what is redacted before a command or a
  configuration is written to disk: both depend on a secret header only through its name.
\<close>

section \<open>The client command\<close>

definition SENSITIVE_HEADERS :: "string list" where
  "SENSITIVE_HEADERS = [''authorization'', ''x-api-key'', ''api-key'']"

definition sensitive_header :: "string \<Rightarrow> bool" where
  "sensitive_header name \<longleftrightarrow> py_lower name \<in> set SENSITIVE_HEADERS"

definition header_arguments :: "(pyval \<Rightarrow> string) \<Rightarrow> (string, pyval) dict \<Rightarrow> string list" where
  "header_arguments repr headers =
     concat (map (\<lambda>(name, v). [''--header'', name @ ''='' @ str_of repr v]) (sorted_items headers))"

definition path_settings :: "(string, pyval) dict \<Rightarrow> string \<Rightarrow> pyval result" where
  \<comment> \<open>\<^verbatim>\<open>config["paths"][path]\<close>\<close>
  "path_settings config path = bind_result (dict_item config ''paths'') (\<lambda>p. value_item p path)"

record command_settings =
  \<comment> \<open>what the command takes from the configuration, as \<^verbatim>\<open>str\<close> shows it\<close>
  cs_vllm_command :: "string list"
  cs_base_url :: string
  cs_model_id :: string
  cs_served_name :: string
  cs_input_tokens :: string
  cs_output_tokens :: string
  cs_warmups :: string
  cs_identifier :: string

definition command_arguments :: "command_settings \<Rightarrow> condition \<Rightarrow> string \<Rightarrow> string \<Rightarrow> string list" where
  "command_arguments s condition result_dir result_filename =
     cs_vllm_command s @
     [''--backend'', ''openai'',
      ''--base-url'', py_rstrip_char (CHR ''/'') (cs_base_url s),
      ''--endpoint'', ''/v1/completions'',
      ''--model'', cs_model_id s,
      ''--served-model-name'', cs_served_name s,
      ''--dataset-name'', ''random'',
      ''--random-input-len'', cs_input_tokens s,
      ''--random-output-len'', cs_output_tokens s,
      ''--random-range-ratio'', ''0'',
      ''--num-prompts'', int_str (cn_request_count condition),
      ''--max-concurrency'', int_str (cn_concurrency condition),
      ''--request-rate'', ''inf'',
      ''--seed'', int_str (cn_seed condition),
      ''--temperature'', ''0'',
      ''--ignore-eos'',
      ''--num-warmups'', cs_warmups s,
      ''--disable-tqdm'',
      ''--save-result'',
      ''--save-detailed'',
      ''--result-dir'', result_dir,
      ''--result-filename'', result_filename,
      ''--percentile-metrics'', ''ttft,tpot,itl,e2el'',
      ''--metric-percentiles'', ''50,95,99'',
      ''--request-id-prefix'', ''sgig-'' @ cs_identifier s @ ''-'']"

definition build_vllm_command ::
  "(pyval \<Rightarrow> string) \<Rightarrow> (string, pyval) dict \<Rightarrow> condition \<Rightarrow> string \<Rightarrow> string \<Rightarrow> string list result" where
  "build_vllm_command repr config condition result_dir result_filename =
     (let str = str_of repr; workload = cn_workload condition in
      bind_result (path_settings config (cn_path condition)) (\<lambda>path_config.
      bind_result (bind_result (dict_item config ''vllm_command'') value_iter) (\<lambda>vllm_command.
      bind_result (value_item path_config ''base_url'') (\<lambda>base_url.
      bind_result (dict_item config ''model'') (\<lambda>model.
      bind_result (value_item model ''id'') (\<lambda>model_id.
      bind_result (value_item model ''served_name'') (\<lambda>served_name.
      bind_result (value_item workload ''input_tokens'') (\<lambda>input_tokens.
      bind_result (value_item workload ''output_tokens'') (\<lambda>output_tokens.
      bind_result (condition_id condition) (\<lambda>identifier.
      bind_result (bind_result (value_get path_config ''headers'' (VDict [])) value_items) (\<lambda>headers.
        Inr (command_arguments
          \<lparr>cs_vllm_command = map str vllm_command, cs_base_url = str base_url, cs_model_id = str model_id,
           cs_served_name = str served_name, cs_input_tokens = str input_tokens,
           cs_output_tokens = str output_tokens,
           cs_warmups = str (dget_default config ''warmup_requests'' (VInt 4)), cs_identifier = identifier\<rparr>
          condition result_dir result_filename @ header_arguments repr headers))))))))))))"

definition child_environment ::
  "(string, string) dict \<Rightarrow> (string, pyval) dict \<Rightarrow> string \<Rightarrow> (string, string) dict result" where
  \<comment> \<open>the key of the path replaces whatever key the parent process has\<close>
  "child_environment environ config path_name =
     (let child = filter (\<lambda>(name, v). name \<noteq> ''OPENAI_API_KEY'') environ in
      bind_result (path_settings config path_name) (\<lambda>path_config.
      bind_result (value_get path_config ''api_key_env'' VNone) (\<lambda>env_name.
        case env_name of
          VStr name \<Rightarrow>
            (case dget environ name of
               Some key \<Rightarrow> Inr (if name \<noteq> [] \<and> key \<noteq> [] then dset child ''OPENAI_API_KEY'' key else child)
             | None \<Rightarrow> Inr child)
        | _ \<Rightarrow> if truthy env_name then Inl (TypeError ''str expected'') else Inr child)))"

section \<open>Redaction\<close>

definition redact_argument :: "string \<Rightarrow> string" where
  "redact_argument argument =
     (let (name, separator, v) = py_partition (CHR ''='') argument in
      if separator \<noteq> [] \<and> sensitive_header name then name @ ''=<redacted>'' else argument)"

fun redact_command :: "string list \<Rightarrow> string list" where
  \<comment> \<open>the argument after each \<^verbatim>\<open>--header\<close>; a redacted one is never \<^verbatim>\<open>--header\<close> itself\<close>
  "redact_command (part # argument # rest) =
     (if part = ''--header'' then part # redact_command (redact_argument argument # rest)
      else part # redact_command (argument # rest))"
| "redact_command command = command"

definition redact_headers :: "(string, pyval) dict \<Rightarrow> (string, pyval) dict" where
  "redact_headers headers = map (\<lambda>(name, v). (name, if sensitive_header name then VStr ''<redacted>'' else v)) headers"

definition redact_path :: "string \<times> pyval \<Rightarrow> (string \<times> pyval) result" where
  "redact_path p =
     bind_result (value_get (snd p) ''headers'' (VDict [])) (\<lambda>h.
     bind_result (value_items h) (\<lambda>headers.
     bind_result (value_items (snd p)) (\<lambda>settings.
       Inr (fst p, if headers = [] then snd p
                   else VDict (dset settings ''headers'' (VDict (redact_headers headers)))))))"

definition sanitize_config :: "(string, pyval) dict \<Rightarrow> (string, pyval) dict result" where
  "sanitize_config config =
     bind_result (value_items (dget_default config ''paths'' (VDict []))) (\<lambda>paths.
     bind_result (map_result redact_path paths) (\<lambda>redacted.
       Inr (if dget config ''paths'' = None then config else dset config ''paths'' (VDict redacted))))"

section \<open>What the redacted command reveals\<close>

lemma redact_command_Cons: "x \<noteq> ''--header'' \<Longrightarrow> redact_command (x # ys) = x # redact_command ys"
  by (cases ys) simp_all

lemma redact_argument_flag: "redact_argument a = ''--header'' \<longleftrightarrow> a = ''--header''"
proof
  assume "redact_argument a = ''--header''"
  then have "CHR ''='' \<notin> set (redact_argument a)" by simp
  then show "a = ''--header''" using \<open>redact_argument a = _\<close>
    by (auto simp: redact_argument_def split: prod.splits if_splits)
qed (simp add: redact_argument_def)

lemma redact_command_append:
  "xs \<noteq> [] \<Longrightarrow> last xs \<noteq> ''--header'' \<Longrightarrow> redact_command (xs @ ys) = redact_command xs @ redact_command ys"
proof (induction xs rule: redact_command.induct [case_names pair nil one])
  case (pair part argument rest)
  then show ?case
    by (cases "part = ''--header''"; cases rest) (auto simp: redact_argument_flag)
next
  case (one part)
  then show ?case by (simp add: redact_command_Cons)
qed simp

lemma redact_command_headers:
  "redact_command (concat (map (\<lambda>(name, v). [''--header'', name @ ''='' @ f v]) hs)) =
   concat (map (\<lambda>(name, v). [''--header'', redact_argument (name @ ''='' @ f v)]) hs)"
proof (induction hs)
  case (Cons h hs)
  obtain name v where h: "h = (name, v)" by (cases h)
  have "name @ ''='' @ f v \<noteq> ''--header''"
  proof
    assume "name @ ''='' @ f v = ''--header''"
    then have "CHR ''='' \<in> set ''--header''" by (metis in_set_conv_decomp append_Cons append_Nil)
    then show False by simp
  qed
  then show ?case using Cons by (simp add: h redact_command_Cons redact_argument_flag)
qed simp

lemma sensitive_header_plain: "sensitive_header name \<Longrightarrow> CHR ''='' \<notin> set name"
proof
  assume "sensitive_header name" "CHR ''='' \<in> set name"
  then have "lower_char (CHR ''='') \<in> set (py_lower name)" by (simp add: py_lower_def)
  moreover have "lower_char (CHR ''='') = CHR ''=''" by code_simp
  ultimately show False using \<open>sensitive_header name\<close>
    by (auto simp: sensitive_header_def SENSITIVE_HEADERS_def)
qed

lemma py_partition_first: "c \<notin> set h \<Longrightarrow> py_partition c (h @ c # t) = (h, [c], t)"
  by (induction h) auto

lemma redact_argument_sensitive: "sensitive_header name \<Longrightarrow> redact_argument (name @ ''='' @ v) = name @ ''=<redacted>''"
  using py_partition_first [OF sensitive_header_plain, of name v] by (simp add: redact_argument_def)

lemma insort_key_map: "(\<And>x. fst (g x) = fst x) \<Longrightarrow> insort_key fst (g x) (map g ys) = map g (insort_key fst x ys)"
  by (induction ys) auto

lemma sort_key_map: "(\<And>x. fst (g x) = fst x) \<Longrightarrow> sort_key fst (map g xs) = map g (sort_key fst xs)"
  by (induction xs) (simp_all add: insort_key_map)

definition redact_header :: "string \<times> pyval \<Rightarrow> string \<times> pyval" where
  "redact_header h = (fst h, if sensitive_header (fst h) then VStr ''<redacted>'' else snd h)"

lemma redact_headers_map: "redact_headers hs = map redact_header hs"
  by (simp add: redact_headers_def redact_header_def case_prod_beta)

lemma redacted_header_arguments:
  assumes "redact_headers h1 = redact_headers h2"
  shows "redact_command (header_arguments repr h1) = redact_command (header_arguments repr h2)"
proof -
  define out where "out h = [''--header'', redact_argument (fst h @ ''='' @ str_of repr (snd h))]" for h
  have out: "out (redact_header h) = out h" for h
    by (cases "sensitive_header (fst h)")
       (simp_all add: out_def redact_header_def redact_argument_sensitive del: append_Cons)
  have 1: "redact_command (header_arguments repr h) = concat (map out (map redact_header (sort_key fst h)))" for h
    unfolding header_arguments_def sorted_items_def redact_command_headers
    by (simp only: map_map comp_def out) (simp only: out_def case_prod_unfold)
  have 2: "map redact_header (sort_key fst h) = sort_key fst (redact_headers h)" for h
    unfolding redact_headers_map by (rule sort_key_map [symmetric]) (simp add: redact_header_def)
  show ?thesis unfolding 1 2 assms ..
qed

text \<open>A path as the sanitized configuration shows it determines all but its secret headers.\<close>

lemma redact_path_fst: "redact_path p = Inr q \<Longrightarrow> fst q = fst p"
  by (auto simp: redact_path_def)

lemma redacted_path_agrees:
  assumes "redact_path (p, v1) = Inr w" and "redact_path (p, v2) = Inr w"
  shows "\<exists>h1 h2. bind_result (value_get v1 ''headers'' (VDict [])) value_items = Inr h1 \<and>
    bind_result (value_get v2 ''headers'' (VDict [])) value_items = Inr h2 \<and>
    redact_headers h1 = redact_headers h2 \<and>
    (\<forall>key. key \<noteq> ''headers'' \<longrightarrow> value_item v1 key = value_item v2 key)"
proof -
  have shape: "\<exists>d h. v = VDict d \<and> bind_result (value_get v ''headers'' (VDict [])) value_items = Inr h \<and>
      dget_default d ''headers'' (VDict []) = VDict h \<and>
      w = (p, VDict (if h = [] then d else dset d ''headers'' (VDict (redact_headers h))))"
    if "redact_path (p, v) = Inr w" for v
    using that by (cases v) (auto simp: redact_path_def value_items_def split: pyval.splits if_splits)
  obtain d1 h1 where s1: "v1 = VDict d1" "bind_result (value_get v1 ''headers'' (VDict [])) value_items = Inr h1"
    "dget_default d1 ''headers'' (VDict []) = VDict h1"
    "w = (p, VDict (if h1 = [] then d1 else dset d1 ''headers'' (VDict (redact_headers h1))))"
    using shape [OF assms(1)] by blast
  obtain d2 h2 where s2: "v2 = VDict d2" "bind_result (value_get v2 ''headers'' (VDict [])) value_items = Inr h2"
    "dget_default d2 ''headers'' (VDict []) = VDict h2"
    "w = (p, VDict (if h2 = [] then d2 else dset d2 ''headers'' (VDict (redact_headers h2))))"
    using shape [OF assms(2)] by blast
  have e: "(if h1 = [] then d1 else dset d1 ''headers'' (VDict (redact_headers h1))) =
      (if h2 = [] then d2 else dset d2 ''headers'' (VDict (redact_headers h2)))"
    using s1(4) s2(4) by (simp only: prod.inject pyval.inject)
  have shown: "dget_default (if h = [] then d else dset d ''headers'' (VDict (redact_headers h))) ''headers'' (VDict []) =
      VDict (redact_headers h)"
    if "dget_default d ''headers'' (VDict []) = VDict h" for d h
    using that by (auto simp: dget_default_def redact_headers_def)
  have "redact_headers h1 = redact_headers h2" using shown [OF s1(3)] shown [OF s2(3)] e by simp
  moreover have "dget d1 key = dget d2 key" if key: "key \<noteq> ''headers''" for key
  proof -
    have "dget d1 key = dget (if h1 = [] then d1 else dset d1 ''headers'' (VDict (redact_headers h1))) key"
      using key by simp
    also have "\<dots> = dget d2 key" unfolding e using key by simp
    finally show ?thesis .
  qed
  ultimately show ?thesis using s1(1,2) s2(1,2) by (simp add: dict_item_def)
qed

lemma map_result_redact_path:
  assumes "map_result redact_path ps = Inr qs"
  shows "dget qs p = None \<longleftrightarrow> dget ps p = None"
    "dget ps p = Some v \<Longrightarrow> \<exists>w. dget qs p = Some w \<and> redact_path (p, v) = Inr (p, w)"
proof -
  have "(dget qs p = None \<longleftrightarrow> dget ps p = None) \<and>
      (\<forall>v. dget ps p = Some v \<longrightarrow> (\<exists>w. dget qs p = Some w \<and> redact_path (p, v) = Inr (p, w)))"
    using assms
  proof (induction ps arbitrary: qs)
    case (Cons a ps)
    then obtain q qs' where q: "redact_path a = Inr q" "map_result redact_path ps = Inr qs'" "qs = q # qs'" by auto
    obtain n v m w where "a = (n, v)" "q = (m, w)" by (cases a; cases q)
    then show ?case using Cons.IH [OF q(2)] q redact_path_fst [OF q(1)] by auto
  qed simp
  then show "dget qs p = None \<longleftrightarrow> dget ps p = None"
    "dget ps p = Some v \<Longrightarrow> \<exists>w. dget qs p = Some w \<and> redact_path (p, v) = Inr (p, w)" by simp_all
qed

lemma sanitized_configs_agree:
  assumes "sanitize_config c1 = Inr s" and "sanitize_config c2 = Inr s"
  shows "key \<noteq> ''paths'' \<Longrightarrow> dget c1 key = dget c2 key"
    "(\<exists>e. path_settings c1 p = Inl e \<and> path_settings c2 p = Inl e) \<or>
     (\<exists>v1 v2 w. path_settings c1 p = Inr v1 \<and> path_settings c2 p = Inr v2 \<and>
       redact_path (p, v1) = Inr w \<and> redact_path (p, v2) = Inr w)"
proof -
  have shape: "(dget c ''paths'' = None \<and> s = c) \<or>
      (\<exists>ps qs. dget c ''paths'' = Some (VDict ps) \<and> map_result redact_path ps = Inr qs \<and> s = dset c ''paths'' (VDict qs))"
    if "sanitize_config c = Inr s" for c
    using that by (cases "dget c ''paths''") (auto simp: sanitize_config_def dget_default_def value_items_def split: pyval.splits)
  show "dget c1 key = dget c2 key" if "key \<noteq> ''paths''"
    using shape [OF assms(1)] shape [OF assms(2)] that by (metis dget_dset)
  show "(\<exists>e. path_settings c1 p = Inl e \<and> path_settings c2 p = Inl e) \<or>
     (\<exists>v1 v2 w. path_settings c1 p = Inr v1 \<and> path_settings c2 p = Inr v2 \<and>
       redact_path (p, v1) = Inr w \<and> redact_path (p, v2) = Inr w)"
  proof (cases "dget s ''paths''")
    case None
    then have "dget c1 ''paths'' = None" "dget c2 ''paths'' = None"
      using shape [OF assms(1)] shape [OF assms(2)] by auto
    then show ?thesis by (simp add: path_settings_def dict_item_def)
  next
    case (Some v)
    have paths: "\<exists>ps qs. dget c ''paths'' = Some (VDict ps) \<and> map_result redact_path ps = Inr qs \<and> v = VDict qs"
      if "sanitize_config c = Inr s" for c using shape [OF that] Some by auto
    obtain ps1 ps2 qs where q: "dget c1 ''paths'' = Some (VDict ps1)" "map_result redact_path ps1 = Inr qs"
        "dget c2 ''paths'' = Some (VDict ps2)" "map_result redact_path ps2 = Inr qs"
      using paths [OF assms(1)] paths [OF assms(2)] by (metis pyval.inject(5))
    show ?thesis
      using map_result_redact_path [OF q(2), of p] map_result_redact_path [OF q(4), of p] q(1,3)
      by (cases "dget ps1 p"; cases "dget ps2 p") (auto simp: path_settings_def dict_item_def)
  qed
qed

lemma bind_result_assoc: "bind_result (bind_result r f) g = bind_result r (\<lambda>x. bind_result (f x) g)"
  by (cases r) simp_all

lemma command_arguments_last:
  "command_arguments s condition result_dir result_filename \<noteq> []"
  "last (command_arguments s condition result_dir result_filename) \<noteq> ''--header''"
  by (simp_all add: command_arguments_def)

definition logged_command ::
  "(pyval \<Rightarrow> string) \<Rightarrow> (string, pyval) dict \<Rightarrow> condition \<Rightarrow> string \<Rightarrow> string \<Rightarrow> string list result" where
  \<comment> \<open>what the log of a condition and a dry run show\<close>
  "logged_command repr config condition result_dir result_filename =
     bind_result (build_vllm_command repr config condition result_dir result_filename)
       (\<lambda>command. Inr (redact_command command))"

text \<open>
  The command written to the log reveals no secret header: two configurations that are the
  same once sanitized log the same command, whatever their secrets are.
\<close>

theorem logged_command_public:
  assumes "sanitize_config c1 = Inr s" and "sanitize_config c2 = Inr s"
  shows "logged_command repr c1 condition result_dir result_filename =
    logged_command repr c2 condition result_dir result_filename"
proof -
  have other: "dict_item c1 key = dict_item c2 key" if "key \<noteq> ''paths''" for key
    using sanitized_configs_agree(1) [OF assms that] by (simp add: dict_item_def)
  have warm: "dget_default c1 ''warmup_requests'' v = dget_default c2 ''warmup_requests'' v" for v
    using sanitized_configs_agree(1) [OF assms] by (simp add: dget_default_def)
  show ?thesis
    using sanitized_configs_agree(2) [OF assms, of "cn_path condition"]
  proof (elim disjE exE conjE)
    fix e assume "path_settings c1 (cn_path condition) = Inl e" "path_settings c2 (cn_path condition) = Inl e"
    then show ?thesis by (simp add: logged_command_def build_vllm_command_def Let_def)
  next
    fix v1 v2 w
    assume p: "path_settings c1 (cn_path condition) = Inr v1" "path_settings c2 (cn_path condition) = Inr v2"
      and w: "redact_path (cn_path condition, v1) = Inr w" "redact_path (cn_path condition, v2) = Inr w"
    obtain h1 h2 where h: "bind_result (value_get v1 ''headers'' (VDict [])) value_items = Inr h1"
        "bind_result (value_get v2 ''headers'' (VDict [])) value_items = Inr h2"
        "redact_headers h1 = redact_headers h2"
        "\<forall>key. key \<noteq> ''headers'' \<longrightarrow> value_item v1 key = value_item v2 key"
      using redacted_path_agrees [OF w] by blast
    have r: "redact_command (command_arguments cs condition result_dir result_filename @ header_arguments repr h1) =
        redact_command (command_arguments cs condition result_dir result_filename @ header_arguments repr h2)" for cs
      using redact_command_append [OF command_arguments_last] redacted_header_arguments [OF h(3)] by simp
    have base: "value_item v1 ''base_url'' = value_item v2 ''base_url''" using h(4) by simp
    show ?thesis
      unfolding logged_command_def build_vllm_command_def Let_def p bind_result_simps h(1,2) warm base
      by (simp add: other bind_result_assoc r)
  qed
qed

end
