(* ===== verification/Interpolation.thy ===== *)
theory Interpolation
  imports BenchStats
begin

text \<open>
  One interpolation step of the benchmark percentiles in binary64: between two samples the
  rounded result stays between them and grows with the weight, and the position computed
  with a rounded quotient falls into the segment of the exact one.
\<close>

section \<open>One interpolation step\<close>

text \<open>\<open>a + (b - a) * w\<close> in binary64, between two binary64 values.\<close>

definition segment :: "rat \<Rightarrow> rat \<Rightarrow> rat \<Rightarrow> rat" where
  "segment a b w = round64 (a + round64 (round64 (b - a) * w))"

fun sample_ok :: "pyfloat \<Rightarrow> bool" where
  \<comment> \<open>a binary64 value of moderate size\<close>
  "sample_ok (Fin r) \<longleftrightarrow> round64 r = r \<and> \<bar>r\<bar> \<le> 2 ^ 50"
| "sample_ok f \<longleftrightarrow> False"

lemma round64_multiple: "round64 r = r \<Longrightarrow> \<exists>m. r = of_int m * pow2 (- 1074)"
proof (cases "r = 0")
  case False
  assume "round64 r = r"
  with False have r: "r = of_int (round_half_even (r / pow2 (quantum r))) * pow2 (quantum r)"
    by (simp add: round64_def)
  have "pow2 (quantum r) = of_int (2 ^ nat (quantum r + 1074)) * pow2 (- 1074)"
    using pow2_int [of "quantum r + 1074"] pow2_add [of "quantum r + 1074" "- 1074"]
    by (simp add: quantum_def)
  then have "r = of_int (round_half_even (r / pow2 (quantum r)) * 2 ^ nat (quantum r + 1074)) * pow2 (- 1074)"
    using r by (metis (no_types) mult.assoc of_int_mult)
  then show ?thesis by blast
qed (auto intro: exI [of _ 0])

text \<open>A rounded difference times a weight well below one does not exceed the difference.\<close>

lemma weighted_below:
  assumes d: "0 \<le> d" "d = of_int m * pow2 (- 1074)" and w: "0 \<le> w" "w \<le> 127 / 128"
  shows "round64 (round64 d * w) \<le> d"
proof (cases "d = 0")
  case False
  let ?q = "pow2 (quantum d)"
  define k where "k = \<lfloor>d / ?q\<rfloor>"
  define e where "e = of_int k * ?q"
  have "of_int k \<le> d / ?q" by (simp add: k_def)
  then have ed: "e \<le> d" using pow2_pos [of "quantum d"] by (simp add: e_def pos_le_divide_eq)
  have up: "round64 d \<le> of_int (k + 1) * ?q"
    using False round_half_even_floor(2) [of "d / ?q"]
    by (simp add: round64_def k_def less_imp_le)
  have nonneg: "0 \<le> round64 d" using d(1) by (rule round64_nonneg)
  have "round64 d * w \<le> e"
  proof (cases "quantum d = - 1074")
    case True
    then have "d / ?q = of_int m" using d(2) by simp
    then have "round64 d = d" "e = d" using False True
      by (simp_all add: round64_def e_def k_def field_simps)
    then show ?thesis using w d(1) by (simp add: mult_left_le)
  next
    case False
    then have "quantum d = exponent d - 52" by (auto simp: quantum_def max_def split: if_splits)
    then have "pow2 (exponent d) = 2 ^ 52 * ?q"
      using pow2_nat [of 52] pow2_add [of 52 "quantum d"] by simp
    moreover have "pow2 (exponent d) \<le> d" using exponent_bounds(1) [of d] \<open>d \<noteq> 0\<close> d(1) by simp
    ultimately have "of_int (2 ^ 52) \<le> d / ?q" by (simp add: field_simps)
    then have "2 ^ 52 \<le> k" unfolding k_def by (simp only: le_floor_iff)
    then have "rat_of_int (2 ^ 52) \<le> of_int k" by (simp only: of_int_le_iff)
    then have "of_int (k + 1) * (127 / 128) \<le> (of_int k :: rat)" by simp
    then have low: "of_int (k + 1) * (127 / 128) * ?q \<le> of_int k * ?q"
      by (rule mult_right_mono) (simp only: less_imp_le pow2_pos)
    have "round64 d * w \<le> of_int (k + 1) * ?q * (127 / 128)"
      using up w nonneg by (intro mult_mono) auto
    also have "\<dots> = of_int (k + 1) * (127 / 128) * ?q" by (simp only: ac_simps)
    also note low
    finally show ?thesis by (simp only: e_def)
  qed
  then have "round64 (round64 d * w) \<le> round64 e" by (rule round64_mono)
  also have "round64 e = e"
  proof (cases "e = 0")
    case False
    have "0 \<le> e" using d(1) by (simp add: e_def k_def zero_le_mult_iff less_imp_le)
    then have "quantum e \<le> quantum d" using False ed by (intro quantum_mono) auto
    then show ?thesis unfolding e_def by (intro round64_exact) (auto simp: e_def)
  qed simp
  finally show ?thesis using ed by simp
qed simp

lemma segment_between:
  assumes "round64 a = a" "round64 b = b" "a \<le> b" "0 \<le> w" "w \<le> 127 / 128"
  shows "a \<le> segment a b w" "segment a b w \<le> b"
proof -
  obtain m n where "a = of_int m * pow2 (- 1074)" "b = of_int n * pow2 (- 1074)"
    using assms round64_multiple by blast
  then have "b - a = of_int (n - m) * pow2 (- 1074)" by (simp add: left_diff_distrib)
  then have y: "round64 (round64 (b - a) * w) \<le> b - a"
    using assms by (intro weighted_below [of "b - a" "n - m"]) simp_all
  have "0 \<le> round64 (round64 (b - a) * w)" using assms by (simp add: round64_nonneg)
  then show "a \<le> segment a b w" using round64_mono [of a "a + round64 (round64 (b - a) * w)"] assms(1)
    by (simp add: segment_def)
  show "segment a b w \<le> b" using round64_mono [of "a + round64 (round64 (b - a) * w)" b] y assms(2)
    by (simp add: segment_def)
qed

lemma segment_mono:
  assumes "a \<le> b" "w \<le> v"
  shows "segment a b w \<le> segment a b v"
  unfolding segment_def using assms
  by (intro round64_mono add_left_mono mult_left_mono) (auto intro: round64_nonneg)

section \<open>The percentile\<close>

lemma sample_okE:
  assumes "sample_ok f"
  obtains r where "f = Fin r" "round64 r = r" "\<bar>r\<bar> \<le> 2 ^ 50"
  using assms by (cases f) auto

lemma round64_abs_le:
  assumes "\<bar>x\<bar> \<le> of_int n" and "n \<le> 2 ^ 53"
  shows "\<bar>round64 x\<bar> \<le> of_int n"
proof -
  have "0 \<le> (of_int n :: rat)" using assms(1) by linarith
  then have "\<bar>n\<bar> \<le> 2 ^ 53" using assms(2) by simp
  then show ?thesis
    using round64_mono [of x "of_int n"] round64_mono [of "- of_int n" x] assms(1)
    by (auto simp: abs_le_iff round64_of_int)
qed

lemma segment_float:
  assumes "\<bar>a\<bar> \<le> 2 ^ 50" "\<bar>b\<bar> \<le> 2 ^ 50" "0 \<le> w" "w \<le> 1"
  shows "fadd (Fin a) (fmul (fsub (Fin b) (Fin a)) (Fin w)) = Fin (segment a b w)"
proof -
  let ?D = "round64 (b - a)"
  have ba: "\<bar>b - a\<bar> \<le> of_int (2 ^ 51)" using assms by simp
  then have D: "\<bar>?D\<bar> \<le> of_int (2 ^ 51)" by (rule round64_abs_le) simp
  have "\<bar>?D * w\<bar> \<le> \<bar>?D\<bar> * 1" unfolding abs_mult using assms by (intro mult_left_mono) auto
  then have Dw: "\<bar>?D * w\<bar> \<le> of_int (2 ^ 51)" using D by linarith
  then have "\<bar>round64 (?D * w)\<bar> \<le> of_int (2 ^ 51)" by (rule round64_abs_le) simp
  then show ?thesis
    using assms ba D Dw by (simp add: fsub_def to_f64_finite segment_def)
qed

text \<open>
  The position is a rounded quotient; it stays in the unit interval of the exact one, at
  least 1 / 128 below its end.
\<close>

lemma position_rounded:
  assumes "0 \<le> m" "m \<le> 2 ^ 47"
  shows "of_int (m div 100) \<le> round64 (of_int m / 100)"
    "round64 (of_int m / 100) \<le> of_int (m div 100) + 127 / 128"
proof -
  let ?l = "m div 100"
  have "100 * ?l \<le> m" "m \<le> 100 * ?l + 99" by simp_all
  then have "rat_of_int (100 * ?l) \<le> of_int m" "rat_of_int m \<le> of_int (100 * ?l + 99)"
    by (simp_all only: of_int_le_iff)
  then have m: "of_int ?l \<le> (of_int m / 100 :: rat)" "of_int m / 100 \<le> of_int ?l + (99 / 100 :: rat)"
    by (simp_all add: field_simps)
  have l: "0 \<le> ?l" "?l \<le> 2 ^ 41" using assms by simp_all
  show "of_int ?l \<le> round64 (of_int m / 100)"
    using round64_mono [OF m(1)] l by (simp add: round64_of_int)
  have "round64 (of_int m / 100) \<le> round64 (of_int (128 * ?l + 127) * pow2 (- 7))"
    using m(2) by (intro round64_mono) (simp add: pow2_def field_simps)
  also have "\<dots> = of_int (128 * ?l + 127) * pow2 (- 7)"
  proof (rule round64_exact [OF refl])
    have "rat_of_int ?l \<le> of_int (2 ^ 41)" using l by (simp only: of_int_le_iff)
    then have "exponent (of_int (128 * ?l + 127) * pow2 (- 7)) \<le> 42"
      using l by (intro exponent_le) (auto simp: pow2_def abs_of_nonneg field_simps)
    then show "quantum (of_int (128 * ?l + 127) * pow2 (- 7)) \<le> - 7" by (simp add: quantum_def)
  qed
  finally show "round64 (of_int m / 100) \<le> of_int ?l + 127 / 128"
    by (simp add: pow2_def field_simps)
qed

text \<open>The value at \<open>percent\<close> of an ascending list: its segment and its weight.\<close>

definition percent_rank :: "nat \<Rightarrow> int \<Rightarrow> nat" where
  "percent_rank n percent = nat ((int n - 1) * percent div 100)"

definition percent_weight :: "nat \<Rightarrow> int \<Rightarrow> rat" where
  "percent_weight n percent =
     round64 (round64 (of_int ((int n - 1) * percent) / 100) - of_int ((int n - 1) * percent div 100))"

definition percent_value :: "rat list \<Rightarrow> int \<Rightarrow> rat" where
  "percent_value rs percent =
     (let l = percent_rank (length rs) percent in
      segment (rs ! l) (rs ! (l + 1)) (percent_weight (length rs) percent))"

lemma percent_product:
  assumes "2 \<le> n" "int n \<le> 2 ^ 40" "0 \<le> percent" "percent \<le> 99"
  shows "0 \<le> (int n - 1) * percent" "(int n - 1) * percent \<le> 2 ^ 47"
    "(int n - 1) * percent div 100 \<le> int n - 2" "percent_rank n percent + 1 < n"
proof -
  show nonneg: "0 \<le> (int n - 1) * percent" using assms by simp
  define m where "m = (int n - 1) * percent"
  have "m \<le> (int n - 1) * 99" unfolding m_def using assms by (intro mult_left_mono) auto
  then have "m \<le> 2 ^ 47" "m div 100 \<le> int n - 2" using assms(1,2) by simp_all
  then show "(int n - 1) * percent \<le> 2 ^ 47" "(int n - 1) * percent div 100 \<le> int n - 2"
    by (simp_all only: m_def)
  then show "percent_rank n percent + 1 < n" using assms(1) unfolding percent_rank_def by linarith
qed

lemma percent_weight_bounds:
  assumes "2 \<le> n" "int n \<le> 2 ^ 40" "0 \<le> percent" "percent \<le> 99"
  shows "0 \<le> percent_weight n percent" "percent_weight n percent \<le> 127 / 128"
proof -
  let ?m = "(int n - 1) * percent"
  let ?x = "round64 (of_int ?m / 100) - of_int (?m div 100)"
  have x: "0 \<le> ?x" "?x \<le> 127 / 128"
    using position_rounded [OF percent_product(1,2) [OF assms]] by simp_all
  show "0 \<le> percent_weight n percent"
    unfolding percent_weight_def using x(1) by (rule round64_nonneg)
  have "round64 (of_int 127 * pow2 (- 7)) = of_int 127 * pow2 (- 7)"
  proof (rule round64_exact [OF refl])
    have "exponent (of_int 127 * pow2 (- 7)) \<le> 0" by (rule exponent_le) (simp_all add: pow2_def)
    then show "quantum (of_int 127 * pow2 (- 7)) \<le> - 7" by (simp add: quantum_def)
  qed
  then have "round64 (127 / 128) = 127 / 128" by (simp add: pow2_def)
  then show "percent_weight n percent \<le> 127 / 128"
    unfolding percent_weight_def using round64_mono [OF x(2)] by simp
qed

lemma interpolate_value:
  assumes rs: "\<forall>r \<in> set rs. \<bar>r\<bar> \<le> 2 ^ 50"
    and n: "2 \<le> length rs" "int (length rs) \<le> 2 ^ 40" and p: "0 \<le> percent" "percent \<le> 99"
  shows "interpolate (map Fin rs) percent = Inr (Fin (percent_value rs percent))"
proof -
  let ?n = "length rs" and ?m = "(int (length rs) - 1) * percent"
  let ?l = "?m div 100" and ?x = "round64 (of_int ?m / 100)"
  note m = percent_product [OF n p]
  note x = position_rounded [OF m(1,2)]
  note w = percent_weight_bounds [OF n p]
  have "rat_of_int ?m \<le> of_int (2 ^ 47)" using m(2) by (simp only: of_int_le_iff)
  moreover have "0 \<le> rat_of_int ?m" using m(1) by (simp only: of_int_0_le_iff)
  ultimately have "\<bar>of_int ?m / 100 :: rat\<bar> \<le> 2 ^ 53" by (simp only: abs_le_iff) simp
  then have pos: "num_div (NInt ?m) (NInt 100) = Inr (NFlt (Fin ?x))" by (simp add: to_f64_finite)
  have l0: "0 \<le> ?l" using m(1) by simp
  have fl: "\<lfloor>?x\<rfloor> = ?l" using x by (intro floor_unique) simp_all
  have lower: "num_to_int (NFlt (Fin ?x)) = Inr ?l"
    using fl x(1) l0 by (simp add: trunc_rat_def)
  have "\<bar>?x - of_int ?l\<bar> \<le> 2 ^ 53" using x by simp
  moreover have "\<bar>?l\<bar> \<le> 2 ^ 53" using l0 m(3) n(2) by simp
  ultimately have fr: "num_sub (NFlt (Fin ?x)) (NInt ?l) = Inr (NFlt (Fin (percent_weight ?n percent)))"
    by (simp add: float_op_def int_to_float_small fsub_def to_f64_finite percent_weight_def)
  have up: "min (?l + 1) (int ?n - 1) = ?l + 1" using m(3) by simp
  let ?k = "percent_rank ?n percent"
  have k: "int ?k = ?l" "?k + 1 < ?n" using l0 m(4) by (simp_all add: percent_rank_def)
  have nth: "py_nth (map Fin rs) ?l = Inr (Fin (rs ! ?k))" "py_nth (map Fin rs) (?l + 1) = Inr (Fin (rs ! (?k + 1)))"
    using k l0 by (auto simp: py_nth_def Let_def nat_add_distrib simp flip: k(1))
  have "\<bar>rs ! ?k\<bar> \<le> 2 ^ 50" "\<bar>rs ! (?k + 1)\<bar> \<le> 2 ^ 50" using rs k(2) by simp_all
  then have seg: "fadd (Fin (rs ! ?k)) (fmul (fsub (Fin (rs ! (?k + 1))) (Fin (rs ! ?k))) (Fin (percent_weight ?n percent)))
      = Fin (percent_value rs percent)"
    using w by (subst segment_float) (simp_all add: percent_value_def Let_def)
  show ?thesis
    unfolding interpolate_def Let_def by (simp only: length_map pos lower fr up nth seg bind_result_simps num_to_float.simps)
qed

end
