(* ===== verification/BenchMetrics.thy ===== *)
theory BenchMetrics
  imports Telemetry Interpolation "HOL-Library.Product_Lexorder"
begin

text \<open>
  How \<^verbatim>\<open>bench/run.py\<close> reads the gateway's metrics: its own parser of the metrics text, and the
  limiter latency between two readings as the difference of the histograms.
\<close>

section \<open>Labels\<close>

definition label_start :: "char \<Rightarrow> bool" where
  "label_start c \<longleftrightarrow> name_start c \<and> c \<noteq> CHR '':''"

definition label_char :: "char \<Rightarrow> bool" where
  "label_char c \<longleftrightarrow> label_start c \<or> is_digit c"

text \<open>
  \<^verbatim>\<open>(?:\\.|[^"])*"\<close> behind the opening quote, with the regular expression's backtracking: an
  escape is taken as a pair where the rest then matches, as a lone backslash otherwise.
\<close>

fun quoted_text :: "string \<Rightarrow> (string \<times> string) option" where
  "quoted_text [] = None"
| "quoted_text [c] = (if c = CHR 0x22 then Some ([], []) else None)"
| "quoted_text (c # d # s) =
     (let single = (if c = CHR 0x22 then Some ([], d # s)
                    else map_option (\<lambda>(v, rest). (c # v, rest)) (quoted_text (d # s)))
      in if c = CHR 0x5C \<and> d \<noteq> CHR 0x0A
         then (case quoted_text s of
                 Some (v, rest) \<Rightarrow> Some (c # d # v, rest)
               | None \<Rightarrow> single)
         else single)"

lemma quoted_text_shorter: "quoted_text s = Some (v, rest) \<Longrightarrow> length rest < length s"
proof (induction s arbitrary: v rest rule: quoted_text.induct)
  case (3 c d s)
  have single: "length rest < length (c # d # s)"
    if "(if c = CHR 0x22 then Some ([], d # s)
         else map_option (\<lambda>(v, rest). (c # v, rest)) (quoted_text (d # s))) = Some (v, rest)"
    using that "3.IH"(1) by (cases "c = CHR 0x22") fastforce+
  show ?case
  proof (cases "c = CHR 0x5C \<and> d \<noteq> CHR 0x0A")
    case True
    then show ?thesis using "3.prems" single "3.IH"(2) by (cases "quoted_text s") fastforce+
  next
    case False
    then show ?thesis using "3.prems" single by (simp only: quoted_text.simps Let_def if_False)
  qed
qed (auto split: if_splits)

definition match_label :: "string \<Rightarrow> (string \<times> string \<times> string) option" where
  \<comment> \<open>one match of \<^verbatim>\<open>LABEL\<close> at this position: key, raw value, rest\<close>
  "match_label s =
     (if s = [] \<or> \<not> label_start (hd s) then None
      else
        let key = takeWhile label_char s; rest = dropWhile label_char s in
        if py_startswith rest [CHR ''='', CHR 0x22]
        then map_option (\<lambda>(v, rest'). (key, v, rest')) (quoted_text (drop 2 rest))
        else None)"

lemma match_label_shorter: "match_label s = Some (key, v, rest) \<Longrightarrow> length rest < length s"
  using length_dropWhile_le [of label_char s]
  by (fastforce simp: match_label_def Let_def split: if_splits dest!: quoted_text_shorter)

function find_labels :: "string \<Rightarrow> (string \<times> string) list" where
  \<comment> \<open>\<^verbatim>\<open>LABEL.finditer\<close>\<close>
  "find_labels s =
     (case match_label s of
        Some (key, v, rest) \<Rightarrow> (key, v) # find_labels rest
      | None \<Rightarrow> if s = [] then [] else find_labels (tl s))"
  by pat_completeness auto
termination by (relation "measure length") (auto dest: match_label_shorter)

declare find_labels.simps [simp del]

fun replace_pair :: "char \<Rightarrow> char \<Rightarrow> string \<Rightarrow> string \<Rightarrow> string" where
  \<comment> \<open>\<^verbatim>\<open>s.replace(ab, r)\<close> for two characters\<close>
  "replace_pair a b r (c # d # s) =
     (if c = a \<and> d = b then r @ replace_pair a b r s else c # replace_pair a b r (d # s))"
| "replace_pair a b r s = s"

definition unescape_label :: "string \<Rightarrow> string" where
  "unescape_label v =
     replace_pair (CHR 0x5C) (CHR 0x5C) [CHR 0x5C]
       (replace_pair (CHR 0x5C) (CHR 0x22) [CHR 0x22]
         (replace_pair (CHR 0x5C) (CHR ''n'') [CHR 0x0A] v))"

section \<open>The metrics text\<close>

type_synonym sample_key = "string \<times> (string \<times> string) list"
type_synonym sample_dict = "(sample_key, pyfloat) dict"

definition bench_value_text :: "string \<Rightarrow> bool" where
  "bench_value_text s \<longleftrightarrow>
     (let t = unsigned s;
          mantissa = takeWhile (\<lambda>c. \<not> exponent_mark c) t;
          e = dropWhile (\<lambda>c. \<not> exponent_mark c) t
      in decimal_text mantissa \<and> (e = [] \<or> digits (unsigned (tl e))))"

definition bench_match_value :: "string \<Rightarrow> string option" where
  "bench_match_value s =
     (if s \<noteq> [] \<and> py_isspace (hd s)
      then case py_split_ws s of [v] \<Rightarrow> if bench_value_text v then Some v else None | _ \<Rightarrow> None
      else None)"

definition match_prometheus_sample :: "string \<Rightarrow> (string \<times> string \<times> string) option" where
  \<comment> \<open>\<^verbatim>\<open>PROMETHEUS_SAMPLE.match\<close> on a stripped line\<close>
  "match_prometheus_sample line =
     (if line = [] \<or> \<not> name_start (hd line) then None
      else
        let name = takeWhile name_char line; rest = dropWhile name_char line in
        if rest \<noteq> [] \<and> hd rest = CHR ''{''
        then (case last_brace (tl rest) of
                None \<Rightarrow> None
              | Some (labels, tail) \<Rightarrow> map_option (\<lambda>v. (name, labels, v)) (bench_match_value tail))
        else map_option (\<lambda>v. (name, [], v)) (bench_match_value rest))"

definition read_labels :: "string \<Rightarrow> (string \<times> string) list" where
  "read_labels text = sort (map (\<lambda>(key, v). (key, unescape_label v)) (find_labels text))"

definition read_line :: "sample_dict \<Rightarrow> string \<Rightarrow> sample_dict result" where
  "read_line samples line =
     (if line = [] \<or> py_startswith line ''#'' then Inr samples
      else
        case match_prometheus_sample (py_strip line) of
          None \<Rightarrow> Inr samples
        | Some (name, labels, text) \<Rightarrow>
            (case py_float text of
               None \<Rightarrow> Inl (ValueError ''could not convert string to float'')
             | Some f \<Rightarrow> Inr (dset samples (name, read_labels labels) f)))"

fun read_lines :: "sample_dict \<Rightarrow> string list \<Rightarrow> sample_dict result" where
  "read_lines samples [] = Inr samples"
| "read_lines samples (line # rest) =
     bind_result (read_line samples line) (\<lambda>samples'. read_lines samples' rest)"

definition bench_parse_prometheus :: "string \<Rightarrow> sample_dict result" where
  "bench_parse_prometheus text = read_lines [] (py_splitlines text)"

section \<open>The limiter latency between two readings\<close>

definition LIMITER_PREFIX :: string where
  "LIMITER_PREFIX = ''security_gateway_limiter_latency_seconds_''"

record limiter_group =
  lg_buckets :: "(string, pyfloat) dict"
  lg_count :: "int option"
  lg_sum_seconds :: "pyfloat option"

definition new_limiter_group :: limiter_group where
  "new_limiter_group = \<lparr>lg_buckets = [], lg_count = None, lg_sum_seconds = None\<rparr>"

type_synonym limiter_groups = "(string \<times> string, limiter_group) dict"

definition round_to_int :: "pyfloat \<Rightarrow> int result" where
  \<comment> \<open>\<^verbatim>\<open>int(round(x))\<close>\<close>
  "round_to_int f =
     (case f of
        Fin r \<Rightarrow> Inr (round_half_even r)
      | NaN \<Rightarrow> Inl (ValueError ''cannot convert float NaN to integer'')
      | _ \<Rightarrow> Inl (OverflowError ''cannot convert float infinity to integer''))"

definition last_label :: "(string \<times> string) list \<Rightarrow> string \<Rightarrow> string option" where
  \<comment> \<open>\<^verbatim>\<open>dict(pairs).get(key)\<close>: the last pair wins\<close>
  "last_label pairs key = map_of (rev pairs) key"

definition update_group :: "string \<Rightarrow> string option \<Rightarrow> pyfloat \<Rightarrow> limiter_group \<Rightarrow> limiter_group result" where
  "update_group name le delta grp =
     (if py_endswith name ''_count''
      then bind_result (round_to_int delta) (\<lambda>n. Inr (grp\<lparr>lg_count := Some n\<rparr>))
      else if py_endswith name ''_sum'' then Inr (grp\<lparr>lg_sum_seconds := Some delta\<rparr>)
      else if py_endswith name ''_bucket''
      then Inr (grp\<lparr>lg_buckets := dset (lg_buckets grp) (case le of None \<Rightarrow> ''+Inf'' | Some b \<Rightarrow> b) delta\<rparr>)
      else Inr grp)"

definition add_sample :: "sample_dict \<Rightarrow> limiter_groups \<Rightarrow> sample_key \<times> pyfloat \<Rightarrow> limiter_groups result" where
  "add_sample before groups item =
     (let ((name, labels), after_value) = item;
          limiter = last_label labels ''limiter'';
          backend = last_label labels ''backend''
      in if \<not> py_startswith name LIMITER_PREFIX \<or> \<not> truthy_str limiter \<or> \<not> truthy_str backend
         then Inr groups
         else
           let delta = fsub after_value (dget_default before (name, labels) (Fin 0));
               key = (the limiter, the backend)
           in bind_result (update_group name (last_label labels ''le'') delta
                (dget_default groups key new_limiter_group)) (\<lambda>grp.
                Inr (dset groups key grp)))"

fun add_samples :: "sample_dict \<Rightarrow> limiter_groups \<Rightarrow> (sample_key \<times> pyfloat) list \<Rightarrow> limiter_groups result" where
  "add_samples before groups [] = Inr groups"
| "add_samples before groups (x # xs) =
     bind_result (add_sample before groups x) (\<lambda>groups'. add_samples before groups' xs)"

definition bound_threshold :: "int \<Rightarrow> int \<Rightarrow> int result" where
  \<comment> \<open>\<^verbatim>\<open>math.ceil(count * percent / 100)\<close>\<close>
  "bound_threshold n percent =
     bind_result (num_div (NInt (n * percent)) (NInt 100)) (\<lambda>x.
       case num_val x of
         Fin r \<Rightarrow> Inr \<lceil>r\<rceil>
       | _ \<Rightarrow> Inl (OverflowError ''cannot convert float infinity to integer''))"

definition finite_buckets :: "(string, pyfloat) dict \<Rightarrow> (pyfloat \<times> pyfloat) list result" where
  "finite_buckets buckets =
     bind_result
       (map_result (\<lambda>(bound, v). case py_float bound of
            None \<Rightarrow> Inl (ValueError ''could not convert string to float'') | Some f \<Rightarrow> Inr (f, v))
          (filter (\<lambda>(bound, v). bound \<noteq> ''+Inf'') buckets))
       (\<lambda>pairs. Inr (sort pairs))"

definition histogram_bound :: "(string, pyfloat) dict \<Rightarrow> int \<Rightarrow> int \<Rightarrow> pyfloat option result" where
  "histogram_bound buckets n percent =
     (if n < 1 then Inr None
      else
        bind_result (bound_threshold n percent) (\<lambda>threshold.
        bind_result (finite_buckets buckets) (\<lambda>finite.
          Inr (case find (\<lambda>(bound, v). fle (Fin (of_int threshold)) v) finite of
                 None \<Rightarrow> None
               | Some (bound, v) \<Rightarrow> Some (fround 6 (fmul bound (Fin 1000)))))))"

record limiter_latency =
  ll_backend :: string
  ll_count :: int
  ll_mean_ms :: "pyfloat option"
  ll_p50_upper_bound_ms :: "pyfloat option"
  ll_p95_upper_bound_ms :: "pyfloat option"
  ll_p99_upper_bound_ms :: "pyfloat option"

definition group_mean_ms :: "pyfloat \<Rightarrow> int \<Rightarrow> pyfloat option result" where
  "group_mean_ms sum_seconds n =
     (if n = 0 then Inr None
      else bind_result (int_to_float n) (\<lambda>d.
           bind_result (fdiv (fmul sum_seconds (Fin 1000)) d) (\<lambda>m. Inr (Some (fround 6 m)))))"

definition group_latency :: "string \<Rightarrow> limiter_group \<Rightarrow> limiter_latency result" where
  "group_latency backend grp =
     (let n = (case lg_count grp of None \<Rightarrow> 0 | Some i \<Rightarrow> i);
          sum_seconds = (case lg_sum_seconds grp of None \<Rightarrow> Fin 0 | Some s \<Rightarrow> s)
      in bind_result (group_mean_ms sum_seconds n) (\<lambda>mean.
         bind_result (histogram_bound (lg_buckets grp) n 50) (\<lambda>p50.
         bind_result (histogram_bound (lg_buckets grp) n 95) (\<lambda>p95.
         bind_result (histogram_bound (lg_buckets grp) n 99) (\<lambda>p99.
           Inr \<lparr>ll_backend = backend, ll_count = n, ll_mean_ms = mean, ll_p50_upper_bound_ms = p50,
                ll_p95_upper_bound_ms = p95, ll_p99_upper_bound_ms = p99\<rparr>)))))"

fun collect_latencies ::
  "((string \<times> string) \<times> limiter_group) list \<Rightarrow> (string, limiter_latency) dict \<Rightarrow>
   (string, limiter_latency) dict result" where
  "collect_latencies [] out = Inr out"
| "collect_latencies (((limiter, backend), grp) # rest) out =
     bind_result (group_latency backend grp) (\<lambda>latency.
       collect_latencies rest (dset out limiter latency))"

definition limiter_latency_delta ::
  "sample_dict option \<Rightarrow> sample_dict option \<Rightarrow> (string, limiter_latency) dict option result" where
  "limiter_latency_delta before after =
     (case (before, after) of
        (Some b, Some a) \<Rightarrow>
          bind_result (add_samples b [] a) (\<lambda>groups.
          bind_result (collect_latencies (sort_key fst groups) []) (\<lambda>out. Inr (Some out)))
      | _ \<Rightarrow> Inr None)"

section \<open>The bounds cover the observations\<close>

lemma position_above:
  assumes "0 \<le> m" "m \<le> 2 ^ 47" "m mod 100 \<noteq> 0"
  shows "of_int (m div 100) + 1 / 128 \<le> round64 (of_int m / 100)"
proof -
  let ?l = "m div 100"
  have "100 * ?l + 1 \<le> m" using assms(3) by presburger
  then have "rat_of_int (100 * ?l + 1) \<le> of_int m" by (simp only: of_int_le_iff)
  then have m: "of_int ?l + (1 / 100 :: rat) \<le> of_int m / 100" by (simp add: field_simps)
  have l: "0 \<le> ?l" "?l \<le> 2 ^ 41" using assms by simp_all
  have "round64 (of_int (128 * ?l + 1) * pow2 (- 7)) = of_int (128 * ?l + 1) * pow2 (- 7)"
  proof (rule round64_exact [OF refl])
    have "rat_of_int ?l \<le> of_int (2 ^ 41)" using l by (simp only: of_int_le_iff)
    then have "exponent (of_int (128 * ?l + 1) * pow2 (- 7)) \<le> 42"
      using l by (intro exponent_le) (auto simp: pow2_def abs_of_nonneg field_simps)
    then show "quantum (of_int (128 * ?l + 1) * pow2 (- 7)) \<le> - 7" by (simp add: quantum_def)
  qed
  moreover have "round64 (of_int (128 * ?l + 1) * pow2 (- 7)) \<le> round64 (of_int m / 100)"
    using m by (intro round64_mono) (simp add: pow2_def field_simps)
  ultimately show ?thesis by (simp add: pow2_def field_simps)
qed

lemma bound_threshold_exact:
  assumes "0 \<le> n" "n \<le> 2 ^ 40" "0 \<le> p" "p \<le> 99"
  shows "bound_threshold n p = Inr ((n * p + 99) div 100)"
proof -
  define m where "m = n * p"
  have "n * p \<le> 2 ^ 40 * 99" using assms by (intro mult_mono) auto
  then have m: "0 \<le> m" "m \<le> 2 ^ 47" using assms by (simp_all add: m_def)
  have "rat_of_int m \<le> of_int (2 ^ 47)" using m(2) by (simp only: of_int_le_iff)
  moreover have "0 \<le> rat_of_int m" using m(1) by (simp only: of_int_0_le_iff)
  ultimately have "\<bar>of_int m / 100 :: rat\<bar> \<le> 2 ^ 53" by (simp only: abs_le_iff) simp
  then have d: "num_div (NInt m) (NInt 100) = Inr (NFlt (Fin (round64 (of_int m / 100))))"
    by (simp add: to_f64_finite)
  have "\<lceil>round64 (of_int m / 100)\<rceil> = (m + 99) div 100"
  proof (cases "m mod 100 = 0")
    case True
    then obtain k where k: "m = 100 * k" by auto
    then have "round64 (of_int m / 100) = of_int k" using m round64_of_int [of k] by simp
    then show ?thesis using k by simp
  next
    case False
    then have r: "1 \<le> m mod 100" "m mod 100 < 100" using pos_mod_bound [of 100 m] pos_mod_sign [of 100 m] by linarith+
    have "(100 * q + r + 99) div 100 = q + 1" if "1 \<le> r" "r < 100" for q r :: int
      using that by (intro int_div_pos_eq [where r = "r - 1"]) auto
    from this [OF r, of "m div 100"] have "(m + 99) div 100 = m div 100 + 1" by simp
    then show ?thesis
      using position_above [OF m False] position_rounded(2) [OF m]
      by (intro ceiling_unique) (simp_all add: field_simps)
  qed
  then show ?thesis using d by (simp add: bound_threshold_def m_def)
qed

text \<open>Buckets as the gateway counts them: each bound with the observations it covers.\<close>

definition at_most :: "pyfloat list \<Rightarrow> pyfloat \<Rightarrow> int" where
  "at_most xs b = int (length (filter (\<lambda>x. fle x b) xs))"

definition cumulative_buckets :: "pyfloat list \<Rightarrow> (string, pyfloat) dict \<Rightarrow> bool" where
  "cumulative_buckets xs buckets \<longleftrightarrow>
     list_all (\<lambda>(t, v). t = ''+Inf'' \<or>
       (case py_float t of None \<Rightarrow> False | Some b \<Rightarrow> v = Fin (of_int (at_most xs b)))) buckets"

definition bucket_bounds :: "(string, pyfloat) dict \<Rightarrow> pyfloat set" where
  "bucket_bounds buckets = {b. \<exists>(t, v) \<in> set buckets. t \<noteq> ''+Inf'' \<and> py_float t = Some b}"

lemma finite_buckets_set:
  assumes "cumulative_buckets xs buckets"
  shows "\<exists>pairs. finite_buckets buckets = Inr pairs \<and> sorted pairs \<and>
    set pairs = (\<lambda>b. (b, Fin (of_int (at_most xs b)))) ` bucket_bounds buckets"
proof -
  define read where "read = (\<lambda>(t, v :: pyfloat). (the (py_float t), v))"
  have "map_result (\<lambda>(bound, v). case py_float bound of
            None \<Rightarrow> Inl (ValueError ''could not convert string to float'') | Some f \<Rightarrow> Inr (f, v))
          (filter (\<lambda>(bound, v). bound \<noteq> ''+Inf'') buckets) =
      Inr (map read (filter (\<lambda>(bound, v). bound \<noteq> ''+Inf'') buckets))"
    using assms by (intro map_result_total)
      (auto simp: cumulative_buckets_def list_all_iff read_def split: option.splits)
  then have "finite_buckets buckets = Inr (sort (map read (filter (\<lambda>(bound, v). bound \<noteq> ''+Inf'') buckets)))"
    by (simp add: finite_buckets_def)
  moreover have "read ` set (filter (\<lambda>(bound, v). bound \<noteq> ''+Inf'') buckets) =
      (\<lambda>b. (b, Fin (of_int (at_most xs b)))) ` bucket_bounds buckets"
    using assms by (fastforce simp: cumulative_buckets_def list_all_iff read_def bucket_bounds_def image_iff
        split: option.splits)
  ultimately show ?thesis by simp
qed

text \<open>
  The upper bound read from a limiter histogram is the smallest bucket bound that at least
  the given percentage of the observations lie within, and there is none only when no finite
  bucket holds that many.
\<close>

theorem histogram_bound_covers:
  assumes p: "0 \<le> p" "p \<le> 99" and n: "0 < length xs" "int (length xs) \<le> 2 ^ 40"
    and b: "cumulative_buckets xs buckets" "NaN \<notin> bucket_bounds buckets"
  shows "\<exists>r. histogram_bound buckets (int (length xs)) p = Inr r \<and>
    (case r of
       None \<Rightarrow> \<forall>b \<in> bucket_bounds buckets. 100 * at_most xs b < p * int (length xs)
     | Some ms \<Rightarrow> \<exists>b \<in> bucket_bounds buckets. ms = fround 6 (fmul b (Fin 1000)) \<and>
         p * int (length xs) \<le> 100 * at_most xs b \<and>
         (\<forall>b' \<in> bucket_bounds buckets. flt b' b \<longrightarrow> 100 * at_most xs b' < p * int (length xs)))"
proof -
  let ?n = "int (length xs)" and ?t = "(int (length xs) * p + 99) div 100"
  let ?P = "\<lambda>(bound, v). fle (Fin (of_int ?t)) v"
  obtain pairs where pairs: "finite_buckets buckets = Inr pairs" "sorted pairs"
      "set pairs = (\<lambda>b. (b, Fin (of_int (at_most xs b)))) ` bucket_bounds buckets"
    using finite_buckets_set [OF b(1)] by blast
  have reach: "?P (b, Fin (of_int (at_most xs b))) \<longleftrightarrow> p * ?n \<le> 100 * at_most xs b" for b
  proof -
    have "(a + 99) div 100 \<le> k \<longleftrightarrow> a \<le> 100 * k" for a k :: int by linarith
    then have "?t \<le> at_most xs b \<longleftrightarrow> ?n * p \<le> 100 * at_most xs b" by blast
    then show ?thesis by (simp add: mult.commute)
  qed
  have h: "histogram_bound buckets ?n p =
      Inr (case find ?P pairs of None \<Rightarrow> None | Some (bound, v) \<Rightarrow> Some (fround 6 (fmul bound (Fin 1000))))"
    using n p by (simp add: histogram_bound_def bound_threshold_exact pairs(1))
  show ?thesis
  proof (cases "find ?P pairs")
    case None
    then have "\<forall>x \<in> set pairs. \<not> ?P x" by (auto simp: find_None_iff)
    then have "\<forall>b \<in> bucket_bounds buckets. 100 * at_most xs b < p * ?n"
      unfolding pairs(3) using reach by (auto simp: not_le simp del: fle.simps)
    then show ?thesis using h None by auto
  next
    case (Some q)
    then obtain i where i: "i < length pairs" "?P (pairs ! i)" "q = pairs ! i" "\<forall>j < i. \<not> ?P (pairs ! j)"
      by (auto simp: find_Some_iff)
    then have "q \<in> set pairs" by simp
    then obtain b where bb: "b \<in> bucket_bounds buckets" "q = (b, Fin (of_int (at_most xs b)))"
      unfolding pairs(3) by blast
    have cover: "p * ?n \<le> 100 * at_most xs b" using i(2) unfolding i(3) [symmetric] bb(2) reach .
    have "100 * at_most xs b' < p * ?n" if b': "b' \<in> bucket_bounds buckets" "flt b' b" for b'
    proof -
      let ?q' = "(b', Fin (of_int (at_most xs b')))"
      have "?q' \<in> set pairs" unfolding pairs(3) using b'(1) by blast
      then obtain j where j: "j < length pairs" "pairs ! j = ?q'" by (metis in_set_conv_nth)
      have less: "b' < b" using b' bb(1) assms(6) by (subst pyfloat_less_flt) auto
      have "pairs ! i = (b, Fin (of_int (at_most xs b)))" using i(3) bb(2) by simp
      then have "\<not> pairs ! i \<le> pairs ! j" using j(2) less by (auto simp: less_eq_prod_def)
      then have "j < i" using sorted_nth_mono [OF pairs(2)] j(1) by (meson not_le_imp_less)
      then have "\<not> ?P ?q'" using i(4) j(2) by metis
      then show ?thesis unfolding reach by (simp only: not_le)
    qed
    then show ?thesis using h Some bb cover by auto
  qed
qed

section \<open>Unescaping\<close>

text \<open>
  The gateway escapes a backslash as two. The benchmark's three replacements run one after
  the other, so the second backslash of the pair and a following \<open>n\<close> are read as a line feed.
\<close>

theorem bench_unescape_wrong:
  "escape_label_value [CHR 0x5C, CHR ''n''] = [CHR 0x5C, CHR 0x5C, CHR ''n''] \<and>
   unescape_label (escape_label_value [CHR 0x5C, CHR ''n'']) = [CHR 0x5C, CHR 0x0A]"
  by code_simp

end
