(* ===== verification/BenchResources.thy ===== *)
theory BenchResources
  imports BenchSchedule Telemetry
begin

text \<open>
  \<^verbatim>\<open>bench/environment.py\<close>: the readings of \<^verbatim>\<open>nvidia-smi\<close> and \<^verbatim>\<open>git\<close> (the output of a command is
  a parameter, absent when it failed), and the summary of the resource samples that every
  benchmark condition records.
\<close>

section \<open>Command output\<close>

type_synonym run_text = "string list \<Rightarrow> string option"

definition field_texts :: "string \<Rightarrow> string list" where
  \<comment> \<open>\<^verbatim>\<open>[field.strip() for field in line.split(",")]\<close>\<close>
  "field_texts line = map py_strip (py_split (CHR '','') line)"

definition number_value :: "string \<Rightarrow> pyval" where
  "number_value text = opt_num (read_number text)"

definition nvidia_device :: "string \<Rightarrow> pyval option" where
  "nvidia_device line =
     (let f = field_texts line in
      if length f < 5 then None
      else Some (VDict [(''name'', VStr (f ! 0)), (''uuid'', VStr (f ! 1)),
        (''memory_total_mib'', number_value (f ! 2)), (''driver_version'', VStr (f ! 3)),
        (''compute_capability'', VStr (f ! 4))]))"

fun text_after :: "string \<Rightarrow> string \<Rightarrow> string option" where
  \<comment> \<open>\<^verbatim>\<open>text.split(marker, 1)[1]\<close> when the marker occurs\<close>
  "text_after marker [] = (if marker = [] then Some [] else None)"
| "text_after marker (c # s) =
     (if py_startswith (c # s) marker then Some (drop (length marker) (c # s)) else text_after marker s)"

definition cuda_version_of :: "string \<Rightarrow> pyval result" where
  "cuda_version_of version_output =
     (case text_after ''CUDA Version:'' version_output of
        None \<Rightarrow> Inr VNone
      | Some rest \<Rightarrow>
          (case py_split_ws rest of
             [] \<Rightarrow> Inl (IndexError ''list index out of range'')
           | w # ws \<Rightarrow> Inr (VStr w)))"

definition GPU_QUERY :: "string list" where
  "GPU_QUERY = [''--query-gpu=name,uuid,memory.total,driver_version,compute_cap'',
     ''--format=csv,noheader,nounits'']"

definition query_nvidia :: "run_text \<Rightarrow> string list \<Rightarrow> pyval result" where
  "query_nvidia run_text command =
     (case run_text (command @ GPU_QUERY) of
        None \<Rightarrow> Inr (VDict [(''available'', VBool False), (''devices'', VList []), (''cuda_version'', VNone)])
      | Some output \<Rightarrow>
          (let devices = List.map_filter nvidia_device (py_splitlines output);
               version_output = (case run_text command of None \<Rightarrow> [] | Some t \<Rightarrow> t)
           in bind_result (cuda_version_of version_output) (\<lambda>cuda_version.
              Inr (VDict [(''available'', VBool (devices \<noteq> [])), (''devices'', VList devices),
                (''cuda_version'', cuda_version)]))))"

definition UTILIZATION_QUERY :: "string list" where
  "UTILIZATION_QUERY =
     [''--query-gpu=index,utilization.gpu,memory.used,memory.total,power.draw,temperature.gpu'',
      ''--format=csv,noheader,nounits'']"

definition utilization_device :: "string \<Rightarrow> pyval option" where
  "utilization_device line =
     (let f = field_texts line in
      if length f < 6 then None
      else Some (VDict [(''index'', number_value (f ! 0)), (''utilization_percent'', number_value (f ! 1)),
        (''memory_used_mib'', number_value (f ! 2)), (''memory_total_mib'', number_value (f ! 3)),
        (''power_watts'', number_value (f ! 4)), (''temperature_c'', number_value (f ! 5))]))"

definition query_gpu_utilization :: "run_text \<Rightarrow> string list \<Rightarrow> pyval list" where
  "query_gpu_utilization run_text command =
     (case run_text (command @ UTILIZATION_QUERY) of
        None \<Rightarrow> []
      | Some output \<Rightarrow> List.map_filter utilization_device (py_splitlines output))"

definition capture_git :: "run_text \<Rightarrow> string list \<Rightarrow> pyval" where
  "capture_git run_text command =
     VDict [(''commit'', opt_str (run_text (command @ [''rev-parse'', ''HEAD'']))),
       (''branch'', opt_str (run_text (command @ [''branch'', ''--show-current'']))),
       (''dirty'', VBool (truthy_str (run_text (command @ [''status'', ''--porcelain'']))))]"

definition finished_text :: "(int \<times> string) option \<Rightarrow> string option" where
  \<comment> \<open>\<^verbatim>\<open>run_text\<close>: the return code and the output of a command that ran\<close>
  "finished_text finished =
     (case finished of
        None \<Rightarrow> None
      | Some (return_code, stdout) \<Rightarrow> if return_code \<noteq> 0 then None else Some (py_strip stdout))"

section \<open>Resource summaries\<close>

type_synonym row = "(string, pyval) dict"

definition row_get :: "row \<Rightarrow> string \<Rightarrow> pyval" where
  \<comment> \<open>\<^verbatim>\<open>row.get(key)\<close>\<close>
  "row_get r key = dget_default r key VNone"

definition rows_in :: "pyval \<Rightarrow> row list result" where
  \<comment> \<open>a list of dictionaries\<close>
  "rows_in v = bind_result (value_list v) (map_result value_items)"

definition summary_value :: "pyval list \<Rightarrow> pyval result" where
  "summary_value vs =
     bind_result (summarize_numbers vs) (\<lambda>s.
       Inr (case s of
              None \<Rightarrow> VNone
            | Some n \<Rightarrow> VDict [(''mean'', VFloat (ns_mean n)), (''min'', VFloat (ns_min n)),
                (''max'', VFloat (ns_max n)), (''p95'', VFloat (ns_p95 n))]))"

definition process_rows :: "row list \<Rightarrow> row list result" where
  "process_rows samples = map_result (\<lambda>s. value_items (dget_default s ''processes'' (VDict []))) samples"

definition process_names :: "row list \<Rightarrow> string list" where
  "process_names processes = sort (remdups (concat (map dkeys processes)))"

definition samples_of_process :: "row list \<Rightarrow> string \<Rightarrow> row list result" where
  "samples_of_process processes name = map_result (\<lambda>p. value_items (dget_default p name (VDict []))) processes"

definition gpu_rows :: "row list \<Rightarrow> row list result" where
  "gpu_rows samples = concat_result (\<lambda>s. rows_in (dget_default s ''gpus'' (VList []))) samples"

definition gpu_indexes :: "row list \<Rightarrow> int list result" where
  "gpu_indexes gpus =
     bind_result
       (map_result (\<lambda>g. value_to_int (row_get g ''index'')) (filter (\<lambda>g. row_get g ''index'' \<noteq> VNone) gpus))
       (\<lambda>indexes. Inr (sort (remdups indexes)))"

definition GPU_SUMMARY_KEYS :: "string list" where
  "GPU_SUMMARY_KEYS = [''utilization_percent'', ''memory_used_mib'', ''power_watts'', ''temperature_c'']"

definition summary_fields :: "string list \<Rightarrow> row list \<Rightarrow> pyval result" where
  \<comment> \<open>one summary per key\<close>
  "summary_fields keys rows =
     bind_result (map_result (\<lambda>key. bind_result (summary_value (map (\<lambda>r. row_get r key) rows))
         (\<lambda>v. Inr (key, v))) keys)
       (\<lambda>fields. Inr (VDict fields))"

definition summarize_process :: "row list \<Rightarrow> string \<Rightarrow> (string \<times> pyval) result" where
  "summarize_process processes name =
     bind_result (samples_of_process processes name) (\<lambda>samples.
     bind_result (summary_fields [''cpu_percent'', ''rss_bytes''] samples) (\<lambda>v. Inr (name, v)))"

definition summarize_gpu :: "row list \<Rightarrow> int \<Rightarrow> (string \<times> pyval) result" where
  "summarize_gpu gpus index =
     bind_result (summary_fields GPU_SUMMARY_KEYS (filter (\<lambda>g. key_eq (row_get g ''index'') (VInt index)) gpus))
       (\<lambda>v. Inr (int_str index, v))"

definition summarize_resources :: "row list \<Rightarrow> pyval result" where
  "summarize_resources samples =
     bind_result (summary_value (map (\<lambda>s. row_get s ''system_cpu_percent'') samples)) (\<lambda>cpu.
     bind_result (summary_value (map (\<lambda>s. row_get s ''system_memory_used_bytes'') samples)) (\<lambda>memory.
     bind_result (process_rows samples) (\<lambda>processes.
     bind_result (map_result (summarize_process processes) (process_names processes)) (\<lambda>process_fields.
     bind_result (gpu_rows samples) (\<lambda>gpus.
     bind_result (gpu_indexes gpus) (\<lambda>indexes.
     bind_result (map_result (summarize_gpu gpus) indexes) (\<lambda>gpu_fields.
       Inr (VDict [(''sample_count'', VInt (int (length samples))),
         (''system'', VDict [(''cpu_percent'', cpu), (''memory_used_bytes'', memory)]),
         (''processes'', VDict process_fields), (''gpus'', VDict gpu_fields)]))))))))"

end
