(* ===== verification/BenchRun.thy ===== *)
theory BenchRun
  imports BenchCommand BenchMetrics BenchResources
begin

text \<open>
  \<^verbatim>\<open>bench/run.py\<close>, the run itself: the rows a condition leaves behind and the loop over the
  schedule. What the client process, the sampler and the metrics endpoint deliver is a
  parameter of each condition; the files are the list of what was written to them.
\<close>

section \<open>Errors without endpoints\<close>

text \<open>\<^verbatim>\<open>https?://\S+\<close> at this position: what follows the match.\<close>

definition after_url :: "string \<Rightarrow> string option" where
  "after_url s =
     (let behind = (\<lambda>p. drop (length p) s);
          matches = (\<lambda>p. py_startswith s p \<and> behind p \<noteq> [] \<and> \<not> py_isspace (hd (behind p)))
      in if matches ''https://'' then Some (dropWhile (\<lambda>c. \<not> py_isspace c) (behind ''https://''))
         else if matches ''http://'' then Some (dropWhile (\<lambda>c. \<not> py_isspace c) (behind ''http://''))
         else None)"

lemma after_url_shorter: "after_url s = Some r \<Longrightarrow> length r < length s"
proof -
  assume r: "after_url s = Some r"
  have "length (dropWhile (\<lambda>c. \<not> py_isspace c) (drop n s)) < length s" if "0 < n" "drop n s \<noteq> []" for n
    using length_dropWhile_le [of "\<lambda>c. \<not> py_isspace c" "drop n s"] that by simp
  with r show ?thesis by (auto simp: after_url_def Let_def split: if_splits)
qed

function replace_urls :: "string \<Rightarrow> string" where
  "replace_urls s =
     (case after_url s of
        Some rest \<Rightarrow> ''<endpoint>'' @ replace_urls rest
      | None \<Rightarrow> if s = [] then [] else hd s # replace_urls (tl s))"
  by pat_completeness auto
termination by (relation "measure length") (auto dest: after_url_shorter)

declare replace_urls.simps [simp del]

definition sanitize_error :: "string \<Rightarrow> string option" where
  "sanitize_error error =
     (if error = [] then None
      else Some (take 500 (replace_urls (py_join '' '' (py_split_ws error)))))"

section \<open>Sample rows\<close>

definition result_list :: "row \<Rightarrow> string \<Rightarrow> pyval list result" where
  \<comment> \<open>\<^verbatim>\<open>list(result.get(key, []))\<close>\<close>
  "result_list r key = value_iter (dget_default r key (VList []))"

record detail =
  \<comment> \<open>one request of the client's detailed arrays\<close>
  de_input_len :: pyval
  de_output_len :: pyval
  de_ttft :: pyval
  de_itl :: pyval
  de_error :: pyval
  de_start_time :: pyval

definition milliseconds :: "pyval \<Rightarrow> pyfloat result" where
  \<comment> \<open>\<^verbatim>\<open>float(value) * 1000\<close>\<close>
  "milliseconds v = bind_result (value_to_float v) (\<lambda>f. Inr (fmul f (Fin 1000)))"

definition time_per_token :: "pyfloat \<Rightarrow> pyfloat \<Rightarrow> int \<Rightarrow> pyfloat option result" where
  "time_per_token e2e ttft output_tokens =
     (if output_tokens \<le> 1 then Inr None
      else
        let streaming = (if flt (Fin 0) (fsub e2e ttft) then fsub e2e ttft else Fin 0) in
        bind_result (int_to_float (output_tokens - 1)) (\<lambda>n.
        bind_result (fdiv streaming n) (\<lambda>t. Inr (Some t))))"

definition sample_row ::
  "(pyval \<Rightarrow> string) \<Rightarrow> condition \<Rightarrow> string \<Rightarrow> int \<times> detail \<Rightarrow> row result" where
  "sample_row repr condition identifier item =
     (let (index, d) = item;
          error = str_of repr (value_or (de_error d) (VStr []));
          ok = (error = []);
          unless_failed = (\<lambda>f. if ok then VFloat (fround 6 f) else VNone)
      in bind_result (bind_result (value_iter (de_itl d)) (map_result milliseconds)) (\<lambda>gaps.
         let inter_token_ms = map (fround 6) gaps in
         bind_result (milliseconds (de_ttft d)) (\<lambda>ttft_ms.
         let e2e_latency_ms = fadd ttft_ms (float_sum inter_token_ms) in
         bind_result (value_to_int (de_output_len d)) (\<lambda>output_tokens.
         bind_result (time_per_token e2e_latency_ms ttft_ms output_tokens) (\<lambda>tpot_ms.
         bind_result (value_item (cn_workload condition) ''name'') (\<lambda>name.
         bind_result (value_to_int (de_input_len d)) (\<lambda>prompt_tokens.
         bind_result (value_item (cn_workload condition) ''output_tokens'') (\<lambda>requested.
           Inr [(''schema_version'', VInt 1),
             (''request_id'', VStr (identifier @ ''-'' @ padded_int 6 index)),
             (''condition_id'', VStr identifier),
             (''path'', VStr (cn_path condition)),
             (''repetition'', VInt (cn_repetition condition)),
             (''workload'', name),
             (''concurrency'', VInt (cn_concurrency condition)),
             (''seed'', VInt (cn_seed condition)),
             (''request_index'', VInt index),
             (''status'', VStr (if ok then ''completed'' else ''failed'')),
             (''success'', VBool ok),
             (''prompt_tokens'', VInt prompt_tokens),
             (''requested_output_tokens'', requested),
             (''completion_tokens'', VInt output_tokens),
             (''ttft_ms'', unless_failed ttft_ms),
             (''total_latency_ms'', unless_failed e2e_latency_ms),
             (''tpot_ms'', (case tpot_ms of None \<Rightarrow> VNone | Some t \<Rightarrow> unless_failed t)),
             (''inter_token_latency_ms'', VList (if ok then map VFloat inter_token_ms else [])),
             (''client_start_time'', de_start_time d),
             (''error'', opt_str (sanitize_error error))]))))))))"

definition details_of ::
  "pyval list \<Rightarrow> pyval list \<Rightarrow> pyval list \<Rightarrow> pyval list \<Rightarrow> pyval list \<Rightarrow> pyval list \<Rightarrow> detail list" where
  "details_of input_lens output_lens ttfts itls errors start_times =
     map (\<lambda>i. \<lparr>de_input_len = input_lens ! i, de_output_len = output_lens ! i, de_ttft = ttfts ! i,
                de_itl = itls ! i, de_error = errors ! i,
                de_start_time = (if i < length start_times then start_times ! i else VNone)\<rparr>)
       [0..<length input_lens]"

definition extract_raw_samples :: "(pyval \<Rightarrow> string) \<Rightarrow> row \<Rightarrow> condition \<Rightarrow> string \<Rightarrow> row list result" where
  "extract_raw_samples repr r condition identifier =
     bind_result (result_list r ''input_lens'') (\<lambda>input_lens.
     bind_result (result_list r ''output_lens'') (\<lambda>output_lens.
     bind_result (result_list r ''ttfts'') (\<lambda>ttfts.
     bind_result (result_list r ''itls'') (\<lambda>itls.
     bind_result (result_list r ''start_times'') (\<lambda>start_times.
     bind_result (result_list r ''errors'') (\<lambda>errors.
     bind_result (check (\<forall>vs \<in> set [output_lens, ttfts, itls, errors]. length vs = length input_lens)
       (ValueError (''vLLM detailed arrays are misaligned for '' @ identifier))) (\<lambda>_.
       map_result (sample_row repr condition identifier)
         (enumerated (details_of input_lens output_lens ttfts itls errors start_times)))))))))"

definition sanitize_upstream_result :: "(pyval \<Rightarrow> string) \<Rightarrow> row \<Rightarrow> row result" where
  "sanitize_upstream_result repr r =
     bind_result (value_iter (dget_default r ''errors'' (VList []))) (\<lambda>errors.
       Inr (dset (filter (\<lambda>(key, v). key \<noteq> ''generated_texts'') r) ''errors''
         (VList (map (\<lambda>e. opt_str (sanitize_error (str_of repr (value_or e (VStr []))))) errors))))"

section \<open>Condition rows\<close>

definition base_condition_row :: "condition \<Rightarrow> string \<Rightarrow> int \<Rightarrow> string \<Rightarrow> row result" where
  "base_condition_row condition identifier ordinal started =
     (let workload = cn_workload condition in
      bind_result (value_item workload ''name'') (\<lambda>name.
      bind_result (value_item workload ''input_tokens'') (\<lambda>input_tokens.
      bind_result (value_item workload ''output_tokens'') (\<lambda>output_tokens.
        Inr [(''schema_version'', VInt 1), (''condition_id'', VStr identifier), (''ordinal'', VInt ordinal),
          (''started_at'', VStr started), (''path'', VStr (cn_path condition)),
          (''repetition'', VInt (cn_repetition condition)), (''workload'', name),
          (''requested_input_tokens'', input_tokens), (''requested_output_tokens'', output_tokens),
          (''concurrency'', VInt (cn_concurrency condition)), (''seed'', VInt (cn_seed condition)),
          (''requested_requests'', VInt (cn_request_count condition))]))))"

definition latency_value :: "(string, limiter_latency) dict option \<Rightarrow> pyval" where
  "latency_value latencies =
     (case latencies of
        None \<Rightarrow> VNone
      | Some d \<Rightarrow> VDict (map (\<lambda>(limiter, l). (limiter, VDict
          [(''backend'', VStr (ll_backend l)), (''count'', VInt (ll_count l)),
           (''mean_ms'', opt_float (ll_mean_ms l)),
           (''p50_upper_bound_ms'', opt_float (ll_p50_upper_bound_ms l)),
           (''p95_upper_bound_ms'', opt_float (ll_p95_upper_bound_ms l)),
           (''p99_upper_bound_ms'', opt_float (ll_p99_upper_bound_ms l))])) d))"

record condition_run =
  \<comment> \<open>what the outside delivered while a condition ran\<close>
  cr_started_at :: string
  cr_return_code :: int
  cr_timed_out :: bool
  cr_stdout :: string
  cr_stderr :: string
  cr_result :: "row option"
  cr_resource_samples :: "row list"
  cr_before :: "sample_dict option"
  cr_after :: "sample_dict option"

datatype bench_write =
    LogFile string row
  | ResourceRows "row list"
  | SampleRows "row list"
  | UpstreamFile string row
  | ConditionRows "row list"

type_synonym 'a written = "bench_write list \<times> 'a result"

definition write_then :: "bench_write list \<Rightarrow> 'a written \<Rightarrow> 'a written" where
  "write_then ws w = (ws @ fst w, snd w)"

definition attempt :: "'a result \<Rightarrow> ('a \<Rightarrow> 'b written) \<Rightarrow> 'b written" where
  \<comment> \<open>an exception leaves what was written\<close>
  "attempt r f = (case r of Inl e \<Rightarrow> ([], Inl e) | Inr x \<Rightarrow> f x)"

definition completed_fields :: "row \<Rightarrow> pyval \<Rightarrow> pyval \<Rightarrow> row" where
  "completed_fields r resource_summary limiter_latency =
     [(''status'', VStr ''completed''),
      (''duration_seconds'', row_get r ''duration''),
      (''completed_requests'', row_get r ''completed''),
      (''failed_requests'', dget_default r ''failed'' (VInt 0)),
      (''request_throughput'', row_get r ''request_throughput''),
      (''output_token_throughput'', row_get r ''output_throughput''),
      (''total_token_throughput'', row_get r ''total_token_throughput''),
      (''total_input_tokens'', row_get r ''total_input_tokens''),
      (''total_output_tokens'', row_get r ''total_output_tokens''),
      (''resource_summary'', resource_summary),
      (''gateway_limiter_latency'', limiter_latency)]"

definition failed_fields :: "condition_run \<Rightarrow> pyval \<Rightarrow> row" where
  "failed_fields w resource_summary =
     [(''status'', VStr ''failed''), (''return_code'', VInt (cr_return_code w)),
      (''timed_out'', VBool (cr_timed_out w)), (''resource_summary'', resource_summary)]"

definition log_payload :: "string \<Rightarrow> string list \<Rightarrow> condition_run \<Rightarrow> row" where
  "log_payload identifier command w =
     [(''condition_id'', VStr identifier), (''command'', VList (map VStr (redact_command command))),
      (''return_code'', VInt (cr_return_code w)), (''timed_out'', VBool (cr_timed_out w)),
      (''stdout'', VStr (cr_stdout w)), (''stderr'', VStr (cr_stderr w))]"

definition mark_resources :: "string \<Rightarrow> string \<Rightarrow> row list \<Rightarrow> row list" where
  "mark_resources identifier path samples =
     map (\<lambda>s. dset (dset s ''condition_id'' (VStr identifier)) ''path'' (VStr path)) samples"

definition gateway_metrics_of :: "condition \<Rightarrow> sample_dict option \<Rightarrow> sample_dict option" where
  \<comment> \<open>the metrics are fetched around gateway conditions only\<close>
  "gateway_metrics_of condition m = (if cn_path condition = ''gateway'' then m else None)"

definition record_failure ::
  "row \<Rightarrow> condition \<Rightarrow> string \<Rightarrow> int \<Rightarrow> condition_run \<Rightarrow> row list \<Rightarrow> unit written" where
  "record_failure config condition identifier ordinal w resource_samples =
     attempt (base_condition_row condition identifier ordinal (cr_started_at w)) (\<lambda>base.
     attempt (summarize_resources resource_samples) (\<lambda>summary.
       ([ConditionRows [dict_update base (failed_fields w summary)]],
        if truthy (dget_default config ''continue_on_error'' (VBool False)) then Inr ()
        else Inl (RuntimeError (''benchmark condition failed: '' @ identifier)))))"

definition record_success ::
  "(pyval \<Rightarrow> string) \<Rightarrow> condition \<Rightarrow> string \<Rightarrow> int \<Rightarrow> condition_run \<Rightarrow> row list \<Rightarrow> row \<Rightarrow> unit written" where
  "record_success repr condition identifier ordinal w resource_samples r =
     attempt (extract_raw_samples repr r condition identifier) (\<lambda>raw_samples.
     write_then [SampleRows raw_samples]
       (attempt (sanitize_upstream_result repr r) (\<lambda>upstream.
        write_then [UpstreamFile identifier upstream]
          (attempt (base_condition_row condition identifier ordinal (cr_started_at w)) (\<lambda>base.
           attempt (summarize_resources resource_samples) (\<lambda>summary.
           attempt (limiter_latency_delta (gateway_metrics_of condition (cr_before w))
             (gateway_metrics_of condition (cr_after w))) (\<lambda>latency.
             ([ConditionRows [dict_update base (completed_fields r summary (latency_value latency))]], Inr ()))))))))"

definition run_condition ::
  "(pyval \<Rightarrow> string) \<Rightarrow> row \<Rightarrow> string \<Rightarrow> condition \<Rightarrow> int \<Rightarrow> condition_run \<Rightarrow> unit written" where
  "run_condition repr config upstream_dir condition ordinal w =
     attempt (condition_id condition) (\<lambda>identifier.
     attempt (build_vllm_command repr config condition upstream_dir (identifier @ ''.json'')) (\<lambda>command.
     let resource_samples = mark_resources identifier (cn_path condition) (cr_resource_samples w) in
     write_then [LogFile identifier (log_payload identifier command w), ResourceRows resource_samples]
       (case cr_result w of
          Some r \<Rightarrow>
            if cr_return_code w \<noteq> 0 \<or> cr_timed_out w
            then record_failure config condition identifier ordinal w resource_samples
            else record_success repr condition identifier ordinal w resource_samples r
        | None \<Rightarrow> record_failure config condition identifier ordinal w resource_samples)))"

fun run_conditions ::
  "(pyval \<Rightarrow> string) \<Rightarrow> row \<Rightarrow> string \<Rightarrow> (condition \<Rightarrow> condition_run) \<Rightarrow> (int \<times> condition) list \<Rightarrow> unit written" where
  "run_conditions repr config upstream_dir runs [] = ([], Inr ())"
| "run_conditions repr config upstream_dir runs ((ordinal, c) # rest) =
     (let (ws, r) = run_condition repr config upstream_dir c ordinal (runs c) in
      write_then ws (attempt r (\<lambda>_. run_conditions repr config upstream_dir runs rest)))"

definition run_schedule ::
  "(pyval \<Rightarrow> string) \<Rightarrow> row \<Rightarrow> string \<Rightarrow> (condition \<Rightarrow> condition_run) \<Rightarrow> unit written" where
  \<comment> \<open>the loop of \<^verbatim>\<open>run_benchmark\<close>\<close>
  "run_schedule repr config upstream_dir runs =
     attempt (build_schedule config) (\<lambda>schedule.
       run_conditions repr config upstream_dir runs (enumerated schedule))"

section \<open>Endpoint checks\<close>

definition safe_model_ids :: "pyval \<Rightarrow> string list" where
  "safe_model_ids payload =
     (case payload of
        VDict d \<Rightarrow>
          (case dget d ''data'' of
             Some (VList items) \<Rightarrow>
               List.map_filter (\<lambda>item. case item of
                   VDict entries \<Rightarrow> (case dget entries ''id'' of Some (VStr i) \<Rightarrow> Some i | _ \<Rightarrow> None)
                 | _ \<Rightarrow> None) items
           | _ \<Rightarrow> [])
      | _ \<Rightarrow> [])"

definition unavailable_endpoints :: "(string, bool) dict \<Rightarrow> unit result" where
  "unavailable_endpoints reachable =
     (let failed_checks = map fst (filter (\<lambda>(name, up). \<not> up) reachable) in
      check (failed_checks = [])
        (RuntimeError (''benchmark endpoints are unavailable: '' @ py_join '', '' failed_checks)))"

end
