(* ===== verification/BenchAccounting.thy ===== *)
theory BenchAccounting
  imports BenchRun
begin

text \<open>
  What a benchmark run records: no endpoint in a recorded error, one sample row per request of
  a result, no latency for a failed request, and one condition row per scheduled condition.
\<close>

section \<open>No endpoint in a recorded error\<close>

lemma replace_urls_unfold:
  "after_url s = Some rest \<Longrightarrow> replace_urls s = ''<endpoint>'' @ replace_urls rest"
  "after_url (c # s) = None \<Longrightarrow> replace_urls (c # s) = c # replace_urls s"
  "replace_urls [] = []"
proof -
  show "after_url s = Some rest \<Longrightarrow> replace_urls s = ''<endpoint>'' @ replace_urls rest"
    by (subst replace_urls.simps) simp
  show "after_url (c # s) = None \<Longrightarrow> replace_urls (c # s) = c # replace_urls s"
    by (subst replace_urls.simps) simp
  show "replace_urls [] = []" by (subst replace_urls.simps) (simp add: after_url_def Let_def py_startswith_def)
qed

lemma after_url_iff:
  "after_url s \<noteq> None \<longleftrightarrow>
     (\<exists>c t. (s = ''https://'' @ c # t \<or> s = ''http://'' @ c # t) \<and> \<not> py_isspace c)"
proof -
  have m: "py_startswith s p \<and> drop (length p) s \<noteq> [] \<and> \<not> py_isspace (hd (drop (length p) s)) \<longleftrightarrow>
      (\<exists>c t. s = p @ c # t \<and> \<not> py_isspace c)" for p
  proof
    assume a: "py_startswith s p \<and> drop (length p) s \<noteq> [] \<and> \<not> py_isspace (hd (drop (length p) s))"
    then have "s = p @ drop (length p) s" by (metis append_take_drop_id py_startswith_def)
    with a show "\<exists>c t. s = p @ c # t \<and> \<not> py_isspace c" by (metis list.collapse)
  qed (auto simp: py_startswith_def)
  show ?thesis
    unfolding after_url_def Let_def m by (auto split: if_splits)
qed

lemma replace_urls_kept:
  "replace_urls s = p @ t \<Longrightarrow> CHR ''<'' \<notin> set p \<Longrightarrow> \<exists>u. s = p @ u \<and> t = replace_urls u"
proof (induction p arbitrary: s)
  case (Cons c p)
  have "after_url s = None"
  proof (rule ccontr)
    assume "after_url s \<noteq> None"
    then obtain rest where "after_url s = Some rest" by blast
    then show False using Cons.prems by (simp add: replace_urls_unfold)
  qed
  then obtain s' where s: "s = c # s'" "replace_urls s' = p @ t"
    using Cons.prems by (cases s) (auto simp: replace_urls_unfold)
  from Cons.IH [OF s(2)] Cons.prems s(1) show ?case by auto
qed simp

lemma replace_urls_hd:
  assumes "replace_urls u = c # t" and "\<not> py_isspace c"
  shows "\<exists>d v. u = d # v \<and> \<not> py_isspace d"
proof (cases "after_url u")
  case None
  then show ?thesis using assms by (cases u) (auto simp: replace_urls_unfold)
next
  case (Some rest)
  then have "after_url u \<noteq> None" by simp
  then obtain d v where "u = ''https://'' @ d # v \<or> u = ''http://'' @ d # v" unfolding after_url_iff by blast
  moreover have "\<not> py_isspace (CHR ''h'')" by code_simp
  ultimately show ?thesis by auto
qed

lemma append_meets:
  "a @ r = p @ u \<Longrightarrow> (\<exists>q. p = a @ q \<and> r = q @ u) \<or> (\<exists>q. a = p @ q \<and> q \<noteq> [] \<and> u = q @ r)"
  by (auto simp: append_eq_append_conv2)

lemma replace_urls_none: "replace_urls s = p @ u \<Longrightarrow> after_url u = None"
proof (induction s arbitrary: p rule: replace_urls.induct)
  case (1 s)
  show ?case
  proof (cases "after_url s")
    case (Some rest)
    then have e: "''<endpoint>'' @ replace_urls rest = p @ u" using 1 by (simp add: replace_urls_unfold)
    from append_meets [OF this] show ?thesis
    proof (elim disjE exE conjE)
      fix q assume "replace_urls rest = q @ u"
      with "1.IH"(2) [OF Some] show ?thesis by blast
    next
      fix q assume q: "''<endpoint>'' = p @ q" "q \<noteq> []" "u = q @ replace_urls rest"
      show ?thesis
      proof (rule ccontr)
        assume "after_url u \<noteq> None"
        then have "hd u = CHR ''h''" unfolding after_url_iff by auto
        moreover have "hd u \<in> set ''<endpoint>''" unfolding q(1) using q(2,3) by simp
        ultimately show False by simp
      qed
    qed
  next
    case None
    show ?thesis
    proof (cases s)
      case Nil
      then show ?thesis using 1 by (simp add: replace_urls_unfold after_url_def Let_def py_startswith_def)
    next
      case (Cons c s')
      then have e: "c # replace_urls s' = p @ u" using 1 None by (simp add: replace_urls_unfold)
      show ?thesis
      proof (cases p)
        case (Cons c' p')
        then show ?thesis using e "1.IH"(1) [OF None] \<open>s = c # s'\<close> by simp
      next
        case Nil
        show ?thesis
        proof (rule ccontr)
          assume "after_url u \<noteq> None"
          then obtain d t q where u: "u = q @ d # t" "q = ''https://'' \<or> q = ''http://''" "\<not> py_isspace d"
            unfolding after_url_iff by blast
          have "replace_urls s = q @ d # t" using 1 Nil u(1) by simp
          moreover have "CHR ''<'' \<notin> set q" using u(2) by auto
          ultimately obtain v where v: "s = q @ v" "d # t = replace_urls v" using replace_urls_kept by blast
          obtain d' v' where "v = d' # v'" "\<not> py_isspace d'" using replace_urls_hd [OF v(2) [symmetric] u(3)] by blast
          then have "after_url s \<noteq> None" unfolding after_url_iff using u(2) v(1) by auto
          with None show False by simp
        qed
      qed
    qed
  qed
qed

definition shows_endpoint :: "string \<Rightarrow> bool" where
  "shows_endpoint s \<longleftrightarrow> list_ex (\<lambda>i. after_url (drop i s) \<noteq> None) [0..<length s]"

text \<open>
  An error message that is written to disk shows no endpoint address and has at most 500
  characters.
\<close>

theorem sanitized_error_hides:
  assumes "sanitize_error e = Some s"
  shows "\<not> shows_endpoint s \<and> length s \<le> 500"
proof -
  obtain r where r: "s = take 500 (replace_urls r)" using assms by (auto simp: sanitize_error_def split: if_splits)
  have "after_url (drop i s) = None" for i
  proof (rule ccontr)
    assume "after_url (drop i s) \<noteq> None"
    then obtain c t where "drop i s = ''https://'' @ c # t \<or> drop i s = ''http://'' @ c # t" "\<not> py_isspace c"
      unfolding after_url_iff by blast
    moreover have "drop i (replace_urls r) = drop i s @ drop (500 - i) (drop i (replace_urls r))"
      unfolding r drop_take by (rule append_take_drop_id [symmetric])
    ultimately have "after_url (drop i (replace_urls r)) \<noteq> None"
      unfolding after_url_iff by auto
    then show False using replace_urls_none [of r "take i (replace_urls r)"] by simp
  qed
  then show ?thesis using r by (simp add: shows_endpoint_def list_ex_iff)
qed
section \<open>Sample rows\<close>

definition row_of_request :: "(pyval \<Rightarrow> string) \<Rightarrow> string \<Rightarrow> int \<Rightarrow> pyval \<Rightarrow> row \<Rightarrow> bool" where
  \<comment> \<open>what a row must say of request \<open>index\<close>, whose error entry is \<open>error\<close>\<close>
  "row_of_request repr identifier index error r \<longleftrightarrow>
     row_get r ''condition_id'' = VStr identifier \<and>
     row_get r ''request_index'' = VInt index \<and>
     row_get r ''error'' = opt_str (sanitize_error (str_of repr (value_or error (VStr [])))) \<and>
     (if str_of repr (value_or error (VStr [])) = []
      then row_get r ''success'' = VBool True \<and> row_get r ''status'' = VStr ''completed''
      else row_get r ''success'' = VBool False \<and> row_get r ''status'' = VStr ''failed'' \<and>
           row_get r ''total_latency_ms'' = VNone \<and> row_get r ''ttft_ms'' = VNone \<and>
           row_get r ''tpot_ms'' = VNone \<and> row_get r ''inter_token_latency_ms'' = VList [])"

lemma sample_row_says:
  "sample_row repr condition identifier (index, d) = Inr r \<Longrightarrow>
     row_of_request repr identifier index (de_error d) r"
  apply (simp add: sample_row_def Let_def)
  apply (elim exE conjE)
  apply hypsubst
  apply (cases "str_of repr (value_or (de_error d) (VStr [])) = []")
   apply (simp_all add: row_of_request_def row_get_def dget_default_def split: option.split)
  done

theorem extract_raw_samples_rows:
  assumes "extract_raw_samples repr r condition identifier = Inr rows" and "result_list r ''errors'' = Inr errors"
  shows "length rows = length errors \<and>
    (\<forall>i < length rows. row_of_request repr identifier (int i) (errors ! i) (rows ! i))"
proof -
  from assms obtain input_lens output_lens ttfts itls start_times
    where m: "map_result (sample_row repr condition identifier)
        (enumerated (details_of input_lens output_lens ttfts itls errors start_times)) = Inr rows"
      and l: "length errors = length input_lens"
    by (auto simp: extract_raw_samples_def)
  define ds where "ds = details_of input_lens output_lens ttfts itls errors start_times"
  have ds: "length ds = length input_lens" "\<forall>i < length ds. de_error (ds ! i) = errors ! i"
    by (simp_all add: ds_def details_of_def)
  note m = m [folded ds_def]
  have len: "length rows = length ds" using map_result_Inr_length [OF m] by simp
  have "row_of_request repr identifier (int i) (errors ! i) (rows ! i)" if i: "i < length rows" for i
  proof -
    have "enumerated ds ! i = (int i, ds ! i)"
      using i len by (simp add: enumerated_def enumerate_eq_zip)
    then have "sample_row repr condition identifier (int i, ds ! i) = Inr (rows ! i)"
      using map_result_Inr_nth [OF m, of i] i len by simp
    from sample_row_says [OF this] show ?thesis using ds(2) i len by simp
  qed
  then show ?thesis using len l ds(1) by simp
qed

section \<open>A run accounts for its schedule\<close>

fun condition_rows :: "bench_write list \<Rightarrow> row list" where
  "condition_rows [] = []"
| "condition_rows (ConditionRows rows # ws) = rows @ condition_rows ws"
| "condition_rows (_ # ws) = condition_rows ws"

lemma condition_rows_append: "condition_rows (a @ b) = condition_rows a @ condition_rows b"
  by (induction a rule: condition_rows.induct) simp_all

lemma attempt_Inr: "snd (attempt r f) = Inr y \<longleftrightarrow> (\<exists>x. r = Inr x \<and> snd (f x) = Inr y)"
  by (cases r) (simp_all add: attempt_def)

lemma attempt_simps [simp]: "attempt (Inl e) f = ([], Inl e)" "attempt (Inr x) f = f x"
  by (simp_all add: attempt_def)

lemma write_then_simps [simp]: "fst (write_then ws w) = ws @ fst w" "snd (write_then ws w) = snd w"
  by (simp_all add: write_then_def)

lemma dget_dict_update: "key \<notin> set (dkeys e) \<Longrightarrow> dget (dict_update d e) key = dget d key"
  by (induction d e rule: dict_update.induct) (auto simp: dkeys_def)

lemma base_condition_row_fields:
  "base_condition_row c identifier ordinal started = Inr base \<Longrightarrow>
     dget base ''condition_id'' = Some (VStr identifier) \<and> dget base ''ordinal'' = Some (VInt ordinal)"
  by (auto simp: base_condition_row_def Let_def)

lemma dget_dict_update_first:
  "key \<notin> set (dkeys e) \<Longrightarrow> dget (dict_update d ((key, v) # e)) key = Some v"
  by (simp add: dget_dict_update)

definition continues :: "row \<Rightarrow> bool" where
  "continues config \<longleftrightarrow> truthy (dget_default config ''continue_on_error'' (VBool False))"

definition recorded_row :: "row \<Rightarrow> int \<times> condition \<Rightarrow> row \<Rightarrow> bool" where
  \<comment> \<open>a row that tells what became of the condition; a failed one only where the run continues\<close>
  "recorded_row config item r \<longleftrightarrow>
     row_get r ''ordinal'' = VInt (fst item) \<and>
     condition_id (snd item) = Inr (case row_get r ''condition_id'' of VStr i \<Rightarrow> i | _ \<Rightarrow> []) \<and>
     (row_get r ''status'' = VStr ''completed'' \<or>
      row_get r ''status'' = VStr ''failed'' \<and> continues config)"

lemma recorded_rowI:
  assumes "condition_id c = Inr identifier" and "base_condition_row c identifier ordinal started = Inr base"
    and "own = (''status'', VStr status) # rest" and "''status'' \<notin> set (dkeys rest)"
    and "''condition_id'' \<notin> set (dkeys own)" and "''ordinal'' \<notin> set (dkeys own)"
    and "status = ''completed'' \<or> status = ''failed'' \<and> continues config"
  shows "recorded_row config (ordinal, c) (dict_update base own)"
  using assms base_condition_row_fields [OF assms(2)]
  by (simp add: recorded_row_def row_get_def dget_default_def dget_dict_update del: dict_update.simps)
     (simp add: dget_dict_update_first del: dict_update.simps)

lemma record_failure_row:
  assumes "snd (record_failure config c identifier ordinal w samples) = Inr ()"
    and "condition_id c = Inr identifier"
  shows "\<exists>row. condition_rows (fst (record_failure config c identifier ordinal w samples)) = [row] \<and>
    recorded_row config (ordinal, c) row"
proof -
  obtain base summary where
    x: "base_condition_row c identifier ordinal (cr_started_at w) = Inr base"
      "summarize_resources samples = Inr summary" "continues config"
    using assms by (auto simp: record_failure_def attempt_Inr continues_def split: if_splits)
  have "recorded_row config (ordinal, c) (dict_update base (failed_fields w summary))"
    using x(3) by (intro recorded_rowI [OF assms(2) x(1) failed_fields_def]) (simp_all add: dkeys_def failed_fields_def)
  then show ?thesis by (simp add: record_failure_def x)
qed

lemma record_success_row:
  assumes "snd (record_success repr c identifier ordinal w samples r) = Inr ()"
    and "condition_id c = Inr identifier"
  shows "\<exists>row. condition_rows (fst (record_success repr c identifier ordinal w samples r)) = [row] \<and>
    recorded_row config (ordinal, c) row"
proof -
  obtain raw upstream base summary latency where
    x: "extract_raw_samples repr r c identifier = Inr raw" "sanitize_upstream_result repr r = Inr upstream"
      "base_condition_row c identifier ordinal (cr_started_at w) = Inr base"
      "summarize_resources samples = Inr summary"
      "limiter_latency_delta (gateway_metrics_of c (cr_before w)) (gateway_metrics_of c (cr_after w)) = Inr latency"
    using assms by (auto simp: record_success_def attempt_Inr)
  have "recorded_row config (ordinal, c)
      (dict_update base (completed_fields r summary (latency_value latency)))"
    by (intro recorded_rowI [OF assms(2) x(3) completed_fields_def])
       (simp_all add: dkeys_def completed_fields_def)
  then show ?thesis by (simp add: record_success_def x)
qed

lemma run_condition_row:
  assumes "snd (run_condition repr config upstream_dir c ordinal w) = Inr ()"
  shows "\<exists>row. condition_rows (fst (run_condition repr config upstream_dir c ordinal w)) = [row] \<and>
    recorded_row config (ordinal, c) row"
  using assms record_failure_row record_success_row
  by (auto simp: run_condition_def attempt_Inr Let_def condition_rows_append split: option.splits if_splits)

lemma run_conditions_rows:
  "snd (run_conditions repr config upstream_dir runs items) = Inr () \<Longrightarrow>
   list_all2 (recorded_row config) items
     (condition_rows (fst (run_conditions repr config upstream_dir runs items)))"
proof (induction items)
  case (Cons item items)
  obtain ordinal c where item: "item = (ordinal, c)" by (cases item)
  let ?w = "run_condition repr config upstream_dir c ordinal (runs c)"
  have ok: "snd ?w = Inr ()" "snd (run_conditions repr config upstream_dir runs items) = Inr ()"
    using Cons.prems by (auto simp: item split_beta attempt_Inr)
  obtain row where row: "condition_rows (fst ?w) = [row]" "recorded_row config (ordinal, c) row"
    using run_condition_row [OF ok(1)] by blast
  show ?case using row ok(1) Cons.IH [OF ok(2)] by (simp add: item split_beta condition_rows_append)
qed simp

text \<open>
  A benchmark run that returns has written exactly one row for every condition of its
  schedule, in schedule order and under the condition's own identifier; a failed condition is
  only passed over when the configuration asks for it.
\<close>

theorem run_accounts:
  assumes "run_schedule repr config upstream_dir runs = (ws, Inr ())"
  shows "\<exists>schedule. build_schedule config = Inr schedule \<and>
    list_all2 (recorded_row config) (enumerated schedule) (condition_rows ws)"
proof -
  have "snd (run_schedule repr config upstream_dir runs) = Inr ()" using assms by simp
  then obtain schedule where b: "build_schedule config = Inr schedule"
      "snd (run_conditions repr config upstream_dir runs (enumerated schedule)) = Inr ()"
    by (auto simp: run_schedule_def attempt_Inr)
  then have "ws = fst (run_conditions repr config upstream_dir runs (enumerated schedule))"
    using assms by (simp add: run_schedule_def)
  with b(1) run_conditions_rows [OF b(2)] show ?thesis by blast
qed

end
