(* ===== verification/BenchDistribution.thy ===== *)
theory BenchDistribution
  imports Interpolation
begin

text \<open>
  The distributions of the benchmark analysis exist for samples of moderate size, and their
  percentiles lie between the minimum and the maximum and grow with the percent. The integer
  square root behind the deviations is exact.
\<close>

section \<open>Integer square root\<close>

lemma isqrt_nonneg: "0 \<le> isqrt n"
proof (induction n rule: isqrt.induct)
  case (1 n)
  then show ?case by (cases "n \<le> 0") (simp_all add: isqrt.simps [of n] Let_def)
qed

lemma isqrt_bounds: "0 \<le> n \<Longrightarrow> isqrt n * isqrt n \<le> n \<and> n < (isqrt n + 1) * (isqrt n + 1)"
proof (induction n rule: isqrt.induct)
  case (1 n)
  show ?case
  proof (cases "n \<le> 0")
    case True
    with "1.prems" show ?thesis by (simp add: isqrt.simps)
  next
    case False
    let ?r = "isqrt (n div 4)"
    have IH: "?r * ?r \<le> n div 4" "n div 4 < (?r + 1) * (?r + 1)"
      using "1.IH" False by auto
    have "4 * (?r * ?r) \<le> n" using IH(1) by linarith
    moreover have "n < 4 * ((?r + 1) * (?r + 1))" using IH(2) by linarith
    ultimately have "(2 * ?r) * (2 * ?r) \<le> n" "n < (2 * ?r + 2) * (2 * ?r + 2)"
      by (simp_all add: algebra_simps)
    then show ?thesis
      using False by (auto simp: isqrt.simps [of n] Let_def algebra_simps)
  qed
qed

section \<open>The deviation exists\<close>

lemma to_f64_large:
  assumes "\<bar>x\<bar> \<le> 2 ^ 1000"
  shows "to_f64 x = Fin (round64 x)"
proof -
  have p: "pow2 1000 = 2 ^ 1000" using pow2_nat [of 1000] by simp
  have "exponent (of_int 1 * pow2 1000) \<le> 1000"
    using pow2_add [of 1000 1] pow2_pos [of 1000] by (intro exponent_le) (simp_all add: less_imp_le)
  then have "round64 (of_int 1 * pow2 1000) = of_int 1 * pow2 1000"
    by (intro round64_exact [OF refl]) (simp add: quantum_def)
  then have r: "round64 (pow2 1000) = pow2 1000" by simp
  have "\<bar>round64 x\<bar> \<le> pow2 1000"
    using round64_mono [of x "pow2 1000"] round64_mono [of "- pow2 1000" x] assms r p
    by (simp only: abs_le_iff) (simp add: p)
  also have "pow2 1000 < pow2 (1000 + 1)" using pow2_add [of 1000 1] pow2_pos [of 1000] by simp
  finally have "round64 x \<noteq> 0 \<Longrightarrow> exponent (round64 x) \<le> 1000" by (intro exponent_le)
  then show ?thesis by (auto simp: to_f64_def Let_def)
qed

lemma isqrt_le: "isqrt n \<le> max 0 n"
proof (cases "0 \<le> n")
  case True
  then have "isqrt n * isqrt n \<le> n" using isqrt_bounds by blast
  moreover have "isqrt n \<le> isqrt n * isqrt n"
  proof (cases "isqrt n = 0")
    case False
    then have "1 * isqrt n \<le> isqrt n * isqrt n"
      using isqrt_nonneg [of n] by (intro mult_right_mono) auto
    then show ?thesis by simp
  qed simp
  ultimately show ?thesis by simp
qed (simp add: isqrt.simps)

lemma isqrt_to_odd_bounds: "0 \<le> isqrt_to_odd n m" "isqrt_to_odd n m \<le> max 0 (n div m) + 1"
  using isqrt_nonneg [of "n div m"] isqrt_le [of "n div m"] by (auto simp: isqrt_to_odd_def Let_def)

lemma isqrt_to_odd_rat:
  assumes "0 < m"
  shows "rat_of_int (isqrt_to_odd n m) \<le> \<bar>of_int n / of_int m\<bar> + 1"
proof -
  have "of_int (n div m) \<le> (of_int n / of_int m :: rat)" by (metis floor_divide_of_int_eq of_int_floor_le)
  then have "of_int (n div m) \<le> \<bar>of_int n / of_int m :: rat\<bar>" by linarith
  then have "of_int (max 0 (n div m)) \<le> \<bar>of_int n / of_int m :: rat\<bar>"
    using abs_ge_zero [of "of_int n / of_int m :: rat"] by (simp only: of_int_max of_int_0 max.bounded_iff)
  moreover have "rat_of_int (isqrt_to_odd n m) \<le> of_int (max 0 (n div m) + 1)"
    using isqrt_to_odd_bounds(2) by (simp only: of_int_le_iff)
  ultimately show ?thesis by simp
qed

lemma quotient_bits:
  assumes "quotient_of x = (n, m)" and "0 < n"
  shows "x < 2 * pow2 (bit_count n - bit_count m)" "pow2 (bit_count n - bit_count m) \<le> 2 * x"
proof -
  have m: "0 < m" and x: "x = of_int n / of_int m"
    using assms(1) by (simp_all add: quotient_of_denom_pos quotient_of_div)
  note b = bit_count_bounds [OF assms(2)] bit_count_bounds [OF m]
  have "x < pow2 (bit_count n) / of_int m" unfolding x using b m by (simp add: divide_strict_right_mono)
  also have "\<dots> \<le> pow2 (bit_count n) / (pow2 (bit_count m) / 2)"
    using b m by (intro divide_left_mono) (auto simp: less_imp_le)
  finally show "x < 2 * pow2 (bit_count n - bit_count m)" by (simp add: pow2_diff mult.commute)
  have "pow2 (bit_count n) / pow2 (bit_count m) \<le> 2 * of_int n / pow2 (bit_count m)"
    using b by (simp add: divide_right_mono)
  also have "\<dots> \<le> 2 * of_int n / of_int m" using b m assms(2) by (intro divide_left_mono) (auto simp: less_imp_le)
  finally show "pow2 (bit_count n - bit_count m) \<le> 2 * x" using x by (simp add: pow2_diff)
qed

lemma num_div_small:
  assumes "\<bar>of_int a / of_int b :: rat\<bar> \<le> 2 ^ 1000" and "b \<noteq> 0"
  shows "\<exists>r. num_div (NInt a) (NInt b) = Inr (NFlt (Fin r))"
  using to_f64_large [OF assms(1)] assms(2) by simp

lemma sqrt_of_frac_total:
  assumes "x \<le> 2 ^ 200"
  shows "\<exists>r. sqrt_of_frac x = Inr (Fin r)"
proof -
  obtain n m where nm: "quotient_of x = (n, m)" by (cases "quotient_of x")
  then have m: "0 < m" and x: "x = of_int n / of_int m"
    by (simp_all add: quotient_of_denom_pos quotient_of_div)
  define \<delta> where "\<delta> = bit_count n - bit_count m"
  define q where "q = (\<delta> - 109) div 2"
  have q: "\<delta> - 110 \<le> 2 * q" "2 * q \<le> \<delta> - 109" by (simp_all add: q_def)
  have \<delta>: "0 < n \<Longrightarrow> x < 2 * pow2 \<delta>" "0 < n \<Longrightarrow> pow2 \<delta> \<le> 2 * x"
    using quotient_bits [OF nm] by (simp_all add: \<delta>_def)
  let ?a = "isqrt_to_odd n (m * 4 ^ nat q) * 2 ^ nat q" and ?b = "isqrt_to_odd (n * 4 ^ nat (- q)) m"
  have root: "sqrt_of_frac x =
      bind_result (if 0 \<le> q then num_div (NInt ?a) (NInt 1) else num_div (NInt ?b) (NInt (2 ^ nat (- q)))) num_to_float"
    by (simp only: sqrt_of_frac_def nm Let_def prod.case \<delta>_def q_def)
  have small: "rat_of_int (isqrt_to_odd a b) \<le> 2 ^ 112"
    if "\<bar>of_int a / of_int b :: rat\<bar> \<le> 2 ^ 111" "0 < b" for a b
    using isqrt_to_odd_rat [OF that(2), of a] that(1) by simp
  show ?thesis
  proof (cases "0 \<le> q")
    case True
    have n: "0 < n"
    proof (rule ccontr)
      assume "\<not> 0 < n"
      then have "bit_count n = 0" by (simp add: bit_count.simps)
      then show False using True q(2) bit_count_nonneg [of m] by (simp add: \<delta>_def)
    qed
    have "pow2 \<delta> \<le> pow2 201" using \<delta>(2) [OF n] assms pow2_nat [of 201] by simp
    then have "\<delta> \<le> 201" using pow2_mono [of 202 \<delta>] pow2_add [of 201 1] pow2_pos [of 201]
      by (cases "\<delta> \<le> 201") auto
    then have q': "nat q \<le> 46" using q(2) by simp
    have four: "rat_of_int (4 ^ nat q) = pow2 (2 * q)"
      using True by (simp add: pow2_def nat_mult_distrib power_mult)
    have "pow2 \<delta> \<le> pow2 110 * pow2 (2 * q)" using pow2_mono [of \<delta> "110 + 2 * q"] q(1) by (simp add: pow2_add)
    then have "x \<le> 2 ^ 111 * pow2 (2 * q)" using \<delta>(1) [OF n] pow2_nat [of 110] by simp
    then have "of_int n / of_int (m * 4 ^ nat q) \<le> (2 ^ 111 :: rat)"
      unfolding of_int_mult four divide_divide_eq_left [symmetric] x [symmetric]
      by (simp only: pos_divide_le_eq pow2_pos)
    then have "\<bar>of_int n / of_int (m * 4 ^ nat q) :: rat\<bar> \<le> 2 ^ 111" using n m by (simp add: abs_of_nonneg)
    then have N: "rat_of_int (isqrt_to_odd n (m * 4 ^ nat q)) \<le> 2 ^ 112" by (rule small) (use m in simp)
    have "rat_of_int (isqrt_to_odd n (m * 4 ^ nat q)) * 2 ^ nat q \<le> 2 ^ 112 * 2 ^ 46"
      using N q' isqrt_to_odd_bounds(1) [of n "m * 4 ^ nat q"] by (intro mult_mono power_increasing) auto
    then have "\<bar>rat_of_int ?a / of_int 1\<bar> \<le> 2 ^ 1000"
      using isqrt_to_odd_bounds(1) [of n "m * 4 ^ nat q"] by (simp add: abs_of_nonneg)
    from num_div_small [OF this] show ?thesis
      using True by (auto simp: root simp del: num_div.simps)
  next
    case False
    have bound: "of_int (n * 4 ^ nat (- q)) / of_int m \<le> (2 ^ 111 :: rat)" if n: "0 < n"
    proof -
      have "rat_of_int (4 ^ nat (- q)) = pow2 (- (2 * q))"
        using False by (simp add: pow2_def nat_mult_distrib [of 2 "- q", simplified] power_mult)
      moreover have "pow2 \<delta> * pow2 (- (2 * q)) \<le> pow2 110"
        using pow2_mono [of "\<delta> - 2 * q" 110] q(1) by (simp flip: pow2_add)
      moreover have "x * pow2 (- (2 * q)) \<le> 2 * pow2 \<delta> * pow2 (- (2 * q))"
        using \<delta>(1) [OF n] by (intro mult_right_mono) (auto simp: less_imp_le)
      ultimately show ?thesis using x pow2_nat [of 110] by simp
    qed
    have "rat_of_int ?b \<le> 2 ^ 112"
    proof (cases "0 < n")
      case True
      then show ?thesis using bound m by (intro small) (auto simp: abs_of_nonneg)
    next
      case False
      then have "n * 4 ^ nat (- q) div m \<le> 0" using m
        by (simp add: div_nonpos_pos_le0 mult_le_0_iff)
      then have "?b \<le> 1" using isqrt_to_odd_bounds(2) [of "n * 4 ^ nat (- q)" m] by simp
      then have "rat_of_int ?b \<le> of_int 1" by (simp only: of_int_le_iff)
      then show ?thesis by simp
    qed
    moreover have "(1 :: rat) \<le> 2 ^ nat (- q)" by simp
    moreover have "rat_of_int ?b / 2 ^ nat (- q) \<le> of_int ?b / 1"
      using isqrt_to_odd_bounds(1) by (intro divide_left_mono) auto
    ultimately have "\<bar>rat_of_int ?b / of_int (2 ^ nat (- q))\<bar> \<le> 2 ^ 1000"
      using isqrt_to_odd_bounds(1) [of "n * 4 ^ nat (- q)" m] by (simp add: abs_of_nonneg)
    from num_div_small [OF this] show ?thesis
      using False by (auto simp: root simp del: num_div.simps)
  qed
qed

section \<open>The distribution\<close>

definition samples_of :: "pyfloat list \<Rightarrow> rat list" where
  "samples_of xs = map (\<lambda>f. case f of Fin r \<Rightarrow> r | _ \<Rightarrow> 0) xs"

lemma sample_ok_Fin: "sample_ok f \<Longrightarrow> Fin (case f of Fin r \<Rightarrow> r | _ \<Rightarrow> 0) = f"
  by (cases f) auto

lemma samples_of_Fin: "\<forall>f \<in> set xs. sample_ok f \<Longrightarrow> map Fin (samples_of xs) = xs"
  by (induction xs) (simp_all add: samples_of_def sample_ok_Fin)

lemma samples_of_set:
  assumes "\<forall>f \<in> set xs. sample_ok f" and "r \<in> set (samples_of xs)"
  shows "round64 r = r" "\<bar>r\<bar> \<le> 2 ^ 50"
  using assms by (auto simp: samples_of_def elim!: sample_okE dest!: bspec)

lemma sorted_samples_of:
  assumes "\<forall>f \<in> set xs. sample_ok f" and "sorted xs"
  shows "sorted (samples_of xs)"
proof -
  have "sorted (map Fin (samples_of xs))" using assms by (simp add: samples_of_Fin)
  then show ?thesis by (simp add: sorted_map less_eq_pyfloat_def)
qed

definition percentile_value :: "rat list \<Rightarrow> int \<Rightarrow> rat" where
  "percentile_value rs percent = (if length rs = 1 then hd rs else percent_value rs percent)"

lemma bench_percentile_value:
  assumes ok: "\<forall>f \<in> set xs. sample_ok f" and n: "xs \<noteq> []" "int (length xs) \<le> 2 ^ 40"
    and p: "0 \<le> percent" "percent \<le> 99"
  shows "bench_percentile xs percent = Inr (Some (Fin (percentile_value (samples_of (sort xs)) percent)))"
proof -
  let ?rs = "samples_of (sort xs)"
  have s: "sort xs = map Fin ?rs" using ok by (simp add: samples_of_Fin)
  have l: "length ?rs = length xs" by (simp add: samples_of_def)
  show ?thesis
  proof (cases "length xs = 1")
    case True
    then have "hd (sort xs) = Fin (hd ?rs)" using l by (subst s) (cases ?rs; simp)
    then show ?thesis using True l n(1) by (simp add: bench_percentile_def Let_def percentile_value_def)
  next
    case False
    then have "2 \<le> length ?rs" using n(1) l by (cases xs) (auto simp: Suc_le_eq)
    moreover have "\<forall>r \<in> set ?rs. \<bar>r\<bar> \<le> 2 ^ 50" using samples_of_set(2) [of "sort xs"] ok by auto
    ultimately have "interpolate (sort xs) percent = Inr (Fin (percent_value ?rs percent))"
      using n(2) l p by (subst s) (intro interpolate_value, auto)
    then show ?thesis using False n(1) l by (simp add: bench_percentile_def Let_def percentile_value_def)
  qed
qed

lemma percent_value_segment:
  assumes rs: "sorted rs" "\<forall>r \<in> set rs. round64 r = r" and n: "2 \<le> length rs" "int (length rs) \<le> 2 ^ 40"
    and p: "0 \<le> percent" "percent \<le> 99"
  shows "rs ! percent_rank (length rs) percent \<le> percent_value rs percent"
    "percent_value rs percent \<le> rs ! (percent_rank (length rs) percent + 1)"
proof -
  let ?l = "percent_rank (length rs) percent"
  have l: "?l + 1 < length rs" using n p by (intro percent_product(4))
  then have "rs ! ?l \<le> rs ! (?l + 1)" using rs(1) by (intro sorted_nth_mono) auto
  then show "rs ! ?l \<le> percent_value rs percent" "percent_value rs percent \<le> rs ! (?l + 1)"
    using segment_between [OF _ _ _ percent_weight_bounds [OF n p]] rs(2) l
    by (simp_all add: percent_value_def Let_def)
qed

lemma percentile_value_bounds:
  assumes rs: "sorted rs" "\<forall>r \<in> set rs. round64 r = r" and n: "rs \<noteq> []" "int (length rs) \<le> 2 ^ 40"
    and p: "0 \<le> percent" "percent \<le> 99"
  shows "hd rs \<le> percentile_value rs percent" "percentile_value rs percent \<le> last rs"
proof -
  have "hd rs \<le> percentile_value rs percent \<and> percentile_value rs percent \<le> last rs"
  proof (cases "length rs = 1")
    case True
    then show ?thesis by (cases rs) (auto simp: percentile_value_def)
  next
    case False
    then have n2: "2 \<le> length rs" using n(1) by (cases rs) (auto simp: Suc_le_eq)
    let ?l = "percent_rank (length rs) percent"
    have l: "?l + 1 < length rs" using n2 n(2) p by (intro percent_product(4))
    have "hd rs \<le> rs ! ?l" using rs(1) l n(1) by (simp add: hd_conv_nth sorted_nth_mono)
    moreover have "rs ! (?l + 1) \<le> last rs" using rs(1) l n(1) by (simp add: last_conv_nth sorted_nth_mono)
    ultimately show ?thesis
      using percent_value_segment [OF rs n2 n(2) p] False by (simp add: percentile_value_def)
  qed
  then show "hd rs \<le> percentile_value rs percent" "percentile_value rs percent \<le> last rs" by simp_all
qed

lemma percentile_value_mono:
  assumes rs: "sorted rs" "\<forall>r \<in> set rs. round64 r = r" and n: "rs \<noteq> []" "int (length rs) \<le> 2 ^ 40"
    and p: "0 \<le> percent" "percent \<le> percent'" "percent' \<le> 99"
  shows "percentile_value rs percent \<le> percentile_value rs percent'"
proof (cases "length rs = 1")
  case False
  then have n2: "2 \<le> length rs" using n(1) by (cases rs) (auto simp: Suc_le_eq)
  define m m' where "m = (int (length rs) - 1) * percent" and "m' = (int (length rs) - 1) * percent'"
  have m: "m \<le> m'" unfolding m_def m'_def using p n2 by (intro mult_left_mono) auto
  let ?l = "percent_rank (length rs) percent" and ?l' = "percent_rank (length rs) percent'"
  have l: "?l = nat (m div 100)" "?l' = nat (m' div 100)" by (simp_all add: percent_rank_def m_def m'_def)
  have "m div 100 \<le> m' div 100" using m by (rule zdiv_mono1) simp
  have p': "percent \<le> 99" "0 \<le> percent'" using p by simp_all
  note l1 = percent_product(4) [OF n2 n(2) p(1) p'(1)] percent_product(4) [OF n2 n(2) p'(2) p(3)]
  have "percent_value rs percent \<le> percent_value rs percent'"
  proof (cases "m div 100 = m' div 100")
    case True
    have "rat_of_int m \<le> of_int m'" using m by (simp only: of_int_le_iff)
    then have "round64 (of_int m / 100) \<le> round64 (of_int m' / 100)" by (intro round64_mono) simp
    then have "percent_weight (length rs) percent \<le> percent_weight (length rs) percent'"
      unfolding percent_weight_def m_def [symmetric] m'_def [symmetric] True
      by (intro round64_mono) simp
    moreover have "rs ! ?l \<le> rs ! (?l + 1)" using rs(1) l1(1) by (intro sorted_nth_mono) auto
    moreover have "?l = ?l'" using l True by simp
    ultimately show ?thesis by (simp add: percent_value_def Let_def segment_mono)
  next
    case False
    moreover have "0 \<le> m" unfolding m_def by (rule percent_product(1) [OF n2 n(2) p(1) p'(1)])
    then have "0 \<le> m div 100" by simp
    ultimately have "?l + 1 \<le> ?l'" using \<open>m div 100 \<le> m' div 100\<close> l by linarith
    then have "rs ! (?l + 1) \<le> rs ! ?l'" using rs(1) l1(2) by (intro sorted_nth_mono) auto
    then show ?thesis
      using percent_value_segment(2) [OF rs n2 n(2) p(1) p'(1)]
        percent_value_segment(1) [OF rs n2 n(2) p'(2) p(3)] by linarith
  qed
  then show ?thesis using False by (simp add: percentile_value_def)
qed (simp add: percentile_value_def)

text \<open>The least and the greatest number, as Python folds them.\<close>

lemma list_fmin_hd: "xs \<noteq> [] \<Longrightarrow> NaN \<notin> set xs \<Longrightarrow> list_fmin xs = hd (sort xs)"
proof -
  assume xs: "xs \<noteq> []" "NaN \<notin> set xs"
  have fold_min: "foldl (\<lambda>m x. if flt x m then x else m) y ys = fold min ys y"
    if "NaN \<notin> set ys" "y \<noteq> NaN" for ys y
    using that
  proof (induction ys arbitrary: y)
    case (Cons z ys)
    then have "(if flt z y then z else y) = min z y" by (auto simp: min_def not_le pyfloat_less_flt [symmetric])
    then show ?case using Cons by (auto simp: min_def)
  qed simp
  have "list_fmin xs = Min (set xs)"
    using xs fold_min [of "tl xs" "hd xs"]
    by (cases xs) (auto simp: list_fmin_def simp flip: Min.set_eq_fold)
  also have "Min (set xs) = hd (sort xs)"
  proof (rule Min_eqI)
    have ne: "sort xs \<noteq> []" using xs by simp
    then show "hd (sort xs) \<in> set xs" using hd_in_set [OF ne] by simp
    show "hd (sort xs) \<le> y" if "y \<in> set xs" for y
      using that ne sorted_sort [of xs] by (metis hd_Cons_tl set_ConsD set_sort sorted_simps(2) order_refl)
  qed simp
  finally show ?thesis .
qed

lemma list_fmax_last: "xs \<noteq> [] \<Longrightarrow> NaN \<notin> set xs \<Longrightarrow> list_fmax xs = last (sort xs)"
proof -
  assume xs: "xs \<noteq> []" "NaN \<notin> set xs"
  have fold_max: "foldl (\<lambda>m x. if flt m x then x else m) y ys = fold max ys y"
    if "NaN \<notin> set ys" "y \<noteq> NaN" for ys y
    using that
  proof (induction ys arbitrary: y)
    case (Cons z ys)
    then have "(if flt y z then z else y) = max z y" by (auto simp: max_def not_le pyfloat_less_flt [symmetric])
    then show ?case using Cons by (auto simp: max_def)
  qed simp
  have "list_fmax xs = Max (set xs)"
    using xs fold_max [of "tl xs" "hd xs"]
    by (cases xs) (auto simp: list_fmax_def simp flip: Max.set_eq_fold)
  also have "Max (set xs) = last (sort xs)"
  proof (rule Max_eqI)
    have ne: "sort xs \<noteq> []" using xs by simp
    then show "last (sort xs) \<in> set xs" using last_in_set [OF ne] by simp
    show "y \<le> last (sort xs)" if "y \<in> set xs" for y
    proof -
      from that obtain i where "i < length (sort xs)" "y = sort xs ! i" by (metis in_set_conv_nth set_sort)
      then show ?thesis using ne by (auto simp: last_conv_nth intro: sorted_nth_mono)
    qed
  qed simp
  finally show ?thesis .
qed

lemma sum_list_bound:
  assumes "\<forall>r \<in> set rs. \<bar>r\<bar> \<le> (b :: rat)"
  shows "\<bar>sum_list rs\<bar> \<le> of_nat (length rs) * b"
  using assms
proof (induction rs)
  case (Cons r rs)
  have "\<bar>r + sum_list rs\<bar> \<le> \<bar>r\<bar> + \<bar>sum_list rs\<bar>" by (rule abs_triangle_ineq)
  then show ?case using Cons by (simp add: algebra_simps)
qed simp

lemma fmean_total:
  assumes ok: "\<forall>f \<in> set xs. sample_ok f" and n: "xs \<noteq> []" "int (length xs) \<le> 2 ^ 40"
  shows "\<exists>m. fmean xs = Inr m"
proof -
  have "f \<noteq> PosInf \<and> f \<noteq> NegInf \<and> f \<noteq> NaN" if "f \<in> set xs" for f using ok that by (cases f) auto
  then have special: "PosInf \<notin> set xs" "NegInf \<notin> set xs" "NaN \<notin> set xs" by blast+
  have "\<bar>sum_list (samples_of xs)\<bar> \<le> of_nat (length (samples_of xs)) * 2 ^ 50"
    using samples_of_set(2) [OF ok] by (intro sum_list_bound) auto
  moreover have "rat_of_int (int (length xs)) \<le> of_int (2 ^ 40)" using n(2) by (simp only: of_int_le_iff)
  ultimately have "\<bar>sum_list (samples_of xs)\<bar> \<le> 2 ^ 1000" by (simp add: samples_of_def)
  then have "fsum xs = Inr (Fin (round64 (sum_list (samples_of xs))))"
    using special by (simp add: fsum_def to_f64_large samples_of_def)
  then show ?thesis using n by (simp add: fmean_def int_to_float_small)
qed

lemma pstdev_total:
  assumes ok: "\<forall>f \<in> set xs. sample_ok f" and n: "xs \<noteq> []"
  shows "\<exists>s. pstdev xs = Inr (Fin s)"
proof -
  let ?rs = "samples_of xs"
  have "(case f of Fin r \<Rightarrow> Inr r | _ \<Rightarrow> Inl (TypeError ''float object has no attribute numerator'')) =
      (Inr (case f of Fin r \<Rightarrow> r | _ \<Rightarrow> 0) :: rat result)" if "f \<in> set xs" for f
    using ok that by (cases f) auto
  then have ex: "exact_floats xs = Inr ?rs"
    unfolding exact_floats_def samples_of_def by (intro map_result_total)
  let ?n = "rat_of_nat (length ?rs)" and ?s = "sum_list ?rs" and ?ss = "sum_list (map (\<lambda>r. r * r) ?rs)"
  have n0: "1 \<le> ?n" using n by (cases xs) (simp_all add: samples_of_def)
  have "\<forall>x \<in> set (map (\<lambda>r. r * r) ?rs). \<bar>x\<bar> \<le> 2 ^ 50 * 2 ^ 50"
    using samples_of_set(2) [OF ok] by (auto simp only: set_map abs_mult intro!: mult_mono) simp_all
  from sum_list_bound [OF this] have "?ss \<le> ?n * (2 ^ 50 * 2 ^ 50)" by (simp add: abs_le_iff)
  moreover have "0 < ?n" using n0 by linarith
  ultimately have mean_square: "?ss / ?n \<le> 2 ^ 50 * 2 ^ 50" by (simp only: pos_divide_le_eq mult.commute)
  have "(?n * ?ss - ?s * ?s) / ?n / ?n \<le> (?n * ?ss) / ?n / ?n"
    using n0 by (intro divide_right_mono) auto
  also have "\<dots> = ?ss / ?n" using n0 by simp
  also note mean_square
  also have "(2 ^ 50 * 2 ^ 50 :: rat) \<le> 2 ^ 200" by simp
  finally have "(?n * ?ss - ?s * ?s) / ?n / ?n \<le> 2 ^ 200" .
  then obtain r where "sqrt_of_frac ((?n * ?ss - ?s * ?s) / ?n / ?n) = Inr (Fin r)"
    using sqrt_of_frac_total by blast
  then show ?thesis using ex by (auto simp: pstdev_def Let_def)
qed

lemma fround_mono: "a \<le> b \<Longrightarrow> fle (fround n (Fin a)) (fround n (Fin b))"
  by (auto intro!: to_f64_mono divide_right_mono round_half_even_mono mult_right_mono)

definition ordered_floats :: "pyfloat option list \<Rightarrow> bool" where
  "ordered_floats fs \<longleftrightarrow> None \<notin> set fs \<and> sorted_wrt fle (map the fs)"

text \<open>
  C34: The distribution of a non-empty list of moderate numbers exists, counts all of them, and
  its minimum, median, 95th and 99th percentiles and maximum are in order, in spite of
  interpolation and rounding in floats.
\<close>

theorem distribution_ordered:
  assumes ok: "\<forall>f \<in> set xs. sample_ok f" and n: "xs \<noteq> []" "int (length xs) \<le> 2 ^ 40"
  shows "\<exists>d. distribution_of xs = Inr d \<and> di_count d = int (length xs) \<and>
    ordered_floats [di_min d, di_p50 d, di_p95 d, di_p99 d, di_max d]"
proof -
  let ?s = "sort xs"
  let ?rs = "samples_of ?s"
  have ok': "\<forall>f \<in> set ?s. sample_ok f" using ok by simp
  have nan: "NaN \<notin> set xs" using ok by auto
  have s: "?s = map Fin ?rs" using samples_of_Fin [OF ok'] by simp
  have ne: "?rs \<noteq> []" using n(1) by (simp add: samples_of_def)
  have l: "int (length ?rs) \<le> 2 ^ 40" using n(2) by (simp add: samples_of_def)
  have rs: "sorted ?rs" "\<forall>r \<in> set ?rs. round64 r = r"
    using sorted_samples_of [OF ok'] samples_of_set(1) [OF ok'] by auto
  have ends: "list_fmin xs = Fin (hd ?rs)" "list_fmax xs = Fin (last ?rs)"
    using list_fmin_hd [OF n(1) nan] list_fmax_last [OF n(1) nan] ne
    by (metis s list.map_sel(1), metis s last_map)
  obtain mean sd where "fmean xs = Inr mean" "pstdev xs = Inr (Fin sd)"
    using fmean_total [OF ok n] pstdev_total [OF ok n(1)] by blast
  moreover have pv: "bench_percentile xs p = Inr (Some (Fin (percentile_value ?rs p)))"
    if "p \<in> {50, 95, 99}" for p using that by (intro bench_percentile_value [OF ok n]) auto
  ultimately obtain d where d: "distribution_of xs = Inr d" "di_count d = int (length xs)"
      "di_min d = Some (fround 6 (Fin (hd ?rs)))" "di_max d = Some (fround 6 (Fin (last ?rs)))"
      "di_p50 d = Some (fround 6 (Fin (percentile_value ?rs 50)))"
      "di_p95 d = Some (fround 6 (Fin (percentile_value ?rs 95)))"
      "di_p99 d = Some (fround 6 (Fin (percentile_value ?rs 99)))"
    using n(1) by (simp add: distribution_of_def ends rounded_float_def del: fround.simps)
  have "hd ?rs \<le> percentile_value ?rs 50" "percentile_value ?rs 99 \<le> last ?rs"
    using percentile_value_bounds [OF rs ne l, of 50] percentile_value_bounds [OF rs ne l, of 99] by simp_all
  moreover have "percentile_value ?rs 50 \<le> percentile_value ?rs 95" "percentile_value ?rs 95 \<le> percentile_value ?rs 99"
    using percentile_value_mono [OF rs ne l] by simp_all
  ultimately have "sorted [hd ?rs, percentile_value ?rs 50, percentile_value ?rs 95, percentile_value ?rs 99, last ?rs]"
    by simp
  then have "sorted_wrt fle (map (\<lambda>r. fround 6 (Fin r))
      [hd ?rs, percentile_value ?rs 50, percentile_value ?rs 95, percentile_value ?rs 99, last ?rs])"
    unfolding sorted_wrt_map by (rule sorted_wrt_mono_rel [rotated]) (simp only: fround_mono)
  then show ?thesis using d by (simp add: ordered_floats_def del: fround.simps)
qed

end
