(* ===== verification/BenchGroups.thy ===== *)
theory BenchGroups
  imports BenchResources "HOL-Library.Product_Lexorder"
begin

text \<open>
  \<^verbatim>\<open>bench/analyze.py\<close>, the first half: the samples, conditions and resource rows of a run,
  grouped by path, workload and concurrency, and the summary of each group. The rows are the
  ones \<^verbatim>\<open>run.py\<close> writes: their keys are strings, and any other value there is a
  \<open>TypeError\<close> of the model.
\<close>

section \<open>Rows under keys\<close>

definition append_at :: "('k, 'a list) dict \<Rightarrow> 'k \<times> 'a \<Rightarrow> ('k, 'a list) dict" where
  \<comment> \<open>\<^verbatim>\<open>index[key].append(row)\<close> of a \<^verbatim>\<open>defaultdict(list)\<close>\<close>
  "append_at d kx = dset d (fst kx) (dget_default d (fst kx) [] @ [snd kx])"

definition index_by :: "('k \<times> 'a) list \<Rightarrow> ('k, 'a list) dict" where
  "index_by kxs = foldl append_at [] kxs"

definition keyed :: "('a \<Rightarrow> 'k result) \<Rightarrow> 'a list \<Rightarrow> ('k \<times> 'a) list result" where
  "keyed key xs = map_result (\<lambda>x. bind_result (key x) (\<lambda>k. Inr (k, x))) xs"

definition row_text :: "row \<Rightarrow> string \<Rightarrow> string result" where
  "row_text r key =
     bind_result (dict_item r key) (\<lambda>v.
       case v of VStr s \<Rightarrow> Inr s | _ \<Rightarrow> Inl (TypeError ''not a string''))"

definition row_count :: "row \<Rightarrow> string \<Rightarrow> int result" where
  \<comment> \<open>\<^verbatim>\<open>int(row.get(key) or 0)\<close>\<close>
  "row_count r key = value_to_int (value_or (row_get r key) (VInt 0))"

definition row_seconds :: "row \<Rightarrow> string \<Rightarrow> pyfloat result" where
  \<comment> \<open>\<^verbatim>\<open>float(row.get(key) or 0)\<close>\<close>
  "row_seconds r key = value_to_float (value_or (row_get r key) (VInt 0))"

definition count_sum :: "string \<Rightarrow> row list \<Rightarrow> int result" where
  "count_sum key rows = bind_result (map_result (\<lambda>r. row_count r key) rows) (\<lambda>ns. Inr (sum_list ns))"

type_synonym group_id = "string \<times> string \<times> int"

definition group_key :: "row \<Rightarrow> group_id result" where
  "group_key r =
     bind_result (row_text r ''path'') (\<lambda>path.
     bind_result (row_text r ''workload'') (\<lambda>workload.
     bind_result (bind_result (dict_item r ''concurrency'') value_to_int) (\<lambda>concurrency.
       Inr (path, workload, concurrency))))"

definition index_conditions :: "row list \<Rightarrow> (string, row) dict result" where
  \<comment> \<open>\<^verbatim>\<open>{row["condition_id"]: row for row in conditions}\<close>\<close>
  "index_conditions conditions =
     bind_result (keyed (\<lambda>r. row_text r ''condition_id'') conditions) (\<lambda>krs.
       Inr (foldl (\<lambda>d (k, r). dset d k r) [] krs))"

definition condition_of :: "(string, row) dict \<Rightarrow> pyval \<Rightarrow> row option result" where
  \<comment> \<open>\<^verbatim>\<open>condition_by_id.get(identifier)\<close>\<close>
  "condition_of conditions identifier =
     (case identifier of
        VStr s \<Rightarrow> Inr (dget conditions s)
      | v \<Rightarrow> bind_result (check (hashable v) (TypeError ''unhashable type'')) (\<lambda>_. Inr None))"

definition resource_entries :: "(string, row) dict \<Rightarrow> row list \<Rightarrow> (group_id \<times> row) list result" where
  "resource_entries conditions resources =
     concat_result (\<lambda>r.
       bind_result (condition_of conditions (row_get r ''condition_id'')) (\<lambda>c.
         case c of None \<Rightarrow> Inr [] | Some condition \<Rightarrow> bind_result (group_key condition) (\<lambda>k. Inr [(k, r)])))
     resources"

section \<open>Resources of a group\<close>

record process_summary =
  ps_cpu_percent :: distribution
  ps_rss_bytes :: distribution

record resource_group =
  rg_sample_count :: int
  rg_system_cpu_percent :: distribution
  rg_system_memory_used_bytes :: distribution
  rg_gpu_utilization_percent :: distribution
  rg_gpu_memory_used_mib :: distribution
  rg_processes :: "(string, process_summary) dict"

definition column :: "string \<Rightarrow> row list \<Rightarrow> distribution result" where
  \<comment> \<open>\<^verbatim>\<open>distribution(row.get(key) for row in rows)\<close>\<close>
  "column key rows = distribution_values (map (\<lambda>r. row_get r key) rows)"

definition process_summary_of :: "row list \<Rightarrow> string \<Rightarrow> (string \<times> process_summary) result" where
  "process_summary_of processes name =
     bind_result (samples_of_process processes name) (\<lambda>samples.
     bind_result (column ''cpu_percent'' samples) (\<lambda>cpu.
     bind_result (column ''rss_bytes'' samples) (\<lambda>rss.
       Inr (name, \<lparr>ps_cpu_percent = cpu, ps_rss_bytes = rss\<rparr>))))"

definition summarize_processes :: "row list \<Rightarrow> (string, process_summary) dict result" where
  "summarize_processes rows =
     bind_result (process_rows rows) (\<lambda>processes.
       map_result (process_summary_of processes) (process_names processes))"

definition summarize_resource_group :: "row list \<Rightarrow> resource_group result" where
  "summarize_resource_group rows =
     bind_result (gpu_rows rows) (\<lambda>gpus.
     bind_result (column ''system_cpu_percent'' rows) (\<lambda>cpu.
     bind_result (column ''system_memory_used_bytes'' rows) (\<lambda>memory.
     bind_result (column ''utilization_percent'' gpus) (\<lambda>utilization.
     bind_result (column ''memory_used_mib'' gpus) (\<lambda>gpu_memory.
     bind_result (summarize_processes rows) (\<lambda>processes.
       Inr \<lparr>rg_sample_count = int (length rows), rg_system_cpu_percent = cpu,
            rg_system_memory_used_bytes = memory, rg_gpu_utilization_percent = utilization,
            rg_gpu_memory_used_mib = gpu_memory, rg_processes = processes\<rparr>))))))"

section \<open>Limiter latency of a group\<close>

record combined_latency =
  cl_backend :: pyval
  cl_count :: int
  cl_mean_ms :: "pyfloat option"
  cl_p50_upper_bound_ms :: "pyfloat option"
  cl_p95_upper_bound_ms :: "pyfloat option"
  cl_p99_upper_bound_ms :: "pyfloat option"

definition observed_rows :: "row list \<Rightarrow> row list result" where
  \<comment> \<open>the rows that counted anything\<close>
  "observed_rows rows =
     bind_result (keyed (\<lambda>r. row_count r ''count'') rows) (\<lambda>krs.
       Inr (map snd (filter (\<lambda>(n, r). 0 < n) krs)))"

definition conservative_max_bound :: "row list \<Rightarrow> string \<Rightarrow> pyfloat option result" where
  "conservative_max_bound rows key =
     bind_result (observed_rows rows) (\<lambda>observed.
       if observed = [] \<or> list_ex (\<lambda>r. row_get r key = VNone) observed then Inr None
       else bind_result (map_result (\<lambda>r. value_to_float (row_get r key)) observed) (\<lambda>bounds.
         Inr (Some (list_fmax bounds))))"

definition weighted_mean :: "row \<Rightarrow> pyfloat result" where
  "weighted_mean r =
     bind_result (row_seconds r ''mean_ms'') (\<lambda>mean.
     bind_result (row_count r ''count'') (\<lambda>n.
     bind_result (int_to_float n) (\<lambda>x. Inr (fmul mean x))))"

definition combine_rows :: "row list \<Rightarrow> combined_latency result" where
  "combine_rows rows =
     bind_result (count_sum ''count'' rows) (\<lambda>n.
     bind_result (map_result weighted_mean rows) (\<lambda>weighted.
     bind_result
       (if n = 0 then Inr None
        else bind_result (int_to_float n) (\<lambda>x.
          bind_result (fdiv (float_sum weighted) x) (\<lambda>m. Inr (Some (fround 6 m))))) (\<lambda>mean.
     bind_result (conservative_max_bound rows ''p50_upper_bound_ms'') (\<lambda>p50.
     bind_result (conservative_max_bound rows ''p95_upper_bound_ms'') (\<lambda>p95.
     bind_result (conservative_max_bound rows ''p99_upper_bound_ms'') (\<lambda>p99.
       Inr \<lparr>cl_backend = row_get (hd rows) ''backend'', cl_count = n, cl_mean_ms = mean,
            cl_p50_upper_bound_ms = p50, cl_p95_upper_bound_ms = p95, cl_p99_upper_bound_ms = p99\<rparr>))))))"

definition limiter_entries :: "row list \<Rightarrow> (string \<times> row) list result" where
  "limiter_entries conditions =
     concat_result (\<lambda>c.
       bind_result (value_items (value_or (row_get c ''gateway_limiter_latency'') (VDict []))) (\<lambda>items.
         map_result (\<lambda>(name, v). bind_result (value_items v) (\<lambda>r. Inr (name, r))) items))
     conditions"

definition combine_limiter_latency :: "row list \<Rightarrow> (string, combined_latency) dict option result" where
  "combine_limiter_latency conditions =
     bind_result (limiter_entries conditions) (\<lambda>entries.
       if entries = [] then Inr None
       else bind_result
         (map_result (\<lambda>(name, rows). bind_result (combine_rows rows) (\<lambda>c. Inr (name, c))) (index_by entries))
         (\<lambda>d. Inr (Some d)))"

section \<open>Groups\<close>

record run_variation =
  rv_p50_latency_stddev_ms :: "pyfloat option"
  rv_p95_latency_stddev_ms :: "pyfloat option"
  rv_request_throughput_stddev :: "pyfloat option"

record sample_group =
  sg_path :: string
  sg_workload :: string
  sg_concurrency :: int
  sg_repetitions :: int
  sg_requests :: int
  sg_completed_requests :: int
  sg_failed_requests :: int
  sg_error_rate :: pyfloat
  sg_request_throughput :: "pyfloat option"
  sg_output_token_throughput :: "pyfloat option"
  sg_total_token_throughput :: "pyfloat option"
  sg_latency_ms :: distribution
  sg_ttft_ms :: distribution
  sg_tpot_ms :: distribution
  sg_itl_ms :: distribution
  sg_prompt_tokens :: distribution
  sg_completion_tokens :: distribution
  sg_run_variation :: run_variation
  sg_resources :: resource_group
  sg_gateway_limiter_latency :: "(string, combined_latency) dict option"

definition successful_rows :: "row list \<Rightarrow> row list" where
  "successful_rows rows = filter (\<lambda>r. truthy (row_get r ''success'')) rows"

definition rate_per_second :: "int \<Rightarrow> pyfloat \<Rightarrow> pyfloat option result" where
  \<comment> \<open>\<^verbatim>\<open>round(amount / duration, 6) if duration else None\<close>\<close>
  "rate_per_second amount duration =
     (if feq duration (Fin 0) then Inr None
      else bind_result (int_to_float amount) (\<lambda>x.
        bind_result (fdiv x duration) (\<lambda>q. Inr (Some (fround 6 q)))))"

definition error_rate_of :: "int \<Rightarrow> int \<Rightarrow> pyfloat result" where
  "error_rate_of completed failed =
     bind_result (num_div (NInt failed) (NInt (max (completed + failed) 1))) (\<lambda>q.
     bind_result (num_to_float q) (\<lambda>f. Inr (fround 8 f)))"

definition run_percentiles :: "row list \<Rightarrow> (pyfloat option \<times> pyfloat option) result" where
  "run_percentiles rows =
     bind_result (map_result (\<lambda>r. dict_item r ''total_latency_ms'') rows) (\<lambda>latencies.
     bind_result (map_result value_to_float latencies) (\<lambda>numbers.
     bind_result (bench_percentile numbers 50) (\<lambda>p50.
     bind_result (bench_percentile numbers 95) (\<lambda>p95. Inr (p50, p95)))))"

definition run_throughput :: "(string, row) dict \<Rightarrow> string \<Rightarrow> pyfloat option result" where
  "run_throughput conditions identifier =
     (let condition = dget_default conditions identifier [] in
      if row_get condition ''request_throughput'' = VNone then Inr None
      else bind_result (value_to_float (row_get condition ''request_throughput'')) (\<lambda>f. Inr (Some f)))"

definition run_variation_of :: "(string, row) dict \<Rightarrow> row list \<Rightarrow> run_variation result" where
  "run_variation_of conditions successful =
     bind_result (keyed (\<lambda>r. row_text r ''condition_id'') successful) (\<lambda>krs.
     let by_condition = index_by krs in
     bind_result (map_result (\<lambda>(k, rows). run_percentiles rows) by_condition) (\<lambda>runs.
     bind_result (map_result (\<lambda>(k, rows). run_throughput conditions k) by_condition) (\<lambda>throughputs.
     bind_result (population_stddev (map fst runs)) (\<lambda>p50.
     bind_result (population_stddev (map snd runs)) (\<lambda>p95.
     bind_result (population_stddev throughputs) (\<lambda>throughput.
       Inr \<lparr>rv_p50_latency_stddev_ms = p50, rv_p95_latency_stddev_ms = p95,
            rv_request_throughput_stddev = throughput\<rparr>))))))"

definition inter_token_values :: "row list \<Rightarrow> pyval list result" where
  "inter_token_values rows =
     concat_result (\<lambda>r. value_iter (dget_default r ''inter_token_latency_ms'' (VList []))) rows"

definition summarize_group ::
  "(string, row) dict \<Rightarrow> (group_id, row list) dict \<Rightarrow> (group_id, row list) dict \<Rightarrow>
     group_id \<times> row list \<Rightarrow> sample_group result" where
  "summarize_group conditions condition_groups resource_groups item =
     (let (key, rows) = item;
          (path, workload, concurrency) = key;
          successful = successful_rows rows;
          condition_rows = dget_default condition_groups key []
      in bind_result (map_result (\<lambda>r. row_seconds r ''duration_seconds'') condition_rows) (\<lambda>durations.
         let duration = float_sum durations in
         bind_result (count_sum ''completed_requests'' condition_rows) (\<lambda>completed.
         bind_result (count_sum ''failed_requests'' condition_rows) (\<lambda>failed.
         bind_result (count_sum ''total_output_tokens'' condition_rows) (\<lambda>output_tokens.
         bind_result (count_sum ''total_input_tokens'' condition_rows) (\<lambda>input_tokens.
         bind_result (run_variation_of conditions successful) (\<lambda>variation.
         bind_result (combine_limiter_latency condition_rows) (\<lambda>limiter.
         bind_result (error_rate_of completed failed) (\<lambda>error_rate.
         bind_result (rate_per_second completed duration) (\<lambda>request_throughput.
         bind_result (rate_per_second output_tokens duration) (\<lambda>output_throughput.
         bind_result (rate_per_second (output_tokens + input_tokens) duration) (\<lambda>token_throughput.
         bind_result (column ''total_latency_ms'' successful) (\<lambda>latency.
         bind_result (column ''ttft_ms'' successful) (\<lambda>ttft.
         bind_result (column ''tpot_ms'' successful) (\<lambda>tpot.
         bind_result (bind_result (inter_token_values successful) distribution_values) (\<lambda>itl.
         bind_result (column ''prompt_tokens'' successful) (\<lambda>prompt_tokens.
         bind_result (column ''completion_tokens'' successful) (\<lambda>completion_tokens.
         bind_result (summarize_resource_group (dget_default resource_groups key [])) (\<lambda>resources.
           Inr \<lparr>sg_path = path, sg_workload = workload, sg_concurrency = concurrency,
                sg_repetitions = int (length condition_rows), sg_requests = int (length rows),
                sg_completed_requests = completed, sg_failed_requests = failed,
                sg_error_rate = error_rate, sg_request_throughput = request_throughput,
                sg_output_token_throughput = output_throughput,
                sg_total_token_throughput = token_throughput,
                sg_latency_ms = latency, sg_ttft_ms = ttft, sg_tpot_ms = tpot, sg_itl_ms = itl,
                sg_prompt_tokens = prompt_tokens, sg_completion_tokens = completion_tokens,
                sg_run_variation = variation, sg_resources = resources,
                sg_gateway_limiter_latency = limiter\<rparr>)))))))))))))))))))"

definition group_order :: "group_id \<Rightarrow> string \<times> int \<times> string" where
  "group_order k = (case k of (path, workload, concurrency) \<Rightarrow> (workload, concurrency, path))"

definition summarize_groups ::
  "row list \<Rightarrow> row list \<Rightarrow> row list \<Rightarrow> (string, row) dict \<Rightarrow> sample_group list result" where
  "summarize_groups samples conditions resources condition_by_id =
     bind_result (keyed group_key samples) (\<lambda>keyed_samples.
     bind_result (keyed group_key
       (filter (\<lambda>c. row_get c ''status'' = VStr ''completed'') conditions)) (\<lambda>keyed_conditions.
     bind_result (resource_entries condition_by_id resources) (\<lambda>keyed_resources.
       map_result (summarize_group condition_by_id (index_by keyed_conditions) (index_by keyed_resources))
         (sort_key (\<lambda>(k, rows). group_order k) (index_by keyed_samples)))))"

end
