(* ===== verification/BenchCompare.thy ===== *)
theory BenchCompare
  imports BenchGroups
begin

text \<open>
  \<^verbatim>\<open>bench/analyze.py\<close>, the second half: direct against gateway for each workload and
  concurrency, the check that both paths measured the same requests, the paired repetitions,
  and the headline with its gates. The floats of the model have one zero, so a difference that
  rounds to \<open>-0.0\<close> is shown as \<open>0.00\<close> in the headline where Python shows \<open>-0.00\<close>.
\<close>

section \<open>Samples under their condition\<close>

type_synonym sample_id = "string \<times> int \<times> int \<times> string"

fun index_number :: "pyval \<Rightarrow> int option result" where
  \<comment> \<open>a key compared with an int: a number that is not whole equals none of them\<close>
  "index_number (VNum (NInt i)) = Inr (Some i)"
| "index_number (VBool b) = Inr (Some (if b then 1 else 0))"
| "index_number (VNum (NFlt (Fin r))) = Inr (if r = of_int \<lfloor>r\<rfloor> then Some \<lfloor>r\<rfloor> else None)"
| "index_number (VList xs) = Inl (TypeError ''unhashable type'')"
| "index_number (VDict d) = Inl (TypeError ''unhashable type'')"
| "index_number v = Inr None"

fun index_text :: "pyval \<Rightarrow> string option result" where
  "index_text (VStr s) = Inr (Some s)"
| "index_text (VList xs) = Inl (TypeError ''unhashable type'')"
| "index_text (VDict d) = Inl (TypeError ''unhashable type'')"
| "index_text v = Inr None"

definition sample_entries :: "row \<Rightarrow> (sample_id \<times> row) list result" where
  \<comment> \<open>a sample whose key equals no key that is looked up is left out\<close>
  "sample_entries s =
     bind_result (bind_result (dict_item s ''workload'') index_text) (\<lambda>workload.
     bind_result (bind_result (dict_item s ''concurrency'') index_number) (\<lambda>concurrency.
     bind_result (bind_result (dict_item s ''repetition'') index_number) (\<lambda>repetition.
     bind_result (bind_result (dict_item s ''path'') index_text) (\<lambda>path.
       Inr (case (workload, concurrency, repetition, path) of
              (Some w, Some c, Some r, Some p) \<Rightarrow> [((w, c, r, p), s)]
            | _ \<Rightarrow> [])))))"

definition index_samples :: "row list \<Rightarrow> (sample_id, row list) dict result" where
  "index_samples samples = bind_result (concat_result sample_entries samples) (\<lambda>es. Inr (index_by es))"

definition samples_at :: "(sample_id, row list) dict \<Rightarrow> string \<Rightarrow> int \<Rightarrow> int \<Rightarrow> string \<Rightarrow> row list" where
  "samples_at index workload concurrency repetition path =
     dget_default index (workload, concurrency, repetition, path) []"

section \<open>Equal workloads\<close>

type_synonym shape = "int \<times> int \<times> int"

definition row_int :: "row \<Rightarrow> string \<Rightarrow> int result" where
  "row_int r key =
     bind_result (dict_item r key) (\<lambda>v.
       case v of VNum (NInt i) \<Rightarrow> Inr i | _ \<Rightarrow> Inl (TypeError ''not an integer''))"

definition shape_of :: "row \<Rightarrow> shape result" where
  "shape_of r =
     bind_result (row_int r ''request_index'') (\<lambda>i.
     bind_result (row_int r ''prompt_tokens'') (\<lambda>p.
     bind_result (row_int r ''requested_output_tokens'') (\<lambda>o'. Inr (i, p, o'))))"

definition shapes_of :: "row list \<Rightarrow> shape list result" where
  "shapes_of rows = bind_result (map_result shape_of rows) (\<lambda>shapes. Inr (sort shapes))"

definition mismatch_note :: "int \<Rightarrow> string" where
  "mismatch_note repetition = ''repetition '' @ int_str repetition @ '' token-shape mismatch''"

definition repetition_note ::
  "(sample_id, row list) dict \<Rightarrow> string \<Rightarrow> int \<Rightarrow> int \<Rightarrow> string option result" where
  "repetition_note index workload concurrency repetition =
     bind_result (shapes_of (samples_at index workload concurrency repetition ''direct'')) (\<lambda>direct_shape.
     bind_result (shapes_of (samples_at index workload concurrency repetition ''gateway'')) (\<lambda>gateway_shape.
       Inr (if direct_shape \<noteq> gateway_shape then Some (mismatch_note repetition) else None)))"

definition workload_equivalence ::
  "(sample_id, row list) dict \<Rightarrow> string \<Rightarrow> int \<Rightarrow> int \<Rightarrow> (bool \<times> string list) result" where
  "workload_equivalence index workload concurrency repetitions =
     bind_result (map_result (repetition_note index workload concurrency) [0..repetitions - 1]) (\<lambda>found.
     let notes = List.map_filter id found in
     Inr (if notes = []
          then (True, [''paired seeds, request counts, prompt-token counts, and output limits match''])
          else (False, notes)))"

section \<open>Paired repetitions\<close>

record path_run =
  pr_condition_id :: string
  pr_completed_requests :: int
  pr_failed_requests :: int
  pr_request_throughput :: "pynum option"
  pr_p50_latency_ms :: "pyfloat option"
  pr_p95_latency_ms :: "pyfloat option"
  pr_p50_ttft_ms :: "pyfloat option"

record paired_run =
  pd_repetition :: int
  pd_direct :: path_run
  pd_gateway :: path_run
  pd_p50_latency_difference_ms :: "pyfloat option"
  pd_p95_latency_difference_ms :: "pyfloat option"
  pd_p50_ttft_difference_ms :: "pyfloat option"
  pd_throughput_retained_percent :: "pyfloat option"

definition rounded_value :: "pyval \<Rightarrow> pynum option result" where
  \<comment> \<open>\<^verbatim>\<open>rounded\<close> of a JSON value\<close>
  "rounded_value v =
     (if v = VNone then Inr None
      else bind_result (value_num v) (\<lambda>n. Inr (rounded (Some n))))"

definition run_of_path :: "(string, row) dict \<Rightarrow> row list \<Rightarrow> path_run option result" where
  "run_of_path conditions rows =
     (if rows = [] then Inr None
      else
        bind_result (row_text (hd rows) ''condition_id'') (\<lambda>identifier.
        let condition = dget_default conditions identifier [];
            successful = successful_rows rows in
        bind_result (floats_of (map (\<lambda>r. row_get r ''total_latency_ms'') successful)) (\<lambda>latencies.
        bind_result (floats_of (map (\<lambda>r. row_get r ''ttft_ms'') successful)) (\<lambda>ttfts.
        bind_result (row_count condition ''completed_requests'') (\<lambda>completed.
        bind_result (row_count condition ''failed_requests'') (\<lambda>failed.
        bind_result (rounded_value (row_get condition ''request_throughput'')) (\<lambda>throughput.
        bind_result (bench_percentile latencies 50) (\<lambda>p50.
        bind_result (bench_percentile latencies 95) (\<lambda>p95.
        bind_result (bench_percentile ttfts 50) (\<lambda>p50_ttft.
          Inr (Some \<lparr>pr_condition_id = identifier, pr_completed_requests = completed,
            pr_failed_requests = failed, pr_request_throughput = throughput,
            pr_p50_latency_ms = rounded_float p50, pr_p95_latency_ms = rounded_float p95,
            pr_p50_ttft_ms = rounded_float p50_ttft\<rparr>)))))))))))"

definition pair_runs :: "int \<Rightarrow> path_run \<Rightarrow> path_run \<Rightarrow> paired_run result" where
  "pair_runs repetition direct gateway =
     bind_result (ratio_percent (pr_request_throughput gateway) (pr_request_throughput direct)) (\<lambda>retained.
       Inr \<lparr>pd_repetition = repetition, pd_direct = direct, pd_gateway = gateway,
            pd_p50_latency_difference_ms = difference (pr_p50_latency_ms gateway) (pr_p50_latency_ms direct),
            pd_p95_latency_difference_ms = difference (pr_p95_latency_ms gateway) (pr_p95_latency_ms direct),
            pd_p50_ttft_difference_ms = difference (pr_p50_ttft_ms gateway) (pr_p50_ttft_ms direct),
            pd_throughput_retained_percent = retained\<rparr>)"

definition paired_run_comparisons ::
  "(sample_id, row list) dict \<Rightarrow> (string, row) dict \<Rightarrow> string \<Rightarrow> int \<Rightarrow> int \<Rightarrow> paired_run list result" where
  "paired_run_comparisons index conditions workload concurrency repetitions =
     concat_result (\<lambda>repetition.
       bind_result (run_of_path conditions (samples_at index workload concurrency repetition ''direct'')) (\<lambda>direct.
       bind_result (run_of_path conditions (samples_at index workload concurrency repetition ''gateway'')) (\<lambda>gateway.
         case (direct, gateway) of
           (Some d, Some g) \<Rightarrow> bind_result (pair_runs repetition d g) (\<lambda>p. Inr [p])
         | _ \<Rightarrow> Inr [])))
     [0..repetitions - 1]"

record paired_variation =
  pv_p50_latency_difference_ms :: distribution
  pv_p95_latency_difference_ms :: distribution
  pv_p50_ttft_difference_ms :: distribution
  pv_throughput_retained_percent :: distribution

definition summarize_paired_runs :: "paired_run list \<Rightarrow> paired_variation result" where
  "summarize_paired_runs paired_runs =
     (let spread = (\<lambda>name. distribution_of (List.map_filter name paired_runs)) in
      bind_result (spread pd_p50_latency_difference_ms) (\<lambda>p50.
      bind_result (spread pd_p95_latency_difference_ms) (\<lambda>p95.
      bind_result (spread pd_p50_ttft_difference_ms) (\<lambda>p50_ttft.
      bind_result (spread pd_throughput_retained_percent) (\<lambda>retained.
        Inr \<lparr>pv_p50_latency_difference_ms = p50, pv_p95_latency_difference_ms = p95,
             pv_p50_ttft_difference_ms = p50_ttft, pv_throughput_retained_percent = retained\<rparr>)))))"

section \<open>Comparisons\<close>

record percentile_differences =
  pf_p50 :: "pyfloat option"
  pf_p95 :: "pyfloat option"
  pf_p99 :: "pyfloat option"

record comparison =
  cp_workload :: string
  cp_concurrency :: int
  cp_workload_equivalent :: bool
  cp_equivalence_notes :: "string list"
  cp_paired_runs :: "paired_run list"
  cp_paired_run_variation :: paired_variation
  cp_direct :: sample_group
  cp_gateway :: sample_group
  cp_gateway_overhead_ms :: percentile_differences
  cp_ttft_overhead_ms :: percentile_differences
  cp_throughput_difference_percent :: "pyfloat option"
  cp_throughput_retained_percent :: "pyfloat option"
  cp_output_token_throughput_difference_percent :: "pyfloat option"

definition percentile_differences_of :: "distribution \<Rightarrow> distribution \<Rightarrow> percentile_differences" where
  "percentile_differences_of gateway direct =
     \<lparr>pf_p50 = difference (di_p50 gateway) (di_p50 direct), pf_p95 = difference (di_p95 gateway) (di_p95 direct),
      pf_p99 = difference (di_p99 gateway) (di_p99 direct)\<rparr>"

definition index_groups :: "sample_group list \<Rightarrow> (string \<times> int \<times> string, sample_group) dict" where
  "index_groups groups =
     foldl (\<lambda>d g. dset d (sg_workload g, sg_concurrency g, sg_path g) g) [] groups"

definition compare_cell ::
  "(sample_id, row list) dict \<Rightarrow> (string, row) dict \<Rightarrow> int \<Rightarrow> string \<Rightarrow> int \<Rightarrow> sample_group \<Rightarrow> sample_group \<Rightarrow>
     comparison result" where
  "compare_cell index conditions repetitions workload concurrency direct gateway =
     bind_result (workload_equivalence index workload concurrency repetitions) (\<lambda>(equivalent, notes).
     bind_result (paired_run_comparisons index conditions workload concurrency repetitions) (\<lambda>paired_runs.
     bind_result (summarize_paired_runs paired_runs) (\<lambda>variation.
     bind_result (percent_change (map_option NFlt (sg_request_throughput gateway))
       (map_option NFlt (sg_request_throughput direct))) (\<lambda>change.
     bind_result (ratio_percent (map_option NFlt (sg_request_throughput gateway))
       (map_option NFlt (sg_request_throughput direct))) (\<lambda>retained.
     bind_result (percent_change (map_option NFlt (sg_output_token_throughput gateway))
       (map_option NFlt (sg_output_token_throughput direct))) (\<lambda>output_change.
       Inr \<lparr>cp_workload = workload, cp_concurrency = concurrency, cp_workload_equivalent = equivalent,
            cp_equivalence_notes = notes, cp_paired_runs = paired_runs, cp_paired_run_variation = variation,
            cp_direct = direct, cp_gateway = gateway,
            cp_gateway_overhead_ms = percentile_differences_of (sg_latency_ms gateway) (sg_latency_ms direct),
            cp_ttft_overhead_ms = percentile_differences_of (sg_ttft_ms gateway) (sg_ttft_ms direct),
            cp_throughput_difference_percent = change, cp_throughput_retained_percent = retained,
            cp_output_token_throughput_difference_percent = output_change\<rparr>))))))"

definition compare_level ::
  "(string \<times> int \<times> string, sample_group) dict \<Rightarrow> (sample_id, row list) dict \<Rightarrow> (string, row) dict \<Rightarrow> row \<Rightarrow>
     string \<Rightarrow> pyval \<Rightarrow> comparison list result" where
  "compare_level indexed index conditions config workload level =
     bind_result (value_to_int level) (\<lambda>concurrency.
       case (dget indexed (workload, concurrency, ''direct''), dget indexed (workload, concurrency, ''gateway'')) of
         (Some direct, Some gateway) \<Rightarrow>
           bind_result (bind_result (dict_item config ''repetitions'') value_to_int) (\<lambda>repetitions.
           bind_result (compare_cell index conditions repetitions workload concurrency direct gateway) (\<lambda>c. Inr [c]))
       | _ \<Rightarrow> Inr [])"

definition workload_names :: "row \<Rightarrow> string list result" where
  "workload_names config =
     bind_result (bind_result (dict_item config ''workloads'') value_iter)
       (map_result (\<lambda>item. bind_result (value_items item) (\<lambda>w. row_text w ''name'')))"

definition compare_groups ::
  "row list \<Rightarrow> sample_group list \<Rightarrow> (string, row) dict \<Rightarrow> row \<Rightarrow> comparison list result" where
  "compare_groups samples groups conditions config =
     bind_result (index_samples samples) (\<lambda>index.
     bind_result (workload_names config) (\<lambda>workloads.
       concat_result (\<lambda>workload.
         bind_result (bind_result (dict_item config ''concurrency'') value_iter) (\<lambda>levels.
           concat_result (compare_level (index_groups groups) index conditions config workload) levels))
       workloads))"

section \<open>The headline\<close>

record headline_gates =
  hg_workload_equivalent :: bool
  hg_at_least_two_repetitions :: bool
  hg_at_least_30_successes_per_path :: bool
  hg_zero_errors :: bool
  hg_paired_repetitions_complete :: bool

record supported_headline =
  hl_workload :: string
  hl_concurrency :: int
  hl_p50_overhead_ms :: "pyfloat option"
  hl_throughput_retained_percent :: "pyfloat option"
  hl_paired_run_variation :: paired_variation
  hl_paired_runs :: "paired_run list"
  hl_latency_claim_supported :: bool
  hl_text :: string

datatype headline =
    Unavailable
  | Held headline_gates
  | Supported headline_gates supported_headline

fun headline_match :: "pyval \<Rightarrow> comparison list \<Rightarrow> comparison option result" where
  \<comment> \<open>the target's concurrency is read for comparisons of its workload only\<close>
  "headline_match target [] = Inr None"
| "headline_match target (c # cs) =
     bind_result (value_get target ''workload'' VNone) (\<lambda>workload.
       if workload = VStr (cp_workload c)
       then bind_result (bind_result (value_get target ''concurrency'' (VInt (- 1))) value_to_int) (\<lambda>n.
         if cp_concurrency c = n then Inr (Some c) else headline_match target cs)
       else headline_match target cs)"

definition gates_of :: "comparison \<Rightarrow> headline_gates" where
  "gates_of c =
     (let direct = cp_direct c; gateway = cp_gateway c;
          repetitions = min (sg_repetitions direct) (sg_repetitions gateway) in
      \<lparr>hg_workload_equivalent = cp_workload_equivalent c,
       hg_at_least_two_repetitions = (2 \<le> repetitions),
       hg_at_least_30_successes_per_path =
         (30 \<le> min (sg_completed_requests direct) (sg_completed_requests gateway)),
       hg_zero_errors = (sg_failed_requests direct = 0 \<and> sg_failed_requests gateway = 0),
       hg_paired_repetitions_complete = (int (length (cp_paired_runs c)) = repetitions)\<rparr>)"

definition all_gates :: "headline_gates \<Rightarrow> bool" where
  "all_gates g \<longleftrightarrow> hg_workload_equivalent g \<and> hg_at_least_two_repetitions g \<and>
     hg_at_least_30_successes_per_path g \<and> hg_zero_errors g \<and> hg_paired_repetitions_complete g"

definition latency_claim_supported :: "paired_run list \<Rightarrow> bool" where
  "latency_claim_supported paired_runs =
     (let latency_differences = List.map_filter pd_p50_latency_difference_ms paired_runs in
      latency_differences \<noteq> [] \<and> list_all (\<lambda>v. fle (Fin 0) v) latency_differences)"

definition headline_text :: "comparison \<Rightarrow> bool \<Rightarrow> string" where
  "headline_text c claim =
     (let overhead = pf_p50 (cp_gateway_overhead_ms c);
          retained = cp_throughput_retained_percent c;
          paired_p50 = pv_p50_latency_difference_ms (cp_paired_run_variation c);
          paired_retained = pv_throughput_retained_percent (cp_paired_run_variation c);
          opening = ''At '' @ int_str (cp_concurrency c) @ '' concurrent '' @ cp_workload c @ '' requests, ''
      in if claim
         then opening @ ''the full gateway added '' @ show_number overhead
            @ '' ms p50 end-to-end latency and retained '' @ show_number retained
            @ ''% of direct-vLLM request throughput.''
         else opening @ ''the full gateway completed '' @ int_str (sg_completed_requests (cp_gateway c))
            @ '' measured requests per path with zero errors and observed '' @ show_number retained
            @ ''% of direct-vLLM request throughput (paired-run range '' @ show_number (di_min paired_retained)
            @ ''% to '' @ show_number (di_max paired_retained)
            @ ''%). Paired p50 latency differences ranged from '' @ show_number (di_min paired_p50)
            @ '' ms to '' @ show_number (di_max paired_p50)
            @ '' ms, so no positive gateway-added latency or speedup claim is made.'')"

definition build_headline :: "comparison list \<Rightarrow> row \<Rightarrow> headline result" where
  "build_headline comparisons config =
     bind_result (headline_match (dget_default config ''headline'' (VDict [])) comparisons) (\<lambda>found.
       Inr (case found of
              None \<Rightarrow> Unavailable
            | Some c \<Rightarrow>
                if \<not> all_gates (gates_of c) then Held (gates_of c)
                else
                  let claim = latency_claim_supported (cp_paired_runs c) in
                  Supported (gates_of c)
                    \<lparr>hl_workload = cp_workload c, hl_concurrency = cp_concurrency c,
                     hl_p50_overhead_ms = pf_p50 (cp_gateway_overhead_ms c),
                     hl_throughput_retained_percent = cp_throughput_retained_percent c,
                     hl_paired_run_variation = cp_paired_run_variation c,
                     hl_paired_runs = cp_paired_runs c,
                     hl_latency_claim_supported = claim,
                     hl_text = headline_text c claim\<rparr>))"

section \<open>A run\<close>

record run_summary =
  rs_groups :: "sample_group list"
  rs_comparisons :: "comparison list"
  rs_headline :: headline

definition load_jsonl :: "(string \<Rightarrow> pyval option) \<Rightarrow> string option \<Rightarrow> pyval list result" where
  \<comment> \<open>of a file that may be missing\<close>
  "load_jsonl json_loads file =
     (case file of
        None \<Rightarrow> Inr []
      | Some text \<Rightarrow>
          map_result (\<lambda>l. case json_loads l of None \<Rightarrow> Inl (ValueError ''JSONDecodeError'') | Some v \<Rightarrow> Inr v)
            (filter (\<lambda>l. py_strip l \<noteq> []) (py_splitlines text)))"

definition analyze_run :: "row list \<Rightarrow> row list \<Rightarrow> row list \<Rightarrow> row \<Rightarrow> run_summary result" where
  "analyze_run samples conditions resources config =
     bind_result (check (samples \<noteq> [] \<and> conditions \<noteq> [])
       (ValueError ''run directory has no completed benchmark samples'')) (\<lambda>_.
     bind_result (index_conditions conditions) (\<lambda>condition_by_id.
     bind_result (summarize_groups samples conditions resources condition_by_id) (\<lambda>groups.
     bind_result (compare_groups samples groups condition_by_id config) (\<lambda>comparisons.
     bind_result (build_headline comparisons config) (\<lambda>headline.
       Inr \<lparr>rs_groups = groups, rs_comparisons = comparisons, rs_headline = headline\<rparr>)))))"

end
