(* ===== verification/BenchEvidence.thy ===== *)
theory BenchEvidence
  imports BenchCompare "HOL-Library.Multiset"
begin

text \<open>
  What a summary of \<^verbatim>\<open>bench/analyze.py\<close> says about the raw rows: the groups partition the
  samples, and a headline is supported only where the rows of the run support it.
\<close>

section \<open>Rows under keys\<close>

lemma append_at_rows:
  "dget_default (append_at d kx) k [] = dget_default d k [] @ (if fst kx = k then [snd kx] else [])"
  by (cases kx) (auto simp: append_at_def dget_default_def)

lemma foldl_append_at:
  "dget_default (foldl append_at d kxs) k [] = dget_default d k [] @ map snd (filter (\<lambda>kx. fst kx = k) kxs)"
  by (induction kxs arbitrary: d) (simp_all add: append_at_rows)

lemma index_by_rows: "dget_default (index_by kxs) k [] = map snd (filter (\<lambda>kx. fst kx = k) kxs)"
  using foldl_append_at [of "[]" kxs k] by (simp add: index_by_def dget_default_def)

lemma foldl_append_at_keys:
  "distinct (dkeys d) \<Longrightarrow> distinct (dkeys (foldl append_at d kxs)) \<and>
     set (dkeys (foldl append_at d kxs)) = set (dkeys d) \<union> fst ` set kxs"
  by (induction kxs arbitrary: d) (auto simp: append_at_def distinct_dkeys_dset)

lemma index_by_keys: "distinct (dkeys (index_by kxs))" "set (dkeys (index_by kxs)) = fst ` set kxs"
  using foldl_append_at_keys [of "[]" kxs] by (simp_all add: index_by_def dkeys_def)

lemma index_by_entry:
  "(k, rows) \<in> set (index_by kxs) \<Longrightarrow> rows = map snd (filter (\<lambda>kx. fst kx = k) kxs)"
  using index_by_rows [of kxs k] index_by_keys(1) [of kxs]
  by (simp add: dget_default_def dget_def dkeys_def)

lemma keyed_rows:
  "keyed key xs = Inr kxs \<Longrightarrow> map snd (filter (\<lambda>kx. fst kx = k) kxs) = filter (\<lambda>x. key x = Inr k) xs"
  by (induction xs arbitrary: kxs) (auto simp: keyed_def)

lemma keyed_snd: "keyed key xs = Inr kxs \<Longrightarrow> map snd kxs = xs"
  by (induction xs arbitrary: kxs) (auto simp: keyed_def)

lemma int_sum_list_map: "(\<Sum>x\<leftarrow>xs. int (f x)) = int (\<Sum>x\<leftarrow>xs. f x)"
  by (induction xs) simp_all

lemma sum_over_keys:
  "distinct ks \<Longrightarrow> fst ` set kxs \<subseteq> set ks \<Longrightarrow>
     (\<Sum>k\<leftarrow>ks. length (filter (\<lambda>kx. fst kx = k) kxs)) = length kxs"
proof (induction kxs)
  case (Cons kx kxs)
  have "(\<Sum>k\<leftarrow>ks. if fst kx = k then 1 else (0 :: nat)) = 1"
    using Cons.prems by (simp add: sum_list_distinct_conv_sum_set)
  moreover have "(\<Sum>k\<leftarrow>ks. length (filter (\<lambda>x. fst x = k) (kx # kxs))) =
      (\<Sum>k\<leftarrow>ks. (if fst kx = k then 1 else 0) + length (filter (\<lambda>x. fst x = k) kxs))"
    by (intro arg_cong [where f = sum_list] map_cong) auto
  ultimately show ?case using Cons by (simp add: sum_list_addf)
qed simp

section \<open>The groups partition the samples\<close>

abbreviation order_of_group :: "sample_group \<Rightarrow> string \<times> int \<times> string" where
  "order_of_group g \<equiv> (sg_workload g, sg_concurrency g, sg_path g)"

abbreviation id_of_group :: "sample_group \<Rightarrow> group_id" where
  "id_of_group g \<equiv> (sg_path g, sg_workload g, sg_concurrency g)"

lemma summarize_group_fields:
  assumes "summarize_group conditions condition_groups resource_groups (k, rows) = Inr g"
  shows "id_of_group g = k \<and> sg_requests g = int (length rows) \<and>
    sg_repetitions g = int (length (dget_default condition_groups k [])) \<and>
    count_sum ''completed_requests'' (dget_default condition_groups k []) = Inr (sg_completed_requests g) \<and>
    count_sum ''failed_requests'' (dget_default condition_groups k []) = Inr (sg_failed_requests g)"
  using assms by (cases k) (auto simp: summarize_group_def Let_def)

lemma group_order_id: "group_order (id_of_group g) = order_of_group g"
  by (simp add: group_order_def)

lemma group_order_inj: "inj_on group_order A"
  by (auto simp: inj_on_def group_order_def)

lemma sorted_distinct_strict: "sorted xs \<Longrightarrow> distinct xs \<Longrightarrow> sorted_wrt (<) xs"
  by (simp add: strict_sorted_iff)

lemma summarize_groups_shape:
  assumes "summarize_groups samples conditions resources condition_by_id = Inr groups"
  obtains kss kcs krs where "keyed group_key samples = Inr kss"
    "keyed group_key (filter (\<lambda>c. row_get c ''status'' = VStr ''completed'') conditions) = Inr kcs"
    "map_result (summarize_group condition_by_id (index_by kcs) (index_by krs))
       (sort_key (\<lambda>(k, rows). group_order k) (index_by kss)) = Inr groups"
  using assms by (auto simp: summarize_groups_def)

text \<open>
  C22: The groups of an analysis are in strictly increasing order of workload, concurrency and
  path, each counts exactly the samples with its key, and together they count every sample once.
\<close>

theorem groups_partition_samples:
  assumes "summarize_groups samples conditions resources condition_by_id = Inr groups"
  shows "sorted_wrt (<) (map order_of_group groups) \<and>
    (\<forall>g \<in> set groups. sg_requests g = int (length (filter (\<lambda>s. group_key s = Inr (id_of_group g)) samples))) \<and>
    (\<Sum>g\<leftarrow>groups. sg_requests g) = int (length samples)"
proof -
  obtain kss kcs krs where kss: "keyed group_key samples = Inr kss"
    and m: "map_result (summarize_group condition_by_id (index_by kcs) (index_by krs))
       (sort_key (\<lambda>(k, rows). group_order k) (index_by kss)) = Inr groups"
    using summarize_groups_shape [OF assms] by metis
  define items where "items = sort_key (\<lambda>(k, rows). group_order k) (index_by kss)"
  note m = m [folded items_def]
  have len: "length groups = length items" using map_result_Inr_length [OF m] .
  have entry: "id_of_group (groups ! i) = fst (items ! i) \<and> sg_requests (groups ! i) = int (length (snd (items ! i)))"
    if "i < length groups" for i
    using map_result_Inr_nth [OF m, of i] that len by (cases "items ! i") (auto dest: summarize_group_fields)
  have items: "set items = set (index_by kss)" "mset items = mset (index_by kss)"
    by (simp_all add: items_def)
  have keys: "map order_of_group groups = map (group_order \<circ> fst) items"
    using entry len by (intro nth_equalityI) (auto simp flip: group_order_id)
  have "sorted (map (\<lambda>(k, rows). group_order k) items)" by (simp add: items_def)
  moreover have "distinct (map fst items)"
    using index_by_keys(1) [of kss] items(2) unfolding dkeys_def
    by (metis distinct_map mset_eq_imp_distinct_iff mset_map)
  then have "distinct (map group_order (map fst items))"
    using group_order_inj by (simp only: distinct_map)
  ultimately have strict: "sorted_wrt (<) (map order_of_group groups)"
    unfolding keys by (simp add: sorted_distinct_strict split_beta' comp_def)
  have rows: "int (length (snd (items ! i))) = int (length (filter (\<lambda>s. group_key s = Inr (fst (items ! i))) samples))"
    if "i < length items" for i
  proof -
    have "items ! i \<in> set (index_by kss)" using that items(1) nth_mem by blast
    then have "snd (items ! i) = map snd (filter (\<lambda>kx. fst kx = fst (items ! i)) kss)"
      using index_by_entry [of "fst (items ! i)" "snd (items ! i)" kss] by simp
    then show ?thesis using keyed_rows [OF kss] by simp
  qed
  have each: "\<forall>g \<in> set groups. sg_requests g = int (length (filter (\<lambda>s. group_key s = Inr (id_of_group g)) samples))"
    using entry rows len by (auto simp: in_set_conv_nth)
  have "(\<Sum>g\<leftarrow>groups. sg_requests g) = (\<Sum>kr\<leftarrow>items. int (length (snd kr)))"
    using entry len by (intro arg_cong [where f = sum_list] nth_equalityI) auto
  also have "\<dots> = (\<Sum>kr\<leftarrow>index_by kss. int (length (snd kr)))"
    using items(2) by (simp flip: sum_mset_sum_list)
  also have "\<dots> = (\<Sum>k\<leftarrow>dkeys (index_by kss). int (length (filter (\<lambda>kx. fst kx = k) kss)))"
  proof -
    have "int (length (snd kr)) = int (length (filter (\<lambda>kx. fst kx = fst kr) kss))" if "kr \<in> set (index_by kss)" for kr
      using index_by_entry [of "fst kr" "snd kr" kss] that by simp
    then show ?thesis unfolding dkeys_def map_map comp_def by (metis (no_types, lifting) map_eq_conv)
  qed
  also have "\<dots> = int (length kss)"
    using sum_over_keys [of "dkeys (index_by kss)" kss] index_by_keys [of kss]
    by (simp add: int_sum_list_map)
  also have "\<dots> = int (length samples)" using keyed_snd [OF kss] by (metis length_map)
  finally show ?thesis using strict each by blast
qed

section \<open>Equal workloads\<close>

lemma concat_result_rows:
  assumes "concat_result f xs = Inr ys" and "\<And>x zs. x \<in> set xs \<Longrightarrow> f x = Inr zs \<Longrightarrow> g x = zs"
  shows "ys = concat (map g xs)"
  using assms by (induction xs arbitrary: ys) (auto simp: concat_result_def)

definition sample_at :: "sample_id \<Rightarrow> row \<Rightarrow> bool" where
  "sample_at k s \<longleftrightarrow> sample_entries s = Inr [(k, s)]"

lemma sample_entries_cases:
  "sample_entries s = Inr es \<Longrightarrow> es = [] \<or> (\<exists>k. es = [(k, s)])"
proof -
  assume "sample_entries s = Inr es"
  then obtain w c r p where "es = (case (w, c, r, p) of
      (Some w, Some c, Some r, Some p) \<Rightarrow> [((w, c, r, p), s)] | _ \<Rightarrow> [])"
    unfolding sample_entries_def bind_result_eq_Inr sum.inject by blast
  then show ?thesis by (cases w; cases c; cases r; cases p) simp_all
qed

lemma index_samples_rows:
  assumes "index_samples samples = Inr index"
  shows "samples_at index w c r p = filter (sample_at (w, c, r, p)) samples"
proof -
  obtain ess where m: "map_result sample_entries samples = Inr ess" and i: "index = index_by (concat ess)"
    using assms by (auto simp: index_samples_def concat_result_def)
  have "map snd (filter (\<lambda>kx. fst kx = k) (concat ess)) = filter (sample_at k) samples" for k
    using m
  proof (induction samples arbitrary: ess)
    case (Cons s samples)
    obtain es ess' where e: "sample_entries s = Inr es" "map_result sample_entries samples = Inr ess'" "ess = es # ess'"
      using Cons.prems by auto
    show ?case
    proof (cases "es = []")
      case True
      then show ?thesis using Cons.IH [OF e(2)] e by (simp add: sample_at_def)
    next
      case False
      then obtain k' where "es = [(k', s)]" using sample_entries_cases [OF e(1)] by blast
      then show ?thesis using Cons.IH [OF e(2)] e by (cases "k' = k") (simp_all add: sample_at_def)
    qed
  qed simp
  then show ?thesis by (simp add: samples_at_def i index_by_rows)
qed

definition same_shapes :: "row list \<Rightarrow> row list \<Rightarrow> bool" where
  \<comment> \<open>the same requests, in any order\<close>
  "same_shapes xs ys \<longleftrightarrow> image_mset shape_of (mset xs) = image_mset shape_of (mset ys)"

lemma shapes_of_eq:
  assumes "shapes_of xs = Inr a" and "shapes_of ys = Inr b"
  shows "a = b \<longleftrightarrow> same_shapes xs ys"
proof -
  have m: "image_mset shape_of (mset zs) = image_mset Inr (mset c) \<and> sorted c" if z: "shapes_of zs = Inr c" for zs c
  proof -
    obtain d where d: "map_result shape_of zs = Inr d" "c = sort d" using z unfolding shapes_of_def bind_result_eq_Inr by blast
    have "map shape_of zs = map Inr d" using d(1) by (induction zs arbitrary: d) auto
    then show ?thesis using d(2) by (metis mset_map mset_sort sorted_sort)
  qed
  have "mset a = mset b" if "image_mset (Inr :: shape \<Rightarrow> shape result) (mset a) = image_mset Inr (mset b)"
    using arg_cong [OF that, of "image_mset projr"] by (simp add: image_mset.compositionality comp_def)
  then have "image_mset (Inr :: shape \<Rightarrow> shape result) (mset a) = image_mset Inr (mset b) \<longleftrightarrow> mset a = mset b"
    by auto
  moreover have "mset a = mset b \<longleftrightarrow> a = b"
    using m [OF assms(1)] m [OF assms(2)] by (metis properties_for_sort)
  ultimately show ?thesis using m [OF assms(1)] m [OF assms(2)] by (simp add: same_shapes_def)
qed

lemma workload_equivalence_same:
  assumes "workload_equivalence index w c n = Inr (True, notes)" and "0 \<le> r" and "r < n"
  shows "same_shapes (samples_at index w c r ''direct'') (samples_at index w c r ''gateway'')"
proof -
  obtain found where m: "map_result (repetition_note index w c) [0..n - 1] = Inr found"
      and none: "List.map_filter id found = []"
    using assms(1) by (auto simp: workload_equivalence_def Let_def split: if_splits)
  have "r \<in> set [0..n - 1]" using assms(2,3) by simp
  then obtain x where x: "repetition_note index w c r = Inr x" "x \<in> set found"
    using m by (metis in_set_conv_nth map_result_Inr_length map_result_Inr_nth)
  have "x = None" using none x(2) by (cases x) (auto simp: map_filter_def filter_empty_conv)
  then show ?thesis using x(1) shapes_of_eq by (auto simp: repetition_note_def split: if_splits)
qed

section \<open>The evidence behind a headline\<close>

definition completed_conditions :: "group_id \<Rightarrow> row list \<Rightarrow> row list" where
  "completed_conditions k conditions =
     filter (\<lambda>c. row_get c ''status'' = VStr ''completed'' \<and> group_key c = Inr k) conditions"

lemma index_groups_member:
  "dget (index_groups groups) k = Some g \<Longrightarrow> g \<in> set groups \<and> order_of_group g = k"
proof -
  have "dget (foldl (\<lambda>d g. dset d (order_of_group g) g) d groups) k = Some g \<Longrightarrow>
      dget d k = Some g \<or> g \<in> set groups \<and> order_of_group g = k" for d
    by (induction groups arbitrary: d) (fastforce split: if_splits)+
  from this [of "[]"] show "dget (index_groups groups) k = Some g \<Longrightarrow> g \<in> set groups \<and> order_of_group g = k"
    by (simp add: index_groups_def)
qed

lemma group_counts:
  assumes "summarize_groups samples conditions resources condition_by_id = Inr groups" and "g \<in> set groups"
  shows "let own = completed_conditions (id_of_group g) conditions in
    sg_repetitions g = int (length own) \<and>
    count_sum ''completed_requests'' own = Inr (sg_completed_requests g) \<and>
    count_sum ''failed_requests'' own = Inr (sg_failed_requests g)"
proof -
  obtain kss kcs krs where
    kcs: "keyed group_key (filter (\<lambda>c. row_get c ''status'' = VStr ''completed'') conditions) = Inr kcs"
    and m: "map_result (summarize_group condition_by_id (index_by kcs) (index_by krs))
       (sort_key (\<lambda>(k, rows). group_order k) (index_by kss)) = Inr groups"
    using summarize_groups_shape [OF assms(1)] by metis
  obtain k rows where "summarize_group condition_by_id (index_by kcs) (index_by krs) (k, rows) = Inr g"
    using map_result_set [OF m assms(2)] by auto
  note f = summarize_group_fields [OF this]
  have "dget_default (index_by kcs) k [] = completed_conditions k conditions"
    unfolding index_by_rows keyed_rows [OF kcs] by (simp add: completed_conditions_def conj_commute)
  then show ?thesis using f by (simp add: Let_def)
qed

lemma compare_cell_fields:
  assumes "compare_cell index conditions n w level direct gateway = Inr c"
  shows "cp_workload c = w \<and> cp_concurrency c = level \<and> cp_direct c = direct \<and> cp_gateway c = gateway \<and>
    (\<exists>notes. workload_equivalence index w level n = Inr (cp_workload_equivalent c, notes))"
  using assms by (auto simp: compare_cell_def)

lemma compare_groups_member:
  assumes "compare_groups samples groups conditions config = Inr cs" and "c \<in> set cs"
  obtains index repetitions direct gateway where "index_samples samples = Inr index"
    "bind_result (dict_item config ''repetitions'') value_to_int = Inr repetitions"
    "dget (index_groups groups) (cp_workload c, cp_concurrency c, ''direct'') = Some direct"
    "dget (index_groups groups) (cp_workload c, cp_concurrency c, ''gateway'') = Some gateway"
    "compare_cell index conditions repetitions (cp_workload c) (cp_concurrency c) direct gateway = Inr c"
proof -
  have own: "cp_workload c' = w \<and> cp_concurrency c' = n"
    if "compare_cell index conditions repetitions w n direct gateway = Inr c'"
    for index repetitions w n direct gateway c'
    using compare_cell_fields [OF that] by simp
  obtain index where i: "index_samples samples = Inr index" using assms(1) by (auto simp: compare_groups_def)
  obtain w level css where lv: "compare_level (index_groups groups) index conditions config w level = Inr css"
      "c \<in> set css"
    using assms i by (fastforce simp: compare_groups_def concat_result_def dest: map_result_set)
  then obtain n repetitions direct gateway where
    "bind_result (dict_item config ''repetitions'') value_to_int = Inr repetitions"
    "dget (index_groups groups) (w, n, ''direct'') = Some direct"
    "dget (index_groups groups) (w, n, ''gateway'') = Some gateway"
    "compare_cell index conditions repetitions w n direct gateway = Inr c"
    by (fastforce simp: compare_level_def split: option.splits)
  with own i that show ?thesis by metis
qed

lemma headline_match_member: "headline_match target cs = Inr (Some c) \<Longrightarrow> c \<in> set cs"
  by (induction cs) (auto split: if_splits)

definition counts_of :: "string \<Rightarrow> string \<Rightarrow> int \<Rightarrow> row list \<Rightarrow> (nat \<times> int result \<times> int result)" where
  \<comment> \<open>the completed conditions of a path, and the requests they completed and failed\<close>
  "counts_of path workload concurrency conditions =
     (let own = completed_conditions (path, workload, concurrency) conditions in
      (length own, count_sum ''completed_requests'' own, count_sum ''failed_requests'' own))"

definition path_evidence :: "nat \<times> int result \<times> int result \<Rightarrow> bool" where
  "path_evidence counts \<longleftrightarrow>
     (case counts of (n, completed, failed) \<Rightarrow>
        2 \<le> n \<and> failed = Inr 0 \<and> (case completed of Inl e \<Rightarrow> False | Inr k \<Rightarrow> 30 \<le> k))"

definition shapes_match :: "row list \<Rightarrow> string \<Rightarrow> int \<Rightarrow> int \<Rightarrow> bool" where
  "shapes_match samples workload concurrency repetition \<longleftrightarrow>
     same_shapes (filter (sample_at (workload, concurrency, repetition, ''direct'')) samples)
       (filter (sample_at (workload, concurrency, repetition, ''gateway'')) samples)"

lemma group_evidence:
  assumes "summarize_groups samples conditions resources condition_by_id = Inr groups"
    and "dget (index_groups groups) (w, c, p) = Some g"
  shows "counts_of p w c conditions =
    (nat (sg_repetitions g), Inr (sg_completed_requests g), Inr (sg_failed_requests g)) \<and> 0 \<le> sg_repetitions g"
  using group_counts [OF assms(1)] index_groups_member [OF assms(2)]
  by (auto simp: counts_of_def Let_def)

text \<open>
  C7: A supported headline rests on the recorded rows themselves: in every repetition both paths
  sent requests of the same shapes, each path completed at least two conditions with thirty or
  more requests and none failed, every pair is there, and added latency is only claimed when no
  pair shows the gateway faster.
\<close>

theorem headline_evidence:
  assumes "analyze_run samples conditions resources config = Inr s" and "rs_headline s = Supported g h"
  shows "\<exists>repetitions.
    bind_result (dict_item config ''repetitions'') value_to_int = Inr repetitions \<and>
    (\<forall>r \<in> {0..<repetitions}. shapes_match samples (hl_workload h) (hl_concurrency h) r) \<and>
    path_evidence (counts_of ''direct'' (hl_workload h) (hl_concurrency h) conditions) \<and>
    path_evidence (counts_of ''gateway'' (hl_workload h) (hl_concurrency h) conditions) \<and>
    length (hl_paired_runs h) =
      min (fst (counts_of ''direct'' (hl_workload h) (hl_concurrency h) conditions))
          (fst (counts_of ''gateway'' (hl_workload h) (hl_concurrency h) conditions)) \<and>
    (hl_latency_claim_supported h \<longrightarrow>
       (\<forall>p \<in> set (hl_paired_runs h). \<forall>x. pd_p50_latency_difference_ms p = Some x \<longrightarrow> fle (Fin 0) x))"
proof -
  obtain condition_by_id groups comparisons where
    gr: "summarize_groups samples conditions resources condition_by_id = Inr groups"
    and cmp: "compare_groups samples groups condition_by_id config = Inr comparisons"
    and hd: "build_headline comparisons config = Inr (Supported g h)"
    using assms by (auto simp: analyze_run_def)
  obtain c where c: "headline_match (dget_default config ''headline'' (VDict [])) comparisons = Inr (Some c)"
      "all_gates (gates_of c)" "hl_workload h = cp_workload c" "hl_concurrency h = cp_concurrency c"
      "hl_paired_runs h = cp_paired_runs c"
      "hl_latency_claim_supported h = latency_claim_supported (cp_paired_runs c)"
    using hd by (auto simp: build_headline_def Let_def split: option.splits if_splits)
  obtain index n direct gateway where i: "index_samples samples = Inr index"
    and n: "bind_result (dict_item config ''repetitions'') value_to_int = Inr n"
    and d: "dget (index_groups groups) (cp_workload c, cp_concurrency c, ''direct'') = Some direct"
    and gw: "dget (index_groups groups) (cp_workload c, cp_concurrency c, ''gateway'') = Some gateway"
    and cell: "compare_cell index condition_by_id n (cp_workload c) (cp_concurrency c) direct gateway = Inr c"
    using compare_groups_member [OF cmp headline_match_member [OF c(1)]] by metis
  have sides: "cp_direct c = direct" "cp_gateway c = gateway"
    and eq: "\<exists>notes. workload_equivalence index (cp_workload c) (cp_concurrency c) n =
        Inr (cp_workload_equivalent c, notes)"
    using compare_cell_fields [OF cell] by simp_all
  have gates: "cp_workload_equivalent c" "2 \<le> sg_repetitions direct" "2 \<le> sg_repetitions gateway"
      "30 \<le> sg_completed_requests direct" "30 \<le> sg_completed_requests gateway"
      "sg_failed_requests direct = 0" "sg_failed_requests gateway = 0"
      "int (length (cp_paired_runs c)) = min (sg_repetitions direct) (sg_repetitions gateway)"
    using c(2) by (simp_all add: all_gates_def gates_of_def sides)
  have "shapes_match samples (cp_workload c) (cp_concurrency c) r" if "r \<in> {0..<n}" for r
    using eq gates(1) that workload_equivalence_same [of index "cp_workload c" "cp_concurrency c" n _ r]
    by (auto simp: shapes_match_def index_samples_rows [OF i])
  moreover have "\<forall>p \<in> set (cp_paired_runs c). \<forall>x. pd_p50_latency_difference_ms p = Some x \<longrightarrow> fle (Fin 0) x"
    if "latency_claim_supported (cp_paired_runs c)"
    using that by (force simp: latency_claim_supported_def Let_def list_all_iff map_filter_def)
  ultimately show ?thesis
    using n gates c(3-6) group_evidence [OF gr d] group_evidence [OF gr gw]
    by (auto simp: path_evidence_def)
qed

section \<open>Conservative bounds\<close>

lemma foldl_fmax:
  "finite_float a \<Longrightarrow> \<forall>y \<in> set ys. finite_float y \<Longrightarrow>
   finite_float (foldl (\<lambda>m x. if flt m x then x else m) a ys) \<and>
   (\<forall>y \<in> insert a (set ys). fle y (foldl (\<lambda>m x. if flt m x then x else m) a ys))"
proof (induction ys arbitrary: a)
  case (Cons y ys)
  let ?b = "if flt a y then y else a" and ?m = "foldl (\<lambda>m x. if flt m x then x else m)"
  have b: "finite_float ?b" "fle a ?b" "fle y ?b"
    using Cons.prems by (cases a; cases y; simp add: finite_float_def)+
  have ih: "finite_float (?m ?b ys)" "\<forall>z \<in> insert ?b (set ys). fle z (?m ?b ys)"
    using Cons.IH [OF b(1)] Cons.prems(2) by simp_all
  have "fle a (?m ?b ys)" "fle y (?m ?b ys)"
    using fle_trans [OF b(2)] fle_trans [OF b(3)] ih(2) by blast+
  with ih show ?case by simp
qed (auto simp: finite_float_def)

lemma list_fmax_upper:
  assumes "\<forall>x \<in> set xs. finite_float x" and "x \<in> set xs"
  shows "fle x (list_fmax xs) \<and> finite_float (list_fmax xs)"
  using assms foldl_fmax [of "hd xs" "tl xs"] by (cases xs) (auto simp: list_fmax_def)

definition covers :: "nat \<Rightarrow> pyfloat \<Rightarrow> pyfloat list \<Rightarrow> bool" where
  \<comment> \<open>at least \<open>percent\<close> percent of the latencies are at most the bound\<close>
  "covers percent bound xs \<longleftrightarrow> percent * length xs \<le> 100 * length (filter (\<lambda>x. fle x bound) xs)"

lemma covers_mono:
  assumes "covers percent a xs" and "fle a b"
  shows "covers percent b xs"
proof -
  have "filter (\<lambda>x. fle x a) xs = filter (\<lambda>x. fle x a) (filter (\<lambda>x. fle x b) xs)"
    unfolding filter_filter by (rule filter_cong) (use fle_trans assms(2) in blast)+
  then have "length (filter (\<lambda>x. fle x a) xs) \<le> length (filter (\<lambda>x. fle x b) xs)"
    by (metis length_filter_le)
  then show ?thesis using assms(1) unfolding covers_def by linarith
qed

lemma covers_concat: "\<forall>xs \<in> set xss. covers percent b xs \<Longrightarrow> covers percent b (concat xss)"
  by (induction xss) (auto simp: covers_def algebra_simps)

definition row_covers :: "nat \<Rightarrow> string \<Rightarrow> row \<Rightarrow> pyfloat list \<Rightarrow> bool" where
  \<comment> \<open>the row counts these latencies, and its bound, where it has one, covers them\<close>
  "row_covers percent key r xs \<longleftrightarrow> row_count r ''count'' = Inr (int (length xs)) \<and>
     (\<forall>bound. value_to_float (row_get r key) = Inr bound \<longrightarrow> finite_float bound \<and> covers percent bound xs)"

text \<open>
  C32: When each repetition's bound covers its own share of latencies, the bound reported for
  all repetitions covers the same share of all latencies together.
\<close>

theorem conservative_bound_covers:
  assumes "conservative_max_bound rows key = Inr (Some b)" and "list_all2 (row_covers percent key) rows latencies"
  shows "covers percent b (concat latencies)"
proof (rule covers_concat, rule ballI)
  fix xs assume "xs \<in> set latencies"
  then obtain r where r: "r \<in> set rows" "row_covers percent key r xs"
    using assms(2) by (metis in_set_conv_nth list_all2_conv_all_nth)
  obtain observed bounds where o: "observed_rows rows = Inr observed"
    and m: "map_result (\<lambda>r. value_to_float (row_get r key)) observed = Inr bounds" and b: "b = list_fmax bounds"
    using assms(1) by (auto simp: conservative_max_bound_def split: if_splits)
  obtain krs where k: "keyed (\<lambda>r. row_count r ''count'') rows = Inr krs"
    and o': "observed = map snd (filter (\<lambda>(n, r). 0 < n) krs)"
    using o by (auto simp: observed_rows_def)
  have pairs: "(n, q) \<in> set krs \<longleftrightarrow> q \<in> set rows \<and> row_count q ''count'' = Inr n" for n q
    using k by (induction rows arbitrary: krs) (auto simp: keyed_def)
  have finite: "\<forall>x \<in> set bounds. finite_float x"
  proof
    fix x assume "x \<in> set bounds"
    then obtain q where "q \<in> set observed" "value_to_float (row_get q key) = Inr x"
      using map_result_set [OF m] by blast
    moreover from this(1) have "q \<in> set rows" using pairs by (auto simp: o')
    then obtain ys where "row_covers percent key q ys"
      using assms(2) by (metis in_set_conv_nth list_all2_conv_all_nth)
    ultimately show "finite_float x" by (auto simp: row_covers_def)
  qed
  show "covers percent b xs"
  proof (cases "xs = []")
    case False
    then have "(int (length xs), r) \<in> set krs" "0 < int (length xs)" using r pairs by (auto simp: row_covers_def)
    then have "r \<in> set observed" unfolding o' by (auto intro!: image_eqI [where x = "(int (length xs), r)"])
    then obtain i where i: "i < length observed" "r = observed ! i" by (metis in_set_conv_nth)
    define a where "a = bounds ! i"
    have a: "value_to_float (row_get r key) = Inr a" "a \<in> set bounds"
      using map_result_Inr_nth [OF m i(1)] map_result_Inr_length [OF m] i by (simp_all add: a_def)
    then show ?thesis
      using list_fmax_upper [OF finite a(2)] r(2) covers_mono [of percent a xs b] by (auto simp: row_covers_def b)
  qed (simp add: covers_def)
qed

end
