(* ===== verification/BenchOverhead.thy ===== *)
theory BenchOverhead
  imports Identity BenchStats
begin

text \<open>
  \<^verbatim>\<open>bench/overhead.py\<close>: the benchmark of the control path against a backend that does no
  work. Modelled are the token it signs, the request and the streamed reply as bytes, the
  closed-loop client as a step relation, the percentiles and the paired differences. Byte strings
  are strings; \<open>dumps\<close> is \<^verbatim>\<open>json.dumps\<close>, whose text is ASCII, and \<open>hmac\<close> is HMAC-SHA256.
  \<open>OverheadSession\<close> holds what surrounds the measured loop.
\<close>

section \<open>Percentiles and paired differences\<close>

definition rank_percentile :: "pyfloat list \<Rightarrow> pyfloat \<Rightarrow> pyfloat result" where
  \<comment> \<open>\<^verbatim>\<open>overhead.percentile\<close>\<close>
  "rank_percentile sorted_values fraction =
     (if sorted_values = [] then Inl (ValueError ''no samples'')
      else
        bind_result (int_to_float (int (length sorted_values))) (\<lambda>n.
          case fmul fraction n of
            Fin r \<Rightarrow> py_nth sorted_values (max 1 (round_half_even r) - 1)
          | _ \<Rightarrow> Inl (ValueError ''cannot convert float to integer'')))"

record overhead_run =
  or_requests :: int
  or_failures :: int
  or_requests_per_second :: pyfloat
  or_p50_us :: pyfloat
  or_p95_us :: pyfloat
  or_p99_us :: pyfloat

definition fraction_of :: "int \<Rightarrow> pyfloat" where
  \<comment> \<open>the float literals 0.50, 0.95 and 0.99\<close>
  "fraction_of percent = to_f64 (of_int percent / 100)"

definition microseconds :: "pyfloat \<Rightarrow> pyfloat" where
  "microseconds f = fmul f (Fin 1000000)"

definition summarize_run :: "pyfloat list \<Rightarrow> pyfloat \<Rightarrow> int \<Rightarrow> overhead_run result" where
  "summarize_run latencies_s elapsed_s failures =
     (let ordered = sort latencies_s in
      bind_result (bind_result (int_to_float (int (length ordered))) (\<lambda>n. fdiv n elapsed_s)) (\<lambda>rate.
      bind_result (rank_percentile ordered (fraction_of 50)) (\<lambda>p50.
      bind_result (rank_percentile ordered (fraction_of 95)) (\<lambda>p95.
      bind_result (rank_percentile ordered (fraction_of 99)) (\<lambda>p99.
        Inr \<lparr>or_requests = int (length ordered), or_failures = failures, or_requests_per_second = rate,
             or_p50_us = microseconds p50, or_p95_us = microseconds p95, or_p99_us = microseconds p99\<rparr>)))))"

definition median :: "pyfloat list \<Rightarrow> pyfloat result" where
  \<comment> \<open>\<^verbatim>\<open>statistics.median\<close>\<close>
  "median xs =
     (let ordered = sort xs; n = length ordered in
      if n = 0 then Inl (ValueError ''no median for empty data'')
      else if odd n then Inr (ordered ! (n div 2))
      else fdiv (fadd (ordered ! (n div 2 - 1)) (ordered ! (n div 2))) (Fin 2))"

record added_latency =
  ad_median :: pyfloat
  ad_min :: pyfloat
  ad_max :: pyfloat

definition added_of :: "(overhead_run \<Rightarrow> pyfloat) \<Rightarrow> overhead_run list \<Rightarrow> overhead_run list \<Rightarrow> added_latency result" where
  "added_of metric direct_runs gateway_runs =
     (let deltas = map (\<lambda>(direct, gateway). fsub (metric gateway) (metric direct)) (zip direct_runs gateway_runs) in
      bind_result (median deltas) (\<lambda>m.
        Inr \<lparr>ad_median = m, ad_min = list_fmin deltas, ad_max = list_fmax deltas\<rparr>))"

record paired_added =
  pa_p50_us :: added_latency
  pa_p95_us :: added_latency
  pa_p99_us :: added_latency

definition paired_added_latency :: "overhead_run list \<Rightarrow> overhead_run list \<Rightarrow> paired_added result" where
  "paired_added_latency direct_runs gateway_runs =
     bind_result (check (length direct_runs = length gateway_runs \<and> direct_runs \<noteq> [])
       (ValueError ''direct and gateway runs must pair one to one'')) (\<lambda>_.
     bind_result (added_of or_p50_us direct_runs gateway_runs) (\<lambda>p50.
     bind_result (added_of or_p95_us direct_runs gateway_runs) (\<lambda>p95.
     bind_result (added_of or_p99_us direct_runs gateway_runs) (\<lambda>p99.
       Inr \<lparr>pa_p50_us = p50, pa_p95_us = p95, pa_p99_us = p99\<rparr>))))"

section \<open>The token\<close>

definition ISSUER :: string where "ISSUER = ''overhead-benchmark''"

definition AUDIENCE :: string where "AUDIENCE = ''secure-gpu-inference-gateway''"

definition token_header :: pyval where
  "token_header = VDict [(''alg'', VStr ''HS256''), (''typ'', VStr ''JWT'')]"

definition token_claims :: "int \<Rightarrow> int \<Rightarrow> claims" where
  "token_claims now ttl_seconds =
     [(''iss'', VStr ISSUER), (''aud'', VStr AUDIENCE), (''sub'', VStr ''overhead-benchmark-client''),
      (''roles'', VList [VStr ''analyst'']), (''iat'', VInt now), (''exp'', VInt (now + ttl_seconds))]"

definition make_jwt :: "(pyval \<Rightarrow> string) \<Rightarrow> (string \<Rightarrow> string \<Rightarrow> string) \<Rightarrow> string \<Rightarrow> int \<Rightarrow> int \<Rightarrow> string" where
  "make_jwt dumps hmac secret ttl_seconds now =
     (let header = b64url_encode (dumps token_header);
          payload = b64url_encode (dumps (VDict (token_claims now ttl_seconds)));
          signing_input = header @ ''.'' @ payload
      in header @ ''.'' @ payload @ ''.'' @ b64url_encode (hmac (utf8_encode secret) signing_input))"

definition gateway_environment :: "environ \<Rightarrow> string \<Rightarrow> environ" where
  \<comment> \<open>the settings of identity among those the gateway is started with\<close>
  "gateway_environment base secret =
     base(''ALLOW_DEMO_PRINCIPALS'' \<mapsto> ''false'', ''OIDC_ISSUER'' \<mapsto> ISSUER,
          ''OIDC_AUDIENCE'' \<mapsto> AUDIENCE, ''OIDC_JWT_HS256_SECRET'' \<mapsto> secret)"

section \<open>Requests and replies as bytes\<close>

definition CRLF :: string where "CRLF = [CHR 13, CHR 10]"

definition STREAM_END :: string where "STREAM_END = CRLF @ ''0'' @ CRLF @ CRLF"

definition request_body :: "(pyval \<Rightarrow> string) \<Rightarrow> nat \<Rightarrow> int \<Rightarrow> string" where
  "request_body dumps prompt_words max_tokens =
     dumps (VDict
       [(''model'', VStr ''benchmark-echo''),
        (''prompt'', VStr (concat (replicate prompt_words ''word ''))),
        (''max_tokens'', VInt max_tokens), (''stream'', VBool True),
        (''stream_options'', VDict [(''include_usage'', VBool True)])])"

definition header_block :: "string list \<Rightarrow> string" where
  "header_block ls = concat (map (\<lambda>l. l @ CRLF) ls) @ CRLF"

definition build_request :: "(pyval \<Rightarrow> string) \<Rightarrow> string \<Rightarrow> nat \<Rightarrow> int \<Rightarrow> string" where
  "build_request dumps token prompt_words max_tokens =
     (let body = request_body dumps prompt_words max_tokens in
      header_block [''POST /v1/completions HTTP/1.1'', ''Host: 127.0.0.1'', ''Content-Type: application/json'',
        ''Authorization: Bearer '' @ token, ''Content-Length: '' @ int_str (int (length body))] @ body)"

function hex_str :: "nat \<Rightarrow> string" where
  \<comment> \<open>\<^verbatim>\<open>%x\<close>\<close>
  "hex_str n =
     (let digit = (\<lambda>d. if d < 10 then char_of (48 + d) else char_of (87 + d)) in
      if n < 16 then [digit n] else hex_str (n div 16) @ [digit (n mod 16)])"
  by pat_completeness auto
termination by (relation "measure id") auto

declare hex_str.simps [simp del]

definition NEWLINES :: string where "NEWLINES = [CHR 10, CHR 10]"

definition stream_events :: "nat \<Rightarrow> string list" where
  "stream_events tokens =
     replicate tokens (''data: {\"choices\":[{\"index\":0,\"text\":\"x\"}]}'' @ NEWLINES) @
     [''data: {\"usage\":{\"prompt_tokens\":1,\"completion_tokens\":'' @ int_str (int tokens) @ ''}}'' @ NEWLINES,
      ''data: [DONE]'' @ NEWLINES]"

definition stream_chunk :: "string \<Rightarrow> string" where
  "stream_chunk event = hex_str (length event) @ CRLF @ event @ CRLF"

definition stream_chunks :: "nat \<Rightarrow> string list" where
  "stream_chunks tokens = map stream_chunk (stream_events tokens)"

definition null_reply :: "nat \<Rightarrow> string" where
  \<comment> \<open>what \<^verbatim>\<open>serve_null_backend\<close> writes for a request\<close>
  "null_reply tokens =
     header_block [''HTTP/1.1 200 OK'', ''Content-Type: text/event-stream'', ''Transfer-Encoding: chunked''] @
     concat (stream_chunks tokens) @ ''0'' @ CRLF @ CRLF"

fun read_until :: "string \<Rightarrow> string \<Rightarrow> (string \<times> string) option" where
  \<comment> \<open>\<^verbatim>\<open>readuntil\<close>: what comes up to and with the separator, and what is left; \<open>None\<close> when the
     stream ends first\<close>
  "read_until sep [] = (if sep = [] then Some ([], []) else None)"
| "read_until sep (c # s) =
     (if py_startswith (c # s) sep then Some (sep, drop (length sep) (c # s))
      else map_option (\<lambda>(a, b). (c # a, b)) (read_until sep s))"

lemma read_until_shorter: "read_until sep s = Some (a, b) \<Longrightarrow> s = a @ b \<and> py_endswith a sep"
proof (induction s arbitrary: a)
  case (Cons c s)
  show ?case
  proof (cases "py_startswith (c # s) sep")
    case True
    then have "take (length sep) (c # s) = sep" by (simp add: py_startswith_def)
    moreover have "take (length sep) (c # s) @ drop (length sep) (c # s) = c # s" by (rule append_take_drop_id)
    moreover have "a = sep" "b = drop (length sep) (c # s)" using True Cons.prems by auto
    ultimately show ?thesis by (simp add: py_endswith_def)
  next
    case False
    then obtain a' where "read_until sep s = Some (a', b)" "a = c # a'" using Cons.prems by auto
    then show ?thesis using Cons.IH by (auto simp: py_endswith_def Suc_diff_le)
  qed
qed (auto simp: py_endswith_def split: if_splits)

function crlf_split :: "string \<Rightarrow> string list" where
  \<comment> \<open>\<^verbatim>\<open>split(b"\r\n")\<close>\<close>
  "crlf_split s =
     (case read_until CRLF s of
        None \<Rightarrow> [s]
      | Some (a, b) \<Rightarrow> take (length a - length CRLF) a # crlf_split b)"
  by pat_completeness auto
termination
proof (relation "measure length", goal_cases)
  case (2 s x a b)
  then have "s = a @ b" "py_endswith a CRLF" using read_until_shorter [of CRLF s a b] by auto
  then show ?case by (cases a) (auto simp: py_endswith_def CRLF_def)
qed simp

declare crlf_split.simps [simp del]

definition bytes_lower :: "string \<Rightarrow> string" where
  \<comment> \<open>\<^verbatim>\<open>bytes.lower\<close>: ASCII letters only\<close>
  "bytes_lower s =
     map (\<lambda>c. let n = (of_char c :: int) in if 65 \<le> n \<and> n \<le> 90 then char_of (n + 32) else c) s"

definition content_length :: "string \<Rightarrow> int result" where
  \<comment> \<open>the last \<^verbatim>\<open>Content-Length\<close> of a header block, else 0\<close>
  "content_length headers =
     (case filter (\<lambda>l. py_startswith l ''content-length:'') (crlf_split (bytes_lower headers)) of
        [] \<Rightarrow> Inr 0
      | found \<Rightarrow>
          bind_result (map_result (\<lambda>l. int_or_value_error (snd (snd (py_partition (CHR '':'') l)))) found)
            (\<lambda>lengths. Inr (last lengths)))"

definition serve_request :: "string \<Rightarrow> string option result" where
  \<comment> \<open>one turn of the backend's \<^verbatim>\<open>handle\<close>: what is left after the request it answers; a stream that
     ends early closes the connection\<close>
  "serve_request stream =
     (case read_until (CRLF @ CRLF) stream of
        None \<Rightarrow> Inr None
      | Some (headers, rest) \<Rightarrow>
          bind_result (content_length headers) (\<lambda>n.
            Inr (if n \<le> int (length rest) then Some (drop (nat n) rest) else None)))"

definition client_read :: "string \<Rightarrow> string option result" where
  \<comment> \<open>what a worker of \<^verbatim>\<open>drive\<close> leaves in the stream after a reply\<close>
  "client_read stream =
     (case read_until (CRLF @ CRLF) stream of
        None \<Rightarrow> Inr None
      | Some (headers, rest) \<Rightarrow>
          bind_result (check (py_contains (take 20 headers) '' 200 '') (RuntimeError (take 200 headers))) (\<lambda>_.
            Inr (map_option snd (read_until STREAM_END rest))))"

section \<open>The closed-loop client\<close>

datatype worker = Idle | Waiting | Left

record drive_state =
  ds_remaining :: int
  ds_workers :: "worker list"
  ds_latencies :: "pyfloat list"
  ds_failures :: int
  ds_raised :: bool

definition drive_start :: "int \<Rightarrow> nat \<Rightarrow> drive_state" where
  "drive_start requests concurrency =
     \<lparr>ds_remaining = requests, ds_workers = replicate concurrency Idle, ds_latencies = [],
      ds_failures = 0, ds_raised = False\<rparr>"

definition set_worker :: "nat \<Rightarrow> worker \<Rightarrow> drive_state \<Rightarrow> drive_state" where
  "set_worker i w s = s\<lparr>ds_workers := (ds_workers s)[i := w]\<rparr>"

inductive drive_step :: "drive_state \<Rightarrow> drive_state \<Rightarrow> bool" where
  send: "i < length (ds_workers s) \<Longrightarrow> ds_workers s ! i = Idle \<Longrightarrow> 0 < ds_remaining s \<Longrightarrow>
    drive_step s (set_worker i Waiting (s\<lparr>ds_remaining := ds_remaining s - 1\<rparr>))"
| reply: "i < length (ds_workers s) \<Longrightarrow> ds_workers s ! i = Waiting \<Longrightarrow>
    drive_step s (set_worker i Idle (s\<lparr>ds_latencies := ds_latencies s @ [latency]\<rparr>))"
| refuse: "i < length (ds_workers s) \<Longrightarrow> ds_workers s ! i = Waiting \<Longrightarrow>
    drive_step s (set_worker i Left (s\<lparr>ds_failures := ds_failures s + 1, ds_raised := True\<rparr>))"
| disconnect: "i < length (ds_workers s) \<Longrightarrow> ds_workers s ! i \<noteq> Left \<Longrightarrow>
    drive_step s (set_worker i Left (s\<lparr>ds_raised := True\<rparr>))"
| leave: "i < length (ds_workers s) \<Longrightarrow> ds_workers s ! i = Idle \<Longrightarrow> ds_remaining s \<le> 0 \<Longrightarrow>
    drive_step s (set_worker i Left s)"

definition drive_reachable :: "int \<Rightarrow> nat \<Rightarrow> drive_state \<Rightarrow> bool" where
  "drive_reachable requests concurrency s \<longleftrightarrow> drive_step\<^sup>*\<^sup>* (drive_start requests concurrency) s"

definition drive_returns :: "drive_state \<Rightarrow> bool" where
  \<comment> \<open>\<^verbatim>\<open>gather\<close> returns: every worker has left and none has raised\<close>
  "drive_returns s \<longleftrightarrow> list_all (\<lambda>w. w = Left) (ds_workers s) \<and> \<not> ds_raised s"

section \<open>The measured run\<close>

type_synonym drive_result = "pyfloat list \<times> pyfloat \<times> int"

definition path_sequence :: "int \<Rightarrow> string list" where
  "path_sequence repetition =
     (if repetition mod 2 \<noteq> 0 then [''gateway'', ''direct''] else [''direct'', ''gateway''])"

record overhead_condition =
  oc_concurrency :: int
  oc_direct :: "(int \<times> overhead_run) list"
  oc_gateway :: "(int \<times> overhead_run) list"
  oc_added :: paired_added

definition measure_repetition ::
  "(int \<Rightarrow> int \<Rightarrow> string \<Rightarrow> drive_result result) \<Rightarrow> int \<Rightarrow> int \<Rightarrow> (string \<times> int \<times> overhead_run) list result" where
  "measure_repetition drives concurrency repetition =
     map_result (\<lambda>path.
       bind_result (drives concurrency repetition path) (\<lambda>(latencies, elapsed, failures).
       bind_result (summarize_run latencies elapsed failures) (\<lambda>run. Inr (path, repetition, run))))
     (path_sequence repetition)"

definition measure_concurrency ::
  "(int \<Rightarrow> int \<Rightarrow> string \<Rightarrow> drive_result result) \<Rightarrow> int \<Rightarrow> int \<Rightarrow> overhead_condition result" where
  "measure_concurrency drives repetitions concurrency =
     bind_result (map_result (measure_repetition drives concurrency) [0..repetitions - 1]) (\<lambda>runs.
     let of_path = (\<lambda>path. map snd (filter (\<lambda>(p, run). p = path) (concat runs))) in
     bind_result (paired_added_latency (map snd (of_path ''direct'')) (map snd (of_path ''gateway''))) (\<lambda>added.
       Inr \<lparr>oc_concurrency = concurrency, oc_direct = of_path ''direct'', oc_gateway = of_path ''gateway'',
            oc_added = added\<rparr>))"

definition gateway_requests_sent :: "int list \<Rightarrow> int \<Rightarrow> int \<Rightarrow> int \<Rightarrow> int" where
  "gateway_requests_sent concurrency repetitions warmup requests =
     sum_list (map (\<lambda>c. sum_list (map (\<lambda>r. warmup + requests) [0..repetitions - 1])) concurrency)"

definition control_path_check :: "int \<Rightarrow> int \<Rightarrow> int \<Rightarrow> unit result" where
  "control_path_check gateway_requests audit_events trace_spans =
     check (audit_events = gateway_requests \<and> trace_spans = gateway_requests)
       (RuntimeError (''expected '' @ int_str gateway_requests @ '' audit events and trace spans, found '' @
          int_str audit_events @ '' and '' @ int_str trace_spans))"

definition run_overhead ::
  "(int \<Rightarrow> int \<Rightarrow> string \<Rightarrow> drive_result result) \<Rightarrow> int list \<Rightarrow> int \<Rightarrow> int \<Rightarrow> int \<Rightarrow> int \<Rightarrow> int \<Rightarrow>
     overhead_condition list result" where
  \<comment> \<open>the loop of \<^verbatim>\<open>run_benchmark\<close> and the check after it\<close>
  "run_overhead drives concurrency repetitions warmup requests audit_events trace_spans =
     bind_result (map_result (measure_concurrency drives repetitions) concurrency) (\<lambda>conditions.
     bind_result (control_path_check (gateway_requests_sent concurrency repetitions warmup requests)
       audit_events trace_spans) (\<lambda>_. Inr conditions))"

section \<open>The report's table\<close>

definition added_cell :: "added_latency \<Rightarrow> string" where
  "added_cell v = fmt_fixed 0 (ad_median v) @ '' ['' @ fmt_fixed 0 (ad_min v) @ '', '' @ fmt_fixed 0 (ad_max v) @ '']''"

definition overhead_row :: "overhead_condition \<Rightarrow> string result" where
  "overhead_row c =
     (let runs = map snd in
      bind_result (median (map or_p50_us (runs (oc_direct c)))) (\<lambda>direct_p50.
      bind_result (median (map or_p50_us (runs (oc_gateway c)))) (\<lambda>gateway_p50.
      bind_result (median (map or_requests_per_second (runs (oc_gateway c)))) (\<lambda>rps.
        Inr (''| '' @ int_str (oc_concurrency c) @ '' | '' @ fmt_fixed 0 direct_p50 @ '' | '' @
          fmt_fixed 0 gateway_p50 @ '' | '' @ added_cell (pa_p50_us (oc_added c)) @ '' | '' @
          added_cell (pa_p95_us (oc_added c)) @ '' | '' @ added_cell (pa_p99_us (oc_added c)) @ '' | '' @
          fmt_fixed 0 rps @ '' |'')))))"

end
