(* ===== verification/StepInvariant.thy ===== *)
theory StepInvariant
  imports Main
begin

text \<open>
  The interface of an invariant of a step relation: what one step keeps, every sequence of steps
  keeps. The client of the overhead benchmark and the resource sampler provide it.
\<close>

locale step_invariant =
  fixes step :: "'s \<Rightarrow> 's \<Rightarrow> bool" and inv :: "'s \<Rightarrow> bool"
  assumes preserved: "step s t \<Longrightarrow> inv s \<Longrightarrow> inv t"
begin

lemma steps:
  assumes "step\<^sup>*\<^sup>* s t" and "inv s"
  shows "inv t"
  using assms by (induction rule: rtranclp_induct) (auto intro: preserved)

end

end
