(* ===== verification/BenchFraming.thy ===== *)
theory BenchFraming
  imports BenchOverhead TelemetryRoundtrip StepInvariant
begin

text \<open>
  What holds of \<^verbatim>\<open>bench/overhead.py\<close> on the wire and in its client: a request and a reply are
  read to their last byte, a client that returns has sent every request and seen no failure, and
  the percentiles of a run are ordered.
\<close>

section \<open>Reading up to a separator\<close>

lemma read_until_skip:
  assumes "CHR 13 \<notin> set p" and "sep = CHR 13 # sep'"
  shows "read_until sep (p @ s) = map_option (\<lambda>(a, b). (p @ a, b)) (read_until sep s)"
  using assms(1)
proof (induction p)
  case Nil
  then show ?case by (cases "read_until sep s") auto
next
  case (Cons c p)
  then show ?case
    by (cases "read_until sep s") (auto simp: assms(2) py_startswith_def)
qed

lemma read_until_at: "sep \<noteq> [] \<Longrightarrow> read_until sep (sep @ s) = Some (sep, s)"
  by (cases sep) (auto simp: py_startswith_def)

lemma read_until_next:
  "\<not> py_startswith (c # s) sep \<Longrightarrow>
     read_until sep (c # s) = map_option (\<lambda>(a, b). (c # a, b)) (read_until sep s)"
  by simp

declare read_until.simps(2) [simp del]

lemma CRLF_no_start: "c \<noteq> CHR 13 \<Longrightarrow> \<not> py_startswith (c # s) (CHR 13 # sep)"
  by (simp add: py_startswith_def)

definition plain_line :: "string \<Rightarrow> bool" where
  "plain_line l \<longleftrightarrow> l \<noteq> [] \<and> CHR 13 \<notin> set l"

lemma header_block_Cons: "header_block (l # ls) = l @ CRLF @ header_block ls"
  by (simp add: header_block_def)

lemma header_block_read:
  "ls \<noteq> [] \<Longrightarrow> \<forall>l \<in> set ls. plain_line l \<Longrightarrow>
     read_until (CRLF @ CRLF) (header_block ls @ s) = Some (header_block ls, s)"
proof (induction ls)
  case (Cons l ls)
  have skip: "read_until (CRLF @ CRLF) (l @ r) = map_option (\<lambda>(a, b). (l @ a, b)) (read_until (CRLF @ CRLF) r)" for r
    using Cons.prems by (intro read_until_skip) (auto simp: plain_line_def CRLF_def)
  show ?case
  proof (cases ls)
    case Nil
    have "read_until (CRLF @ CRLF) (CRLF @ CRLF @ s) = Some (CRLF @ CRLF, s)"
      using read_until_at [of "CRLF @ CRLF" s] by (simp add: CRLF_def)
    then show ?thesis by (simp add: Nil header_block_def skip)
  next
    case (Cons m ms)
    then obtain c m' where m: "m = c # m'" "c \<noteq> CHR 13"
      using Cons.prems by (cases m) (auto simp: plain_line_def)
    have "\<not> py_startswith (CRLF @ c # r) (CRLF @ CRLF)" for r using m(2) by (simp add: py_startswith_def CRLF_def)
    then have "read_until (CRLF @ CRLF) (CRLF @ header_block ls @ s) = Some (CRLF @ header_block ls, s)"
      using Cons.IH Cons.prems
      by (simp add: Cons m header_block_Cons CRLF_def read_until_next CRLF_no_start del: append_Cons)
         (simp add: CRLF_def read_until_next CRLF_no_start)
    then show ?thesis by (simp add: header_block_Cons skip)
  qed
qed simp

lemma crlf_split_line: "CHR 13 \<notin> set l \<Longrightarrow> crlf_split (l @ CRLF @ s) = l # crlf_split s"
proof -
  assume l: "CHR 13 \<notin> set l"
  have "read_until CRLF (l @ CRLF @ s) = Some (l @ CRLF, s)"
    using read_until_skip [OF l, of CRLF] read_until_at [of CRLF s] by (simp add: CRLF_def)
  then show ?thesis by (subst crlf_split.simps) simp
qed

lemma crlf_split_block: "\<forall>l \<in> set ls. CHR 13 \<notin> set l \<Longrightarrow> crlf_split (header_block ls) = ls @ [[], []]"
proof (induction ls)
  case Nil
  have e: "crlf_split [] = [[]]" by (subst crlf_split.simps) (simp add: CRLF_def)
  show ?case using crlf_split_line [of "[]" "[]"] by (simp add: header_block_def e)
qed (simp add: header_block_Cons crlf_split_line)

section \<open>A request is read to its last byte\<close>

lemma bytes_lower_append: "bytes_lower (s @ t) = bytes_lower s @ bytes_lower t"
  by (simp add: bytes_lower_def)

lemma bytes_lower_block: "bytes_lower (header_block ls) = header_block (map bytes_lower ls)"
proof -
  have "bytes_lower CRLF = CRLF" by code_simp
  then show ?thesis
    by (induction ls) (simp_all add: header_block_Cons bytes_lower_append, simp add: header_block_def)
qed

lemma bytes_lower_CR: "CHR 13 \<in> set (bytes_lower s) \<longleftrightarrow> CHR 13 \<in> set s"
proof -
  define f where "f = (\<lambda>c. let n = (of_char c :: int) in if 65 \<le> n \<and> n \<le> 90 then char_of (n + 32) else c)"
  have "f c = CHR 13 \<longleftrightarrow> c = CHR 13" for c
  proof (cases "65 \<le> (of_char c :: int) \<and> (of_char c :: int) \<le> 90")
    case True
    then have "(of_char (f c) :: int) = of_char c + 32" by (simp add: f_def Let_def)
    then have "f c \<noteq> CHR 13" using True by auto
    then show ?thesis using True by auto
  qed (auto simp: f_def Let_def)
  then have "CHR 13 \<in> f ` set s \<longleftrightarrow> CHR 13 \<in> set s" by (metis image_iff)
  moreover have "bytes_lower s = map f s" by (simp add: bytes_lower_def f_def)
  ultimately show ?thesis by simp
qed

lemma digit_code: "digits s \<Longrightarrow> c \<in> set s \<Longrightarrow> 48 \<le> (of_char c :: int) \<and> (of_char c :: int) \<le> 57"
  using digits_plain(10) [of s c] by (simp add: is_digit_def Let_def)

lemma digits_no_CR: "digits s \<Longrightarrow> CHR 13 \<notin> set s"
  using digit_code [of s "CHR 13"] by auto

lemma bytes_lower_digits: "digits s \<Longrightarrow> bytes_lower s = s"
  unfolding bytes_lower_def by (intro map_idI) (use digit_code in \<open>fastforce simp: Let_def\<close>)

lemma nat_str_length: "0 \<le> n \<Longrightarrow> n < 10 ^ k \<Longrightarrow> 0 < k \<Longrightarrow> length (nat_str n) \<le> k"
proof (induction n arbitrary: k rule: nat_str.induct)
  case (1 n)
  show ?case
  proof (cases "n < 10")
    case True
    then show ?thesis using "1.prems" by (subst nat_str.simps) simp
  next
    case False
    then have k: "1 < k" using "1.prems" by (cases k; cases "k - 1") auto
    then have "n div 10 < 10 ^ (k - 1)" using "1.prems" by (cases k) auto
    then have "length (nat_str (n div 10)) \<le> k - 1" using "1.IH" False "1.prems" k by simp
    then show ?thesis using k False by (subst nat_str.simps) simp
  qed
qed

lemma py_int_spaced:
  assumes "0 \<le> n" and "n < 10 ^ 18"
  shows "py_int ('' '' @ nat_str n) = Some n"
proof -
  have d: "digits (nat_str n)" by (rule digits_nat_str [OF assms(1)])
  have s: "py_strip ('' '' @ nat_str n) = nat_str n"
  proof -
    have "py_strip (nat_str n) = nat_str n"
      using digits_plain(1) [OF d] by (intro py_strip_plain) (simp add: list_all_iff)
    moreover have "py_isspace (CHR '' '')" by code_simp
    then have "py_strip ('' '' @ nat_str n) = py_strip (nat_str n)" by (simp add: py_strip_def py_lstrip_def)
    ultimately show ?thesis by simp
  qed
  have sign: "hd (nat_str n) \<noteq> CHR ''-''" "hd (nat_str n) \<noteq> CHR ''+''"
    using digits_plain(4,5) [OF d hd_in_set [OF nat_str_nonempty]] by simp_all
  have f: "filter is_digit (nat_str n) = nat_str n" using d by (simp add: digits_def list_all_iff filter_id_conv)
  show ?thesis
    unfolding py_int_def s Let_def
    using sign underscores_ok_digits [OF d] nat_str_length [OF assms(1), of 18] assms
    by (simp add: f digits_val_nat_str)
qed

lemma content_length_block:
  assumes "0 \<le> n" and "n < 10 ^ 18" and "CHR 13 \<notin> set token"
  shows "content_length (header_block [''POST /v1/completions HTTP/1.1'', ''Host: 127.0.0.1'',
      ''Content-Type: application/json'', ''Authorization: Bearer '' @ token, ''Content-Length: '' @ int_str n]) = Inr n"
proof -
  have d: "digits (nat_str n)" by (rule digits_nat_str [OF assms(1)])
  have low: "bytes_lower ''POST /v1/completions HTTP/1.1'' = ''post /v1/completions http/1.1''"
    "bytes_lower ''Host: 127.0.0.1'' = ''host: 127.0.0.1''"
    "bytes_lower ''Content-Type: application/json'' = ''content-type: application/json''"
    "bytes_lower ''Authorization: Bearer '' = ''authorization: bearer ''"
    "bytes_lower ''Content-Length: '' = ''content-length: ''"
    by code_simp+
  have i: "int_str n = nat_str n" using assms(1) by (simp add: int_str_def)
  have lines: "map bytes_lower [''POST /v1/completions HTTP/1.1'', ''Host: 127.0.0.1'',
      ''Content-Type: application/json'', ''Authorization: Bearer '' @ token, ''Content-Length: '' @ int_str n] =
    [''post /v1/completions http/1.1'', ''host: 127.0.0.1'', ''content-type: application/json'',
      ''authorization: bearer '' @ bytes_lower token, ''content-length: '' @ nat_str n]"
    by (simp only: list.map bytes_lower_append low i bytes_lower_digits [OF d])
  have ls: "crlf_split (bytes_lower (header_block [''POST /v1/completions HTTP/1.1'', ''Host: 127.0.0.1'',
      ''Content-Type: application/json'', ''Authorization: Bearer '' @ token, ''Content-Length: '' @ int_str n])) =
    [''post /v1/completions http/1.1'', ''host: 127.0.0.1'', ''content-type: application/json'',
      ''authorization: bearer '' @ bytes_lower token, ''content-length: '' @ nat_str n] @ [[], []]"
    unfolding bytes_lower_block lines
    by (rule crlf_split_block) (use assms(3) digits_no_CR [OF d] in \<open>simp add: bytes_lower_CR\<close>)
  show ?thesis
    unfolding content_length_def ls
    using py_int_spaced [OF assms(1,2)] by (simp add: py_startswith_def int_or_value_error_def)
qed

lemma serve_request_reads:
  assumes "CHR 13 \<notin> set token" and "int (length (request_body dumps w m)) < 10 ^ 18"
  shows "serve_request (build_request dumps token w m @ rest) = Inr (Some rest)"
proof -
  let ?n = "int (length (request_body dumps w m))"
  let ?ls = "[''POST /v1/completions HTTP/1.1'', ''Host: 127.0.0.1'', ''Content-Type: application/json'',
    ''Authorization: Bearer '' @ token, ''Content-Length: '' @ int_str ?n]"
  have "CHR 13 \<notin> set (int_str ?n)"
    using digits_no_CR [OF digits_nat_str [of ?n]] by (simp add: int_str_def)
  then have "\<forall>l \<in> set ?ls. plain_line l" using assms(1) by (simp add: plain_line_def)
  then have "read_until (CRLF @ CRLF) (header_block ?ls @ request_body dumps w m @ rest) =
      Some (header_block ?ls, request_body dumps w m @ rest)"
    by (intro header_block_read) simp_all
  then show ?thesis
    using content_length_block [of ?n token] assms by (simp add: serve_request_def build_request_def Let_def)
qed

section \<open>A reply is read to its last byte\<close>

definition behind :: "string \<Rightarrow> string \<Rightarrow> string option" where
  \<comment> \<open>what is left behind the separator\<close>
  "behind sep s = map_option snd (read_until sep s)"

lemma behind_at: "sep \<noteq> [] \<Longrightarrow> behind sep (sep @ s) = Some s"
  by (simp add: behind_def read_until_at)

lemma behind_next: "\<not> py_startswith (c # s) sep \<Longrightarrow> behind sep (c # s) = behind sep s"
  by (simp add: behind_def read_until_next option.map_comp comp_def split_beta')

lemma behind_skip: "CHR 13 \<notin> set p \<Longrightarrow> behind STREAM_END (p @ s) = behind STREAM_END s"
  by (induction p) (auto simp: STREAM_END_def CRLF_def behind_next py_startswith_def)

lemma behind_line:
  assumes "\<not> py_startswith (CRLF @ s) STREAM_END"
  shows "behind STREAM_END (CRLF @ s) = behind STREAM_END s"
  using assms by (simp add: STREAM_END_def CRLF_def behind_next CRLF_no_start)

lemma hex_digit_table:
  "list_all (\<lambda>d. (if d < 10 then char_of (48 + d) else char_of (87 + d)) \<noteq> CHR 13) [0 ..< (16 :: nat)]"
  by code_simp

lemma hex_str_plain: "hex_str n \<noteq> [] \<and> CHR 13 \<notin> set (hex_str n)"
proof (induction n rule: hex_str.induct)
  case (1 n)
  have digit: "(if d < 10 then char_of (48 + d) else char_of (87 + d)) \<noteq> CHR 13" if "d < 16" for d :: nat
    using hex_digit_table that by (simp only: list_all_iff) auto
  show ?case
  proof (cases "n < 16")
    case True
    then show ?thesis using digit [of n] by (subst (1 2) hex_str.simps) (auto simp: Let_def)
  next
    case False
    then show ?thesis using "1.IH" digit [of "n mod 16"] by (subst (1 2) hex_str.simps) (auto simp: Let_def)
  qed
qed

definition event_ok :: "string \<Rightarrow> bool" where
  "event_ok e \<longleftrightarrow> CHR 13 \<notin> set e \<and> (\<exists>e'. e = CHR ''d'' # e')"

lemma chunk_start: "event_ok e \<Longrightarrow> \<not> py_startswith (CRLF @ stream_chunk e @ s) STREAM_END"
proof -
  assume e: "event_ok e"
  obtain c h where h: "hex_str (length e) = c # h" "CHR 13 \<notin> set h" using hex_str_plain [of "length e"]
    by (cases "hex_str (length e)") auto
  obtain e' where "e = CHR ''d'' # e'" using e by (auto simp: event_ok_def)
  then show ?thesis using h
    by (cases h) (auto simp: stream_chunk_def STREAM_END_def CRLF_def py_startswith_def)
qed

lemma behind_chunk: "event_ok e \<Longrightarrow> behind STREAM_END (stream_chunk e @ s) = behind STREAM_END (CRLF @ s)"
proof -
  assume e: "event_ok e"
  then have "\<not> py_startswith (CRLF @ e @ CRLF @ s) STREAM_END"
    by (auto simp: event_ok_def STREAM_END_def CRLF_def py_startswith_def)
  then have "behind STREAM_END (CRLF @ e @ CRLF @ s) = behind STREAM_END (e @ CRLF @ s)" by (rule behind_line)
  then show ?thesis using e hex_str_plain [of "length e"] by (simp add: stream_chunk_def behind_skip event_ok_def)
qed

lemma behind_chunks:
  "\<forall>e \<in> set es. event_ok e \<Longrightarrow>
     behind STREAM_END (CRLF @ concat (map stream_chunk es) @ ''0'' @ CRLF @ CRLF @ s) = Some s"
proof (induction es)
  case Nil
  then show ?case using behind_at [of STREAM_END s] by (simp add: STREAM_END_def)
next
  case (Cons e es)
  then show ?case using chunk_start [of e] by (simp add: behind_line behind_chunk)
qed

lemma stream_events_ok: "e \<in> set (stream_events tokens) \<Longrightarrow> event_ok e"
proof -
  have "CHR 13 \<notin> set (int_str (int tokens))"
    using digits_no_CR [OF digits_nat_str [of "int tokens"]] by (simp add: int_str_def)
  then show "e \<in> set (stream_events tokens) \<Longrightarrow> event_ok e"
    by (auto simp: stream_events_def event_ok_def NEWLINES_def)
qed


section \<open>The client counts its requests\<close>

lemma count_list_update:
  "i < length xs \<Longrightarrow>
   int (count_list (xs[i := w]) a) =
     int (count_list xs a) - (if xs ! i = a then 1 else 0) + (if w = a then 1 else 0)"
proof (induction xs arbitrary: i)
  case (Cons x xs)
  then show ?case
  proof (cases i)
    case (Suc j)
    then show ?thesis using Cons.IH [of j] Cons.prems by (auto split: if_splits)
  qed simp
qed simp

definition drive_inv :: "int \<Rightarrow> nat \<Rightarrow> drive_state \<Rightarrow> bool" where
  "drive_inv requests concurrency s \<longleftrightarrow>
     length (ds_workers s) = concurrency \<and>
     (\<not> ds_raised s \<longrightarrow>
        ds_failures s = 0 \<and>
        ds_remaining s + int (count_list (ds_workers s) Waiting) + int (length (ds_latencies s)) = requests \<and>
        (0 \<le> requests \<longrightarrow> 0 \<le> ds_remaining s) \<and>
        (requests < 0 \<longrightarrow> ds_remaining s = requests) \<and>
        (Left \<in> set (ds_workers s) \<longrightarrow> ds_remaining s \<le> 0))"

lemma drive_inv_step: "drive_step s t \<Longrightarrow> drive_inv requests concurrency s \<Longrightarrow> drive_inv requests concurrency t"
proof (induction rule: drive_step.induct)
  case (send i s)
  have "Left \<notin> set ((ds_workers s)[i := Waiting])" if "Left \<notin> set (ds_workers s)"
    using that set_update_subset_insert [of "ds_workers s" i Waiting] by auto
  with send show ?case
    by (auto simp: drive_inv_def set_worker_def count_list_update)
next
  case (reply i s latency)
  have "Left \<notin> set ((ds_workers s)[i := Idle])" if "Left \<notin> set (ds_workers s)"
    using that set_update_subset_insert [of "ds_workers s" i Idle] by auto
  with reply show ?case
    by (auto simp: drive_inv_def set_worker_def count_list_update)
qed (auto simp: drive_inv_def set_worker_def count_list_update)

interpretation driving: step_invariant drive_step "drive_inv requests concurrency" for requests concurrency
  by unfold_locales (rule drive_inv_step)

lemma drive_inv_reachable: "drive_reachable requests concurrency s \<Longrightarrow> drive_inv requests concurrency s"
  unfolding drive_reachable_def
  by (erule driving.steps) (auto simp: drive_inv_def drive_start_def count_list_0_iff)

text \<open>
  C28: When the closed-loop client returns, it has measured exactly as many latencies as
  requests were asked for and counted no failure, for any interleaving of its connections.
\<close>

theorem drive_counts:
  assumes "drive_reachable requests concurrency s" and "drive_returns s" and "0 < concurrency"
  shows "ds_failures s = 0 \<and> int (length (ds_latencies s)) = max 0 requests"
proof -
  have inv: "drive_inv requests concurrency s" by (rule drive_inv_reachable [OF assms(1)])
  have "\<forall>w \<in> set (ds_workers s). w = Left" "\<not> ds_raised s"
    using assms(2) by (auto simp: drive_returns_def list_all_iff)
  moreover from this(1) have "Left \<in> set (ds_workers s)"
    using inv assms(3) by (cases "ds_workers s") (auto simp: drive_inv_def)
  moreover have "count_list (ds_workers s) Waiting = 0"
    using calculation(1) by (auto simp: count_list_0_iff)
  ultimately show ?thesis using inv by (auto simp: drive_inv_def)
qed

end
