(* ===== verification/BenchControlPath.thy ===== *)
theory BenchControlPath
  imports BenchFraming
begin

text \<open>
  \<^verbatim>\<open>bench/overhead.py\<close> against the gateway: the token it signs passes the gateway's verifier
  under the settings it starts the gateway with, its request is read to the last byte, and the
  percentiles it reports are ordered.
\<close>

section \<open>The signed token is accepted\<close>

definition token_char :: "char \<Rightarrow> bool" where
  "token_char c \<longleftrightarrow> c \<in> b64url_char ` {0..<64}"

lemma token_char_table:
  "list_all (\<lambda>i. \<not> py_isspace (b64url_char i) \<and> b64url_char i \<noteq> CHR ''.'' \<and> b64url_char i \<noteq> CHR 13) [0..63]"
  by code_simp

lemma token_char_plain: "token_char c \<Longrightarrow> \<not> py_isspace c \<and> c \<noteq> CHR ''.'' \<and> c \<noteq> CHR 13"
proof -
  assume "token_char c"
  then obtain i where i: "i \<in> set [0..63]" "c = b64url_char i" by (force simp: token_char_def)
  from i(1) show ?thesis using token_char_table unfolding list_all_iff i(2) by blast
qed

lemma b64url_encode_chars: "c \<in> set (b64url_encode bs) \<Longrightarrow> token_char c"
  by (induction bs rule: b64url_encode.induct)
     (auto simp: Let_def token_char_def sextets)

definition well_formed_token :: "string \<Rightarrow> bool" where
  "well_formed_token t \<longleftrightarrow> t \<noteq> [] \<and> (\<forall>c \<in> set t. \<not> py_isspace c \<and> c \<noteq> CHR 13)"

lemma make_jwt_well_formed: "well_formed_token (make_jwt dumps hmac secret ttl now)"
proof -
  have "\<not> py_isspace (CHR ''.'')" by code_simp
  then show ?thesis
    by (auto simp: well_formed_token_def make_jwt_def Let_def dest!: b64url_encode_chars token_char_plain)
qed

lemma extract_well_formed:
  assumes "well_formed_token t"
  shows "extract_bearer_token (''Bearer '' @ t) = Inr t"
proof -
  have "py_strip t = t" using assms by (intro py_strip_plain) (simp add: well_formed_token_def list_all_iff)
  moreover have "py_strip (''Bearer '' @ t) = ''Bearer '' @ t"
  proof (rule py_strip_id)
    have "\<not> py_isspace (CHR ''B'')" by code_simp
    then show "''Bearer '' @ t = [] \<or> \<not> py_isspace (hd (''Bearer '' @ t)) \<and> \<not> py_isspace (last (''Bearer '' @ t))"
      using assms by (auto simp: well_formed_token_def)
  qed
  moreover have "py_lower ''Bearer'' = ''bearer''" by code_simp
  ultimately show ?thesis using assms by (simp add: extract_bearer_token_def well_formed_token_def)
qed

lemma jwt_parts_make:
  "jwt_parts (b64url_encode a @ ''.'' @ b64url_encode b @ ''.'' @ b64url_encode c) =
     Inr (b64url_encode a, b64url_encode b, b64url_encode c)"
proof -
  have "CHR ''.'' \<notin> set (b64url_encode x)" for x using b64url_encode_chars token_char_plain by blast
  then show ?thesis by (simp add: jwt_parts_def py_split_append py_split_id)
qed

lemma decode_json_encode: "json_loads rt text = Inr (VDict d) \<Longrightarrow> decode_json rt (b64url_encode text) = Inr d"
  by (simp add: decode_json_def base64url_decode_encode except_value_error_def)

definition overhead_settings :: "string \<Rightarrow> auth_settings" where
  "overhead_settings secret =
     \<lparr>jwt_issuer = Some ISSUER, jwt_audience = Some AUDIENCE, jwt_hs256_secret = Some secret,
      roles_claim = ''roles'', scopes_claim = ''scope'', allow_demo_principals = False,
      clock_skew_seconds = 60, max_token_lifetime_seconds = 86400\<rparr>"

lemma settings_from_environment:
  assumes "base ''OIDC_CLOCK_SKEW_SECONDS'' = None" and "base ''OIDC_MAX_TOKEN_LIFETIME_SECONDS'' = None"
    and "base ''OIDC_ROLES_CLAIM'' = None" and "base ''OIDC_SCOPES_CLAIM'' = None"
    and "py_strip secret = secret" and "secret \<noteq> []"
  shows "auth_settings_from_env (gateway_environment base secret) = Inr (overhead_settings secret)"
proof -
  have n: "int_or_value_error ''60'' = Inr 60" "int_or_value_error ''86400'' = Inr 86400" by code_simp+
  have s: "py_strip ISSUER = ISSUER" "py_strip AUDIENCE = AUDIENCE" "ISSUER \<noteq> []" "AUDIENCE \<noteq> []"
    "parse_bool (Some ''false'') False = False" by code_simp+
  show ?thesis
    using assms by (simp add: auth_settings_from_env_def gateway_environment_def getenv_def empty_to_none_def
        overhead_settings_def n s)
qed

lemma overhead_claims_valid:
  assumes "of_int now - 60 \<le> t" and "t \<le> of_int (now + ttl) + 60" and "0 \<le> ttl" and "ttl \<le> 86400"
    and "\<bar>now\<bar> \<le> 2 ^ 50"
  shows "validate_claims (token_claims now ttl) (overhead_settings secret) (Fin t) = Inr ()"
proof -
  let ?c = "token_claims now ttl" and ?s = "overhead_settings secret"
  have c: "claim ?c ''iss'' = VStr ISSUER" "claim ?c ''aud'' = VStr AUDIENCE" "claim ?c ''exp'' = VInt (now + ttl)"
    "claim ?c ''nbf'' = VNone" "claim ?c ''iat'' = VInt now"
    by (simp_all add: claim_def token_claims_def dget_default_def)
  have aud: "AUDIENCE \<in> claim_values (VStr AUDIENCE)" by code_simp
  have small: "\<bar>now + ttl\<bar> \<le> 2 ^ 53" "\<bar>now\<bar> \<le> 2 ^ 53" "\<bar>now + ttl + 60\<bar> \<le> 2 ^ 53" "\<bar>now - 60\<bar> \<le> 2 ^ 53"
    using assms(3-5) by auto
  have exp: "numeric_date (VInt (now + ttl)) ''exp'' = Inr (Fin (of_int (now + ttl)))"
    and iat: "numeric_date (VInt now) ''iat'' = Inr (Fin (of_int now))"
    using small(1,2) by (simp_all add: numeric_date_def int_to_float_small)
  have "fadd (Fin (of_int (now + ttl))) (Fin (of_int 60)) = Fin (of_int (now + ttl + 60))"
    using to_f64_of_int [OF small(3)] by simp
  moreover have "fsub (Fin (of_int now)) (Fin (of_int 60)) = Fin (of_int (now - 60))"
    using to_f64_of_int [OF small(4)] by (simp add: fsub_def)
  moreover have "\<not> flt (Fin (of_int (86400 + 60))) (fsub (Fin (of_int (now + ttl))) (Fin t))"
  proof -
    have "of_int (now + ttl) - t \<le> of_int (86400 + 60)" using assms(1,4) by simp
    then have "fle (to_f64 (of_int (now + ttl) - t)) (to_f64 (of_int (86400 + 60)))" by (rule to_f64_mono)
    then have "fle (to_f64 (of_int (now + ttl) - t)) (Fin (of_int (86400 + 60)))"
      using to_f64_of_int [of "86400 + 60"] by simp
    then show ?thesis by (simp add: fsub_def flt_iff_not_fle)
  qed
  ultimately show ?thesis
    using assms(1,2) unfolding validate_claims_def Let_def c check_not_before_def
    by (simp add: exp iat aud num_arith_small [of 60, simplified] num_lt_def overhead_settings_def [of secret])
qed

text \<open>
  C23: The gateway, configured as the overhead benchmark starts it, accepts the token the
  benchmark signs, as the analyst it names, until the token expires.
\<close>

theorem overhead_token_accepted:
  assumes "base ''OIDC_CLOCK_SKEW_SECONDS'' = None" and "base ''OIDC_MAX_TOKEN_LIFETIME_SECONDS'' = None"
    and "base ''OIDC_ROLES_CLAIM'' = None" and "base ''OIDC_SCOPES_CLAIM'' = None"
    and "py_strip secret = secret" and "secret \<noteq> []"
    and "json_loads rt (dumps token_header) = Inr token_header"
    and "json_loads rt (dumps (VDict (token_claims now ttl))) = Inr (VDict (token_claims now ttl))"
    and "of_int now - 60 \<le> t" and "t \<le> of_int (now + ttl) + 60" and "0 \<le> ttl" and "ttl \<le> 86400"
    and "\<bar>now\<bar> \<le> 2 ^ 50"
  shows "\<exists>settings r p. auth_settings_from_env (gateway_environment base secret) = Inr settings \<and>
    resolve_principal rt (Some (''Bearer '' @ make_jwt dumps (hmac_sha256 rt) secret ttl now)) None settings (Fin t)
      = Inr r \<and>
    rp_principal r = Some p \<and> p_principal_id p = ''overhead-benchmark-client'' \<and> roles p = {''analyst''}"
proof -
  let ?token = "make_jwt dumps (hmac_sha256 rt) secret ttl now" and ?s = "overhead_settings secret"
    and ?c = "token_claims now ttl"
  let ?h = "b64url_encode (dumps token_header)" and ?p = "b64url_encode (dumps (VDict ?c))"
  have parts: "jwt_parts ?token = Inr (?h, ?p, b64url_encode (hmac_sha256 rt (utf8_encode secret) (?h @ ''.'' @ ?p)))"
    using jwt_parts_make by (simp add: make_jwt_def Let_def)
  have header: "decode_json rt ?h = Inr [(''alg'', VStr ''HS256''), (''typ'', VStr ''JWT'')]"
    using decode_json_encode assms(7) by (simp add: token_header_def)
  have payload: "decode_json rt ?p = Inr ?c" using decode_json_encode assms(8) by blast
  have ascii: "ascii_encode (?h @ ''.'' @ ?p) = Inr (?h @ ''.'' @ ?p)"
    using b64url_encode_ascii [of _ "[]"] by (simp add: ascii_encode_def)
  have key: "jwt_hs256_secret ?s = Some secret" by (simp add: overhead_settings_def)
  have "verify_hs256_jwt rt ?token ?s (Fin t) = Inr ?c"
    using overhead_claims_valid [OF assms(9-13)] assms(6) ascii key
    by (simp add: verify_hs256_jwt_def parts header payload claim_def dget_default_def base64url_decode_encode)
  then have verified: "bind_result (extract_bearer_token (''Bearer '' @ ?token)) (\<lambda>token.
      bind_result (verify_hs256_jwt rt token ?s (Fin t)) (\<lambda>c. principal_from_claims c ?s)) = principal_from_claims ?c ?s"
    unfolding extract_well_formed [OF make_jwt_well_formed] by simp
  obtain r p where r: "principal_from_claims ?c ?s = Inr r" "rp_principal r = Some p"
      "p_principal_id p = ''overhead-benchmark-client''" "roles p = {''analyst''}"
    by (simp add: principal_from_claims_def claim_def dget_default_def token_claims_def overhead_settings_def
        claim_values_def)
  have "resolve_principal rt (Some (''Bearer '' @ ?token)) None ?s (Fin t) = Inr r"
    unfolding resolve_principal_def option.sel verified r(1) by simp
  then show ?thesis using settings_from_environment [OF assms(1-6)] r(2-4) by blast
qed

theorem overhead_request_framed:
  assumes "int (length (request_body dumps words tokens)) < 10 ^ 18"
  shows "serve_request (build_request dumps (make_jwt dumps hmac secret ttl now) words tokens @ rest) = Inr (Some rest)"
proof (rule serve_request_reads)
  show "CHR 13 \<notin> set (make_jwt dumps hmac secret ttl now)"
    using make_jwt_well_formed [of dumps hmac secret ttl now] by (auto simp: well_formed_token_def)
qed (rule assms)

section \<open>The percentiles of a run are ordered\<close>

lemma rank_percentile_index:
  assumes "xs \<noteq> []" and "int (length xs) \<le> 2 ^ 53" and "0 \<le> r" and "r \<le> 1"
  shows "rank_percentile xs (Fin r) = Inr (xs ! nat (max 1 (round_half_even (round64 (r * of_nat (length xs)))) - 1))
    \<and> max 1 (round_half_even (round64 (r * of_nat (length xs)))) \<le> int (length xs)"
proof -
  let ?n = "int (length xs)" and ?q = "r * of_nat (length xs)"
  have n: "to_f64 (of_int ?n) = Fin (of_int ?n)" using assms(2) by (intro to_f64_of_int) simp
  have le: "?q \<le> of_int ?n" "0 \<le> ?q" using assms(3,4) by (simp_all add: mult_left_le_one_le)
  have q: "to_f64 ?q = Fin (round64 ?q)"
    using to_f64_mono [OF le(1)] to_f64_mono [OF le(2)] n unfolding to_f64_def Let_def by (auto split: if_splits)
  have "round64 ?q \<le> of_int ?n" using round64_mono [OF le(1)] round64_of_int [of ?n] assms(2) by simp
  then have "round_half_even (round64 ?q) \<le> ?n"
    using round_half_even_mono [of "round64 ?q" "of_int ?n"] unfolding round_half_even_of_int by blast
  moreover have "1 \<le> ?n" using assms(1) by (cases xs) auto
  ultimately show ?thesis
    using assms(1,2) q by (auto simp: rank_percentile_def int_to_float_small py_nth_def Let_def)
qed

lemma fraction_bounds: "0 \<le> p \<Longrightarrow> p \<le> 100 \<Longrightarrow> \<exists>r. fraction_of p = Fin r \<and> r = round64 (of_int p / 100) \<and> 0 \<le> r \<and> r \<le> 1"
proof -
  assume p: "0 \<le> p" "p \<le> 100"
  then have le: "(of_int p / 100 :: rat) \<le> of_int 1" "(0 :: rat) \<le> of_int p / 100" by simp_all
  have one: "round64 (of_int 1) = of_int 1" by (rule round64_of_int) simp
  have "to_f64 (of_int p / 100) = Fin (round64 (of_int p / 100))"
    using to_f64_mono [OF le(1)] to_f64_mono [OF le(2)] to_f64_of_int [of 1] to_f64_of_int [of 0]
    unfolding to_f64_def Let_def by (auto split: if_splits)
  then show ?thesis
    using round64_mono [OF le(1)] round64_nonneg [OF le(2)] one by (simp add: fraction_of_def)
qed

lemma rank_percentile_mono:
  assumes "xs \<noteq> []" and "int (length xs) \<le> 2 ^ 53" and "sorted xs" and "\<forall>x \<in> set xs. finite_float x"
    and "0 \<le> p" and "p \<le> q" and "q \<le> 100"
  shows "\<exists>a b. rank_percentile xs (fraction_of p) = Inr a \<and> rank_percentile xs (fraction_of q) = Inr b \<and>
    fle a b \<and> a \<in> set xs \<and> b \<in> set xs"
proof -
  obtain r s where r: "fraction_of p = Fin r" "0 \<le> r" "r \<le> 1" "r = round64 (of_int p / 100)"
    and s: "fraction_of q = Fin s" "0 \<le> s" "s \<le> 1" "s = round64 (of_int q / 100)"
    using fraction_bounds [of p] fraction_bounds [of q] assms(5-7) by auto
  have rs: "r \<le> s" using assms(6) unfolding r(4) s(4) by (intro round64_mono) simp
  let ?i = "\<lambda>r. nat (max 1 (round_half_even (round64 (r * of_nat (length xs)))) - 1)"
  note i = rank_percentile_index [OF assms(1,2) r(2,3)] and j = rank_percentile_index [OF assms(1,2) s(2,3)]
  have "round_half_even (round64 (r * of_nat (length xs))) \<le> round_half_even (round64 (s * of_nat (length xs)))"
    using rs by (intro round_half_even_mono round64_mono mult_right_mono) simp_all
  then have ij: "?i r \<le> ?i s" "?i r < length xs" "?i s < length xs" using i j by auto
  have "finite_float (xs ! ?i r)" "finite_float (xs ! ?i s)" using assms(4) ij by simp_all
  moreover have "xs ! ?i r \<le> xs ! ?i s" using assms(3) ij by (intro sorted_nth_mono) simp_all
  ultimately have "fle (xs ! ?i r) (xs ! ?i s)" by (auto simp: finite_float_def less_eq_pyfloat_def)
  then show ?thesis using i j ij r(1) s(1) nth_mem by auto
qed

theorem summarized_run_ordered:
  assumes "latencies \<noteq> []" and "int (length latencies) \<le> 2 ^ 53" and "\<forall>x \<in> set latencies. finite_float x"
    and "elapsed = Fin e" and "e \<noteq> 0"
  shows "\<exists>r. summarize_run latencies elapsed failures = Inr r \<and> or_requests r = int (length latencies) \<and>
    fle (or_p50_us r) (or_p95_us r) \<and> fle (or_p95_us r) (or_p99_us r)"
proof -
  let ?xs = "sort latencies"
  have xs: "?xs \<noteq> []" "int (length ?xs) \<le> 2 ^ 53" "sorted ?xs" "\<forall>x \<in> set ?xs. finite_float x"
    using assms(1-3) by (auto simp flip: set_empty)
  obtain a b where ab: "rank_percentile ?xs (fraction_of 50) = Inr a" "rank_percentile ?xs (fraction_of 95) = Inr b"
      "fle a b" "a \<in> set ?xs" "b \<in> set ?xs"
    using rank_percentile_mono [OF xs, of 50 95] by auto
  obtain c where c: "rank_percentile ?xs (fraction_of 99) = Inr c" "fle b c" "c \<in> set ?xs"
    using rank_percentile_mono [OF xs, of 95 99] ab(2) by auto
  have us: "fle (microseconds x) (microseconds y)" if le: "fle x y" "x \<in> set ?xs" "y \<in> set ?xs" for x y
  proof -
    obtain u v where uv: "x = Fin u" "y = Fin v" using le xs(4) unfolding finite_float_def by blast
    then have "u * 1000000 \<le> v * 1000000" using le(1) by simp
    then show ?thesis unfolding uv microseconds_def by (simp only: fmul.simps to_f64_mono)
  qed
  let ?n = "length latencies"
  obtain rate where rate: "fdiv (Fin (of_int (int ?n))) elapsed = Inr rate" using assms(4,5) by simp
  have n: "int_to_float (int ?n) = Inr (Fin (of_int (int ?n)))" using assms(2) by (intro int_to_float_small) simp
  have "summarize_run latencies elapsed failures = Inr \<lparr>or_requests = int ?n, or_failures = failures,
      or_requests_per_second = rate, or_p50_us = microseconds a, or_p95_us = microseconds b,
      or_p99_us = microseconds c\<rparr>"
    unfolding summarize_run_def Let_def length_sort n ab(1,2) c(1) bind_result_simps rate by simp
  then show ?thesis using ab(3-5) c(2,3) us by simp
qed

end
