(* ===== verification/BenchReplicas.thy ===== *)
theory BenchReplicas
  imports RedisLimit "HOL-Library.Multiset"
begin

text \<open>
  \<^verbatim>\<open>bench/redis_replica_check.py\<close>: requests of one caller spread over several gateways, and what
  their status codes must be when all gateways share one budget. The status codes are the model's
  inputs; the HTTP calls, the clock and the report file are not modelled.
\<close>

section \<open>The check\<close>

record replica_checks =
  rc_atomic_limit :: bool
  rc_all_excess_limited :: bool
  rc_no_unexpected_status :: bool
  rc_caller_isolation :: bool
  rc_window_expiration :: bool

record replica_report =
  rr_status :: string
  rr_gateway_replicas :: int
  rr_request_limit :: int
  rr_window_seconds :: pyfloat
  rr_expiration_wait_seconds :: pyfloat
  rr_total_requests :: int
  rr_allowed :: int
  rr_limited :: int
  rr_unexpected_statuses :: "int list"
  rr_caller_isolation_status :: int
  rr_post_expiration_status :: int
  rr_checks :: replica_checks

definition all_checks :: "replica_checks \<Rightarrow> bool" where
  "all_checks c \<longleftrightarrow> rc_atomic_limit c \<and> rc_all_excess_limited c \<and> rc_no_unexpected_status c \<and>
     rc_caller_isolation c \<and> rc_window_expiration c"

definition expiration_wait :: "pyfloat \<Rightarrow> pyfloat" where
  "expiration_wait secs =
     (let tenth = fmul secs (to_f64 (1 / 10)) in
      fadd secs (if flt (Fin 1) tenth then tenth else Fin 1))"

definition replica_url :: "string list \<Rightarrow> nat \<Rightarrow> string" where
  "replica_url gateway_urls index = gateway_urls ! (index mod length gateway_urls)"

definition run_check ::
  "string list \<Rightarrow> int \<Rightarrow> pyfloat \<Rightarrow> int \<Rightarrow> (string \<Rightarrow> string \<Rightarrow> int \<Rightarrow> int) \<Rightarrow> replica_report result" where
  \<comment> \<open>\<open>request\<close> gives the status of a request by its gateway, caller and index\<close>
  "run_check gateway_urls request_limit secs total_requests request =
     bind_result (check (2 \<le> length gateway_urls)
       (ValueError ''at least two gateway URLs are required'')) (\<lambda>_.
     bind_result (check (request_limit < total_requests)
       (ValueError ''total_requests must exceed request_limit'')) (\<lambda>_.
     bind_result (check (1 \<le> total_requests)
       (ValueError ''max_workers must be greater than 0'')) (\<lambda>_.
     let statuses = map (\<lambda>i. request (replica_url gateway_urls i) ''analyst-1'' (int i)) [0..<nat total_requests];
         allowed = int (count_list statuses 200);
         limited = int (count_list statuses 429);
         unexpected = filter (\<lambda>s. s \<noteq> 200 \<and> s \<noteq> 429) statuses;
         isolated_status = request (gateway_urls ! 0) ''security-1'' (total_requests + 1);
         expired_status = request (gateway_urls ! 1) ''analyst-1'' (total_requests + 2);
         checks =
           \<lparr>rc_atomic_limit = (allowed = request_limit),
            rc_all_excess_limited = (limited = total_requests - request_limit),
            rc_no_unexpected_status = (unexpected = []),
            rc_caller_isolation = (isolated_status = 200),
            rc_window_expiration = (expired_status = 200)\<rparr>
     in Inr \<lparr>rr_status = (if all_checks checks then ''pass'' else ''fail''),
             rr_gateway_replicas = int (length gateway_urls), rr_request_limit = request_limit,
             rr_window_seconds = secs, rr_expiration_wait_seconds = expiration_wait secs,
             rr_total_requests = total_requests, rr_allowed = allowed, rr_limited = limited,
             rr_unexpected_statuses = unexpected, rr_caller_isolation_status = isolated_status,
             rr_post_expiration_status = expired_status, rr_checks = checks\<rparr>)))"

definition check_exit_code :: "replica_report \<Rightarrow> int" where
  "check_exit_code report = (if rr_status report = ''pass'' then 0 else 1)"

section \<open>Gateways that share a budget pass\<close>

lemma run_calls_length: "run_calls allow s cs = (rs, s') \<Longrightarrow> length rs = length cs"
  by (induction cs arbitrary: s rs) (auto split: prod.splits)

definition limiter_status :: "bool result \<Rightarrow> int" where
  \<comment> \<open>the gateway's answer when nothing else denies the request\<close>
  "limiter_status r = (case r of Inr True \<Rightarrow> 200 | Inr False \<Rightarrow> 429 | Inl e \<Rightarrow> 503)"

lemma limiter_status_simps [simp]:
  "limiter_status (Inr True) = 200" "limiter_status (Inr False) = 429" "limiter_status (Inl e) = 503"
  by (simp_all add: limiter_status_def)

definition own_call :: "'k \<Rightarrow> (string \<Rightarrow> string \<Rightarrow> 'k) \<Rightarrow> call \<Rightarrow> bool" where
  "own_call k slot c \<longleftrightarrow> slot (c_principal c) (c_model c) = k \<and> c_cost c = 1"

context budget_limiter
begin

lemma admitted_exactly:
  assumes "wf s" and "steady s t k l cs" and "\<forall>c \<in> set cs. own_call k slot c"
    and "run_calls allow s cs = (rs, s')" and "\<forall>r \<in> set rs. \<exists>b. r = Inr b" and "spent s t k \<le> l"
  shows "int (count_list (map limiter_status rs) 200) = min (int (length cs)) (l - spent s t k) \<and>
    count_list (map limiter_status rs) 200 + count_list (map limiter_status rs) 429 = length cs \<and> wf s'"
  using assms
proof (induction cs arbitrary: s rs)
  case (Cons c cs)
  obtain r s1 where step: "allow s (c_now c) (c_principal c) (c_model c) (c_cost c) (c_limit c) = (r, s1)"
    by fastforce
  obtain rs1 where run: "run_calls allow s1 cs = (rs1, s')" and rs: "rs = r # rs1"
    using Cons.prems(4) step by (auto simp: do_call_def split: prod.splits)
  have c: "slot (c_principal c) (c_model c) = k" "c_cost c = 1" "c_cost c \<in> costs" "1 \<le> c_limit c" "c_limit c = l"
      "same_window s k t (c_now c)" "steady s1 t k l cs"
    using Cons.prems(2,3) step by (auto simp: own_call_def do_call_def)
  have wf1: "wf s1" using wf_allow [OF Cons.prems(1) step] .
  have now: "spent s (c_now c) k = spent s t k" using same_spent [OF Cons.prems(1) c(6)] .
  obtain b where b: "r = Inr b" using Cons.prems(5) rs by auto
  note step' = step [unfolded b c(2,5)]
  have dec: "b \<longleftrightarrow> spent s t k + 1 \<le> l"
    using decision [OF Cons.prems(1) _ _ step'] c now by simp
  have spent1: "spent s1 t k = spent s t k + (if b then 1 else 0)"
  proof (cases b)
    case True
    then have "spent s1 (c_now c) k = spent s t k + 1"
      using admitted [of s 1 l "c_now c" "c_principal c" "c_model c" s1] Cons.prems(1) step' c now by simp
    moreover have "same_window s1 k t (c_now c)"
      using window_kept [OF Cons.prems(1) step] c(1,6) by simp
    then have "spent s1 (c_now c) k = spent s1 t k" using same_spent [OF wf1] by blast
    ultimately show ?thesis using True by simp
  next
    case False
    then show ?thesis using denied [of s 1 l "c_now c" "c_principal c" "c_model c" s1] Cons.prems(1) step' c by simp
  qed
  have le: "spent s1 t k \<le> l" using spent1 dec Cons.prems(6) by (cases b) auto
  have ih: "int (count_list (map limiter_status rs1) 200) = min (int (length cs)) (l - spent s1 t k)"
    "count_list (map limiter_status rs1) 200 + count_list (map limiter_status rs1) 429 = length cs" "wf s'"
    using Cons.IH [OF wf1 c(7) _ run _ le] Cons.prems(3,5) rs by simp_all
  then show ?case using spent1 dec le by (cases b) (auto simp: rs b)
qed simp

lemma others_untouched:
  "wf s \<Longrightarrow> \<forall>c \<in> set cs. slot (c_principal c) (c_model c) \<noteq> k \<Longrightarrow> run_calls allow s cs = (rs, s') \<Longrightarrow>
     spent s' t k = spent s t k"
proof (induction cs arbitrary: s rs)
  case (Cons c cs)
  obtain r s1 where step: "allow s (c_now c) (c_principal c) (c_model c) (c_cost c) (c_limit c) = (r, s1)"
    by fastforce
  obtain rs1 where run: "run_calls allow s1 cs = (rs1, s')"
    using Cons.prems(3) step by (auto simp: do_call_def split: prod.splits)
  have "k \<noteq> slot (c_principal c) (c_model c)" using Cons.prems(2) by auto
  then have "spent s1 t k = spent s t k" using other_spent [OF Cons.prems(1) step] by blast
  then show ?case using Cons.IH [OF wf_allow [OF Cons.prems(1) step] _ run] Cons.prems(2) by simp
qed simp

end

definition shared_request ::
  "int list \<Rightarrow> int \<Rightarrow> int \<Rightarrow> string \<Rightarrow> string \<Rightarrow> int \<Rightarrow> int" where
  \<comment> \<open>the statuses a run of the check saw, by index\<close>
  "shared_request statuses isolated expired url caller i =
     (if caller = ''security-1'' then isolated
      else if i < int (length statuses) then statuses ! nat i else expired)"

lemma run_check_shared:
  assumes "2 \<le> length urls" and "l < int (length statuses)" and "1 \<le> l"
  shows "\<exists>r. run_check urls l w (int (length statuses)) (shared_request statuses isolated expired) = Inr r \<and>
    (rr_status r = ''pass'' \<longleftrightarrow>
       int (count_list statuses 200) = l \<and> int (count_list statuses 429) = int (length statuses) - l \<and>
       (\<forall>s \<in> set statuses. s = 200 \<or> s = 429) \<and> isolated = 200 \<and> expired = 200)"
proof -
  have "map (\<lambda>i. shared_request statuses isolated expired (replica_url urls i) ''analyst-1'' (int i))
      [0..<length statuses] = statuses"
    by (intro nth_equalityI) (simp_all add: shared_request_def)
  moreover have "shared_request statuses isolated expired u ''security-1'' i = isolated"
    "shared_request statuses isolated expired u ''analyst-1'' (int (length statuses) + 2) = expired" for u i
    by (simp_all add: shared_request_def)
  ultimately show ?thesis
    using assms by (auto simp: run_check_def Let_def all_checks_def filter_empty_conv)
qed

lemma counted_statuses:
  "count_list xs 200 + count_list xs 429 = length xs \<Longrightarrow> s \<in> set xs \<Longrightarrow> s = 200 \<or> s = (429 :: int)"
proof (induction xs)
  case (Cons x xs)
  have "count_list xs 200 + count_list xs 429 \<le> length xs" by (induction xs) auto
  with Cons show ?case by (auto split: if_splits)
qed simp


section \<open>Gateways with budgets of their own fail\<close>

definition split_request :: "int \<Rightarrow> string list \<Rightarrow> string \<Rightarrow> string \<Rightarrow> int \<Rightarrow> int" where
  \<comment> \<open>each gateway admits its own first \<open>limit\<close> requests\<close>
  "split_request l urls url caller i = (if i div int (length urls) < l then 200 else 429)"

text \<open>
  The replica check fails gateways that each keep a budget of their own.
\<close>

theorem replicas_with_own_budgets_fail:
  assumes "run_check urls l w n (split_request l urls) = Inr r" and "1 \<le> l"
  shows "rr_status r = ''fail'' \<and> check_exit_code r = 1"
proof -
  have len: "2 \<le> length urls" "l < n" using assms(1) by (auto simp: run_check_def)
  let ?f = "\<lambda>i. split_request l urls (replica_url urls i) ''analyst-1'' (int i)"
  have each: "?f i = 200" if "int i \<le> l" for i
  proof -
    have "int i div int (length urls) < l"
    proof (cases "i = 0")
      case False
      then have "i div length urls < i" using len(1) by (intro div_less_dividend) simp_all
      then show ?thesis using that by (simp add: zdiv_int [symmetric])
    qed (use assms(2) in simp)
    then show ?thesis by (simp add: split_request_def)
  qed
  have "nat l + 1 \<le> nat n" using len assms(2) by simp
  then obtain d where d: "nat n = nat l + 1 + d" using le_Suc_ex by blast
  have "map ?f [0..<nat l + 1] = map (\<lambda>i. 200) [0..<nat l + 1]"
    using assms(2) by (intro map_cong refl each) auto
  moreover have "count_list (replicate k x) x = k" for k and x :: int by (induction k) auto
  ultimately have "count_list (map ?f [0..<nat l + 1]) 200 = nat l + 1"
    by (simp only: map_replicate_const length_upt diff_zero)
  then have "nat l + 1 \<le> count_list (map ?f [0..<nat n]) 200"
    unfolding d by (simp only: upt_add_eq_append [OF le0] map_append count_list_append)
  then have "int (count_list (map ?f [0..<nat n]) 200) \<noteq> l" using assms(2) by linarith
  then show ?thesis using assms(1) by (auto simp: run_check_def Let_def all_checks_def check_exit_code_def)
qed

end
