(* ===== verification/KubernetesSmoke.thy ===== *)
theory KubernetesSmoke
  imports BenchConfig
begin

text \<open>
  \<^verbatim>\<open>scripts/kubernetes_smoke.py\<close>: the contract that live Kubernetes objects must keep, and the
  decisions of the smoke test on the answers of the Service. The objects are parsed JSON; what
  \<^verbatim>\<open>kubectl\<close> and the Service answer is a parameter.
\<close>

section \<open>Equality and membership of JSON values\<close>

function py_eq :: "pyval \<Rightarrow> pyval \<Rightarrow> bool" where
  \<comment> \<open>\<^verbatim>\<open>==\<close>: numbers by value, dictionaries in any order\<close>
  "py_eq a b =
     (case (a, b) of
        (VList xs, VList ys) \<Rightarrow> length xs = length ys \<and> (\<forall>p \<in> set (zip xs ys). py_eq (fst p) (snd p))
      | (VDict d, VDict e) \<Rightarrow> length d = length e \<and>
          (\<forall>p \<in> set d. case dget e (fst p) of None \<Rightarrow> False | Some w \<Rightarrow> py_eq (snd p) w)
      | _ \<Rightarrow> key_eq a b)"
  by pat_completeness auto
termination
proof (relation "measure (\<lambda>(a, b). size a)", goal_cases)
  case (2 a b x y xs ys p)
  then have "size (fst p) \<le> size_list size xs"
    by (cases p) (auto dest: set_zip_leftD intro: size_list_estimation')
  then show ?case using 2 by (auto simp: split_beta')
next
  case (3 a b x y d e p w)
  then have "size (snd p) \<le> size_list (size_prod (\<lambda>_. 0) size) d"
    by (intro size_list_estimation' [of p d]) (auto simp: size_prod_simp split_beta')
  then show ?case using 3 by (auto simp: split_beta')
qed simp

declare py_eq.simps [simp del]

definition value_contains :: "pyval \<Rightarrow> string \<Rightarrow> bool result" where
  \<comment> \<open>\<^verbatim>\<open>text in value\<close>\<close>
  "value_contains v text =
     (case v of
        VList xs \<Rightarrow> Inr (VStr text \<in> set xs)
      | VDict d \<Rightarrow> Inr (text \<in> set (dkeys d))
      | VStr s \<Rightarrow> Inr (py_contains s text)
      | _ \<Rightarrow> Inl (TypeError ''argument is not iterable''))"

definition value_len :: "pyval \<Rightarrow> int result" where
  "value_len v =
     (case v of
        VList xs \<Rightarrow> Inr (int (length xs)) | VDict d \<Rightarrow> Inr (int (length d)) | VStr s \<Rightarrow> Inr (int (length s))
      | _ \<Rightarrow> Inl (TypeError ''object has no len()''))"

definition first_of :: "pyval \<Rightarrow> pyval result" where
  \<comment> \<open>\<^verbatim>\<open>v[0]\<close>\<close>
  "first_of v =
     (case v of
        VList [] \<Rightarrow> Inl (IndexError ''list index out of range'')
      | VList (x # xs) \<Rightarrow> Inr x
      | VStr (c # s) \<Rightarrow> Inr (VStr [c])
      | _ \<Rightarrow> Inl (TypeError ''not indexed by position''))"

fun dig :: "pyval \<Rightarrow> string list \<Rightarrow> pyval result" where
  \<comment> \<open>\<^verbatim>\<open>v.get(k1, {}).get(k2, {})...get(kn)\<close>\<close>
  "dig v [] = Inr v"
| "dig v [key] = value_get v key VNone"
| "dig v (key # k # keys) = bind_result (value_get v key (VDict [])) (\<lambda>w. dig w (k # keys))"

definition dig_default :: "pyval \<Rightarrow> string list \<Rightarrow> string \<Rightarrow> pyval \<Rightarrow> pyval result" where
  \<comment> \<open>\<^verbatim>\<open>v.get(k1, {})...get(key, default)\<close>\<close>
  "dig_default v keys key dflt =
     bind_result (foldl (\<lambda>r k. bind_result r (\<lambda>w. value_get w k (VDict []))) (Inr v) keys) (\<lambda>w. value_get w key dflt)"

definition require_value :: "bool \<Rightarrow> string \<Rightarrow> unit result" where
  \<comment> \<open>\<^verbatim>\<open>_require\<close>\<close>
  "require_value condition message = check condition (ValueError message)"

fun any_result :: "('a \<Rightarrow> bool result) \<Rightarrow> 'a list \<Rightarrow> bool result" where
  "any_result f [] = Inr False"
| "any_result f (x # xs) = bind_result (f x) (\<lambda>b. if b then Inr True else any_result f xs)"

fun find_result :: "('a \<Rightarrow> bool result) \<Rightarrow> 'a list \<Rightarrow> 'a option result" where
  \<comment> \<open>\<^verbatim>\<open>next((x for x in xs if f(x)), None)\<close>\<close>
  "find_result f [] = Inr None"
| "find_result f (x # xs) = bind_result (f x) (\<lambda>b. if b then Inr (Some x) else find_result f xs)"

section \<open>The runtime contract\<close>

definition IMAGE :: string where
  "IMAGE = ''secure-gpu-inference-gateway:0.1.0''"

definition check_template :: "pyval \<Rightarrow> (pyval \<times> pyval) result" where
  \<comment> \<open>the checks on the Deployment; returns its replicas and its selector\<close>
  "check_template deployment =
     bind_result (value_get deployment ''spec'' (VDict [])) (\<lambda>deployment_spec.
     bind_result (value_get deployment_spec ''replicas'' VNone) (\<lambda>replicas.
     bind_result (dig_default deployment_spec [''selector''] ''matchLabels'' (VDict [])) (\<lambda>selector.
     bind_result (value_get deployment_spec ''template'' (VDict [])) (\<lambda>template.
     bind_result (value_get template ''spec'' (VDict [])) (\<lambda>template_spec.
     bind_result (dig_default template [''metadata''] ''labels'' (VDict [])) (\<lambda>labels.
     bind_result (require_value (py_eq replicas (VInt 2)) ''deployment must request exactly two replicas'') (\<lambda>_.
     bind_result
       (if truthy selector
        then bind_result (value_items selector) (all_result (\<lambda>(key, v).
          bind_result (value_get labels key VNone) (\<lambda>l. Inr (py_eq l v))))
        else Inr False) (\<lambda>selected.
     bind_result (require_value selected ''deployment selector must match Pod labels'') (\<lambda>_.
     bind_result (value_get template_spec ''automountServiceAccountToken'' VNone) (\<lambda>automount.
     bind_result (require_value (automount = VBool False) ''service account token automount must be disabled'') (\<lambda>_.
     bind_result (value_get template_spec ''containers'' (VList [])) (\<lambda>containers.
     bind_result (value_len containers) (\<lambda>n.
     bind_result (require_value (n = 1) ''deployment must contain exactly one gateway container'') (\<lambda>_.
     bind_result (first_of containers) (\<lambda>container.
     bind_result (value_get container ''image'' VNone) (\<lambda>image.
     bind_result (require_value (image = VStr IMAGE)
       ''deployment image must match the locally built review image'') (\<lambda>_.
     bind_result (bind_result (value_get container ''envFrom'' (VList [])) value_iter) (\<lambda>sources.
     bind_result (map_result (\<lambda>source. dig source [''configMapRef'', ''name'']) sources) (\<lambda>config_refs.
     bind_result (require_value (VStr ''gateway-config'' \<in> set config_refs)
       ''deployment must consume gateway-config'') (\<lambda>_.
       Inr (replicas, selector)))))))))))))))))))))"

definition check_pod_spec :: "(string \<Rightarrow> string) \<Rightarrow> pyval \<Rightarrow> pyval \<Rightarrow> unit result" where
  "check_pod_spec message pod pod_spec =
     bind_result (value_get pod_spec ''securityContext'' (VDict [])) (\<lambda>pod_security.
     bind_result (dig pod [''status'', ''phase'']) (\<lambda>phase.
     bind_result (require_value (phase = VStr ''Running'') (message '' is not Running'')) (\<lambda>_.
     bind_result (value_get pod_spec ''automountServiceAccountToken'' VNone) (\<lambda>automount.
     bind_result (require_value (automount = VBool False) (message '' must not mount a service account token'')) (\<lambda>_.
     bind_result (value_get pod_spec ''hostNetwork'' VNone) (\<lambda>host_network.
     bind_result (require_value (host_network \<noteq> VBool True) (message '' must not use host networking'')) (\<lambda>_.
     bind_result (value_get pod_security ''runAsNonRoot'' VNone) (\<lambda>non_root.
     bind_result (require_value (non_root = VBool True) (message '' must run as non-root'')) (\<lambda>_.
     bind_result (value_get pod_security ''runAsUser'' VNone) (\<lambda>user.
     bind_result (require_value (py_eq user (VInt 10001)) (message '' must run as UID 10001'')) (\<lambda>_.
     bind_result (dig pod_security [''seccompProfile'', ''type'']) (\<lambda>seccomp.
       require_value (seccomp = VStr ''RuntimeDefault'') (message '' must use RuntimeDefault seccomp'')))))))))))))"

definition check_probe :: "(string \<Rightarrow> string) \<Rightarrow> pyval \<Rightarrow> string \<Rightarrow> unit result" where
  "check_probe message container probe_name =
     bind_result (dig_default container [probe_name] ''httpGet'' (VDict [])) (\<lambda>probe.
     bind_result (value_get probe ''path'' VNone) (\<lambda>path.
     bind_result (value_get probe ''port'' VNone) (\<lambda>port.
       require_value (path = VStr ''/health'' \<and> port = VStr ''http'')
         (message ('' must configure '' @ probe_name @ '' against the named health port'')))))"

definition has_resources :: "pyval \<Rightarrow> bool result" where
  "has_resources amounts =
     all_result (\<lambda>key. bind_result (value_get amounts key VNone) (\<lambda>v. Inr (truthy v))) [''cpu'', ''memory'']"

definition check_container :: "(string \<Rightarrow> string) \<Rightarrow> pyval \<Rightarrow> unit result" where
  "check_container message container =
     bind_result (value_get container ''image'' VNone) (\<lambda>image.
     bind_result (require_value (image = VStr IMAGE) (message '' is not running the review image'')) (\<lambda>_.
     bind_result (value_get container ''securityContext'' (VDict [])) (\<lambda>security.
     bind_result (value_get security ''privileged'' VNone) (\<lambda>privileged.
     bind_result (require_value (privileged \<noteq> VBool True) (message '' container must not be privileged'')) (\<lambda>_.
     bind_result (value_get security ''allowPrivilegeEscalation'' VNone) (\<lambda>escalation.
     bind_result (require_value (escalation = VBool False) (message '' must disable privilege escalation'')) (\<lambda>_.
     bind_result (value_get security ''readOnlyRootFilesystem'' VNone) (\<lambda>read_only.
     bind_result (require_value (read_only = VBool True) (message '' must use a read-only root filesystem'')) (\<lambda>_.
     bind_result (dig_default security [''capabilities''] ''drop'' (VList [])) (\<lambda>dropped.
     bind_result (value_contains dropped ''ALL'') (\<lambda>drops_all.
     bind_result (require_value drops_all (message '' must drop all Linux capabilities'')) (\<lambda>_.
     bind_result (value_get container ''resources'' (VDict [])) (\<lambda>resources.
     bind_result (value_get resources ''requests'' (VDict [])) (\<lambda>requests.
     bind_result (value_get resources ''limits'' (VDict [])) (\<lambda>limits.
     bind_result (all_result has_resources [requests, limits]) (\<lambda>declared.
     bind_result (require_value declared
       (message '' must declare CPU and memory requests and limits'')) (\<lambda>_.
     bind_result (check_all (check_probe message container) [''readinessProbe'', ''livenessProbe'']) (\<lambda>_.
     bind_result (bind_result (value_get container ''ports'' (VList [])) value_iter) (\<lambda>ports.
     bind_result (any_result (\<lambda>port. bind_result (value_get port ''hostPort'' VNone) (\<lambda>v. Inr (truthy v))) ports) (\<lambda>bound.
       require_value (\<not> bound) (message '' must not bind a host port'')))))))))))))))))))))"

definition check_status :: "(string \<Rightarrow> string) \<Rightarrow> pyval \<Rightarrow> unit result" where
  "check_status message pod =
     bind_result (bind_result (dig_default pod [''status''] ''containerStatuses'' (VList [])) value_iter) (\<lambda>statuses.
     bind_result (find_result (\<lambda>s. bind_result (value_get s ''name'' VNone) (\<lambda>v. Inr (v = VStr ''gateway''))) statuses)
       (\<lambda>gateway_status.
     bind_result
       (case gateway_status of None \<Rightarrow> Inr False
        | Some s \<Rightarrow> bind_result (value_get s ''ready'' VNone) (\<lambda>v. Inr (v = VBool True))) (\<lambda>ready.
       require_value ready (message '' gateway container is not ready''))))"

definition check_pod :: "(pyval \<Rightarrow> string) \<Rightarrow> pyval \<Rightarrow> unit result" where
  "check_pod repr pod =
     bind_result (dig_default pod [''metadata''] ''name'' (VStr ''unknown'')) (\<lambda>pod_name.
     let message = (\<lambda>text. ''Pod '' @ str_of repr pod_name @ text) in
     bind_result (value_get pod ''spec'' (VDict [])) (\<lambda>pod_spec.
     bind_result (check_pod_spec message pod pod_spec) (\<lambda>_.
     bind_result (value_get pod_spec ''containers'' (VList [])) (\<lambda>containers.
     bind_result (value_len containers) (\<lambda>n.
     bind_result (require_value (n = 1) (message '' must contain exactly one application container'')) (\<lambda>_.
     bind_result (first_of containers) (\<lambda>container.
     bind_result (check_container message container) (\<lambda>_.
       check_status message pod))))))))"

definition check_service :: "pyval \<Rightarrow> pyval \<Rightarrow> unit result" where
  "check_service selector service =
     bind_result (value_get service ''spec'' (VDict [])) (\<lambda>service_spec.
     bind_result (value_get service_spec ''type'' (VStr ''ClusterIP'')) (\<lambda>kind.
     bind_result (require_value (kind = VStr ''ClusterIP'') ''gateway Service must remain ClusterIP'') (\<lambda>_.
     bind_result (value_get service_spec ''selector'' VNone) (\<lambda>own.
     bind_result (require_value (py_eq own selector) ''Service selector must match Deployment selector'') (\<lambda>_.
     bind_result (value_get service_spec ''ports'' (VList [])) (\<lambda>ports.
     bind_result (value_len ports) (\<lambda>n.
     bind_result
       (if n \<noteq> 1 then Inr False
        else
          bind_result (first_of ports) (\<lambda>port.
          bind_result (value_get port ''port'' VNone) (\<lambda>number.
            if \<not> py_eq number (VInt 8000) then Inr False
            else bind_result (value_get port ''targetPort'' VNone) (\<lambda>target.
              Inr (target = VStr ''http'' \<or> py_eq target (VInt 8000)))))) (\<lambda>exposed.
       require_value exposed ''Service must expose only the named HTTP port 8000''))))))))"

definition validate_runtime_contract ::
  "(pyval \<Rightarrow> string) \<Rightarrow> pyval \<Rightarrow> pyval \<Rightarrow> pyval \<Rightarrow> pyval \<Rightarrow> unit result" where
  "validate_runtime_contract repr configmap deployment pods service =
     bind_result (dig configmap [''data'', ''ALLOW_DEMO_PRINCIPALS'']) (\<lambda>demo.
     bind_result (require_value (demo = VStr ''false'') ''ALLOW_DEMO_PRINCIPALS must be explicitly false'') (\<lambda>_.
     bind_result (check_template deployment) (\<lambda>(replicas, selector).
     bind_result (value_get pods ''items'' (VList [])) (\<lambda>items.
     bind_result (value_len items) (\<lambda>n.
     bind_result (require_value (py_eq (VInt n) replicas)
       ''ready replicas must match the deployment replica count'') (\<lambda>_.
     bind_result (bind_result (value_iter items) (check_all (check_pod repr))) (\<lambda>_.
       check_service selector service)))))))"

section \<open>The smoke test\<close>

record service_reply =
  sr_status :: int
  sr_content_type :: string
  sr_body :: string

datatype health_poll =
    Exited            \<comment> \<open>the port-forward has ended\<close>
  | Unreachable       \<comment> \<open>no answer yet\<close>
  | Answered service_reply

definition health_reply_ok :: "(string \<Rightarrow> pyval result) \<Rightarrow> service_reply \<Rightarrow> unit result" where
  "health_reply_ok json_loads r =
     bind_result (require_value (sr_status r = 200 \<and> py_contains (sr_content_type r) ''application/json'')
       ''Service health endpoint did not return JSON HTTP 200'') (\<lambda>_.
     bind_result (bind_result (json_loads (sr_body r)) (\<lambda>v. value_get v ''status'' VNone)) (\<lambda>status.
       require_value (status = VStr ''ok'') ''Service health endpoint returned an unexpected status''))"

fun is_caught :: "py_error \<Rightarrow> bool" where
  \<comment> \<open>\<^verbatim>\<open>except (OSError, URLError, ValueError)\<close>\<close>
  "is_caught (ValueError m) = True"
| "is_caught e = False"

fun wait_for_health :: "(string \<Rightarrow> pyval result) \<Rightarrow> health_poll list \<Rightarrow> unit result" where
  \<comment> \<open>the polls before the deadline\<close>
  "wait_for_health json_loads [] =
     Inl (RuntimeError ''timed out waiting for the Kubernetes Service health endpoint'')"
| "wait_for_health json_loads (Exited # polls) =
     Inl (RuntimeError ''kubectl port-forward exited before the Service became reachable'')"
| "wait_for_health json_loads (Unreachable # polls) = wait_for_health json_loads polls"
| "wait_for_health json_loads (Answered r # polls) =
     (case health_reply_ok json_loads r of
        Inr _ \<Rightarrow> Inr ()
      | Inl e \<Rightarrow> if is_caught e then wait_for_health json_loads polls else Inl e)"

definition check_replies :: "service_reply \<Rightarrow> service_reply \<Rightarrow> unit result" where
  "check_replies metrics denied =
     bind_result (require_value (sr_status metrics = 200 \<and> py_contains (sr_content_type metrics) ''text/plain'')
       ''Service metrics endpoint did not return Prometheus text HTTP 200'') (\<lambda>_.
     bind_result (require_value (py_contains (sr_body metrics) ''security_gateway_model_policy_info'')
       ''Service metrics did not expose the model-policy series'') (\<lambda>_.
     bind_result (require_value (sr_status denied = 403)
       ''unauthenticated demo-principal request was not denied'') (\<lambda>_.
       require_value (\<not> py_contains (sr_body denied) ''synthetic Kubernetes smoke check'')
         ''denial response reflected request input'')))"

definition run_smoke_test ::
  "(pyval \<Rightarrow> string) \<Rightarrow> (string \<Rightarrow> pyval result) \<Rightarrow> string \<Rightarrow> pyval \<Rightarrow> pyval \<Rightarrow> pyval \<Rightarrow> pyval \<Rightarrow>
     health_poll list \<Rightarrow> service_reply \<Rightarrow> service_reply \<Rightarrow> unit result" where
  "run_smoke_test repr json_loads kube_context configmap deployment pods service polls metrics denied =
     bind_result (check (py_startswith (py_strip kube_context) ''kind-'')
       (RuntimeError ''refusing to apply the smoke test outside a local Kind context'')) (\<lambda>_.
     bind_result (validate_runtime_contract repr configmap deployment pods service) (\<lambda>_.
     bind_result (wait_for_health json_loads polls) (\<lambda>_.
       check_replies metrics denied)))"

end
