(* ===== verification/KubernetesContract.thy ===== *)
theory KubernetesContract
  imports KubernetesSmoke
begin

text \<open>
  What an accepted Kubernetes contract guarantees, stated by paths into the objects, and a pod
  that it accepts although its container runs as root.
\<close>

section \<open>Paths into JSON values\<close>

fun value_at :: "pyval \<Rightarrow> string list \<Rightarrow> pyval option" where
  "value_at v [] = Some v"
| "value_at v (key # keys) =
     (case v of VDict d \<Rightarrow> (case dget d key of None \<Rightarrow> None | Some w \<Rightarrow> value_at w keys) | _ \<Rightarrow> None)"

lemma value_get_at: "value_get v key dflt = Inr w \<Longrightarrow> value_at v [key] = Some w \<or> value_at v [key] = None \<and> w = dflt"
  by (cases v) (auto simp: value_get_def dget_default_def split: option.splits)

lemma at_Cons: "value_get v key (VDict []) = Inr w \<Longrightarrow> keys \<noteq> [] \<Longrightarrow> value_at v (key # keys) = value_at w keys"
  by (cases v; cases keys) (auto simp: value_get_def dget_default_def split: option.splits)

lemma at_step: "value_get v key dflt = Inr w \<Longrightarrow> w \<noteq> dflt \<Longrightarrow> value_at v [key] = Some w"
  using value_get_at by blast

lemma at_missing: "value_get v key VNone = Inr w \<Longrightarrow> w \<noteq> x \<Longrightarrow> x \<noteq> VNone \<Longrightarrow> value_at v [key] \<noteq> Some x"
  using value_get_at [of v key VNone w] by auto

lemma dig_at: "dig v keys = Inr w \<Longrightarrow> w \<noteq> VNone \<Longrightarrow> value_at v keys = Some w"
proof (induction v keys rule: dig.induct)
  case (3 v key k keys)
  then obtain u where "value_get v key (VDict []) = Inr u" "dig u (k # keys) = Inr w" by auto
  then show ?case using 3 at_Cons [of v key u "k # keys"] by simp
qed (auto dest: at_step)

lemma foldl_get_at:
  "foldl (\<lambda>r k. bind_result r (\<lambda>w. value_get w k (VDict []))) (Inr v) keys = Inr u \<Longrightarrow> rest \<noteq> [] \<Longrightarrow>
     value_at v (keys @ rest) = value_at u rest"
proof (induction keys arbitrary: v)
  case (Cons key keys)
  have fail: "foldl (\<lambda>r k. bind_result r (\<lambda>w. value_get w k (VDict []))) (Inl e) ks = Inl e" for e ks
    by (induction ks) simp_all
  obtain w where w: "value_get v key (VDict []) = Inr w"
    using Cons.prems(1) fail by (cases "value_get v key (VDict [])") simp_all
  then show ?case using Cons at_Cons [OF w] by simp
qed simp

lemma dig_default_at: "dig_default v keys key dflt = Inr w \<Longrightarrow> w \<noteq> dflt \<Longrightarrow> value_at v (keys @ [key]) = Some w"
  by (auto simp: dig_default_def foldl_get_at dest!: at_step)

lemma require_value_Inr [simp]: "require_value c m = Inr u \<longleftrightarrow> c"
  by (simp add: require_value_def)

lemma bind_require [simp]: "bind_result (require_value c m) f = Inr y \<longleftrightarrow> c \<and> f () = Inr y"
  by (simp add: require_value_def)

lemma check_all_each: "check_all f xs = Inr () \<Longrightarrow> x \<in> set xs \<Longrightarrow> f x = Inr ()"
  by (induction xs) auto

section \<open>What the contract guarantees\<close>

definition hardened_container :: "pyval \<Rightarrow> bool" where
  "hardened_container c \<longleftrightarrow>
     value_at c [''image''] = Some (VStr IMAGE) \<and>
     value_at c [''securityContext'', ''privileged''] \<noteq> Some (VBool True) \<and>
     value_at c [''securityContext'', ''allowPrivilegeEscalation''] = Some (VBool False) \<and>
     value_at c [''securityContext'', ''readOnlyRootFilesystem''] = Some (VBool True) \<and>
     (\<exists>dropped. value_at c [''securityContext'', ''capabilities'', ''drop''] = Some dropped \<and>
        value_contains dropped ''ALL'' = Inr True) \<and>
     (\<forall>probe \<in> {''readinessProbe'', ''livenessProbe''}.
        value_at c [probe, ''httpGet'', ''path''] = Some (VStr ''/health'') \<and>
        value_at c [probe, ''httpGet'', ''port''] = Some (VStr ''http'')) \<and>
     (\<forall>amounts \<in> {''requests'', ''limits''}. \<forall>key \<in> {''cpu'', ''memory''}.
        \<exists>v. value_at c [''resources'', amounts, key] = Some v \<and> truthy v)"

definition hardened_pod :: "pyval \<Rightarrow> bool" where
  "hardened_pod pod \<longleftrightarrow>
     value_at pod [''status'', ''phase''] = Some (VStr ''Running'') \<and>
     value_at pod [''spec'', ''automountServiceAccountToken''] = Some (VBool False) \<and>
     value_at pod [''spec'', ''hostNetwork''] \<noteq> Some (VBool True) \<and>
     value_at pod [''spec'', ''securityContext'', ''runAsNonRoot''] = Some (VBool True) \<and>
     (\<exists>user. value_at pod [''spec'', ''securityContext'', ''runAsUser''] = Some user \<and> py_eq user (VInt 10001)) \<and>
     value_at pod [''spec'', ''securityContext'', ''seccompProfile'', ''type''] = Some (VStr ''RuntimeDefault'') \<and>
     (\<exists>c. value_at pod [''spec'', ''containers''] = Some (VList [c]) \<and> hardened_container c)"

lemma all_result_each: "all_result f xs = Inr True \<Longrightarrow> x \<in> set xs \<Longrightarrow> f x = Inr True"
  by (induction xs) (auto split: if_splits)

lemma probe_checked:
  assumes "check_probe message c probe = Inr ()"
  shows "value_at c [probe, ''httpGet'', ''path''] = Some (VStr ''/health'') \<and>
    value_at c [probe, ''httpGet'', ''port''] = Some (VStr ''http'')"
proof -
  obtain p where p: "dig_default c [probe] ''httpGet'' (VDict []) = Inr p"
    "value_get p ''path'' VNone = Inr (VStr ''/health'')" "value_get p ''port'' VNone = Inr (VStr ''http'')"
    using assms by (auto simp: check_probe_def)
  have "p \<noteq> VDict []" using p(2) by (auto simp: dget_default_def)
  then have "value_at c [probe, ''httpGet''] = Some p" using dig_default_at [OF p(1)] by simp
  then have "value_at c (probe # ''httpGet'' # keys) = value_at p keys" for keys
    by (auto split: pyval.splits option.splits)
  then show ?thesis using at_step [OF p(2)] at_step [OF p(3)] by simp
qed

lemma resources_checked:
  assumes "has_resources amounts = Inr True" and "key \<in> {''cpu'', ''memory''}"
  shows "\<exists>v. value_at amounts [key] = Some v \<and> truthy v"
proof -
  obtain v where v: "value_get amounts key VNone = Inr v" "truthy v"
    using all_result_each [OF assms(1) [unfolded has_resources_def], of key] assms(2) by auto
  then have "v \<noteq> VNone" by auto
  then show ?thesis using at_step [OF v(1)] v(2) by blast
qed

lemma container_checked:
  assumes "check_container message c = Inr ()"
  shows "hardened_container c"
proof -
  obtain security privileged dropped resources requests limits where
    image: "value_get c ''image'' VNone = Inr (VStr IMAGE)"
    and security: "value_get c ''securityContext'' (VDict []) = Inr security"
    and privileged: "value_get security ''privileged'' VNone = Inr privileged" "privileged \<noteq> VBool True"
    and escalation: "value_get security ''allowPrivilegeEscalation'' VNone = Inr (VBool False)"
    and read_only: "value_get security ''readOnlyRootFilesystem'' VNone = Inr (VBool True)"
    and dropped: "dig_default security [''capabilities''] ''drop'' (VList []) = Inr dropped"
      "value_contains dropped ''ALL'' = Inr True"
    and resources: "value_get c ''resources'' (VDict []) = Inr resources"
      "value_get resources ''requests'' (VDict []) = Inr requests"
      "value_get resources ''limits'' (VDict []) = Inr limits"
      "all_result has_resources [requests, limits] = Inr True"
    and probes: "check_all (check_probe message c) [''readinessProbe'', ''livenessProbe''] = Inr ()"
    using assms by (auto simp: check_container_def)
  have "dropped \<noteq> VList []" using dropped(2) by (auto simp: value_contains_def)
  then have "value_at security [''capabilities'', ''drop''] = Some dropped" using dig_default_at [OF dropped(1)] by simp
  moreover have "value_at c (''resources'' # ''requests'' # [key]) = value_at requests [key]"
    "value_at c (''resources'' # ''limits'' # [key]) = value_at limits [key]" for key
    by (simp_all only: at_Cons [OF resources(1)] at_Cons [OF resources(2)] at_Cons [OF resources(3)] list.distinct not_False_eq_True)
  moreover have "has_resources requests = Inr True" "has_resources limits = Inr True"
    using all_result_each [OF resources(4)] by simp_all
  ultimately show ?thesis
    using at_step [OF image] at_step [OF escalation] at_step [OF read_only] at_missing [OF privileged]
      resources_checked [of requests] resources_checked [of limits] dropped(2)
      check_all_each [OF probes] probe_checked [of message c]
    unfolding hardened_container_def
    by (simp only: at_Cons [OF security] list.distinct not_False_eq_True) auto
qed

lemma one_container:
  assumes "value_get v key (VList []) = Inr xs" and "value_len xs = Inr 1" and "first_of xs = Inr c"
    and "value_get c k d = Inr w"
  shows "value_at v [key] = Some (VList [c])"
proof -
  obtain cd where c: "c = VDict cd" using assms(4) by (cases c) (simp_all add: value_get_def)
  have "xs = VList [c]"
    using assms(2,3) by (auto simp: c value_len_def first_of_def length_Suc_conv split: pyval.splits list.splits)
  then show ?thesis using value_get_at [OF assms(1)] by auto
qed

lemma pod_checked:
  assumes "check_pod repr pod = Inr ()"
  shows "hardened_pod pod"
proof -
  obtain pod_spec message containers c where
    spec: "value_get pod ''spec'' (VDict []) = Inr pod_spec"
    and pod_spec: "check_pod_spec message pod pod_spec = Inr ()"
    and containers: "value_get pod_spec ''containers'' (VList []) = Inr containers" "value_len containers = Inr 1"
      "first_of containers = Inr c" "check_container message c = Inr ()"
    using assms by (auto simp: check_pod_def Let_def)
  obtain security host_network user where
    security: "value_get pod_spec ''securityContext'' (VDict []) = Inr security"
    and phase: "dig pod [''status'', ''phase''] = Inr (VStr ''Running'')"
    and automount: "value_get pod_spec ''automountServiceAccountToken'' VNone = Inr (VBool False)"
    and host: "value_get pod_spec ''hostNetwork'' VNone = Inr host_network" "host_network \<noteq> VBool True"
    and non_root: "value_get security ''runAsNonRoot'' VNone = Inr (VBool True)"
    and user: "value_get security ''runAsUser'' VNone = Inr user" "py_eq user (VInt 10001)"
    and seccomp: "dig security [''seccompProfile'', ''type''] = Inr (VStr ''RuntimeDefault'')"
    using pod_spec by (auto simp: check_pod_spec_def)
  have "user \<noteq> VNone" using user(2) by (auto simp: py_eq.simps [of VNone] key_eq_def)
  then have u: "value_at security [''runAsUser''] = Some user" using at_step [OF user(1)] by simp
  obtain image where "value_get c ''image'' VNone = Inr image"
    using containers(4) by (auto simp: check_container_def)
  then have one: "value_at pod_spec [''containers''] = Some (VList [c])"
    using one_container [OF containers(1-3)] by blast
  show ?thesis
    using dig_at [OF phase] at_step [OF automount] at_missing [OF host] at_step [OF non_root] u user(2)
      dig_at [OF seccomp] one container_checked [OF containers(4)]
    unfolding hardened_pod_def
    by (simp only: at_Cons [OF spec] at_Cons [OF security] list.distinct not_False_eq_True) auto
qed

lemma items_checked:
  assumes "value_get pods ''items'' (VList []) = Inr items" and "value_len items = Inr 2"
    and "bind_result (value_iter items) (check_all (check_pod repr)) = Inr ()"
  shows "\<exists>a b. value_at pods [''items''] = Some (VList [a, b]) \<and> hardened_pod a \<and> hardened_pod b"
proof -
  obtain xs where xs: "value_iter items = Inr xs" "check_all (check_pod repr) xs = Inr ()" using assms(3) by auto
  have no_text: "check_pod repr (VStr s) \<noteq> Inr ()" for s
    by (auto simp: check_pod_def dig_default_def value_get_def)
  have "xs \<noteq> []" using xs(1) assms(2) by (cases items) (auto simp: value_len_def dkeys_def)
  then obtain x xs' where x: "xs = x # xs'" "check_pod repr x = Inr ()" using xs(2) by (cases xs) auto
  then have "x \<noteq> VStr s" for s using no_text by blast
  then have "items = VList xs" using xs(1) x(1) by (cases items) auto
  moreover obtain a b where "xs = [a, b]"
    using assms(2) calculation by (auto simp: value_len_def numeral_2_eq_2 length_Suc_conv)
  ultimately show ?thesis
    using value_get_at [OF assms(1)] xs(2) pod_checked [of repr] by auto
qed

text \<open>
  C13: A deployment that passes the runtime contract has demo principals switched off, exactly
  two running hardened pods, and an internal Service with the deployment's own selector.
\<close>

theorem runtime_contract_enforced:
  assumes "validate_runtime_contract repr configmap deployment pods service = Inr ()"
  shows "value_at configmap [''data'', ''ALLOW_DEMO_PRINCIPALS''] = Some (VStr ''false'') \<and>
    (\<exists>a b. value_at pods [''items''] = Some (VList [a, b]) \<and> hardened_pod a \<and> hardened_pod b) \<and>
    (\<forall>kind. value_at service [''spec'', ''type''] = Some kind \<longrightarrow> kind = VStr ''ClusterIP'') \<and>
    (\<exists>own selector. value_at deployment [''spec'', ''selector'', ''matchLabels''] = Some selector \<and>
       value_at service [''spec'', ''selector''] = Some own \<and> py_eq own selector \<and> truthy selector)"
proof -
  obtain replicas selector items n where
    demo: "dig configmap [''data'', ''ALLOW_DEMO_PRINCIPALS''] = Inr (VStr ''false'')"
    and template: "check_template deployment = Inr (replicas, selector)"
    and items: "value_get pods ''items'' (VList []) = Inr items" "value_len items = Inr n"
      "py_eq (VInt n) replicas" "bind_result (value_iter items) (check_all (check_pod repr)) = Inr ()"
    and service: "check_service selector service = Inr ()"
    using assms by (auto simp: validate_runtime_contract_def)
  obtain deployment_spec where
    ds: "value_get deployment ''spec'' (VDict []) = Inr deployment_spec"
      "dig_default deployment_spec [''selector''] ''matchLabels'' (VDict []) = Inr selector"
    and two: "py_eq replicas (VInt 2)" and selector: "truthy selector"
    using template by (auto simp: check_template_def split: if_splits)
  have "selector \<noteq> VDict []" using selector by auto
  then have sel: "value_at deployment [''spec'', ''selector'', ''matchLabels''] = Some selector"
    using dig_default_at [OF ds(2)] at_Cons [OF ds(1)] by simp
  have "n = 2"
    using two items(3) by (cases replicas; cases "case replicas of VNum m \<Rightarrow> m | _ \<Rightarrow> NInt 0")
      (auto simp: py_eq.simps key_eq_def num_eq_def feq_def split: if_splits)
  then have pods: "\<exists>a b. value_at pods [''items''] = Some (VList [a, b]) \<and> hardened_pod a \<and> hardened_pod b"
    using items_checked [OF items(1) _ items(4)] items(2) by simp
  obtain service_spec own where
    ss: "value_get service ''spec'' (VDict []) = Inr service_spec"
      "value_get service_spec ''type'' (VStr ''ClusterIP'') = Inr (VStr ''ClusterIP'')"
      "value_get service_spec ''selector'' VNone = Inr own" "py_eq own selector"
    using service by (auto simp: check_service_def)
  have "own \<noteq> VNone"
    using ss(4) selector by (cases selector) (auto simp: py_eq.simps [of VNone] key_eq_def)
  then have own: "value_at service [''spec'', ''selector''] = Some own"
    using at_step [OF ss(3)] at_Cons [OF ss(1)] by simp
  have kind: "value_at service_spec [''type''] = Some kind \<Longrightarrow> kind = VStr ''ClusterIP''" for kind
    using value_get_at [OF ss(2)] by auto
  show ?thesis
    using dig_at [OF demo] pods sel own ss(4) selector kind at_Cons [OF ss(1), of "[''type'']"] by auto
qed

section \<open>A container that overrides the Pod's user\<close>

definition a_container :: "(string \<times> pyval) list \<Rightarrow> pyval" where
  "a_container extra =
     VDict [(''image'', VStr IMAGE),
       (''securityContext'', VDict ([(''allowPrivilegeEscalation'', VBool False),
          (''readOnlyRootFilesystem'', VBool True),
          (''capabilities'', VDict [(''drop'', VList [VStr ''ALL''])])] @ extra)),
       (''resources'', VDict [(''requests'', VDict [(''cpu'', VStr ''1''), (''memory'', VStr ''1Gi'')]),
          (''limits'', VDict [(''cpu'', VStr ''1''), (''memory'', VStr ''1Gi'')])]),
       (''readinessProbe'', VDict [(''httpGet'', VDict [(''path'', VStr ''/health''), (''port'', VStr ''http'')])]),
       (''livenessProbe'', VDict [(''httpGet'', VDict [(''path'', VStr ''/health''), (''port'', VStr ''http'')])])]"

definition a_pod :: "(string \<times> pyval) list \<Rightarrow> pyval" where
  "a_pod extra =
     VDict [(''status'', VDict [(''phase'', VStr ''Running''),
          (''containerStatuses'', VList [VDict [(''name'', VStr ''gateway''), (''ready'', VBool True)]])]),
       (''spec'', VDict [(''automountServiceAccountToken'', VBool False),
          (''securityContext'', VDict [(''runAsNonRoot'', VBool True), (''runAsUser'', VInt 10001),
             (''seccompProfile'', VDict [(''type'', VStr ''RuntimeDefault'')])]),
          (''containers'', VList [a_container extra])])]"

definition some_labels :: pyval where
  "some_labels = VDict [(''app'', VStr ''gateway'')]"

definition a_deployment :: pyval where
  "a_deployment =
     VDict [(''spec'', VDict [(''replicas'', VInt 2), (''selector'', VDict [(''matchLabels'', some_labels)]),
       (''template'', VDict [(''metadata'', VDict [(''labels'', some_labels)]),
          (''spec'', VDict [(''automountServiceAccountToken'', VBool False),
             (''containers'', VList [VDict [(''image'', VStr IMAGE),
                (''envFrom'', VList [VDict [(''configMapRef'', VDict [(''name'', VStr ''gateway-config'')])]])]])])])])]"

definition a_service :: pyval where
  "a_service =
     VDict [(''spec'', VDict [(''selector'', some_labels),
       (''ports'', VList [VDict [(''port'', VInt 8000), (''targetPort'', VStr ''http'')]])])]"

definition a_configmap :: pyval where
  "a_configmap = VDict [(''data'', VDict [(''ALLOW_DEMO_PRINCIPALS'', VStr ''false'')])]"

definition validates :: "(string \<times> pyval) list \<Rightarrow> bool" where
  "validates extra \<longleftrightarrow>
     validate_runtime_contract (\<lambda>v. []) a_configmap a_deployment (VDict [(''items'', VList [a_pod extra, a_pod extra])])
       a_service = Inr ()"

theorem root_container_accepted:
  "let root = [(''runAsUser'', VInt 0), (''runAsNonRoot'', VBool False)] in
   value_at (a_container root) [''securityContext'', ''runAsUser''] = Some (VInt 0) \<and> validates root"
  by code_simp

end
