(* ===== verification/BenchWitnesses.thy ===== *)
theory BenchWitnesses
  imports BenchAccounting BenchDistribution BenchEvidence BenchControlPath BenchReplicas KubernetesContract RedisStore
begin

text \<open>
  The properties of the offline benchmark calculations that have a hypothesis, each at a concrete input where
  its hypotheses hold, and the runs that two findings are about.
\<close>

section \<open>Configuration and schedule\<close>

definition two_workloads :: row where
  "two_workloads = a_config [''short'', ''long''] [VInt 1, VInt 4] 2"

lemma two_workloads_valid: "validate_config (\<lambda>v. []) two_workloads = Inr ()"
  by code_simp

lemma two_workloads_scheduled:
  obtains rows where "build_schedule two_workloads = Inr rows"
proof -
  have "\<not> isl (build_schedule two_workloads)" by code_simp
  then show ?thesis using that by (auto simp: isl_def) (metis isl_def sum.exhaust_sel)
qed


lemma identifiers_distinct_witness:
  "\<exists>rows ids. build_schedule two_workloads = Inr rows \<and> map_result condition_id rows = Inr ids \<and> distinct ids"
proof -
  obtain rows where rows: "build_schedule two_workloads = Inr rows"
    by (rule two_workloads_scheduled)
  have w: "config_list two_workloads ''workloads'' = Inr (map a_workload [''short'', ''long''])"
    "map_result workload_name (map a_workload [''short'', ''long'']) = Inr [''short'', ''long'']"
    "distinct (map safe_name [''short'', ''long''])"
    by code_simp+
  show ?thesis using identifiers_distinct [OF two_workloads_valid rows w] rows by blast
qed

section \<open>Redaction\<close>

lemma sanitized_error_hides_witness:
  "sanitize_error ''POST  http://10.0.0.1/v1 failed'' = Some ''POST <endpoint> failed'' \<and>
   \<not> shows_endpoint ''POST <endpoint> failed''"
proof -
  have s: "sanitize_error ''POST  http://10.0.0.1/v1 failed'' = Some ''POST <endpoint> failed''" by code_simp
  from s sanitized_error_hides [OF s] show ?thesis by blast
qed

section \<open>Statistics\<close>

lemma distribution_ordered_witness:
  "\<exists>d. distribution_of [Fin 3, Fin 1, Fin 2] = Inr d \<and> di_count d = 3 \<and>
     ordered_floats [di_min d, di_p50 d, di_p95 d, di_p99 d, di_max d]"
proof -
  have "\<forall>f \<in> set [Fin 3, Fin 1, Fin 2]. sample_ok f" by code_simp
  from distribution_ordered [OF this] show ?thesis by simp
qed

lemma histogram_bound_covers_witness:
  "histogram_bound [(''0.5'', Fin 1), (''1'', Fin 2), (''+Inf'', Fin 2)] 2 95 = Inr (Some (Fin 1000)) \<and>
   (\<exists>b \<in> bucket_bounds [(''0.5'', Fin 1), (''1'', Fin 2), (''+Inf'', Fin 2)].
      Fin 1000 = fround 6 (fmul b (Fin 1000)) \<and> 190 \<le> 100 * at_most [Fin (1 / 4), Fin (3 / 4)] b)"
proof -
  let ?bs = "[(''0.5'', Fin 1), (''1'', Fin 2), (''+Inf'', Fin 2)]" and ?xs = "[Fin (1 / 4), Fin (3 / 4)]"
  have c: "cumulative_buckets ?xs ?bs" by code_simp
  have "py_float ''0.5'' \<noteq> Some NaN" "py_float ''1'' \<noteq> Some NaN" by code_simp+
  then have n: "NaN \<notin> bucket_bounds ?bs" by (auto simp: bucket_bounds_def)
  have h: "histogram_bound ?bs (int (length ?xs)) 95 = Inr (Some (Fin 1000))" by code_simp
  have "\<exists>b \<in> bucket_bounds ?bs. Fin 1000 = fround 6 (fmul b (Fin 1000)) \<and>
      95 * int (length ?xs) \<le> 100 * at_most ?xs b"
    using histogram_bound_covers [OF _ _ _ _ c n, of 95] unfolding h by auto
  with h show ?thesis by simp
qed

definition limiter_rows :: "row list" where
  "limiter_rows = [[(''count'', VInt 2), (''p95_upper_bound_ms'', VInt 4)], [(''count'', VInt 1), (''p95_upper_bound_ms'', VInt 8)]]"

lemma conservative_bound_covers_witness:
  "conservative_max_bound limiter_rows ''p95_upper_bound_ms'' = Inr (Some (Fin 8)) \<and>
   covers 95 (Fin 8) (concat [[Fin 1, Fin 3], [Fin 7]])"
proof -
  have b: "conservative_max_bound limiter_rows ''p95_upper_bound_ms'' = Inr (Some (Fin 8))" by code_simp
  have f: "int_to_float 4 = Inr (Fin 4)" "int_to_float 8 = Inr (Fin 8)" "truthy (VInt 2)" "truthy (VInt 1)"
    by code_simp+
  have "list_all2 (row_covers 95 ''p95_upper_bound_ms'') limiter_rows [[Fin 1, Fin 3], [Fin 7]]"
    by (simp add: limiter_rows_def row_covers_def row_count_def row_get_def dget_default_def value_or_def
        value_to_int_def value_to_float_def f covers_def finite_float_def del: truthy.simps)
  from b conservative_bound_covers [OF b this] show ?thesis by blast
qed

section \<open>A run and its headline\<close>

definition a_sample :: "string \<Rightarrow> int \<Rightarrow> int \<times> int \<Rightarrow> row" where
  "a_sample path repetition s =
     [(''condition_id'', VStr (path @ int_str repetition)), (''path'', VStr path), (''workload'', VStr ''w''),
      (''concurrency'', VInt 1), (''repetition'', VInt repetition), (''request_index'', VInt (fst s)),
      (''prompt_tokens'', VInt 0), (''requested_output_tokens'', VInt 4), (''success'', VBool True),
      (''total_latency_ms'', VInt (snd s))]"

definition run_samples :: "string \<Rightarrow> int \<Rightarrow> int list \<Rightarrow> row list" where
  "run_samples path repetition latencies = map (a_sample path repetition) (enumerated latencies)"

definition a_condition :: "string \<Rightarrow> int \<Rightarrow> row" where
  "a_condition path repetition =
     [(''condition_id'', VStr (path @ int_str repetition)), (''path'', VStr path), (''workload'', VStr ''w''),
      (''concurrency'', VInt 1), (''status'', VStr ''completed''), (''completed_requests'', VInt 15),
      (''failed_requests'', VInt 0)]"

definition even_samples :: "row list" where
  "even_samples =
     run_samples ''direct'' 0 [0] @ run_samples ''gateway'' 0 [0] @
     run_samples ''gateway'' 1 [0] @ run_samples ''direct'' 1 [0]"

definition even_conditions :: "row list" where
  "even_conditions =
     [a_condition ''direct'' 0, a_condition ''gateway'' 0, a_condition ''gateway'' 1, a_condition ''direct'' 1]"

definition even_config :: row where
  "even_config = [(''workloads'', VList [VDict [(''name'', VStr ''w'')]]), (''concurrency'', VList [VInt 1]),
     (''repetitions'', VInt 2), (''headline'', VDict [(''workload'', VStr ''w''), (''concurrency'', VInt 1)])]"

definition claims_latency :: "row list \<Rightarrow> row list \<Rightarrow> row \<Rightarrow> bool" where
  "claims_latency samples conditions config =
     (case analyze_run samples conditions [] config of
        Inr s \<Rightarrow> (case rs_headline s of Supported g h \<Rightarrow> hl_latency_claim_supported h | _ \<Rightarrow> False)
      | _ \<Rightarrow> False)"

lemma even_run: "claims_latency even_samples even_conditions even_config"
  by code_simp

lemma even_run_headline:
  obtains s g h where "analyze_run even_samples even_conditions [] even_config = Inr s"
    "rs_headline s = Supported g h" "hl_latency_claim_supported h"
  using even_run by (auto simp: claims_latency_def split: sum.splits headline.splits)

lemma headline_evidence_witness:
  "\<exists>s g h repetitions. analyze_run even_samples even_conditions [] even_config = Inr s \<and>
     rs_headline s = Supported g h \<and>
     bind_result (dict_item even_config ''repetitions'') value_to_int = Inr repetitions \<and>
     path_evidence (counts_of ''direct'' (hl_workload h) (hl_concurrency h) even_conditions) \<and>
     (\<forall>r \<in> {0..<repetitions}. shapes_match even_samples (hl_workload h) (hl_concurrency h) r)"
proof -
  obtain s g h where s: "analyze_run even_samples even_conditions [] even_config = Inr s" "rs_headline s = Supported g h"
    by (rule even_run_headline)
  with headline_evidence [OF s] show ?thesis by blast
qed

lemma groups_partition_samples_witness:
  "\<exists>conditions groups. summarize_groups even_samples even_conditions [] conditions = Inr groups \<and>
     (\<Sum>g\<leftarrow>groups. sg_requests g) = 4"
proof -
  obtain s where "analyze_run even_samples even_conditions [] even_config = Inr s" by (rule even_run_headline)
  then obtain conditions groups where g: "summarize_groups even_samples even_conditions [] conditions = Inr groups"
    by (auto simp: analyze_run_def)
  have "length even_samples = 4" by code_simp
  with g groups_partition_samples [OF g] show ?thesis by auto
qed

text \<open>
  The supported claim quotes the difference of the pooled medians, while its reason is about the
  repetitions. Here neither repetition shows the gateway faster, and the pooled medians do.
\<close>

definition mixed_samples :: "row list" where
  "mixed_samples =
     run_samples ''direct'' 0 [5, 5, 9] @ run_samples ''gateway'' 0 [1, 5, 5] @
     run_samples ''gateway'' 1 [1, 9, 9] @ run_samples ''direct'' 1 [5, 9, 9]"

definition paired_differences :: "row list \<Rightarrow> pyfloat option list result" where
  "paired_differences samples =
     bind_result (index_samples samples) (\<lambda>index.
     bind_result (paired_run_comparisons index [] ''w'' 1 2) (\<lambda>runs.
       Inr (if latency_claim_supported runs then map pd_p50_latency_difference_ms runs else [])))"

definition pooled_p50 :: "string \<Rightarrow> row list \<Rightarrow> pyfloat option result" where
  "pooled_p50 path samples =
     bind_result (floats_of (map (\<lambda>r. row_get r ''total_latency_ms'')
       (filter (\<lambda>r. row_get r ''path'' = VStr path) samples))) (\<lambda>xs.
     bind_result (bench_percentile xs 50) (\<lambda>p. Inr (rounded_float p)))"

theorem paired_and_pooled_disagree:
  "paired_differences mixed_samples = Inr [Some (Fin 0), Some (Fin 0)] \<and>
   bind_result (pooled_p50 ''gateway'' mixed_samples) (\<lambda>g.
     bind_result (pooled_p50 ''direct'' mixed_samples) (\<lambda>d. Inr (difference g d))) = Inr (Some (Fin (- 2)))"
  by (rule conjI) code_simp+

section \<open>The overhead benchmark\<close>

lemma drive_counts_witness:
  "\<exists>s. drive_reachable 1 1 s \<and> drive_returns s \<and> ds_failures s = 0 \<and> int (length (ds_latencies s)) = 1"
proof -
  define s1 where "s1 = set_worker 0 Waiting ((drive_start 1 1)\<lparr>ds_remaining := 0\<rparr>)"
  define s2 where "s2 = set_worker 0 Idle (s1\<lparr>ds_latencies := [Fin 1]\<rparr>)"
  define s3 where "s3 = set_worker 0 Left s2"
  note defs = s1_def s2_def s3_def drive_start_def set_worker_def
  have "drive_step (drive_start 1 1) s1" using drive_step.send [of 0 "drive_start 1 1"] by (simp add: defs)
  moreover have "drive_step s1 s2" using drive_step.reply [of 0 s1 "Fin 1"] by (simp add: defs)
  moreover have "drive_step s2 s3" using drive_step.leave [of 0 s2] by (simp add: defs)
  ultimately have r: "drive_reachable 1 1 s3"
    unfolding drive_reachable_def by (meson converse_rtranclp_into_rtranclp rtranclp.rtrancl_refl)
  have "drive_returns s3" by (simp add: drive_returns_def defs)
  from r this drive_counts [OF r this] show ?thesis by auto
qed

definition pair_runtime :: jwt_runtime where
  \<comment> \<open>two JSON texts\<close>
  "pair_runtime = \<lparr>hmac_sha256 = (\<lambda>key text. ''mac''),
     json_loads = (\<lambda>text. Inr (if text = ''h'' then token_header else VDict (token_claims 1000 86400)))\<rparr>"

definition pair_dumps :: "pyval \<Rightarrow> string" where
  "pair_dumps v = (if v = token_header then ''h'' else ''c'')"

lemma overhead_token_accepted_witness:
  "\<exists>settings r p. auth_settings_from_env (gateway_environment Map.empty ''s3cret'') = Inr settings \<and>
    resolve_principal pair_runtime
      (Some (''Bearer '' @ make_jwt pair_dumps (hmac_sha256 pair_runtime) ''s3cret'' 86400 1000)) None settings (Fin 1001) = Inr r \<and>
    rp_principal r = Some p \<and> p_principal_id p = ''overhead-benchmark-client'' \<and> roles p = {''analyst''}"
proof (rule overhead_token_accepted)
  show "py_strip ''s3cret'' = ''s3cret''" by code_simp
  show "json_loads pair_runtime (pair_dumps token_header) = Inr token_header"
    by (simp add: pair_runtime_def pair_dumps_def)
  show "json_loads pair_runtime (pair_dumps (VDict (token_claims 1000 86400))) = Inr (VDict (token_claims 1000 86400))"
    by (simp add: pair_runtime_def pair_dumps_def token_header_def token_claims_def)
qed simp_all

lemma overhead_request_framed_witness:
  "serve_request (build_request (\<lambda>v. ''{}'') (make_jwt (\<lambda>v. ''{}'') (\<lambda>k t. ''mac'') ''s'' 60 0) 64 16 @ ''GET'') =
     Inr (Some ''GET'')"
  by (rule overhead_request_framed) (simp add: request_body_def)

lemma summarized_run_ordered_witness:
  "\<exists>r. summarize_run [Fin 2, Fin 1] (Fin 3) 0 = Inr r \<and> or_requests r = 2 \<and>
     fle (or_p50_us r) (or_p95_us r) \<and> fle (or_p95_us r) (or_p99_us r)"
  using summarized_run_ordered [of "[Fin 2, Fin 1]" "Fin 3" 3 0] by (simp add: finite_float_def)

section \<open>Replicas\<close>

definition caller_digest :: "string \<Rightarrow> string" where
  "caller_digest x = replicate 64 (if x = ''analyst-1'' then CHR ''0'' else CHR ''f'')"

definition request_keys :: redis_limiter where
  "request_keys = \<lparr>rl_budget_type = ''requests'', rl_window_seconds = 60, rl_key_prefix = ''gw''\<rparr>"

definition check_call :: "rat \<Rightarrow> call" where
  "check_call t = \<lparr>c_now = Fin t, c_principal = ''analyst-1'', c_model = ''benchmark-echo'', c_cost = 1, c_limit = 1\<rparr>"

abbreviation check_allow :: "(string \<rightharpoonup> string) allow_fun" where
  "check_allow \<equiv> redis_allow caller_digest map_eval request_keys"

definition store_after :: "string \<rightharpoonup> string" where
  "store_after = snd (run_calls check_allow Map.empty [check_call 61, check_call 62])"

definition store_isolated :: "string \<rightharpoonup> string" where
  "store_isolated = snd (check_allow store_after (Fin 63) ''security-1'' ''benchmark-echo'' 1 1)"


lemma replicas_with_own_budgets_fail_witness:
  "\<exists>r. run_check [''a'', ''b''] 1 (Fin 60) 3 (split_request 1 [''a'', ''b'']) = Inr r \<and> rr_status r = ''fail'' \<and>
     check_exit_code r = 1"
proof -
  obtain r where r: "run_check [''a'', ''b''] 1 (Fin 60) 3 (split_request 1 [''a'', ''b'']) = Inr r"
    by (auto simp: run_check_def Let_def)
  with replicas_with_own_budgets_fail [OF r] show ?thesis by auto
qed

section \<open>The Kubernetes contract\<close>

lemma runtime_contract_enforced_witness:
  "\<exists>a b. value_at (VDict [(''items'', VList [a_pod [], a_pod []])]) [''items''] = Some (VList [a, b]) \<and>
     hardened_pod a \<and> hardened_pod b"
proof -
  have "validates []" by code_simp
  from runtime_contract_enforced [OF this [unfolded validates_def]] show ?thesis by blast
qed

end
