(* ===== verification/BenchEnvironment.thy ===== *)
theory BenchEnvironment
  imports BenchResources
begin

text \<open>
  \<^verbatim>\<open>bench/environment.py\<close>: what is recorded about the host of a run. The host is a parameter: the
  texts of \<^verbatim>\<open>platform\<close>, the installed packages, the output of commands, \<^verbatim>\<open>psutil\<close> when it is
  installed, \<^verbatim>\<open>/proc/cpuinfo\<close> and what Redis answers.
\<close>

section \<open>The host\<close>

datatype redis_setting = SettingBytes string | SettingValue pyval

datatype redis_reply =
    RedisRaised string    \<comment> \<open>the class of the exception\<close>
  | RedisReplied pyfloat row "string \<Rightarrow> redis_setting"
      \<comment> \<open>seconds of the ping, the server section, the configuration\<close>

record host =
  ho_captured_at :: string
  ho_platform :: string
  ho_system :: string
  ho_release :: string
  ho_version :: string
  ho_python_version :: string
  ho_python_implementation :: string
  ho_executable :: string
  ho_processor :: string
  ho_cpu_count :: "int option"
  ho_cpuinfo :: "string option"
  ho_memory :: "(int \<times> int option) option"    \<comment> \<open>\<^verbatim>\<open>psutil\<close>: total memory and physical cores\<close>
  ho_package :: "string \<Rightarrow> string option"
  ho_run_text :: run_text
  ho_json_loads :: "string \<Rightarrow> pyval option"    \<comment> \<open>\<open>None\<close>: not JSON\<close>
  ho_environ :: environ
  ho_redis :: "string \<Rightarrow> redis_reply"

section \<open>Processor, packages and interpreters\<close>

definition truthy_text :: "string \<Rightarrow> pyval" where
  \<comment> \<open>\<^verbatim>\<open>text or None\<close>\<close>
  "truthy_text s = (if s = [] then VNone else VStr s)"

definition model_name_line :: "string \<Rightarrow> bool" where
  "model_name_line line \<longleftrightarrow> py_startswith (py_lower line) ''model name''"

definition cpu_model :: "host \<Rightarrow> pyval" where
  "cpu_model h =
     (let named = (case (ho_system h = ''Linux'', ho_cpuinfo h) of
          (True, Some text) \<Rightarrow> List.find model_name_line (py_splitlines text)
        | _ \<Rightarrow> None)
      in case named of
           Some line \<Rightarrow> VStr (py_strip (snd (snd (py_partition (CHR '':'') line))))
         | None \<Rightarrow> truthy_text (ho_processor h))"

definition PACKAGE_NAMES :: "string list" where
  "PACKAGE_NAMES = [''vllm'', ''torch'', ''fastapi'', ''httpx'', ''redis'', ''psutil'']"

definition package_version :: "host \<Rightarrow> string \<Rightarrow> pyval" where
  "package_version h name = opt_str (ho_package h name)"

definition PYTHON_ENVIRONMENT_SCRIPT :: string where
  "PYTHON_ENVIRONMENT_SCRIPT = py_join [CHR 10]
     [''import importlib.metadata'', ''import json'', ''import platform'', [],
      ''names = (\"vllm\", \"torch\", \"fastapi\", \"httpx\", \"redis\", \"psutil\")'',
      ''versions = {}'',
      ''for name in names:'',
      ''    try:'',
      ''        versions[name] = importlib.metadata.version(name)'',
      ''    except importlib.metadata.PackageNotFoundError:'',
      ''        versions[name] = None'',
      ''print(json.dumps({\"python\": platform.python_version(), \"packages\": versions}))'']"

definition TORCH_RUNTIME_SCRIPT :: string where
  "TORCH_RUNTIME_SCRIPT = py_join [CHR 10]
     [''import json'', ''import torch'', [],
      ''print(json.dumps({\"version\": torch.__version__, \"cuda_build\": torch.version.cuda}))'']"

definition command_parts :: "pyval \<Rightarrow> string list result" where
  \<comment> \<open>the arguments of a command, which must be texts\<close>
  "command_parts v =
     bind_result (value_iter v)
       (map_result (\<lambda>p. case p of VStr s \<Rightarrow> Inr s | _ \<Rightarrow> Inl (TypeError ''expected str, bytes or os.PathLike object'')))"

definition script_payload :: "row \<Rightarrow> string option \<Rightarrow> host \<Rightarrow> pyval result" where
  \<comment> \<open>the JSON object that a script printed, or \<open>missing\<close>\<close>
  "script_payload missing output h =
     (case output of
        None \<Rightarrow> Inr (VDict missing)
      | Some text \<Rightarrow>
          (case ho_json_loads h text of
             None \<Rightarrow> Inr (VDict missing)
           | Some payload \<Rightarrow>
               bind_result (value_items payload) (\<lambda>fields.
                 Inr (VDict (dict_update [(''available'', VBool True)] fields)))))"

definition capture_python_environment :: "host \<Rightarrow> string \<times> pyval \<Rightarrow> (string \<times> pyval) result" where
  "capture_python_environment h e =
     bind_result (command_parts (snd e)) (\<lambda>command.
     bind_result (script_payload [(''available'', VBool False)]
         (ho_run_text h (command @ [''-c'', PYTHON_ENVIRONMENT_SCRIPT])) h) (\<lambda>payload.
       Inr (fst e, payload)))"

definition capture_python_environments :: "host \<Rightarrow> row \<Rightarrow> pyval result" where
  "capture_python_environments h config =
     bind_result (value_items (dget_default config ''python_environments'' (VDict []))) (\<lambda>environments.
     bind_result (map_result (capture_python_environment h) (sorted_items environments)) (\<lambda>captured.
       Inr (VDict captured)))"

definition capture_torch_runtime :: "host \<Rightarrow> pyval result" where
  "capture_torch_runtime h =
     script_payload [(''available'', VBool False), (''version'', VNone), (''cuda_build'', VNone)]
       (ho_run_text h [ho_executable h, ''-c'', TORCH_RUNTIME_SCRIPT]) h"

section \<open>Redis\<close>

definition REDIS_SETTINGS :: "string list" where
  "REDIS_SETTINGS = [''save'', ''appendonly'', ''appendfsync'', ''maxmemory-policy'']"

definition setting_value :: "redis_setting \<Rightarrow> pyval" where
  \<comment> \<open>bytes are decoded; they are ASCII here\<close>
  "setting_value s = (case s of SettingBytes text \<Rightarrow> VStr text | SettingValue v \<Rightarrow> v)"

definition redis_record :: "redis_reply \<Rightarrow> row" where
  "redis_record reply =
     (case reply of
        RedisReplied seconds info setting \<Rightarrow>
          [(''configured'', VBool True), (''version'', row_get info ''redis_version''),
           (''ping_latency_ms'', VFloat (fround 3 (fmul seconds (Fin 1000)))),
           (''configuration'', VDict (map (\<lambda>name. (name, setting_value (setting name))) REDIS_SETTINGS))]
      | RedisRaised error \<Rightarrow>
          [(''configured'', VBool True), (''version'', VNone), (''ping_latency_ms'', VNone),
           (''configuration'', VNone), (''error_type'', VStr error)])"

definition capture_redis_version :: "host \<Rightarrow> row \<Rightarrow> pyval result" where
  "capture_redis_version h config =
     (let env_name = row_get config ''redis_url_env'' in
      bind_result
        (case env_name of
           VStr name \<Rightarrow> Inr (if name = [] then [] else getenv (ho_environ h) name [])
         | _ \<Rightarrow> if truthy env_name then Inl (TypeError ''str expected'') else Inr []) (\<lambda>redis_url.
        Inr (VDict
          (if redis_url = []
           then [(''configured'', VBool False), (''version'', VNone), (''ping_latency_ms'', VNone),
             (''configuration'', VNone)]
           else redis_record (ho_redis h redis_url)))))"

section \<open>The whole record\<close>

definition base_name :: "string \<Rightarrow> string" where
  \<comment> \<open>\<^verbatim>\<open>os.path.basename\<close>\<close>
  "base_name path = last (py_split (CHR ''/'') path)"

definition cpu_record :: "host \<Rightarrow> pyval" where
  "cpu_record h =
     (let processor = truthy_text (ho_processor h); cores = (''logical_cores'', opt_int (ho_cpu_count h)) in
      VDict (case ho_memory h of
               None \<Rightarrow> [(''model'', processor), cores]
             | Some (memory, physical_cores) \<Rightarrow>
                 [(''model'', value_or (cpu_model h) processor), cores,
                  (''physical_cores'', opt_int physical_cores)]))"

definition model_record :: "pyval \<Rightarrow> pyval result" where
  "model_record model =
     bind_result (value_item model ''id'') (\<lambda>model_id.
     bind_result (value_item model ''served_name'') (\<lambda>served_name.
     bind_result (value_items model) (\<lambda>fields.
       Inr (VDict [(''id'', model_id), (''served_name'', served_name), (''revision'', row_get fields ''revision''),
         (''dtype'', row_get fields ''dtype''), (''quantization'', row_get fields ''quantization''),
         (''vllm_environment'', dget_default fields ''vllm_environment'' (VDict [])),
         (''vllm_server_args'', dget_default fields ''vllm_server_args'' (VList []))]))))"

definition benchmark_record :: "row \<Rightarrow> pyval result" where
  "benchmark_record config =
     bind_result (map_result (\<lambda>key. bind_result (dict_item config key) (\<lambda>v. Inr (key, v)))
       [''vllm_command'', ''seed'', ''repetitions'', ''concurrency'', ''workloads'']) (\<lambda>fields.
       Inr (VDict fields))"

definition capture_environment :: "host \<Rightarrow> row \<Rightarrow> row result" where
  "capture_environment h config =
     bind_result (dict_item config ''model'') (\<lambda>model.
     bind_result (command_parts (dget_default config ''nvidia_smi_command'' (VList [VStr ''nvidia-smi''])))
       (\<lambda>nvidia_smi_command.
     bind_result (query_nvidia (ho_run_text h) nvidia_smi_command) (\<lambda>gpu.
     bind_result (capture_torch_runtime h) (\<lambda>torch_runtime.
     bind_result (capture_python_environments h config) (\<lambda>python_environments.
     bind_result (command_parts (dget_default config ''git_command'' (VList [VStr ''git'']))) (\<lambda>git_command.
     bind_result (model_record model) (\<lambda>model_fields.
     bind_result (benchmark_record config) (\<lambda>benchmark_fields.
     bind_result (capture_redis_version h config) (\<lambda>redis.
       Inr [(''captured_at'', VStr (ho_captured_at h)),
         (''operating_system'', VDict [(''platform'', VStr (ho_platform h)), (''system'', VStr (ho_system h)),
            (''release'', VStr (ho_release h)), (''version'', VStr (ho_version h))]),
         (''python'', VDict [(''version'', VStr (ho_python_version h)),
            (''implementation'', VStr (ho_python_implementation h)),
            (''executable'', VStr (base_name (ho_executable h)))]),
         (''cpu'', cpu_record h),
         (''system_ram_bytes'', opt_int (map_option fst (ho_memory h))),
         (''gpu'', gpu),
         (''software'', VDict (map (\<lambda>name. (name, package_version h name)) PACKAGE_NAMES)),
         (''torch_runtime'', torch_runtime),
         (''python_environments'', python_environments),
         (''git'', capture_git (ho_run_text h) git_command),
         (''model'', model_fields),
         (''benchmark'', benchmark_fields),
         (''gateway'', dget_default config ''gateway_configuration'' (VDict [])),
         (''redis'', redis)])))))))))"

section \<open>Facts about the record\<close>

lemma capture_environment_reads:
  \<comment> \<open>the endpoints of the configuration and their headers are not read\<close>
  assumes "\<And>key. key \<noteq> ''paths'' \<Longrightarrow> dget c1 key = dget c2 key"
  shows "capture_environment h c1 = capture_environment h c2"
proof -
  have d: "dget_default c1 key v = dget_default c2 key v" "dict_item c1 key = dict_item c2 key"
    if "key \<noteq> ''paths''" for key v
    using assms [OF that] by (simp_all add: dget_default_def dict_item_def)
  have "benchmark_record c1 = benchmark_record c2" by (simp add: benchmark_record_def d)
  then show ?thesis
    by (simp add: capture_environment_def capture_python_environments_def capture_redis_version_def row_get_def d)
qed

end
