(* ===== verification/BenchCharts.thy ===== *)
theory BenchCharts
  imports BenchCompare
begin

text \<open>
  The charts of \<^verbatim>\<open>bench/analyze.py\<close>: the series of the groups and of the comparisons, the layout
  of a chart, and its SVG text. The files are the pairs of their name and their text; writing
  them is not modelled. The lengths of the drawing are the source's literals.
\<close>

section \<open>Series\<close>

record series =
  se_label :: string
  se_points :: "(int \<times> pyfloat option) list"

definition group_series :: "(sample_group \<Rightarrow> pyfloat option) \<Rightarrow> sample_group list \<Rightarrow> series list" where
  "group_series getter groups =
     map (\<lambda>((workload, path), rows).
         \<lparr>se_label = workload @ '' '' @ path,
          se_points = map (\<lambda>g. (sg_concurrency g, getter g)) (sort_key sg_concurrency rows)\<rparr>)
       (sort_key fst (index_by (map (\<lambda>g. ((sg_workload g, sg_path g), g)) groups)))"

definition overhead_metrics :: "(string \<times> (percentile_differences \<Rightarrow> pyfloat option)) list" where
  "overhead_metrics = [(''p50'', pf_p50), (''p95'', pf_p95)]"

definition overhead_series :: "comparison list \<Rightarrow> series list" where
  "overhead_series comparisons =
     concat (map (\<lambda>(workload, rows).
         map (\<lambda>(metric, overhead).
             \<lparr>se_label = workload @ '' '' @ metric,
              se_points = map (\<lambda>c. (cp_concurrency c, overhead (cp_gateway_overhead_ms c)))
                (sort_key cp_concurrency rows)\<rparr>)
           overhead_metrics)
       (sort_key fst (index_by (map (\<lambda>c. (cp_workload c, c)) comparisons))))"

section \<open>Layout\<close>

definition drawn_points :: "series \<Rightarrow> (int \<times> pyfloat) list" where
  \<comment> \<open>the points with a value\<close>
  "drawn_points item = List.map_filter (\<lambda>(x, y). map_option (Pair x) y) (se_points item)"

record chart_frame =
  cf_x_values :: "int list"
  cf_y_min :: pyfloat
  cf_y_max :: pyfloat

definition chart_padding :: "pyfloat \<Rightarrow> pyfloat \<Rightarrow> pyfloat" where
  "chart_padding y_min y_max =
     list_fmax [fmul (fsub y_max y_min) (to_f64 (1 / 10)), fmul (fabs y_max) (to_f64 (2 / 100)),
       to_f64 (1 / 10 ^ 9)]"

definition chart_frame_of :: "bool \<Rightarrow> series list \<Rightarrow> chart_frame option" where
  \<comment> \<open>\<open>None\<close>: there is nothing to draw\<close>
  "chart_frame_of include_zero series_list =
     (let points = concat (map drawn_points series_list);
          x_values = sort (remdups (map fst points));
          y_values = map snd points
      in if points = [] then None
         else
           let least = list_fmin y_values;
               greatest = list_fmax y_values;
               y_min = (if include_zero then list_fmin [Fin 0, least] else least);
               y_max = (if include_zero then list_fmax [Fin 0, greatest] else greatest);
               padding = chart_padding y_min y_max
           in Some \<lparr>cf_x_values = x_values, cf_y_min = fsub y_min padding, cf_y_max = fadd y_max padding\<rparr>)"

definition py_index :: "int list \<Rightarrow> int \<Rightarrow> int result" where
  \<comment> \<open>\<^verbatim>\<open>xs.index(value)\<close>\<close>
  "py_index xs v =
     (if v \<in> set xs then Inr (int (length (takeWhile (\<lambda>x. x \<noteq> v) xs)))
      else Inl (ValueError ''value is not in list''))"

definition x_position :: "chart_frame \<Rightarrow> int \<Rightarrow> pyfloat result" where
  "x_position frame v =
     (let x_values = cf_x_values frame in
      if length x_values = 1 then Inr (Fin 425)
      else
        bind_result (py_index x_values v) (\<lambda>i.
        bind_result (num_div (NInt (i * 670)) (NInt (int (length x_values) - 1))) (\<lambda>q.
        bind_result (num_to_float q) (\<lambda>f. Inr (fadd (Fin 90) f)))))"

definition y_position :: "chart_frame \<Rightarrow> pyfloat \<Rightarrow> pyfloat result" where
  "y_position frame v =
     bind_result (fdiv (fmul (fsub (cf_y_max frame) v) (Fin 475)) (fsub (cf_y_max frame) (cf_y_min frame)))
       (\<lambda>q. Inr (fadd (Fin 70) q))"

definition plotted_points :: "chart_frame \<Rightarrow> series \<Rightarrow> (pyfloat \<times> pyfloat) list result" where
  "plotted_points frame item =
     map_result (\<lambda>(x, y).
       bind_result (x_position frame x) (\<lambda>px.
       bind_result (y_position frame y) (\<lambda>py. Inr (px, py))))
     (drawn_points item)"

section \<open>The SVG text\<close>

fun html_char :: "char \<Rightarrow> string" where
  "html_char c =
     (if c = CHR ''&'' then ''&amp;''
      else if c = CHR ''<'' then ''&lt;''
      else if c = CHR ''>'' then ''&gt;''
      else if c = CHR 0x22 then ''&quot;''
      else if c = CHR 0x27 then ''&#x27;''
      else [c])"

definition html_escape :: "string \<Rightarrow> string" where
  "html_escape text = concat (map html_char text)"

definition COLORS :: "string list" where
  "COLORS = [''#2563eb'', ''#dc2626'', ''#059669'', ''#d97706'', ''#7c3aed'', ''#0891b2'', ''#4b5563'', ''#db2777'']"

definition empty_chart :: "string \<Rightarrow> string" where
  "empty_chart title =
     ''<svg xmlns=\"http://www.w3.org/2000/svg\" width=\"1000\" height=\"620\"><text x=\"40\" y=\"60\">''
     @ html_escape title @ '': no data</text></svg>'' @ [CHR 10]"

definition chart_head :: "string \<Rightarrow> string list" where
  "chart_head title =
     [''<svg xmlns=\"http://www.w3.org/2000/svg\" width=\"1000\" height=\"620\" viewBox=\"0 0 1000 620\">'',
      ''<rect width=\"100%\" height=\"100%\" fill=\"#ffffff\"/>'',
      ''<text x=\"90\" y=\"35\" font-family=\"sans-serif\" font-size=\"22\" font-weight=\"600\">''
        @ html_escape title @ ''</text>'']"

definition tick_value :: "chart_frame \<Rightarrow> int \<Rightarrow> pyfloat result" where
  "tick_value frame tick =
     bind_result (fdiv (fmul (fsub (cf_y_max frame) (cf_y_min frame)) (Fin (of_int tick))) (Fin 5)) (\<lambda>step.
       Inr (fadd (cf_y_min frame) step))"

definition tick_marks :: "chart_frame \<Rightarrow> int \<Rightarrow> string list result" where
  "tick_marks frame tick =
     bind_result (tick_value frame tick) (\<lambda>v.
     bind_result (y_position frame v) (\<lambda>y.
       Inr [''<line x1=\"90\" y1=\"'' @ fmt_fixed 2 y @ ''\" x2=\"760\" y2=\"'' @ fmt_fixed 2 y
              @ ''\" stroke=\"#e5e7eb\"/>'',
            ''<text x=\"80\" y=\"'' @ fmt_fixed 2 (fadd y (Fin 4))
              @ ''\" text-anchor=\"end\" font-family=\"sans-serif\" font-size=\"12\">'' @ fmt_fixed 2 v @ ''</text>'']))"

definition x_mark :: "chart_frame \<Rightarrow> int \<Rightarrow> string result" where
  "x_mark frame v =
     bind_result (x_position frame v) (\<lambda>x.
       Inr (''<text x=\"'' @ fmt_fixed 2 x
         @ ''\" y=\"570\" text-anchor=\"middle\" font-family=\"sans-serif\" font-size=\"12\">'' @ int_str v @ ''</text>''))"

definition chart_axes :: "string \<Rightarrow> string list" where
  "chart_axes y_label =
     [''<line x1=\"90\" y1=\"70\" x2=\"90\" y2=\"545\" stroke=\"#111827\"/>'',
      ''<line x1=\"90\" y1=\"545\" x2=\"760\" y2=\"545\" stroke=\"#111827\"/>'',
      ''<text x=\"425.0\" y=\"600\" text-anchor=\"middle\" font-family=\"sans-serif\" font-size=\"14\">Concurrency</text>'',
      ''<text transform=\"translate(22 307.5) rotate(-90)\" text-anchor=\"middle\" font-family=\"sans-serif\" font-size=\"14\">''
        @ html_escape y_label @ ''</text>'']"

definition point_text :: "pyfloat \<times> pyfloat \<Rightarrow> string" where
  "point_text p = fmt_fixed 2 (fst p) @ '','' @ fmt_fixed 2 (snd p)"

definition point_mark :: "string \<Rightarrow> pyfloat \<times> pyfloat \<Rightarrow> string" where
  "point_mark color p =
     ''<circle cx=\"'' @ fmt_fixed 2 (fst p) @ ''\" cy=\"'' @ fmt_fixed 2 (snd p)
       @ ''\" r=\"3.5\" fill=\"'' @ color @ ''\"/>''"

definition line_marks :: "string \<Rightarrow> (pyfloat \<times> pyfloat) list \<Rightarrow> string list" where
  "line_marks color points =
     (if points = [] then []
      else (''<polyline fill=\"none\" stroke=\"'' @ color @ ''\" stroke-width=\"2.5\" points=\"''
              @ py_join '' '' (map point_text points) @ ''\"/>'') # map (point_mark color) points)"

definition legend_marks :: "string \<Rightarrow> int \<Rightarrow> string \<Rightarrow> string list" where
  "legend_marks color index label =
     (let legend_y = 70 + index * 24 in
      [''<line x1=\"785\" y1=\"'' @ int_str legend_y @ ''\" x2=\"810\" y2=\"'' @ int_str legend_y
         @ ''\" stroke=\"'' @ color @ ''\" stroke-width=\"3\"/>'',
       ''<text x=\"820\" y=\"'' @ int_str (legend_y + 4) @ ''\" font-family=\"sans-serif\" font-size=\"12\">''
         @ html_escape label @ ''</text>''])"

definition series_marks :: "chart_frame \<Rightarrow> int \<times> series \<Rightarrow> string list result" where
  "series_marks frame indexed =
     (let (index, item) = indexed; color = COLORS ! nat (index mod int (length COLORS)) in
      bind_result (plotted_points frame item) (\<lambda>points.
        Inr (line_marks color points @ legend_marks color index (se_label item))))"

definition svg_chart :: "string \<Rightarrow> string \<Rightarrow> series list \<Rightarrow> bool \<Rightarrow> string result" where
  \<comment> \<open>the text that \<^verbatim>\<open>write_svg_chart\<close> writes\<close>
  "svg_chart title y_label series_list include_zero =
     (case chart_frame_of include_zero series_list of
        None \<Rightarrow> Inr (empty_chart title)
      | Some frame \<Rightarrow>
          bind_result (concat_result (tick_marks frame) [0..5]) (\<lambda>ticks.
          bind_result (map_result (x_mark frame) (cf_x_values frame)) (\<lambda>marks.
          bind_result (concat_result (series_marks frame) (enumerated series_list)) (\<lambda>lines.
            Inr (py_join [CHR 10] (chart_head title @ ticks @ marks @ chart_axes y_label @ lines @ [''</svg>''])
              @ [CHR 10])))))"

section \<open>The charts of a run\<close>

definition CHART_METRICS :: "(string \<times> string \<times> string \<times> (sample_group \<Rightarrow> pyfloat option)) list" where
  "CHART_METRICS =
     [(''latency-vs-concurrency.svg'', ''p95 end-to-end latency versus concurrency'', ''Latency (ms)'',
       \<lambda>g. di_p95 (sg_latency_ms g)),
      (''throughput-vs-concurrency.svg'', ''Completed request throughput versus concurrency'', ''Requests / second'',
       sg_request_throughput),
      (''ttft-vs-concurrency.svg'', ''p50 time to first token versus concurrency'', ''TTFT (ms)'',
       \<lambda>g. di_p50 (sg_ttft_ms g)),
      (''token-throughput-vs-concurrency.svg'', ''Output-token throughput versus concurrency'',
       ''Output tokens / second'', sg_output_token_throughput)]"

definition write_plots :: "sample_group list \<Rightarrow> comparison list \<Rightarrow> (string \<times> string) list result" where
  "write_plots groups comparisons =
     bind_result (map_result (\<lambda>(filename, title, y_label, getter).
         bind_result (svg_chart title y_label (group_series getter groups) False) (\<lambda>text. Inr (filename, text)))
       CHART_METRICS) (\<lambda>charts.
     bind_result (svg_chart ''Gateway minus direct end-to-end latency versus concurrency''
         ''Latency difference (ms)'' (overhead_series comparisons) True) (\<lambda>text.
       Inr (charts @ [(''gateway-overhead-vs-concurrency.svg'', text)])))"

end
