(* ===== verification/BenchReport.thy ===== *)
theory BenchReport
  imports BenchCharts KubernetesSmoke
begin

text \<open>
  \<^verbatim>\<open>render_report\<close> of \<^verbatim>\<open>bench/analyze.py\<close>: the Markdown report of a run, from its summary and the
  recorded environment. The environment is any JSON object; \<open>dumps\<close> is \<^verbatim>\<open>json.dumps\<close> with sorted
  keys.
\<close>

section \<open>Numbers\<close>

fun signed_fixed :: "nat \<Rightarrow> pyfloat \<Rightarrow> string" where
  \<comment> \<open>\<^verbatim>\<open>f"{x:+.nf}"\<close>\<close>
  "signed_fixed n (Fin r) = (if r < 0 then [] else ''+'') @ fmt_fixed n (Fin r)"
| "signed_fixed n NegInf = ''-inf''"
| "signed_fixed n f = CHR ''+'' # fmt_fixed n f"

definition format_signed :: "pyfloat option \<Rightarrow> string" where
  "format_signed v = (case v of None \<Rightarrow> ''n/a'' | Some f \<Rightarrow> signed_fixed 2 f)"

definition falls_slightly :: "pyfloat option \<Rightarrow> pyfloat option \<Rightarrow> bool" where
  \<comment> \<open>the unrounded percentage is negative\<close>
  "falls_slightly v baseline =
     (case (v, baseline) of
        (Some x, Some y) \<Rightarrow>
          (case fdiv x y of Inr q \<Rightarrow> flt (fmul (fsub q (Fin 1)) (Fin 100)) (Fin 0) | Inl e \<Rightarrow> False)
      | _ \<Rightarrow> False)"

definition change_text :: "comparison \<Rightarrow> string" where
  \<comment> \<open>Python's zero keeps the sign of a change that rounds to it; the model's zero has none, so
     that sign is taken from the change before rounding\<close>
  "change_text c =
     (let change = cp_throughput_difference_percent c in
      if change = Some (Fin 0) \<and>
         falls_slightly (sg_request_throughput (cp_gateway c)) (sg_request_throughput (cp_direct c))
      then ''-0.00'' else format_signed change)"

definition show_rate :: "pynum option \<Rightarrow> string result" where
  \<comment> \<open>\<^verbatim>\<open>format_number\<close> of a rounded JSON number\<close>
  "show_rate v =
     (case v of
        None \<Rightarrow> Inr ''n/a''
      | Some n \<Rightarrow> bind_result (num_to_float n) (\<lambda>f. Inr (fmt_fixed 2 f)))"

section \<open>The headline and its pairs\<close>

fun headline_statement :: "headline \<Rightarrow> string" where
  "headline_statement (Supported gates h) = hl_text h"
| "headline_statement (Held gates) =
     ''No portfolio headline is supported: predeclared defensibility gates did not all pass.''"
| "headline_statement Unavailable =
     ''No portfolio headline is supported: predeclared condition was not run.''"

definition table_row :: "string list \<Rightarrow> string" where
  "table_row cells = ''| '' @ py_join '' | '' cells @ '' |''"

definition paired_row :: "paired_run \<Rightarrow> string result" where
  "paired_row p =
     bind_result (show_rate (pr_request_throughput (pd_direct p))) (\<lambda>direct_rps.
     bind_result (show_rate (pr_request_throughput (pd_gateway p))) (\<lambda>gateway_rps.
       Inr (table_row
         [int_str (pd_repetition p + 1), direct_rps, gateway_rps,
          show_number (pd_throughput_retained_percent p) @ ''%'',
          show_number (pr_p50_latency_ms (pd_direct p)) @ '' ms'',
          show_number (pr_p50_latency_ms (pd_gateway p)) @ '' ms'',
          format_signed (pd_p50_latency_difference_ms p) @ '' ms''])))"

definition PAIRED_HEADER :: "string list" where
  "PAIRED_HEADER =
     [[], ''### Paired repetitions'', [],
      table_row [''Rep'', ''Direct req/s'', ''Gateway req/s'', ''Throughput retained'', ''Direct p50'', ''Gateway p50'',
        ''p50 difference (G-D)''],
      ''|---:|---:|---:|---:|---:|---:|---:|'']"

fun paired_lines :: "headline \<Rightarrow> string list result" where
  "paired_lines (Supported gates h) =
     (if hl_paired_runs h = [] then Inr []
      else bind_result (map_result paired_row (hl_paired_runs h)) (\<lambda>rows. Inr (PAIRED_HEADER @ rows)))"
| "paired_lines h = Inr []"

section \<open>The comparison table\<close>

definition COMPARISON_HEADER :: "string list" where
  "COMPARISON_HEADER =
     [[], ''## Direct versus full gateway'', [],
      table_row [''Workload'', ''C'', ''Direct req/s'', ''Gateway req/s'', ''Req/s change'', ''Direct output tok/s'',
        ''Gateway output tok/s'', ''pooled p50 diff (G-D)'', ''pooled p95 diff (G-D)'', ''pooled p99 diff (G-D)'',
        ''TTFT p50 diff (G-D)'', ''Errors direct/gateway'', ''Fair''],
      ''|---|---:|---:|---:|---:|---:|---:|---:|---:|---:|---:|---:|:---:|'']"

definition comparison_row :: "comparison \<Rightarrow> string" where
  "comparison_row c =
     (let direct = cp_direct c; gateway = cp_gateway c; overhead = cp_gateway_overhead_ms c in
      table_row
        [cp_workload c, int_str (cp_concurrency c), show_number (sg_request_throughput direct),
         show_number (sg_request_throughput gateway), change_text c @ ''%'',
         show_number (sg_output_token_throughput direct), show_number (sg_output_token_throughput gateway),
         format_signed (pf_p50 overhead) @ '' ms'', format_signed (pf_p95 overhead) @ '' ms'',
         format_signed (pf_p99 overhead) @ '' ms'', format_signed (pf_p50 (cp_ttft_overhead_ms c)) @ '' ms'',
         int_str (sg_failed_requests direct) @ ''/'' @ int_str (sg_failed_requests gateway),
         if cp_workload_equivalent c then ''yes'' else ''no''])"

section \<open>The environment\<close>

datatype segment_text = Txt string | Fld "string list" | Jsn "string list"
  \<comment> \<open>a text, or the value at a path as \<^verbatim>\<open>str\<close> or as JSON shows it\<close>

fun segment_line :: "(pyval \<Rightarrow> string) \<Rightarrow> (pyval \<Rightarrow> string) \<Rightarrow> pyval \<Rightarrow> segment_text \<Rightarrow> string result" where
  "segment_line repr dumps environment (Txt s) = Inr s"
| "segment_line repr dumps environment (Fld path) = bind_result (dig environment path) (\<lambda>v. Inr (str_of repr v))"
| "segment_line repr dumps environment (Jsn path) = bind_result (dig environment path) (\<lambda>v. Inr (dumps v))"

definition template_line ::
  "(pyval \<Rightarrow> string) \<Rightarrow> (pyval \<Rightarrow> string) \<Rightarrow> pyval \<Rightarrow> segment_text list \<Rightarrow> string result" where
  "template_line repr dumps environment segments =
     bind_result (map_result (segment_line repr dumps environment) segments) (\<lambda>texts. Inr (concat texts))"

definition device_text :: "(pyval \<Rightarrow> string) \<Rightarrow> pyval \<Rightarrow> string result" where
  "device_text repr device =
     bind_result (value_get device ''name'' VNone) (\<lambda>name.
     bind_result (value_get device ''memory_total_mib'' VNone) (\<lambda>memory.
       Inr (str_of repr name @ '' ('' @ str_of repr memory @ '' MiB)'')))"

definition driver_versions :: "(pyval \<Rightarrow> string) \<Rightarrow> pyval list \<Rightarrow> string result" where
  "driver_versions repr devices =
     bind_result (map_result (\<lambda>d. bind_result (value_get d ''driver_version'' VNone) (\<lambda>v. Inr (str_of repr v))) devices)
       (\<lambda>versions. Inr (if versions = [] then ''unavailable'' else py_join '','' (sort (remdups versions))))"

definition gpu_lines :: "(pyval \<Rightarrow> string) \<Rightarrow> (pyval \<Rightarrow> string) \<Rightarrow> pyval \<Rightarrow> string list result" where
  "gpu_lines repr dumps environment =
     bind_result (bind_result (dig_default environment [''gpu''] ''devices'' (VList [])) value_iter) (\<lambda>devices.
     bind_result (map_result (device_text repr) devices) (\<lambda>texts.
     let named = py_join '', '' texts; gpu_text = (if named = [] then ''unavailable'' else named) in
     bind_result (driver_versions repr devices) (\<lambda>drivers.
     bind_result (template_line repr dumps environment
         [Txt ''- NVIDIA driver / CUDA: `'', Txt drivers, Txt ''` / `'', Fld [''gpu'', ''cuda_version''], Txt ''`'']) (\<lambda>line.
       Inr [''- GPU: `'' @ gpu_text @ ''`'', line]))))"

definition HOST_TEMPLATES :: "segment_text list list" where
  "HOST_TEMPLATES =
     [[Txt ''- Git commit: `'', Fld [''git'', ''commit''], Txt ''` (dirty: `'', Fld [''git'', ''dirty''], Txt ''`)''],
      [Txt ''- OS: `'', Fld [''operating_system'', ''platform''], Txt ''`''],
      [Txt ''- CPU: `'', Fld [''cpu'', ''model''], Txt ''`''],
      [Txt ''- RAM: `'', Fld [''system_ram_bytes''], Txt ''` bytes'']]"

definition SOFTWARE_TEMPLATES :: "segment_text list list" where
  "SOFTWARE_TEMPLATES =
     [[Txt ''- PyTorch / CUDA build: `'', Fld [''torch_runtime'', ''version''], Txt ''` / `'',
        Fld [''torch_runtime'', ''cuda_build''], Txt ''`''],
      [Txt ''- Python / vLLM: `'', Fld [''python'', ''version''], Txt ''` / `'', Fld [''software'', ''vllm''], Txt ''`''],
      [Txt ''- Gateway Python / FastAPI / httpx: `'', Fld [''python_environments'', ''gateway'', ''python''], Txt ''` / `'',
        Fld [''python_environments'', ''gateway'', ''packages'', ''fastapi''], Txt ''` / `'',
        Fld [''python_environments'', ''gateway'', ''packages'', ''httpx''], Txt ''`''],
      [Txt ''- Model / revision: `'', Fld [''model'', ''id''], Txt ''` / `'', Fld [''model'', ''revision''], Txt ''`''],
      [Txt ''- dtype / quantization: `'', Fld [''model'', ''dtype''], Txt ''` / `'', Fld [''model'', ''quantization''], Txt ''`''],
      [Txt ''- Redis: `'', Fld [''redis'', ''version''], Txt ''`; configuration: `'', Jsn [''redis'', ''configuration''], Txt ''`'']]"

definition environment_lines :: "(pyval \<Rightarrow> string) \<Rightarrow> (pyval \<Rightarrow> string) \<Rightarrow> pyval \<Rightarrow> string list result" where
  "environment_lines repr dumps environment =
     bind_result (gpu_lines repr dumps environment) (\<lambda>gpu.
     bind_result (value_get environment ''gateway'' (VDict [])) (\<lambda>gateway_configuration.
     bind_result (map_result (template_line repr dumps environment) HOST_TEMPLATES) (\<lambda>host_lines.
     bind_result (map_result (template_line repr dumps environment) SOFTWARE_TEMPLATES) (\<lambda>software_lines.
       Inr ([[], ''## Environment'', []] @ host_lines @ gpu @ software_lines @
         [''- Gateway controls: `'' @ dumps gateway_configuration @ ''`''])))))"

section \<open>The report\<close>

definition REPORT_OPENING :: "string list" where
  "REPORT_OPENING =
     [''# vLLM gateway overhead benchmark'', [],
      ''This report contains measured results from the official `vllm bench serve` client. Direct and gateway paths used paired seeds, token lengths, request counts, concurrency, warmups, and model configuration.'',
      [], ''## Predeclared headline condition'', []]"

definition PLOT_LINES :: "string list" where
  "PLOT_LINES =
     [[], ''## Plots'', [],
      ''- [Tail latency versus concurrency](plots/latency-vs-concurrency.svg)'',
      ''- [Request throughput versus concurrency](plots/throughput-vs-concurrency.svg)'',
      ''- [TTFT versus concurrency](plots/ttft-vs-concurrency.svg)'',
      ''- [Output-token throughput versus concurrency](plots/token-throughput-vs-concurrency.svg)'',
      ''- [Gateway overhead versus concurrency](plots/gateway-overhead-vs-concurrency.svg)'']"

definition CONSTRAINT_LINES :: "string list" where
  "CONSTRAINT_LINES =
     [[], ''## Interpretation constraints'', [],
      ''- Every latency difference is gateway minus direct. Pooled differences subtract the two pooled path percentiles; paired-repetition differences subtract percentiles within each repetition. They are not one-to-one request subtractions while sharing a live GPU scheduler.'',
      ''- A negative difference means the sampled gateway distribution was faster. It is not a negative internal processing cost or, by itself, evidence that the gateway accelerates inference.'',
      ''- Throughput aggregates completed requests or output tokens over the sum of official client-measured condition durations.'',
      ''- TTFT, TPOT, and ITL use vLLM'' @ [CHR 0x27] @ ''s streaming client definitions. ITL is measured between non-empty streamed choice events.'',
      ''- Redis limiter percentile values, when present, are conservative Prometheus histogram upper bounds; the mean comes from counter deltas.'',
      ''- Authentication and transport costs are exactly those in the recorded gateway configuration; local HS256 and loopback HTTP do not measure TLS, JWKS retrieval, a load balancer, or cross-host network latency.'',
      ''- These results characterize only the recorded host, model, server flags, and gateway configuration. They are not a production fleet claim.'',
      []]"

definition report_lines ::
  "(pyval \<Rightarrow> string) \<Rightarrow> (pyval \<Rightarrow> string) \<Rightarrow> run_summary \<Rightarrow> pyval \<Rightarrow> string list result" where
  "report_lines repr dumps summary environment =
     bind_result (paired_lines (rs_headline summary)) (\<lambda>pairs.
     bind_result (environment_lines repr dumps environment) (\<lambda>environment_text.
       Inr (REPORT_OPENING @ [headline_statement (rs_headline summary)] @ pairs @ COMPARISON_HEADER @
         map comparison_row (rs_comparisons summary) @ environment_text @ PLOT_LINES @ CONSTRAINT_LINES)))"

definition render_report ::
  "(pyval \<Rightarrow> string) \<Rightarrow> (pyval \<Rightarrow> string) \<Rightarrow> run_summary \<Rightarrow> pyval \<Rightarrow> string result" where
  "render_report repr dumps summary environment =
     bind_result (report_lines repr dumps summary environment) (\<lambda>ls. Inr (py_join [CHR 10] ls))"

section \<open>The files of an analysis\<close>

definition analysis_files ::
  "(pyval \<Rightarrow> string) \<Rightarrow> (pyval \<Rightarrow> string) \<Rightarrow> row list \<Rightarrow> row list \<Rightarrow> row list \<Rightarrow> row \<Rightarrow> pyval \<Rightarrow>
     (run_summary \<times> (string \<times> string) list \<times> string) result" where
  \<comment> \<open>the summary, the charts and the report\<close>
  "analysis_files repr dumps samples conditions resources config environment =
     bind_result (analyze_run samples conditions resources config) (\<lambda>summary.
     bind_result (write_plots (rs_groups summary) (rs_comparisons summary)) (\<lambda>charts.
     bind_result (render_report repr dumps summary environment) (\<lambda>report.
       Inr (summary, charts, report))))"

end
