(* ===== verification/BenchSession.thy ===== *)
theory BenchSession
  imports BenchAccounting BenchEnvironment BenchReport
begin

text \<open>
  \<^verbatim>\<open>run_benchmark\<close> of \<^verbatim>\<open>bench/run.py\<close> as a whole: what it writes before the first condition, the
  endpoints it asks, the conditions, and the analysis of the rows it has written. The answers of
  the endpoints are a parameter, as are the host and the results of the conditions.
\<close>

section \<open>Endpoints\<close>

datatype probe_reply =
    ProbeRaised string         \<comment> \<open>the class of the exception that was caught\<close>
  | ProbeAnswered int string   \<comment> \<open>the status and the body\<close>

definition ENDPOINTS :: "(string \<times> string) list" where
  "ENDPOINTS = [(''direct'', ''/v1/models''), (''gateway'', ''/health'')]"

definition unreachable :: "string \<Rightarrow> row" where
  "unreachable error =
     [(''reachable'', VBool False), (''status'', VNone), (''error_type'', VStr error), (''model_ids'', VList [])]"

definition probe_check :: "(string \<Rightarrow> string + pyval) \<Rightarrow> string \<Rightarrow> probe_reply \<Rightarrow> row" where
  \<comment> \<open>\<open>json_loads\<close> of a body that is not JSON gives the class of its \<^verbatim>\<open>ValueError\<close>\<close>
  "probe_check json_loads path_name reply =
     (case reply of
        ProbeRaised error \<Rightarrow> unreachable error
      | ProbeAnswered status sent \<Rightarrow>
          (let body = take 65536 sent in
           case (if body = [] then Inr VNone else json_loads body) of
             Inl error \<Rightarrow> unreachable error
           | Inr payload \<Rightarrow>
               [(''reachable'', VBool (status = 200)), (''status'', VInt status),
                (''model_ids'', VList (if path_name = ''direct'' then map VStr (safe_model_ids payload) else []))]))"

definition probe_url :: "(pyval \<Rightarrow> string) \<Rightarrow> row \<Rightarrow> string \<times> string \<Rightarrow> string result" where
  "probe_url repr config endpoint =
     bind_result (path_settings config (fst endpoint)) (\<lambda>path_config.
     bind_result (value_item path_config ''base_url'') (\<lambda>base_url.
       Inr (py_rstrip_char (CHR ''/'') (str_of repr base_url) @ snd endpoint)))"

definition probe_endpoints ::
  "(pyval \<Rightarrow> string) \<Rightarrow> (string \<Rightarrow> string + pyval) \<Rightarrow> (string \<Rightarrow> probe_reply) \<Rightarrow> row \<Rightarrow> (string, row) dict result" where
  \<comment> \<open>\<open>replies\<close>: the answer to a GET of an address\<close>
  "probe_endpoints repr json_loads replies config =
     map_result (\<lambda>endpoint.
       bind_result (probe_url repr config endpoint) (\<lambda>url.
         Inr (fst endpoint, probe_check json_loads (fst endpoint) (replies url))))
     ENDPOINTS"

definition fetch_metrics :: "(string \<Rightarrow> string option) \<Rightarrow> string option \<Rightarrow> sample_dict option result" where
  \<comment> \<open>\<open>fetch\<close>: the text at an address, absent when it cannot be read or decoded\<close>
  "fetch_metrics fetch url =
     (case url of
        None \<Rightarrow> Inr None
      | Some u \<Rightarrow>
          if u = [] then Inr None
          else
            case fetch u of
              None \<Rightarrow> Inr None
            | Some text \<Rightarrow> bind_result (bench_parse_prometheus text) (\<lambda>samples. Inr (Some samples)))"

section \<open>The run\<close>

datatype run_output =
    ConfigFile row
  | EnvironmentFile row
  | ConditionOutput bench_write

definition reachable_checks :: "(string, row) dict \<Rightarrow> (string, bool) dict" where
  "reachable_checks checks = map (\<lambda>(name, c). (name, truthy (row_get c ''reachable''))) checks"

definition default_run_name :: "string \<Rightarrow> row \<Rightarrow> string result" where
  \<comment> \<open>the last part of \<^verbatim>\<open>default_run_dir\<close>\<close>
  "default_run_name timestamp config =
     (case dget_default config ''run_name'' (VStr ''benchmark'') of
        VStr name \<Rightarrow> Inr (timestamp @ ''-'' @ safe_name name)
      | _ \<Rightarrow> Inl (TypeError ''expected string or bytes-like object''))"

record surroundings =
  \<comment> \<open>what is outside the runner\<close>
  su_host :: host
  su_probe_json :: "string \<Rightarrow> string + pyval"
  su_replies :: "string \<Rightarrow> probe_reply"
  su_runs :: "condition \<Rightarrow> condition_run"

definition run_conditions_of ::
  "(pyval \<Rightarrow> string) \<Rightarrow> row \<Rightarrow> string \<Rightarrow> surroundings \<Rightarrow> run_output list \<times> unit result" where
  "run_conditions_of repr config upstream_dir su =
     (let (ws, r) = run_schedule repr config upstream_dir (su_runs su) in (map ConditionOutput ws, r))"

definition run_measurements ::
  "(pyval \<Rightarrow> string) \<Rightarrow> row \<Rightarrow> string \<Rightarrow> surroundings \<Rightarrow> run_output list \<times> (row \<times> row) result" where
  \<comment> \<open>all of \<^verbatim>\<open>run_benchmark\<close> but the analysis: what is written, and the sanitized configuration with the
     recorded environment\<close>
  "run_measurements repr config upstream_dir su =
     (case sanitize_config config of
        Inl e \<Rightarrow> ([], Inl e)
      | Inr resolved_config \<Rightarrow>
          (case bind_result (capture_environment (su_host su) config) (\<lambda>environment.
                bind_result (probe_endpoints repr (su_probe_json su) (su_replies su) config) (\<lambda>checks.
                  Inr (environment, checks))) of
             Inl e \<Rightarrow> ([ConfigFile resolved_config], Inl e)
           | Inr (environment, checks) \<Rightarrow>
               (let recorded = dset environment ''endpoint_checks'' (VDict (map (\<lambda>(name, c). (name, VDict c)) checks));
                    before = [ConfigFile resolved_config, EnvironmentFile recorded]
                in case unavailable_endpoints (reachable_checks checks) of
                     Inl e \<Rightarrow> (before, Inl e)
                   | Inr u \<Rightarrow>
                       (let (ws, r) = run_conditions_of repr config upstream_dir su in
                        (before @ ws, bind_result r (\<lambda>_. Inr (resolved_config, recorded)))))))"

text \<open>The files of a finished run hold the rows that were appended to them.\<close>

fun sample_rows :: "run_output list \<Rightarrow> row list" where
  "sample_rows [] = []"
| "sample_rows (ConditionOutput (SampleRows rows) # ws) = rows @ sample_rows ws"
| "sample_rows (w # ws) = sample_rows ws"

fun resource_rows :: "run_output list \<Rightarrow> row list" where
  "resource_rows [] = []"
| "resource_rows (ConditionOutput (ResourceRows rows) # ws) = rows @ resource_rows ws"
| "resource_rows (w # ws) = resource_rows ws"

fun condition_outputs :: "run_output list \<Rightarrow> bench_write list" where
  "condition_outputs [] = []"
| "condition_outputs (ConditionOutput w # ws) = w # condition_outputs ws"
| "condition_outputs (w # ws) = condition_outputs ws"

definition run_benchmark ::
  "(pyval \<Rightarrow> string) \<Rightarrow> (pyval \<Rightarrow> string) \<Rightarrow> row \<Rightarrow> string \<Rightarrow> surroundings \<Rightarrow>
     run_output list \<times> (run_summary \<times> (string \<times> string) list \<times> string) result" where
  \<comment> \<open>with the summary, the charts and the report of the analysis\<close>
  "run_benchmark repr dumps config upstream_dir su =
     (let (ws, r) = run_measurements repr config upstream_dir su in
      (ws, bind_result r (\<lambda>(resolved_config, recorded).
         analysis_files repr dumps (sample_rows ws) (condition_rows (condition_outputs ws)) (resource_rows ws)
           resolved_config (VDict recorded))))"

section \<open>A dry run\<close>

definition condition_fields :: "condition \<Rightarrow> row" where
  "condition_fields c =
     [(''path'', VStr (cn_path c)), (''repetition'', VInt (cn_repetition c)), (''workload'', cn_workload c),
      (''concurrency'', VInt (cn_concurrency c)), (''seed'', VInt (cn_seed c)),
      (''request_count'', VInt (cn_request_count c))]"

definition dry_run :: "(pyval \<Rightarrow> string) \<Rightarrow> row \<Rightarrow> row list result" where
  "dry_run repr config =
     bind_result (build_schedule config) (\<lambda>schedule.
       map_result (\<lambda>c.
         bind_result (logged_command repr config c ''<result-dir>'' ''result.json'') (\<lambda>command.
           Inr (condition_fields c @ [(''command'', VList (map VStr command))])))
       schedule)"

section \<open>Nothing runs when an endpoint is down\<close>

lemma condition_outputs_append: "condition_outputs (a @ b) = condition_outputs a @ condition_outputs b"
  by (induction a rule: condition_outputs.induct) simp_all

lemma condition_outputs_map [simp]: "condition_outputs (map ConditionOutput ws) = ws"
  by (induction ws) simp_all

definition endpoint_up :: "(pyval \<Rightarrow> string) \<Rightarrow> surroundings \<Rightarrow> row \<Rightarrow> string \<times> string \<Rightarrow> bool" where
  "endpoint_up repr su config endpoint \<longleftrightarrow>
     (\<exists>url body. probe_url repr config endpoint = Inr url \<and> su_replies su url = ProbeAnswered 200 body)"

lemma probe_check_reachable:
  "truthy (row_get (probe_check json_loads path_name reply) ''reachable'') \<Longrightarrow> \<exists>body. reply = ProbeAnswered 200 body"
  by (auto simp: probe_check_def unreachable_def row_get_def dget_default_def Let_def
      split: probe_reply.splits sum.splits)

lemma run_needs_endpoints:
  assumes "run_measurements repr config upstream_dir su = (ws, r)" and "condition_outputs ws \<noteq> [] \<or> r = Inr outcome"
  shows "\<forall>endpoint \<in> set ENDPOINTS. endpoint_up repr su config endpoint"
proof -
  obtain checks where c: "probe_endpoints repr (su_probe_json su) (su_replies su) config = Inr checks"
      "unavailable_endpoints (reachable_checks checks) = Inr ()"
    using assms
    by (auto simp: run_measurements_def Let_def split_beta split: sum.splits prod.splits)
  show ?thesis
  proof
    fix endpoint
    assume "endpoint \<in> set ENDPOINTS"
    then obtain url where url: "probe_url repr config endpoint = Inr url"
      and m: "(fst endpoint, probe_check (su_probe_json su) (fst endpoint) (su_replies su url)) \<in> set checks"
      using c(1) by (auto simp: probe_endpoints_def ENDPOINTS_def)
    have "truthy (row_get (probe_check (su_probe_json su) (fst endpoint) (su_replies su url)) ''reachable'')"
      using c(2) m by (auto simp: unavailable_endpoints_def reachable_checks_def Let_def filter_empty_conv split_beta)
    from probe_check_reachable [OF this] url show "endpoint_up repr su config endpoint"
      by (auto simp: endpoint_up_def)
  qed
qed


section \<open>What a run reveals\<close>

text \<open>Two configurations that are the same once sanitized differ in secret headers only.\<close>

definition public_twins :: "row \<Rightarrow> row \<Rightarrow> bool" where
  "public_twins c1 c2 \<longleftrightarrow> (\<exists>s. sanitize_config c1 = Inr s \<and> sanitize_config c2 = Inr s)"

lemma public_twins_agree:
  assumes "public_twins c1 c2" and "key \<noteq> ''paths''"
  shows "dget c1 key = dget c2 key" "dict_item c1 key = dict_item c2 key" "dget_default c1 key v = dget_default c2 key v"
proof -
  show d: "dget c1 key = dget c2 key"
    using assms sanitized_configs_agree(1) unfolding public_twins_def by blast
  show "dict_item c1 key = dict_item c2 key" "dget_default c1 key v = dget_default c2 key v"
    by (simp_all add: dict_item_def dget_default_def d)
qed

lemma public_twins_url:
  assumes "public_twins c1 c2"
  shows "probe_url repr c1 endpoint = probe_url repr c2 endpoint"
proof -
  obtain s where s: "sanitize_config c1 = Inr s" "sanitize_config c2 = Inr s"
    using assms by (auto simp: public_twins_def)
  show ?thesis
    using sanitized_configs_agree(2) [OF s, of "fst endpoint"]
  proof (elim disjE exE conjE)
    fix v1 v2 w
    assume p: "path_settings c1 (fst endpoint) = Inr v1" "path_settings c2 (fst endpoint) = Inr v2"
      and w: "redact_path (fst endpoint, v1) = Inr w" "redact_path (fst endpoint, v2) = Inr w"
    have "value_item v1 ''base_url'' = value_item v2 ''base_url''"
      using redacted_path_agrees [OF w] by auto
    with p show ?thesis by (simp add: probe_url_def)
  qed (simp add: probe_url_def)
qed

lemma public_twins_schedule:
  assumes "public_twins c1 c2"
  shows "build_schedule c1 = build_schedule c2"
proof -
  note a = public_twins_agree [OF assms]
  have "cell_conditions c1 = cell_conditions c2"
    by (intro ext) (simp add: cell_conditions_def cell_request_count_def a)
  then have "workload_conditions c1 = workload_conditions c2"
    by (intro ext) (simp add: workload_conditions_def a)
  then have "repetition_conditions c1 = repetition_conditions c2"
    by (intro ext) (simp add: repetition_conditions_def a)
  then show ?thesis by (simp add: build_schedule_def a)
qed

lemma attempt_redacted:
  assumes "bind_result r1 (\<lambda>c. Inr (g c)) = bind_result r2 (\<lambda>c. Inr (g c))"
    and "\<And>c d. g c = g d \<Longrightarrow> f1 c = f2 d"
  shows "attempt r1 f1 = attempt r2 f2"
  using assms by (cases r1; cases r2) auto

lemma public_twins_condition:
  assumes "public_twins c1 c2"
  shows "run_condition repr c1 dir condition ordinal w = run_condition repr c2 dir condition ordinal w"
proof -
  obtain s where s: "sanitize_config c1 = Inr s" "sanitize_config c2 = Inr s"
    using assms by (auto simp: public_twins_def)
  have failure: "record_failure c1 = record_failure c2"
    by (intro ext) (simp add: record_failure_def public_twins_agree [OF assms])
  have "bind_result (build_vllm_command repr c1 condition dir name) (\<lambda>c. Inr (redact_command c)) =
      bind_result (build_vllm_command repr c2 condition dir name) (\<lambda>c. Inr (redact_command c))" for name
    using logged_command_public [OF s] by (simp add: logged_command_def)
  then have "attempt (build_vllm_command repr c1 condition dir name) f1 =
      attempt (build_vllm_command repr c2 condition dir name) f2"
    if "\<And>c d. redact_command c = redact_command d \<Longrightarrow> f1 c = f2 d" for name and f1 f2 :: "string list \<Rightarrow> unit written"
    using that by (rule attempt_redacted)
  then show ?thesis
    unfolding run_condition_def failure
    by (cases "condition_id condition") (auto simp: log_payload_def Let_def)
qed

lemma public_twins_conditions:
  assumes "public_twins c1 c2"
  shows "run_conditions repr c1 dir runs items = run_conditions repr c2 dir runs items"
proof (induction items)
  case (Cons item items)
  then show ?case by (cases item) (simp add: public_twins_condition [OF assms])
qed simp


end
