(* ===== verification/BenchSampler.thy ===== *)
theory BenchSampler
  imports BenchResources StepInvariant
begin

text \<open>
  The resource sampler of \<^verbatim>\<open>bench/environment.py\<close>: one sample of the host and of the monitored
  processes, and the sampling thread beside the thread that stops it, as a step relation. What
  \<^verbatim>\<open>psutil\<close> reads at the moment of a sample is a parameter of the step.
\<close>

section \<open>One sample\<close>

datatype process_reading = Gone | Reading pyval int
  \<comment> \<open>\<^verbatim>\<open>psutil.Error\<close>, or the CPU percentage and the resident bytes\<close>

record host_reading =
  hr_cpu_percent :: pyfloat
  hr_memory_used :: int
  hr_memory_percent :: pyfloat
  hr_attach :: "int \<Rightarrow> bool"                  \<comment> \<open>a process of this id can be opened and primed\<close>
  hr_process :: "string \<Rightarrow> process_reading"

definition process_row :: "int \<Rightarrow> process_reading \<Rightarrow> pyval" where
  "process_row pid reading =
     VDict ((''pid'', VInt pid) #
       (case reading of
          Gone \<Rightarrow> [(''unavailable'', VBool True)]
        | Reading cpu rss \<Rightarrow> [(''cpu_percent'', cpu), (''rss_bytes'', VInt rss)]))"

fun sample_processes :: "host_reading \<Rightarrow> string list \<Rightarrow> (string \<times> int) list \<Rightarrow> string list \<times> row" where
  \<comment> \<open>the processes opened so far, and the entries of the sample\<close>
  "sample_processes now opened [] = (opened, [])"
| "sample_processes now opened ((name, pid) # rest) =
     (if name \<in> set opened \<or> hr_attach now pid
      then
        let opened' = (if name \<in> set opened then opened else opened @ [name]);
            (all_opened, entries) = sample_processes now opened' rest
        in (all_opened, (name, process_row pid (hr_process now name)) # entries)
      else
        let (all_opened, entries) = sample_processes now opened rest
        in (all_opened, (name, process_row pid Gone) # entries))"

definition take_sample ::
  "(string, int) dict \<Rightarrow> string \<Rightarrow> pyval list \<Rightarrow> host_reading option \<Rightarrow> string list \<Rightarrow> string list \<times> row" where
  \<comment> \<open>\<^verbatim>\<open>_sample\<close>; without \<^verbatim>\<open>psutil\<close> the host reading is absent\<close>
  "take_sample monitored timestamp gpus now opened =
     (case now of
        None \<Rightarrow>
          (opened, [(''timestamp'', VStr timestamp), (''system_cpu_percent'', VNone),
             (''system_memory_used_bytes'', VNone), (''system_memory_percent'', VNone),
             (''processes'', VDict []), (''gpus'', VList gpus)])
      | Some n \<Rightarrow>
          (let (opened', entries) = sample_processes n opened monitored in
           (opened', [(''timestamp'', VStr timestamp), (''system_cpu_percent'', VFloat (hr_cpu_percent n)),
              (''system_memory_used_bytes'', VInt (hr_memory_used n)),
              (''system_memory_percent'', VFloat (hr_memory_percent n)),
              (''processes'', VDict entries), (''gpus'', VList gpus)])))"

section \<open>The sampling thread\<close>

datatype sampler_pc = Testing | Sampling | Pausing | Ended

record sampler =
  sp_monitored :: "(string, int) dict"
  sp_opened :: "string list"
  sp_samples :: "row list"
  sp_stopped :: bool
  sp_pc :: sampler_pc
  sp_returned :: bool    \<comment> \<open>\<^verbatim>\<open>stop\<close> has returned the list of samples\<close>

definition primed :: "host_reading option \<Rightarrow> (string, int) dict \<Rightarrow> string list" where
  \<comment> \<open>the processes that \<^verbatim>\<open>start\<close> could open\<close>
  "primed now monitored =
     (case now of None \<Rightarrow> [] | Some n \<Rightarrow> map fst (filter (\<lambda>(name, pid). hr_attach n pid) monitored))"

definition start_sampler :: "(string, int) dict \<Rightarrow> host_reading option \<Rightarrow> sampler" where
  "start_sampler monitored now =
     \<lparr>sp_monitored = monitored, sp_opened = primed now monitored, sp_samples = [], sp_stopped = False,
      sp_pc = Testing, sp_returned = False\<rparr>"

inductive sampler_step :: "sampler \<Rightarrow> sampler \<Rightarrow> bool" where
  continue: "sp_pc s = Testing \<Longrightarrow> \<not> sp_stopped s \<Longrightarrow> sampler_step s (s\<lparr>sp_pc := Sampling\<rparr>)"
| ending: "sp_pc s = Testing \<Longrightarrow> sp_stopped s \<Longrightarrow> sampler_step s (s\<lparr>sp_pc := Ended\<rparr>)"
| sample: "sp_pc s = Sampling \<Longrightarrow> take_sample (sp_monitored s) timestamp gpus now (sp_opened s) = (opened, r) \<Longrightarrow>
    sampler_step s (s\<lparr>sp_opened := opened, sp_samples := sp_samples s @ [r], sp_pc := Pausing\<rparr>)"
| pause: "sp_pc s = Pausing \<Longrightarrow> sampler_step s (s\<lparr>sp_pc := Testing\<rparr>)"
| stop: "sampler_step s (s\<lparr>sp_stopped := True\<rparr>)"
| joined: "sp_stopped s \<Longrightarrow> sampler_step s (s\<lparr>sp_returned := True\<rparr>)"
    \<comment> \<open>the join is over: the thread has ended, or the time was up\<close>

inductive_cases sampler_stepE: "sampler_step s t"

definition sampler_reachable :: "(string, int) dict \<Rightarrow> sampler \<Rightarrow> bool" where
  "sampler_reachable monitored s \<longleftrightarrow> (\<exists>now. sampler_step\<^sup>*\<^sup>* (start_sampler monitored now) s)"

section \<open>What the samples hold\<close>

definition sample_complete :: "(string, int) dict \<Rightarrow> row \<Rightarrow> bool" where
  \<comment> \<open>without \<^verbatim>\<open>psutil\<close> no process is listed, with it every monitored one, with its own id\<close>
  "sample_complete monitored r \<longleftrightarrow>
     (\<exists>entries. row_get r ''processes'' = VDict entries \<and>
        (entries = [] \<and> row_get r ''system_cpu_percent'' = VNone \<or>
         list_all2 (\<lambda>(name, pid) (name', v). name' = name \<and> value_item v ''pid'' = Inr (VInt pid)) monitored entries))"

lemma sample_processes_entries:
  "list_all2 (\<lambda>(name, pid) (name', v). name' = name \<and> value_item v ''pid'' = Inr (VInt pid))
     monitored (snd (sample_processes now opened monitored))"
  by (induction now opened monitored rule: sample_processes.induct)
    (auto simp: process_row_def value_item_def dict_item_def split_beta Let_def)

lemma take_sample_complete:
  "take_sample monitored timestamp gpus now opened = (opened', r) \<Longrightarrow> sample_complete monitored r"
  using sample_processes_entries [of monitored "the now" opened]
  by (cases now) (auto simp: take_sample_def sample_complete_def row_get_def dget_default_def split_beta)

definition sampler_inv :: "(string, int) dict \<Rightarrow> sampler \<Rightarrow> bool" where
  "sampler_inv monitored s \<longleftrightarrow> sp_monitored s = monitored \<and> list_all (sample_complete monitored) (sp_samples s)"

lemma sampler_inv_step: "sampler_step s t \<Longrightarrow> sampler_inv monitored s \<Longrightarrow> sampler_inv monitored t"
  by (induction rule: sampler_step.induct) (auto simp: sampler_inv_def dest: take_sample_complete)

interpretation sampling: step_invariant sampler_step "sampler_inv monitored" for monitored
  by unfold_locales (rule sampler_inv_step)

section \<open>After the stop\<close>

fun samples_left :: "sampler_pc \<Rightarrow> nat" where
  "samples_left Sampling = 1"
| "samples_left pc = 0"

definition stopped_since :: "sampler \<Rightarrow> sampler \<Rightarrow> bool" where
  \<comment> \<open>with no more samples since than were in progress\<close>
  "stopped_since s t \<longleftrightarrow> sp_stopped t \<and>
     (\<exists>late. sp_samples t = sp_samples s @ late \<and> length late + samples_left (sp_pc t) \<le> samples_left (sp_pc s))"

lemma stopped_since_step: "sampler_step t u \<Longrightarrow> stopped_since s t \<Longrightarrow> stopped_since s u"
  by (induction rule: sampler_step.induct) (auto simp: stopped_since_def)

interpretation halted: step_invariant sampler_step "stopped_since s" for s
  by unfold_locales (rule stopped_since_step)


text \<open>
  \<^verbatim>\<open>stop\<close> waits a bounded time. A sample that takes longer is appended to the list that has
  been returned, after the runner has marked and perhaps written its rows.
\<close>

theorem late_sample:
  "\<exists>s t. sampler_reachable monitored s \<and> sp_returned s \<and> sp_samples s = [] \<and> sampler_step s t \<and>
     length (sp_samples t) = 1"
proof -
  define s0 where "s0 = start_sampler monitored None"
  define s where "s = s0\<lparr>sp_pc := Sampling, sp_stopped := True, sp_returned := True\<rparr>"
  have "sampler_step s0 (s0\<lparr>sp_pc := Sampling\<rparr>)"
    by (rule sampler_step.continue) (simp_all add: s0_def start_sampler_def)
  moreover have "sampler_step (s0\<lparr>sp_pc := Sampling\<rparr>) (s0\<lparr>sp_pc := Sampling, sp_stopped := True\<rparr>)"
    using sampler_step.stop [of "s0\<lparr>sp_pc := Sampling\<rparr>"] by simp
  moreover have "sampler_step (s0\<lparr>sp_pc := Sampling, sp_stopped := True\<rparr>) s"
    using sampler_step.joined [of "s0\<lparr>sp_pc := Sampling, sp_stopped := True\<rparr>"] by (simp add: s_def)
  ultimately have "sampler_step\<^sup>*\<^sup>* s0 s"
    by (meson converse_rtranclp_into_rtranclp rtranclp.rtrancl_refl)
  then have "sampler_reachable monitored s" unfolding sampler_reachable_def s0_def by blast
  moreover have "sp_pc s = Sampling" "sp_returned s" "sp_samples s = []"
    by (simp_all add: s_def s0_def start_sampler_def)
  moreover obtain opened r where "take_sample (sp_monitored s) [] [] None (sp_opened s) = (opened, r)" by fastforce
  ultimately show ?thesis using sampler_step.sample [of s] by fastforce
qed

end
