(* ===== verification/ChartLayout.thy ===== *)
theory ChartLayout
  imports BenchCharts BenchDistribution
begin

text \<open>
  The layout of the charts: a chart of moderate numbers is always drawn, and every point lies
  inside the plot area in spite of float rounding.
\<close>

section \<open>Rounding errors\<close>

lemma round64_error: "\<bar>round64 x - x\<bar> \<le> \<bar>x\<bar> / 2 ^ 53 + 1 / 2 ^ 100"
proof (cases "x = 0")
  case False
  let ?q = "pow2 (quantum x)"
  have q0: "0 < ?q" by simp
  have "\<bar>of_int (round_half_even (x / ?q)) - x / ?q\<bar> \<le> 1 / 2" by (rule round_half_even_close)
  then have "\<bar>of_int (round_half_even (x / ?q)) - x / ?q\<bar> * ?q \<le> 1 / 2 * ?q"
    using q0 by (intro mult_right_mono) (simp_all add: less_imp_le)
  moreover have "\<bar>of_int (round_half_even (x / ?q)) - x / ?q\<bar> * ?q = \<bar>round64 x - x\<bar>"
    using q0 False by (simp add: round64_def abs_mult_pos left_diff_distrib less_imp_le)
  ultimately have e: "\<bar>round64 x - x\<bar> \<le> ?q / 2" by simp
  have "?q / 2 \<le> \<bar>x\<bar> / 2 ^ 53 + 1 / 2 ^ 100"
  proof (cases "quantum x = - 1074")
    case True
    have "pow2 (- 1074) \<le> pow2 (- 99)" by (rule pow2_mono) simp
    also have "pow2 (- 99) = 2 / 2 ^ 100" by (simp add: pow2_def)
    finally show ?thesis unfolding True by (simp add: field_simps)
  next
    case False
    then have "quantum x = exponent x - 52" by (auto simp: quantum_def max_def split: if_splits)
    then have "?q = pow2 (exponent x) / 2 ^ 52"
      using pow2_nat [of 52] pow2_diff [of "exponent x" 52] by simp
    then show ?thesis using exponent_bounds(1) [OF \<open>x \<noteq> 0\<close>] by (simp add: field_simps)
  qed
  with e show ?thesis by linarith
qed simp

lemma round64_relative:
  assumes "1 / 2 ^ 40 \<le> x"
  shows "round64 x \<le> x + x / 2 ^ 53"
proof -
  let ?q = "pow2 (quantum x)"
  have x0: "0 < x" "x \<noteq> 0" using assms by (auto intro: less_le_trans [rotated])
  have "pow2 (- 40) < pow2 (exponent x + 1)"
    using exponent_bounds(2) [OF x0(2)] assms x0 by (simp add: pow2_def)
  then have "- 40 < exponent x + 1" using pow2_mono [of "exponent x + 1" "- 40"] by linarith
  then have "quantum x = exponent x - 52" by (simp add: quantum_def)
  then have q: "?q = pow2 (exponent x) / 2 ^ 52"
    using pow2_nat [of 52] pow2_diff [of "exponent x" 52] by simp
  have "of_int (round_half_even (x / ?q)) - x / ?q \<le> 1 / 2"
    using round_half_even_close [of "x / ?q"] by linarith
  then have "(of_int (round_half_even (x / ?q)) - x / ?q) * ?q \<le> 1 / 2 * ?q"
    by (intro mult_right_mono) (simp_all add: less_imp_le)
  then have "round64 x - x \<le> ?q / 2" using x0 by (simp add: round64_def left_diff_distrib)
  also have "\<dots> \<le> x / 2 ^ 53" using exponent_bounds(1) [OF x0(2)] x0 q by (simp add: field_simps)
  finally show ?thesis by simp
qed

lemma round64_pow2: "- 1000 \<le> k \<Longrightarrow> round64 (pow2 k) = pow2 k"
proof -
  assume k: "- 1000 \<le> k"
  have "\<bar>pow2 k\<bar> < pow2 (k + 1)" using pow2_add [of k 1] pow2_pos [of k] by (simp only: abs_of_pos) simp
  then have "exponent (pow2 k) \<le> k" by (intro exponent_le) simp_all
  with k show ?thesis by (intro round64_exact [of _ 1]) (auto simp: quantum_def)
qed

section \<open>Least and greatest values\<close>

lemma list_fmin_Fin: "rs \<noteq> [] \<Longrightarrow> list_fmin (map Fin rs) = Fin (Min (set rs))"
proof -
  have "foldl (\<lambda>m x. if flt x m then x else m) (Fin r) (map Fin rs) = Fin (Min (insert r (set rs)))" for r rs
  proof (induction rs arbitrary: r)
    case (Cons a rs)
    have "Min (insert r (insert a (set rs))) = Min (insert (if a < r then a else r) (set rs))"
      by (cases "rs = []") (auto simp: Min_insert min_def)
    with Cons.IH show ?case by auto
  qed simp
  then show "rs \<noteq> [] \<Longrightarrow> ?thesis" by (cases rs) (simp_all add: list_fmin_def)
qed

lemma list_fmax_Fin: "rs \<noteq> [] \<Longrightarrow> list_fmax (map Fin rs) = Fin (Max (set rs))"
proof -
  have "foldl (\<lambda>m x. if flt m x then x else m) (Fin r) (map Fin rs) = Fin (Max (insert r (set rs)))" for r rs
  proof (induction rs arbitrary: r)
    case (Cons a rs)
    have "Max (insert r (insert a (set rs))) = Max (insert (if r < a then a else r) (set rs))"
      by (cases "rs = []") (auto simp: Max_insert max_def)
    with Cons.IH show ?case by auto
  qed simp
  then show "rs \<noteq> [] \<Longrightarrow> ?thesis" by (cases rs) (simp_all add: list_fmax_def)
qed

section \<open>The range of the values\<close>

lemma list_fmax_mem: "xs \<noteq> [] \<Longrightarrow> list_fmax xs \<in> set xs"
proof -
  have "foldl (\<lambda>m x. if flt m x then x else m) a ys \<in> insert a (set ys)" for a ys
    by (induction ys arbitrary: a) (auto split: if_splits)
  then show "xs \<noteq> [] \<Longrightarrow> ?thesis" by (cases xs) (auto simp: list_fmax_def)
qed

text \<open>The padding is at least a part of the greatest value, so that the rounded range never collapses.\<close>

definition range_ok :: "rat \<Rightarrow> rat \<Rightarrow> bool" where
  "range_ok least greatest \<longleftrightarrow> round64 least = least \<and> round64 greatest = greatest \<and>
     \<bar>least\<bar> \<le> 2 ^ 50 \<and> \<bar>greatest\<bar> \<le> 2 ^ 50 \<and> least \<le> greatest"

definition range_padding :: "rat \<Rightarrow> rat \<Rightarrow> rat" where
  "range_padding least greatest = Max {round64 (round64 (greatest - least) * round64 (1 / 10)),
     round64 (\<bar>greatest\<bar> * round64 (2 / 100)), round64 (1 / 10 ^ 9)}"

definition range_low :: "rat \<Rightarrow> rat \<Rightarrow> rat" where
  "range_low least greatest = round64 (least - range_padding least greatest)"

definition range_high :: "rat \<Rightarrow> rat \<Rightarrow> rat" where
  "range_high least greatest = round64 (greatest + range_padding least greatest)"

definition range_height :: "rat \<Rightarrow> rat \<Rightarrow> rat" where
  "range_height least greatest = round64 (range_high least greatest - range_low least greatest)"

lemma small_factors:
  "0 \<le> round64 (1 / 10)" "round64 (1 / 10) \<le> 1" "1 / 64 \<le> round64 (2 / 100)" "round64 (2 / 100) \<le> 1"
  "1 / 2 ^ 30 \<le> round64 (1 / 10 ^ 9)" "round64 (1 / 10 ^ 9) \<le> 1"
proof -
  have "pow2 (- 6) \<le> 2 / 100" "pow2 (- 30) \<le> 1 / 10 ^ 9" by (simp_all add: pow2_def)
  from this [THEN round64_mono] have low: "pow2 (- 6) \<le> round64 (2 / 100)" "pow2 (- 30) \<le> round64 (1 / 10 ^ 9)"
    by (simp_all add: round64_pow2)
  then show "1 / 64 \<le> round64 (2 / 100)" "1 / 2 ^ 30 \<le> round64 (1 / 10 ^ 9)" by (simp_all add: pow2_def)
  have one: "round64 1 = 1" using round64_of_int [of 1] by simp
  show "0 \<le> round64 (1 / 10)" by (rule round64_nonneg) simp
  show "round64 (1 / 10) \<le> 1" "round64 (2 / 100) \<le> 1" "round64 (1 / 10 ^ 9) \<le> 1"
    using round64_mono [of "1 / 10" 1] round64_mono [of "2 / 100" 1] round64_mono [of "1 / 10 ^ 9" 1] one
    by simp_all
qed

lemma range_okD:
  assumes "range_ok least greatest"
  shows "round64 least = least" "round64 greatest = greatest" "\<bar>least\<bar> \<le> 2 ^ 50" "\<bar>greatest\<bar> \<le> 2 ^ 50"
    "least \<le> greatest"
  using assms by (simp_all add: range_ok_def)

lemma range_spread:
  assumes "range_ok least greatest"
  shows "0 \<le> round64 (greatest - least)" "round64 (greatest - least) \<le> 2 ^ 51"
  using range_okD [OF assms] round64_nonneg [of "greatest - least"] round64_abs_le [of "greatest - least" "2 ^ 51"]
  by simp_all

lemma product_le:
  assumes "0 \<le> x" "x \<le> 2 ^ 51" "0 \<le> c" "c \<le> 1"
  shows "0 \<le> round64 (x * c)" "round64 (x * c) \<le> 2 ^ 51" "x * c \<le> 2 ^ 51"
proof -
  have "x * c \<le> x * 1" by (rule mult_left_mono) (use assms in auto)
  then show "x * c \<le> 2 ^ 51" using assms by simp
  then have "\<bar>x * c\<bar> \<le> of_int (2 ^ 51)" using assms by simp
  from round64_abs_le [OF this] show "round64 (x * c) \<le> 2 ^ 51" by simp
  show "0 \<le> round64 (x * c)" using assms by (simp add: round64_nonneg)
qed

lemma range_padding_bounds:
  assumes "range_ok m g"
  shows "1 / 2 ^ 30 \<le> range_padding m g" "range_padding m g \<le> 2 ^ 51" "\<bar>g\<bar> \<le> 256 * range_padding m g"
proof -
  note r = range_okD [OF assms]
  note f = small_factors
  let ?p = "round64 (\<bar>g\<bar> * round64 (2 / 100))" and ?x = "\<bar>g\<bar> / 64"
  have "round64 (1 / 10 ^ 9) \<le> range_padding m g" unfolding range_padding_def by (rule Max_ge) auto
  with f(5) show lo: "1 / 2 ^ 30 \<le> range_padding m g" by (rule order_trans)
  have "round64 (round64 (g - m) * round64 (1 / 10)) \<le> 2 ^ 51" "?p \<le> 2 ^ 51"
    using product_le(2) [OF range_spread [OF assms] f(1,2)] product_le(2) [of "\<bar>g\<bar>" "round64 (2 / 100)"] f r
    by simp_all
  with f(6) show "range_padding m g \<le> 2 ^ 51" unfolding range_padding_def by simp
  have "?p \<le> range_padding m g" unfolding range_padding_def by (rule Max_ge) auto
  moreover have "round64 ?x \<le> ?p"
    using mult_left_mono [OF f(3), of "\<bar>g\<bar>"] by (intro round64_mono) simp
  moreover have "?x - (?x / 2 ^ 53 + 1 / 2 ^ 100) \<le> round64 ?x"
    using round64_error [of ?x] by (simp add: abs_le_iff)
  moreover have "?x / 2 ^ 53 \<le> \<bar>g\<bar> / 128" by simp
  moreover have "(1 :: rat) / 2 ^ 100 \<le> 1 / 2 ^ 30" by simp
  ultimately show "\<bar>g\<bar> \<le> 256 * range_padding m g" using lo by linarith
qed

lemma range_limits:
  assumes "range_ok m g"
  shows "range_low m g \<le> m" "g + range_padding m g / 2 \<le> range_high m g"
    "\<bar>range_low m g\<bar> \<le> 2 ^ 52" "\<bar>range_high m g\<bar> \<le> 2 ^ 52"
    "\<bar>m - range_padding m g\<bar> \<le> 2 ^ 52" "\<bar>g + range_padding m g\<bar> \<le> 2 ^ 52"
proof -
  note r = range_okD [OF assms]
  note p = range_padding_bounds [OF assms]
  have p0: "0 \<le> range_padding m g" using order_trans [OF _ p(1), of 0] by simp
  show "range_low m g \<le> m"
    unfolding range_low_def using round64_mono [of "m - range_padding m g" m] p0 r(1) by simp
  show b: "\<bar>m - range_padding m g\<bar> \<le> 2 ^ 52" "\<bar>g + range_padding m g\<bar> \<le> 2 ^ 52"
    using r p(2) p0 by (simp_all add: abs_le_iff)
  then show "\<bar>range_low m g\<bar> \<le> 2 ^ 52" "\<bar>range_high m g\<bar> \<le> 2 ^ 52"
    unfolding range_low_def range_high_def using round64_abs_le [of _ "2 ^ 52"] by auto
  have "\<bar>g + range_padding m g\<bar> \<le> 257 * range_padding m g" using p(3) p0 by linarith
  then have "\<bar>g + range_padding m g\<bar> / 2 ^ 53 \<le> range_padding m g / 4" using p0 by simp
  moreover have "(1 :: rat) / 2 ^ 100 \<le> 1 / 2 ^ 32" by simp
  moreover have "1 / 2 ^ 32 \<le> range_padding m g / 4" using p(1) by simp
  moreover note round64_error [of "g + range_padding m g"]
  ultimately show "g + range_padding m g / 2 \<le> range_high m g"
    unfolding range_high_def abs_le_iff by linarith
qed

lemma range_height_bounds:
  assumes "range_ok m g"
  shows "1 / 2 ^ 31 \<le> range_height m g" "range_height m g \<le> 2 ^ 53" "\<bar>range_high m g - range_low m g\<bar> \<le> 2 ^ 53"
proof -
  have "1 / 2 ^ 31 \<le> range_padding m g / 2" using range_padding_bounds(1) [OF assms] by simp
  then have "1 / 2 ^ 31 \<le> range_high m g - range_low m g"
    using range_limits(1,2) [OF assms] range_okD(5) [OF assms] by linarith
  then have "pow2 (- 31) \<le> range_high m g - range_low m g" by (simp add: pow2_def)
  from round64_mono [OF this] show "1 / 2 ^ 31 \<le> range_height m g"
    by (simp add: range_height_def round64_pow2) (simp add: pow2_def)
  show b: "\<bar>range_high m g - range_low m g\<bar> \<le> 2 ^ 53" using range_limits(3,4) [OF assms] by simp
  then have "\<bar>range_high m g - range_low m g\<bar> \<le> of_int (2 ^ 53)" by simp
  from round64_abs_le [OF this] show "range_height m g \<le> 2 ^ 53" by (simp add: range_height_def)
qed

section \<open>Heights\<close>

lemma quotient_bounds:
  assumes "0 \<le> a" "a \<le> d" "1 / 2 ^ 31 \<le> d" "d \<le> 2 ^ 53"
  shows "0 \<le> round64 (a * 475) / d" "round64 (a * 475) / d \<le> 475 + 1 / 2 ^ 44"
proof -
  have d0: "0 < d" using assms(3) by (auto intro: less_le_trans [rotated])
  then show "0 \<le> round64 (a * 475) / d" using assms(1) by (simp add: round64_nonneg)
  have "round64 (a * 475) \<le> round64 (d * 475)" using assms by (intro round64_mono) simp
  also have "\<dots> \<le> d * 475 + d * 475 / 2 ^ 53" using assms(3) by (intro round64_relative) simp
  finally have "round64 (a * 475) / d \<le> (d * 475 + d * 475 / 2 ^ 53) / d"
    by (rule divide_right_mono) (use d0 in simp)
  also have "\<dots> = 475 + 475 / 2 ^ 53" using d0 by (simp add: field_simps)
  also have "(475 :: rat) + 475 / 2 ^ 53 \<le> 475 + 1 / 2 ^ 44" by simp
  finally show "round64 (a * 475) / d \<le> 475 + 1 / 2 ^ 44" .
qed

lemma height_bounds:
  assumes "0 \<le> q" "q \<le> 475 + 1 / 2 ^ 44"
  shows "70 \<le> round64 (70 + round64 q)" "round64 (70 + round64 q) \<le> 545"
proof -
  have "round64 (475 + 1 / 2 ^ 44) = 475 + 1 / 2 ^ 44" by code_simp
  with round64_mono [OF assms(2)] have "round64 (70 + round64 q) \<le> round64 (545 + 1 / 2 ^ 44)"
    by (intro round64_mono) simp
  also have "\<dots> = 545" by code_simp
  finally show "round64 (70 + round64 q) \<le> 545" .
  have "round64 70 \<le> round64 (70 + round64 q)" using assms(1) by (intro round64_mono) (simp add: round64_nonneg)
  then show "70 \<le> round64 (70 + round64 q)" using round64_of_int [of 70] by simp
qed

section \<open>The frame\<close>

lemma range_floats:
  assumes "range_ok m g"
  shows "chart_padding (Fin m) (Fin g) = Fin (range_padding m g)"
    "fsub (Fin m) (Fin (range_padding m g)) = Fin (range_low m g)"
    "fadd (Fin g) (Fin (range_padding m g)) = Fin (range_high m g)"
    "fsub (Fin (range_high m g)) (Fin (range_low m g)) = Fin (range_height m g)"
proof -
  note r = range_okD [OF assms] and f = small_factors
  have c: "to_f64 (1 / 10) = Fin (round64 (1 / 10))" "to_f64 (2 / 100) = Fin (round64 (2 / 100))"
    "to_f64 (1 / 10 ^ 9) = Fin (round64 (1 / 10 ^ 9))"
    by (rule to_f64_finite, simp)+
  have d: "fsub (Fin g) (Fin m) = Fin (round64 (g - m))"
    using r by (simp add: fsub_def to_f64_finite)
  have p: "fmul (Fin (round64 (g - m))) (Fin (round64 (1 / 10))) = Fin (round64 (round64 (g - m) * round64 (1 / 10)))"
    "fmul (Fin \<bar>g\<bar>) (Fin (round64 (2 / 100))) = Fin (round64 (\<bar>g\<bar> * round64 (2 / 100)))"
    using product_le(3) [OF range_spread [OF assms] f(1,2)] range_spread(1) [OF assms]
      product_le(3) [of "\<bar>g\<bar>" "round64 (2 / 100)"] f r
    by (simp_all add: to_f64_finite)
  show "chart_padding (Fin m) (Fin g) = Fin (range_padding m g)"
    using list_fmax_Fin [of "[round64 (round64 (g - m) * round64 (1 / 10)), round64 (\<bar>g\<bar> * round64 (2 / 100)),
      round64 (1 / 10 ^ 9)]"]
    by (simp only: chart_padding_def range_padding_def d c p fabs.simps list.map list.set list.simps) simp
  show "fsub (Fin m) (Fin (range_padding m g)) = Fin (range_low m g)"
    "fadd (Fin g) (Fin (range_padding m g)) = Fin (range_high m g)"
    "fsub (Fin (range_high m g)) (Fin (range_low m g)) = Fin (range_height m g)"
    using range_limits(5,6) [OF assms] range_height_bounds(3) [OF assms]
    by (simp_all add: fsub_def to_f64_finite range_low_def range_high_def range_height_def)
qed

definition points_ok :: "series list \<Rightarrow> bool" where
  "points_ok series_list \<longleftrightarrow> (\<forall>item \<in> set series_list. \<forall>p \<in> set (drawn_points item). sample_ok (snd p))"

lemma chart_frame_range:
  assumes ok: "points_ok series_list" and frame: "chart_frame_of z series_list = Some frame"
  obtains m g where "range_ok m g" "cf_y_min frame = Fin (range_low m g)" "cf_y_max frame = Fin (range_high m g)"
    "cf_x_values frame = sort (remdups (map fst (concat (map drawn_points series_list))))"
    "\<And>item p. item \<in> set series_list \<Longrightarrow> p \<in> set (drawn_points item) \<Longrightarrow> \<exists>v. snd p = Fin v \<and> m \<le> v \<and> v \<le> g"
proof -
  let ?points = "concat (map drawn_points series_list)"
  let ?ys = "map snd ?points"
  define rs where "rs = samples_of ?ys"
  have oks: "\<forall>f \<in> set ?ys. sample_ok f" using ok by (auto simp: points_ok_def)
  then have ys: "?ys = map Fin rs" unfolding rs_def by (metis samples_of_Fin)
  have ne: "?points \<noteq> []" using frame by (auto simp: chart_frame_of_def Let_def split: if_splits)
  then have rs: "rs \<noteq> []" using ys by auto
  have exact: "\<forall>r \<in> set rs. round64 r = r \<and> \<bar>r\<bar> \<le> 2 ^ 50" using oks ys by auto
  define m where "m = (if z then min 0 (Min (set rs)) else Min (set rs))"
  define g where "g = (if z then max 0 (Max (set rs)) else Max (set rs))"
  have mg: "Min (set rs) \<in> set rs" "Max (set rs) \<in> set rs" using rs by auto
  have within: "m \<le> r" "r \<le> g" if "r \<in> set rs" for r
    using that rs by (auto simp: m_def g_def min_le_iff_disj le_max_iff_disj)
  have r: "range_ok m g"
    using exact mg within [OF mg(1)] order_trans [OF within(1) within(2)] rs
    by (auto simp: range_ok_def m_def g_def min_def max_def)
  have fm: "(if z then list_fmin [Fin 0, list_fmin ?ys] else list_fmin ?ys) = Fin m"
    and fg: "(if z then list_fmax [Fin 0, list_fmax ?ys] else list_fmax ?ys) = Fin g"
    using list_fmin_Fin [OF rs] list_fmax_Fin [OF rs] list_fmin_Fin [of "[0, Min (set rs)]"]
      list_fmax_Fin [of "[0, Max (set rs)]"]
    by (simp_all only: ys) (simp_all add: m_def g_def)
  have fr: "frame = \<lparr>cf_x_values = sort (remdups (map fst ?points)), cf_y_min = Fin (range_low m g),
      cf_y_max = Fin (range_high m g)\<rparr>"
    using frame ne by (simp only: chart_frame_of_def Let_def fm fg range_floats [OF r] if_False option.inject)
  have pts: "\<exists>v. snd p = Fin v \<and> m \<le> v \<and> v \<le> g" if "item \<in> set series_list" "p \<in> set (drawn_points item)" for item p
  proof -
    have "snd p \<in> set ?ys" using that by auto
    then obtain v where "snd p = Fin v" "v \<in> set rs" unfolding ys by auto
    with within show ?thesis by blast
  qed
  show ?thesis using that [OF r _ _ _ pts] fr by simp
qed

section \<open>Points inside the plot area\<close>

lemma y_position_inside:
  assumes r: "range_ok m g" and f: "cf_y_min frame = Fin (range_low m g)" "cf_y_max frame = Fin (range_high m g)"
    and v: "m \<le> v" "v \<le> g"
  obtains y where "y_position frame (Fin v) = Inr (Fin y)" "70 \<le> y" "y \<le> 545"
proof -
  note l = range_limits [OF r] and h = range_height_bounds [OF r] and b = range_okD [OF r]
  let ?a = "round64 (range_high m g - v)" and ?d = "range_height m g"
  let ?q = "round64 (?a * 475) / ?d"
  have "0 \<le> range_padding m g" using order_trans [OF _ range_padding_bounds(1) [OF r], of 0] by simp
  then have "v \<le> range_high m g" using l(2) v by linarith
  then have a0: "0 \<le> ?a" by (simp add: round64_nonneg)
  have ad: "?a \<le> ?d" unfolding range_height_def using l(1) v by (intro round64_mono) simp
  note q = quotient_bounds [OF a0 ad h(1,2)]
  note y = height_bounds [OF q]
  have "\<bar>range_high m g - v\<bar> \<le> 2 ^ 53" using l(4) b(3,4) v by (simp add: abs_le_iff)
  then have e1: "fsub (Fin (range_high m g)) (Fin v) = Fin ?a" by (simp add: fsub_def to_f64_finite)
  have "?a * 475 \<le> 2 ^ 53 * 475" using ad h(2) by simp
  also have "(2 :: rat) ^ 53 * 475 \<le> 2 ^ 1000" by simp
  finally have e2: "fmul (Fin ?a) (Fin 475) = Fin (round64 (?a * 475))"
    using a0 by (simp add: to_f64_large)
  have d0: "?d \<noteq> 0" using h(1) by auto
  have q476: "\<bar>?q\<bar> \<le> of_int 476" using q by (simp only: abs_of_nonneg) (rule order_trans, assumption, simp)
  then have "to_f64 ?q = Fin (round64 ?q)" by (intro to_f64_finite) (rule order_trans, assumption, simp)
  then have e3: "fdiv (Fin (round64 (?a * 475))) (Fin ?d) = Inr (Fin (round64 ?q))"
    using d0 by simp
  from round64_abs_le [OF q476] have e4: "fadd (Fin 70) (Fin (round64 ?q)) = Fin (round64 (70 + round64 ?q))"
    by (simp add: to_f64_finite)
  show ?thesis
    using that [OF _ y] by (simp only: y_position_def f range_floats(4) [OF r] e1 e2 e3 e4 bind_result_simps)
qed

lemma takeWhile_index: "v \<in> set xs \<Longrightarrow> length (takeWhile (\<lambda>x. x \<noteq> v) xs) < length xs"
  by (induction xs) auto

lemma x_position_inside:
  assumes v: "v \<in> set (cf_x_values frame)" and n: "int (length (cf_x_values frame)) \<le> 2 ^ 40"
  obtains x where "x_position frame v = Inr (Fin x)" "90 \<le> x" "x \<le> 760"
proof (cases "length (cf_x_values frame) = 1")
  case True
  then show ?thesis using that [of 425] by (simp add: x_position_def)
next
  case False
  let ?xs = "cf_x_values frame"
  define i where "i = int (length (takeWhile (\<lambda>x. x \<noteq> v) ?xs))"
  define k where "k = int (length ?xs) - 1"
  have "?xs \<noteq> []" using v by auto
  with False have k: "1 \<le> k" by (cases ?xs) (auto simp: k_def Suc_le_eq)
  have i: "0 \<le> i" "i \<le> k" using takeWhile_index [OF v] by (simp_all add: i_def k_def)
  let ?q = "rat_of_int (i * 670) / of_int k"
  have "rat_of_int (i * 670) \<le> of_int (k * 670)" using i by (simp only: of_int_le_iff)
  then have q: "0 \<le> ?q" "?q \<le> 670" using i k by (simp_all add: pos_divide_le_eq)
  have rq: "0 \<le> round64 ?q" "round64 ?q \<le> 670"
    using q round64_nonneg [of ?q] round64_abs_le [of ?q 670] by simp_all
  have e1: "num_div (NInt (i * 670)) (NInt k) = Inr (NFlt (Fin (round64 ?q)))"
    using k q by (simp add: to_f64_finite)
  have e2: "fadd (Fin 90) (Fin (round64 ?q)) = Fin (round64 (90 + round64 ?q))"
    using rq by (simp add: to_f64_finite)
  have "round64 90 \<le> round64 (90 + round64 ?q)" "round64 (90 + round64 ?q) \<le> round64 760"
    using rq by (simp_all add: round64_mono)
  then have x: "90 \<le> round64 (90 + round64 ?q)" "round64 (90 + round64 ?q) \<le> 760"
    using round64_of_int [of 90] round64_of_int [of 760] by simp_all
  have "x_position frame v = Inr (Fin (round64 (90 + round64 ?q)))"
    using v False e1 e2 by (simp add: x_position_def py_index_def i_def k_def Let_def del: num_div.simps fadd.simps)
  then show ?thesis using x by (rule that)
qed

fun inside_plot :: "pyfloat \<times> pyfloat \<Rightarrow> bool" where
  "inside_plot (x, y) \<longleftrightarrow> fle (Fin 90) x \<and> fle x (Fin 760) \<and> fle (Fin 70) y \<and> fle y (Fin 545)"

lemma plotted_points_inside:
  assumes "points_ok series_list" and "chart_frame_of z series_list = Some frame"
    and "int (length (cf_x_values frame)) \<le> 2 ^ 40" and "item \<in> set series_list"
  shows "\<exists>points. plotted_points frame item = Inr points \<and> length points = length (drawn_points item) \<and>
    list_all inside_plot points"
proof -
  obtain m g where r: "range_ok m g" and f: "cf_y_min frame = Fin (range_low m g)" "cf_y_max frame = Fin (range_high m g)"
    and xs: "cf_x_values frame = sort (remdups (map fst (concat (map drawn_points series_list))))"
    and ys: "\<And>p. p \<in> set (drawn_points item) \<Longrightarrow> \<exists>v. snd p = Fin v \<and> m \<le> v \<and> v \<le> g"
    using chart_frame_range [OF assms(1,2)] assms(4) by metis
  let ?plot = "\<lambda>(x, y). bind_result (x_position frame x) (\<lambda>px. bind_result (y_position frame y) (\<lambda>py. Inr (px, py)))"
  have one: "\<exists>q. ?plot p = Inr q \<and> inside_plot q" if p: "p \<in> set (drawn_points item)" for p
  proof -
    obtain v where v: "snd p = Fin v" "m \<le> v" "v \<le> g" using ys [OF p] by blast
    obtain y where y: "y_position frame (Fin v) = Inr (Fin y)" "70 \<le> y" "y \<le> 545"
      using y_position_inside [OF r f v(2,3)] by blast
    have "fst p \<in> set (cf_x_values frame)" using p assms(4) unfolding xs by force
    then obtain x where x: "x_position frame (fst p) = Inr (Fin x)" "90 \<le> x" "x \<le> 760"
      using x_position_inside [OF _ assms(3)] by blast
    show ?thesis using x y v(1) by (cases p) auto
  qed
  have "\<exists>points. map_result ?plot ps = Inr points \<and> length points = length ps \<and> list_all inside_plot points"
    if "set ps \<subseteq> set (drawn_points item)" for ps
    using that
  proof (induction ps)
    case (Cons p ps)
    then obtain points where "map_result ?plot ps = Inr points" "length points = length ps" "list_all inside_plot points"
      by auto
    moreover obtain q where "?plot p = Inr q" "inside_plot q" using one [of p] Cons.prems by auto
    ultimately show ?case by simp
  qed simp
  then show ?thesis unfolding plotted_points_def by blast
qed

text \<open>Nothing else in a chart can fail, so a chart of such points is drawn.\<close>

lemma fdiv_nonzero: "b \<noteq> 0 \<Longrightarrow> \<exists>q. fdiv x (Fin b) = Inr q"
  by (cases x) simp_all

lemma fdiv_total: "fdiv x d = Inr q \<Longrightarrow> \<exists>r. fdiv y d = Inr r"
  by (cases d; cases y) (auto split: if_splits)

lemma svg_chart_total:
  assumes ok: "points_ok series_list"
    and n: "\<And>frame. chart_frame_of z series_list = Some frame \<Longrightarrow> int (length (cf_x_values frame)) \<le> 2 ^ 40"
  shows "\<exists>text. svg_chart title y_label series_list z = Inr text"
proof (cases "chart_frame_of z series_list")
  case None
  then show ?thesis by (simp add: svg_chart_def)
next
  case (Some f)
  obtain m g where r: "range_ok m g" and lim: "cf_y_min f = Fin (range_low m g)" "cf_y_max f = Fin (range_high m g)"
    using chart_frame_range [OF ok Some] by metis
  then obtain q where "y_position f (Fin m) = Inr q" using y_position_inside [OF r lim, of m] by (auto simp: range_ok_def)
  then have y: "\<exists>y. y_position f v = Inr y" for v
    using fdiv_total by (fastforce simp: y_position_def)
  have "\<exists>texts. tick_marks f t = Inr texts" for t
  proof -
    obtain v where "tick_value f t = Inr v"
      using fdiv_nonzero [of 5] by (fastforce simp: tick_value_def)
    moreover obtain w where "y_position f v = Inr w" using y by blast
    ultimately show ?thesis by (simp add: tick_marks_def)
  qed
  then obtain ticks where ticks: "concat_result (tick_marks f) [0..5] = Inr ticks"
    using concat_result_total [of "[0..5]" "tick_marks f"] by blast
  have "\<exists>text. x_mark f x = Inr text" if "x \<in> set (cf_x_values f)" for x
    using x_position_inside [OF that n [OF Some]] by (auto simp: x_mark_def)
  then obtain marks where marks: "map_result (x_mark f) (cf_x_values f) = Inr marks"
    using map_result_exists [of "cf_x_values f" "x_mark f"] by blast
  have "\<exists>texts. series_marks f e = Inr texts" if e: "e \<in> set (enumerated series_list)" for e
  proof -
    have "snd e \<in> set series_list" using set_enumerated [OF e] by simp
    from plotted_points_inside [OF ok Some n [OF Some] this] obtain points where "plotted_points f (snd e) = Inr points"
      by blast
    then show ?thesis by (simp add: series_marks_def split_beta Let_def)
  qed
  then obtain lines where "concat_result (series_marks f) (enumerated series_list) = Inr lines"
    using concat_result_total [of "enumerated series_list" "series_marks f"] by blast
  with Some ticks marks show ?thesis by (simp add: svg_chart_def)
qed

text \<open>
  C35: A chart of moderate numbers is always drawn, and every point of it lies inside the plot
  area, in spite of the rounding of its float layout.
\<close>

theorem chart_points_inside:
  assumes "points_ok series_list" and "chart_frame_of z series_list = Some frame"
    and "int (length (cf_x_values frame)) \<le> 2 ^ 40"
  shows "(\<exists>text. svg_chart title y_label series_list z = Inr text) \<and>
    (\<forall>item \<in> set series_list. \<exists>points. plotted_points frame item = Inr points \<and>
       length points = length (drawn_points item) \<and> list_all inside_plot points)"
proof -
  have "int (length (cf_x_values f)) \<le> 2 ^ 40" if "chart_frame_of z series_list = Some f" for f
    using that assms(2,3) by simp
  from svg_chart_total [OF assms(1) this] plotted_points_inside [OF assms] show ?thesis by blast
qed

end
