(* ===== verification/ChartText.thy ===== *)
theory ChartText
  imports ChartLayout BenchEvidence
begin

text \<open>
  The contents of the charts: every group is one point of the series of its workload and path,
  and neither a title nor the name of a workload adds markup to the drawing.
\<close>

section \<open>Series\<close>

lemma append_at_mset: "mset (concat (map snd (append_at d (k, x)))) = add_mset x (mset (concat (map snd d)))"
  by (induction d) (auto simp: append_at_def dget_default_def dset_def)

lemma index_by_mset: "mset (concat (map snd (index_by kxs))) = mset (map snd kxs)"
proof -
  have "mset (concat (map snd (foldl append_at d kxs))) = mset (concat (map snd d)) + mset (map snd kxs)" for d
    by (induction kxs arbitrary: d) (auto simp: append_at_mset)
  from this [of "[]"] show ?thesis by (simp add: index_by_def)
qed

lemma mset_concat_sum: "mset (concat yss) = \<Sum>\<^sub># (image_mset mset (mset yss))"
  by (induction yss) simp_all

lemma mset_concat_sorted: "mset (concat (map f (sort_key g xs))) = mset (concat (map f xs))"
  by (simp only: mset_concat_sum mset_map mset_sort)

theorem group_series_complete:
  "mset (concat (map se_points (group_series getter groups))) =
     mset (map (\<lambda>g. (sg_concurrency g, getter g)) groups) \<and>
   (\<forall>s \<in> set (group_series getter groups). sorted (map fst (se_points s)) \<and>
      (\<exists>workload path. se_label s = workload @ '' '' @ path \<and>
         mset (se_points s) = mset (map (\<lambda>g. (sg_concurrency g, getter g))
           (filter (\<lambda>g. sg_workload g = workload \<and> sg_path g = path) groups))))"
proof
  let ?point = "\<lambda>g. (sg_concurrency g, getter g)"
  define entries where "entries = index_by (map (\<lambda>g. ((sg_workload g, sg_path g), g)) groups)"
  have points: "map se_points (group_series getter groups) =
      map (\<lambda>e. map ?point (sort_key sg_concurrency (snd e))) (sort_key fst entries)"
    by (simp add: group_series_def entries_def split_beta comp_def)
  have "mset (concat (map (\<lambda>e. map ?point (sort_key sg_concurrency (snd e))) es)) =
      image_mset ?point (mset (concat (map snd es)))" for es :: "((string \<times> string) \<times> sample_group list) list"
    by (induction es) simp_all
  then show "mset (concat (map se_points (group_series getter groups))) = mset (map ?point groups)"
    unfolding points using mset_concat_sorted [of snd fst entries]
    by (simp add: entries_def index_by_mset comp_def del: mset_concat)
  show "\<forall>s \<in> set (group_series getter groups). sorted (map fst (se_points s)) \<and>
      (\<exists>workload path. se_label s = workload @ '' '' @ path \<and>
         mset (se_points s) = mset (map ?point
           (filter (\<lambda>g. sg_workload g = workload \<and> sg_path g = path) groups)))"
  proof
    fix s
    assume "s \<in> set (group_series getter groups)"
    then obtain workload path rows where e: "((workload, path), rows) \<in> set entries"
      and s: "se_label s = workload @ '' '' @ path" "se_points s = map ?point (sort_key sg_concurrency rows)"
      by (auto simp: group_series_def entries_def)
    have "rows = filter (\<lambda>g. sg_workload g = workload \<and> sg_path g = path) groups"
      using index_by_entry [OF e [unfolded entries_def]] by (simp add: filter_map comp_def)
    with s show "sorted (map fst (se_points s)) \<and>
      (\<exists>workload path. se_label s = workload @ '' '' @ path \<and>
         mset (se_points s) = mset (map ?point
           (filter (\<lambda>g. sg_workload g = workload \<and> sg_path g = path) groups)))"
      by (auto simp: comp_def)
  qed
qed

section \<open>Markup\<close>

definition markup :: "string \<Rightarrow> string" where
  \<comment> \<open>the characters that delimit elements and attributes\<close>
  "markup text = filter (\<lambda>c. c \<in> {CHR ''<'', CHR ''>'', CHR 0x22}) text"

lemma markup_append [simp]: "markup (a @ b) = markup a @ markup b"
  by (simp add: markup_def)

lemma markup_Cons [simp]: "markup (c # s) = (if c \<in> {CHR ''<'', CHR ''>'', CHR 0x22} then c # markup s else markup s)"
  by (simp add: markup_def)

lemma markup_escaped [simp]: "markup (html_escape s) = []"
proof (induction s)
  case (Cons c s)
  moreover have "markup (html_char c) = []" by (auto simp: markup_def)
  ultimately show ?case by (simp add: html_escape_def)
qed (simp add: html_escape_def markup_def)

lemma markup_join: "markup (py_join [CHR 10] lines) = concat (map markup lines)"
  by (induction "[CHR 10]" lines rule: py_join.induct) (simp_all, simp_all add: markup_def)

definition marked :: "string list result \<Rightarrow> string list result" where
  "marked r = bind_result r (\<lambda>texts. Inr (map markup texts))"

lemma series_marks_marked:
  assumes "se_points s = se_points t"
  shows "marked (series_marks frame (i, s)) = marked (series_marks frame (i, t))"
proof -
  have "plotted_points frame s = plotted_points frame t"
    using assms by (simp add: plotted_points_def drawn_points_def)
  then show ?thesis
    by (cases "plotted_points frame t") (simp_all add: series_marks_def marked_def Let_def legend_marks_def)
qed

lemma concat_result_marked:
  assumes "list_all2 (\<lambda>x y. marked (f x) = marked (f y)) xs ys"
  shows "marked (concat_result f xs) = marked (concat_result f ys)"
  using assms
proof (induction xs ys)
  case (Cons x xs y ys)
  have "marked (concat_result f (z # zs)) =
      bind_result (marked (f z)) (\<lambda>a. bind_result (marked (concat_result f zs)) (\<lambda>b. Inr (a @ b)))" for z zs
    by (cases "f z"; cases "map_result f zs") (simp_all add: concat_result_def marked_def)
  with Cons show ?case by simp
qed simp

theorem labels_add_no_markup:
  assumes "map se_points series_list = map se_points others"
    and "svg_chart title y_label series_list z = Inr text"
  shows "\<exists>text'. svg_chart title' y_label' others z = Inr text' \<and> markup text' = markup text"
proof -
  have "map drawn_points ss = map (List.map_filter (\<lambda>(x, y). map_option (Pair x) y)) (map se_points ss)" for ss
    by (simp add: drawn_points_def)
  then have "map drawn_points series_list = map drawn_points others" using assms(1) by metis
  then have frame: "chart_frame_of z others = chart_frame_of z series_list"
    by (simp add: chart_frame_of_def)
  have "list_all2 (\<lambda>x y. marked (series_marks f x) = marked (series_marks f y))
      (enumerated series_list) (enumerated others)" for f
    using assms(1) series_marks_marked
    by (force simp: list_all2_conv_all_nth enumerated_def list_eq_iff_nth_eq nth_enumerate_eq)
  then have lines: "marked (concat_result (series_marks f) (enumerated series_list)) =
      marked (concat_result (series_marks f) (enumerated others))" for f
    by (rule concat_result_marked)
  show ?thesis
  proof (cases "chart_frame_of z series_list")
    case None
    with assms(2) frame show ?thesis by (auto simp: svg_chart_def empty_chart_def)
  next
    case (Some f)
    obtain ticks marks ls where t: "concat_result (tick_marks f) [0..5] = Inr ticks"
        "map_result (x_mark f) (cf_x_values f) = Inr marks"
        "concat_result (series_marks f) (enumerated series_list) = Inr ls"
      and drawn: "text = py_join [CHR 10] (chart_head title @ ticks @ marks @ chart_axes y_label @ ls @ [''</svg>'']) @ [CHR 10]"
      using assms(2) Some by (auto simp: svg_chart_def)
    obtain ls' where ls': "concat_result (series_marks f) (enumerated others) = Inr ls'" "map markup ls' = map markup ls"
      using lines [of f] t(3) by (cases "concat_result (series_marks f) (enumerated others)") (auto simp: marked_def)
    have "svg_chart title' y_label' others z =
        Inr (py_join [CHR 10] (chart_head title' @ ticks @ marks @ chart_axes y_label' @ ls' @ [''</svg>'']) @ [CHR 10])"
      using Some frame t(1,2) ls'(1) by (simp add: svg_chart_def)
    moreover have "map markup (chart_head title') = map markup (chart_head title)"
      "map markup (chart_axes y_label') = map markup (chart_axes y_label)"
      by (simp_all add: chart_head_def chart_axes_def)
    ultimately show ?thesis unfolding drawn using ls'(2) by (auto simp: markup_join)
  qed
qed

end
