(* ===== verification/OverheadSession.thy ===== *)
theory OverheadSession
  imports BenchOverhead RedisLimit AuditLog TraceExporter Telemetry
begin

text \<open>
  The rest of \<^verbatim>\<open>bench/overhead.py\<close> around the measured loop: how the gateway under test is
  started, how the files it writes are read, the results and their report. Processes, ports and
  the files themselves are parameters: a wait is given by what it finds at each turn.
\<close>

section \<open>Options and processes\<close>

record overhead_options =
  ov_tokens :: nat
  ov_prompt_words :: nat
  ov_requests :: int
  ov_warmup :: int
  ov_repetitions :: int
  ov_concurrency :: "int list"
  ov_redis_url :: "string option"
  ov_label :: string

definition default_options :: overhead_options where
  "default_options = \<lparr>ov_tokens = 16, ov_prompt_words = 64, ov_requests = 5000, ov_warmup = 500,
     ov_repetitions = 5, ov_concurrency = [1, 8, 32], ov_redis_url = None, ov_label = ''local''\<rparr>"

definition limiter_choice :: "overhead_options \<Rightarrow> string" where
  "limiter_choice options = (if truthy_str (ov_redis_url options) then ''redis'' else ''memory'')"

definition overhead_environment ::
  "environ \<Rightarrow> overhead_options \<Rightarrow> string \<Rightarrow> string \<Rightarrow> string \<Rightarrow> string \<Rightarrow> int \<Rightarrow> environ" where
  \<comment> \<open>\<open>suffix\<close>: the random part of the key prefix\<close>
  "overhead_environment base options secret audit_path trace_path suffix backend_port =
     (let env = (gateway_environment base secret)(
        ''AUDIT_LOG_PATH'' \<mapsto> audit_path, ''TRACE_EXPORT_PATH'' \<mapsto> trace_path,
        ''INFERENCE_BACKEND_COMPLETIONS_URL'' \<mapsto> ''http://127.0.0.1:'' @ int_str backend_port @ ''/v1'',
        ''BENCHMARK_REQUESTS_PER_MINUTE'' \<mapsto> ''1000000000'',
        ''BENCHMARK_INPUT_TOKENS_PER_MINUTE'' \<mapsto> ''1000000000000'',
        ''RATE_LIMIT_BACKEND'' \<mapsto> limiter_choice options)
      in if truthy_str (ov_redis_url options)
         then env(''REDIS_URL'' := ov_redis_url options, ''REDIS_KEY_PREFIX'' \<mapsto> ''overhead-'' @ suffix)
         else env)"

definition backend_command :: "string \<Rightarrow> overhead_options \<Rightarrow> int \<Rightarrow> string list" where
  "backend_command python options backend_port =
     [python, ''-m'', ''bench.overhead'', ''--serve-null'', int_str backend_port, ''--tokens'', nat_str (ov_tokens options)]"

definition gateway_command :: "string \<Rightarrow> int \<Rightarrow> string list" where
  "gateway_command python gateway_port =
     [python, ''-m'', ''uvicorn'', ''gateway.app:app'', ''--host'', ''127.0.0.1'', ''--port'', int_str gateway_port,
      ''--workers'', ''1'', ''--no-access-log'', ''--log-level'', ''warning'']"

fun wait_for_port :: "int \<Rightarrow> pyfloat \<Rightarrow> (pyfloat \<times> int option \<times> bool) list \<Rightarrow> unit result" where
  \<comment> \<open>each turn: the clock, the exit code of the process if it has ended, whether the port accepts\<close>
  "wait_for_port port deadline [] = Inl (OSError (''port '' @ int_str port @ '' did not open''))"
| "wait_for_port port deadline ((now, exit_code, accepts) # turns) =
     (if \<not> flt now deadline then Inl (OSError (''port '' @ int_str port @ '' did not open''))
      else case exit_code of
          Some code \<Rightarrow> Inl (RuntimeError (''process exited with '' @ int_str code))
        | None \<Rightarrow> if accepts then Inr () else wait_for_port port deadline turns)"

section \<open>Counting lines\<close>

definition count_lines :: "string option \<Rightarrow> int" where
  \<comment> \<open>the lines of a binary file, the last one possibly without its end; no file has none\<close>
  "count_lines content =
     (case content of
        None \<Rightarrow> 0
      | Some s \<Rightarrow> int (count_list s newline) + (if s = [] \<or> last s = newline then 0 else 1))"

fun wait_for_lines :: "pyfloat \<Rightarrow> (pyfloat \<times> string option) list \<Rightarrow> string option \<Rightarrow> int \<Rightarrow> int" where
  \<comment> \<open>each turn: the clock and the file; then the file once the time is up\<close>
  "wait_for_lines deadline [] at_end expected = count_lines at_end"
| "wait_for_lines deadline ((now, content) # turns) at_end expected =
     (if \<not> flt now deadline then count_lines at_end
      else if expected \<le> count_lines content then count_lines content
      else wait_for_lines deadline turns at_end expected)"

section \<open>The results\<close>

record file_watch =
  fw_deadline :: pyfloat
  fw_turns :: "(pyfloat \<times> string option) list"
  fw_at_end :: "string option"

definition watched_lines :: "file_watch \<Rightarrow> int \<Rightarrow> int" where
  "watched_lines w expected = wait_for_lines (fw_deadline w) (fw_turns w) (fw_at_end w) expected"

record overhead_host =
  oh_processor :: string
  oh_cpuinfo :: "string option"
  oh_release :: string
  oh_python_version :: string
  oh_commit_output :: string    \<comment> \<open>of \<^verbatim>\<open>git rev-parse HEAD\<close>\<close>
  oh_pinned :: bool

definition host_cpu :: "overhead_host \<Rightarrow> string result" where
  "host_cpu h =
     (case oh_cpuinfo h of
        None \<Rightarrow> Inr (oh_processor h)
      | Some content \<Rightarrow>
          (case List.find (\<lambda>line. py_startswith line ''model name'') (py_splitlines content) of
             None \<Rightarrow> Inr (oh_processor h)
           | Some line \<Rightarrow>
               if CHR '':'' \<in> set line then Inr (py_strip (snd (snd (py_partition (CHR '':'') line))))
               else Inl (IndexError ''list index out of range'')))"

record overhead_machine =
  om_commit :: string
  om_cpu :: string
  om_kernel :: string
  om_python :: string

definition overhead_machine_of :: "overhead_host \<Rightarrow> overhead_machine result" where
  "overhead_machine_of h =
     bind_result (host_cpu h) (\<lambda>cpu.
       Inr \<lparr>om_commit = py_strip (oh_commit_output h), om_cpu = cpu, om_kernel = oh_release h,
            om_python = oh_python_version h\<rparr>)"

record overhead_results =
  os_conditions :: "overhead_condition list"
  os_gateway_requests :: int
  os_audit_events :: int
  os_trace_spans :: int
  os_limiter :: string
  os_pinned :: bool
  os_options :: overhead_options
  os_machine :: overhead_machine

definition overhead_benchmark ::
  "overhead_options \<Rightarrow> overhead_host \<Rightarrow> unit result \<Rightarrow> unit result \<Rightarrow>
     (int \<Rightarrow> int \<Rightarrow> string \<Rightarrow> drive_result result) \<Rightarrow> file_watch \<Rightarrow> file_watch \<Rightarrow> overhead_results result" where
  \<comment> \<open>\<open>backend_up\<close>, \<open>gateway_up\<close>: what waiting for the two ports gave\<close>
  "overhead_benchmark options h backend_up gateway_up drives audit_file trace_file =
     bind_result backend_up (\<lambda>_.
     bind_result gateway_up (\<lambda>_.
     let gateway_requests = gateway_requests_sent (ov_concurrency options) (ov_repetitions options)
           (ov_warmup options) (ov_requests options);
         audit_events = watched_lines audit_file gateway_requests;
         trace_spans = watched_lines trace_file gateway_requests
     in bind_result (run_overhead drives (ov_concurrency options) (ov_repetitions options) (ov_warmup options)
            (ov_requests options) audit_events trace_spans) (\<lambda>conditions.
        bind_result (overhead_machine_of h) (\<lambda>machine.
          Inr \<lparr>os_conditions = conditions, os_gateway_requests = gateway_requests, os_audit_events = audit_events,
               os_trace_spans = trace_spans, os_limiter = limiter_choice options, os_pinned = oh_pinned h,
               os_options = options, os_machine = machine\<rparr>))))"

section \<open>The report\<close>

fun capitalized :: "string \<Rightarrow> string" where
  \<comment> \<open>\<^verbatim>\<open>str.capitalize\<close> of ASCII\<close>
  "capitalized [] = []"
| "capitalized (c # s) =
     (let n = of_char c :: nat in if n \<in> {97..122} then char_of (n - 32) else c) # py_lower s"

definition OVERHEAD_INTRODUCTION :: "string list" where
  "OVERHEAD_INTRODUCTION =
     [''Added latency is gateway minus direct within a repetition. The table shows the median across repetitions and the range in brackets, in microseconds.'',
      [],
      ''| Concurrency | Direct p50 | Gateway p50 | Added p50 | Added p95 | Added p99 | Gateway req/s |'',
      ''|---:|---:|---:|---:|---:|---:|---:|'']"

definition overhead_opening :: "overhead_results \<Rightarrow> string list" where
  "overhead_opening r =
     (let m = os_machine r; options = os_options r in
      [''# Gateway overhead against a null backend'', [],
       ''Commit `'' @ take 7 (om_commit m) @ ''` on '' @ om_cpu m @ '', kernel '' @ om_kernel m @ '', Python '' @
         om_python m @ ''.'', [],
       capitalized (os_limiter r) @ '' limiter, HS256 JWT, 1 uvicorn worker, no TLS, loopback. '' @
         int_str (ov_repetitions options) @ '' paired repetitions of '' @ int_str (ov_requests options) @
         '' requests, each streaming '' @ nat_str (ov_tokens options) @ '' tokens.'', []])"

definition overhead_closing :: "overhead_results \<Rightarrow> string list" where
  "overhead_closing r =
     [[], ''All '' @ int_str (os_gateway_requests r) @
        '' gateway requests produced an audit event and a trace span, so the control path ran for every request.'', [],
      ''Above concurrency 1 the added latency includes queueing on one Python worker, so those rows show saturation, not per-request cost. This is not a production capacity figure.'',
      []]"

definition render_overhead_report :: "overhead_results \<Rightarrow> string result" where
  "render_overhead_report r =
     bind_result (map_result overhead_row (os_conditions r)) (\<lambda>rows.
       Inr (py_join [CHR 10] (overhead_opening r @ OVERHEAD_INTRODUCTION @ rows @ overhead_closing r)))"

definition overhead_output_name :: "string \<Rightarrow> overhead_options \<Rightarrow> string" where
  "overhead_output_name stamp options = stamp @ ''-null-backend-'' @ ov_label options"

section \<open>The gateway that is measured\<close>

text \<open>Its settings leave room for every request, and its limiters are the ones the report names.\<close>

lemma overhead_policies:
  "MODEL_POLICIES (overhead_environment base options secret audit_path trace_path suffix backend_port) =
     Inr (model_policies_of (10 ^ 9) (10 ^ 12))"
proof -
  have "int_or_value_error ''1000000000'' = Inr (10 ^ 9)" "int_or_value_error ''1000000000000'' = Inr (10 ^ 12)"
    by code_simp+
  then show ?thesis
    by (simp add: MODEL_POLICIES_def positive_env_int_def getenv_def overhead_environment_def Let_def)
qed

lemma overhead_identity:
  "auth_settings_from_env (overhead_environment base options secret audit_path trace_path suffix backend_port) =
     auth_settings_from_env (gateway_environment base secret)"
  by (simp add: auth_settings_from_env_def getenv_def overhead_environment_def gateway_environment_def Let_def)

theorem measured_limiters:
  assumes "build_limiters_from_env (overhead_environment base options secret audit_path trace_path suffix backend_port)
      redis_installed connect = Inr limiters"
  shows "limiter_backend_name limiters = limiter_choice options"
proof -
  have "py_lower (py_strip (limiter_choice options)) = limiter_choice options"
    by (simp add: limiter_choice_def) code_simp
  with assms show ?thesis
    by (auto simp: build_limiters_from_env_def getenv_def overhead_environment_def limiter_backend_name_def
        limiter_choice_def Let_def split: if_splits option.splits)
qed

section \<open>What the reported counts are counts of\<close>

lemma count_lines_records:
  assumes "\<forall>l \<in> set ls. newline \<notin> set l"
  shows "count_lines (Some (concat (map (\<lambda>l. l @ [newline]) ls))) = int (length ls)"
proof -
  let ?text = "\<lambda>ls. concat (map (\<lambda>l. l @ [newline]) ls)"
  have "count_list (?text ls) newline = length ls"
    using assms by (induction ls) (simp_all add: count_list_0_iff)
  moreover have "?text ls = [] \<or> last (?text ls) = newline"
    by (cases ls rule: rev_cases) simp_all
  ultimately show ?thesis by (simp add: count_lines_def)
qed

definition holds_events :: "(pyval \<Rightarrow> string) \<Rightarrow> string option \<Rightarrow> (string \<times> audit_event) list \<Rightarrow> bool" where
  \<comment> \<open>the audit log after these events; it is created by the first\<close>
  "holds_events dumps content events \<longleftrightarrow>
     content = Some (audit_write_all dumps events []) \<or> content = None \<and> events = []"

definition holds_spans ::
  "export_world \<Rightarrow> string \<Rightarrow> string \<Rightarrow> string option \<Rightarrow> (request_trace \<times> span_args) list \<Rightarrow> bool" where
  "holds_spans w path service content spans \<longleftrightarrow>
     content = Some (span_file w path service spans) \<or> content = None \<and> spans = []"

lemma count_events: "one_line dumps \<Longrightarrow> holds_events dumps content events \<Longrightarrow> count_lines content = int (length events)"
  using count_lines_records [of "map (\<lambda>(ts, e). dumps (audit_payload ts e)) events"]
  by (auto simp: holds_events_def one_line_def audit_write_all_append split_def comp_def count_lines_def)

lemma count_spans:
  assumes "one_line (ew_json_dumps w)" and "\<forall>line. ew_append w path line = Inr ()"
    and "holds_spans w path service content spans"
  shows "count_lines content = int (length spans)"
  using assms(1,3) span_file_lines [OF assms(2)] count_lines_records [of "map (ew_json_dumps w)
    (map (\<lambda>(trace, a). VDict (build_span_record trace service a)) spans)"]
  by (auto simp: holds_spans_def one_line_def newline_def count_lines_def)

definition file_readings :: "file_watch \<Rightarrow> string option list" where
  "file_readings w = fw_at_end w # map snd (fw_turns w)"

lemma watched_lines_reading: "\<exists>content \<in> set (file_readings w). watched_lines w expected = count_lines content"
proof -
  have "\<exists>content \<in> set (at_end # map snd turns). wait_for_lines deadline turns at_end expected = count_lines content"
    for deadline turns at_end
    by (induction deadline turns at_end expected rule: wait_for_lines.induct) auto
  then show ?thesis unfolding watched_lines_def file_readings_def .
qed

lemma gateway_requests_sent_eq:
  "0 \<le> repetitions \<Longrightarrow>
     gateway_requests_sent concurrency repetitions warmup requests = int (length concurrency) * repetitions * (warmup + requests)"
  unfolding gateway_requests_sent_def by (induction concurrency) (simp_all add: sum_list_triv algebra_simps)


end
