(* ===== verification/BenchRunWitnesses.thy ===== *)
theory BenchRunWitnesses
  imports BenchSession BenchSampler ChartText BenchReport OverheadSession
begin

text \<open>
  The properties of a benchmark run, of its resource sampler, of its charts and
  of the overhead benchmark that have a
  hypothesis, each at a concrete input where its hypotheses hold.
\<close>

section \<open>A run\<close>

definition quiet_host :: host where
  \<comment> \<open>no command answers, nothing is installed\<close>
  "quiet_host = \<lparr>ho_captured_at = ''2026-08-03T21:20:59Z'', ho_platform = ''Linux-6.6'', ho_system = ''Linux'',
     ho_release = ''6.6'', ho_version = ''#1'', ho_python_version = ''3.12.3'', ho_python_implementation = ''CPython'',
     ho_executable = ''/usr/bin/python3'', ho_processor = ''x86_64'', ho_cpu_count = Some 8, ho_cpuinfo = None,
     ho_memory = None, ho_package = Map.empty, ho_run_text = (\<lambda>command. None), ho_json_loads = (\<lambda>text. None),
     ho_environ = Map.empty, ho_redis = (\<lambda>url. RedisRaised ''ConnectionError'')\<rparr>"

definition failed_run :: "condition \<Rightarrow> condition_run" where
  "failed_run c = \<lparr>cr_started_at = ''2026-08-03T21:20:59Z'', cr_return_code = 1, cr_timed_out = False,
     cr_stdout = [], cr_stderr = ''refused'', cr_result = None, cr_resource_samples = [],
     cr_before = None, cr_after = None\<rparr>"

definition failing_surroundings :: surroundings where
  \<comment> \<open>both endpoints answer, every client fails\<close>
  "failing_surroundings = \<lparr>su_host = quiet_host, su_probe_json = (\<lambda>text. Inl ''JSONDecodeError''),
     su_replies = (\<lambda>url. ProbeAnswered 200 []), su_runs = failed_run\<rparr>"

definition patient_config :: "string \<Rightarrow> row" where
  "patient_config secret =
     [(''schema_version'', VInt 1), (''vllm_command'', VList [VStr ''vllm'']),
      (''paths'', VDict
         [(''direct'', VDict [(''base_url'', VStr ''http://127.0.0.1:8001'')]),
          (''gateway'', VDict [(''base_url'', VStr ''http://127.0.0.1:8000''),
             (''headers'', VDict [(''Authorization'', VStr secret)])])]),
      (''model'', VDict [(''id'', VStr ''m''), (''served_name'', VStr ''benchmark-echo'')]),
      (''workloads'', VList [a_workload ''w'']), (''concurrency'', VList [VInt 1]),
      (''repetitions'', VInt 1), (''seed'', VInt 7), (''continue_on_error'', VBool True)]"

abbreviation patient_run :: "string \<Rightarrow> run_output list \<times> (row \<times> row) result" where
  "patient_run secret \<equiv> run_measurements (\<lambda>v. []) (patient_config secret) ''up'' failing_surroundings"

lemma patient_run_ends: "\<exists>outcome. snd (patient_run ''Bearer a'') = Inr outcome"
proof -
  let ?config = "patient_config ''Bearer a''"
  have "\<not> isl (sanitize_config ?config)" by code_simp
  then obtain resolved where before: "sanitize_config ?config = Inr resolved"
    by (cases "sanitize_config ?config") auto
  have "\<not> isl (capture_environment quiet_host ?config)" by code_simp
  then obtain environment where captured: "capture_environment quiet_host ?config = Inr environment"
    by (cases "capture_environment quiet_host ?config") auto
  have "probe_url (\<lambda>v. []) ?config (''direct'', ''/v1/models'') = Inr ''http://127.0.0.1:8001/v1/models''"
    "probe_url (\<lambda>v. []) ?config (''gateway'', ''/health'') = Inr ''http://127.0.0.1:8000/health''"
    by code_simp+
  then obtain checks where checks: "probe_endpoints (\<lambda>v. []) (\<lambda>text. Inl ''JSONDecodeError'')
      (\<lambda>url. ProbeAnswered 200 []) ?config = Inr checks" "unavailable_endpoints (reachable_checks checks) = Inr ()"
    by (simp add: probe_endpoints_def ENDPOINTS_def probe_check_def Let_def reachable_checks_def row_get_def
        dget_default_def unavailable_endpoints_def check_def)
  have "snd (run_schedule (\<lambda>v. []) ?config ''up'' failed_run) = Inr ()" by code_simp
  with before captured checks show ?thesis
    by (simp add: run_measurements_def run_conditions_of_def failing_surroundings_def split_beta Let_def)
qed


lemma secrets_sanitized:
  "sanitize_config (patient_config ''Bearer a'') = Inr (patient_config ''<redacted>'')"
  "sanitize_config (patient_config ''Bearer b'') = Inr (patient_config ''<redacted>'')"
  by code_simp+


section \<open>A sampler that is stopped\<close>

definition idle_process :: host_reading where
  "idle_process = \<lparr>hr_cpu_percent = Fin 0, hr_memory_used = 1024, hr_memory_percent = Fin 1,
     hr_attach = (\<lambda>pid. True), hr_process = (\<lambda>name. Reading (VFloat (Fin 0)) 512)\<rparr>"

definition first_sample :: row where
  "first_sample = snd (take_sample [(''gateway'', 41)] ''2026-08-03T21:21:00Z'' [] (Some idle_process) [''gateway''])"

definition stopping :: "row list \<Rightarrow> sampler_pc \<Rightarrow> sampler" where
  "stopping rows pc = \<lparr>sp_monitored = [(''gateway'', 41)], sp_opened = [''gateway''], sp_samples = rows,
     sp_stopped = True, sp_pc = pc, sp_returned = False\<rparr>"


section \<open>A chart\<close>

definition two_lines :: "string \<Rightarrow> series list" where
  "two_lines label = [\<lparr>se_label = label, se_points = [(1, Some (Fin 12)), (4, Some (Fin 30))]\<rparr>,
     \<lparr>se_label = ''gateway'', se_points = [(1, Some (Fin 14)), (4, None)]\<rparr>]"

lemma two_lines_ok: "points_ok (two_lines label)"
proof -
  have "sample_ok (Fin 12)" "sample_ok (Fin 30)" "sample_ok (Fin 14)" by code_simp+
  then show ?thesis by (simp add: points_ok_def two_lines_def drawn_points_def map_filter_simps)
qed

lemma two_lines_frame:
  obtains frame where "chart_frame_of True (two_lines label) = Some frame" "cf_x_values frame = [1, 4]"
  using that by (simp add: chart_frame_of_def Let_def two_lines_def drawn_points_def map_filter_simps)

lemma chart_points_inside_witness:
  "\<exists>frame text points. chart_frame_of True (two_lines ''direct'') = Some frame \<and>
     svg_chart ''Latency'' ''ms'' (two_lines ''direct'') True = Inr text \<and>
     plotted_points frame (hd (two_lines ''direct'')) = Inr points \<and> length points = 2 \<and> list_all inside_plot points"
proof -
  obtain frame where f: "chart_frame_of True (two_lines ''direct'') = Some frame" "cf_x_values frame = [1, 4]"
    by (rule two_lines_frame)
  have n: "int (length (cf_x_values frame)) \<le> 2 ^ 40" by (simp add: f(2))
  have "hd (two_lines ''direct'') \<in> set (two_lines ''direct'')"
    "length (drawn_points (hd (two_lines ''direct''))) = 2"
    by (simp_all add: two_lines_def drawn_points_def map_filter_simps)
  with f(1) chart_points_inside [OF two_lines_ok f(1) n, of "''Latency''" "''ms''"] show ?thesis by force
qed

lemma labels_add_no_markup_witness:
  "\<exists>text text'. svg_chart ''A'' ''ms'' (two_lines ''<b>'') True = Inr text \<and>
     svg_chart ''<i>'' ''\"'' (two_lines ''direct'') True = Inr text' \<and> markup text' = markup text"
proof -
  have "int (length (cf_x_values frame)) \<le> 2 ^ 40"
    if "chart_frame_of True (two_lines ''<b>'') = Some frame" for frame
    using that two_lines_frame [of "''<b>''"] by force
  then obtain picture where drawn: "svg_chart ''A'' ''ms'' (two_lines ''<b>'') True = Inr picture"
    using svg_chart_total [OF two_lines_ok] by blast
  have "map se_points (two_lines ''<b>'') = map se_points (two_lines ''direct'')" by (simp add: two_lines_def)
  from labels_add_no_markup [OF this drawn] drawn show ?thesis by blast
qed

section \<open>An overhead benchmark of two requests\<close>

definition measured_event :: audit_event where
  "measured_event = \<lparr>ae_principal_id = ''analyst-1'', ae_model_id = ''benchmark-echo'', ae_allowed = True,
     ae_reason = None, ae_decision_reasons = [], ae_latency_ms = None, ae_auth_method = ''jwt'',
     ae_auth_subject = Some ''analyst-1'', ae_auth_issuer = Some ISSUER, ae_trace_id = ''a'', ae_span_id = ''b'',
     ae_parent_span_id = None, ae_estimated_input_tokens = Some 64, ae_token_budget_limit = Some (10 ^ 12)\<rparr>"

definition measured_span :: "request_trace \<times> span_args" where
  "measured_span =
     (\<lparr>tr_trace_id = ''a'', tr_span_id = ''b'', tr_parent_span_id = None, tr_sampled = False, tr_source = ''generated''\<rparr>,
      \<lparr>sa_model_id = ''benchmark-echo'', sa_outcome = ''allowed'', sa_auth_method = ''jwt'', sa_decision_reasons = [],
       sa_latency_ms = None, sa_started_at = 1, sa_ended_at = 2, sa_extra_attributes = [],
       sa_route = ''/v1/completions''\<rparr>)"

definition brief_dumps :: "pyval \<Rightarrow> string" where
  "brief_dumps v = ''{}''"

definition brief_world :: export_world where
  "brief_world = \<lparr>ew_json_dumps = brief_dumps, ew_repr = brief_dumps, ew_append = (\<lambda>path line. Inr ()),
     ew_post = (\<lambda>url body timeout. Inr ())\<rparr>"

definition settled :: "string \<Rightarrow> file_watch" where
  "settled content = \<lparr>fw_deadline = Fin 10, fw_turns = [(Fin 0, Some content)], fw_at_end = Some content\<rparr>"

definition two_requests :: overhead_options where
  "two_requests = default_options\<lparr>ov_requests := 1, ov_warmup := 1, ov_repetitions := 1, ov_concurrency := [1]\<rparr>"

definition bare_machine :: overhead_host where
  "bare_machine = \<lparr>oh_processor = ''x86_64'', oh_cpuinfo = None, oh_release = ''6.6'', oh_python_version = ''3.12.3'',
     oh_commit_output = ''0123456789'', oh_pinned = False\<rparr>"

definition steady_drive :: "int \<Rightarrow> int \<Rightarrow> string \<Rightarrow> drive_result result" where
  "steady_drive concurrency repetition path = Inr ([Fin 1], Fin 1, 0)"


end
