(* ===== verification/CommandLine.thy ===== *)
theory CommandLine
  imports BackendProbe Telemetry TraceExporter
begin

text \<open>
  The command lines of \<^verbatim>\<open>backend_probe.py\<close>, \<^verbatim>\<open>telemetry_snapshot.py\<close> and \<^verbatim>\<open>otlp_export.py\<close> after
  their arguments have been parsed: the checks on the options, what is rendered, and the exit code
  that a release pipeline reads. Files and HTTP answers are parameters; \<open>dumps\<close> renders a report.
\<close>

datatype tool_end =
    Usage string             \<comment> \<open>a message about the arguments\<close>
  | Raised py_error
  | Exits int string         \<comment> \<open>the exit code and the rendered report\<close>

definition gate_exit_code :: "(string, pyval) dict \<Rightarrow> bool \<Rightarrow> int" where
  "gate_exit_code report fail_on_hold =
     (if dget report ''status'' = Some (VStr ''pass'') \<or> \<not> fail_on_hold then 0 else 2)"

definition rendered_end :: "((string, pyval) dict \<Rightarrow> string) \<Rightarrow> bool \<Rightarrow> (string, pyval) dict result \<Rightarrow> tool_end" where
  "rendered_end dumps fail_on_hold r =
     (case r of
        Inl e \<Rightarrow> Raised e
      | Inr report \<Rightarrow> Exits (gate_exit_code report fail_on_hold) (dumps report @ [CHR 10]))"

section \<open>The backend probe\<close>

record probe_options =
  po_endpoint :: string
  po_model :: string
  po_inputs :: "string list"
  po_requests :: int
  po_timeout_ms :: pyfloat
  po_fail_on_hold :: bool

definition DEFAULT_INPUT :: string where
  "DEFAULT_INPUT = ''Return a short readiness response.''"

definition probe_inputs :: "probe_options \<Rightarrow> string list" where
  "probe_inputs options =
     (if po_inputs options = [] then replicate (nat (po_requests options)) DEFAULT_INPUT else po_inputs options)"

definition probe_main ::
  "'w request_fun \<Rightarrow> ((string, pyval) dict \<Rightarrow> string) \<Rightarrow> environ \<Rightarrow> probe_options \<Rightarrow> 'w \<Rightarrow> tool_end \<times> 'w" where
  "probe_main request_fn dumps env options w =
     (if po_endpoint options = []
      then (Usage ''--endpoint or INFERENCE_BACKEND_COMPLETIONS_URL is required'', w)
      else if po_requests options < 1 \<or> MAX_REQUESTS < po_requests options
      then (Usage (''--requests must be between 1 and '' @ int_str MAX_REQUESTS), w)
      else
        case fdiv (po_timeout_ms options) (Fin 1000) of
          Inl e \<Rightarrow> (Raised e, w)
        | Inr timeout \<Rightarrow>
            (let (r, w') = run_probe request_fn (po_model options) (probe_inputs options) (po_endpoint options)
                   (env ''INFERENCE_BACKEND_API_KEY'') timeout w
             in (rendered_end dumps (po_fail_on_hold options) r, w')))"

text \<open>With \<^verbatim>\<open>--fail-on-hold\<close> the probe exits with 0 only when every request it made succeeded.\<close>

theorem probe_gate:
  assumes "probe_main request_fn dumps env options w = (Exits 0 shown, w')" and "po_fail_on_hold options"
  shows "\<exists>report n. shown = dumps report @ [CHR 10] \<and> 1 \<le> n \<and> n \<le> MAX_REQUESTS \<and>
    n = int (length (probe_inputs options)) \<and> dget report ''attempted_requests'' = Some (VInt n) \<and>
    dget report ''successful_requests'' = Some (VInt n) \<and> dget report ''failed_requests'' = Some (VInt 0)"
proof -
  obtain timeout report where
    run: "run_probe request_fn (po_model options) (probe_inputs options) (po_endpoint options)
        (env ''INFERENCE_BACKEND_API_KEY'') timeout w = (Inr report, w')"
    and shown: "shown = dumps report @ [CHR 10]" and "gate_exit_code report True = 0"
    using assms by (auto simp: probe_main_def rendered_end_def split: if_splits sum.splits prod.splits)
  then have "dget report ''status'' = Some (VStr ''pass'')" by (simp add: gate_exit_code_def split: if_splits)
  with run_probe_accounts [OF run] shown show ?thesis by fastforce
qed

section \<open>The telemetry snapshot\<close>

record snapshot_options =
  so_metrics_url :: string
  so_metrics_file :: "string option"
  so_probe_report :: "string option"
  so_timeout_ms :: pyfloat
  so_fail_on_hold :: bool

definition probe_argument :: "pyval \<Rightarrow> (string, pyval) dict option result" where
  \<comment> \<open>the probe report as parsed JSON; anything but an object has no \<^verbatim>\<open>get\<close>\<close>
  "probe_argument v =
     (case v of VNone \<Rightarrow> Inr None | VDict d \<Rightarrow> Inr (Some d) | _ \<Rightarrow> Inl (TypeError ''object has no attribute get''))"

lemma probe_argument_cases:
  "probe_argument v = Inr probe \<Longrightarrow> v = VNone \<and> probe = None \<or> (\<exists>d. v = VDict d \<and> probe = Some d)"
  by (cases v) (auto simp: probe_argument_def)

definition snapshot_main ::
  "(string \<Rightarrow> pyfloat \<Rightarrow> string result) \<Rightarrow> (string \<Rightarrow> string result) \<Rightarrow> (string \<Rightarrow> pyval result) \<Rightarrow>
     ((string, pyval) dict \<Rightarrow> string) \<Rightarrow> snapshot_options \<Rightarrow> tool_end" where
  "snapshot_main fetch read_text json_loads dumps options =
     (if (so_metrics_url options \<noteq> []) = (so_metrics_file options \<noteq> None)
      then Usage ''provide exactly one of --metrics-url or --metrics-file''
      else if fle (so_timeout_ms options) (Fin 0)
      then Usage ''--timeout-ms must be positive''
      else
        rendered_end dumps (so_fail_on_hold options)
          (bind_result
             (case so_metrics_file options of
                Some path \<Rightarrow> read_text path
              | None \<Rightarrow>
                  bind_result (fdiv (so_timeout_ms options) (Fin 1000)) (fetch (so_metrics_url options))) (\<lambda>metrics_text.
           bind_result
             (case so_probe_report options of
                None \<Rightarrow> Inr None
              | Some path \<Rightarrow> bind_result (bind_result (read_text path) json_loads) probe_argument) (\<lambda>probe_report.
             build_snapshot metrics_text probe_report))))"

text \<open>
  With \<^verbatim>\<open>--fail-on-hold\<close> the snapshot exits with 0 only when the metrics show requests and
  latencies and the probe report, if one was given, passes.
\<close>

theorem snapshot_gate:
  assumes "snapshot_main fetch read_text json_loads dumps options = Exits 0 shown" and "so_fail_on_hold options"
  shows "\<exists>metrics_text samples t. parse_prometheus metrics_text = Inr samples \<and>
    aggregate_samples samples empty_telemetry = Inr t \<and> 0 < counter_sum (tl_requests t) \<and> tl_latency t \<noteq> [] \<and>
    (\<forall>path. so_probe_report options = Some path \<longrightarrow>
       (\<exists>content v. read_text path = Inr content \<and> json_loads content = Inr v \<and>
          (v = VNone \<or> (\<exists>d. v = VDict d \<and> dget d ''status'' = Some (VStr ''pass'')))))"
proof -
  obtain metrics_text probe report where
    probe: "(case so_probe_report options of
        None \<Rightarrow> Inr None
      | Some path \<Rightarrow> bind_result (bind_result (read_text path) json_loads) probe_argument) = Inr probe"
    and snapshot: "build_snapshot metrics_text probe = Inr report" and pass: "gate_exit_code report True = 0"
    using assms by (auto simp: snapshot_main_def rendered_end_def split: if_splits sum.splits)
  have "dget report ''status'' = Some (VStr ''pass'')" using pass by (simp add: gate_exit_code_def split: if_splits)
  with snapshot_pass_iff [OF snapshot] have t: "\<exists>samples t. parse_prometheus metrics_text = Inr samples \<and>
      aggregate_samples samples empty_telemetry = Inr t \<and> 0 < counter_sum (tl_requests t) \<and> tl_latency t \<noteq> [] \<and>
      probe_passes probe"
    by auto
  have "\<exists>content v. read_text path = Inr content \<and> json_loads content = Inr v \<and>
      (v = VNone \<or> (\<exists>d. v = VDict d \<and> dget d ''status'' = Some (VStr ''pass'')))"
    if "so_probe_report options = Some path" "probe_passes probe" for path
    using probe that probe_argument_cases by (fastforce simp: probe_passes_def)
  with t show ?thesis by metis
qed

section \<open>Exporting a trace file\<close>

record export_options =
  xo_input :: string
  xo_endpoint :: "string option"
  xo_send :: bool
  xo_timeout_seconds :: pyfloat

definition span_dict :: "pyval \<Rightarrow> (string, pyval) dict result" where
  "span_dict v = (case v of VDict d \<Rightarrow> Inr d | _ \<Rightarrow> Inl (TypeError ''span record is not an object''))"

definition otlp_payload ::
  "(pyval \<Rightarrow> string) \<Rightarrow> (pyval \<Rightarrow> string) \<Rightarrow> (string \<Rightarrow> pyval result) \<Rightarrow> string \<Rightarrow> pyval result" where
  "otlp_payload repr dumps json_loads content =
     bind_result (load_jsonl_span_records json_loads content) (\<lambda>records.
     bind_result (map_result span_dict records) (build_otlp_traces_payload repr dumps))"

definition export_main ::
  "(string \<Rightarrow> pyval \<Rightarrow> pyfloat \<Rightarrow> unit result) \<Rightarrow> (string \<Rightarrow> string result) \<Rightarrow> (string \<Rightarrow> pyval result) \<Rightarrow>
     (pyval \<Rightarrow> string) \<Rightarrow> (pyval \<Rightarrow> string) \<Rightarrow> export_options \<Rightarrow> pyval option \<times> tool_end" where
  \<comment> \<open>the payload that was written, and how the command ends\<close>
  "export_main post read_text json_loads repr dumps options =
     (case bind_result (read_text (xo_input options)) (otlp_payload repr dumps json_loads) of
        Inl e \<Rightarrow> (None, Raised e)
      | Inr payload \<Rightarrow>
          (Some payload,
           if \<not> xo_send options then Exits 0 []
           else if \<not> truthy_str (xo_endpoint options) then Usage ''--send requires --endpoint''
           else case post (the (xo_endpoint options)) payload (xo_timeout_seconds options) of
                  Inl e \<Rightarrow> Raised e
                | Inr _ \<Rightarrow> Exits 0 []))"

text \<open>
  The trace file of the JSON-lines exporter can be exported: what is written, and posted when
  asked for, is the payload of the span records in their order.
\<close>

theorem export_spans:
  assumes "\<forall>line. ew_append w path line = Inr ()"
    and "\<forall>(trace, a) \<in> set spans.
      json_line_ok json_loads (ew_json_dumps w) (VDict (build_span_record trace service a))"
    and "read_text (xo_input options) = Inr (span_file w path service spans)"
    and "build_otlp_traces_payload repr dumps (map (\<lambda>(trace, a). build_span_record trace service a) spans) = Inr payload"
  shows "fst (export_main post read_text json_loads repr dumps options) = Some payload"
proof -
  have lines: "load_jsonl_span_records json_loads (span_file w path service spans) =
      Inr (map (\<lambda>(trace, a). VDict (build_span_record trace service a)) spans)"
    using span_records_loaded [OF assms(1,2)] .
  have "map_result span_dict (map (\<lambda>(trace, a). VDict (build_span_record trace service a)) spans) =
      Inr (map (\<lambda>(trace, a). build_span_record trace service a) spans)"
    by (induction spans) (auto simp: span_dict_def)
  with lines assms(3,4) show ?thesis by (simp add: export_main_def otlp_payload_def)
qed

end
