(* ===== verification/Spec2Isabelle.thy ===== *)
theory Spec2Isabelle
  imports Witnesses ReportWitnesses TelemetryWitnesses BenchWitnesses BenchRunWitnesses CommandLine
begin

text \<open>
  A model of the secure GPU inference gateway, an HTTP service that decides who may run
  inference, meters them, forwards the request to a backend and leaves an audit trail.

  \<^bold>\<open>The program.\<close> \<^verbatim>\<open>gateway/app.py\<close> holds the handlers. A request is given a trace
  (\<^verbatim>\<open>trace_context.py\<close>) and a principal (\<^verbatim>\<open>identity.py\<close>), the policy of its model decides
  (\<^verbatim>\<open>policy.py\<close>, \<^verbatim>\<open>registry.py\<close>), the request limiter and the token limiter are asked in that
  order (\<^verbatim>\<open>rate_limit.py\<close>), the backend is called (\<^verbatim>\<open>backend_adapter.py\<close>), and every outcome is
  recorded in the metrics (\<^verbatim>\<open>metrics.py\<close>), the audit log (\<^verbatim>\<open>audit.py\<close>) and the trace exporter
  (\<^verbatim>\<open>trace_exporter.py\<close>). The report builders run offline: \<^verbatim>\<open>capacity_plan.py\<close>,
  \<^verbatim>\<open>workload_replay.py\<close> and \<^verbatim>\<open>distributed_limiter.py\<close> write reports that
  \<^verbatim>\<open>deployment_readiness.py\<close> and \<^verbatim>\<open>resilience_drill.py\<close> read; \<^verbatim>\<open>backend_probe.py\<close> measures a
  backend and \<^verbatim>\<open>telemetry_snapshot.py\<close> condenses the metrics text. The benchmark tools run beside
  a gateway: \<^verbatim>\<open>bench/run.py\<close> drives a client over direct and gateway paths in turn and records
  rows, \<^verbatim>\<open>bench/environment.py\<close> records the host and samples resources, \<^verbatim>\<open>bench/analyze.py\<close> turns
  the rows into a summary, charts and a report, \<^verbatim>\<open>bench/overhead.py\<close> measures the gateway against a
  backend that does no work, \<^verbatim>\<open>bench/redis_replica_check.py\<close> and \<^verbatim>\<open>scripts/kubernetes_smoke.py\<close>
  check live deployments.

  \<^bold>\<open>Language layer.\<close> \<open>Prelude\<close>: exceptions as the type \<open>py_error\<close>, results \<open>py_error + 'a\<close>,
  dictionaries as association lists in insertion order. \<open>PyStr\<close>: string methods on code
  points below 256. \<open>PyNum\<close>: unbounded ints, binary64 floats as rationals with one rounding
  function \<open>round64\<close>, the infinities and NaN. \<open>Models\<close>: the records of \<^verbatim>\<open>models.py\<close>, the
  registry, and \<open>pyval\<close>, the values of JSON.

  \<^bold>\<open>Gateway.\<close> \<open>Policy\<close>, \<open>RateLimit\<close>, \<open>RedisLimit\<close>, \<open>AuditLog\<close>, \<open>Metrics\<close>, \<open>Identity\<close>,
  \<open>Backend\<close>, \<open>TraceContext\<close> and \<open>TraceExporter\<close> each hold the state, operations and lemmas of
  the module they are named after. \<open>Gateway\<close> composes them: its record \<open>gateway\<close> is the module
  state of \<^verbatim>\<open>app.py\<close> together with what left the process (files, posts, backend calls), and a
  handler is a function from it to a response or an exception and the new state. \<open>GatewayWp\<close>
  gives one weakest-precondition rule per building block, \<open>Admission\<close> proves the accounting and
  the refinement of the abstract verdict \<open>admission_verdict\<close>, \<open>CompletionStream\<close> models the
  streamed reply as an inductive step relation, and \<open>MetricKeys\<close> bounds the label sets.

  \<^bold>\<open>Reports.\<close> \<open>Report\<close> states the contract of a release report; \<open>CapacityPlan\<close>,
  \<open>Percentile\<close>, \<open>WorkloadReplay\<close>, \<open>LimiterPlan\<close>, \<open>Deployment\<close>, \<open>Resilience\<close>, \<open>BackendProbe\<close>,
  \<open>Telemetry\<close> and \<open>TelemetryRoundtrip\<close> model the builders and relate them to each other and to
  the gateway.

  \<^bold>\<open>Benchmark run.\<close> \<open>BenchStats\<close> (statistics as Python computes them), \<open>BenchConfig\<close>,
  \<open>BenchSchedule\<close> and \<open>BenchCommand\<close> (checks, schedule, identifiers, client command, redaction),
  \<open>BenchMetrics\<close> (the metrics text and limiter latencies), \<open>BenchRun\<close> and \<open>BenchAccounting\<close> (the
  rows of a condition and of the whole schedule), \<open>BenchResources\<close>, \<open>BenchEnvironment\<close> and
  \<open>BenchSampler\<close> (what is recorded about the host, and the sampling thread as a step relation), and
  \<open>BenchSession\<close>, the run from the configuration to the report: one recorded row per scheduled
  condition, and outputs that do not depend on a secret header.

  \<^bold>\<open>Benchmark analysis.\<close> \<open>Interpolation\<close> and \<open>BenchDistribution\<close> (percentiles are ordered in
  binary64), \<open>BenchGroups\<close> and \<open>BenchCompare\<close> (the analysis itself), \<open>BenchEvidence\<close> (a supported
  headline rests on the rows; groups partition the samples), \<open>BenchCharts\<close>, \<open>ChartLayout\<close>,
  \<open>ChartText\<close> (every point lies inside the plot, no label adds markup) and \<open>BenchReport\<close>.

  \<^bold>\<open>Overhead benchmark and deployment checks.\<close> \<open>BenchOverhead\<close>, \<open>BenchFraming\<close>,
  \<open>BenchControlPath\<close> and \<open>OverheadSession\<close>: the client as a step relation, requests and replies as
  bytes, the token that the gateway of \<open>Identity\<close> accepts, and results that are only returned when
  the files of \<open>AuditLog\<close> and \<open>TraceExporter\<close> hold one record per request. \<open>BenchReplicas\<close> runs
  the replica check against the Redis limiter of \<open>RedisLimit\<close>, with the store of \<open>RedisStore\<close>;
  \<open>KubernetesSmoke\<close> and \<open>KubernetesContract\<close> hold the runtime contract of the live objects.

  \<^bold>\<open>Interfaces.\<close> The locale \<open>budget_limiter\<close> (\<open>RateLimit\<close>) is what a handler relies on in a
  limiter; both in-memory limiters are interpretations. The locale \<open>release_report\<close>
  (\<open>Report\<close>) is what a reader of a report relies on; the workload, limiter, deployment and
  resilience reports are interpretations. The locale \<open>step_invariant\<close>
  (\<open>StepInvariant\<close>) is what reachability arguments rely on in a step relation; the benchmark client
  and the resource sampler are interpretations.

  \<^bold>\<open>Parameters.\<close> HMAC-SHA256, SHA-256, \<^verbatim>\<open>json.dumps\<close> and \<^verbatim>\<open>json.loads\<close>, the random generator,
  clocks, httpx, urllib, Redis, \<^verbatim>\<open>psutil\<close>, the output of commands, the results of the benchmark
  client and the file system are arguments of the definitions that use them. Where a statement needs a law of one of them, the law is a named hypothesis, and a
  witness shows that it can hold.

  \<^bold>\<open>Loops and bounds.\<close> No definition needs fuel: loops run over lists or shrink a string or a
  number. Statements that depend on float rounding carry the bound under which a count is
  exactly a float (\<open>2 ^ 53\<close> or less). Those about percentiles and charts hold for samples up to
  \<open>2 ^ 50\<close> in size, so that no intermediate result overflows. \<^verbatim>\<open>sum\<close> and \<^verbatim>\<open>statistics\<close> are those of
  CPython 3.12: compensated sums, exact means and variances rounded once.

  \<^bold>\<open>Witnesses.\<close> \<open>Scenario\<close> is a concrete gateway; \<open>Witnesses\<close>, \<open>ReportWitnesses\<close>,
  \<open>TelemetryWitnesses\<close>, \<open>BenchWitnesses\<close> and \<open>BenchRunWitnesses\<close> apply the properties to concrete
  inputs.

  \<^bold>\<open>Not modelled.\<close> FastAPI's routing and pydantic's coercions (the validated request is the
  input), thread scheduling apart from the interleaving of the unsynchronised in-memory limiter
  and the sampling thread, argument parsing, and the \<^verbatim>\<open>main\<close> functions that only write a
  report; those that decide an exit code or post something are in \<open>CommandLine\<close>. Of the benchmark tools:
  starting, pinning and killing processes, choosing ports, directories, and the calls of
  \<^verbatim>\<open>kubectl\<close>, HTTP clients and thread pools, whose answers are parameters. The floats of the model
  have one zero; where a report shows the sign of Python's negative zero the model takes it from
  the value before rounding (\<open>change_text\<close>) or shows none. The rows of an analysis have the types
  that \<^verbatim>\<open>run.py\<close> writes, and the analysis reads back what was appended, without the detour over
  the JSON of the files. A warm-up of the overhead benchmark leaves no trace but its requests in
  the counts.
\<close>

end
